(* ===== verification/Prelude.thy ===== *)
theory Prelude
  imports Complex_Main "HOL-Library.Word" "HOL-Library.Monad_Syntax"
begin

text \<open>
  What every component shares: the return codes of \<open>misc/globals.h\<close>, C's 32-bit
  signed arithmetic as a checked operation (\<open>None\<close> is the undefined behaviour of an
  overflow or of an out-of-range conversion), the C string functions the code calls
  (\<open>strcmp\<close>, \<open>strncmp\<close>, \<open>atoi\<close>, decimal output of \<open>sprintf\<close>), and the named theorem
  collections that the component proofs extend.
\<close>

section \<open>Collections\<close>

named_theorems cint_defs \<open>unfolding of the checked int operations\<close>
named_theorems frame_simps \<open>what an operation leaves unchanged\<close>
named_theorems inv_intros \<open>preservation of the component invariants\<close>

section \<open>Return codes\<close>

abbreviation (input) RE_SUCCESS :: int where "RE_SUCCESS \<equiv> 0"
abbreviation (input) RE_ERROR :: int where "RE_ERROR \<equiv> 1"
abbreviation (input) RE_ERROR_N :: int where "RE_ERROR_N \<equiv> -1"

type_synonym u32 = "32 word"
type_synonym u16 = "16 word"

section \<open>Checked 32-bit signed arithmetic\<close>

definition int_range :: "int \<Rightarrow> bool" where
  "int_range x \<longleftrightarrow> - 2147483648 \<le> x \<and> x < 2147483648"

definition to_int :: "int \<Rightarrow> int option" where
  "to_int x = (if int_range x then Some x else None)"

definition cadd :: "int \<Rightarrow> int \<Rightarrow> int option" where
  [cint_defs]: "cadd a b = to_int (a + b)"

definition csub :: "int \<Rightarrow> int \<Rightarrow> int option" where
  [cint_defs]: "csub a b = to_int (a - b)"

definition cmul :: "int \<Rightarrow> int \<Rightarrow> int option" where
  [cint_defs]: "cmul a b = to_int (a * b)"

declare to_int_def [cint_defs] int_range_def [cint_defs]

lemma to_int_Some [simp]: "to_int x = Some y \<longleftrightarrow> x = y \<and> int_range x"
  by (auto simp: to_int_def)

lemma to_int_in_range [simp]: "int_range x \<Longrightarrow> to_int x = Some x"
  by (simp add: to_int_def)

lemma cadd_Some: "cadd a b = Some c \<Longrightarrow> c = a + b"
  by (simp add: cadd_def)

lemma csub_Some: "csub a b = Some c \<Longrightarrow> c = a - b"
  by (simp add: csub_def)

lemma cmul_Some: "cmul a b = Some c \<Longrightarrow> c = a * b"
  by (simp add: cmul_def)

section \<open>C strings\<close>

text \<open>
  A C string is the list of its bytes before the terminating NUL. \<open>strcmp\<close> compares
  bytes as unsigned values and treats the end of a string as the smallest byte; only
  the sign of its result is used by the code.
\<close>

fun strcmp :: "string \<Rightarrow> string \<Rightarrow> int" where
  "strcmp [] [] = 0"
| "strcmp [] (_ # _) = -1"
| "strcmp (_ # _) [] = 1"
| "strcmp (a # as) (b # bs) =
     (if (of_char a :: nat) < of_char b then -1
      else if (of_char b :: nat) < of_char a then 1
      else strcmp as bs)"

definition strncmp :: "string \<Rightarrow> string \<Rightarrow> nat \<Rightarrow> int" where
  "strncmp s t n = strcmp (take n s) (take n t)"

lemma strcmp_refl [simp]: "strcmp s s = 0"
  by (induction s) auto

lemma strcmp_eq_0 [simp]: "strcmp s t = 0 \<longleftrightarrow> s = t"
  by (induction s t rule: strcmp.induct) (auto simp: not_less)

lemma strcmp_swap: "strcmp t s = - strcmp s t"
  by (induction s t rule: strcmp.induct) auto

lemma strcmp_same_prefix [simp]: "strcmp (p @ s) (p @ t) = strcmp s t"
  by (induction p) auto

lemma strcmp_append_same_length:
  "length a = length b \<Longrightarrow>
     strcmp (a @ s) (b @ t) = (if strcmp a b = 0 then strcmp s t else strcmp a b)"
  by (induction a b rule: list_induct2) auto

section \<open>Lists\<close>

lemma find_Some_nth: "find P xs = Some x \<Longrightarrow> x \<in> set xs \<and> P x"
  by (induction xs) (auto split: if_splits)

lemma list_update_split:
  "i < length xs \<Longrightarrow> xs[i := y] = take i xs @ y # drop (Suc i) xs"
  by (rule upd_conv_take_nth_drop)

end
