(* ===== verification/CFloat.thy ===== *)
theory CFloat
  imports Prelude
begin

text \<open>
  C's \<open>float\<close> and \<open>double\<close>. A finite value is the rational it denotes; an arithmetic
  operation is the exact rational operation followed by rounding to the format
  (round to nearest, ties to even). Overflow to infinity, NaN and subnormals are outside
  the value range the program works with and are not modelled; a division by zero and a
  conversion to \<open>int\<close> out of range are the undefined behaviour \<open>None\<close>.

  The money arithmetic of the program takes the two roundings as an argument, the record
  \<open>fpenv\<close>: \<open>ieee\<close> is what the machine does (53 and 24 significant bits), \<open>exact\<close> is the
  idealisation without rounding. A lemma for all \<open>fp\<close> holds of both.
\<close>

section \<open>Rounding to p significant bits\<close>

text \<open>Round to nearest integer, ties to even.\<close>

definition round_even :: "rat \<Rightarrow> int" where
  "round_even x =
     (let f = \<lfloor>x\<rfloor>; r = x - of_int f in
      if r < 1 / 2 then f else if 1 / 2 < r then f + 1 else if even f then f else f + 1)"

lemma round_even_of_int [simp]: "round_even (of_int n) = n"
  by (simp add: round_even_def)

lemma round_even_error: "\<bar>of_int (round_even x) - x\<bar> \<le> 1 / 2"
  using floor_correct [of x] unfolding round_even_def Let_def by (simp add: abs_if) linarith

lemma round_even_floor: "round_even x = \<lfloor>x\<rfloor> \<or> round_even x = \<lfloor>x\<rfloor> + 1"
  by (simp add: round_even_def Let_def)

lemma round_even_mono:
  assumes "x \<le> y"
  shows "round_even x \<le> round_even y"
proof (cases "\<lfloor>x\<rfloor> = \<lfloor>y\<rfloor>")
  case True
  then show ?thesis using assms by (auto simp: round_even_def Let_def)
next
  case False
  then have "\<lfloor>x\<rfloor> + 1 \<le> \<lfloor>y\<rfloor>" using floor_mono [OF assms] by linarith
  then show ?thesis using round_even_floor [of x] round_even_floor [of y] by linarith
qed

text \<open>The binary exponent of a positive rational: the bit lengths of numerator and
  denominator give it up to one.\<close>

fun bit_len :: "nat \<Rightarrow> nat" where
  "bit_len n = (if n = 0 then 0 else Suc (bit_len (n div 2)))"

declare bit_len.simps [simp del]

lemma bit_len_bounds: "0 < n \<Longrightarrow> 2 ^ (bit_len n - 1) \<le> n \<and> n < 2 ^ bit_len n"
proof (induction n rule: bit_len.induct)
  case (1 n)
  show ?case
  proof (cases "n = 1")
    case True
    then show ?thesis by (simp add: bit_len.simps)
  next
    case False
    with 1 have *: "0 < n div 2" by simp
    with 1 have IH: "2 ^ (bit_len (n div 2) - 1) \<le> n div 2" "n div 2 < 2 ^ bit_len (n div 2)"
      by auto
    have pos: "0 < bit_len (n div 2)" using * by (subst bit_len.simps) simp
    have "2 * 2 ^ (bit_len (n div 2) - 1) = (2::nat) ^ bit_len (n div 2)"
      using pos by (metis Suc_diff_1 power_Suc)
    with IH have "2 ^ bit_len (n div 2) \<le> n" "n < 2 * 2 ^ bit_len (n div 2)" by linarith+
    with 1(2) show ?thesis by (subst (1 2) bit_len.simps) simp
  qed
qed

definition ilog2 :: "rat \<Rightarrow> int" where
  "ilog2 x = (let (a, b) = quotient_of x; k = int (bit_len (nat a)) - int (bit_len (nat b))
              in if x < 2 powi k then k - 1 else k)"

lemma ilog2_bounds:
  assumes "0 < x"
  shows "2 powi (ilog2 x) \<le> x \<and> x < 2 powi (ilog2 x + 1)"
proof -
  obtain a b where q: "quotient_of x = (a, b)" by (cases "quotient_of x")
  have b: "0 < b" and xab: "x = of_int a / of_int b"
    using quotient_of_denom_pos [OF q] quotient_of_div [OF q] by auto
  have a: "0 < a" using assms b xab by (simp add: zero_less_divide_iff)
  define la where "la = bit_len (nat a)"
  define lb where "lb = bit_len (nat b)"
  have la: "2 ^ (la - 1) \<le> nat a" "nat a < 2 ^ la" "0 < la"
    using bit_len_bounds [of "nat a"] a by (auto simp: la_def bit_len.simps)
  have lb: "2 ^ (lb - 1) \<le> nat b" "nat b < 2 ^ lb" "0 < lb"
    using bit_len_bounds [of "nat b"] b by (auto simp: lb_def bit_len.simps)
  have ra: "(of_int a :: rat) = of_nat (nat a)" "(of_int b :: rat) = of_nat (nat b)"
    using a b by auto
  have A: "(2::rat) powi (int la - 1) \<le> of_int a" "(of_int a :: rat) < 2 powi (int la)"
  proof -
    have "(of_nat (2 ^ (la - 1)) :: rat) \<le> of_nat (nat a)" using la(1) of_nat_le_iff by blast
    then show "(2::rat) powi (int la - 1) \<le> of_int a"
      using la(3) by (simp add: ra power_int_def nat_diff_distrib of_nat_diff)
    have "(of_nat (nat a) :: rat) < of_nat (2 ^ la)" using la(2) of_nat_less_iff by blast
    then show "(of_int a :: rat) < 2 powi (int la)" by (simp add: ra)
  qed
  have B: "(2::rat) powi (int lb - 1) \<le> of_int b" "(of_int b :: rat) < 2 powi (int lb)"
  proof -
    have "(of_nat (2 ^ (lb - 1)) :: rat) \<le> of_nat (nat b)" using lb(1) of_nat_le_iff by blast
    then show "(2::rat) powi (int lb - 1) \<le> of_int b"
      using lb(3) by (simp add: ra power_int_def nat_diff_distrib of_nat_diff)
    have "(of_nat (nat b) :: rat) < of_nat (2 ^ lb)" using lb(2) of_nat_less_iff by blast
    then show "(of_int b :: rat) < 2 powi (int lb)" by (simp add: ra)
  qed
  define k where "k = int la - int lb"
  have bpos: "(0::rat) < of_int b" using b by simp
  have "2 powi (k - 1) * of_int b \<le> (2::rat) powi (k - 1) * 2 powi (int lb)"
    using B(2) by (intro mult_left_mono) auto
  also have "\<dots> = 2 powi (int la - 1)" by (simp add: k_def del: power_int_of_nat flip: power_int_add)
  also have "\<dots> \<le> of_int a" by (rule A(1))
  finally have lo: "2 powi (k - 1) \<le> x" using bpos by (simp add: xab pos_le_divide_eq)
  have "(of_int a :: rat) < 2 powi (int la)" by (rule A(2))
  also have "\<dots> = (2::rat) powi (k + 1) * 2 powi (int lb - 1)" by (simp add: k_def del: power_int_of_nat flip: power_int_add)
  also have "\<dots> \<le> 2 powi (k + 1) * of_int b" using B(1) by (intro mult_left_mono) auto
  finally have hi: "x < 2 powi (k + 1)" using bpos by (simp add: xab pos_divide_less_eq)
  have "ilog2 x = (if x < 2 powi k then k - 1 else k)"
    by (simp add: ilog2_def q la_def lb_def k_def)
  then show ?thesis using lo hi by auto
qed

lemma ilog2_mono:
  assumes "0 < x" "x \<le> y"
  shows "ilog2 x \<le> ilog2 y"
proof (rule ccontr)
  assume "\<not> ilog2 x \<le> ilog2 y"
  then have "(2::rat) powi (ilog2 y + 1) \<le> 2 powi (ilog2 x)" by (intro power_int_increasing) auto
  with ilog2_bounds [of x] ilog2_bounds [of y] assms show False by linarith
qed

lemma round_even_minus [simp]: "round_even (- x) = - round_even x"
proof (cases "x = of_int \<lfloor>x\<rfloor>")
  case True
  then show ?thesis by (metis of_int_minus round_even_of_int)
next
  case False
  then have c: "\<lfloor>- x\<rfloor> = - \<lfloor>x\<rfloor> - 1"
    using of_int_floor_le [of x] floor_correct [of x]
    by (intro floor_unique) (auto simp: less_le)
  show ?thesis unfolding round_even_def Let_def c by auto
qed

definition fl :: "nat \<Rightarrow> rat \<Rightarrow> rat" where
  "fl p x = (if x = 0 then 0
     else let e = ilog2 \<bar>x\<bar> - int p + 1 in of_int (round_even (x / 2 powi e)) * 2 powi e)"

lemma fl_0 [simp]: "fl p 0 = 0"
  by (simp add: fl_def)

lemma fl_minus [simp]: "fl p (- x) = - fl p x"
  by (simp add: fl_def Let_def)

lemma fl_error:
  assumes "x \<noteq> 0"
  shows "\<bar>fl p x - x\<bar> \<le> \<bar>x\<bar> / 2 ^ p"
proof -
  define e where "e = ilog2 \<bar>x\<bar> - int p + 1"
  have 2: "(0::rat) < 2 powi e" by simp
  have "fl p x - x = (of_int (round_even (x / 2 powi e)) - x / 2 powi e) * 2 powi e"
    using assms 2 by (simp add: fl_def e_def Let_def field_simps)
  then have "\<bar>fl p x - x\<bar> \<le> 1 / 2 * 2 powi e"
    using round_even_error [of "x / 2 powi e"] by (simp add: abs_mult)
  also have "\<dots> = 2 powi (ilog2 \<bar>x\<bar>) / 2 ^ p"
    by (simp add: e_def power_int_add power_int_diff power_int_of_nat)
  also have "\<dots> \<le> \<bar>x\<bar> / 2 ^ p"
    using ilog2_bounds [of "\<bar>x\<bar>"] assms by (intro divide_right_mono) auto
  finally show ?thesis .
qed

lemma fl_of_int:
  assumes "\<bar>n\<bar> < 2 ^ p"
  shows "fl p (of_int n) = of_int n"
proof (cases "n = 0")
  case False
  define e where "e = ilog2 \<bar>of_int n\<bar> - int p + 1"
  have "(2::rat) powi (ilog2 \<bar>of_int n\<bar>) \<le> \<bar>of_int n\<bar>"
    using ilog2_bounds [of "\<bar>of_int n\<bar>"] False by auto
  also have "\<dots> < 2 powi (int p)"
    using assms by (metis of_int_abs of_int_less_iff of_int_numeral of_int_power power_int_of_nat)
  finally have "ilog2 \<bar>of_int n\<bar> < int p"
    by (meson linorder_not_less one_le_numeral power_int_increasing)
  then have e: "e \<le> 0" by (simp add: e_def)
  have "(of_int n :: rat) / 2 powi e = of_int (n * 2 ^ nat (- e))"
    using e by (simp add: power_int_def field_simps)
  then have "round_even (of_int n / 2 powi e) = n * 2 ^ nat (- e)"
    by (simp only: round_even_of_int)
  then have "fl p (of_int n) = of_int (n * 2 ^ nat (- e)) * 2 powi e"
    using False by (simp add: fl_def Let_def flip: e_def)
  also have "\<dots> = of_int n" using e by (simp add: power_int_def field_simps)
  finally show ?thesis .
qed simp

lemma fl_binade:
  assumes "0 < x" "0 < p"
  shows "2 powi (ilog2 x) \<le> fl p x \<and> fl p x \<le> 2 powi (ilog2 x + 1)"
proof -
  define e where "e = ilog2 x - int p + 1"
  have pos: "(0::rat) < 2 powi e" by simp
  have f: "fl p x = of_int (round_even (x / 2 powi e)) * 2 powi e"
    using assms by (simp add: fl_def Let_def e_def)
  have p1: "(2::rat) ^ (p - 1) = 2 powi (int p - 1)"
    using assms(2) by (simp add: power_int_def nat_diff_distrib of_nat_diff)
  have lo: "2 ^ (p - 1) \<le> x / 2 powi e"
  proof -
    have "(2::rat) ^ (p - 1) * 2 powi e = 2 powi (ilog2 x)"
      unfolding p1 by (simp add: e_def flip: power_int_add)
    then show ?thesis using ilog2_bounds [OF assms(1)] pos by (simp add: pos_le_divide_eq)
  qed
  have hi: "x / 2 powi e \<le> 2 ^ p"
  proof -
    have "(2::rat) ^ p * 2 powi e = 2 powi (ilog2 x + 1)"
      unfolding power_int_of_nat [symmetric]
      by (simp add: e_def del: power_int_of_nat flip: power_int_add)
    then show ?thesis using ilog2_bounds [OF assms(1)] pos by (simp add: pos_divide_le_eq)
  qed
  have "round_even (of_int (2 ^ (p - 1))) \<le> round_even (x / 2 powi e)"
    using lo by (intro round_even_mono) simp
  moreover have "round_even (x / 2 powi e) \<le> round_even (of_int (2 ^ p))"
    using hi by (intro round_even_mono) simp
  ultimately have r: "2 ^ (p - 1) \<le> round_even (x / 2 powi e)" "round_even (x / 2 powi e) \<le> 2 ^ p"
    unfolding round_even_of_int by auto
  have "2 powi (ilog2 x) = (2::rat) ^ (p - 1) * 2 powi e"
    unfolding p1 by (simp add: e_def flip: power_int_add)
  also have "\<dots> \<le> fl p x" unfolding f using r(1)
    by (intro mult_right_mono) (metis of_int_le_iff of_int_numeral of_int_power, simp)
  finally have A: "2 powi (ilog2 x) \<le> fl p x" .
  have "fl p x \<le> (2::rat) ^ p * 2 powi e" unfolding f using r(2)
    by (intro mult_right_mono) (metis of_int_le_iff of_int_numeral of_int_power, simp)
  also have "\<dots> = 2 powi (ilog2 x + 1)"
    unfolding power_int_of_nat [symmetric]
    by (simp add: e_def del: power_int_of_nat flip: power_int_add)
  finally show ?thesis using A by simp
qed

lemma fl_nonneg: "0 \<le> x \<Longrightarrow> 0 < p \<Longrightarrow> 0 \<le> fl p x"
  using fl_binade [of x p]
  by (cases "x = 0") (auto intro: order_trans [of 0 "2 powi (ilog2 x)"])

lemma fl_mono_pos:
  assumes "0 < x" "x \<le> y" "0 < p"
  shows "fl p x \<le> fl p y"
proof (cases "ilog2 x = ilog2 y")
  case True
  then show ?thesis using assms
    by (auto simp: fl_def Let_def intro!: mult_right_mono round_even_mono divide_right_mono)
next
  case False
  then have "ilog2 x + 1 \<le> ilog2 y" using ilog2_mono [OF assms(1,2)] by simp
  then have "(2::rat) powi (ilog2 x + 1) \<le> 2 powi (ilog2 y)" by (intro power_int_increasing) auto
  then show ?thesis using fl_binade [of x p] fl_binade [of y p] assms by linarith
qed

lemma fl_mono:
  assumes "x \<le> y" "0 < p"
  shows "fl p x \<le> fl p y"
proof (cases "0 < x")
  case True
  then show ?thesis using fl_mono_pos assms by blast
next
  case x: False
  show ?thesis
  proof (cases "0 \<le> y")
    case True
    have "0 \<le> fl p (- x)" using x assms by (intro fl_nonneg) auto
    then show ?thesis using fl_nonneg [OF True assms(2)] by simp
  next
    case False
    then have "fl p (- y) \<le> fl p (- x)" using assms by (intro fl_mono_pos) auto
    then show ?thesis by simp
  qed
qed

section \<open>The contract of a rounding, and the roundings of the program\<close>

locale rounding =
  fixes r :: "rat \<Rightarrow> rat" and p :: nat
  assumes r_mono: "x \<le> y \<Longrightarrow> r x \<le> r y"
    and r_of_int: "\<bar>n\<bar> < 2 ^ p \<Longrightarrow> r (of_int n) = of_int n"
    and r_error: "\<bar>r x - x\<bar> \<le> \<bar>x\<bar> / 2 ^ p"
    and r_minus: "r (- x) = - r x"
begin

lemma r_zero: "r 0 = 0"
  using r_of_int [of 0] by simp

lemma r_nonneg: "0 \<le> x \<Longrightarrow> 0 \<le> r x"
  using r_mono [of 0 x] by (simp add: r_zero)

lemma r_nonpos: "x \<le> 0 \<Longrightarrow> r x \<le> 0"
  using r_mono [of x 0] by (simp add: r_zero)

text \<open>A quotient of integers rounds to the right side of every integer.\<close>

lemma r_ceil_quotient:
  assumes c: "\<bar>c\<bar> < 2 ^ p" and d: "0 < d"
  shows "\<lceil>r (of_int c / of_int d)\<rceil> = \<lceil>of_int c / (of_int d :: rat)\<rceil>"
proof (cases "c = 0")
  case False
  define x where "x = of_int c / (of_int d :: rat)"
  define n where "n = \<lceil>x\<rceil>"
  have dp: "(0::rat) < of_int d" and d1: "(1::rat) \<le> of_int d" using d by simp_all
  have xn: "x \<le> of_int n" "of_int n - 1 < x"
    using ceiling_correct [of x] by (auto simp: n_def)
  have cr: "(of_int \<bar>c\<bar> :: rat) < 2 ^ p"
    using c by (metis of_int_less_iff of_int_numeral of_int_power)
  have nb: "\<bar>n\<bar> < 2 ^ p"
  proof -
    have "\<bar>x\<bar> \<le> of_int \<bar>c\<bar>"
      using d1 by (simp add: x_def abs_divide divide_le_eq mult_left_le mult_le_cancel_left1 flip: of_int_abs)
    then have "(of_int (n - 1) :: rat) < of_int \<bar>c\<bar>" "(of_int (- \<bar>c\<bar>) :: rat) \<le> of_int n"
      using xn by auto
    then have "n - 1 < \<bar>c\<bar>" "- \<bar>c\<bar> \<le> n" by linarith+
    then show ?thesis using c by linarith
  qed
  have up: "r x \<le> of_int n" using r_mono [OF xn(1)] r_of_int [OF nb] by simp
  have gap: "of_int n - 1 + 1 / of_int d \<le> x"
  proof -
    have "(of_int ((n - 1) * d) :: rat) < of_int c"
      using xn(2) dp by (simp add: x_def field_simps)
    then have "(n - 1) * d + 1 \<le> c" unfolding of_int_less_iff by linarith
    then have "(of_int ((n - 1) * d + 1) :: rat) \<le> of_int c" by (simp only: of_int_le_iff)
    then have "of_int ((n - 1) * d + 1) / of_int d \<le> (of_int c / of_int d :: rat)"
      using dp by (intro divide_right_mono) auto
    moreover have "of_int ((n - 1) * d + 1) / of_int d = (of_int n - 1 + 1 / of_int d :: rat)"
      using dp by (simp add: field_simps)
    ultimately show ?thesis by (simp add: x_def)
  qed
  have "\<bar>x\<bar> / 2 ^ p < 1 / of_int d"
    using cr dp by (simp add: x_def field_simps)
  with r_error [of x] have "x - 1 / of_int d < r x" by linarith
  with gap have lo: "of_int n - 1 < r x" by linarith
  have "\<lceil>r x\<rceil> = n" using up lo by (intro ceiling_unique) auto
  then show ?thesis by (simp add: x_def n_def)
qed (simp add: r_zero)

end

record fpenv =
  rd :: "rat \<Rightarrow> rat"
  rf :: "rat \<Rightarrow> rat"

definition ieee :: fpenv where
  "ieee = \<lparr>rd = fl 53, rf = fl 24\<rparr>"

definition exact :: fpenv where
  "exact = \<lparr>rd = (\<lambda>x. x), rf = (\<lambda>x. x)\<rparr>"

lemma rounding_fl: "0 < p \<Longrightarrow> rounding (fl p) p"
proof (unfold_locales, goal_cases)
  case (3 x) then show ?case using fl_error [of x p] by (cases "x = 0") auto
qed (auto simp: fl_mono fl_of_int)

interpretation binary24: rounding "fl 24" 24
  by (rule rounding_fl) simp

interpretation binary53: rounding "fl 53" 53
  by (rule rounding_fl) simp

lemma rounding_id: "rounding (\<lambda>x. x) p"
  by unfold_locales auto

definition fp_ok :: "fpenv \<Rightarrow> bool" where
  "fp_ok fp \<longleftrightarrow> rounding (rd fp) 53 \<and> rounding (rf fp) 24"

lemma fp_ok_ieee [simp]: "fp_ok ieee"
  using binary24.rounding_axioms binary53.rounding_axioms by (simp add: fp_ok_def ieee_def)

lemma fp_ok_exact [simp]: "fp_ok exact"
  by (simp add: fp_ok_def exact_def rounding_id)

section \<open>The double and float operations of the code\<close>

definition dadd :: "fpenv \<Rightarrow> rat \<Rightarrow> rat \<Rightarrow> rat" where
  "dadd fp a b = rd fp (a + b)"

definition dsub :: "fpenv \<Rightarrow> rat \<Rightarrow> rat \<Rightarrow> rat" where
  "dsub fp a b = rd fp (a - b)"

definition dmul :: "fpenv \<Rightarrow> rat \<Rightarrow> rat \<Rightarrow> rat" where
  "dmul fp a b = rd fp (a * b)"

definition ddiv :: "fpenv \<Rightarrow> rat \<Rightarrow> rat \<Rightarrow> rat option" where
  "ddiv fp a b = (if b = 0 then None else Some (rd fp (a / b)))"

text \<open>\<open>n * x\<close> for an \<open>int n\<close>: the conversion to \<open>double\<close> is exact.\<close>

definition imul :: "fpenv \<Rightarrow> int \<Rightarrow> rat \<Rightarrow> rat" where
  "imul fp n x = rd fp (of_int n * x)"

lemma exact_ops [simp]:
  "dadd exact a b = a + b" "dsub exact a b = a - b" "dmul exact a b = a * b"
  "imul exact n a = of_int n * a" "rd exact a = a" "rf exact a = a"
  "b \<noteq> 0 \<Longrightarrow> ddiv exact a b = Some (a / b)"
  by (simp_all add: dadd_def dsub_def dmul_def ddiv_def imul_def exact_def)

lemmas fp_defs = dadd_def dsub_def dmul_def ddiv_def imul_def

text \<open>\<open>units = ceil(((float)a)/((float)b))\<close> with an \<open>int units\<close>.\<close>

definition float_ceil_div :: "fpenv \<Rightarrow> int \<Rightarrow> int \<Rightarrow> int option" where
  "float_ceil_div fp a b =
     (let fb = rf fp (of_int b) in
      if fb = 0 then None else to_int \<lceil>rf fp (rf fp (of_int a) / fb)\<rceil>)"

definition ceil_div :: "int \<Rightarrow> int \<Rightarrow> int" where
  "ceil_div a b = - ((- a) div b)"

lemma ceil_div_bounds:
  assumes "0 < b"
  shows ceil_div_lower: "(ceil_div a b - 1) * b < a" and ceil_div_upper: "a \<le> ceil_div a b * b"
proof -
  define q m where "q = (- a) div b" and "m = (- a) mod b"
  have "b * q + m = - a" unfolding q_def m_def by (rule mult_div_mod_eq)
  moreover have "0 \<le> m" "m < b" using assms by (simp_all add: m_def)
  ultimately have "- (b * q) < a + b" "a \<le> - (b * q)" by linarith+
  then show "(ceil_div a b - 1) * b < a" "a \<le> ceil_div a b * b"
    by (simp_all add: ceil_div_def algebra_simps flip: q_def)
qed

lemma ceil_div_pos [intro]: "0 < b \<Longrightarrow> 0 < a \<Longrightarrow> 0 < ceil_div a b"
  using ceil_div_bounds [of b a] by (smt (verit) mult_nonneg_nonneg mult_nonpos_nonneg)

lemma ceil_div_nonpos: "0 < b \<Longrightarrow> a \<le> 0 \<Longrightarrow> ceil_div a b \<le> 0"
  by (simp add: ceil_div_def pos_imp_zdiv_nonneg_iff)

text \<open>Below \<open>2 ^ 24\<close> the float computation is the integer ceiling.\<close>

lemma ceil_div_abs_le:
  assumes "0 < b"
  shows "\<bar>ceil_div a b\<bar> \<le> \<bar>a\<bar>"
proof (cases "0 < a")
  case True
  have "(ceil_div a b - 1) * 1 \<le> (ceil_div a b - 1) * b"
    using assms ceil_div_pos [OF assms True] by (intro mult_left_mono) auto
  then have "(ceil_div a b - 1) * 1 < a" using ceil_div_lower [OF assms] by (rule le_less_trans)
  then show ?thesis using ceil_div_pos [OF assms True] by simp
next
  case False
  have "- ceil_div a b * 1 \<le> - ceil_div a b * b"
    using assms ceil_div_nonpos [OF assms, of a] False by (intro mult_left_mono) auto
  then have "- ceil_div a b \<le> - a" using ceil_div_bounds [OF assms, of a] by linarith
  then show ?thesis using ceil_div_nonpos [OF assms, of a] False by simp
qed

lemma float_ceil_div_eq:
  assumes ok: "fp_ok fp" and a: "\<bar>a\<bar> < 2 ^ 24" and b: "0 < b" "b < 2 ^ 24"
  shows "float_ceil_div fp a b = Some (ceil_div a b)"
proof -
  have r: "rounding (rf fp) 24" using ok by (simp add: fp_ok_def)
  have f: "rf fp (of_int a) = of_int a" "rf fp (of_int b) = of_int b"
    using a b by (auto intro!: rounding.r_of_int [OF r])
  have c: "\<lceil>rf fp (of_int a / of_int b)\<rceil> = ceil_div a b"
    using rounding.r_ceil_quotient [OF r a b(1)] by (simp add: ceil_div_def ceiling_divide_eq_div)
  have "int_range (ceil_div a b)"
    using ceil_div_abs_le [OF b(1), of a] a by (simp add: int_range_def abs_if split: if_splits)
  then show ?thesis using b(1) f c by (simp add: float_ceil_div_def Let_def)
qed

end
