(* ===== verification/RtData.thy ===== *)
theory RtData
  imports CFloat
begin

text \<open>
  The data of the Rating module (\<open>mod/Rating/rt_data.h\<close>, \<open>time_cond.h\<close>, \<open>pcard.h\<close>,
  \<open>rt_data.c\<close>): one record per C struct, with the struct's fields. A field that is a
  fixed-size character array is the string it holds; an \<open>unsigned int\<close> is a 32-bit
  word, an \<open>unsigned short\<close> a 16-bit word; a pointer that may be NULL is an \<open>option\<close>. The zeroed
  values are what \<open>mem_alloc\<close> (\<open>calloc\<close>) and \<open>memset(...,0,...)\<close> give.
\<close>

section \<open>Payment cards, accounts, tariffs\<close>

record pcard =
  pc_id :: int
  pc_amount :: rat
  pc_start :: string
  pc_end :: string
  pc_status :: int
  pc_type :: int
  pc_call_number :: int

abbreviation (input) debit_card :: int where "debit_card \<equiv> 1"
abbreviation (input) credit_card :: int where "credit_card \<equiv> 2"
abbreviation (input) pcard_active :: int where "pcard_active \<equiv> 1"
abbreviation (input) pcard_block :: int where "pcard_block \<equiv> 2"

record bacc =
  ba_id :: u32
  ba_username :: string
  ba_currency_id :: u32
  ba_currency :: string
  ba_cdr_server_id :: u32
  ba_profile_name :: string
  ba_leg :: string
  ba_round_mode_id :: u32
  ba_round_mode :: string
  ba_billing_day :: u16
  ba_day_of_payment :: u16
  ba_pcard :: "pcard option"

record calc_function =
  cf_pos :: int
  cf_delta :: int
  cf_fee :: rat
  cf_iterations :: int

record rate =
  rt_id :: u32
  rt_prefix_id :: u32
  rt_prefix :: string
  rt_tariff_id :: u32
  rt_tariff_name :: string
  rt_start_period :: u32
  rt_end_period :: u32
  rt_free_billsec_id :: u32
  rt_calc_funcs :: "calc_function list option"

record bplan =
  bp_id :: u32
  bp_name :: string
  bp_start_period :: u32
  bp_end_period :: u32
  bp_rates :: "rate list option"

record bal =
  bl_id :: u32
  bl_amount :: rat
  bl_free_billsec :: u32
  bl_start_period :: string
  bl_end_period :: string

record time_cond =
  tcd_id :: int
  tcd_tariff_id :: int
  tcd_hours :: string
  tcd_dweek :: string
  tcd_date :: string
  tcd_name :: string

section \<open>One call being rated\<close>

record rating =
  pre_cdr_server_id :: int
  pre_clg :: string
  pre_cld :: string
  pre_call_uid :: string
  pre_timestamp :: string
  pre_epoch :: int
  pre_clg_nadi :: int
  pre_cld_nadi :: int
  pre_maxsec :: int
  pre_billsec :: int
  pre_billusec :: int
  pre_free_id :: int
  pre_free_billsec :: int
  pre_free_billsec_id :: int
  pre_free_billsec_sum :: int
  pre_free_billsec_limit :: int
  pre_dow :: int
  pre_bal_id :: int
  pre_limit :: rat
  pre_cprice :: rat
  pre_ts :: int
  pre_tc :: "time_cond list option"
  pre_tc_id :: int
  pre_cdr_id :: int
  pre_rating_id :: int
  pre_rating_mode_id :: int
  pre_account_code :: string
  pre_src_context :: string
  pre_dst_context :: string
  pre_src_tgroup :: string
  pre_dst_tgroup :: string
  pre_tariff_id :: int
  pre_rate_id :: int
  pre_prefix_id :: int

text \<open>The rating modes, \<open>enum rt_mode\<close>.\<close>

abbreviation (input) rt_mode_clg :: int where "rt_mode_clg \<equiv> 1"
abbreviation (input) rt_mode_acode :: int where "rt_mode_acode \<equiv> 2"
abbreviation (input) rt_mode_srcc :: int where "rt_mode_srcc \<equiv> 3"
abbreviation (input) rt_mode_dstc :: int where "rt_mode_dstc \<equiv> 4"
abbreviation (input) rt_mode_srctg :: int where "rt_mode_srctg \<equiv> 5"
abbreviation (input) rt_mode_dsttg :: int where "rt_mode_dsttg \<equiv> 6"
abbreviation (input) rt_mode_sms :: int where "rt_mode_sms \<equiv> 7"

record racc =
  ra_rtm :: int
  ra_id :: u32
  ra_rating_account :: string
  ra_bal :: bal
  ra_bacc :: bacc
  ra_bplan :: bplan
  ra_pre :: rating

section \<open>Zeroed values\<close>

definition rating0 :: rating where
  "rating0 = \<lparr>pre_cdr_server_id = 0, pre_clg = [], pre_cld = [], pre_call_uid = [],
     pre_timestamp = [], pre_epoch = 0, pre_clg_nadi = 0, pre_cld_nadi = 0, pre_maxsec = 0,
     pre_billsec = 0, pre_billusec = 0, pre_free_id = 0, pre_free_billsec = 0,
     pre_free_billsec_id = 0, pre_free_billsec_sum = 0, pre_free_billsec_limit = 0,
     pre_dow = 0, pre_bal_id = 0, pre_limit = 0, pre_cprice = 0, pre_ts = 0, pre_tc = None,
     pre_tc_id = 0, pre_cdr_id = 0, pre_rating_id = 0, pre_rating_mode_id = 0,
     pre_account_code = [], pre_src_context = [], pre_dst_context = [], pre_src_tgroup = [],
     pre_dst_tgroup = [], pre_tariff_id = 0, pre_rate_id = 0, pre_prefix_id = 0\<rparr>"

definition bacc0 :: bacc where
  "bacc0 = \<lparr>ba_id = 0, ba_username = [], ba_currency_id = 0, ba_currency = [],
     ba_cdr_server_id = 0, ba_profile_name = [], ba_leg = [], ba_round_mode_id = 0,
     ba_round_mode = [], ba_billing_day = 0, ba_day_of_payment = 0, ba_pcard = None\<rparr>"

definition bplan0 :: bplan where
  "bplan0 = \<lparr>bp_id = 0, bp_name = [], bp_start_period = 0, bp_end_period = 0, bp_rates = None\<rparr>"

definition bal0 :: bal where
  "bal0 = \<lparr>bl_id = 0, bl_amount = 0, bl_free_billsec = 0, bl_start_period = [], bl_end_period = []\<rparr>"

text \<open>\<open>rt_data_racc_init\<close>: the racc with its three zeroed parts (an allocation always
  succeeds in the model).\<close>

definition rt_data_racc_init :: "rating \<Rightarrow> racc" where
  "rt_data_racc_init pre = \<lparr>ra_rtm = 0, ra_id = 0, ra_rating_account = [], ra_bal = bal0,
     ra_bacc = bacc0, ra_bplan = bplan0, ra_pre = pre\<rparr>"

lemmas zero_defs = rating0_def bacc0_def bplan0_def bal0_def rt_data_racc_init_def

section \<open>Shorthands for the pointer chains of the code\<close>

abbreviation upd_pre :: "(rating \<Rightarrow> rating) \<Rightarrow> racc \<Rightarrow> racc" where
  "upd_pre f r \<equiv> r\<lparr>ra_pre := f (ra_pre r)\<rparr>"

text \<open>\<open>rtp->bplan_ptr->rates_ptr->calc_funcs\<close>: the calc functions hang off the first element
  of the rates array. The outer \<open>None\<close> is the dereference of a NULL \<open>rates_ptr\<close>.\<close>

definition racc_calc_funcs :: "racc \<Rightarrow> calc_function list option option" where
  "racc_calc_funcs r =
     (case bp_rates (ra_bplan r) of
        None \<Rightarrow> None
      | Some [] \<Rightarrow> Some None
      | Some (x # _) \<Rightarrow> Some (rt_calc_funcs x))"

definition set_calc_funcs :: "calc_function list option \<Rightarrow> racc \<Rightarrow> racc" where
  "set_calc_funcs tr r =
     (case bp_rates (ra_bplan r) of
        Some (x # xs) \<Rightarrow>
          r\<lparr>ra_bplan := (ra_bplan r)\<lparr>bp_rates := Some (x\<lparr>rt_calc_funcs := tr\<rparr> # xs)\<rparr>\<rparr>
      | _ \<Rightarrow> r)"

lemma racc_calc_funcs_upd_pre [simp]: "racc_calc_funcs (r\<lparr>ra_pre := p\<rparr>) = racc_calc_funcs r"
  by (simp add: racc_calc_funcs_def)

lemma racc_calc_funcs_upd_bal [simp]: "racc_calc_funcs (r\<lparr>ra_bal := b\<rparr>) = racc_calc_funcs r"
  by (simp add: racc_calc_funcs_def)

end
