(* ===== verification/CString.thy ===== *)
theory CString
  imports Prelude
begin

text \<open>
  The number and search functions of the C library on strings: decimal output
  (\<open>sprintf\<close> with \<open>%d\<close> and \<open>%u\<close>), \<open>atoi\<close>, \<open>atof\<close>, \<open>strstr\<close>, \<open>strncpy\<close> into a zeroed
  array, \<open>strncasecmp\<close> on ASCII. Locale is "C".
\<close>

section \<open>Characters\<close>

abbreviation byte :: "char \<Rightarrow> nat" where "byte c \<equiv> of_char c"

definition isdigit :: "char \<Rightarrow> bool" where
  "isdigit c \<longleftrightarrow> 48 \<le> byte c \<and> byte c \<le> 57"

definition isspace :: "char \<Rightarrow> bool" where
  "isspace c \<longleftrightarrow> byte c = 32 \<or> (9 \<le> byte c \<and> byte c \<le> 13)"

definition tolower :: "char \<Rightarrow> char" where
  "tolower c = (if 65 \<le> byte c \<and> byte c \<le> 90 then char_of (byte c + 32) else c)"

definition digit :: "nat \<Rightarrow> char" where
  "digit n = char_of (48 + n)"

lemma byte_lt_256 [simp]: "byte c < 256"
  by (simp add: of_char_def)

lemma byte_char_of [simp]: "n < 256 \<Longrightarrow> byte (char_of n) = n"
  by (simp add: of_char_of)

lemma isdigit_digit [simp]: "n < 10 \<Longrightarrow> isdigit (digit n)"
  by (simp add: isdigit_def digit_def)

lemma byte_digit [simp]: "n < 10 \<Longrightarrow> byte (digit n) = 48 + n"
  by (simp add: digit_def)

lemma isspace_isdigit [simp]: "isdigit c \<Longrightarrow> \<not> isspace c"
  by (auto simp: isdigit_def isspace_def)

section \<open>Decimal output\<close>

fun dec_nat :: "nat \<Rightarrow> string" where
  "dec_nat n = (if n < 10 then [digit n] else dec_nat (n div 10) @ [digit (n mod 10)])"

declare dec_nat.simps [simp del]

definition dec_int :: "int \<Rightarrow> string" where
  "dec_int i = (if i < 0 then ''-'' @ dec_nat (nat (- i)) else dec_nat (nat i))"

lemma dec_nat_digits: "\<forall>c \<in> set (dec_nat n). isdigit c"
proof (induction n rule: dec_nat.induct)
  case (1 n)
  then show ?case by (subst dec_nat.simps) auto
qed

lemma dec_nat_nonempty [simp]: "dec_nat n \<noteq> []"
  by (subst dec_nat.simps) simp

lemma dec_nat_length: "n < 10 ^ k \<Longrightarrow> 0 < k \<Longrightarrow> length (dec_nat n) \<le> k"
proof (induction n arbitrary: k rule: dec_nat.induct)
  case (1 n)
  show ?case
  proof (cases "n < 10")
    case True
    then show ?thesis using 1 by (subst dec_nat.simps) simp
  next
    case False
    then obtain j where k: "k = Suc j" "0 < j"
      using 1 by (metis One_nat_def Suc_pred not_gr_zero power_one_right)
    then have "length (dec_nat (n div 10)) \<le> j" using 1 False by (simp add: less_mult_imp_div_less mult.commute)
    then show ?thesis using k False by (subst dec_nat.simps) simp
  qed
qed

section \<open>atoi and atof\<close>

fun digits_val :: "nat \<Rightarrow> string \<Rightarrow> nat" where
  "digits_val acc [] = acc"
| "digits_val acc (c # cs) = (if isdigit c then digits_val (10 * acc + (byte c - 48)) cs else acc)"

definition split_sign :: "string \<Rightarrow> bool \<times> string" where
  "split_sign s = (case s of
     [] \<Rightarrow> (False, [])
   | c # cs \<Rightarrow> if c = CHR ''-'' then (True, cs) else if c = CHR ''+'' then (False, cs) else (False, s))"

text \<open>\<open>atoi\<close>: a value outside \<open>int\<close> is undefined behaviour.\<close>

definition atoi :: "string \<Rightarrow> int option" where
  "atoi s = (let (neg, d) = split_sign (dropWhile isspace s); v = int (digits_val 0 d)
             in to_int (if neg then - v else v))"

text \<open>\<open>atof\<close> of a decimal number with optional fraction and exponent, as the value it
  denotes; the conversion to \<open>double\<close> rounds it.\<close>

definition atof :: "string \<Rightarrow> rat" where
  "atof s = (let (neg, d) = split_sign (dropWhile isspace s);
        ip = takeWhile isdigit d; r = dropWhile isdigit d;
        fp = (case r of c # cs \<Rightarrow> if c = CHR ''.'' then takeWhile isdigit cs else [] | [] \<Rightarrow> []);
        r2 = (case r of c # cs \<Rightarrow> if c = CHR ''.'' then dropWhile isdigit cs else r | [] \<Rightarrow> []);
        ex = (case r2 of c # cs \<Rightarrow>
                if (c = CHR ''e'' \<or> c = CHR ''E'') \<and> ip @ fp \<noteq> []
                then (let (en, ed) = split_sign cs in
                      (if en then - int (digits_val 0 ed) else int (digits_val 0 ed)))
                else 0
              | [] \<Rightarrow> 0);
        m = of_nat (digits_val 0 (ip @ fp)) * 10 powi (ex - int (length fp))
      in if neg then - m else m)"

lemma digits_val_append:
  "\<forall>c \<in> set a. isdigit c \<Longrightarrow> digits_val k (a @ b) = digits_val (digits_val k a) b"
  by (induction a arbitrary: k) auto

lemma digits_val_dec_nat [simp]: "digits_val 0 (dec_nat n) = n"
proof (induction n rule: dec_nat.induct)
  case (1 n)
  show ?case
  proof (cases "n < 10")
    case True
    then show ?thesis by (subst dec_nat.simps) simp
  next
    case False
    then show ?thesis using 1 by (subst dec_nat.simps) (simp add: digits_val_append dec_nat_digits)
  qed
qed

lemma dec_nat_Cons: "\<exists>c cs. dec_nat n = c # cs \<and> isdigit c"
  using dec_nat_digits [of n] by (cases "dec_nat n") auto

lemma atoi_dec_int [simp]: "int_range i \<Longrightarrow> atoi (dec_int i) = Some i"
proof -
  assume i: "int_range i"
  have sgn: "\<not> isdigit (CHR ''-'')" "\<not> isdigit (CHR ''+'')" "\<not> isspace (CHR ''-'')"
    by (simp_all add: isdigit_def isspace_def)
  obtain c cs where "dec_nat (nat i) = c # cs" "isdigit c" using dec_nat_Cons by blast
  moreover have "c \<noteq> CHR ''-''" "c \<noteq> CHR ''+''" using calculation sgn by auto
  ultimately have "split_sign (dropWhile isspace (dec_nat (nat i))) = (False, dec_nat (nat i))"
    by (simp add: split_sign_def)
  then show ?thesis using i sgn by (auto simp: atoi_def dec_int_def split_sign_def)
qed

section \<open>strstr, strncpy, strncasecmp\<close>

fun strstr :: "string \<Rightarrow> string \<Rightarrow> bool" where
  "strstr [] n = (n = [])"
| "strstr (h # hs) n = (take (length n) (h # hs) = n \<or> strstr hs n)"

definition strncasecmp0 :: "string \<Rightarrow> string \<Rightarrow> nat \<Rightarrow> bool" where
  "strncasecmp0 s t n \<longleftrightarrow> map tolower (take n s) = map tolower (take n t)"

text \<open>\<open>strncpy(dst, src, n)\<close> into an array that is zero from \<open>n\<close> on.\<close>

definition strncpy :: "string \<Rightarrow> nat \<Rightarrow> string" where
  "strncpy src n = take n src"

text \<open>\<open>strcpy\<close> or \<open>sprintf\<close> into an array of \<open>n\<close> bytes: \<open>None\<close> is a write outside it.\<close>

definition fits :: "nat \<Rightarrow> string \<Rightarrow> string option" where
  "fits n s = (if length s < n then Some s else None)"

lemma fits_Some: "fits n s = Some t \<longleftrightarrow> t = s \<and> length s < n"
  by (auto simp: fits_def)

lemma strstr_iff: "strstr h n \<longleftrightarrow> (\<exists>a b. h = a @ n @ b)"
proof (induction h)
  case IH: (Cons x h)
  show ?case
  proof
    assume "strstr (x # h) n"
    then consider "take (length n) (x # h) = n" | "strstr h n" by auto
    then show "\<exists>a b. x # h = a @ n @ b"
    proof cases
      case 1
      then show ?thesis by (metis append_Nil append_take_drop_id)
    next
      case 2
      then show ?thesis using IH by (metis append_Cons)
    qed
  next
    assume "\<exists>a b. x # h = a @ n @ b"
    then obtain a b where ab: "x # h = a @ n @ b" by blast
    then show "strstr (x # h) n"
    proof (cases a)
      case Nil
      then have "take (length n) (x # h) = n" by (simp add: ab)
      then show ?thesis by simp
    next
      case (Cons y ys)
      then show ?thesis using ab IH by auto
    qed
  qed
qed simp

section \<open>strtok and scanf\<close>

text \<open>One call of \<open>strtok\<close> with a single delimiter: the token (\<open>None\<close> is NULL) and where the
  next call \<open>strtok(NULL, ...)\<close> continues.\<close>

definition strtok :: "char \<Rightarrow> string \<Rightarrow> string option \<times> string" where
  "strtok d s = (let t = dropWhile (\<lambda>c. c = d) s in
     if t = [] then (None, []) else (Some (takeWhile (\<lambda>c. c \<noteq> d) t), drop 1 (dropWhile (\<lambda>c. c \<noteq> d) t)))"

definition strtok2 :: "char \<Rightarrow> string \<Rightarrow> string option \<times> string option" where
  "strtok2 d s = (let (a, r) = strtok d s in (a, fst (strtok d r)))"

text \<open>\<open>%d\<close> of \<open>sscanf\<close>: white space, a sign, at least one digit.\<close>

definition scan_int :: "string \<Rightarrow> (int \<times> string) option" where
  "scan_int s = (let (neg, d) = split_sign (dropWhile isspace s); ds = takeWhile isdigit d;
       v = int (digits_val 0 ds)
     in if ds = [] then None else Some (if neg then - v else v, dropWhile isdigit d))"

definition scan_char :: "char \<Rightarrow> string \<Rightarrow> string option" where
  "scan_char c s = (case s of x # xs \<Rightarrow> if x = c then Some xs else None | [] \<Rightarrow> None)"

lemma strtok_token:
  "d \<notin> set a \<Longrightarrow> a \<noteq> [] \<Longrightarrow> strtok d (a @ d # r) = (Some a, r)"
proof -
  assume a: "d \<notin> set a" "a \<noteq> []"
  then have "hd a \<noteq> d" by (metis hd_in_set)
  then have dw: "dropWhile (\<lambda>c. c = d) (a @ d # r) = a @ d # r" using a by (cases a) auto
  have "takeWhile (\<lambda>c. c \<noteq> d) (a @ d # r) = a" using a
    by (metis (mono_tags, lifting) append.right_neutral takeWhile.simps(2) takeWhile_append2)
  moreover have "dropWhile (\<lambda>c. c \<noteq> d) (a @ d # r) = d # r" using a
    by (metis (mono_tags, lifting) dropWhile.simps(2) dropWhile_append2)
  ultimately show ?thesis using a dw by (simp add: strtok_def)
qed

lemma strtok_last: "d \<notin> set a \<Longrightarrow> a \<noteq> [] \<Longrightarrow> strtok d a = (Some a, [])"
proof -
  assume a: "d \<notin> set a" "a \<noteq> []"
  then have "hd a \<noteq> d" by (metis hd_in_set)
  then have dw: "dropWhile (\<lambda>c. c = d) a = a" using a by (cases a) auto
  have "\<forall>c \<in> set a. c \<noteq> d" using a by blast
  then have tw: "takeWhile (\<lambda>c. c \<noteq> d) a = a" "dropWhile (\<lambda>c. c \<noteq> d) a = []"
    by (simp_all only: takeWhile_eq_all_conv dropWhile_eq_Nil_conv)
  show ?thesis unfolding strtok_def dw Let_def tw using a(2) by simp
qed

lemma strtok2_pair:
  "d \<notin> set a \<Longrightarrow> a \<noteq> [] \<Longrightarrow> d \<notin> set b \<Longrightarrow> b \<noteq> [] \<Longrightarrow> strtok2 d (a @ d # b) = (Some a, Some b)"
  by (simp add: strtok2_def strtok_token strtok_last)

lemma strtok2_empty [simp]: "strtok2 d [] = (None, None)"
  by (simp add: strtok2_def strtok_def)

lemma scan_int_digits:
  assumes "\<forall>c \<in> set ds. isdigit c" "ds \<noteq> []" "r = [] \<or> \<not> isdigit (hd r)"
  shows "scan_int (ds @ r) = Some (int (digits_val 0 ds), r)"
proof -
  obtain c cs where ds: "ds = c # cs" "isdigit c" using assms by (cases ds) auto
  have "c \<noteq> CHR ''-''" "c \<noteq> CHR ''+''" using ds by (auto simp: isdigit_def)
  then have "split_sign (dropWhile isspace (ds @ r)) = (False, ds @ r)" using ds by (simp add: split_sign_def)
  moreover have "takeWhile isdigit (ds @ r) = ds" using assms by (cases r) (auto simp: takeWhile_append)
  moreover have "dropWhile isdigit (ds @ r) = r" using assms by (cases r) (auto simp: dropWhile_append)
  ultimately show ?thesis using assms(2) by (simp add: scan_int_def)
qed

end
