(* ===== verification/Db.thy ===== *)
theory Db
  imports CString
begin

text \<open>
  The database interface, \<open>db/db.h\<close> and \<open>db/db.c\<close>: the dispatch to an engine's function table
  with its guards, the reconnecting \<open>db_command\<close>, and \<open>db_sql_escape\<close>. The engine modules
  are behind function pointers; here they are the functions of the record \<open>sql_api\<close> or
  \<open>nosql_api\<close>, which read and change the connection. The type parameter \<open>'e\<close> is the
  engine's own connection state (\<open>rconn\<close>). A NULL pointer is \<open>None\<close>.
\<close>

section \<open>Types\<close>

datatype db_result =
    SqlResult (res_rows: "string list list")
  | NosqlResult (res_str: string) (res_arr: "(string \<times> string) list")

record 'e db_conn =
  cn_enginename :: string
  cn_hostname :: string
  cn_dbname :: string
  cn_username :: string
  cn_password :: string
  cn_port :: u16
  cn_timeout :: u16
  cn_res :: bool
  cn_rconn :: "'e option"
  cn_result :: "db_result option"

type_synonym 'e conn_op = "'e db_conn \<Rightarrow> int \<times> 'e db_conn"

record 'e sql_api =
  sa_connect :: "'e conn_op option"
  sa_query :: "(string \<Rightarrow> 'e conn_op) option"
  sa_fetch :: "'e conn_op option"
  sa_status :: "'e conn_op option"
  sa_close :: "('e db_conn \<Rightarrow> 'e db_conn) option"
  sa_free_result :: "'e conn_op option"

record 'e nosql_api =
  na_connect :: "'e conn_op option"
  na_command :: "(string \<Rightarrow> 'e conn_op) option"
  na_set :: "(string \<Rightarrow> string \<Rightarrow> 'e conn_op) option"
  na_get :: "(string \<Rightarrow> 'e conn_op) option"
  na_status :: "'e conn_op option"
  na_close :: "'e conn_op option"
  na_free_reply :: "'e conn_op option"

abbreviation (input) sql :: int where "sql \<equiv> 1"
abbreviation (input) nosql :: int where "nosql \<equiv> 2"

record 'e db =
  db_t :: int
  db_sql :: "'e sql_api option"
  db_nosql :: "'e nosql_api option"
  db_conn :: "'e db_conn option"

abbreviation (input) DB_OK :: int where "DB_OK \<equiv> 0"
abbreviation (input) DB_ERR_DBP_NUL :: int where "DB_ERR_DBP_NUL \<equiv> -1"
abbreviation (input) DB_ERR_CONN_NUL :: int where "DB_ERR_CONN_NUL \<equiv> -2"
abbreviation (input) DB_ERR_CONN_NOOK :: int where "DB_ERR_CONN_NOOK \<equiv> -3"
abbreviation (input) DB_ERR_SQL_NUL :: int where "DB_ERR_SQL_NUL \<equiv> -9"
abbreviation (input) DB_ERR_NOSQL_NUL :: int where "DB_ERR_NOSQL_NUL \<equiv> -13"
abbreviation (input) DB_ERR_TYPE_UNK :: int where "DB_ERR_TYPE_UNK \<equiv> -14"
abbreviation (input) DB_ERR_FUNC_UNK :: int where "DB_ERR_FUNC_UNK \<equiv> -15"
abbreviation (input) DB_ERR_FUNC_NUL :: int where "DB_ERR_FUNC_NUL \<equiv> -16"

type_synonym 'e db_ret = "int \<times> 'e db option"

section \<open>Initialisation\<close>

definition sql_api0 :: "'e sql_api" where
  "sql_api0 = \<lparr>sa_connect = None, sa_query = None, sa_fetch = None, sa_status = None,
     sa_close = None, sa_free_result = None\<rparr>"

definition nosql_api0 :: "'e nosql_api" where
  "nosql_api0 = \<lparr>na_connect = None, na_command = None, na_set = None, na_get = None,
     na_status = None, na_close = None, na_free_reply = None\<rparr>"

definition db_init_t :: "'e db option \<Rightarrow> 'e db_ret" where
  "db_init_t ptr = (case ptr of
     None \<Rightarrow> (DB_ERR_DBP_NUL, None)
   | Some d \<Rightarrow>
       if db_t d = sql then (DB_OK, Some (d\<lparr>db_sql := Some sql_api0\<rparr>))
       else if db_t d = nosql then (DB_OK, Some (d\<lparr>db_nosql := Some nosql_api0\<rparr>))
       else (DB_ERR_TYPE_UNK, Some d))"

definition db_conn_init ::
  "string \<Rightarrow> string \<Rightarrow> string \<Rightarrow> u16 \<Rightarrow> string \<Rightarrow> string \<Rightarrow> u16 \<Rightarrow> 'e db_conn" where
  "db_conn_init enginename host dbname port usr pass timeout =
     \<lparr>cn_enginename = enginename, cn_hostname = host, cn_dbname = dbname, cn_username = usr,
      cn_password = pass, cn_port = port, cn_timeout = timeout, cn_res = False,
      cn_rconn = None, cn_result = None\<rparr>"

section \<open>Dispatch\<close>

text \<open>The guards every operation starts with, and the call through a function pointer.\<close>

definition db_on :: "'e db option \<Rightarrow> ('e db \<Rightarrow> 'e db_conn \<Rightarrow> 'e db_ret) \<Rightarrow> 'e db_ret" where
  "db_on ptr f = (case ptr of
     None \<Rightarrow> (DB_ERR_DBP_NUL, None)
   | Some d \<Rightarrow> (case db_conn d of None \<Rightarrow> (DB_ERR_CONN_NUL, ptr) | Some c \<Rightarrow> f d c))"

definition via :: "'a option \<Rightarrow> int \<Rightarrow> ('a \<Rightarrow> 'b option) \<Rightarrow> 'e db \<Rightarrow> ('b \<Rightarrow> 'e db_ret) \<Rightarrow> 'e db_ret" where
  "via api nul sel d k = (case api of
     None \<Rightarrow> (nul, Some d)
   | Some a \<Rightarrow> (case sel a of None \<Rightarrow> (DB_ERR_FUNC_NUL, Some d) | Some g \<Rightarrow> k g))"

abbreviation run_op :: "'e db \<Rightarrow> 'e db_conn \<Rightarrow> 'e conn_op \<Rightarrow> 'e db_ret" where
  "run_op d c g \<equiv> (let (ret, c') = g c in (ret, Some (d\<lparr>db_conn := Some c'\<rparr>)))"

definition db_connect :: "'e db option \<Rightarrow> 'e db_ret" where
  "db_connect ptr = db_on ptr (\<lambda>d c.
     if db_t d = sql then via (db_sql d) DB_ERR_SQL_NUL sa_connect d (run_op d c)
     else if db_t d = nosql then via (db_nosql d) DB_ERR_NOSQL_NUL na_connect d (run_op d c)
     else (DB_ERR_TYPE_UNK, Some d))"

definition db_status :: "'e db option \<Rightarrow> 'e db_ret" where
  "db_status ptr = db_on ptr (\<lambda>d c.
     if db_t d = sql then via (db_sql d) DB_ERR_SQL_NUL sa_status d (run_op d c)
     else if db_t d = nosql then via (db_nosql d) DB_ERR_NOSQL_NUL na_status d (run_op d c)
     else (DB_ERR_TYPE_UNK, Some d))"

definition db_free_result :: "'e db option \<Rightarrow> 'e db_ret" where
  "db_free_result ptr = db_on ptr (\<lambda>d c.
     if \<not> cn_res c then (DB_OK, Some d)
     else if db_t d = sql then via (db_sql d) DB_ERR_SQL_NUL sa_free_result d (run_op d c)
     else if db_t d = nosql then via (db_nosql d) DB_ERR_NOSQL_NUL na_free_reply d (run_op d c)
     else (DB_ERR_TYPE_UNK, Some d))"

definition db_close :: "'e db option \<Rightarrow> 'e db_ret" where
  "db_close ptr = db_on ptr (\<lambda>d c.
     if db_t d = sql then via (db_sql d) DB_ERR_SQL_NUL sa_close d
       (\<lambda>g. (DB_OK, Some (d\<lparr>db_conn := Some (g c)\<rparr>)))
     else if db_t d = nosql then via (db_nosql d) DB_ERR_NOSQL_NUL na_close d
       (\<lambda>g. (DB_OK, Some (d\<lparr>db_conn := Some (snd (g c))\<rparr>)))
     else (DB_ERR_TYPE_UNK, Some d))"

definition db_query :: "'e db option \<Rightarrow> string \<Rightarrow> bool \<Rightarrow> 'e db_ret" where
  "db_query ptr query clear = db_on ptr (\<lambda>d c.
     if db_t d = sql then
       via (db_sql d) DB_ERR_SQL_NUL sa_query d (\<lambda>g.
         let (ret, p) = run_op d c (g query)
         in (ret, if clear then snd (db_free_result p) else p))
     else (DB_ERR_TYPE_UNK, if clear then snd (db_free_result ptr) else ptr))"

definition db_select :: "'e db option \<Rightarrow> string \<Rightarrow> 'e db_ret" where
  "db_select ptr query = db_on ptr (\<lambda>d c.
     if db_t d = sql then
       via (db_sql d) DB_ERR_SQL_NUL sa_query d (\<lambda>g.
         if strncasecmp0 query ''select'' 6 then run_op d c (g query)
         else (DB_ERR_FUNC_UNK, Some d))
     else (DB_ERR_TYPE_UNK, Some d))"

definition db_fetch :: "'e db option \<Rightarrow> 'e db_ret" where
  "db_fetch ptr = db_on ptr (\<lambda>d c.
     if db_t d = sql then
       via (db_sql d) DB_ERR_SQL_NUL sa_fetch d (\<lambda>g.
         let (ret, p) = run_op d c g
         in (ret, if ret = DB_OK then snd (db_free_result p) else p))
     else (DB_ERR_TYPE_UNK, Some d))"

text \<open>\<open>db_insert\<close> and \<open>db_update\<close>: the statement must start with the verb.\<close>

definition db_verb :: "string \<Rightarrow> 'e db option \<Rightarrow> string \<Rightarrow> 'e db_ret" where
  "db_verb verb ptr query = db_on ptr (\<lambda>d c.
     if db_t d = sql then
       via (db_sql d) DB_ERR_SQL_NUL sa_query d (\<lambda>g.
         if strncasecmp0 query verb (length verb) then
           let (ret, p) = run_op d c (g query)
           in (ret, if ret = DB_OK then snd (db_free_result p) else p)
         else (DB_ERR_FUNC_UNK, Some d))
     else (DB_ERR_TYPE_UNK, Some d))"

definition db_insert :: "'e db option \<Rightarrow> string \<Rightarrow> 'e db_ret" where
  "db_insert = db_verb ''insert''"

definition db_update :: "'e db option \<Rightarrow> string \<Rightarrow> 'e db_ret" where
  "db_update = db_verb ''update''"

definition clear_conn_result :: "'e db option \<Rightarrow> 'e db option" where
  "clear_conn_result ptr =
     map_option (\<lambda>d. d\<lparr>db_conn := map_option (\<lambda>c. c\<lparr>cn_result := None\<rparr>) (db_conn d)\<rparr>) ptr"

definition db_set :: "'e db option \<Rightarrow> string \<Rightarrow> string \<Rightarrow> 'e db_ret" where
  "db_set ptr key val = db_on ptr (\<lambda>d c.
     if db_t d = nosql then
       via (db_nosql d) DB_ERR_NOSQL_NUL na_set d (\<lambda>g.
         let (ret, p) = run_op d c (g key val)
         in (ret, clear_conn_result (snd (db_free_result p))))
     else (DB_ERR_TYPE_UNK, Some d))"

definition db_get :: "'e db option \<Rightarrow> string \<Rightarrow> 'e db_ret" where
  "db_get ptr key = db_on ptr (\<lambda>d c.
     if db_t d = nosql then via (db_nosql d) DB_ERR_NOSQL_NUL na_get d (\<lambda>g. run_op d c (g key))
     else (DB_ERR_TYPE_UNK, Some d))"

section \<open>The reconnecting command\<close>

text \<open>From label \<open>loop\<close> of \<open>db_command\<close>: \<open>n\<close> failed reconnects and \<open>c\<close> commands are left.
  The command function \<open>cmd\<close> is the pointer that was checked on entry.\<close>

function db_command_loop ::
  "(string \<Rightarrow> 'e conn_op) \<Rightarrow> string \<Rightarrow> nat \<Rightarrow> nat \<Rightarrow> 'e db option \<Rightarrow> 'e db_ret" where
  "db_command_loop cmd str c n ptr =
     (if n = 0 then (DB_ERR_CONN_NOOK, ptr)
      else
        let p1 = snd (db_free_result ptr);
            p2 = snd (db_close p1);
            (ret, p3) = db_connect p2
        in if ret < 0 then db_command_loop cmd str c (n - 1) p3
           else
             let p4 = snd (db_status p3) in
             if c \<le> 1 then (DB_ERR_CONN_NOOK, p4)
             else
               let (ret', p5) = db_on p4 (\<lambda>d con. run_op d con (cmd str)) in
               if ret' < 0 then db_command_loop cmd str (c - 1) n p5
               else (ret', p5))"
  by pat_completeness auto
termination by (relation "measure (\<lambda>(_, _, c, n, _). c + n)") auto

definition db_command :: "'e db option \<Rightarrow> string \<Rightarrow> 'e db_ret" where
  "db_command ptr str = db_on ptr (\<lambda>d c.
     if db_t d = nosql then
       via (db_nosql d) DB_ERR_NOSQL_NUL na_command d (\<lambda>cmd.
         let (ret, p) = run_op d c (cmd str)
         in if ret < 0 then db_command_loop cmd str 5 5 p else (ret, p))
     else (DB_ERR_TYPE_UNK, Some d))"

declare db_command_loop.simps [simp del]

section \<open>Escaping\<close>

text \<open>\<open>db_sql_escape\<close>: the return value and what was written to \<open>dst\<close>; the terminator is
  written only when the return value is not negative.\<close>

fun db_sql_escape_loop :: "int \<Rightarrow> string \<Rightarrow> string \<Rightarrow> int \<times> string" where
  "db_sql_escape_loop dst_size dst [] = (int (length dst), dst)"
| "db_sql_escape_loop dst_size dst (c # src) =
     (if dst_size - 2 \<le> int (length dst) then (-2, dst)
      else if c = CHR 0x27 then db_sql_escape_loop dst_size (dst @ [CHR 0x27, CHR 0x27]) src
      else if c = CHR 0x5C then db_sql_escape_loop dst_size (dst @ [CHR 0x5C, CHR 0x5C]) src
      else db_sql_escape_loop dst_size (dst @ [c]) src)"

definition db_sql_escape :: "string option \<Rightarrow> int \<Rightarrow> int \<times> string" where
  "db_sql_escape src dst_size = (case src of
     None \<Rightarrow> (-1, [])
   | Some s \<Rightarrow> if dst_size \<le> 0 then (-1, []) else db_sql_escape_loop dst_size [] s)"

section \<open>Escaping: bounds and literals\<close>

definition esc :: "char \<Rightarrow> string" where
  "esc c = (if c = CHR 0x27 then [CHR 0x27, CHR 0x27]
            else if c = CHR 0x5C then [CHR 0x5C, CHR 0x5C] else [c])"

abbreviation escs :: "string \<Rightarrow> string" where
  "escs s \<equiv> concat (map esc s)"

lemma esc_length: "0 < length (esc c) \<and> length (esc c) \<le> 2"
  by (simp add: esc_def)

lemma db_sql_escape_loop_esc:
  "db_sql_escape_loop n dst (c # src) =
     (if n - 2 \<le> int (length dst) then (-2, dst) else db_sql_escape_loop n (dst @ esc c) src)"
  by (simp add: esc_def)

declare db_sql_escape_loop.simps(2) [simp del]

lemma db_sql_escape_loop_ok:
  "db_sql_escape_loop n dst src = (r, out) \<Longrightarrow> 0 \<le> r \<Longrightarrow> out = dst @ escs src \<and> r = int (length out)"
proof (induction src arbitrary: dst)
  case (Cons c src)
  then show ?case using Cons.IH [of "dst @ esc c"]
    by (simp add: db_sql_escape_loop_esc split: if_splits)
qed auto

lemma db_sql_escape_loop_bound:
  "db_sql_escape_loop n dst src = (r, out) \<Longrightarrow> int (length dst) < n \<Longrightarrow> int (length out) < n"
proof (induction src arbitrary: dst)
  case (Cons c src)
  have "int (length (dst @ esc c)) < n" if "\<not> n - 2 \<le> int (length dst)"
    using that esc_length [of c] by simp
  then show ?case using Cons by (auto simp: db_sql_escape_loop_esc split: if_splits)
qed simp

lemma escs_length: "length s \<le> length (escs s)"
proof (induction s)
  case (Cons c s)
  then show ?case by (simp add: esc_def)
qed simp

lemma db_sql_escape_loop_fits:
  "int (length dst + length (escs src)) + 2 \<le> n \<Longrightarrow>
   db_sql_escape_loop n dst src = (int (length dst + length (escs src)), dst @ escs src)"
proof (induction src arbitrary: dst)
  case (Cons c src)
  then have "\<not> n - 2 \<le> int (length dst)" by (simp add: esc_def split: if_splits)
  then show ?case using Cons.IH [of "dst @ esc c"] Cons.prems
    by (simp add: db_sql_escape_loop_esc)
qed simp

text \<open>How an SQL engine reads a literal after its opening quote: a doubled quote is a quote,
  a single one ends the literal. With \<open>bs\<close> a backslash takes the next character literally
  (the engines that read backslash escapes). The result is the value and the rest.\<close>

fun read_literal :: "bool \<Rightarrow> string \<Rightarrow> (string \<times> string) option" where
  "read_literal bs [] = None"
| "read_literal bs [c] = (if c = CHR 0x27 then Some ([], []) else None)"
| "read_literal bs (c # d # s) =
     (if c = CHR 0x27 then
        if d = CHR 0x27 then map_option (apfst (Cons c)) (read_literal bs s)
        else Some ([], d # s)
      else if bs \<and> c = CHR 0x5C then map_option (apfst (Cons d)) (read_literal bs s)
      else map_option (apfst (Cons c)) (read_literal bs (d # s)))"

text \<open>The value the engine stores: itself, or with doubled backslashes where the engine does
  not read them.\<close>

definition stored :: "bool \<Rightarrow> string \<Rightarrow> string" where
  "stored bs s = (if bs then s else concat (map (\<lambda>c. if c = CHR 0x5C then [c, c] else [c]) s))"

lemma read_literal_plain:
  "c \<noteq> CHR 0x27 \<Longrightarrow> \<not> (bs \<and> c = CHR 0x5C) \<Longrightarrow> s \<noteq> [] \<Longrightarrow>
   read_literal bs (c # s) = map_option (apfst (Cons c)) (read_literal bs s)"
  by (cases s) auto

lemma read_literal_escs:
  assumes "rest = [] \<or> hd rest \<noteq> CHR 0x27"
  shows "read_literal bs (escs s @ CHR 0x27 # rest) = Some (stored bs s, rest)"
proof (induction s)
  case Nil
  then show ?case using assms by (cases rest) (auto simp: stored_def)
next
  case (Cons c s)
  then show ?case by (auto simp: esc_def stored_def read_literal_plain)
qed

text \<open>Property C10. \<open>db_sql_escape\<close> never writes outside \<open>dst\<close> (the terminator included) for
  any source and any size, it succeeds whenever the escaped text fits, and when it succeeds
  the text put between quotes in a statement is read by the engine as exactly one literal:
  it cannot end early whatever the source holds (no injection). The value read back is the source
  on an engine that reads backslash escapes; on one that does not (standard SQL strings, the
  default of PostgreSQL) every backslash of the source comes back doubled.\<close>

theorem db_sql_escape_safe:
  assumes "0 < n" "db_sql_escape (Some src) n = (r, out)"
  shows "int (length out) < n \<and>
    (int (length (escs src)) + 2 \<le> n \<longrightarrow> r = int (length out)) \<and>
    (0 \<le> r \<longrightarrow> (\<forall>rest bs. rest = [] \<or> hd rest \<noteq> CHR 0x27 \<longrightarrow>
       read_literal bs (out @ CHR 0x27 # rest) = Some (stored bs src, rest)))"
proof -
  have l: "db_sql_escape_loop n [] src = (r, out)" using assms by (simp add: db_sql_escape_def)
  have "int (length out) < n" using db_sql_escape_loop_bound [OF l] assms(1) by simp
  moreover have "int (length (escs src)) + 2 \<le> n \<longrightarrow> r = int (length out)"
    using db_sql_escape_loop_fits [of "[]" src n] l by auto
  moreover have "0 \<le> r \<longrightarrow> (\<forall>rest bs. rest = [] \<or> hd rest \<noteq> CHR 0x27 \<longrightarrow>
      read_literal bs (out @ CHR 0x27 # rest) = Some (stored bs src, rest))"
    using db_sql_escape_loop_ok [OF l] read_literal_escs by auto
  ultimately show ?thesis by blast
qed

theorem db_sql_escape_safe_witness:
  "db_sql_escape (Some [CHR ''a'', CHR 0x27, CHR '';'']) 160 = (4, [CHR ''a'', CHR 0x27, CHR 0x27, CHR '';'']) \<and>
   read_literal True [CHR ''a'', CHR 0x27, CHR 0x27, CHR '';'', CHR 0x27] = Some ([CHR ''a'', CHR 0x27, CHR '';''], [])"
proof -
  have e: "db_sql_escape (Some [CHR ''a'', CHR 0x27, CHR '';'']) 160 = (4, [CHR ''a'', CHR 0x27, CHR 0x27, CHR '';''])"
    by (simp add: db_sql_escape_def db_sql_escape_loop_esc esc_def)
  show ?thesis using db_sql_escape_safe [OF _ e] e by (simp add: stored_def)
qed

section \<open>The reconnecting command ends\<close>

text \<open>A counter on connections: \<open>connect\<close> raises it by at most \<open>u\<close>, \<open>command\<close> by at most \<open>v\<close>,
  and no other operation of the engine raises it. So it may count the connects, or the commands.\<close>

definition counts :: "nat \<Rightarrow> nat \<Rightarrow> ('e db_conn \<Rightarrow> nat) \<Rightarrow> 'e nosql_api \<Rightarrow> bool" where
  "counts u v cnt a \<longleftrightarrow>
     (\<forall>g c. na_connect a = Some g \<longrightarrow> cnt (snd (g c)) \<le> cnt c + u) \<and>
     (\<forall>g c s. na_command a = Some g \<longrightarrow> cnt (snd (g s c)) \<le> cnt c + v) \<and>
     (\<forall>g c. na_status a = Some g \<longrightarrow> cnt (snd (g c)) \<le> cnt c) \<and>
     (\<forall>g c. na_close a = Some g \<longrightarrow> cnt (snd (g c)) \<le> cnt c) \<and>
     (\<forall>g c. na_free_reply a = Some g \<longrightarrow> cnt (snd (g c)) \<le> cnt c)"

text \<open>A handle of an engine with the given function table, and the counter's value on it.\<close>

definition on_engine :: "'e nosql_api \<Rightarrow> ('e db_conn \<Rightarrow> nat) \<Rightarrow> nat \<Rightarrow> 'e db option \<Rightarrow> bool" where
  "on_engine a cnt k ptr \<longleftrightarrow> (\<exists>d c. ptr = Some d \<and> db_t d = nosql \<and> db_nosql d = Some a \<and>
     db_conn d = Some c \<and> cnt c \<le> k)"

lemma on_engine_run:
  assumes "on_engine a cnt k ptr" "\<And>c. cnt c \<le> k \<Longrightarrow> cnt (snd (g c)) \<le> k'"
  shows "on_engine a cnt k' (snd (db_on ptr (\<lambda>d c. run_op d c g)))"
  using assms by (auto simp: on_engine_def db_on_def split: prod.splits) (metis snd_conv)

lemma on_engine_ops [inv_intros]:
  assumes "counts u v cnt a" "on_engine a cnt k ptr"
  shows "on_engine a cnt k (snd (db_free_result ptr))" "on_engine a cnt k (snd (db_close ptr))"
    "on_engine a cnt k (snd (db_status ptr))" "on_engine a cnt (k + u) (snd (db_connect ptr))"
proof -
  obtain d c where d: "ptr = Some d" "db_t d = nosql" "db_nosql d = Some a" "db_conn d = Some c" "cnt c \<le> k"
    using assms(2) by (auto simp: on_engine_def)
  have le: "cnt (snd (g c)) \<le> k" if "na_free_reply a = Some g \<or> na_close a = Some g \<or> na_status a = Some g" for g
    using that assms(1) d(5) le_trans unfolding counts_def by blast
  have le': "cnt (snd (g c)) \<le> k + u" if "na_connect a = Some g" for g
    using that assms(1) d(5) le_trans add_le_mono1 unfolding counts_def by blast
  show "on_engine a cnt k (snd (db_free_result ptr))" "on_engine a cnt k (snd (db_close ptr))"
    "on_engine a cnt k (snd (db_status ptr))" "on_engine a cnt (k + u) (snd (db_connect ptr))"
    using d le le'
    by (auto simp: on_engine_def db_free_result_def db_close_def db_status_def db_connect_def db_on_def
        via_def split_beta split: option.splits)
qed

lemma db_command_loop_bound:
  assumes a: "counts u v cnt a"
  shows "na_command a = Some cmd \<Longrightarrow> on_engine a cnt k ptr \<Longrightarrow> 0 < c \<Longrightarrow>
    (0 \<le> fst (db_command_loop cmd s c n ptr) \<or> fst (db_command_loop cmd s c n ptr) = DB_ERR_CONN_NOOK) \<and>
    on_engine a cnt (k + (if n = 0 then 0 else u * (c + n - 1) + v * (c - 1))) (snd (db_command_loop cmd s c n ptr))"
proof (induction cmd s c n ptr arbitrary: k rule: db_command_loop.induct)
  case (1 cmd s c n ptr)
  show ?case
  proof (cases "n = 0")
    case True
    then show ?thesis using "1.prems" by (simp add: db_command_loop.simps)
  next
    case False
    define p2 where "p2 = snd (db_close (snd (db_free_result ptr)))"
    obtain ret p3 where con: "db_connect p2 = (ret, p3)" by (cases "db_connect p2")
    have p3: "on_engine a cnt (k + u) p3"
      using on_engine_ops [OF a] "1.prems"(2) con unfolding p2_def by (metis snd_conv)
    have mono: "on_engine a cnt k' p \<Longrightarrow> k' \<le> k'' \<Longrightarrow> on_engine a cnt k'' p" for k' k'' p
      by (auto simp: on_engine_def)
    have one: "u \<le> u * (c + n - 1)"
      using False "1.prems"(3) by (cases "c + n - 1") auto
    show ?thesis
    proof (cases "ret < 0")
      case True
      have L: "db_command_loop cmd s c n ptr = db_command_loop cmd s c (n - 1) p3"
        using False True con by (subst db_command_loop.simps) (simp add: p2_def Let_def)
      note IH = "1.IH"(1) [OF False refl refl con [unfolded p2_def, symmetric] refl True "1.prems"(1) p3 "1.prems"(3)]
      have le: "k + u + (if n - 1 = 0 then 0 else u * (c + (n - 1) - 1) + v * (c - 1)) \<le> k + (u * (c + n - 1) + v * (c - 1))"
      proof (cases "n - 1 = 0")
        case False
        then obtain m where "n = Suc (Suc m)" by (cases n; cases "n - 1") auto
        then show ?thesis using "1.prems"(3) by (cases c) (simp_all add: algebra_simps)
      next
        case True
        show ?thesis unfolding if_P [OF True] using trans_le_add1 [OF one, of "v * (c - 1)"]
          by (simp only: add_0_right add.assoc nat_add_left_cancel_le)
      qed
      show ?thesis unfolding L using IH False mono [OF _ le] by simp
    next
      case ok: False
      define p4 where "p4 = snd (db_status p3)"
      have p4: "on_engine a cnt (k + u) p4" using on_engine_ops(3) [OF a p3] by (simp add: p4_def)
      obtain ret' p5 where run: "db_on p4 (\<lambda>d con. run_op d con (cmd s)) = (ret', p5)"
        by (cases "db_on p4 (\<lambda>d con. run_op d con (cmd s))")
      have cmd_le: "cnt (snd (cmd s con)) \<le> k + u + v" if "cnt con \<le> k + u" for con
        using that a "1.prems"(1) le_trans add_le_mono1 unfolding counts_def by blast
      have p5: "on_engine a cnt (k + u + v) p5" using on_engine_run [OF p4 cmd_le, of "\<lambda>c. c"] run by simp
      have L: "db_command_loop cmd s c n ptr =
          (if c \<le> 1 then (DB_ERR_CONN_NOOK, p4)
           else if ret' < 0 then db_command_loop cmd s (c - 1) n p5 else (ret', p5))"
        using False ok con run by (subst db_command_loop.simps) (simp add: p2_def p4_def Let_def)
      show ?thesis
      proof (cases "c \<le> 1")
        case True
        then show ?thesis unfolding L using p4 False one by (auto intro: mono)
      next
        case c: False
        then have v: "v \<le> v * (c - 1)" by (cases "c - 1") auto
        show ?thesis
        proof (cases "0 \<le> ret'")
          case True
          have "k + u + v \<le> k + (u * (c + n - 1) + v * (c - 1))"
            unfolding add.assoc nat_add_left_cancel_le by (rule add_le_mono [OF one v])
          from mono [OF p5 this] show ?thesis unfolding L using True False c by simp
        next
          case go: False
          then have IH: "(0 \<le> fst (db_command_loop cmd s (c - 1) n p5) \<or>
              fst (db_command_loop cmd s (c - 1) n p5) = DB_ERR_CONN_NOOK) \<and>
            on_engine a cnt (k + u + v + (if n = 0 then 0 else u * (c - 1 + n - 1) + v * (c - 1 - 1))) (snd (db_command_loop cmd s (c - 1) n p5))"
            using "1.IH"(2) [OF False refl refl con [unfolded p2_def, symmetric] refl ok refl _
                run [unfolded p4_def, symmetric] refl _ "1.prems"(1) p5] c by simp
          have le: "k + u + v + (u * (c - 1 + n - 1) + v * (c - 1 - 1)) \<le> k + (u * (c + n - 1) + v * (c - 1))"
          proof -
            obtain b where "c = Suc (Suc b)" using c by (cases c; cases "c - 1") auto
            moreover obtain m where "n = Suc m" using False by (cases n) auto
            ultimately show ?thesis by (simp add: algebra_simps)
          qed
          show ?thesis unfolding L using go c IH False mono [OF _ le] by simp
        qed
      qed
    qed
  qed
qed

text \<open>Property C38. \<open>db_command\<close> on a connected NoSQL handle always returns, whatever the
  engine answers: the result is a non-negative engine result or \<open>DB_ERR_CONN_NOOK\<close>, and on
  the way it sends the command at most five times and connects at most nine times.\<close>

theorem db_command_bounded:
  assumes "counts u v cnt a" "na_command a = Some cmd" "on_engine a cnt k ptr"
  shows "\<exists>ret p. db_command ptr str = (ret, p) \<and> (0 \<le> ret \<or> ret = DB_ERR_CONN_NOOK) \<and>
    on_engine a cnt (k + 9 * u + 5 * v) p"
proof -
  have mono: "on_engine a cnt k' p \<Longrightarrow> k' \<le> k'' \<Longrightarrow> on_engine a cnt k'' p" for k' k'' p
    by (auto simp: on_engine_def)
  obtain d c where d: "ptr = Some d" "db_t d = nosql" "db_nosql d = Some a" "db_conn d = Some c" "cnt c \<le> k"
    using assms(3) by (auto simp: on_engine_def)
  define q where "q = run_op d c (cmd str)"
  have "cnt (snd (cmd str c)) \<le> k + v" using assms(1,2) d(5) le_trans add_le_mono1 unfolding counts_def by blast
  then have q: "on_engine a cnt (k + v) (snd q)" using d by (auto simp: q_def on_engine_def split_beta)
  have E: "db_command ptr str = (if fst q < 0 then db_command_loop cmd str 5 5 (snd q) else q)"
    using d assms(2) by (auto simp: db_command_def db_on_def via_def q_def split: prod.splits)
  show ?thesis
    using db_command_loop_bound [OF assms(1,2) q, of 5 str 5] q unfolding E
    by (cases "fst q < 0") (auto intro: mono simp: prod_eq_iff algebra_simps)
qed

text \<open>An engine that never answers and never accepts a connection.\<close>

definition dead_api :: "nat nosql_api" where
  "dead_api = \<lparr>na_connect = Some (\<lambda>c. (-1, c)), na_command = Some (\<lambda>s c. (-1, c)), na_set = None, na_get = None,
     na_status = Some (\<lambda>c. (-1, c)), na_close = Some (\<lambda>c. (0, c)), na_free_reply = Some (\<lambda>c. (0, c))\<rparr>"

definition dead_db :: "nat db option" where
  "dead_db = Some \<lparr>db_t = nosql, db_sql = None, db_nosql = Some dead_api,
     db_conn = Some (db_conn_init ''redis'' ''localhost'' [] 6379 [] [] 1)\<rparr>"

text \<open>An engine that accepts every connection and fails every command: a pair of counts.\<close>

definition tick :: "(nat \<times> nat \<Rightarrow> nat \<times> nat) \<Rightarrow> (nat \<times> nat) db_conn \<Rightarrow> (nat \<times> nat) db_conn" where
  "tick f c = c\<lparr>cn_rconn := Some (f (case cn_rconn c of None \<Rightarrow> (0, 0) | Some n \<Rightarrow> n))\<rparr>"

definition busy_api :: "(nat \<times> nat) nosql_api" where
  "busy_api = \<lparr>na_connect = Some (\<lambda>c. (0, tick (apfst Suc) c)), na_command = Some (\<lambda>s c. (-1, tick (apsnd Suc) c)),
     na_set = None, na_get = None, na_status = Some (\<lambda>c. (0, c)), na_close = Some (\<lambda>c. (0, c)),
     na_free_reply = Some (\<lambda>c. (0, c))\<rparr>"

definition ticks :: "((nat \<times> nat) \<Rightarrow> nat) \<Rightarrow> (nat \<times> nat) db_conn \<Rightarrow> nat" where
  "ticks f c = (case cn_rconn c of None \<Rightarrow> 0 | Some n \<Rightarrow> f n)"

definition busy_db :: "(nat \<times> nat) db option" where
  "busy_db = Some \<lparr>db_t = nosql, db_sql = None, db_nosql = Some busy_api,
     db_conn = Some (db_conn_init ''redis'' ''localhost'' [] 6379 [] [] 1)\<rparr>"

theorem db_command_bounded_witness:
  "\<exists>ret p. db_command busy_db ''keys *'' = (ret, p) \<and> (0 \<le> ret \<or> ret = DB_ERR_CONN_NOOK) \<and>
    on_engine busy_api (ticks fst) 9 p \<and> on_engine busy_api (ticks snd) 5 p"
proof -
  have "counts 1 0 (ticks fst) busy_api" "counts 0 1 (ticks snd) busy_api"
    by (auto simp: counts_def ticks_def busy_api_def tick_def split: option.splits)
  moreover have "on_engine busy_api (ticks fst) 0 busy_db" "on_engine busy_api (ticks snd) 0 busy_db"
    by (simp_all add: on_engine_def busy_db_def ticks_def db_conn_init_def)
  moreover have "na_command busy_api = Some (\<lambda>s c. (-1, tick (apsnd Suc) c))" by (simp add: busy_api_def)
  ultimately show ?thesis
    using db_command_bounded [of 1 0 "ticks fst" busy_api _ 0 busy_db "''keys *''"]
      db_command_bounded [of 0 1 "ticks snd" busy_api _ 0 busy_db "''keys *''"] by fastforce
qed

text \<open>The verb guards: \<open>db_select\<close>, \<open>db_insert\<close> and \<open>db_update\<close> hand a statement to
  the engine only on an SQL handle with a connection, and only when it starts with their own
  verb (in any case); otherwise the handle is unchanged and the result is an error.\<close>

theorem db_verb_gate:
  assumes "op = db_select \<and> verb = ''select'' \<or> op = db_insert \<and> verb = ''insert'' \<or>
           op = db_update \<and> verb = ''update''"
    and "(case ptr of Some d \<Rightarrow> db_t d \<noteq> sql \<or> db_conn d = None | None \<Rightarrow> True) \<or>
         \<not> strncasecmp0 query verb 6"
  shows "\<exists>e<0. op ptr query = (e, ptr)"
  using assms
  by (auto simp: db_select_def db_insert_def db_update_def db_verb_def db_on_def via_def eval_nat_numeral
      split: option.splits)

theorem db_verb_gate_witness:
  "\<exists>e<0. db_select dead_db ''select 1'' = (e, dead_db)"
  using db_verb_gate [where op = db_select and verb = "''select''" and ptr = dead_db and query = "''select 1''"] by (simp add: dead_db_def)

end
