(* ===== verification/RtCache.thy ===== *)
theory RtCache
  imports RtData Db
begin

text \<open>
  The reference-data cache of the Rating module, \<open>rt_cache.h\<close> and \<open>rt_cache.c\<close>: six hash
  tables of 256 chains with a time to live of 60 seconds, their get and put operations, and
  the two batch preloads. The wall clock is the argument \<open>now\<close>; the reader-writer lock makes
  every operation atomic, so an operation is a function of the whole cache. A NULL cache is
  \<open>None\<close>; a NULL or empty array is the empty list. Allocation always succeeds.
\<close>

section \<open>State\<close>

definition RT_CACHE_BUCKETS :: u32 where "RT_CACHE_BUCKETS = 256"
definition RT_CACHE_TTL :: int where "RT_CACHE_TTL = 60"

record ('k, 'v) rt_cache_entry =
  ce_key :: 'k
  ce_ts :: int
  ce_val :: 'v

record rt_cache_racc_data =
  rd_bacc_id :: u32
  rd_bplan_id :: u32
  rd_bplan_start_period :: u32
  rd_bplan_end_period :: u32
  rd_billing_day :: u16
  rd_round_mode_id :: u32
  rd_day_of_payment :: u32

type_synonym ('k, 'v) buckets = "u32 \<Rightarrow> ('k, 'v) rt_cache_entry list"

record rt_cache =
  rc_rates :: "(u32, rate list) buckets"
  rc_tariffs :: "(u32, calc_function list) buckets"
  rc_raccs :: "(string, rt_cache_racc_data) buckets"
  rc_pcards :: "(u32, pcard list) buckets"
  rc_tcs :: "(u32, int) buckets"
  rc_fbs :: "(u32, int) buckets"
  rc_rates_hits :: u32
  rc_rates_misses :: u32
  rc_tariff_hits :: u32
  rc_tariff_misses :: u32
  rc_racc_hits :: u32
  rc_racc_misses :: u32
  rc_pcard_hits :: u32
  rc_pcard_misses :: u32

definition rt_cache_init :: rt_cache where
  "rt_cache_init = \<lparr>rc_rates = (\<lambda>_. []), rc_tariffs = (\<lambda>_. []), rc_raccs = (\<lambda>_. []),
     rc_pcards = (\<lambda>_. []), rc_tcs = (\<lambda>_. []), rc_fbs = (\<lambda>_. []),
     rc_rates_hits = 0, rc_rates_misses = 0, rc_tariff_hits = 0, rc_tariff_misses = 0,
     rc_racc_hits = 0, rc_racc_misses = 0, rc_pcard_hits = 0, rc_pcard_misses = 0\<rparr>"

definition racc_data0 :: rt_cache_racc_data where
  "racc_data0 = \<lparr>rd_bacc_id = 0, rd_bplan_id = 0, rd_bplan_start_period = 0,
     rd_bplan_end_period = 0, rd_billing_day = 0, rd_round_mode_id = 0, rd_day_of_payment = 0\<rparr>"

section \<open>Hashes, freshness, copies\<close>

definition rt_cache_hash_int :: "u32 \<Rightarrow> u32" where
  "rt_cache_hash_int key = key mod RT_CACHE_BUCKETS"

text \<open>\<open>char\<close> is signed: a byte from 128 on is added as a negative \<open>int\<close>.\<close>

fun hash_str_loop :: "u32 \<Rightarrow> string \<Rightarrow> u32" where
  "hash_str_loop h [] = h"
| "hash_str_loop h (c # cs) =
     hash_str_loop ((push_bit 5 h + h) + word_of_int (signed_take_bit 7 (int (byte c)))) cs"

definition rt_cache_hash_str :: "string \<Rightarrow> u32" where
  "rt_cache_hash_str key = hash_str_loop 5381 key mod RT_CACHE_BUCKETS"

definition rt_cache_fresh :: "int \<Rightarrow> int \<Rightarrow> bool" where
  "rt_cache_fresh now ts \<longleftrightarrow> now - ts \<le> RT_CACHE_TTL"

definition rt_cache_rates_dup :: "rate list \<Rightarrow> rate list option" where
  "rt_cache_rates_dup src = (if src = [] then None else Some (map (\<lambda>r. r\<lparr>rt_calc_funcs := None\<rparr>) src))"

definition rt_cache_calc_dup :: "calc_function list \<Rightarrow> calc_function list option" where
  "rt_cache_calc_dup src = (if src = [] then None else Some src)"

definition rt_cache_pcard_dup :: "pcard list \<Rightarrow> pcard list option" where
  "rt_cache_pcard_dup src = (if src = [] then None else Some src)"

section \<open>Chains\<close>

fun chain_find :: "'k \<Rightarrow> ('k, 'v) rt_cache_entry list \<Rightarrow> ('k, 'v) rt_cache_entry option" where
  "chain_find k [] = None"
| "chain_find k (e # es) = (if ce_key e = k then Some e else chain_find k es)"

text \<open>Replace in place if the key exists, else a new head; \<open>sk\<close> is the key as it is stored.\<close>

fun chain_replace ::
  "int \<Rightarrow> 'k \<Rightarrow> 'v \<Rightarrow> ('k, 'v) rt_cache_entry list \<Rightarrow> ('k, 'v) rt_cache_entry list option" where
  "chain_replace now k v [] = None"
| "chain_replace now k v (e # es) =
     (if ce_key e = k then Some (e\<lparr>ce_val := v, ce_ts := now\<rparr> # es)
      else map_option (Cons e) (chain_replace now k v es))"

definition chain_put ::
  "int \<Rightarrow> 'k \<Rightarrow> 'k \<Rightarrow> 'v \<Rightarrow> ('k, 'v) rt_cache_entry list \<Rightarrow> ('k, 'v) rt_cache_entry list" where
  "chain_put now k sk v es = (case chain_replace now k v es of
     Some es' \<Rightarrow> es'
   | None \<Rightarrow> \<lparr>ce_key = sk, ce_ts = now, ce_val = v\<rparr> # es)"

definition chain_get :: "int \<Rightarrow> 'k \<Rightarrow> ('k, 'v) rt_cache_entry list \<Rightarrow> 'v option" where
  "chain_get now k es = (case chain_find k es of
     None \<Rightarrow> None
   | Some e \<Rightarrow> if rt_cache_fresh now (ce_ts e) then Some (ce_val e) else None)"

section \<open>The operations\<close>

definition rt_cache_rates_get :: "int \<Rightarrow> u32 \<Rightarrow> rt_cache option \<Rightarrow> rate list option \<times> rt_cache option" where
  "rt_cache_rates_get now bplan_id cache = (case cache of
     None \<Rightarrow> (None, None)
   | Some c \<Rightarrow>
       let copy = chain_get now bplan_id (rc_rates c (rt_cache_hash_int bplan_id)) \<bind> rt_cache_rates_dup
       in (copy, Some (if copy \<noteq> None then c\<lparr>rc_rates_hits := rc_rates_hits c + 1\<rparr>
                       else c\<lparr>rc_rates_misses := rc_rates_misses c + 1\<rparr>)))"

definition rt_cache_rates_put :: "int \<Rightarrow> u32 \<Rightarrow> rate list \<Rightarrow> rt_cache option \<Rightarrow> rt_cache option" where
  "rt_cache_rates_put now bplan_id rates cache = (case cache of
     None \<Rightarrow> None
   | Some c \<Rightarrow> (case rt_cache_rates_dup rates of
         None \<Rightarrow> Some c
       | Some copy \<Rightarrow>
           let h = rt_cache_hash_int bplan_id
           in Some (c\<lparr>rc_rates := (rc_rates c)(h := chain_put now bplan_id bplan_id copy (rc_rates c h))\<rparr>)))"

definition rt_cache_tariff_get ::
  "int \<Rightarrow> u32 \<Rightarrow> rt_cache option \<Rightarrow> calc_function list option \<times> rt_cache option" where
  "rt_cache_tariff_get now tariff_id cache = (case cache of
     None \<Rightarrow> (None, None)
   | Some c \<Rightarrow>
       let copy = chain_get now tariff_id (rc_tariffs c (rt_cache_hash_int tariff_id)) \<bind> rt_cache_calc_dup
       in (copy, Some (if copy \<noteq> None then c\<lparr>rc_tariff_hits := rc_tariff_hits c + 1\<rparr>
                       else c\<lparr>rc_tariff_misses := rc_tariff_misses c + 1\<rparr>)))"

definition rt_cache_tariff_put ::
  "int \<Rightarrow> u32 \<Rightarrow> calc_function list \<Rightarrow> rt_cache option \<Rightarrow> rt_cache option" where
  "rt_cache_tariff_put now tariff_id funcs cache = (case cache of
     None \<Rightarrow> None
   | Some c \<Rightarrow> (case rt_cache_calc_dup funcs of
         None \<Rightarrow> Some c
       | Some copy \<Rightarrow>
           let h = rt_cache_hash_int tariff_id
           in Some (c\<lparr>rc_tariffs := (rc_tariffs c)(h := chain_put now tariff_id tariff_id copy (rc_tariffs c h))\<rparr>)))"

definition rt_cache_racc_get ::
  "int \<Rightarrow> string \<Rightarrow> rt_cache option \<Rightarrow> rt_cache_racc_data option \<times> rt_cache option" where
  "rt_cache_racc_get now key cache = (case cache of
     None \<Rightarrow> (None, None)
   | Some c \<Rightarrow>
       let out = chain_get now key (rc_raccs c (rt_cache_hash_str key))
       in (out, Some (if out \<noteq> None then c\<lparr>rc_racc_hits := rc_racc_hits c + 1\<rparr>
                      else c\<lparr>rc_racc_misses := rc_racc_misses c + 1\<rparr>)))"

definition rt_cache_racc_put ::
  "int \<Rightarrow> string \<Rightarrow> rt_cache_racc_data \<Rightarrow> rt_cache option \<Rightarrow> rt_cache option" where
  "rt_cache_racc_put now key data cache = (case cache of
     None \<Rightarrow> None
   | Some c \<Rightarrow>
       let h = rt_cache_hash_str key
       in Some (c\<lparr>rc_raccs := (rc_raccs c)(h := chain_put now key (strncpy key 127) data (rc_raccs c h))\<rparr>))"

definition rt_cache_pcard_get ::
  "int \<Rightarrow> u32 \<Rightarrow> rt_cache option \<Rightarrow> pcard list option \<times> rt_cache option" where
  "rt_cache_pcard_get now bacc_id cache = (case cache of
     None \<Rightarrow> (None, None)
   | Some c \<Rightarrow>
       let copy = chain_get now bacc_id (rc_pcards c (rt_cache_hash_int bacc_id)) \<bind> rt_cache_pcard_dup
       in (copy, Some (if copy \<noteq> None then c\<lparr>rc_pcard_hits := rc_pcard_hits c + 1\<rparr>
                       else c\<lparr>rc_pcard_misses := rc_pcard_misses c + 1\<rparr>)))"

definition rt_cache_pcard_put :: "int \<Rightarrow> u32 \<Rightarrow> pcard list \<Rightarrow> rt_cache option \<Rightarrow> rt_cache option" where
  "rt_cache_pcard_put now bacc_id cards cache = (case cache of
     None \<Rightarrow> None
   | Some c \<Rightarrow> (case rt_cache_pcard_dup cards of
         None \<Rightarrow> Some c
       | Some copy \<Rightarrow>
           let h = rt_cache_hash_int bacc_id
           in Some (c\<lparr>rc_pcards := (rc_pcards c)(h := chain_put now bacc_id bacc_id copy (rc_pcards c h))\<rparr>)))"

text \<open>The two flag caches keep no hit counters; the returned cache is the argument.\<close>

definition rt_cache_tc_get :: "int \<Rightarrow> u32 \<Rightarrow> rt_cache option \<Rightarrow> int option \<times> rt_cache option" where
  "rt_cache_tc_get now tariff_id cache = (case cache of
     None \<Rightarrow> (None, None)
   | Some c \<Rightarrow> (chain_get now tariff_id (rc_tcs c (rt_cache_hash_int tariff_id)), cache))"

definition rt_cache_tc_put :: "int \<Rightarrow> u32 \<Rightarrow> int \<Rightarrow> rt_cache option \<Rightarrow> rt_cache option" where
  "rt_cache_tc_put now tariff_id has_tc cache = (case cache of
     None \<Rightarrow> None
   | Some c \<Rightarrow>
       let h = rt_cache_hash_int tariff_id
       in Some (c\<lparr>rc_tcs := (rc_tcs c)(h := chain_put now tariff_id tariff_id has_tc (rc_tcs c h))\<rparr>))"

definition rt_cache_fbs_get :: "int \<Rightarrow> u32 \<Rightarrow> rt_cache option \<Rightarrow> int option \<times> rt_cache option" where
  "rt_cache_fbs_get now tariff_id cache = (case cache of
     None \<Rightarrow> (None, None)
   | Some c \<Rightarrow> (chain_get now tariff_id (rc_fbs c (rt_cache_hash_int tariff_id)), cache))"

definition rt_cache_fbs_put :: "int \<Rightarrow> u32 \<Rightarrow> int \<Rightarrow> rt_cache option \<Rightarrow> rt_cache option" where
  "rt_cache_fbs_put now tariff_id limit cache = (case cache of
     None \<Rightarrow> None
   | Some c \<Rightarrow>
       let h = rt_cache_hash_int tariff_id
       in Some (c\<lparr>rc_fbs := (rc_fbs c)(h := chain_put now tariff_id tariff_id limit (rc_fbs c h))\<rparr>))"

lemmas rt_cache_ops =
  rt_cache_rates_get_def rt_cache_rates_put_def rt_cache_tariff_get_def rt_cache_tariff_put_def
  rt_cache_racc_get_def rt_cache_racc_put_def rt_cache_pcard_get_def rt_cache_pcard_put_def
  rt_cache_tc_get_def rt_cache_tc_put_def rt_cache_fbs_get_def rt_cache_fbs_put_def

section \<open>The contract of a cache with a time to live\<close>

text \<open>What a user of one of the caches relies on: \<open>view\<close> is the abstract content, a map from
  keys to the time and the value of the last accepted put.\<close>

locale ttl_cache =
  fixes get :: "int \<Rightarrow> 'k \<Rightarrow> 'c \<Rightarrow> 'v option \<times> 'c"
    and put :: "int \<Rightarrow> 'k \<Rightarrow> 'v \<Rightarrow> 'c \<Rightarrow> 'c"
    and view :: "'c \<Rightarrow> 'k \<Rightarrow> (int \<times> 'v) option"
    and live :: "'c \<Rightarrow> bool"
    and keyok :: "'k \<Rightarrow> bool"
    and nrm :: "'v \<Rightarrow> 'v option"
  assumes get_view: "live c \<Longrightarrow> keyok k \<Longrightarrow> fst (get now k c) =
      (case view c k of Some (t, v) \<Rightarrow> if now - t \<le> 60 then Some v else None | None \<Rightarrow> None)"
    and get_live: "live c \<Longrightarrow> live (snd (get now k c))"
    and get_keeps: "live c \<Longrightarrow> view (snd (get now k c)) = view c"
    and put_live: "live c \<Longrightarrow> keyok k \<Longrightarrow> live (put now k v c)"
    and put_view: "live c \<Longrightarrow> keyok k \<Longrightarrow> view (put now k v c) =
      (case nrm v of Some w \<Rightarrow> (view c)(k \<mapsto> (now, w)) | None \<Rightarrow> view c)"

datatype ('k, 'v) cache_op = Get int 'k | Put int 'k 'v

fun op_key :: "('k, 'v) cache_op \<Rightarrow> 'k" where
  "op_key (Get now k) = k"
| "op_key (Put now k v) = k"

text \<open>A history of operations on a cache, and on its specification: the map of the last puts.\<close>

fun cache_run ::
  "(int \<Rightarrow> 'k \<Rightarrow> 'c \<Rightarrow> 'v option \<times> 'c) \<Rightarrow> (int \<Rightarrow> 'k \<Rightarrow> 'v \<Rightarrow> 'c \<Rightarrow> 'c) \<Rightarrow>
   ('k, 'v) cache_op list \<Rightarrow> 'c \<Rightarrow> 'v option list" where
  "cache_run get put [] c = []"
| "cache_run get put (Get now k # ops) c = (let (r, c') = get now k c in r # cache_run get put ops c')"
| "cache_run get put (Put now k v # ops) c = cache_run get put ops (put now k v c)"

fun spec_run ::
  "('v \<Rightarrow> 'v option) \<Rightarrow> ('k, 'v) cache_op list \<Rightarrow> ('k \<Rightarrow> (int \<times> 'v) option) \<Rightarrow> 'v option list" where
  "spec_run nrm [] m = []"
| "spec_run nrm (Get now k # ops) m =
     (case m k of Some (t, v) \<Rightarrow> if now - t \<le> 60 then Some v else None | None \<Rightarrow> None) # spec_run nrm ops m"
| "spec_run nrm (Put now k v # ops) m =
     spec_run nrm ops (case nrm v of Some w \<Rightarrow> m(k \<mapsto> (now, w)) | None \<Rightarrow> m)"

text \<open>The way the program reads through a cache: on a miss the source is asked and the answer
  put.\<close>

definition read_through ::
  "(int \<Rightarrow> 'k \<Rightarrow> 'c \<Rightarrow> 'v option \<times> 'c) \<Rightarrow> (int \<Rightarrow> 'k \<Rightarrow> 'v \<Rightarrow> 'c \<Rightarrow> 'c) \<Rightarrow>
   (int \<Rightarrow> 'k \<Rightarrow> 'v) \<Rightarrow> int \<Rightarrow> 'k \<Rightarrow> 'c \<Rightarrow> 'v \<times> 'c" where
  "read_through get put src now k c = (case get now k c of
     (Some v, c') \<Rightarrow> (v, c')
   | (None, c') \<Rightarrow> (src now k, put now k (src now k) c'))"

text \<open>Every cached value was the source's value at the time it is stamped with, not later than
  \<open>now\<close>.\<close>

definition faithful :: "('v \<Rightarrow> 'v option) \<Rightarrow> (int \<Rightarrow> 'k \<Rightarrow> 'v) \<Rightarrow> int \<Rightarrow> ('k \<Rightarrow> (int \<times> 'v) option) \<Rightarrow> bool" where
  "faithful nrm src now m \<longleftrightarrow> (\<forall>k t v. m k = Some (t, v) \<longrightarrow> t \<le> now \<and> nrm (src t k) = Some v)"

context ttl_cache
begin

lemma run_refines_spec:
  "live c \<Longrightarrow> \<forall>op \<in> set ops. keyok (op_key op) \<Longrightarrow> cache_run get put ops c = spec_run nrm ops (view c)"
proof (induction ops arbitrary: c)
  case (Cons op ops)
  show ?case
  proof (cases op)
    case (Get now k)
    then show ?thesis using Cons get_view [of c k now] get_live [of c now k] get_keeps [of c now k]
      by (simp add: split_beta)
  next
    case (Put now k v)
    then show ?thesis using Cons put_live put_view by simp
  qed
qed simp

lemma read_through_bounded:
  assumes "live c" "keyok k" "faithful nrm src now (view c)"
  shows "\<exists>t. now - 60 \<le> t \<and> t \<le> now \<and>
      (fst (read_through get put src now k c) = src now k \<or>
       nrm (src t k) = Some (fst (read_through get put src now k c)))"
    and "faithful nrm src now (view (snd (read_through get put src now k c)))"
    and "live (snd (read_through get put src now k c))"
proof -
  obtain r c' where g: "get now k c = (r, c')" by (cases "get now k c")
  have c': "live c'" "view c' = view c" using get_live get_keeps g assms(1) by (metis snd_conv)+
  have r: "r = (case view c k of Some (t, v) \<Rightarrow> if now - t \<le> 60 then Some v else None | None \<Rightarrow> None)"
    using get_view [OF assms(1,2), of now] g by simp
  show "\<exists>t. now - 60 \<le> t \<and> t \<le> now \<and>
      (fst (read_through get put src now k c) = src now k \<or>
       nrm (src t k) = Some (fst (read_through get put src now k c)))"
  proof (cases r)
    case None
    then show ?thesis by (intro exI [of _ now]) (simp add: read_through_def g)
  next
    case (Some v)
    then obtain t where "view c k = Some (t, v)" "now - t \<le> 60"
      using r by (auto split: option.splits if_splits)
    then show ?thesis using assms(3) Some
      by (intro exI [of _ t]) (auto simp: read_through_def g faithful_def)
  qed
  show "faithful nrm src now (view (snd (read_through get put src now k c)))"
    using assms(2,3) c' put_view [OF c'(1) assms(2), of now "src now k"]
    by (auto simp: read_through_def g faithful_def split: option.splits if_splits)
  show "live (snd (read_through get put src now k c))"
    using put_live c'(1) assms(2) by (simp add: read_through_def g split: option.splits)
qed

end

section \<open>The six caches meet the contract\<close>

definition chain_view :: "'k \<Rightarrow> ('k, 'v) rt_cache_entry list \<Rightarrow> (int \<times> 'v) option" where
  "chain_view k es = map_option (\<lambda>e. (ce_ts e, ce_val e)) (chain_find k es)"

lemma chain_view_put [simp]:
  "chain_view k' (chain_put now k k v es) = (if k' = k then Some (now, v) else chain_view k' es)"
proof -
  have "case chain_replace now k v es of
      Some es' \<Rightarrow> chain_view k' es' = (if k' = k then Some (now, v) else chain_view k' es)
    | None \<Rightarrow> chain_view k es = None"
    by (induction es) (auto simp: chain_view_def split: option.splits)
  then show ?thesis by (auto simp: chain_put_def chain_view_def split: option.splits)
qed

lemma chain_get_view:
  "chain_get now k es =
    (case chain_view k es of Some (t, v) \<Rightarrow> if now - t \<le> 60 then Some v else None | None \<Rightarrow> None)"
  by (simp add: chain_get_def chain_view_def rt_cache_fresh_def RT_CACHE_TTL_def split: option.splits)

lemma chain_find_in: "chain_find k es = Some e \<Longrightarrow> e \<in> set es"
  by (induction es) (auto split: if_splits)

lemma chain_put_vals:
  "e \<in> set (chain_put now k sk v es) \<Longrightarrow> ce_val e = v \<or> e \<in> set es"
proof -
  have "case chain_replace now k v es of Some es' \<Rightarrow> (\<forall>e \<in> set es'. ce_val e = v \<or> e \<in> set es) | None \<Rightarrow> True"
    by (induction es) (auto split: option.splits)
  then show "e \<in> set (chain_put now k sk v es) \<Longrightarrow> ce_val e = v \<or> e \<in> set es"
    by (auto simp: chain_put_def split: option.splits)
qed

definition chains_hold :: "('v \<Rightarrow> bool) \<Rightarrow> ('k, 'v) buckets \<Rightarrow> bool" where
  "chains_hold P b \<longleftrightarrow> (\<forall>h. \<forall>e \<in> set (b h). P (ce_val e))"

lemma chains_hold_put [intro]:
  "chains_hold P b \<Longrightarrow> P v \<Longrightarrow> chains_hold P (b(h := chain_put now k sk v (b h)))"
  by (auto simp: chains_hold_def dest: chain_put_vals)

text \<open>The invariant of the whole cache: what is stored is already in its copied form.\<close>

definition cache_inv :: "rt_cache option \<Rightarrow> bool" where
  "cache_inv cache \<longleftrightarrow> (\<exists>c. cache = Some c \<and>
     chains_hold (\<lambda>v. rt_cache_rates_dup v = Some v) (rc_rates c) \<and>
     chains_hold (\<lambda>v. rt_cache_calc_dup v = Some v) (rc_tariffs c) \<and>
     chains_hold (\<lambda>v. rt_cache_pcard_dup v = Some v) (rc_pcards c))"

definition view_of ::
  "(rt_cache \<Rightarrow> ('k, 'v) buckets) \<Rightarrow> ('k \<Rightarrow> u32) \<Rightarrow> rt_cache option \<Rightarrow> 'k \<Rightarrow> (int \<times> 'v) option" where
  "view_of sel hash cache k = (case cache of None \<Rightarrow> None | Some c \<Rightarrow> chain_view k (sel c (hash k)))"

abbreviation "rates_view \<equiv> view_of rc_rates rt_cache_hash_int"
abbreviation "tariff_view \<equiv> view_of rc_tariffs rt_cache_hash_int"
abbreviation "racc_view \<equiv> view_of rc_raccs rt_cache_hash_str"
abbreviation "pcard_view \<equiv> view_of rc_pcards rt_cache_hash_int"
abbreviation "tc_view \<equiv> view_of rc_tcs rt_cache_hash_int"
abbreviation "fbs_view \<equiv> view_of rc_fbs rt_cache_hash_int"

abbreviation short_key :: "string \<Rightarrow> bool" where "short_key k \<equiv> length k \<le> 127"

lemma rates_dup_idem: "rt_cache_rates_dup v = Some w \<Longrightarrow> rt_cache_rates_dup w = Some w"
  by (auto simp: rt_cache_rates_dup_def split: if_splits)

lemma calc_dup_idem: "rt_cache_calc_dup v = Some w \<Longrightarrow> rt_cache_calc_dup w = Some w"
  by (auto simp: rt_cache_calc_dup_def split: if_splits)

lemma pcard_dup_idem: "rt_cache_pcard_dup v = Some w \<Longrightarrow> rt_cache_pcard_dup w = Some w"
  by (auto simp: rt_cache_pcard_dup_def split: if_splits)

lemma chain_get_bind:
  "chains_hold (\<lambda>v. dup v = Some v) b \<Longrightarrow> chain_get now k (b h) \<bind> dup =
    (case chain_view k (b h) of Some (t, v) \<Rightarrow> if now - t \<le> 60 then Some v else None | None \<Rightarrow> None)"
  by (auto simp: chain_get_def chains_hold_def chain_view_def rt_cache_fresh_def RT_CACHE_TTL_def
      split: option.splits dest!: chain_find_in)

interpretation rates: ttl_cache rt_cache_rates_get rt_cache_rates_put rates_view cache_inv "\<lambda>_. True" rt_cache_rates_dup
proof (unfold_locales, goal_cases)
  case (1 c k now)
  then show ?case by (auto simp: cache_inv_def rt_cache_rates_get_def chain_get_bind view_of_def Let_def)
qed (auto simp: cache_inv_def rt_cache_rates_get_def rt_cache_rates_put_def view_of_def Let_def rates_dup_idem
      intro!: ext split: option.splits)

interpretation tariffs: ttl_cache rt_cache_tariff_get rt_cache_tariff_put tariff_view cache_inv "\<lambda>_. True" rt_cache_calc_dup
proof (unfold_locales, goal_cases)
  case (1 c k now)
  then show ?case by (auto simp: cache_inv_def rt_cache_tariff_get_def chain_get_bind view_of_def Let_def)
qed (auto simp: cache_inv_def rt_cache_tariff_get_def rt_cache_tariff_put_def view_of_def Let_def calc_dup_idem
      intro!: ext split: option.splits)

interpretation pcards: ttl_cache rt_cache_pcard_get rt_cache_pcard_put pcard_view cache_inv "\<lambda>_. True" rt_cache_pcard_dup
proof (unfold_locales, goal_cases)
  case (1 c k now)
  then show ?case by (auto simp: cache_inv_def rt_cache_pcard_get_def chain_get_bind view_of_def Let_def)
qed (auto simp: cache_inv_def rt_cache_pcard_get_def rt_cache_pcard_put_def view_of_def Let_def pcard_dup_idem
      intro!: ext split: option.splits)

interpretation raccs: ttl_cache rt_cache_racc_get rt_cache_racc_put racc_view cache_inv "short_key" Some
  by unfold_locales
    (auto simp: cache_inv_def rt_cache_racc_get_def rt_cache_racc_put_def view_of_def Let_def chain_get_view
      strncpy_def intro!: ext split: option.splits)

interpretation tcs: ttl_cache rt_cache_tc_get rt_cache_tc_put tc_view cache_inv "\<lambda>_. True" Some
  by unfold_locales
    (auto simp: cache_inv_def rt_cache_tc_get_def rt_cache_tc_put_def view_of_def Let_def chain_get_view
      strncpy_def intro!: ext split: option.splits)

interpretation fbs: ttl_cache rt_cache_fbs_get rt_cache_fbs_put fbs_view cache_inv "\<lambda>_. True" Some
  by unfold_locales
    (auto simp: cache_inv_def rt_cache_fbs_get_def rt_cache_fbs_put_def view_of_def Let_def chain_get_view
      strncpy_def intro!: ext split: option.splits)

lemma cache_inv_init [simp]: "cache_inv (Some rt_cache_init)"
  by (simp add: cache_inv_def rt_cache_init_def chains_hold_def)

lemma view_init [simp]:
  "rates_view (Some rt_cache_init) = Map.empty" "tariff_view (Some rt_cache_init) = Map.empty"
  "racc_view (Some rt_cache_init) = Map.empty" "pcard_view (Some rt_cache_init) = Map.empty"
  "tc_view (Some rt_cache_init) = Map.empty" "fbs_view (Some rt_cache_init) = Map.empty"
  by (auto simp: view_of_def rt_cache_init_def chain_view_def)

lemma rt_cache_hash_bound: "rt_cache_hash_int key < 256" "rt_cache_hash_str k < 256"
  by (simp_all add: rt_cache_hash_int_def rt_cache_hash_str_def RT_CACHE_BUCKETS_def word_mod_less_divisor)

text \<open>Property C3. Each of the six caches, started empty, is a map with a time to live of 60
  seconds: for every history of gets and puts (in any order, with any clock values), the
  answers of the chained hash table are those of a map that holds for every key the last
  accepted value and its time, and answers only while that time is at most 60 seconds ago.
  The subscriber cache needs keys of at most 127 characters, the size of its key field.\<close>

theorem caches_refine_maps:
  "cache_run rt_cache_rates_get rt_cache_rates_put ro (Some rt_cache_init) = spec_run rt_cache_rates_dup ro Map.empty \<and>
   cache_run rt_cache_tariff_get rt_cache_tariff_put ta (Some rt_cache_init) = spec_run rt_cache_calc_dup ta Map.empty \<and>
   cache_run rt_cache_pcard_get rt_cache_pcard_put po (Some rt_cache_init) = spec_run rt_cache_pcard_dup po Map.empty \<and>
   cache_run rt_cache_tc_get rt_cache_tc_put tc (Some rt_cache_init) = spec_run Some tc Map.empty \<and>
   cache_run rt_cache_fbs_get rt_cache_fbs_put fb (Some rt_cache_init) = spec_run Some fb Map.empty \<and>
   ((\<forall>op \<in> set ao. length (op_key op) \<le> 127) \<longrightarrow>
     cache_run rt_cache_racc_get rt_cache_racc_put ao (Some rt_cache_init) = spec_run Some ao Map.empty)"
  using rates.run_refines_spec [of "Some rt_cache_init" ro] tariffs.run_refines_spec [of "Some rt_cache_init" ta]
    pcards.run_refines_spec [of "Some rt_cache_init" po] tcs.run_refines_spec [of "Some rt_cache_init" tc]
    fbs.run_refines_spec [of "Some rt_cache_init" fb] raccs.run_refines_spec [of "Some rt_cache_init" ao]
  by simp

theorem caches_refine_maps_witness:
  "cache_run rt_cache_racc_get rt_cache_racc_put
     [Put 100 ''1:359'' racc_data0, Get 160 ''1:359'', Get 161 ''1:359''] (Some rt_cache_init) = [Some racc_data0, None]"
  using caches_refine_maps [of "[]" "[]" "[]" "[]" "[]" "[Put 100 ''1:359'' racc_data0, Get 160 ''1:359'', Get 161 ''1:359'']"]
  by simp

text \<open>Bounded staleness: let the tariff table change over time as \<open>src\<close> says (never
  empty for the tariffs asked). A tariff read through the cache at time \<open>now\<close> is the value the
  table had at some moment of the last 60 seconds, and the cache again holds only values that
  were in the table at their time stamps, so this stays true for every later read.\<close>

theorem tariff_read_bounded_staleness:
  assumes "cache_inv c" "faithful rt_cache_calc_dup src now (tariff_view c)" "\<forall>t. src t k \<noteq> []"
  shows "\<exists>t v c'. read_through rt_cache_tariff_get rt_cache_tariff_put src now k c = (v, c') \<and>
      now - 60 \<le> t \<and> t \<le> now \<and> v = src t k \<and>
      cache_inv c' \<and> faithful rt_cache_calc_dup src now (tariff_view c')"
proof -
  obtain t where t: "now - 60 \<le> t" "t \<le> now"
    "fst (read_through rt_cache_tariff_get rt_cache_tariff_put src now k c) = src now k \<or>
     rt_cache_calc_dup (src t k) = Some (fst (read_through rt_cache_tariff_get rt_cache_tariff_put src now k c))"
    using tariffs.read_through_bounded(1) [OF assms(1) _ assms(2)] by blast
  then have "\<exists>t. now - 60 \<le> t \<and> t \<le> now \<and>
      fst (read_through rt_cache_tariff_get rt_cache_tariff_put src now k c) = src t k"
    using assms(3) by (auto simp: rt_cache_calc_dup_def intro: exI [of _ now])
  then show ?thesis
    using tariffs.read_through_bounded(2,3) [OF assms(1) _ assms(2), of k]
    by (auto simp: prod_eq_iff)
qed

theorem tariff_read_bounded_staleness_witness:
  "\<exists>t v c'. read_through rt_cache_tariff_get rt_cache_tariff_put
      (\<lambda>t k. [\<lparr>cf_pos = 1, cf_delta = 60, cf_fee = of_int t, cf_iterations = 0\<rparr>]) 1000 7 (Some rt_cache_init) = (v, c') \<and>
      940 \<le> t \<and> t \<le> 1000 \<and> v = [\<lparr>cf_pos = 1, cf_delta = 60, cf_fee = of_int t, cf_iterations = 0\<rparr>]"
  using tariff_read_bounded_staleness
    [of "Some rt_cache_init" "\<lambda>t k. [\<lparr>cf_pos = 1, cf_delta = 60, cf_fee = of_int t, cf_iterations = 0\<rparr>]" 1000 7]
  by (auto simp: faithful_def)

section \<open>Batch preloads\<close>

text \<open>Column \<open>i\<close> of a result row; a missing column is an out-of-bounds read.\<close>

definition col :: "string list \<Rightarrow> nat \<Rightarrow> string option" where
  "col row i = (if i < length row then Some (row ! i) else None)"

definition coli :: "string list \<Rightarrow> nat \<Rightarrow> int option" where
  "coli row i = col row i \<bind> atoi"

text \<open>\<open>conn->result\<close> as SQL rows (\<open>None\<close> is NULL); \<open>take_result\<close> frees it.\<close>

definition conn_rows :: "'e db option \<Rightarrow> string list list option" where
  "conn_rows ptr = ptr \<bind> (\<lambda>d. db_conn d \<bind> (\<lambda>c. map_option res_rows (cn_result c)))"

definition has_conn :: "'e db option \<Rightarrow> bool" where
  "has_conn ptr \<longleftrightarrow> (case ptr of None \<Rightarrow> False | Some d \<Rightarrow> \<not> Option.is_none (db_conn d))"

definition take_result :: "'e db option \<Rightarrow> string list list option \<times> 'e db option" where
  "take_result ptr = (conn_rows ptr, clear_conn_result ptr)"

abbreviation racc_key :: "int \<Rightarrow> string \<Rightarrow> string" where
  "racc_key rtm s \<equiv> dec_int rtm @ '':'' @ s"

text \<open>The loop that builds the IN clause. \<open>count\<close> sizes the buffer: \<open>count * (CLG_LEN + 4)\<close> bytes;
  \<open>key\<close> holds 128 bytes, \<open>safe\<close> 160, \<open>needle\<close> 84. Writing past one of them, or using \<open>safe\<close>
  after \<open>db_sql_escape\<close> refused, is undefined behaviour.\<close>

fun preload_in_clause ::
  "int \<Rightarrow> nat \<Rightarrow> string option list \<Rightarrow> string \<Rightarrow> nat \<Rightarrow> rt_cache option \<Rightarrow> (string \<times> nat \<times> rt_cache option) option" where
  "preload_in_clause now count [] in_clause c cache = Some (in_clause, c, cache)"
| "preload_in_clause now count (x # xs) in_clause c cache =
     (case x of
        None \<Rightarrow> preload_in_clause now count xs in_clause c cache
      | Some number \<Rightarrow>
          if number = [] then preload_in_clause now count xs in_clause c cache
          else if 128 \<le> length (racc_key rt_mode_clg number) then None
          else
            let (seen, cache1) = rt_cache_racc_get now (racc_key rt_mode_clg number) cache in
            if seen \<noteq> None then preload_in_clause now count xs in_clause c cache1
            else
              let (r, safe) = db_sql_escape (Some number) 160; needle = [CHR 0x27] @ safe @ [CHR 0x27] in
              if r < 0 then None
              else if 84 \<le> length needle then None
              else if strstr in_clause needle then preload_in_clause now count xs in_clause c cache1
              else
                let in1 = (if 0 < c then in_clause @ '','' else in_clause) @ needle in
                if count * 84 \<le> length in1 then None
                else preload_in_clause now count xs in1 (Suc c) cache1)"

text \<open>One row of the subscriber query.\<close>

definition preload_racc_row :: "string list \<Rightarrow> (string \<times> rt_cache_racc_data) option" where
  "preload_racc_row row = do {
     number \<leftarrow> col row 0;
     bacc \<leftarrow> coli row 1;
     bplan \<leftarrow> coli row 2;
     sp \<leftarrow> coli row 3;
     ep \<leftarrow> coli row 4;
     bd \<leftarrow> coli row 5;
     rm \<leftarrow> coli row 6;
     dp \<leftarrow> coli row 7;
     (if 128 \<le> length (racc_key rt_mode_clg number) then None
      else Some (racc_key rt_mode_clg number,
        \<lparr>rd_bacc_id = word_of_int bacc, rd_bplan_id = word_of_int bplan,
         rd_bplan_start_period = word_of_int sp, rd_bplan_end_period = word_of_int ep,
         rd_billing_day = word_of_int bd, rd_round_mode_id = word_of_int rm,
         rd_day_of_payment = word_of_int dp\<rparr>))
   }"

fun preload_racc_rows :: "int \<Rightarrow> string list list \<Rightarrow> nat \<Rightarrow> rt_cache option \<Rightarrow> (nat \<times> rt_cache option) option" where
  "preload_racc_rows now [] loaded cache = Some (loaded, cache)"
| "preload_racc_rows now (row # rows) loaded cache = do {
     (key, data) \<leftarrow> preload_racc_row row;
     preload_racc_rows now rows (Suc loaded) (rt_cache_racc_put now key data cache)
   }"

definition preload_raccs_sql :: "int \<Rightarrow> string \<Rightarrow> string" where
  "preload_raccs_sql cdr_server_id in_clause =
     ''SELECT clg.calling_number,clg.billing_account_id,clg_df.bill_plan_id,'' @
     ''bp.start_period,bp.end_period,bacc.billing_day,bacc.round_mode_id,bacc.day_of_payment '' @
     ''FROM calling_number AS clg,calling_number_deff AS clg_df,bill_plan AS bp,billing_account AS bacc '' @
     ''WHERE clg.id = clg_df.calling_number_id AND bp.id = clg_df.bill_plan_id '' @
     ''AND bacc.id = clg.billing_account_id AND bacc.cdr_server_id = '' @ dec_int cdr_server_id @ '' '' @
     ''AND clg.calling_number IN ('' @ in_clause @ '')''"

definition rt_cache_preload_raccs ::
  "int \<Rightarrow> rt_cache option \<Rightarrow> 'e db option \<Rightarrow> string option list \<Rightarrow> int \<Rightarrow> (int \<times> rt_cache option \<times> 'e db option) option" where
  "rt_cache_preload_raccs now cache dbp numbers cdr_server_id =
     (if cache = None \<or> dbp = None \<or> numbers = [] then Some (0, cache, dbp)
      else do {
        (in_clause, c, cache1) \<leftarrow> preload_in_clause now (length numbers) numbers [] 0 cache;
        (if c = 0 then Some (0, cache1, dbp)
         else if \<not> has_conn dbp then None
         else do {
           let p1 = snd (db_select dbp (preload_raccs_sql cdr_server_id in_clause));
           let p2 = snd (db_fetch p1);
           let (result, p3) = take_result p2;
           (case result of
              None \<Rightarrow> Some (0, cache1, p2)
            | Some rows \<Rightarrow> do {
                (loaded, cache2) \<leftarrow> preload_racc_rows now rows 0 cache1;
                Some (int loaded, cache2, p3)
              })
         })
      })"

text \<open>\<open>rt_cache_preload_pcards\<close>: the distinct account ids of the subscriber cache, at most 1024.\<close>

definition bacc_ids_step :: "u32 list \<Rightarrow> (string, rt_cache_racc_data) rt_cache_entry \<Rightarrow> u32 list" where
  "bacc_ids_step ids e =
     (let b = rd_bacc_id (ce_val e)
      in if 0 < b \<and> b \<notin> set ids \<and> length ids < 1024 then ids @ [b] else ids)"

definition preload_bacc_ids :: "rt_cache \<Rightarrow> u32 list" where
  "preload_bacc_ids c =
     foldl (\<lambda>ids i. foldl bacc_ids_step ids (rc_raccs c (of_nat i))) [] [0..<256]"

fun bacc_in_clause :: "bool \<Rightarrow> u32 list \<Rightarrow> string" where
  "bacc_in_clause first [] = []"
| "bacc_in_clause first (b # bs) = (if first then [] else '','') @ dec_int (sint b) @ bacc_in_clause False bs"

definition preload_pcard_row :: "fpenv \<Rightarrow> string list \<Rightarrow> pcard option" where
  "preload_pcard_row fp row = do {
     i \<leftarrow> coli row 0;
     am \<leftarrow> col row 1;
     s \<leftarrow> col row 2;
     e \<leftarrow> col row 3;
     st \<leftarrow> coli row 4;
     ty \<leftarrow> coli row 5;
     cn \<leftarrow> coli row 6;
     Some \<lparr>pc_id = i, pc_amount = rd fp (atof am), pc_start = strncpy s 31, pc_end = strncpy e 31,
       pc_status = st, pc_type = ty, pc_call_number = cn\<rparr>
   }"

fun those_list :: "'a option list \<Rightarrow> 'a list option" where
  "those_list [] = Some []"
| "those_list (x # xs) = do { y \<leftarrow> x; ys \<leftarrow> those_list xs; Some (y # ys) }"

text \<open>The grouping loop: \<open>grp\<close> holds the rows from \<open>start\<close> on, \<open>cur\<close> their account. The last
  iteration (\<open>i = rows\<close>) flushes what is left.\<close>

fun preload_pcard_rows ::
  "fpenv \<Rightarrow> int \<Rightarrow> string list list \<Rightarrow> string list list \<Rightarrow> u32 \<Rightarrow> nat \<Rightarrow> rt_cache option \<Rightarrow> (nat \<times> rt_cache option) option" where
  "preload_pcard_rows fp now [] grp cur loaded cache =
     (if grp = [] then Some (loaded, cache)
      else do {
        cards \<leftarrow> those_list (map (preload_pcard_row fp) grp);
        Some (Suc loaded, rt_cache_pcard_put now cur cards cache)
      })"
| "preload_pcard_rows fp now (row # rows) grp cur loaded cache = do {
     b \<leftarrow> coli row 7;
     let this = word_of_int b;
     (if grp \<noteq> [] \<and> this \<noteq> cur then do {
        cards \<leftarrow> those_list (map (preload_pcard_row fp) grp);
        preload_pcard_rows fp now rows [row] this (Suc loaded) (rt_cache_pcard_put now cur cards cache)
      } else preload_pcard_rows fp now rows (grp @ [row]) this loaded cache)
   }"

definition preload_pcards_sql :: "string \<Rightarrow> string" where
  "preload_pcards_sql in_clause =
     ''SELECT id,amount,start_date,end_date,pcard_status_id,pcard_type_id,call_number,billing_account_id '' @
     ''FROM pcard WHERE billing_account_id IN ('' @ in_clause @ '') AND pcard_status_id = 1 '' @
     ''ORDER BY billing_account_id,start_date DESC''"

definition rt_cache_preload_pcards ::
  "fpenv \<Rightarrow> int \<Rightarrow> rt_cache option \<Rightarrow> 'e db option \<Rightarrow> (int \<times> rt_cache option \<times> 'e db option) option" where
  "rt_cache_preload_pcards fp now cache dbp = (case cache of
     None \<Rightarrow> Some (0, cache, dbp)
   | Some c \<Rightarrow>
       if dbp = None then Some (0, cache, dbp)
       else
         let ids = preload_bacc_ids c in
         if ids = [] then Some (0, cache, dbp)
         else if \<not> has_conn dbp then None
         else
           let p1 = snd (db_select dbp (preload_pcards_sql (bacc_in_clause True ids)));
               p2 = snd (db_fetch p1);
               (result, p3) = take_result p2
           in (case result of
                 None \<Rightarrow> Some (0, cache, p2)
               | Some rows \<Rightarrow> do {
                   (loaded, cache2) \<leftarrow> preload_pcard_rows fp now rows [] 0 0 cache;
                   Some (int loaded, cache2, p3)
                 }))"

section \<open>What the preloads do\<close>

lemma preload_in_clause_total:
  assumes "\<forall>x \<in> set xs. \<forall>n. x = Some n \<longrightarrow> length (escs n) \<le> 81"
    and "c + length xs \<le> count" "c = 0 \<and> ic = [] \<or> length ic + 1 \<le> 84 * c"
  shows "preload_in_clause now count xs ic c cache \<noteq> None"
  using assms
proof (induction xs arbitrary: ic c cache)
  case (Cons x xs)
  show ?case
  proof (cases x)
    case None
    then show ?thesis using Cons by simp
  next
    case (Some n)
    have e: "length (escs n) \<le> 81" using Cons.prems Some by simp
    then have len: "length n \<le> 81" using escs_length [of n] by simp
    have dec: "dec_int 1 = ''1''" by code_simp
    have es: "db_sql_escape (Some n) 160 = (int (length (escs n)), escs n)"
      using db_sql_escape_loop_fits [of "[]" n 160] e by (simp add: db_sql_escape_def)
    define key where "key = racc_key rt_mode_clg n"
    have key: "length key \<le> 83" using len by (simp add: key_def dec)
    obtain seen cache1 where g: "rt_cache_racc_get now key cache = (seen, cache1)"
      by (cases "rt_cache_racc_get now key cache")
    define in1 where "in1 = (if 0 < c then ic @ '','' else ic) @ [CHR 0x27] @ escs n @ [CHR 0x27]"
    have in1: "length in1 + 1 \<le> 84 * Suc c" using e Cons.prems(3) by (auto simp: in1_def)
    also have "\<dots> \<le> 84 * count" using Cons.prems(2) by (intro mult_le_mono) auto
    finally have cap: "\<not> count * 84 \<le> length in1" by (simp add: mult.commute)
    have IH: "preload_in_clause now count xs in1 (Suc c) cache1 \<noteq> None"
      "preload_in_clause now count xs ic c cache1 \<noteq> None" "preload_in_clause now count xs ic c cache \<noteq> None"
      using Cons.prems in1 Cons.IH [of "Suc c" in1 cache1] Cons.IH [of c ic cache1] Cons.IH [of c ic cache]
      by simp_all
    show ?thesis
      unfolding preload_in_clause.simps Some option.case key_def [symmetric] g prod.case es Let_def
      using IH cap key e by (simp add: in1_def)
  qed
qed simp

definition row_bacc :: "string list \<Rightarrow> u32" where
  "row_bacc row = (case coli row 7 of Some b \<Rightarrow> word_of_int b | None \<Rightarrow> 0)"

definition row_card :: "fpenv \<Rightarrow> string list \<Rightarrow> pcard" where
  "row_card fp row = (case preload_pcard_row fp row of Some x \<Rightarrow> x | None \<Rightarrow>
     \<lparr>pc_id = 0, pc_amount = 0, pc_start = [], pc_end = [], pc_status = 0, pc_type = 0, pc_call_number = 0\<rparr>)"

definition card_row :: "fpenv \<Rightarrow> string list \<Rightarrow> bool" where
  "card_row fp row \<longleftrightarrow> preload_pcard_row fp row \<noteq> None \<and> coli row 7 \<noteq> None"

lemma those_list_cards:
  "\<forall>r \<in> set rows. card_row fp r \<Longrightarrow>
   those_list (map (preload_pcard_row fp) rows) = Some (map (row_card fp) rows)"
  by (induction rows) (auto simp: card_row_def row_card_def)

lemma pcard_put_view:
  assumes "cache_inv c" "cards \<noteq> []"
  shows "pcard_view (rt_cache_pcard_put now k cards c) = (pcard_view c)(k \<mapsto> (now, cards))"
    and "cache_inv (rt_cache_pcard_put now k cards c)"
  using pcards.put_view [OF assms(1), where k = k and now = now and v = cards]
    pcards.put_live [OF assms(1), where k = k and now = now and v = cards] assms(2)
  by (simp_all add: rt_cache_pcard_dup_def)

lemma preload_pcard_rows_groups:
  assumes "cache_inv c" "\<forall>r \<in> set (grp @ rows). card_row fp r"
    and "\<forall>r \<in> set grp. row_bacc r = cur"
    and "sorted (map row_bacc (grp @ rows))"
  shows "\<exists>c'. preload_pcard_rows fp now rows grp cur n c = Some (n + card (row_bacc ` set (grp @ rows)), c') \<and>
     cache_inv c' \<and> (\<forall>b. pcard_view c' b =
       (let rs = filter (\<lambda>r. row_bacc r = b) (grp @ rows)
        in if rs = [] then pcard_view c b else Some (now, map (row_card fp) rs)))"
  using assms
proof (induction rows arbitrary: grp cur n c)
  case Nil
  show ?case
  proof (cases "grp = []")
    case False
    have "row_bacc ` set grp = {cur}" using Nil False by (cases grp) auto
    moreover have "filter (\<lambda>r. row_bacc r = b) grp = (if b = cur then grp else [])" for b
      using Nil(3) by (auto simp: filter_id_conv filter_empty_conv)
    ultimately show ?thesis using Nil False pcard_put_view [OF Nil(1), of "map (row_card fp) grp" now cur]
      by (simp add: those_list_cards)
  qed (use Nil in simp)
next
  case (Cons row rows)
  obtain b where b: "coli row 7 = Some b" "word_of_int b = row_bacc row"
    using Cons.prems(2) by (auto simp: card_row_def row_bacc_def)
  show ?case
  proof (cases "grp \<noteq> [] \<and> row_bacc row \<noteq> cur")
    case True
    define c1 where "c1 = rt_cache_pcard_put now cur (map (row_card fp) grp) c"
    have c1: "pcard_view c1 = (pcard_view c)(cur \<mapsto> (now, map (row_card fp) grp))" "cache_inv c1"
      using pcard_put_view [OF Cons.prems(1), of "map (row_card fp) grp" now cur] True by (simp_all add: c1_def)
    have gt: "\<forall>r \<in> set (row # rows). cur < row_bacc r"
    proof -
      have "\<forall>r \<in> set (row # rows). cur \<le> row_bacc r"
        using Cons.prems(3,4) True by (auto simp: sorted_append neq_Nil_conv)
      moreover have "\<forall>r \<in> set rows. row_bacc row \<le> row_bacc r" using Cons.prems(4) by (simp add: sorted_append)
      ultimately show ?thesis using True by force
    qed
    have step: "preload_pcard_rows fp now (row # rows) grp cur n c =
        preload_pcard_rows fp now rows [row] (row_bacc row) (Suc n) c1"
      using True b Cons.prems(2) by (simp add: those_list_cards c1_def)
    obtain c' where c': "preload_pcard_rows fp now rows [row] (row_bacc row) (Suc n) c1 =
        Some (Suc n + card (row_bacc ` set ([row] @ rows)), c')" "cache_inv c'"
      "\<forall>b. pcard_view c' b = (let rs = filter (\<lambda>r. row_bacc r = b) ([row] @ rows)
         in if rs = [] then pcard_view c1 b else Some (now, map (row_card fp) rs))"
      using Cons.IH [OF c1(2), of "[row]" "row_bacc row" "Suc n"] Cons.prems by (auto simp: sorted_append)
    have grp: "row_bacc ` set grp = {cur}" using Cons.prems(3) True by (cases grp) auto
    have "cur \<notin> row_bacc ` set (row # rows)" using gt by (metis image_iff less_irrefl)
    then have card: "card (row_bacc ` set (grp @ row # rows)) = Suc (card (row_bacc ` set (row # rows)))"
      using card_insert_disjoint [of "row_bacc ` set (row # rows)" cur] by (simp add: image_Un grp insert_commute)
    have f: "filter (\<lambda>r. row_bacc r = b) (grp @ row # rows) =
        (if b = cur then grp else filter (\<lambda>r. row_bacc r = b) (row # rows))" for b
    proof (cases "b = cur")
      case True
      then have "filter (\<lambda>r. row_bacc r = b) (row # rows) = []" using gt by (auto simp: filter_empty_conv)
      then show ?thesis using True Cons.prems(3) by simp
    next
      case False
      then show ?thesis using Cons.prems(3) by (auto simp: filter_empty_conv)
    qed
    have R: "[row] @ rows = row # rows" by simp
    have e: "filter (\<lambda>r. row_bacc r = cur) (row # rows) = []" using gt by (auto simp: filter_empty_conv)
    have "pcard_view c' b = (let rs = (if b = cur then grp else filter (\<lambda>r. row_bacc r = b) (row # rows))
        in if rs = [] then pcard_view c b else Some (now, map (row_card fp) rs))" for b
      using c'(3) [rule_format, of b, unfolded R Let_def] c1(1) True e
      by (cases "b = cur") (simp_all add: Let_def del: filter.simps)
    then show ?thesis unfolding step f card
      using c'(1,2) [unfolded R] by (intro exI [of _ c']) (simp del: filter.simps)
  next
    case False
    then have step: "preload_pcard_rows fp now (row # rows) grp cur n c =
        preload_pcard_rows fp now rows (grp @ [row]) (row_bacc row) n c" using b by auto
    have same: "\<forall>r \<in> set (grp @ [row]). row_bacc r = row_bacc row" using False Cons.prems(3) by auto
    have A: "(grp @ [row]) @ rows = grp @ row # rows" by simp
    show ?thesis unfolding step
      using Cons.IH [OF Cons.prems(1), of "grp @ [row]" "row_bacc row" n, unfolded A, OF Cons.prems(2) same Cons.prems(4)] .
  qed
qed

text \<open>The subscriber preload stays inside its four fixed buffers (the IN clause,
  \<open>key\<close>, \<open>safe\<close>, \<open>needle\<close>) for every list of calling numbers whose escaped form has at most
  81 characters, whatever is cached already; and it does not stay inside them for longer
  ones: a number of 42 quotes, which fits the 80 bytes of \<open>clg\<close>, writes past \<open>needle\<close>.\<close>

theorem preload_raccs_buffers:
  "((\<forall>n. Some n \<in> set xs \<longrightarrow> length (escs n) \<le> 81) \<longrightarrow>
      preload_in_clause now (length xs) xs [] 0 cache \<noteq> None) \<and>
   preload_in_clause now 1 [Some (replicate 42 (CHR 0x27))] [] 0 (Some rt_cache_init) = None"
proof -
  have dec: "dec_int 1 = ''1''" by code_simp
  have e: "concat (replicate 42 (esc CHR 0x27)) = replicate 84 (CHR 0x27)" by code_simp
  have "db_sql_escape (Some (replicate 42 (CHR 0x27))) 160 = (84, replicate 84 (CHR 0x27))"
    using db_sql_escape_loop_fits [of "[]" "replicate 42 (CHR 0x27)" 160] by (simp add: db_sql_escape_def e)
  moreover have "rt_cache_racc_get now k (Some rt_cache_init) =
      (None, Some (rt_cache_init\<lparr>rc_racc_misses := 1\<rparr>))" for k
    by (simp add: rt_cache_racc_get_def rt_cache_init_def chain_get_def)
  ultimately have "preload_in_clause now 1 [Some (replicate 42 (CHR 0x27))] [] 0 (Some rt_cache_init) = None"
    by (simp add: dec Let_def)
  then show ?thesis using preload_in_clause_total [of xs 0 "length xs" "[]" now cache] by auto
qed

theorem preload_raccs_buffers_witness:
  "preload_in_clause 0 2 [Some ''359888'', Some [CHR 0x27]] [] 0 (Some rt_cache_init) \<noteq> None"
  using conjunct1 [OF preload_raccs_buffers [of "[Some ''359888'', Some [CHR 0x27]]" 0 "Some rt_cache_init"]]
  by (simp add: esc_def eval_nat_numeral del: preload_in_clause.simps)

text \<open>The card preload: when the rows come ordered by account, as the statement
  asks, every account that occurs is cached with exactly its rows in their order, the other
  accounts keep what they had, and the count is the number of distinct accounts.\<close>

theorem preload_pcards_by_account:
  assumes "cache_inv c" "\<forall>r \<in> set rows. card_row fp r" "sorted (map row_bacc rows)"
  shows "\<exists>c'. preload_pcard_rows fp now rows [] 0 0 c = Some (card (row_bacc ` set rows), c') \<and>
     cache_inv c' \<and> (\<forall>b. pcard_view c' b =
       (let rs = filter (\<lambda>r. row_bacc r = b) rows
        in if rs = [] then pcard_view c b else Some (now, map (row_card fp) rs)))"
  using preload_pcard_rows_groups [OF assms(1), of "[]" rows fp 0 now 0] assms(2,3) by simp

theorem preload_pcards_by_account_witness:
  "\<exists>c'. preload_pcard_rows exact 50
      [[''3'', ''10.5'', ''2024-01-01'', ''2025-01-01'', ''1'', ''1'', ''0'', ''7''],
       [''4'', ''20'', ''2023-01-01'', ''2024-01-01'', ''1'', ''2'', ''0'', ''7'']] [] 0 0 (Some rt_cache_init)
     = Some (1, c') \<and>
     pcard_view c' 7 = Some (50,
       [\<lparr>pc_id = 3, pc_amount = 21/2, pc_start = ''2024-01-01'', pc_end = ''2025-01-01'', pc_status = 1, pc_type = 1, pc_call_number = 0\<rparr>,
        \<lparr>pc_id = 4, pc_amount = 20, pc_start = ''2023-01-01'', pc_end = ''2024-01-01'', pc_status = 1, pc_type = 2, pc_call_number = 0\<rparr>])"
proof -
  let ?r1 = "[''3'', ''10.5'', ''2024-01-01'', ''2025-01-01'', ''1'', ''1'', ''0'', ''7'']"
  let ?r2 = "[''4'', ''20'', ''2023-01-01'', ''2024-01-01'', ''1'', ''2'', ''0'', ''7'']"
  have a: "atoi ''3'' = Some 3" "atoi ''4'' = Some 4" "atoi ''1'' = Some 1" "atoi ''2'' = Some 2"
    "atoi ''0'' = Some 0" "atoi ''7'' = Some 7" by code_simp+
  have f: "atof ''10.5'' = 21/2" "atof ''20'' = 20" by code_simp+
  have c: "preload_pcard_row exact ?r1 = Some \<lparr>pc_id = 3, pc_amount = 21/2, pc_start = ''2024-01-01'',
      pc_end = ''2025-01-01'', pc_status = 1, pc_type = 1, pc_call_number = 0\<rparr>"
    "preload_pcard_row exact ?r2 = Some \<lparr>pc_id = 4, pc_amount = 20, pc_start = ''2023-01-01'',
      pc_end = ''2024-01-01'', pc_status = 1, pc_type = 2, pc_call_number = 0\<rparr>"
    by (simp_all add: preload_pcard_row_def coli_def col_def a f strncpy_def)
  have k: "coli ?r1 7 = Some 7" "coli ?r2 7 = Some 7" by (simp_all add: coli_def col_def a)
  have b: "row_bacc ?r1 = 7" "row_bacc ?r2 = 7" by (simp_all add: row_bacc_def k)
  show ?thesis
    using preload_pcards_by_account [of "Some rt_cache_init" "[?r1, ?r2]" exact 50]
    by (auto simp: card_row_def row_card_def c k b)
qed

end
