(* ===== verification/TimeFuncs.thy ===== *)
theory TimeFuncs
  imports CString
begin

text \<open>
  Broken-down time and its formatting: \<open>struct tm\<close>, \<open>misc/exten/time_funcs.c\<close>, and the fact
  the Rating module rests on, that \<open>strcmp\<close> orders dates and times printed with fixed width
  as the calendar does. \<open>localtime\<close> depends on the machine's time zone and is an argument of
  the definitions that call it.
\<close>

record tm =
  tm_sec :: int
  tm_min :: int
  tm_hour :: int
  tm_mday :: int
  tm_mon :: int
  tm_year :: int
  tm_wday :: int

text \<open>The documented ranges of \<open>localtime\<close>, with a year of four digits.\<close>

definition tm_ok :: "tm \<Rightarrow> bool" where
  "tm_ok t \<longleftrightarrow> 0 \<le> tm_sec t \<and> tm_sec t \<le> 60 \<and> 0 \<le> tm_min t \<and> tm_min t \<le> 59 \<and>
     0 \<le> tm_hour t \<and> tm_hour t \<le> 23 \<and> 1 \<le> tm_mday t \<and> tm_mday t \<le> 31 \<and>
     0 \<le> tm_mon t \<and> tm_mon t \<le> 11 \<and> -900 \<le> tm_year t \<and> tm_year t \<le> 8099 \<and>
     0 \<le> tm_wday t \<and> tm_wday t \<le> 6"

section \<open>Formatting\<close>

text \<open>\<open>%.<k>d\<close>: at least \<open>k\<close> digits.\<close>

definition prec_dec :: "nat \<Rightarrow> int \<Rightarrow> string" where
  "prec_dec k i = (let s = dec_nat (nat \<bar>i\<bar>); z = replicate (k - length s) (CHR ''0'') @ s
                   in if i < 0 then CHR ''-'' # z else z)"

definition convert_epoch_to_ts :: "(int \<Rightarrow> tm) \<Rightarrow> int \<Rightarrow> string" where
  "convert_epoch_to_ts localtime tt = (let t = localtime tt in
     prec_dec 4 (tm_year t + 1900) @ ''-'' @ prec_dec 2 (tm_mon t + 1) @ ''-'' @ prec_dec 2 (tm_mday t) @ '' '' @
     prec_dec 2 (tm_hour t) @ '':'' @ prec_dec 2 (tm_min t) @ '':'' @ prec_dec 2 (tm_sec t))"

definition get_weekday_from_epoch :: "(int \<Rightarrow> tm) \<Rightarrow> int \<Rightarrow> int" where
  "get_weekday_from_epoch localtime tt = tm_wday (localtime tt)"

text \<open>The fixed-width digits, and when \<open>%.<k>d\<close> prints them.\<close>

fun digits :: "nat \<Rightarrow> nat \<Rightarrow> string" where
  "digits 0 n = []"
| "digits (Suc k) n = digits k (n div 10) @ [digit (n mod 10)]"

lemma length_digits [simp]: "length (digits k n) = k"
  by (induction k arbitrary: n) auto

lemma digits_zero: "digits k 0 = replicate k (CHR ''0'')"
proof -
  have "digit 0 = CHR ''0''" by code_simp
  then show ?thesis by (induction k) (simp_all add: replicate_append_same)
qed

lemma digits_dec_nat: "n < 10 ^ k \<Longrightarrow> 0 < k \<Longrightarrow>
  digits k n = replicate (k - length (dec_nat n)) (CHR ''0'') @ dec_nat n"
proof (induction k arbitrary: n)
  case (Suc k)
  show ?case
  proof (cases "n < 10")
    case True
    then show ?thesis by (simp add: dec_nat.simps [of n] digits_zero)
  next
    case False
    then have k: "0 < k" using Suc.prems by (cases k) auto
    have "n div 10 < 10 ^ k" using Suc.prems by (simp add: less_mult_imp_div_less mult.commute)
    then have "digits (Suc k) n = (replicate (k - length (dec_nat (n div 10))) (CHR ''0'') @ dec_nat (n div 10)) @ [digit (n mod 10)]"
      using Suc.IH k by simp
    then show ?thesis using False by (simp add: dec_nat.simps [of n])
  qed
qed simp

lemma prec_dec_digits:
  "0 \<le> i \<Longrightarrow> i < 10 ^ k \<Longrightarrow> 0 < k \<Longrightarrow> prec_dec k i = digits k (nat i)"
proof -
  assume i: "0 \<le> i" "i < 10 ^ k" "0 < k"
  then have "nat i < 10 ^ k" by (metis nat_less_iff of_nat_numeral of_nat_power)
  then show ?thesis using i digits_dec_nat [of "nat i" k] by (simp add: prec_dec_def Let_def)
qed

lemma dec_int_digits: "1000 \<le> i \<Longrightarrow> i < 10000 \<Longrightarrow> dec_int i = digits 4 (nat i)"
proof -
  assume i: "1000 \<le> i" "i < 10000"
  have "length (dec_nat (nat i)) = 4"
    using i by (subst dec_nat.simps, subst dec_nat.simps, subst dec_nat.simps, subst dec_nat.simps) auto
  then show ?thesis using i digits_dec_nat [of "nat i" 4] by (simp add: dec_int_def)
qed

section \<open>strcmp orders fixed-width numbers\<close>

definition sgn_cmp :: "nat \<Rightarrow> nat \<Rightarrow> int" where
  "sgn_cmp a b = (if a < b then -1 else if b < a then 1 else 0)"

lemma strcmp_digit: "a < 10 \<Longrightarrow> b < 10 \<Longrightarrow> strcmp [digit a] [digit b] = sgn_cmp a b"
  by (simp add: sgn_cmp_def)

lemma strcmp_digits:
  "a < 10 ^ k \<Longrightarrow> b < 10 ^ k \<Longrightarrow> strcmp (digits k a) (digits k b) = sgn_cmp a b"
proof (induction k arbitrary: a b)
  case (Suc k)
  have d: "a div 10 < 10 ^ k" "b div 10 < 10 ^ k"
    using Suc.prems by (simp_all add: less_mult_imp_div_less mult.commute)
  have lt: "a div 10 < b div 10 \<Longrightarrow> a < b" "b div 10 < a div 10 \<Longrightarrow> b < a"
    by (meson div_le_mono linorder_not_less)+
  have m: "10 * (a div 10) + a mod 10 = a" "10 * (b div 10) + b mod 10 = b" by simp_all
  have eq: "sgn_cmp (a mod 10) (b mod 10) = sgn_cmp a b" if "a div 10 = b div 10"
    using m that by (metis (no_types) nat_add_left_cancel_less sgn_cmp_def)
  have "strcmp (digits (Suc k) a) (digits (Suc k) b) =
      (if sgn_cmp (a div 10) (b div 10) = 0 then sgn_cmp (a mod 10) (b mod 10) else sgn_cmp (a div 10) (b div 10))"
    using Suc.IH [OF d] strcmp_digit [of "a mod 10" "b mod 10"]
      strcmp_append_same_length [of "digits k (a div 10)" "digits k (b div 10)" "[digit (a mod 10)]" "[digit (b mod 10)]"]
    by simp
  then show ?case using lt eq by (auto simp: sgn_cmp_def [of "a div 10"] sgn_cmp_def [of a b] split: if_splits)
qed (simp add: sgn_cmp_def)

section \<open>Dates and times as strings\<close>

definition date_str :: "nat \<Rightarrow> nat \<Rightarrow> nat \<Rightarrow> string" where
  "date_str y m d = digits 4 y @ ''-'' @ digits 2 m @ ''-'' @ digits 2 d"

definition hm_str :: "nat \<Rightarrow> nat \<Rightarrow> string" where
  "hm_str h m = digits 2 h @ '':'' @ digits 2 m"

text \<open>The place of a date in a calendar of 100-day months, good for comparing.\<close>

definition date_num :: "nat \<Rightarrow> nat \<Rightarrow> nat \<Rightarrow> nat" where
  "date_num y m d = (y * 100 + m) * 100 + d"

lemma strcmp_two:
  assumes "length a = length b" "strcmp a b = sgn_cmp i j" "c < n" "d < n" "strcmp s t = sgn_cmp c d"
  shows "strcmp (a @ x # s) (b @ x # t) = sgn_cmp (i * n + c) (j * n + d)"
proof -
  have lt: "i' * n + c' < j' * n + d'" if "i' < j'" "c' < n" for i' j' c' d' :: nat
  proof -
    have "i' * n + c' < Suc i' * n" using that by simp
    also have "\<dots> \<le> j' * n" using that by (intro mult_le_mono1) simp
    finally show ?thesis by simp
  qed
  note lt [of i j c d] lt [of j i d c]
  then show ?thesis using assms
    by (simp add: strcmp_append_same_length sgn_cmp_def del: strcmp_eq_0 split: if_splits)
qed

lemma strcmp_date:
  assumes "y < 10000" "y' < 10000" "m < 100" "m' < 100" "d < 100" "d' < 100"
  shows "strcmp (date_str y m d) (date_str y' m' d') = sgn_cmp (date_num y m d) (date_num y' m' d')"
proof -
  have "strcmp (digits 4 y @ CHR ''-'' # digits 2 m) (digits 4 y' @ CHR ''-'' # digits 2 m') = sgn_cmp (y * 100 + m) (y' * 100 + m')"
    using assms by (intro strcmp_two strcmp_digits) auto
  then have "strcmp ((digits 4 y @ CHR ''-'' # digits 2 m) @ CHR ''-'' # digits 2 d)
      ((digits 4 y' @ CHR ''-'' # digits 2 m') @ CHR ''-'' # digits 2 d') = sgn_cmp (date_num y m d) (date_num y' m' d')"
    unfolding date_num_def using assms by (intro strcmp_two strcmp_digits) auto
  then show ?thesis by (simp add: date_str_def)
qed

lemma strcmp_hm:
  assumes "h < 100" "h' < 100" "m < 60" "m' < 60"
  shows "strcmp (hm_str h m) (hm_str h' m') = sgn_cmp (h * 60 + m) (h' * 60 + m')"
  using strcmp_two [of "digits 2 h" "digits 2 h'" h h' m 60 m' "digits 2 m" "digits 2 m'" "CHR '':''"]
    strcmp_digits [of h 2 h'] strcmp_digits [of m 2 m'] assms
  by (simp add: hm_str_def)

lemma length_date_str [simp]: "length (date_str y m d) = 10"
  by (simp add: date_str_def)

lemma length_hm_str [simp]: "length (hm_str h m) = 5"
  by (simp add: hm_str_def)

text \<open>\<open>check_date_valid\<close>: a remainder is only compared with 0, so the sign of \<open>%\<close> does not
  matter; reading a variable that the scan did not set, and an index outside
  the table of month lengths, are undefined behaviour.\<close>

definition leap_year :: "int \<Rightarrow> bool" where
  "leap_year y \<longleftrightarrow> y mod 400 = 0 \<or> (y mod 100 \<noteq> 0 \<and> y mod 4 = 0)"

definition days_in_month :: "int \<Rightarrow> int list" where
  "days_in_month y = [31, if leap_year y then 29 else 28, 31, 30, 31, 30, 31, 31, 30, 31, 30, 31]"

definition check_date_valid :: "string \<Rightarrow> int option" where
  "check_date_valid str = do {
     (y, r1) \<leftarrow> scan_int str;
     r2 \<leftarrow> scan_char (CHR ''-'') r1;
     (m, r3) \<leftarrow> scan_int r2;
     r4 \<leftarrow> scan_char (CHR ''-'') r3;
     (d, r5) \<leftarrow> scan_int r4;
     (if m < 13 then
        if m < 1 then None
        else if d \<le> days_in_month y ! nat (m - 1) then Some 1 else Some 0
      else Some 0)
   }"

section \<open>Timestamps to seconds\<close>

text \<open>\<open>convert_ts_to_epoch\<close>: \<open>mktime\<close> is an argument (year since 1900, month from 0, day, hour,
  minute, second); anything but six numbers is 0. A space of the format matches any white space.\<close>

definition convert_ts_to_epoch :: "(int \<times> int \<times> int \<times> int \<times> int \<times> int \<Rightarrow> int) \<Rightarrow> string \<Rightarrow> int" where
  "convert_ts_to_epoch mktime ts = (case do {
       (y, r1) \<leftarrow> scan_int ts;
       r2 \<leftarrow> scan_char (CHR ''-'') r1;
       (m, r3) \<leftarrow> scan_int r2;
       r4 \<leftarrow> scan_char (CHR ''-'') r3;
       (d, r5) \<leftarrow> scan_int r4;
       (h, r6) \<leftarrow> scan_int r5;
       r7 \<leftarrow> scan_char (CHR '':'') r6;
       (i, r8) \<leftarrow> scan_int r7;
       r9 \<leftarrow> scan_char (CHR '':'') r8;
       (s, r10) \<leftarrow> scan_int r9;
       Some (y - 1900, m - 1, d, h, i, s)
     } of None \<Rightarrow> 0 | Some t \<Rightarrow> mktime t)"

text \<open>\<open>convert_datetime\<close>: the first 19 characters, without the time zone.\<close>

definition convert_datetime :: "string \<Rightarrow> string" where
  "convert_datetime src = strncpy src 19"

end
