(* ===== verification/Query.thy ===== *)
theory Query
  imports RtCache TimeFuncs
begin

text \<open>
  How the modules use the database interface: \<open>db_select\<close>, \<open>db_fetch\<close>, then read
  \<open>dbp->conn->result\<close> and free it; the values they print into a statement; and an engine
  module to run them against. The engine is arbitrary but deterministic: it records the
  statements and answers each one by a function of the statements so far. What the modules
  send to the database is then the record \<open>log\<close>, for every possible database.
\<close>

section \<open>Statements\<close>

text \<open>\<open>%d\<close> of an unsigned value, and \<open>%f\<close> (six decimals, the exact decimal value rounded to
  nearest even).\<close>

definition fmt_u :: "u32 \<Rightarrow> string" where
  "fmt_u w = dec_int (sint w)"

definition fmt_f :: "rat \<Rightarrow> string" where
  "fmt_f x = (let n = nat (round_even (\<bar>x\<bar> * 1000000));
                  s = dec_nat (n div 1000000) @ ''.'' @ digits 6 (n mod 1000000)
              in if x < 0 then CHR ''-'' # s else s)"

text \<open>The same with integers, for evaluation.\<close>

fun int_digits :: "nat \<Rightarrow> int \<Rightarrow> string" where
  "int_digits 0 i = []"
| "int_digits (Suc k) i = int_digits k (i div 10) @ [digit (nat (i mod 10))]"

lemma int_digits: "0 \<le> i \<Longrightarrow> digits k (nat i) = int_digits k i"
proof (induction k arbitrary: i)
  case (Suc k)
  then show ?case using Suc.IH [of "i div 10"] by (simp add: nat_div_distrib nat_mod_distrib)
qed simp

lemma digits_mod: "digits k (n mod 10 ^ k) = digits k n"
proof (induction k arbitrary: n)
  case (Suc k)
  have "n mod 10 ^ Suc k div 10 = n div 10 mod 10 ^ k" by (simp add: mod_mult2_eq div_mult2_eq)
  moreover have "n mod 10 ^ Suc k mod 10 = n mod 10" by (simp add: mod_mult2_eq)
  ultimately show ?case using Suc [of "n div 10"] by simp
qed simp

lemma fmt_f_code [code]:
  "fmt_f x = (let i = round_even (\<bar>x\<bar> * 1000000)
     in (if x < 0 then [CHR ''-''] else []) @ dec_int (i div 1000000) @ ''.'' @ int_digits 6 i)"
proof -
  define i where "i = round_even (\<bar>x\<bar> * 1000000)"
  have "\<lfloor>\<bar>x\<bar> * 1000000\<rfloor> \<ge> 0" by simp
  then have i: "0 \<le> i" using round_even_floor [of "\<bar>x\<bar> * 1000000"] by (auto simp: i_def)
  have "digits 6 (nat i mod 1000000) = int_digits 6 i" using digits_mod [of 6 "nat i"] int_digits [OF i] by simp
  moreover have "dec_int (i div 1000000) = dec_nat (nat i div 1000000)"
  proof -
    have "0 \<le> i div 1000000" using i by simp
    then show ?thesis by (simp add: dec_int_def nat_div_distrib)
  qed
  ultimately show ?thesis unfolding fmt_f_def Let_def i_def [symmetric] by simp
qed

definition quoted :: "string \<Rightarrow> string" where
  "quoted s = [CHR 0x27] @ s @ [CHR 0x27]"

section \<open>One query\<close>

text \<open>\<open>db_select(dbp,str); db_fetch(dbp);\<close> and the read of \<open>dbp->conn->result\<close>: a NULL
  \<open>dbp->conn\<close> is dereferenced there. \<open>query_rows\<close> frees the result too.\<close>

definition fetch_rows :: "string \<Rightarrow> 'e db option \<Rightarrow> (string list list option \<times> 'e db option) option" where
  "fetch_rows str ptr =
     (if has_conn ptr then
        let p = snd (db_fetch (snd (db_select ptr str))) in Some (conn_rows p, p)
      else None)"

definition query_rows :: "string \<Rightarrow> 'e db option \<Rightarrow> (string list list option \<times> 'e db option) option" where
  "query_rows str ptr = do { (rows, p) \<leftarrow> fetch_rows str ptr; Some (rows, clear_conn_result p) }"

text \<open>Column \<open>i\<close> of a result with exactly one row, as most queries read it.\<close>

definition one_int :: "nat \<Rightarrow> string list list option \<Rightarrow> int option option" where
  "one_int i rows = (case rows of Some [row] \<Rightarrow> do { v \<leftarrow> coli row i; Some (Some v) } | _ \<Rightarrow> Some None)"

text \<open>The NoSQL read: \<open>db_get\<close>, the string of a successful answer if it is not empty, and the
  frees. A NULL result after a successful read is dereferenced.\<close>

definition conn_str :: "'e db option \<Rightarrow> string option" where
  "conn_str ptr = ptr \<bind> (\<lambda>d. db_conn d \<bind> (\<lambda>c. map_option res_str (cn_result c)))"

definition get_str :: "string \<Rightarrow> 'e db option \<Rightarrow> (int \<times> string option \<times> 'e db option) option" where
  "get_str str ptr =
     (if has_conn ptr then
        let (ret, p) = db_get ptr str;
            p' = clear_conn_result (snd (db_free_result p))
        in if ret = DB_OK then do {
             msg \<leftarrow> conn_str p;
             Some (ret, if msg = [] then None else Some msg, p')
           } else Some (ret, None, p')
      else None)"

section \<open>The recording engine\<close>

type_synonym answers = "string list \<Rightarrow> string \<Rightarrow> int \<times> string list list option"
type_synonym recorder = "string list \<times> string list list option"

definition recorder_api :: "answers \<Rightarrow> recorder sql_api" where
  "recorder_api ans = sql_api0\<lparr>
     sa_query := Some (\<lambda>q c. case cn_rconn c of
         None \<Rightarrow> (DB_ERR_CONN_NUL, c)
       | Some (lg, _) \<Rightarrow> (fst (ans lg q), c\<lparr>cn_rconn := Some (lg @ [q], snd (ans lg q))\<rparr>)),
     sa_fetch := Some (\<lambda>c. case cn_rconn c of
         None \<Rightarrow> (DB_ERR_CONN_NUL, c)
       | Some (lg, rows) \<Rightarrow> (DB_OK, c\<lparr>cn_rconn := Some (lg, None), cn_result := map_option SqlResult rows\<rparr>))\<rparr>"

definition rdb :: "answers \<Rightarrow> string list \<Rightarrow> string list list option \<Rightarrow> recorder db option" where
  "rdb ans lg rows = Some \<lparr>db_t = sql, db_sql = Some (recorder_api ans), db_nosql = None,
     db_conn = Some ((db_conn_init [] [] [] 0 [] [] 0)\<lparr>cn_rconn := Some (lg, rows)\<rparr>)\<rparr>"

lemma rdb_not_null [simp]: "rdb ans lg rows \<noteq> None" "has_conn (rdb ans lg rows)"
  by (simp_all add: rdb_def has_conn_def)

lemma rdb_parts [simp]:
  "clear_conn_result (rdb ans lg rows) = rdb ans lg rows" "conn_rows (rdb ans lg rows) = None"
  by (simp_all add: rdb_def clear_conn_result_def conn_rows_def db_conn_init_def)

abbreviation is_select :: "string \<Rightarrow> bool" where "is_select q \<equiv> strncasecmp0 q ''select'' 6"

lemma rdb_fetch_rows:
  assumes "is_select q"
  shows "fetch_rows q (rdb ans lg r) = Some (snd (ans lg q),
     map_option (\<lambda>d. d\<lparr>db_conn := map_option (\<lambda>c. c\<lparr>cn_result := map_option SqlResult (snd (ans lg q))\<rparr>) (db_conn d)\<rparr>)
       (rdb ans (lg @ [q]) None))"
  using assms
  by (cases "snd (ans lg q)")
    (simp_all add: fetch_rows_def rdb_def has_conn_def db_select_def db_fetch_def db_on_def via_def recorder_api_def
      db_conn_init_def conn_rows_def db_free_result_def Let_def split_beta)

lemma rdb_query_rows [simp]:
  assumes "is_select q"
  shows "query_rows q (rdb ans lg r) = Some (snd (ans lg q), rdb ans (lg @ [q]) None)"
  using assms
  by (simp add: query_rows_def rdb_fetch_rows) (simp add: rdb_def clear_conn_result_def db_conn_init_def)

lemma rdb_verb [simp]:
  assumes "strncasecmp0 q verb (length verb)"
  shows "db_verb verb (rdb ans lg r) q = (fst (ans lg q), rdb ans (lg @ [q]) (snd (ans lg q)))"
  using assms
  by (simp add: db_verb_def rdb_def db_on_def via_def recorder_api_def db_conn_init_def db_free_result_def Let_def)

lemma rdb_insert [simp]:
  "strncasecmp0 q ''insert'' 6 \<Longrightarrow> db_insert (rdb ans lg r) q = (fst (ans lg q), rdb ans (lg @ [q]) (snd (ans lg q)))"
  using rdb_verb [of q "''insert''" ans lg r] by (simp add: db_insert_def numeral_eq_Suc)

lemma rdb_update [simp]:
  "strncasecmp0 q ''update'' 6 \<Longrightarrow> db_update (rdb ans lg r) q = (fst (ans lg q), rdb ans (lg @ [q]) (snd (ans lg q)))"
  using rdb_verb [of q "''update''" ans lg r] by (simp add: db_update_def numeral_eq_Suc)

text \<open>\<open>db_query\<close> then \<open>db_fetch\<close>, as the insert with \<open>returning\<close> uses them.\<close>

lemma rdb_query_fetch [simp]:
  "take_result (snd (db_fetch (snd (db_query (rdb ans lg r) q False)))) =
     (snd (ans lg q), rdb ans (lg @ [q]) None)"
  by (cases "snd (ans lg q)")
    (simp_all add: rdb_def db_query_def db_fetch_def db_on_def via_def recorder_api_def take_result_def conn_rows_def
      db_conn_init_def db_free_result_def clear_conn_result_def Let_def split_beta)

lemma rdb_tx:
  "db_query (rdb ans lg r) q True = (fst (ans lg q), rdb ans (lg @ [q]) (snd (ans lg q)))"
  by (simp add: db_query_def rdb_def db_on_def via_def recorder_api_def db_conn_init_def db_free_result_def Let_def)

text \<open>How a statement starts.\<close>

lemma verb_prefix:
  "strncasecmp0 (CHR ''s'' # CHR ''e'' # CHR ''l'' # CHR ''e'' # CHR ''c'' # CHR ''t'' # x) ''select'' 6"
  "strncasecmp0 (CHR ''S'' # CHR ''E'' # CHR ''L'' # CHR ''E'' # CHR ''C'' # CHR ''T'' # x) ''select'' 6"
  "strncasecmp0 (CHR ''i'' # CHR ''n'' # CHR ''s'' # CHR ''e'' # CHR ''r'' # CHR ''t'' # x) ''insert'' 6"
  "strncasecmp0 (CHR ''u'' # CHR ''p'' # CHR ''d'' # CHR ''a'' # CHR ''t'' # CHR ''e'' # x) ''update'' 6"
  by (simp_all add: strncasecmp0_def) (code_simp)+

end
