(* ===== verification/Cdr.thy ===== *)
theory Cdr
  imports Query
begin

text \<open>
  The call detail record of the CDRMediator module: \<open>cdr.h\<close>, \<open>cdr.c\<close> and \<open>prefix_filter.c\<close>. A
  record has the fields of \<open>cdr_t\<close>; a character array is the string it holds, and \<open>cdr_ok\<close>
  says that the strings fit their arrays. A setter returns \<open>None\<close> where \<open>atoi\<close> overflows.
  \<open>mktime\<close> and the JSON codec of \<open>cdrm_json.c\<close> are arguments of the functions that use them;
  the write of a rejected NoSQL record to a file is left out.
\<close>

section \<open>The record\<close>

record cdr =
  cdr_id :: u32
  cdr_cdr_server_id :: u16
  cdr_profile_name :: string
  cdr_cdr_rec_type_id :: u16
  cdr_leg_a :: u32
  cdr_leg_b :: u32
  cdr_call_uid :: string
  cdr_start_ts :: string
  cdr_answer_ts :: string
  cdr_end_ts :: string
  cdr_start_epoch :: u32
  cdr_answer_epoch :: u32
  cdr_end_epoch :: u32
  cdr_c_epoch :: u32
  cdr_dow :: u16
  cdr_src :: string
  cdr_dst :: string
  cdr_calling_number :: string
  cdr_clg_nadi :: u16
  cdr_called_number :: string
  cdr_cld_nadi :: u16
  cdr_rdnis :: string
  cdr_rdnis_nadi :: u16
  cdr_ocn :: string
  cdr_ocn_nadi :: u16
  cdr_prefix_filter_id :: u16
  cdr_account_code :: string
  cdr_src_context :: string
  cdr_src_tgroup :: string
  cdr_dst_context :: string
  cdr_dst_tgroup :: string
  cdr_billsec :: u32
  cdr_duration :: u32
  cdr_uduration :: u32
  cdr_billusec :: u32

definition cdr0 :: cdr where
  "cdr0 = \<lparr>cdr_id = 0, cdr_cdr_server_id = 0, cdr_profile_name = [], cdr_cdr_rec_type_id = 0, cdr_leg_a = 0, cdr_leg_b = 0, cdr_call_uid = [], cdr_start_ts = [], cdr_answer_ts = [], cdr_end_ts = [], cdr_start_epoch = 0, cdr_answer_epoch = 0, cdr_end_epoch = 0, cdr_c_epoch = 0, cdr_dow = 0, cdr_src = [], cdr_dst = [], cdr_calling_number = [], cdr_clg_nadi = 0, cdr_called_number = [], cdr_cld_nadi = 0, cdr_rdnis = [], cdr_rdnis_nadi = 0, cdr_ocn = [], cdr_ocn_nadi = 0, cdr_prefix_filter_id = 0, cdr_account_code = [], cdr_src_context = [], cdr_src_tgroup = [], cdr_dst_context = [], cdr_dst_tgroup = [], cdr_billsec = 0, cdr_duration = 0, cdr_uduration = 0, cdr_billusec = 0\<rparr>"

text \<open>The strings fit their arrays, the terminator included.\<close>

definition cdr_ok :: "cdr \<Rightarrow> bool" where
  "cdr_ok c \<longleftrightarrow> length (cdr_profile_name c) < 32 \<and>
     length (cdr_call_uid c) < 128 \<and>
     length (cdr_start_ts c) < 32 \<and>
     length (cdr_answer_ts c) < 32 \<and>
     length (cdr_end_ts c) < 32 \<and>
     length (cdr_src c) < 80 \<and>
     length (cdr_dst c) < 80 \<and>
     length (cdr_calling_number c) < 80 \<and>
     length (cdr_called_number c) < 80 \<and>
     length (cdr_rdnis c) < 80 \<and>
     length (cdr_ocn c) < 80 \<and>
     length (cdr_account_code c) < 80 \<and>
     length (cdr_src_context c) < 80 \<and>
     length (cdr_src_tgroup c) < 80 \<and>
     length (cdr_dst_context c) < 80 \<and>
     length (cdr_dst_tgroup c) < 80"

section \<open>The setters and their table\<close>

definition cdr_field_set :: "string \<Rightarrow> nat \<Rightarrow> string" where
  "cdr_field_set src dst_size = strncpy src (dst_size - 1)"

type_synonym cdr_func = "cdr \<Rightarrow> string \<Rightarrow> cdr option"

definition cdr_add_id :: cdr_func where
  "cdr_add_id c txt = do { n \<leftarrow> atoi txt; Some (c\<lparr>cdr_id := word_of_int n\<rparr>) }"

definition cdr_add_cdr_server_id :: cdr_func where
  "cdr_add_cdr_server_id c txt = do { n \<leftarrow> atoi txt; Some (c\<lparr>cdr_cdr_server_id := word_of_int n\<rparr>) }"

definition cdr_add_cdr_rec_type :: cdr_func where
  "cdr_add_cdr_rec_type c txt = do { n \<leftarrow> atoi txt; Some (c\<lparr>cdr_cdr_rec_type_id := word_of_int n\<rparr>) }"

definition cdr_add_leg_a :: cdr_func where
  "cdr_add_leg_a c txt = do { n \<leftarrow> atoi txt; Some (c\<lparr>cdr_leg_a := word_of_int n\<rparr>) }"

definition cdr_add_leg_b :: cdr_func where
  "cdr_add_leg_b c txt = do { n \<leftarrow> atoi txt; Some (c\<lparr>cdr_leg_b := word_of_int n\<rparr>) }"

definition cdr_add_call_uid :: cdr_func where
  "cdr_add_call_uid c txt = Some (c\<lparr>cdr_call_uid := cdr_field_set txt 128\<rparr>)"

definition cdr_add_start_ts :: cdr_func where
  "cdr_add_start_ts c txt = Some (c\<lparr>cdr_start_ts := cdr_field_set txt 32\<rparr>)"

definition cdr_add_answer_ts :: cdr_func where
  "cdr_add_answer_ts c txt = Some (c\<lparr>cdr_answer_ts := cdr_field_set txt 32\<rparr>)"

definition cdr_add_end_ts :: cdr_func where
  "cdr_add_end_ts c txt = Some (c\<lparr>cdr_end_ts := cdr_field_set txt 32\<rparr>)"

definition cdr_add_start_epoch :: cdr_func where
  "cdr_add_start_epoch c txt = do { n \<leftarrow> atoi txt; Some (c\<lparr>cdr_start_epoch := word_of_int n\<rparr>) }"

definition cdr_add_answer_epoch :: cdr_func where
  "cdr_add_answer_epoch c txt = do { n \<leftarrow> atoi txt; Some (c\<lparr>cdr_answer_epoch := word_of_int n\<rparr>) }"

definition cdr_add_end_epoch :: cdr_func where
  "cdr_add_end_epoch c txt = do { n \<leftarrow> atoi txt; Some (c\<lparr>cdr_end_epoch := word_of_int n\<rparr>) }"

definition cdr_add_src :: cdr_func where
  "cdr_add_src c txt = Some (c\<lparr>cdr_src := cdr_field_set txt 80\<rparr>)"

definition cdr_add_dst :: cdr_func where
  "cdr_add_dst c txt = Some (c\<lparr>cdr_dst := cdr_field_set txt 80\<rparr>)"

definition cdr_add_calling_number :: cdr_func where
  "cdr_add_calling_number c txt = Some (c\<lparr>cdr_calling_number := cdr_field_set txt 80\<rparr>)"

definition cdr_add_clg_nadi :: cdr_func where
  "cdr_add_clg_nadi c txt = do { n \<leftarrow> atoi txt; Some (c\<lparr>cdr_clg_nadi := word_of_int n\<rparr>) }"

definition cdr_add_called_number :: cdr_func where
  "cdr_add_called_number c txt = Some (c\<lparr>cdr_called_number := cdr_field_set txt 80\<rparr>)"

definition cdr_add_cld_nadi :: cdr_func where
  "cdr_add_cld_nadi c txt = do { n \<leftarrow> atoi txt; Some (c\<lparr>cdr_cld_nadi := word_of_int n\<rparr>) }"

definition cdr_add_rdnis :: cdr_func where
  "cdr_add_rdnis c txt = Some (c\<lparr>cdr_rdnis := cdr_field_set txt 80\<rparr>)"

definition cdr_add_rdnis_nadi :: cdr_func where
  "cdr_add_rdnis_nadi c txt = do { n \<leftarrow> atoi txt; Some (c\<lparr>cdr_rdnis_nadi := word_of_int n\<rparr>) }"

definition cdr_add_ocn :: cdr_func where
  "cdr_add_ocn c txt = Some (c\<lparr>cdr_ocn := cdr_field_set txt 80\<rparr>)"

definition cdr_add_ocn_nadi :: cdr_func where
  "cdr_add_ocn_nadi c txt = do { n \<leftarrow> atoi txt; Some (c\<lparr>cdr_ocn_nadi := word_of_int n\<rparr>) }"

definition cdr_add_prefix_filter_id :: cdr_func where
  "cdr_add_prefix_filter_id c txt = do { n \<leftarrow> atoi txt; Some (c\<lparr>cdr_prefix_filter_id := word_of_int n\<rparr>) }"

definition cdr_add_account_code :: cdr_func where
  "cdr_add_account_code c txt = Some (c\<lparr>cdr_account_code := cdr_field_set txt 80\<rparr>)"

definition cdr_add_src_context :: cdr_func where
  "cdr_add_src_context c txt = Some (c\<lparr>cdr_src_context := cdr_field_set txt 80\<rparr>)"

definition cdr_add_src_tgroup :: cdr_func where
  "cdr_add_src_tgroup c txt = Some (c\<lparr>cdr_src_tgroup := cdr_field_set txt 80\<rparr>)"

definition cdr_add_dst_context :: cdr_func where
  "cdr_add_dst_context c txt = Some (c\<lparr>cdr_dst_context := cdr_field_set txt 80\<rparr>)"

definition cdr_add_dst_tgroup :: cdr_func where
  "cdr_add_dst_tgroup c txt = Some (c\<lparr>cdr_dst_tgroup := cdr_field_set txt 80\<rparr>)"

definition cdr_add_billsec :: cdr_func where
  "cdr_add_billsec c txt = do { n \<leftarrow> atoi txt; Some (c\<lparr>cdr_billsec := word_of_int n\<rparr>) }"

definition cdr_add_duration :: cdr_func where
  "cdr_add_duration c txt = do { n \<leftarrow> atoi txt; Some (c\<lparr>cdr_duration := word_of_int n\<rparr>) }"

definition cdr_add_uduration :: cdr_func where
  "cdr_add_uduration c txt = do { n \<leftarrow> atoi txt; Some (c\<lparr>cdr_uduration := word_of_int n\<rparr>) }"

definition cdr_add_billusec :: cdr_func where
  "cdr_add_billusec c txt = do { n \<leftarrow> atoi txt; Some (c\<lparr>cdr_billusec := word_of_int n\<rparr>) }"

lemmas cdr_add_defs =
  cdr_add_id_def cdr_add_cdr_server_id_def cdr_add_cdr_rec_type_def cdr_add_leg_a_def
  cdr_add_leg_b_def cdr_add_call_uid_def cdr_add_start_ts_def cdr_add_answer_ts_def
  cdr_add_end_ts_def cdr_add_start_epoch_def cdr_add_answer_epoch_def cdr_add_end_epoch_def
  cdr_add_src_def cdr_add_dst_def cdr_add_calling_number_def cdr_add_clg_nadi_def
  cdr_add_called_number_def cdr_add_cld_nadi_def cdr_add_rdnis_def cdr_add_rdnis_nadi_def
  cdr_add_ocn_def cdr_add_ocn_nadi_def cdr_add_prefix_filter_id_def cdr_add_account_code_def
  cdr_add_src_context_def cdr_add_src_tgroup_def cdr_add_dst_context_def cdr_add_dst_tgroup_def
  cdr_add_billsec_def cdr_add_duration_def cdr_add_uduration_def cdr_add_billusec_def

definition cdr_tbl :: "(string \<times> cdr_func) list" where
  "cdr_tbl = [(''id'', cdr_add_id),
     (''cdr_server_id'', cdr_add_cdr_server_id),
     (''cdr_rec_type_id'', cdr_add_cdr_rec_type),
     (''leg_a'', cdr_add_leg_a),
     (''leg_b'', cdr_add_leg_b),
     (''call_uid'', cdr_add_call_uid),
     (''start_ts'', cdr_add_start_ts),
     (''answer_ts'', cdr_add_answer_ts),
     (''end_ts'', cdr_add_end_ts),
     (''start_epoch'', cdr_add_start_epoch),
     (''answer_epoch'', cdr_add_answer_epoch),
     (''end_epoch'', cdr_add_end_epoch),
     (''src'', cdr_add_src),
     (''dst'', cdr_add_dst),
     (''calling_number'', cdr_add_calling_number),
     (''clg_nadi'', cdr_add_clg_nadi),
     (''called_number'', cdr_add_called_number),
     (''cld_nadi'', cdr_add_cld_nadi),
     (''rdnis'', cdr_add_rdnis),
     (''rdnis_nadi'', cdr_add_rdnis_nadi),
     (''ocn'', cdr_add_ocn),
     (''ocn_nadi'', cdr_add_ocn_nadi),
     (''prefix_filter_id'', cdr_add_prefix_filter_id),
     (''account_code'', cdr_add_account_code),
     (''src_context'', cdr_add_src_context),
     (''src_tgroup'', cdr_add_src_tgroup),
     (''dst_context'', cdr_add_dst_context),
     (''dst_tgroup'', cdr_add_dst_tgroup),
     (''billsec'', cdr_add_billsec),
     (''duration'', cdr_add_duration),
     (''uduration'', cdr_add_uduration),
     (''billusec'', cdr_add_billusec)]"

fun join_cols :: "string list \<Rightarrow> string" where
  "join_cols [] = []"
| "join_cols [c] = c"
| "join_cols (c # cs) = c @ '','' @ join_cols cs"

definition cdr_tbl_sql_columns :: string where
  "cdr_tbl_sql_columns = join_cols (map fst cdr_tbl)"

section \<open>Prefix filters\<close>

record filter =
  fl_id :: int
  fl_filtering_prefix :: string
  fl_filtering_number :: int
  fl_replace_str :: string
  fl_cdr_server_id :: int
  fl_len :: int

definition filter_row :: "string list \<Rightarrow> filter option" where
  "filter_row row = do {
     id \<leftarrow> coli row 0;
     prefix \<leftarrow> col row 1;
     number \<leftarrow> coli row 2;
     repl \<leftarrow> col row 3;
     server \<leftarrow> coli row 4;
     len \<leftarrow> coli row 5;
     if 32 \<le> length prefix \<or> 32 \<le> length repl then None
     else Some \<lparr>fl_id = id, fl_filtering_prefix = prefix, fl_filtering_number = number,
       fl_replace_str = repl, fl_cdr_server_id = server, fl_len = len\<rparr>
   }"

definition db_type :: "'e db option \<Rightarrow> int" where
  "db_type ptr = (case ptr of None \<Rightarrow> 0 | Some d \<Rightarrow> db_t d)"

definition prefix_filter_get :: "int \<Rightarrow> 'e db option \<Rightarrow> (filter list option \<times> 'e db option) option" where
  "prefix_filter_get cdr_profile_id dbp =
     (if db_type dbp \<noteq> sql then Some (None, dbp)
      else do {
        (rows, p) \<leftarrow> query_rows (''SELECT id,filtering_prefix,filtering_number,replace_str,cdr_server_id,len '' @
          ''FROM prefix_filter where cdr_profiles_id = '' @ dec_int cdr_profile_id) dbp;
        case rows of
          Some (r # rs) \<Rightarrow> do { fs \<leftarrow> those_list (map filter_row (r # rs)); Some (Some fs, p) }
        | _ \<Rightarrow> Some (None, p)
      })"

text \<open>\<open>ret\<close> and \<open>replace_str\<close> hold 80 bytes, \<open>buf\<close> 32; a start index that is negative or past the
  end copies nothing (the comparison with \<open>strlen\<close> is unsigned).\<close>

definition prefix_filter_cuti_replace ::
  "string \<Rightarrow> string \<Rightarrow> int \<Rightarrow> string \<Rightarrow> int \<Rightarrow> string option" where
  "prefix_filter_cuti_replace prefix cut_string i replace_string prefix_len =
     (if 32 \<le> length cut_string then None
      else if 0 < prefix_len \<and> int (length prefix) \<noteq> prefix_len then Some []
      else if take (length cut_string) prefix = cut_string then
        let rest = (if i < 0 then [] else drop (nat i) prefix);
            ret = (if replace_string = [] then rest else replace_string @ rest)
        in if 80 \<le> length ret then None else Some ret
      else Some [])"

fun cdr_called_number_filtering_match :: "filter list \<Rightarrow> cdr \<Rightarrow> cdr option" where
  "cdr_called_number_filtering_match [] c = Some c"
| "cdr_called_number_filtering_match (f # fs) c =
     (if fl_id f = 0 then Some c
      else do {
        ret \<leftarrow> prefix_filter_cuti_replace (cdr_called_number c) (fl_filtering_prefix f)
                 (fl_filtering_number f) (fl_replace_str f) (fl_len f);
        if ret \<noteq> [] then Some (c\<lparr>cdr_called_number := ret, cdr_prefix_filter_id := word_of_int (fl_id f)\<rparr>)
        else cdr_called_number_filtering_match fs c
      })"

section \<open>Reading records\<close>

text \<open>The value \<open>db_sql_escape\<close> wrote; the buffer is undefined after a refusal.\<close>

definition escaped :: "string \<Rightarrow> int \<Rightarrow> string option" where
  "escaped s sz = (let (n, e) = db_sql_escape (Some s) sz in if n < 0 then None else Some e)"

definition cdr_get_cdr_id :: "cdr \<Rightarrow> 'e db option \<Rightarrow> (int \<times> 'e db option) option" where
  "cdr_get_cdr_id c dbp =
     (if dbp = None then None
      else if db_type dbp = sql then do {
        e_call_uid \<leftarrow> escaped (cdr_call_uid c) 257;
        (rows, p) \<leftarrow> query_rows (''select id from cdrs where call_uid = '' @ quoted e_call_uid @
          '' and cdr_server_id = '' @ dec_int (uint (cdr_cdr_server_id c))) dbp;
        n \<leftarrow> one_int 0 rows;
        Some (case n of Some v \<Rightarrow> v | None \<Rightarrow> 0, p)
      } else if db_type dbp = nosql then
        (let (ret, p) = db_get dbp (''get cdr_call_'' @ cdr_call_uid c) in
         if ret < 0 then Some (if ret = -18 then 0 else -1, p)
         else if \<not> has_conn p then None
         else Some (1, clear_conn_result (snd (db_free_result p))))
      else Some (-1, dbp))"

fun set_cols :: "(string \<times> cdr_func) list \<Rightarrow> string list \<Rightarrow> nat \<Rightarrow> cdr \<Rightarrow> cdr option" where
  "set_cols [] row i c = Some c"
| "set_cols ((name, func) # tbl) row i c = do {
     txt \<leftarrow> col row i;
     c' \<leftarrow> func c txt;
     set_cols tbl row (Suc i) c'
   }"

definition cdr_row :: "string list \<Rightarrow> cdr option" where
  "cdr_row row = set_cols cdr_tbl row 0 cdr0"

definition str_ext_clear_str :: "string \<Rightarrow> char \<Rightarrow> string" where
  "str_ext_clear_str src search = List.filter (\<lambda>c. c \<noteq> search) src"

definition clear_conn_res :: "'e db option \<Rightarrow> 'e db option" where
  "clear_conn_res ptr = map_option (\<lambda>d. d\<lparr>db_conn := map_option (\<lambda>c. c\<lparr>cn_res := False\<rparr>) (db_conn d)\<rparr>) ptr"

text \<open>One key after the other; a key that cannot be read leaves a zeroed record. The list of
  keys ends at an empty one.\<close>

fun nosql_cdrs :: "(string \<Rightarrow> cdr \<Rightarrow> cdr) \<Rightarrow> string list \<Rightarrow> 'e db option \<Rightarrow> (cdr list \<times> 'e db option) option" where
  "nosql_cdrs json [] dbp = Some ([], dbp)"
| "nosql_cdrs json (k # ks) dbp =
     (if k = [] then Some (map (\<lambda>_. cdr0) (k # ks), dbp)
      else
        let (ret, p) = db_get dbp (''get '' @ k) in
        if ret = DB_OK then do {
          s \<leftarrow> conn_str p;
          let c = (if s = [] then cdr0 else json (str_ext_clear_str s (CHR 0x27)) cdr0);
          (cs, p') \<leftarrow> nosql_cdrs json ks (clear_conn_res (snd (db_free_result (clear_conn_result p))));
          Some (c # cs, p')
        } else do {
          (cs, p') \<leftarrow> nosql_cdrs json ks p;
          Some (cdr0 # cs, p')
        })"

definition cdr_get_cdrs ::
  "(string \<Rightarrow> cdr \<Rightarrow> cdr) \<Rightarrow> char \<Rightarrow> int \<Rightarrow> 'e db option \<Rightarrow> (cdr list option \<times> 'e db option) option" where
  "cdr_get_cdrs json leg dig dbp =
     (if dbp = None then None
      else if db_type dbp = sql then do {
        (rows, p) \<leftarrow> query_rows (''select '' @ cdr_tbl_sql_columns @ '' from cdrs where leg_'' @ [leg] @ '' = '' @
          dec_int dig @ '' order by id limit 1000'') dbp;
        case rows of
          Some (r # rs) \<Rightarrow> do { cs \<leftarrow> those_list (map cdr_row (r # rs)); Some (Some cs, p) }
        | _ \<Rightarrow> Some (None, p)
      } else if db_type dbp = nosql then
        let (ret, p) = db_command dbp ''keys cdr_call_*'' in
        if ret < 0 then Some (None, p)
        else if \<not> has_conn p then None
        else (case p \<bind> (\<lambda>d. db_conn d \<bind> cn_result) of
          None \<Rightarrow> Some (None, p)
        | Some (SqlResult _) \<Rightarrow> None
        | Some (NosqlResult _ arr) \<Rightarrow> do {
            (cs, p') \<leftarrow> nosql_cdrs json (map fst arr) (clear_conn_res (snd (db_free_result (clear_conn_result p))));
            Some (Some cs, p')
          })
      else Some (None, dbp))"

section \<open>Writing records\<close>

definition cdr_update_str :: "int \<Rightarrow> int \<Rightarrow> char \<Rightarrow> string" where
  "cdr_update_str rating_id cid leg =
     ''update cdrs set leg_'' @ [leg] @ '' = '' @ dec_int rating_id @ '' where id = '' @ dec_int cid"

definition cdr_update_cdr :: "int \<Rightarrow> int \<Rightarrow> char \<Rightarrow> string \<Rightarrow> 'e db option \<Rightarrow> 'e db option option" where
  "cdr_update_cdr rating_id cid leg call_uid dbp =
     (if 0 < cid \<and> (leg = CHR ''a'' \<or> leg = CHR ''b'') then
        if dbp = None then None
        else if db_type dbp = sql then Some (snd (db_update dbp (cdr_update_str rating_id cid leg)))
        else if db_type dbp = nosql then
          Some (snd (db_command dbp (''RENAME cdr_call_'' @ call_uid @ '' rcdr_call_'' @ call_uid)))
        else Some dbp
      else Some dbp)"

definition cdr_insert_str :: "string \<Rightarrow> cdr \<Rightarrow> string option" where
  "cdr_insert_str enginename c = do {
     e_call_uid \<leftarrow> escaped (cdr_call_uid c) 257;
     e_start_ts \<leftarrow> escaped (cdr_start_ts c) 65;
     e_answer_ts \<leftarrow> escaped (cdr_answer_ts c) 65;
     e_end_ts \<leftarrow> escaped (cdr_end_ts c) 65;
     e_src \<leftarrow> escaped (cdr_src c) 161;
     e_dst \<leftarrow> escaped (cdr_dst c) 161;
     e_calling \<leftarrow> escaped (cdr_calling_number c) 161;
     e_called \<leftarrow> escaped (cdr_called_number c) 161;
     e_rdnis \<leftarrow> escaped (cdr_rdnis c) 161;
     e_ocn \<leftarrow> escaped (cdr_ocn c) 161;
     e_acc \<leftarrow> escaped (cdr_account_code c) 161;
     e_src_ctx \<leftarrow> escaped (cdr_src_context c) 161;
     e_src_tg \<leftarrow> escaped (cdr_src_tgroup c) 161;
     e_dst_ctx \<leftarrow> escaped (cdr_dst_context c) 161;
     e_dst_tg \<leftarrow> escaped (cdr_dst_tgroup c) 161;
     let mysql = (enginename = ''mysql'');
     let h = (\<lambda>w :: u16. dec_int (uint w));
     Some (strncpy ((if mysql then ''insert ignore into'' else ''insert into'') @ '' cdrs '' @
       ''(cdr_server_id,cdr_rec_type_id,leg_a,leg_b,'' @
       ''call_uid,start_ts,answer_ts,end_ts,start_epoch,answer_epoch,end_epoch,'' @
       ''src,dst,calling_number,clg_nadi,called_number,cld_nadi,'' @
       ''rdnis,rdnis_nadi,ocn,ocn_nadi,prefix_filter_id,'' @
       ''account_code,src_context,src_tgroup,dst_context,dst_tgroup,'' @
       ''billsec,duration,uduration,billusec) values ('' @
       join_cols [h (cdr_cdr_server_id c), h (cdr_cdr_rec_type_id c), fmt_u (cdr_leg_a c), fmt_u (cdr_leg_b c),
         quoted e_call_uid, quoted e_start_ts, quoted e_answer_ts, quoted e_end_ts,
         fmt_u (cdr_start_epoch c), fmt_u (cdr_answer_epoch c), fmt_u (cdr_end_epoch c),
         quoted e_src, quoted e_dst, quoted e_calling, h (cdr_clg_nadi c), quoted e_called, h (cdr_cld_nadi c),
         quoted e_rdnis, h (cdr_rdnis_nadi c), quoted e_ocn, h (cdr_ocn_nadi c), h (cdr_prefix_filter_id c),
         quoted e_acc, quoted e_src_ctx, quoted e_src_tg, quoted e_dst_ctx, quoted e_dst_tg,
         fmt_u (cdr_billsec c), fmt_u (cdr_duration c), fmt_u (cdr_uduration c), fmt_u (cdr_billusec c)] @ '')'' @
       (if mysql then [] else '' on conflict do nothing'')) 4095)
   }"

definition cdr_add_in_db_query :: "cdr \<Rightarrow> 'e db option \<Rightarrow> (int \<times> 'e db option) option" where
  "cdr_add_in_db_query c dbp = do {
     d \<leftarrow> dbp;
     conn \<leftarrow> db_conn d;
     str \<leftarrow> cdr_insert_str (cn_enginename conn) c;
     Some (db_insert dbp str)
   }"

definition cdr_add_in_db_set ::
  "(string \<Rightarrow> int) \<Rightarrow> (cdr \<Rightarrow> string \<times> string) \<Rightarrow> cdr \<Rightarrow> 'e db option \<Rightarrow> (int \<times> cdr \<times> 'e db option)" where
  "cdr_add_in_db_set ts_epoch json c dbp = (let
     c1 = (if cdr_cdr_server_id c = 0 then c\<lparr>cdr_cdr_server_id := 1\<rparr> else c);
     ep = (\<lambda>e ts. if e = (0 :: u32) \<and> ts \<noteq> [] then word_of_int (ts_epoch ts) else e);
     c2 = c1\<lparr>cdr_start_epoch := ep (cdr_start_epoch c1) (cdr_start_ts c1),
             cdr_answer_epoch := ep (cdr_answer_epoch c1) (cdr_answer_ts c1),
             cdr_end_epoch := ep (cdr_end_epoch c1) (cdr_end_ts c1)\<rparr>;
     (header, msg) = json c2;
     (ret, p) = db_set dbp (''SET '' @ header @ '' '' @ quoted msg) []
   in (ret, c2, p))"

text \<open>A timestamp longer than 20 characters is cut to the 19 of date and time.\<close>

definition trim_ts :: "string \<Rightarrow> string" where
  "trim_ts ts = (if 20 < length ts then convert_datetime ts else ts)"

definition cdr_add_in_db ::
  "(string \<Rightarrow> int) \<Rightarrow> (cdr \<Rightarrow> string \<times> string) \<Rightarrow> cdr \<Rightarrow> filter list option \<Rightarrow> 'e db option \<Rightarrow>
     (int \<times> cdr \<times> 'e db option) option" where
  "cdr_add_in_db ts_epoch json c filters dbp = do {
     let c1 = c\<lparr>cdr_start_ts := trim_ts (cdr_start_ts c), cdr_answer_ts := trim_ts (cdr_answer_ts c),
                cdr_end_ts := trim_ts (cdr_end_ts c)\<rparr>;
     c2 \<leftarrow> (case filters of None \<Rightarrow> Some c1 | Some fs \<Rightarrow> cdr_called_number_filtering_match fs c1);
     if dbp = None then None
     else if db_type dbp = sql then do {
       (ret, p) \<leftarrow> cdr_add_in_db_query c2 dbp;
       Some (ret, c2, p)
     } else if db_type dbp = nosql then do {
       (exists, p) \<leftarrow> cdr_get_cdr_id c2 dbp;
       if exists = 0 then Some (cdr_add_in_db_set ts_epoch json c2 p) else Some (-1, c2, p)
     } else Some (-1, c2, dbp)
   }"

end
