(* ===== verification/TimeCond.thy ===== *)
theory TimeCond
  imports RtData TimeFuncs
begin

text \<open>
  Time conditions, \<open>mod/Rating/time_cond.c\<close>: \<open>tc_ts_cmp\<close> picks the first row whose date,
  week days and hours hold at the time of the call. The rows are the ones the query put into
  \<open>pre->tc\<close>, in order; the array ends at \<open>id = 0\<close>. An index outside \<open>week_days\<close> is undefined
  behaviour.
\<close>

section \<open>The code\<close>

definition week_days :: "(int \<times> string) list" where
  "week_days = [(1, ''mon''), (2, ''tue''), (3, ''wed''), (4, ''thu''), (5, ''fri''), (6, ''sat''), (7, ''sun'')]"

fun find_day :: "string \<Rightarrow> int \<Rightarrow> (int \<times> string) list \<Rightarrow> int" where
  "find_day dway i [] = -1"
| "find_day dway i ((n, d) # ds) = (if d = dway then i else find_day dway (i + 1) ds)"

definition get_week_days_dnum :: "string option \<Rightarrow> int" where
  "get_week_days_dnum dway = (case dway of None \<Rightarrow> -1 | Some d \<Rightarrow> find_day d 0 week_days)"

definition week_day_dnum :: "int \<Rightarrow> int option" where
  "week_day_dnum i = (if 0 \<le> i \<and> i < 7 then Some (fst (week_days ! nat i)) else None)"

text \<open>\<open>parse_tm\<close>: the date and the time of the call; \<open>date\<close> holds 11 bytes, \<open>time\<close> 9.\<close>

definition parse_tm :: "(int \<Rightarrow> tm) \<Rightarrow> int \<Rightarrow> (string \<times> string) option" where
  "parse_tm localtime ts = (let t = localtime ts;
     tim = prec_dec 2 (tm_hour t) @ '':'' @ prec_dec 2 (tm_min t) @ '':'' @ prec_dec 2 (tm_sec t);
     date = prec_dec 4 (tm_year t + 1900) @ ''-'' @ prec_dec 2 (tm_mon t + 1) @ ''-'' @ prec_dec 2 (tm_mday t)
   in if length tim < 9 \<and> length date < 11 then Some (date, tim) else None)"

text \<open>Condition 3, the hours; \<open>b\<close>, \<open>n\<close>, \<open>n2\<close> as in the code.\<close>

definition tc_hours :: "string option \<Rightarrow> string option \<Rightarrow> string \<Rightarrow> bool" where
  "tc_hours hour1 hour2 tim = (case (hour1, hour2) of
     (Some h1, Some h2) \<Rightarrow>
       let b = strcmp h1 h2; n = strcmp h1 tim; n2 = strcmp h2 tim in
       if b < 0 then n < 0 \<and> 0 \<le> n2
       else (let n2a = strcmp ''23:59:59'' tim; n2b = strcmp ''00:00:00'' tim
             in (0 \<le> n2a \<and> n < 0) \<or> (n2b \<le> 0 \<and> 0 \<le> n2))
   | _ \<Rightarrow> True)"

fun tc_ts_cmp_loop :: "string \<Rightarrow> string \<Rightarrow> time_cond list \<Rightarrow> rating \<Rightarrow> (int \<times> rating) option" where
  "tc_ts_cmp_loop date tim [] pre = Some (0, pre)"
| "tc_ts_cmp_loop date tim (tc # tcs) pre =
     (if tcd_id tc = 0 then Some (0, pre)
      else
        let (hour1, hour2) = strtok2 (CHR ''-'') (tcd_hours tc);
            (day1, day2) = strtok2 (CHR ''-'') (tcd_dweek tc);
            hit = Some (1, pre\<lparr>pre_tc_id := tcd_id tc, pre_tariff_id := tcd_tariff_id tc\<rparr>);
            next = tc_ts_cmp_loop date tim tcs pre;
            cond_3 = (if tc_hours hour1 hour2 tim then hit else next)
        in
        if tcd_date tc \<noteq> [] \<and> tcd_date tc = date then
          (if tcd_hours tc \<noteq> [] then cond_3 else hit)
        else do {
          dnum_1 \<leftarrow> week_day_dnum (get_week_days_dnum day1);
          dnum_2 \<leftarrow> week_day_dnum (get_week_days_dnum day2);
          if dnum_1 \<le> pre_dow pre \<and> pre_dow pre \<le> dnum_2 then cond_3 else next
        })"

definition tc_ts_cmp :: "(int \<Rightarrow> tm) \<Rightarrow> rating \<Rightarrow> (int \<times> rating) option" where
  "tc_ts_cmp localtime pre = (case pre_tc pre of
     None \<Rightarrow> Some (0, pre)
   | Some tcs \<Rightarrow> do {
       (date, tim) \<leftarrow> parse_tm localtime (pre_epoch pre);
       tc_ts_cmp_loop date tim tcs pre
     })"

section \<open>What a row means\<close>

text \<open>A row as the configuration gives it: an optional window of hours and minutes, a range of
  week days by number (1 is Monday), an optional date.\<close>

record tc_rule =
  tr_id :: int
  tr_tariff :: int
  tr_hours :: "((nat \<times> nat) \<times> (nat \<times> nat)) option"
  tr_days :: "nat \<times> nat"
  tr_date :: "(nat \<times> nat \<times> nat) option"

definition day_name :: "nat \<Rightarrow> string" where
  "day_name d = snd (week_days ! (d - 1))"

definition rule_row :: "tc_rule \<Rightarrow> time_cond" where
  "rule_row r = \<lparr>tcd_id = tr_id r, tcd_tariff_id = tr_tariff r,
     tcd_hours = (case tr_hours r of None \<Rightarrow> []
       | Some ((h1, m1), (h2, m2)) \<Rightarrow> hm_str h1 m1 @ ''-'' @ hm_str h2 m2),
     tcd_dweek = day_name (fst (tr_days r)) @ ''-'' @ day_name (snd (tr_days r)),
     tcd_date = (case tr_date r of None \<Rightarrow> [] | Some (y, m, d) \<Rightarrow> date_str y m d), tcd_name = []\<rparr>"

definition rule_ok :: "tc_rule \<Rightarrow> bool" where
  "rule_ok r \<longleftrightarrow> tr_id r \<noteq> 0 \<and> fst (tr_days r) \<in> {1..7} \<and> snd (tr_days r) \<in> {1..7} \<and>
     (case tr_hours r of None \<Rightarrow> True | Some ((h1, m1), (h2, m2)) \<Rightarrow> h1 < 25 \<and> m1 < 60 \<and> h2 < 25 \<and> m2 < 60) \<and>
     (case tr_date r of None \<Rightarrow> True | Some (y, m, d) \<Rightarrow> y < 10000 \<and> m < 100 \<and> d < 100)"

text \<open>The window is half open and may pass midnight; a date that matches replaces the week
  days.\<close>

definition in_window :: "nat \<Rightarrow> nat \<Rightarrow> nat \<Rightarrow> bool" where
  "in_window a b m \<longleftrightarrow> (if a < b then a \<le> m \<and> m < b else a \<le> m \<or> m < b)"

definition rule_today :: "tm \<Rightarrow> tc_rule \<Rightarrow> bool" where
  "rule_today t r \<longleftrightarrow> tr_date r = Some (nat (tm_year t + 1900), nat (tm_mon t + 1), nat (tm_mday t))"

definition rule_hours :: "tm \<Rightarrow> tc_rule \<Rightarrow> bool" where
  "rule_hours t r \<longleftrightarrow> (case tr_hours r of None \<Rightarrow> True
      | Some ((h1, m1), (h2, m2)) \<Rightarrow>
          in_window (h1 * 60 + m1) (h2 * 60 + m2) (nat (tm_hour t) * 60 + nat (tm_min t)))"

text \<open>The day of the week as the table of names counts it: Monday is 1 and Sunday is 7.\<close>

definition iso_day :: "tm \<Rightarrow> int" where
  "iso_day t = (if tm_wday t = 0 then 7 else tm_wday t)"

definition rule_holds :: "tm \<Rightarrow> tc_rule \<Rightarrow> bool" where
  "rule_holds t r \<longleftrightarrow>
     (rule_today t r \<or> int (fst (tr_days r)) \<le> iso_day t \<and> iso_day t \<le> int (snd (tr_days r))) \<and> rule_hours t r"

text \<open>The comparison the code makes, with whatever number \<open>pre->dow\<close> holds.\<close>

definition rule_applies :: "tm \<Rightarrow> int \<Rightarrow> tc_rule \<Rightarrow> bool" where
  "rule_applies t dow r \<longleftrightarrow>
     (rule_today t r \<or> int (fst (tr_days r)) \<le> dow \<and> dow \<le> int (snd (tr_days r))) \<and> rule_hours t r"

section \<open>The strings are read back\<close>

lemma parse_tm_ok:
  assumes "tm_ok (localtime ts)"
  shows "parse_tm localtime ts = Some
    (date_str (nat (tm_year (localtime ts) + 1900)) (nat (tm_mon (localtime ts) + 1)) (nat (tm_mday (localtime ts))),
     hm_str (nat (tm_hour (localtime ts))) (nat (tm_min (localtime ts))) @ '':'' @ digits 2 (nat (tm_sec (localtime ts))))"
  using assms by (simp add: parse_tm_def tm_ok_def Let_def date_str_def hm_str_def prec_dec_digits)

lemma hm_str_no_dash: "h < 100 \<Longrightarrow> m < 100 \<Longrightarrow> CHR ''-'' \<notin> set (hm_str h m)"
proof -
  have "isdigit c" if "c \<in> set (digits k n)" for c k n
    using that by (induction k arbitrary: n) auto
  moreover have "\<not> isdigit (CHR ''-'')" by (simp add: isdigit_def)
  ultimately show ?thesis by (auto simp: hm_str_def simp del: digits.simps)
qed

lemma hm_str_nonempty [simp]: "hm_str h m \<noteq> []"
  by (simp add: hm_str_def)

lemma day_name_ok:
  assumes "d \<in> {1..7}"
  shows "CHR ''-'' \<notin> set (day_name d)" "day_name d \<noteq> []"
    "week_day_dnum (get_week_days_dnum (Some (day_name d))) = Some (int d)"
proof -
  have "d = 1 \<or> d = 2 \<or> d = 3 \<or> d = 4 \<or> d = 5 \<or> d = 6 \<or> d = 7" using assms by auto
  then show "CHR ''-'' \<notin> set (day_name d)" "day_name d \<noteq> []"
    "week_day_dnum (get_week_days_dnum (Some (day_name d))) = Some (int d)"
    by (elim disjE; simp add: day_name_def week_days_def get_week_days_dnum_def week_day_dnum_def)+
qed

lemma date_str_eq:
  "y < 10000 \<Longrightarrow> y' < 10000 \<Longrightarrow> m < 100 \<Longrightarrow> m' < 100 \<Longrightarrow> d < 100 \<Longrightarrow> d' < 100 \<Longrightarrow>
   date_str y m d = date_str y' m' d' \<longleftrightarrow> y = y' \<and> m = m' \<and> d = d'"
proof -
  assume b: "y < 10000" "y' < 10000" "m < 100" "m' < 100" "d < 100" "d' < 100"
  have inj: "digits k a = digits k c \<longleftrightarrow> a = c" if "a < 10 ^ k" "c < 10 ^ k" for a c k
    using strcmp_digits [OF that] by (auto simp: sgn_cmp_def split: if_splits simp flip: strcmp_eq_0)
  show ?thesis using b by (auto simp: date_str_def inj simp del: digits.simps)
qed

lemma tc_hours_window:
  assumes "h1 < 25" "m1 < 60" "h2 < 25" "m2 < 60" "h < 24" "m < 60" "s < 60"
  shows "tc_hours (Some (hm_str h1 m1)) (Some (hm_str h2 m2)) (hm_str h m @ '':'' @ digits 2 s) \<longleftrightarrow>
    in_window (h1 * 60 + m1) (h2 * 60 + m2) (h * 60 + m)"
proof -
  have c: "strcmp (hm_str a b) (hm_str h m @ '':'' @ digits 2 s) = (if h * 60 + m < a * 60 + b then 1 else -1)"
    if "a < 25" "b < 60" for a b
    using that assms strcmp_append_same_length [of "hm_str a b" "hm_str h m" "[]" "'':'' @ digits 2 s"]
      strcmp_hm [of a h b m] by (simp add: sgn_cmp_def)
  have bb: "strcmp (hm_str h1 m1) (hm_str h2 m2) = sgn_cmp (h1 * 60 + m1) (h2 * 60 + m2)"
    using assms by (intro strcmp_hm) auto
  have full: "strcmp (hm_str a b @ '':'' @ digits 2 c) (hm_str h m @ '':'' @ digits 2 s) =
      sgn_cmp ((a * 60 + b) * 60 + c) ((h * 60 + m) * 60 + s)" if "a < 24" "b < 60" "c < 60" for a b c
    using that assms strcmp_two [of "hm_str a b" "hm_str h m" "a * 60 + b" "h * 60 + m" c 60 s "digits 2 c" "digits 2 s" "CHR '':''"]
      strcmp_hm [of a h b m] strcmp_digits [of c 2 s] by simp
  have lits: "''23:59:59'' = hm_str 23 59 @ '':'' @ digits 2 59" "''00:00:00'' = hm_str 0 0 @ '':'' @ digits 2 0"
    by code_simp+
  have "0 \<le> strcmp ''23:59:59'' (hm_str h m @ '':'' @ digits 2 s)"
    using full [of 23 59 59] assms unfolding lits by (simp add: sgn_cmp_def)
  moreover have "strcmp ''00:00:00'' (hm_str h m @ '':'' @ digits 2 s) \<le> 0"
    using full [of 0 0 0] unfolding lits by (simp add: sgn_cmp_def)
  ultimately show ?thesis using assms
    unfolding tc_hours_def in_window_def Let_def option.case prod.case bb c [OF assms(1,2)] c [OF assms(3,4)]
    by (auto simp: sgn_cmp_def)
qed

section \<open>The first row that applies\<close>

lemma tc_ts_cmp_loop_find:
  assumes "\<forall>r \<in> set rules. rule_ok r" "tm_ok t" "tm_sec t < 60"
    and "date = date_str (nat (tm_year t + 1900)) (nat (tm_mon t + 1)) (nat (tm_mday t))"
    and "tim = hm_str (nat (tm_hour t)) (nat (tm_min t)) @ '':'' @ digits 2 (nat (tm_sec t))"
  shows "tc_ts_cmp_loop date tim (map rule_row rules) pre =
    Some (case find (rule_applies t (pre_dow pre)) rules of
      None \<Rightarrow> (0, pre)
    | Some r \<Rightarrow> (1, pre\<lparr>pre_tc_id := tr_id r, pre_tariff_id := tr_tariff r\<rparr>))"
  using assms(1)
proof (induction rules)
  case (Cons r rules)
  obtain d1 d2 where days: "tr_days r = (d1, d2)" by (cases "tr_days r")
  have ok: "tr_id r \<noteq> 0" "d1 \<in> {1..7}" "d2 \<in> {1..7}" using Cons.prems days by (auto simp: rule_ok_def)
  have dw: "strtok2 (CHR ''-'') (tcd_dweek (rule_row r)) = (Some (day_name d1), Some (day_name d2))"
    using day_name_ok [OF ok(2)] day_name_ok [OF ok(3)] by (simp add: rule_row_def days strtok2_pair)
  define hrs where "hrs = strtok2 (CHR ''-'') (tcd_hours (rule_row r))"
  define inh where "inh = (case tr_hours r of None \<Rightarrow> True
      | Some ((h1, m1), (h2, m2)) \<Rightarrow> in_window (h1 * 60 + m1) (h2 * 60 + m2) (nat (tm_hour t) * 60 + nat (tm_min t)))"
  have tb: "nat (tm_hour t) < 24" "nat (tm_min t) < 60" "nat (tm_sec t) < 60"
    using assms(2,3) by (auto simp: tm_ok_def)
  have hr: "tc_hours (fst hrs) (snd hrs) tim = inh"
  proof (cases "tr_hours r")
    case None
    then show ?thesis by (simp add: hrs_def inh_def rule_row_def tc_hours_def)
  next
    case (Some w)
    then obtain h1 m1 h2 m2 where w: "tr_hours r = Some ((h1, m1), (h2, m2))" by (metis surj_pair)
    have b: "h1 < 25" "m1 < 60" "h2 < 25" "m2 < 60" using Cons.prems w by (auto simp: rule_ok_def)
    have "hrs = (Some (hm_str h1 m1), Some (hm_str h2 m2))"
      using b by (simp add: hrs_def rule_row_def w strtok2_pair hm_str_no_dash)
    then show ?thesis using tc_hours_window [OF b tb] by (simp add: inh_def w assms(5))
  qed
  have noh: "tcd_hours (rule_row r) = [] \<Longrightarrow> inh"
    by (auto simp: rule_row_def inh_def split: option.splits prod.splits)
  have dt: "tcd_date (rule_row r) \<noteq> [] \<and> tcd_date (rule_row r) = date \<longleftrightarrow>
      tr_date r = Some (nat (tm_year t + 1900), nat (tm_mon t + 1), nat (tm_mday t))"
  proof (cases "tr_date r")
    case None
    then show ?thesis by (simp add: rule_row_def)
  next
    case (Some x)
    then obtain y m d where x: "tr_date r = Some (y, m, d)" by (metis surj_pair)
    have "date_str y m d \<noteq> []" by (simp add: date_str_def)
    moreover have "y < 10000" "m < 100" "d < 100" using Cons.prems x by (auto simp: rule_ok_def)
    moreover have "nat (tm_year t + 1900) < 10000" "nat (tm_mon t + 1) < 100" "nat (tm_mday t) < 100"
      using assms(2) by (auto simp: tm_ok_def)
    ultimately show ?thesis by (simp add: rule_row_def x assms(4) date_str_eq)
  qed
  have ap: "rule_applies t (pre_dow pre) r \<longleftrightarrow>
     (tr_date r = Some (nat (tm_year t + 1900), nat (tm_mon t + 1), nat (tm_mday t)) \<or>
      int d1 \<le> pre_dow pre \<and> pre_dow pre \<le> int d2) \<and> inh"
    by (simp add: rule_applies_def rule_today_def rule_hours_def inh_def days)
  have row: "tcd_id (rule_row r) = tr_id r" "tcd_tariff_id (rule_row r) = tr_tariff r"
    by (simp_all add: rule_row_def)
  have IH: "tc_ts_cmp_loop date tim (map rule_row rules) pre =
    Some (case find (rule_applies t (pre_dow pre)) rules of None \<Rightarrow> (0, pre)
      | Some r \<Rightarrow> (1, pre\<lparr>pre_tc_id := tr_id r, pre_tariff_id := tr_tariff r\<rparr>))"
    using Cons by simp
  show ?case
    unfolding list.map tc_ts_cmp_loop.simps row dw hrs_def [symmetric] Let_def prod.case IH dt find.simps ap
      day_name_ok(3) [OF ok(2)] day_name_ok(3) [OF ok(3)] bind.bind_lunit
    using ok(1) hr noh by (simp add: split_beta)
qed simp

text \<open>Property C32. \<open>tc_ts_cmp\<close> decides by the first row that holds, in the order of the query, and
  takes that row's tariff. The rows are written from rules with a range of named week days, an
  optional hour window (half open, passing midnight when the end is not after the start) and an
  optional date; \<open>pre->dow\<close> is the \<open>tm_wday\<close> of the call. From Monday to Saturday a row holds when
  its date is the date of the call or its days include the day of the call, and its hours hold (a
  date that is another day does not exclude the row). On a Sunday the days never count, not even
  \<open>sun\<close>: only a row with the date of the call can hold. When none holds the call is unchanged.\<close>

theorem tc_ts_cmp_first_rule:
  assumes "pre_tc pre = Some (map rule_row rules)" "\<forall>r \<in> set rules. rule_ok r"
    and "tm_ok (localtime (pre_epoch pre))" "tm_sec (localtime (pre_epoch pre)) < 60"
    and "pre_dow pre = tm_wday (localtime (pre_epoch pre))"
  shows "let t = localtime (pre_epoch pre);
      first = (\<lambda>holds. case find holds rules of
        None \<Rightarrow> (0, pre) | Some r \<Rightarrow> (1, pre\<lparr>pre_tc_id := tr_id r, pre_tariff_id := tr_tariff r\<rparr>))
    in tc_ts_cmp localtime pre =
      Some (if tm_wday t = 0 then first (\<lambda>r. rule_today t r \<and> rule_hours t r) else first (rule_holds t))"
proof -
  let ?t = "localtime (pre_epoch pre)"
  have c: "tc_ts_cmp localtime pre = Some (case find (rule_applies ?t (pre_dow pre)) rules of
      None \<Rightarrow> (0, pre) | Some r \<Rightarrow> (1, pre\<lparr>pre_tc_id := tr_id r, pre_tariff_id := tr_tariff r\<rparr>))"
    using tc_ts_cmp_loop_find [OF assms(2,3,4) refl refl, of pre] parse_tm_ok [of localtime "pre_epoch pre", OF assms(3)] assms(1)
    by (simp add: tc_ts_cmp_def)
  have "find (rule_applies ?t (pre_dow pre)) rules =
      find (if tm_wday ?t = 0 then (\<lambda>r. rule_today ?t r \<and> rule_hours ?t r) else rule_holds ?t) rules"
  proof (rule find_cong [OF refl])
    fix r assume "r \<in> set rules"
    then have "1 \<le> fst (tr_days r)" using assms(2) by (auto simp: rule_ok_def)
    then show "rule_applies ?t (pre_dow pre) r =
        (if tm_wday ?t = 0 then (\<lambda>r. rule_today ?t r \<and> rule_hours ?t r) else rule_holds ?t) r"
      using assms(5) by (auto simp: rule_applies_def rule_holds_def iso_day_def)
  qed
  then show ?thesis using c by (simp add: Let_def)
qed

definition noon :: "int \<Rightarrow> tm" where
  "noon ts = \<lparr>tm_sec = 0, tm_min = 0, tm_hour = 12, tm_mday = 14, tm_mon = 6, tm_year = 124, tm_wday = 0\<rparr>"

definition night_rule :: tc_rule where
  "night_rule = \<lparr>tr_id = 4, tr_tariff = 9, tr_hours = Some ((22, 0), (6, 0)), tr_days = (1, 7), tr_date = None\<rparr>"

definition day_rule :: tc_rule where
  "day_rule = \<lparr>tr_id = 5, tr_tariff = 8, tr_hours = Some ((6, 0), (22, 0)), tr_days = (1, 5), tr_date = None\<rparr>"

definition noon_wed :: "int \<Rightarrow> tm" where
  "noon_wed ts = (noon ts)\<lparr>tm_mday := 17, tm_wday := 3\<rparr>"

definition any_day_rule :: tc_rule where
  "any_day_rule = \<lparr>tr_id = 6, tr_tariff = 7, tr_hours = None, tr_days = (1, 7), tr_date = None\<rparr>"

definition today_rule :: tc_rule where
  "today_rule = \<lparr>tr_id = 7, tr_tariff = 5, tr_hours = None, tr_days = (1, 1), tr_date = Some (2024, 7, 14)\<rparr>"

lemmas rules_defs = noon_def noon_wed_def tm_ok_def rule_ok_def night_rule_def day_rule_def any_day_rule_def today_rule_def
  rule_holds_def rule_today_def rule_hours_def iso_day_def in_window_def

theorem tc_ts_cmp_first_rule_witness:
  "tc_ts_cmp noon_wed (rating0\<lparr>pre_dow := 3, pre_tc := Some (map rule_row [night_rule, day_rule])\<rparr>) =
     Some (1, rating0\<lparr>pre_dow := 3, pre_tc := Some (map rule_row [night_rule, day_rule]), pre_tc_id := 5, pre_tariff_id := 8\<rparr>) \<and>
   tc_ts_cmp noon (rating0\<lparr>pre_dow := 0, pre_tc := Some (map rule_row [any_day_rule, today_rule])\<rparr>) =
     Some (1, rating0\<lparr>pre_dow := 0, pre_tc := Some (map rule_row [any_day_rule, today_rule]), pre_tc_id := 7, pre_tariff_id := 5\<rparr>)"
  using tc_ts_cmp_first_rule [of "rating0\<lparr>pre_dow := 3, pre_tc := Some (map rule_row [night_rule, day_rule])\<rparr>"
      "[night_rule, day_rule]" noon_wed]
    tc_ts_cmp_first_rule [of "rating0\<lparr>pre_dow := 0, pre_tc := Some (map rule_row [any_day_rule, today_rule])\<rparr>"
      "[any_day_rule, today_rule]" noon]
  by (simp add: rules_defs)

text \<open>Sunday: \<open>pre->dow\<close> comes from \<open>tm_wday\<close>, where Sunday is 0, while the table
  of week days numbers it 7; so no row without the date of the call applies on a Sunday,
  not even one that names \<open>sun\<close>.\<close>

theorem tc_ts_cmp_sunday:
  assumes "pre_tc pre = Some (map rule_row rules)" "\<forall>r \<in> set rules. rule_ok r"
    and "tm_ok (localtime (pre_epoch pre))" "tm_sec (localtime (pre_epoch pre)) < 60"
    and "pre_dow pre = 0" "\<forall>r \<in> set rules. tr_date r = None"
  shows "tc_ts_cmp localtime pre = Some (0, pre)"
proof -
  have "find (rule_applies (localtime (pre_epoch pre)) 0) rules = None"
    using assms(2,6) by (auto simp: find_None_iff rule_applies_def rule_today_def rule_ok_def)
  moreover have "parse_tm localtime (pre_epoch pre) = Some
      (date_str (nat (tm_year (localtime (pre_epoch pre)) + 1900)) (nat (tm_mon (localtime (pre_epoch pre)) + 1))
         (nat (tm_mday (localtime (pre_epoch pre)))),
       hm_str (nat (tm_hour (localtime (pre_epoch pre)))) (nat (tm_min (localtime (pre_epoch pre)))) @ '':'' @
         digits 2 (nat (tm_sec (localtime (pre_epoch pre)))))"
    using assms(3) by (rule parse_tm_ok)
  ultimately show ?thesis
    using tc_ts_cmp_loop_find [OF assms(2,3,4) refl refl, of pre] assms(1,5) by (simp add: tc_ts_cmp_def)
qed

theorem tc_ts_cmp_sunday_witness:
  "tc_ts_cmp noon (rating0\<lparr>pre_tc := Some [rule_row \<lparr>tr_id = 4, tr_tariff = 9, tr_hours = None, tr_days = (6, 7), tr_date = None\<rparr>]\<rparr>) =
     Some (0, rating0\<lparr>pre_tc := Some [rule_row \<lparr>tr_id = 4, tr_tariff = 9, tr_hours = None, tr_days = (6, 7), tr_date = None\<rparr>]\<rparr>)"
  using tc_ts_cmp_sunday [of "rating0\<lparr>pre_tc := Some [rule_row \<lparr>tr_id = 4, tr_tariff = 9, tr_hours = None, tr_days = (6, 7), tr_date = None\<rparr>]\<rparr>"
      "[\<lparr>tr_id = 4, tr_tariff = 9, tr_hours = None, tr_days = (6, 7), tr_date = None\<rparr>]" noon]
  by (simp add: noon_def tm_ok_def rule_ok_def rating0_def)

end
