(* ===== verification/PCard.thy ===== *)
theory PCard
  imports RtData TimeFuncs
begin

text \<open>
  Payment cards, \<open>mod/Rating/pcard.c\<close> from label \<open>pcard_process\<close> on: the billing period around
  the day of the call and the choice of the card, the first one whose period holds that day.
  Getting the cards from the cache or the database is in the theory of the queries. The
  three date buffers hold 12 bytes; writing past one is undefined behaviour.
\<close>

section \<open>The code\<close>

text \<open>\<open>%d-%.2d-%.2d\<close>\<close>

definition pcard_date :: "int \<Rightarrow> int \<Rightarrow> int \<Rightarrow> string option" where
  "pcard_date y m d = (let s = dec_int y @ ''-'' @ prec_dec 2 m @ ''-'' @ prec_dec 2 d
                       in if length s < 12 then Some s else None)"

definition pcard_period :: "tm \<Rightarrow> u16 \<Rightarrow> (string \<times> string \<times> string) option" where
  "pcard_period t billing_day = (let
     year = tm_year t + 1900;
     mon = tm_mon t + 1;
     day = tm_mday t;
     prev_mon = tm_mon t;
     bday = (if 0 < billing_day then uint billing_day else 1);
     mon_1 = mon + 1;
     (end, next_year) = (if mon_1 < 10 then (mon_1, year)
                         else if mon_1 \<le> 12 then (mon_1, year) else (1, year + 1))
   in do {
     current \<leftarrow> pcard_date year mon day;
     (if bday \<le> day then do {
        start_date \<leftarrow> pcard_date year mon bday;
        end_date \<leftarrow> pcard_date next_year end bday;
        Some (current, start_date, end_date)
      } else do {
        start_date \<leftarrow> (if mon = 1 then pcard_date (year - 1) 12 bday else pcard_date year prev_mon bday);
        end_date \<leftarrow> pcard_date year mon bday;
        Some (current, start_date, end_date)
      })
   })"

text \<open>The walk over the cards; the array ends at \<open>id = 0\<close>.\<close>

fun pcard_loop :: "string \<Rightarrow> string \<Rightarrow> string \<Rightarrow> pcard list \<Rightarrow> pcard option" where
  "pcard_loop current start_date end_date [] = None"
| "pcard_loop current start_date end_date (c # cs) =
     (if pc_id c = 0 then None
      else
        let next = pcard_loop current start_date end_date cs;
            pick = (\<lambda>c'. if strcmp (pc_start c') current \<le> 0 \<and> 0 < strcmp (pc_end c') current
                         then Some c' else next)
        in
        if pc_type c = credit_card then
          let c1 = (if pc_end c = [] then c\<lparr>pc_end := end_date\<rparr> else c);
              c2 = (if strcmp (pc_start c1) start_date < 0 then c1\<lparr>pc_start := start_date\<rparr> else c1)
          in pick c2
        else if pc_type c = debit_card then
          if pc_end c = [] \<or> pc_start c = [] then next else pick c
        else next)"

definition pcard_process :: "(int \<Rightarrow> tm) \<Rightarrow> rating \<Rightarrow> u16 \<Rightarrow> pcard list \<Rightarrow> pcard option option" where
  "pcard_process localtime pre billing_day cards = do {
     (current, start_date, end_date) \<leftarrow>
       pcard_period (localtime (if pre_epoch pre \<noteq> 0 then pre_epoch pre else pre_ts pre)) billing_day;
     Some (pcard_loop current start_date end_date cards)
   }"

section \<open>The billing period\<close>

lemma pcard_date_ok:
  "1000 \<le> y \<Longrightarrow> y < 10000 \<Longrightarrow> 0 \<le> m \<Longrightarrow> m < 100 \<Longrightarrow> 0 \<le> d \<Longrightarrow> d < 100 \<Longrightarrow>
   pcard_date y m d = Some (date_str (nat y) (nat m) (nat d))"
  by (simp add: pcard_date_def dec_int_digits prec_dec_digits date_str_def del: digits.simps)

text \<open>The period of a day as dates: from the last billing day up to the next one.\<close>

definition period_start :: "nat \<Rightarrow> nat \<Rightarrow> nat \<Rightarrow> nat \<Rightarrow> nat \<times> nat \<times> nat" where
  "period_start y m d b = (if b \<le> d then (y, m, b) else if m = 1 then (y - 1, 12, b) else (y, m - 1, b))"

definition period_end :: "nat \<Rightarrow> nat \<Rightarrow> nat \<Rightarrow> nat \<Rightarrow> nat \<times> nat \<times> nat" where
  "period_end y m d b = (if b \<le> d then (if m = 12 then (y + 1, 1, b) else (y, m + 1, b)) else (y, m, b))"

abbreviation dnum :: "nat \<times> nat \<times> nat \<Rightarrow> nat" where "dnum x \<equiv> (case x of (y, m, d) \<Rightarrow> date_num y m d)"
abbreviation dstr :: "nat \<times> nat \<times> nat \<Rightarrow> string" where "dstr x \<equiv> (case x of (y, m, d) \<Rightarrow> date_str y m d)"

definition date_ok :: "nat \<times> nat \<times> nat \<Rightarrow> bool" where
  "date_ok x \<longleftrightarrow> (case x of (y, m, d) \<Rightarrow> y < 10000 \<and> m < 100 \<and> d < 100)"

lemma strcmp_dstr: "date_ok a \<Longrightarrow> date_ok b \<Longrightarrow> strcmp (dstr a) (dstr b) = sgn_cmp (dnum a) (dnum b)"
  by (auto simp: date_ok_def strcmp_date split: prod.splits)

lemma period_holds_day:
  assumes "1 \<le> m" "m \<le> 12" "d < 100" "0 < b" "b < 100" "0 < y"
  shows "dnum (period_start y m d b) \<le> date_num y m d" "date_num y m d < dnum (period_end y m d b)"
  using assms by (auto simp: period_start_def period_end_def date_num_def)

definition call_bday :: "u16 \<Rightarrow> nat" where
  "call_bday billing_day = (if 0 < billing_day then unat billing_day else 1)"

definition tm_date :: "tm \<Rightarrow> nat \<times> nat \<times> nat" where
  "tm_date t = (nat (tm_year t + 1900), nat (tm_mon t + 1), nat (tm_mday t))"

definition tm_start :: "tm \<Rightarrow> u16 \<Rightarrow> nat \<times> nat \<times> nat" where
  "tm_start t b = (case tm_date t of (y, m, d) \<Rightarrow> period_start y m d (call_bday b))"

definition tm_end :: "tm \<Rightarrow> u16 \<Rightarrow> nat \<times> nat \<times> nat" where
  "tm_end t b = (case tm_date t of (y, m, d) \<Rightarrow> period_end y m d (call_bday b))"

lemma pcard_period_eq:
  assumes "tm_ok t" "-899 \<le> tm_year t" "tm_year t < 8099" "billing_day \<le> 31"
  shows "pcard_period t billing_day = Some (dstr (tm_date t), dstr (tm_start t billing_day), dstr (tm_end t billing_day))"
proof -
  obtain y where y: "tm_year t + 1900 = int y" using assms(1) nonneg_int_cases [of "tm_year t + 1900"]
    by (auto simp: tm_ok_def)
  obtain m where m: "tm_mon t = int m" using assms(1) nonneg_int_cases [of "tm_mon t"]
    by (auto simp: tm_ok_def)
  obtain d where d: "tm_mday t = int d" using assms(1) nonneg_int_cases [of "tm_mday t"]
    by (auto simp: tm_ok_def)
  define b where "b = call_bday billing_day"
  have bd: "(if 0 < billing_day then uint billing_day else 1) = int b" "b \<le> 31"
    using assms(4) by (auto simp: b_def call_bday_def word_le_nat_alt)
  have yr: "1000 < y" "y < 9999" "m < 12" "d < 100" "0 < d" using assms(1-3) y m d by (auto simp: tm_ok_def)
  have P: "pcard_date (int y') (int m') (int d') = Some (date_str y' m' d')"
    if "1000 \<le> y'" "y' < 10000" "m' < 100" "d' < 100" for y' m' d'
    using that pcard_date_ok [of "int y'" "int m'" "int d'"] by simp
  have D: "tm_date t = (y, Suc m, d)" using y m d by (simp add: tm_date_def)
  have cur: "pcard_date (int y) (int m + 1) (int d) = Some (date_str y (Suc m) d)"
    using P [of y "Suc m" d] yr by (simp add: add.commute)
  have now: "pcard_date (int y) (int m + 1) (int b) = Some (date_str y (Suc m) b)"
    using P [of y "Suc m" b] yr bd(2) by (simp add: add.commute)
  have nxt: "pcard_date (int y) (2 + int m) (int b) = Some (date_str y (Suc (Suc m)) b)"
    "pcard_date (int y) 2 (int b) = Some (date_str y (Suc (Suc 0)) b)"
    using P [of y "Suc (Suc m)" b] P [of y "Suc (Suc 0)" b] yr bd(2) by (simp_all add: add.commute)
  have new: "pcard_date (int y + 1) 1 (int b) = Some (date_str (Suc y) 1 b)"
    using P [of "Suc y" 1 b] yr bd(2) by (simp add: add.commute)
  have old: "pcard_date (int y - 1) 12 (int b) = Some (date_str (y - 1) 12 b)"
    using P [of "y - 1" 12 b] yr bd(2) by (simp add: of_nat_diff)
  have prv: "pcard_date (int y) (int m) (int b) = Some (date_str y m b)"
    using P [of y m b] yr bd(2) by simp
  show ?thesis
    unfolding pcard_period_def Let_def y m d bd(1) tm_start_def tm_end_def D prod.case b_def [symmetric]
    using yr by (simp add: cur now nxt new old prv period_start_def period_end_def)
qed

section \<open>Which card is taken\<close>

text \<open>A card with its dates as dates; \<open>None\<close> is an empty string.\<close>

record acard =
  ac_id :: int
  ac_amount :: rat
  ac_start :: "(nat \<times> nat \<times> nat) option"
  ac_end :: "(nat \<times> nat \<times> nat) option"
  ac_status :: int
  ac_type :: int
  ac_calls :: int

definition dopt :: "(nat \<times> nat \<times> nat) option \<Rightarrow> string" where
  "dopt x = (case x of None \<Rightarrow> [] | Some d \<Rightarrow> dstr d)"

definition card_of :: "acard \<Rightarrow> pcard" where
  "card_of a = \<lparr>pc_id = ac_id a, pc_amount = ac_amount a, pc_start = dopt (ac_start a), pc_end = dopt (ac_end a),
     pc_status = ac_status a, pc_type = ac_type a, pc_call_number = ac_calls a\<rparr>"

definition acard_ok :: "acard \<Rightarrow> bool" where
  "acard_ok a \<longleftrightarrow> ac_id a \<noteq> 0 \<and> (\<forall>x. ac_start a = Some x \<longrightarrow> date_ok x) \<and> (\<forall>x. ac_end a = Some x \<longrightarrow> date_ok x)"

text \<open>A debit card needs both dates; a credit card's start is not before the billing period's
  start, and its missing end is the period's end.\<close>

definition card_window :: "nat \<times> nat \<times> nat \<Rightarrow> nat \<times> nat \<times> nat \<Rightarrow> acard \<Rightarrow> ((nat \<times> nat \<times> nat) \<times> (nat \<times> nat \<times> nat)) option" where
  "card_window ps pe a =
     (if ac_type a = credit_card then
        Some (case ac_start a of None \<Rightarrow> ps | Some s \<Rightarrow> if dnum s < dnum ps then ps else s,
              case ac_end a of None \<Rightarrow> pe | Some e \<Rightarrow> e)
      else if ac_type a = debit_card then
        (case (ac_start a, ac_end a) of (Some s, Some e) \<Rightarrow> Some (s, e) | _ \<Rightarrow> None)
      else None)"

definition card_active :: "nat \<times> nat \<times> nat \<Rightarrow> nat \<times> nat \<times> nat \<Rightarrow> nat \<times> nat \<times> nat \<Rightarrow> acard \<Rightarrow> bool" where
  "card_active today ps pe a = (case card_window ps pe a of
     None \<Rightarrow> False | Some (s, e) \<Rightarrow> dnum s \<le> dnum today \<and> dnum today < dnum e)"

definition card_taken :: "nat \<times> nat \<times> nat \<Rightarrow> nat \<times> nat \<times> nat \<Rightarrow> acard \<Rightarrow> pcard" where
  "card_taken ps pe a = (case card_window ps pe a of
     None \<Rightarrow> card_of a | Some (s, e) \<Rightarrow> (card_of a)\<lparr>pc_start := dstr s, pc_end := dstr e\<rparr>)"

lemma dstr_nonempty [simp]: "dstr x \<noteq> []"
  by (cases x) (simp add: date_str_def)

lemma pcard_loop_find:
  assumes "\<forall>a \<in> set as. acard_ok a" "date_ok today" "date_ok ps" "date_ok pe"
  shows "pcard_loop (dstr today) (dstr ps) (dstr pe) (map card_of as) =
    map_option (card_taken ps pe) (find (card_active today ps pe) as)"
  using assms(1)
proof (induction as)
  case (Cons a as)
  have IH: "pcard_loop (dstr today) (dstr ps) (dstr pe) (map card_of as) =
      map_option (card_taken ps pe) (find (card_active today ps pe) as)" using Cons by simp
  have ok: "ac_id a \<noteq> 0" "\<And>x. ac_start a = Some x \<Longrightarrow> date_ok x" "\<And>x. ac_end a = Some x \<Longrightarrow> date_ok x"
    using Cons.prems by (auto simp: acard_ok_def)
  have cmp: "strcmp (dstr x) (dstr z) \<le> 0 \<longleftrightarrow> dnum x \<le> dnum z" "0 < strcmp (dstr x) (dstr z) \<longleftrightarrow> dnum z < dnum x"
    "strcmp (dstr x) (dstr z) < 0 \<longleftrightarrow> dnum x < dnum z" if "date_ok x" "date_ok z" for x z
    using strcmp_dstr [OF that] by (auto simp: sgn_cmp_def)
  have emp: "strcmp [] (dstr x) < 0" for x using dstr_nonempty [of x] by (cases "dstr x") auto
  note c = cmp [OF assms(3,2)] cmp [OF assms(4,2)]
  note rw = card_window_def [of ps pe a] card_active_def [of today ps pe a] card_taken_def [of ps pe a]
    card_of_def [of a] dopt_def Let_def
  consider "ac_type a = credit_card" | "ac_type a = debit_card" | "ac_type a \<noteq> credit_card" "ac_type a \<noteq> debit_card"
    by blast
  then show ?case
  proof cases
    case 1
    show ?thesis
    proof (cases "ac_start a"; cases "ac_end a")
      assume "ac_start a = None" "ac_end a = None"
      then show ?thesis using 1 ok(1) c IH by (simp add: rw emp)
    next
      fix e assume "ac_start a = None" "ac_end a = Some e"
      then show ?thesis using 1 ok(1) c IH cmp [OF ok(3) assms(2)] by (simp add: rw emp)
    next
      fix s assume "ac_start a = Some s" "ac_end a = None"
      then show ?thesis using 1 ok(1) c IH cmp [OF ok(2) assms(2)] cmp [OF ok(2) assms(3)] by (simp add: rw) argo
    next
      fix s e assume "ac_start a = Some s" "ac_end a = Some e"
      then show ?thesis using 1 ok(1) c IH cmp [OF ok(2) assms(2)] cmp [OF ok(2) assms(3)] cmp [OF ok(3) assms(2)]
        by (simp add: rw) argo
    qed
  next
    case 2
    show ?thesis
    proof (cases "ac_start a"; cases "ac_end a")
      fix s e assume "ac_start a = Some s" "ac_end a = Some e"
      then show ?thesis using 2 ok(1) IH cmp [OF ok(2) assms(2)] cmp [OF ok(3) assms(2)]
        by (simp add: rw)
    qed (use 2 ok(1) IH in \<open>simp_all add: rw\<close>)
  next
    case 3
    then show ?thesis using ok(1) IH by (simp add: rw)
  qed
qed simp

text \<open>Property C31. The card that rates a call: for a day the clock can give (a year of four
  digits) and a billing day up to 31, \<open>pcard_manager\<close>'s walk never overruns a date buffer,
  the billing period it computes holds the day of the call, and the card it takes is the
  first one in the order of the query whose window holds that day. The window of a debit
  card is its two dates (a card with a missing date is never taken), the window of a credit
  card is cut at the start of the billing period and ends with it when the card has no end.\<close>

theorem pcard_process_first_active:
  assumes "t = localtime (if pre_epoch pre \<noteq> 0 then pre_epoch pre else pre_ts pre)"
    and "tm_ok t" "-899 \<le> tm_year t" "tm_year t < 8099" "billing_day \<le> 31"
    and "\<forall>a \<in> set as. acard_ok a"
  shows "pcard_process localtime pre billing_day (map card_of as) =
      Some (map_option (card_taken (tm_start t billing_day) (tm_end t billing_day))
        (find (card_active (tm_date t) (tm_start t billing_day) (tm_end t billing_day)) as)) \<and>
    dnum (tm_start t billing_day) \<le> dnum (tm_date t) \<and> dnum (tm_date t) < dnum (tm_end t billing_day)"
proof -
  have b: "0 < call_bday billing_day" "call_bday billing_day \<le> 31"
    using assms(5) by (auto simp: call_bday_def word_less_nat_alt word_le_nat_alt)
  obtain y m d where D: "tm_date t = (y, m, d)" by (cases "tm_date t")
  then have yr: "0 < y" "y < 9999" "1 \<le> m" "m \<le> 12" "d < 100"
    using assms(2-4) by (auto simp: tm_date_def tm_ok_def)
  have ok: "date_ok (tm_date t)" "date_ok (tm_start t billing_day)" "date_ok (tm_end t billing_day)"
    using yr b(2) by (auto simp: D date_ok_def tm_start_def tm_end_def period_start_def period_end_def)
  show ?thesis
    using pcard_loop_find [OF assms(6) ok] pcard_period_eq [OF assms(2-5)] period_holds_day [OF yr(3-5) b(1) _ yr(1)] b(2)
    by (simp add: pcard_process_def assms(1) [symmetric] tm_start_def tm_end_def D)
qed

definition july :: "int \<Rightarrow> tm" where
  "july ts = \<lparr>tm_sec = 0, tm_min = 0, tm_hour = 12, tm_mday = 14, tm_mon = 6, tm_year = 124, tm_wday = 0\<rparr>"

definition old_debit :: acard where
  "old_debit = \<lparr>ac_id = 1, ac_amount = 5, ac_start = Some (2024, 1, 1), ac_end = Some (2024, 7, 14), ac_status = 1, ac_type = 1, ac_calls = 0\<rparr>"

definition open_credit :: acard where
  "open_credit = \<lparr>ac_id = 2, ac_amount = 50, ac_start = Some (2023, 5, 1), ac_end = None, ac_status = 1, ac_type = 2, ac_calls = 0\<rparr>"

theorem pcard_process_first_active_witness:
  "pcard_process july rating0 20 (map card_of [old_debit, open_credit]) =
     Some (Some ((card_of open_credit)\<lparr>pc_start := date_str 2024 6 20, pc_end := date_str 2024 7 20\<rparr>))"
  using pcard_process_first_active [of "july 0" july rating0 20 "[old_debit, open_credit]"]
  by (simp add: july_def tm_ok_def rating0_def acard_ok_def date_ok_def old_debit_def open_credit_def card_active_def
      card_window_def card_taken_def tm_start_def tm_end_def tm_date_def period_start_def period_end_def call_bday_def
      date_num_def)

end
