(* ===== verification/CalcFunctions.thy ===== *)
theory CalcFunctions
  imports RtData
begin

text \<open>
  The price and duration arithmetic of the Rating module: \<open>calc_functions.c\<close> and
  \<open>round_billsec.c\<close>. A tariff is a list of steps in order of \<open>pos\<close>; a step covers
  \<open>iterations\<close> blocks of \<open>delta\<close> seconds at \<open>fee\<close> each, without bound when
  \<open>iterations = 0\<close>. The C arrays end with a zeroed element, so a loop stops at
  \<open>pos = 0\<close> or at the end of the list.
\<close>

section \<open>Definitions\<close>

definition append_free_billsec :: "rating \<Rightarrow> (int \<times> rating) option" where
  "append_free_billsec pre =
     (if pre_free_billsec_limit pre \<noteq> 0 then do {
        free \<leftarrow> csub (pre_free_billsec_limit pre) (pre_free_billsec_sum pre);
        if 0 < free then
          if free < pre_billsec pre then Some (1, pre)
          else if pre_cprice pre \<noteq> 0 then Some (0, pre\<lparr>pre_cprice := - pre_cprice pre\<rparr>)
          else Some (0, pre)
        else Some (0, pre)
      } else Some (0, pre))"

text \<open>The loop of \<open>calc_maxsec\<close>. \<open>units\<close> keeps its value from the previous step when the
  fee is negative, as the C variable does.\<close>

fun calc_maxsec_loop ::
  "fpenv \<Rightarrow> int \<Rightarrow> int \<Rightarrow> int \<Rightarrow> rat \<Rightarrow> calc_function list \<Rightarrow> int option" where
  "calc_maxsec_loop fp fb units maxsec lmt [] = Some maxsec"
| "calc_maxsec_loop fp fb units maxsec lmt (c # cs) =
     (if cf_pos c = 0 then Some maxsec
      else
        let maxsec1 = (if 0 < fb \<and> maxsec < cf_delta c then 0 else maxsec) in
        if lmt \<le> 0 then Some maxsec1
        else do {
          units1 \<leftarrow> (if 0 < cf_fee c
                     then do { q \<leftarrow> ddiv fp lmt (cf_fee c); to_int \<lfloor>q\<rfloor> }
                     else Some units);
          let units2 = (if cf_fee c = 0 then 1 else units1);
          if cf_iterations c = 0 then do {
            t \<leftarrow> cmul units2 (cf_delta c);
            cadd maxsec1 t
          } else if cf_iterations c < units2 then do {
            t \<leftarrow> cmul (cf_iterations c) (cf_delta c);
            maxsec2 \<leftarrow> cadd maxsec1 t;
            calc_maxsec_loop fp fb units2 maxsec2
              (dsub fp lmt (imul fp (cf_iterations c) (cf_fee c))) cs
          } else do {
            t \<leftarrow> cmul units2 (cf_delta c);
            maxsec2 \<leftarrow> cadd maxsec1 t;
            calc_maxsec_loop fp fb units2 maxsec2 (dsub fp lmt (imul fp units2 (cf_fee c))) cs
          }
        })"

text \<open>\<open>if(call_maxsec_limit <= maxsec) maxsec = call_maxsec_limit\<close>, an unsigned comparison:
  the global is \<open>unsigned int\<close>, so a negative \<open>maxsec\<close> compares as a large value.\<close>

definition maxsec_cap :: "u32 \<Rightarrow> int \<Rightarrow> int" where
  "maxsec_cap cap maxsec = (if cap \<le> word_of_int maxsec then sint cap else maxsec)"

definition calc_maxsec :: "fpenv \<Rightarrow> u32 \<Rightarrow> racc \<Rightarrow> racc option" where
  "calc_maxsec fp cap rtp = do {
     tr \<leftarrow> racc_calc_funcs rtp;
     case tr of
       None \<Rightarrow> Some rtp
     | Some cs \<Rightarrow> do {
         let pre = ra_pre rtp;
         fb \<leftarrow> csub (pre_free_billsec_limit pre) (pre_free_billsec_sum pre);
         maxsec \<leftarrow> (if 0 < fb \<and> cap \<le> word_of_int fb then Some fb
                    else calc_maxsec_loop fp fb 0 (if 0 < fb then fb else 0) (pre_limit pre) cs);
         Some (upd_pre (\<lambda>p. p\<lparr>pre_maxsec := maxsec_cap cap maxsec\<rparr>) rtp)
       }
   }"

text \<open>The loop of \<open>calc_cprice_2\<close>: the result is \<open>(cprice, billsec, checksec)\<close>.\<close>

fun calc_cprice_2_loop ::
  "fpenv \<Rightarrow> int \<Rightarrow> int \<Rightarrow> rat \<Rightarrow> calc_function list \<Rightarrow> (rat \<times> int \<times> int) option" where
  "calc_cprice_2_loop fp checksec billsec cprice [] = Some (cprice, billsec, checksec)"
| "calc_cprice_2_loop fp checksec billsec cprice (c # cs) =
     (if cf_pos c = 0 then Some (cprice, billsec, checksec)
      else do {
        units \<leftarrow> float_ceil_div fp checksec (cf_delta c);
        let n = (if cf_iterations c = 0 then units
                 else if cf_iterations c < units then cf_iterations c else units);
        t \<leftarrow> cmul n (cf_delta c);
        billsec' \<leftarrow> cadd billsec t;
        checksec' \<leftarrow> csub checksec t;
        let cprice' = dadd fp cprice (imul fp n (cf_fee c));
        if cf_iterations c = 0 \<or> units = 1 then Some (cprice', billsec', checksec')
        else calc_cprice_2_loop fp checksec' billsec' cprice' cs
      })"

definition calc_cprice_2 :: "fpenv \<Rightarrow> racc \<Rightarrow> (int \<times> racc) option" where
  "calc_cprice_2 fp rtp = do {
     tr \<leftarrow> racc_calc_funcs rtp;
     case tr of
       None \<Rightarrow> Some (-1, rtp)
     | Some cs \<Rightarrow> do {
         (cprice, billsec, checksec) \<leftarrow> calc_cprice_2_loop fp (pre_billsec (ra_pre rtp)) 0 0 cs;
         Some (if checksec \<le> 0 then 0 else -1,
               upd_pre (\<lambda>p. p\<lparr>pre_cprice := cprice, pre_billsec := billsec\<rparr>) rtp)
       }
   }"

definition calc_cprice_sms :: "racc \<Rightarrow> (int \<times> racc) option" where
  "calc_cprice_sms rtp = do {
     tr \<leftarrow> racc_calc_funcs rtp;
     case tr of
       None \<Rightarrow> None
     | Some [] \<Rightarrow> Some (-1, rtp)
     | Some (c # cs) \<Rightarrow>
         let pre = ra_pre rtp in
         if cf_pos c = 1 \<and> cf_delta c = 0 \<and> pre_billsec pre = 0 then
           let covered = 0 < pre_free_billsec_limit pre \<and>
                         pre_free_billsec pre < pre_free_billsec_limit pre in
           Some (0, upd_pre (\<lambda>p. p\<lparr>pre_cprice := if covered then - cf_fee c else cf_fee c\<rparr>) rtp)
         else Some (-1, rtp)
   }"

definition calc_cprice_group :: "fpenv \<Rightarrow> racc \<Rightarrow> (int \<times> racc) option" where
  "calc_cprice_group fp rtp = do {
     (ret, rtp1) \<leftarrow> calc_cprice_2 fp rtp;
     if ret = -1 then Some (-1, rtp1)
     else do {
       (ret2, pre) \<leftarrow> append_free_billsec (ra_pre rtp1);
       Some (ret2, rtp1\<lparr>ra_pre := pre\<rparr>)
     }
   }"

text \<open>\<open>billusec / 1000000\<close> is a \<open>double\<close> division of a \<open>long\<close> converted by the call.\<close>

definition round_billsec :: "fpenv \<Rightarrow> int \<Rightarrow> int \<Rightarrow> int option" where
  "round_billsec fp round_mode_id billusec =
     (let q = rd fp (rd fp (of_int billusec) / 1000000) in
      if round_mode_id = 1 then to_int \<lceil>q\<rceil>
      else if round_mode_id = 2 then to_int \<lfloor>q\<rfloor>
      else Some 0)"

section \<open>Blocks charged by \<open>calc_cprice_2\<close>\<close>

text \<open>A step as the program expects it: a positive block length, and no negative fee or
  iteration count. \<open>2 ^ 24\<close> is where the \<open>float\<close> conversion stops being exact.\<close>

definition step_ok :: "calc_function \<Rightarrow> bool" where
  "step_ok c \<longleftrightarrow> 0 < cf_pos c \<and> 0 < cf_delta c \<and> cf_delta c < 2 ^ 24 \<and> 0 \<le> cf_fee c \<and>
     0 \<le> cf_iterations c \<and> cf_iterations c < 2 ^ 24"

abbreviation tariff_ok :: "calc_function list \<Rightarrow> bool" where
  "tariff_ok cs \<equiv> (\<forall>c \<in> set cs. step_ok c)"

text \<open>The number of blocks charged per step, in exact integer arithmetic.\<close>

fun charge_blocks :: "int \<Rightarrow> calc_function list \<Rightarrow> int list" where
  "charge_blocks s [] = []"
| "charge_blocks s (c # cs) =
     (let u = ceil_div s (cf_delta c);
          n = (if cf_iterations c \<noteq> 0 \<and> cf_iterations c < u then cf_iterations c else u)
      in n # (if cf_iterations c = 0 \<or> u = 1 then []
              else charge_blocks (s - n * cf_delta c) cs))"

definition blocks_price :: "fpenv \<Rightarrow> rat \<Rightarrow> int list \<Rightarrow> calc_function list \<Rightarrow> rat" where
  "blocks_price fp p0 ns cs =
     foldl (\<lambda>p (n, c). dadd fp p (imul fp n (cf_fee c))) p0 (zip ns cs)"

definition blocks_sec :: "int list \<Rightarrow> calc_function list \<Rightarrow> int" where
  "blocks_sec ns cs = (\<Sum>(n, c) \<leftarrow> zip ns cs. n * cf_delta c)"

lemma blocks_simps [simp]:
  "blocks_price fp p [] cs = p"
  "blocks_price fp p (n # ns) (c # cs) = blocks_price fp (dadd fp p (imul fp n (cf_fee c))) ns cs"
  "blocks_sec [] cs = 0"
  "blocks_sec (n # ns) (c # cs) = n * cf_delta c + blocks_sec ns cs"
  by (simp_all add: blocks_price_def blocks_sec_def)

text \<open>What is left of a call after one step stays within the bound.\<close>

lemma charge_left_bounds:
  assumes c: "step_ok c" and s: "\<bar>s\<bar> < 2 ^ 24"
    and n: "n = (if cf_iterations c \<noteq> 0 \<and> cf_iterations c < ceil_div s (cf_delta c)
                 then cf_iterations c else ceil_div s (cf_delta c))"
  shows "\<bar>s - n * cf_delta c\<bar> < 2 ^ 24" and "\<bar>n * cf_delta c\<bar> < 2 ^ 25"
proof -
  define u where "u = ceil_div s (cf_delta c)"
  have d: "0 < cf_delta c" "cf_delta c < 2 ^ 24" using c by (auto simp: step_ok_def)
  have lo: "(u - 1) * cf_delta c < s" and up: "s \<le> u * cf_delta c"
    using ceil_div_bounds [OF d(1), of s] by (simp_all add: u_def)
  have *: "- cf_delta c < s - n * cf_delta c \<and> (s - n * cf_delta c \<le> 0 \<or> (0 \<le> n * cf_delta c \<and> n * cf_delta c < s))"
  proof (cases "cf_iterations c \<noteq> 0 \<and> cf_iterations c < u")
    case True
    then have nn: "n = cf_iterations c" using n by (simp add: u_def)
    have "n * cf_delta c \<le> (u - 1) * cf_delta c" using True nn d by (intro mult_right_mono) auto
    moreover have "0 \<le> n * cf_delta c" using nn c by (simp add: step_ok_def)
    ultimately show ?thesis using lo d by linarith
  next
    case False
    then have nn: "n = u" using n by (simp add: u_def)
    then show ?thesis using lo up d by (simp add: algebra_simps)
  qed
  then show "\<bar>s - n * cf_delta c\<bar> < 2 ^ 24" "\<bar>n * cf_delta c\<bar> < 2 ^ 25"
    using s d unfolding abs_less_iff by auto
qed

lemma calc_cprice_2_loop_blocks:
  assumes "fp_ok fp" "tariff_ok cs" "\<bar>s\<bar> < 2 ^ 24" "\<bar>b + s\<bar> < 2 ^ 24"
  shows "calc_cprice_2_loop fp s b p cs =
     Some (blocks_price fp p (charge_blocks s cs) cs,
           b + blocks_sec (charge_blocks s cs) cs, s - blocks_sec (charge_blocks s cs) cs)"
  using assms
proof (induction cs arbitrary: s b p)
  case (Cons c cs)
  define u where "u = ceil_div s (cf_delta c)"
  define n where "n = (if cf_iterations c \<noteq> 0 \<and> cf_iterations c < u then cf_iterations c else u)"
  have c: "step_ok c" using Cons.prems by simp
  have fu: "float_ceil_div fp s (cf_delta c) = Some u"
    using float_ceil_div_eq [of fp s "cf_delta c"] Cons.prems c by (simp add: step_ok_def u_def)
  have bnd: "\<bar>s - n * cf_delta c\<bar> < 2 ^ 24" "\<bar>n * cf_delta c\<bar> < 2 ^ 25"
    using charge_left_bounds [OF c Cons.prems(3) n_def [unfolded u_def]] by simp_all
  have rng: "int_range (n * cf_delta c)" "int_range (b + n * cf_delta c)" "int_range (s - n * cf_delta c)"
    using bnd Cons.prems(3,4) by (simp_all add: int_range_def abs_if split: if_splits)
  have IH: "calc_cprice_2_loop fp (s - n * cf_delta c) (b + n * cf_delta c) q cs =
     Some (blocks_price fp q (charge_blocks (s - n * cf_delta c) cs) cs,
           b + n * cf_delta c + blocks_sec (charge_blocks (s - n * cf_delta c) cs) cs,
           s - n * cf_delta c - blocks_sec (charge_blocks (s - n * cf_delta c) cs) cs)" for q
    using Cons.IH [OF Cons.prems(1) _ bnd(1), of "b + n * cf_delta c" q] Cons.prems by simp
  have n': "(if cf_iterations c = 0 then u else if cf_iterations c < u then cf_iterations c else u) = n"
    by (simp add: n_def)
  have L: "calc_cprice_2_loop fp s b p (c # cs) =
     (if cf_iterations c = 0 \<or> u = 1
      then Some (dadd fp p (imul fp n (cf_fee c)), b + n * cf_delta c, s - n * cf_delta c)
      else calc_cprice_2_loop fp (s - n * cf_delta c) (b + n * cf_delta c)
             (dadd fp p (imul fp n (cf_fee c))) cs)"
    using rng c by (simp add: step_ok_def fu n' cmul_def cadd_def csub_def)
  have R: "charge_blocks s (c # cs) =
     n # (if cf_iterations c = 0 \<or> u = 1 then [] else charge_blocks (s - n * cf_delta c) cs)"
    by (simp add: Let_def n_def flip: u_def)
  show ?case unfolding L R by (simp add: IH)
qed simp

lemma charge_blocks_cover:
  assumes "tariff_ok cs" "cs \<noteq> []" "cf_iterations (last cs) = 0"
  shows "s \<le> blocks_sec (charge_blocks s cs) cs"
  using assms
proof (induction cs arbitrary: s)
  case (Cons c cs)
  define u where "u = ceil_div s (cf_delta c)"
  have c: "step_ok c" and d: "0 < cf_delta c" using Cons.prems by (auto simp: step_ok_def)
  have up: "s \<le> u * cf_delta c" using ceil_div_upper [OF d] by (simp add: u_def)
  show ?case
  proof (cases "cf_iterations c = 0 \<or> u = 1")
    case True
    then show ?thesis using up c by (auto simp: Let_def step_ok_def simp flip: u_def)
  next
    case False
    then have cs: "cs \<noteq> []" "cf_iterations (last cs) = 0"
      using Cons.prems by (auto split: if_splits)
    define n where "n = (if cf_iterations c \<noteq> 0 \<and> cf_iterations c < u then cf_iterations c else u)"
    have "s - n * cf_delta c \<le> blocks_sec (charge_blocks (s - n * cf_delta c) cs) cs"
      using Cons.IH [OF _ cs] Cons.prems by simp
    moreover have "charge_blocks s (c # cs) = n # charge_blocks (s - n * cf_delta c) cs"
      using False by (auto simp: Let_def n_def simp flip: u_def)
    ultimately show ?thesis by (simp del: charge_blocks.simps)
  qed
qed simp

lemma charge_blocks_overshoot:
  assumes "tariff_ok cs" "\<forall>c \<in> set cs. cf_delta c \<le> m" "0 < m" "- m < s"
  shows "- m < s - blocks_sec (charge_blocks s cs) cs"
  using assms
proof (induction cs arbitrary: s)
  case (Cons c cs)
  define u where "u = ceil_div s (cf_delta c)"
  define n where "n = (if cf_iterations c \<noteq> 0 \<and> cf_iterations c < u then cf_iterations c else u)"
  have d: "0 < cf_delta c" "cf_delta c \<le> m" using Cons.prems by (auto simp: step_ok_def)
  have lo: "(u - 1) * cf_delta c < s" using ceil_div_lower [OF d(1)] by (simp add: u_def)
  have "n * cf_delta c \<le> u * cf_delta c" using d by (intro mult_right_mono) (auto simp: n_def)
  moreover have "u * cf_delta c - cf_delta c < s" using lo by (simp add: algebra_simps)
  ultimately have left: "- m < s - n * cf_delta c" using d by linarith
  have R: "charge_blocks s (c # cs) =
     n # (if cf_iterations c = 0 \<or> u = 1 then [] else charge_blocks (s - n * cf_delta c) cs)"
    by (simp add: Let_def n_def flip: u_def)
  have "- m < s - n * cf_delta c - blocks_sec (charge_blocks (s - n * cf_delta c) cs) cs"
    using Cons.IH [OF _ _ _ left] Cons.prems by simp
  then show ?case unfolding R using left by simp
qed simp

section \<open>The tariff's reference price\<close>

text \<open>What a tariff means: blocks are taken from the first step until its iterations are
  used up, the rest of the call is priced by the next steps, nothing is refunded.\<close>

fun ideal_price :: "int \<Rightarrow> calc_function list \<Rightarrow> rat" where
  "ideal_price s [] = 0"
| "ideal_price s (c # cs) =
     (if s \<le> 0 then 0
      else let u = ceil_div s (cf_delta c) in
        if cf_iterations c = 0 \<or> u \<le> cf_iterations c then of_int u * cf_fee c
        else of_int (cf_iterations c) * cf_fee c +
             ideal_price (s - cf_iterations c * cf_delta c) cs)"

declare charge_blocks.simps [simp del] ideal_price.simps [simp del]

lemma ideal_price_nonpos [simp]: "s \<le> 0 \<Longrightarrow> ideal_price s cs = 0"
  by (cases cs) (simp_all add: ideal_price.simps)

lemma ideal_price_nonneg: "tariff_ok cs \<Longrightarrow> 0 \<le> ideal_price s cs"
proof (induction cs arbitrary: s)
  case (Cons c cs)
  have "0 \<le> ideal_price t cs" for t using Cons by simp
  moreover have "0 \<le> cf_fee c" "0 \<le> cf_iterations c" "0 < cf_delta c"
    using Cons.prems by (auto simp: step_ok_def)
  moreover have "0 < s \<Longrightarrow> 0 < ceil_div s (cf_delta c)" using calculation by auto
  ultimately show ?case by (auto simp: ideal_price.simps Let_def intro!: add_nonneg_nonneg)
qed (simp add: ideal_price.simps)

lemma ceil_div_mono: "0 < d \<Longrightarrow> a \<le> b \<Longrightarrow> ceil_div a d \<le> ceil_div b d"
  by (simp add: ceil_div_def zdiv_mono1)

text \<open>A longer call never costs less.\<close>

lemma ideal_price_mono: "tariff_ok cs \<Longrightarrow> s \<le> t \<Longrightarrow> ideal_price s cs \<le> ideal_price t cs"
proof (induction cs arbitrary: s t)
  case (Cons c cs)
  have c: "0 \<le> cf_fee c" "0 \<le> cf_iterations c" "0 < cf_delta c"
    using Cons.prems by (auto simp: step_ok_def)
  have cs: "tariff_ok cs" using Cons.prems by simp
  define u v where "u = ceil_div s (cf_delta c)" and "v = ceil_div t (cf_delta c)"
  have uv: "u \<le> v" using Cons.prems c by (simp add: u_def v_def ceil_div_mono)
  have IH: "ideal_price (s - cf_iterations c * cf_delta c) cs \<le> ideal_price (t - cf_iterations c * cf_delta c) cs"
    using Cons.IH [OF cs] Cons.prems by simp
  have nn: "0 \<le> ideal_price x cs" for x using ideal_price_nonneg [OF cs] .
  show ?case
  proof (cases "s \<le> 0")
    case True
    then show ?thesis using ideal_price_nonneg [OF Cons.prems(1)] by simp
  next
    case False
    consider "cf_iterations c = 0 \<or> v \<le> cf_iterations c"
      | "cf_iterations c \<noteq> 0" "cf_iterations c < v" "u \<le> cf_iterations c"
      | "cf_iterations c \<noteq> 0" "cf_iterations c < u" by linarith
    then show ?thesis
    proof cases
      case 1
      then show ?thesis using False Cons.prems c uv
        by (auto simp: ideal_price.simps Let_def mult_right_mono simp flip: u_def v_def)
    next
      case 2
      have "of_int u * cf_fee c \<le> of_int (cf_iterations c) * cf_fee c"
        using 2 c by (intro mult_right_mono) auto
      then show ?thesis using 2 False Cons.prems nn [of "t - cf_iterations c * cf_delta c"]
        by (simp add: ideal_price.simps Let_def flip: u_def v_def)
    next
      case 3
      then show ?thesis using False Cons.prems uv IH
        by (simp add: ideal_price.simps Let_def flip: u_def v_def)
    qed
  qed
qed (simp add: ideal_price.simps)

end
