(* ===== verification/RtStore.thy ===== *)
theory RtStore
  imports Cdr TimeCond PCard CalcFunctions
begin

text \<open>
  The queries of the Rating module: \<open>rt_data_q.c\<close>, \<open>free_billsec.c\<close>, the two queries of
  \<open>time_cond.c\<close>, \<open>rt_chk_tr_opt\<close> of \<open>rating.c\<close> (which they call back) and the cached card
  lookup of \<open>pcard.c\<close>. A function takes the environment, the account or the call, and the state
  (the database handle and the shared cache), and returns its C result with what it changed;
  \<open>None\<close> is undefined behaviour (a NULL dereference, a missing result column, an overflow of
  \<open>atoi\<close>). The value an uninitialised local variable has is an input: \<open>ev_junk env v\<close> for the
  variable \<open>v\<close>. The texts of the queries are the code's; that they fit the 2048 bytes of the
  buffers, and that a column fits the field it is copied to, is taken for granted.

  The JSON codecs of \<open>rt_json.c\<close> and \<open>cdrm_json.c\<close> are inputs of the NoSQL branches.
\<close>

section \<open>Environment and state\<close>

record rt_env =
  ev_fp :: fpenv
  ev_now :: int
  ev_localtime :: "int \<Rightarrow> tm"
  ev_mktime :: "int \<times> int \<times> int \<times> int \<times> int \<times> int \<Rightarrow> int"
  ev_billing_day :: string
  ev_bal_num :: u16
  ev_k_limit_min :: rat
  ev_call_maxsec :: u32
  ev_junk :: "string \<Rightarrow> int"
  js_balance_get :: "string \<Rightarrow> racc \<Rightarrow> int \<times> racc"
  js_balance_put :: "racc \<Rightarrow> string \<times> string"
  js_rated_put :: "rating \<Rightarrow> string \<times> string"
  js_tariff_get :: "string \<Rightarrow> rate \<Rightarrow> rate"
  js_rate_get :: "string \<Rightarrow> rate \<Rightarrow> rate"
  js_racc_get :: "string \<Rightarrow> racc \<Rightarrow> int \<times> racc"
  js_bacc_get :: "string \<Rightarrow> bacc \<Rightarrow> bacc"
  js_cdr_get :: "string \<Rightarrow> cdr \<Rightarrow> cdr"
  js_bplan_get :: "string \<Rightarrow> bplan \<Rightarrow> bplan"

record 'e st =
  st_db :: "'e db option"
  st_cache :: "rt_cache option"

section \<open>One query\<close>

definition st_type :: "'e st \<Rightarrow> int" where
  "st_type s = (case st_db s of None \<Rightarrow> 0 | Some d \<Rightarrow> db_t d)"

definition no_api :: "'e st \<Rightarrow> bool" where
  "no_api s = (case st_db s of None \<Rightarrow> True | Some d \<Rightarrow> db_sql d = None)"

definition q_fetch :: "string \<Rightarrow> 'e st \<Rightarrow> (string list list option \<times> 'e st) option" where
  "q_fetch str s = do { (rows, p) \<leftarrow> fetch_rows str (st_db s); Some (rows, s\<lparr>st_db := p\<rparr>) }"

definition q_free :: "'e st \<Rightarrow> 'e st" where
  "q_free s = s\<lparr>st_db := clear_conn_result (st_db s)\<rparr>"

definition q_rows :: "string \<Rightarrow> 'e st \<Rightarrow> (string list list option \<times> 'e st) option" where
  "q_rows str s = do { (rows, p) \<leftarrow> query_rows str (st_db s); Some (rows, s\<lparr>st_db := p\<rparr>) }"

definition q_get :: "string \<Rightarrow> 'e st \<Rightarrow> (int \<times> string option \<times> 'e st) option" where
  "q_get str s = do { (ret, msg, p) \<leftarrow> get_str str (st_db s); Some (ret, msg, s\<lparr>st_db := p\<rparr>) }"

section \<open>Periods\<close>

definition rt_data_q_chk_rate_periods :: "int \<Rightarrow> int \<Rightarrow> int \<Rightarrow> int" where
  "rt_data_q_chk_rate_periods start end ts =
     (if start = 0 then 1
      else if ts < start then 0
      else if end = 0 then 1
      else if end < ts then 0 else 1)"

section \<open>Bill plans, balance count, cards\<close>

definition rt_data_q_bplan_tree_num :: "rt_env \<Rightarrow> racc \<Rightarrow> 'e st \<Rightarrow> (int \<times> 'e st) option" where
  "rt_data_q_bplan_tree_num env rtp s =
     (if st_type s = sql then do {
        (rows, s1) \<leftarrow> q_rows (''select id from bill_plan_tree where root_bplan_id = '' @ fmt_u (bp_id (ra_bplan rtp))) s;
        Some (case rows of Some rs \<Rightarrow> int (length rs) | None \<Rightarrow> ev_junk env ''number'', s1)
      } else Some (0, s))"

definition rt_data_q_bal_count :: "racc option \<Rightarrow> char \<Rightarrow> 'e st \<Rightarrow> (int \<times> 'e st) option" where
  "rt_data_q_bal_count rtp flag s =
     (if st_db s = None then Some (DB_ERR_DBP_NUL, s)
      else case rtp of None \<Rightarrow> Some (-999, s) | Some r \<Rightarrow>
        if st_type s = sql then do {
          (rows, s1) \<leftarrow> q_rows (''select count(*) as number from balance where billing_account_id = '' @
                         fmt_u (ba_id (ra_bacc r)) @ '' and active = '' @ quoted [flag]) s;
          n \<leftarrow> one_int 0 rows;
          Some (case n of Some v \<Rightarrow> v | None \<Rightarrow> 0, s1)
        } else if st_type s = nosql then
          let (ret, p) = db_command (st_db s) (''keys balance_'' @ ba_username (ra_bacc r) @ ''*'')
          in if ret < 0 then Some (0, s\<lparr>st_db := p\<rparr>)
             else if \<not> has_conn p then None
             else
               let number = (case p \<bind> (\<lambda>d. db_conn d \<bind> cn_result) of
                               Some (NosqlResult _ arr) \<Rightarrow> int (length arr) | _ \<Rightarrow> 0);
                   p2 = snd (db_free_result (clear_conn_result p));
                   p3 = map_option (\<lambda>d. d\<lparr>db_conn := map_option (\<lambda>c. c\<lparr>cn_res := False\<rparr>) (db_conn d)\<rparr>) p2
               in Some (number, s\<lparr>st_db := p3\<rparr>)
        else Some (0, s))"

text \<open>A row of the card query; the dates are copied whole here.\<close>

definition pcard_row :: "fpenv \<Rightarrow> string list \<Rightarrow> pcard option" where
  "pcard_row fp row = do {
     id \<leftarrow> coli row 0;
     amount \<leftarrow> col row 1;
     start \<leftarrow> col row 2;
     end \<leftarrow> col row 3;
     status \<leftarrow> coli row 4;
     type \<leftarrow> coli row 5;
     n \<leftarrow> coli row 6;
     Some \<lparr>pc_id = id, pc_amount = rd fp (atof amount), pc_start = start, pc_end = end,
       pc_status = status, pc_type = type, pc_call_number = n\<rparr>
   }"

text \<open>\<open>bpt->pcard_ptr\<close> of the query is an array; here it is the list it returns.\<close>

definition rt_data_q_pcard_sql ::
  "rt_env \<Rightarrow> u32 \<Rightarrow> int \<Rightarrow> 'e st \<Rightarrow> (int \<times> pcard list option \<times> 'e st) option" where
  "rt_data_q_pcard_sql env bacc_id status s = do {
     (rows, s1) \<leftarrow> q_rows
       (''SELECT id,amount,start_date,end_date,pcard_status_id,pcard_type_id,call_number'' @
        '' from pcard where billing_account_id = '' @ fmt_u bacc_id @
        '' and pcard_status_id = '' @ dec_int status @ '' order by start_date desc'') s;
     case rows of
       Some (r # rs) \<Rightarrow> do {
         cards \<leftarrow> those_list (map (pcard_row (ev_fp env)) (r # rs));
         Some (0, Some cards,
           if status = pcard_active
           then s1\<lparr>st_cache := rt_cache_pcard_put (ev_now env) bacc_id cards (st_cache s1)\<rparr> else s1)
       }
     | _ \<Rightarrow> Some (0, None, s1)
   }"

definition rt_data_q_pcard ::
  "rt_env \<Rightarrow> bacc \<Rightarrow> int \<Rightarrow> 'e st \<Rightarrow> (int \<times> pcard list option \<times> 'e st) option" where
  "rt_data_q_pcard env bpt status s =
     (if st_db s = None then Some (DB_ERR_DBP_NUL, None, s)
      else if st_type s = sql then rt_data_q_pcard_sql env (ba_id bpt) status s
      else if st_type s = nosql then Some (0, None, s)
      else Some (DB_ERR_TYPE_UNK, None, s))"

definition rt_data_q_pcard_set :: "rt_env \<Rightarrow> bacc \<Rightarrow> int \<Rightarrow> 'e st \<Rightarrow> (int \<times> 'e st) option" where
  "rt_data_q_pcard_set env bpt status s =
     (if st_db s = None then Some (DB_ERR_DBP_NUL, s)
      else if st_type s = sql then do {
        card \<leftarrow> ba_pcard bpt;
        let (ret, p) = db_update (st_db s)
          (''update pcard set pcard_status_id = '' @ dec_int status @ '',last_update = '' @ quoted ''now()'' @
           '' where id = '' @ dec_int (pc_id card) @ '' '');
        Some (ret, s\<lparr>st_db := p\<rparr>)
      } else if st_type s = nosql then Some (ev_junk env ''ret'', s)
      else Some (DB_ERR_TYPE_UNK, s))"

text \<open>\<open>pcard_manager\<close>: the cards from the cache, else from the database, then the choice. It
  is called on an account without a card; a card of an earlier choice is a single struct, and
  walking it as the array of the query is undefined behaviour.\<close>

definition pcard_manager :: "rt_env \<Rightarrow> racc \<Rightarrow> 'e st \<Rightarrow> (racc \<times> 'e st) option" where
  "pcard_manager env rtp s = do {
     let bpt = ra_bacc rtp;
     let (hit, cache1) = rt_cache_pcard_get (ev_now env) (ba_id bpt) (st_cache s);
     (cards, s1) \<leftarrow> (case hit of
         Some cs \<Rightarrow> Some (Some cs, s\<lparr>st_cache := cache1\<rparr>)
       | None \<Rightarrow> do {
           (_, cs, s') \<leftarrow> rt_data_q_pcard env bpt pcard_active (s\<lparr>st_cache := cache1\<rparr>);
           if cs = None \<and> ba_pcard bpt \<noteq> None then None else Some (cs, s')
         });
     card \<leftarrow> (case cards of
         None \<Rightarrow> Some None
       | Some cs \<Rightarrow> pcard_process (ev_localtime env) (ra_pre rtp) (ba_billing_day bpt) cs);
     Some (rtp\<lparr>ra_bacc := bpt\<lparr>ba_pcard := card\<rparr>\<rparr>, s1)
   }"

section \<open>Balance\<close>

definition bal_sql_str :: "racc \<Rightarrow> string \<Rightarrow> string \<Rightarrow> string" where
  "bal_sql_str rtp time1 time2 =
     ''select amount,id from balance where billing_account_id = '' @ fmt_u (ba_id (ra_bacc rtp)) @
     '' and start_date = '' @ quoted time1 @ '' and end_date='' @ quoted time2 @ '' and active = '' @ quoted ''t''"

definition rt_data_q_bal_sql ::
  "rt_env \<Rightarrow> racc \<Rightarrow> string \<Rightarrow> string \<Rightarrow> 'e st \<Rightarrow> (int \<times> racc \<times> 'e st) option" where
  "rt_data_q_bal_sql env rtp time1 time2 s =
     (if st_db s = None then Some (DB_ERR_DBP_NUL, rtp, s)
      else do {
        (rows, s1) \<leftarrow> q_rows (bal_sql_str rtp time1 time2) s;
        case rows of
          Some [row] \<Rightarrow> do {
            amount \<leftarrow> col row 0;
            id \<leftarrow> coli row 1;
            Some (DB_OK, rtp\<lparr>ra_bal := (ra_bal rtp)\<lparr>bl_amount := rd (ev_fp env) (atof amount),
                                                   bl_id := word_of_int id\<rparr>\<rparr>, s1)
          }
        | _ \<Rightarrow> Some (DB_OK, rtp, s1)
      })"

definition rt_data_q_bal_nosql ::
  "rt_env \<Rightarrow> racc \<Rightarrow> string \<Rightarrow> string \<Rightarrow> 'e st \<Rightarrow> (int \<times> racc \<times> 'e st) option" where
  "rt_data_q_bal_nosql env rtp time1 time2 s = do {
     (ret, msg, s1) \<leftarrow> q_get (''get balance_'' @ ba_username (ra_bacc rtp) @ ''_'' @ time1) s;
     case msg of
       None \<Rightarrow> Some (ret, rtp, s1)
     | Some m \<Rightarrow> let (ret', rtp') = js_balance_get env m rtp in Some (ret', rtp', s1)
   }"

definition rt_data_q_bal ::
  "rt_env \<Rightarrow> racc \<Rightarrow> string \<Rightarrow> string \<Rightarrow> 'e st \<Rightarrow> (int \<times> racc \<times> 'e st) option" where
  "rt_data_q_bal env rtp time1 time2 s =
     (if st_db s = None then Some (DB_ERR_DBP_NUL, rtp, s)
      else if st_type s = sql then do {
        (_, rtp', s') \<leftarrow> rt_data_q_bal_sql env rtp time1 time2 s;
        Some (0, rtp', s')
      } else if st_type s = nosql then do {
        (_, rtp', s') \<leftarrow> rt_data_q_bal_nosql env rtp time1 time2 s;
        Some (0, rtp', s')
      } else Some (DB_ERR_TYPE_UNK, rtp, s))"

definition bal_update_str :: "racc \<Rightarrow> string" where
  "bal_update_str rtp = ''update balance set amount = '' @ fmt_f (bl_amount (ra_bal rtp)) @
     '',last_update = now() where id = '' @ fmt_u (bl_id (ra_bal rtp))"

definition bal_insert_str :: "racc \<Rightarrow> string \<Rightarrow> string \<Rightarrow> string" where
  "bal_insert_str rtp start end =
     ''insert into balance (billing_account_id,start_date,end_date,active,amount,last_update) values ('' @
     fmt_u (ba_id (ra_bacc rtp)) @ '','' @ quoted start @ '','' @ quoted end @ '','' @ quoted ''t'' @ '','' @
     fmt_f (bl_amount (ra_bal rtp)) @ '','' @ quoted ''now()'' @ '')''"

definition rt_data_q_bal_add_sql :: "racc \<Rightarrow> string \<Rightarrow> string \<Rightarrow> 'e st \<Rightarrow> int \<times> 'e st" where
  "rt_data_q_bal_add_sql rtp start end s =
     (if 0 < bl_id (ra_bal rtp) then
        let (ret, p) = db_update (st_db s) (bal_update_str rtp) in (ret, s\<lparr>st_db := p\<rparr>)
      else
        let (ret, p) = db_insert (st_db s) (bal_insert_str rtp start end) in (ret, s\<lparr>st_db := p\<rparr>))"

definition rt_data_q_bal_add_nosql ::
  "rt_env \<Rightarrow> racc \<Rightarrow> string \<Rightarrow> string \<Rightarrow> 'e st \<Rightarrow> int \<times> 'e st" where
  "rt_data_q_bal_add_nosql env rtp start end s =
     (let (header, msg) = js_balance_put env rtp;
          (ret, p) = db_set (st_db s) (header @ ''_'' @ start) msg
      in (ret, s\<lparr>st_db := p\<rparr>))"

definition rt_data_q_bal_add ::
  "rt_env \<Rightarrow> racc \<Rightarrow> string \<Rightarrow> string \<Rightarrow> 'e st \<Rightarrow> int \<times> 'e st" where
  "rt_data_q_bal_add env rtp start end s =
     (if st_db s = None then (DB_ERR_DBP_NUL, s)
      else if st_type s = sql then rt_data_q_bal_add_sql rtp start end s
      else if st_type s = nosql then rt_data_q_bal_add_nosql env rtp start end s
      else (DB_ERR_TYPE_UNK, s))"

section \<open>The rating table\<close>

definition rating_id_str :: "racc \<Rightarrow> string" where
  "rating_id_str rtp = ''select id from rating where call_id = '' @ dec_int (pre_cdr_id (ra_pre rtp)) @
     '' and billing_account_id = '' @ fmt_u (ba_id (ra_bacc rtp)) @
     '' and rate_id = '' @ dec_int (pre_rate_id (ra_pre rtp))"

definition rt_data_q_rating_id :: "racc \<Rightarrow> 'e st \<Rightarrow> (int \<times> racc \<times> 'e st) option" where
  "rt_data_q_rating_id rtp s =
     (if st_db s = None then Some (DB_ERR_DBP_NUL, rtp, s)
      else if st_type s = sql then do {
        (rows, s1) \<leftarrow> q_rows (rating_id_str rtp @ '' and call_price = '' @ fmt_f (pre_cprice (ra_pre rtp))) s;
        n \<leftarrow> one_int 0 rows;
        Some (0, case n of Some v \<Rightarrow> upd_pre (\<lambda>p. p\<lparr>pre_rating_id := v\<rparr>) rtp | None \<Rightarrow> rtp, s1)
      } else Some (-2, rtp, s))"

definition rating_insert_str :: "racc \<Rightarrow> int \<Rightarrow> string" where
  "rating_insert_str rtp card_id = (let pre = ra_pre rtp in
     ''insert into rating'' @
     '' (call_price,call_billsec,rate_id,billing_account_id,call_id,rating_mode_id,pcard_id,time_condition_id,'' @
     ''call_ts,last_update,free_billsec_id)'' @
     '' values ('' @ fmt_f (pre_cprice pre) @ '','' @ dec_int (pre_billsec pre) @ '','' @ dec_int (pre_rate_id pre) @ '','' @
     fmt_u (ba_id (ra_bacc rtp)) @ '','' @ dec_int (pre_cdr_id pre) @ '','' @ dec_int (pre_rating_mode_id pre) @ '','' @
     dec_int card_id @ '','' @ dec_int (pre_tc_id pre) @ '','' @ quoted (snd (db_sql_escape (Some (pre_timestamp pre)) 64)) @
     '','' @ quoted ''now()'' @ '','' @ dec_int (pre_free_billsec_id pre) @ '') returning id'')"

text \<open>The card is dereferenced before anything else; a call that is in the table already gets
  \<open>rating_id = 0\<close> and no insert.\<close>

definition rt_data_q_rating_add_sql :: "racc \<Rightarrow> 'e st \<Rightarrow> (int \<times> racc \<times> 'e st) option" where
  "rt_data_q_rating_add_sql rtp s =
     (if st_db s = None then Some (-1, rtp, s)
      else do {
        card \<leftarrow> ba_pcard (ra_bacc rtp);
        if st_type s = sql then do {
          (rows, s1) \<leftarrow> q_rows (rating_id_str rtp) s;
          case rows of
            Some (r # rs) \<Rightarrow> Some (0, upd_pre (\<lambda>p. p\<lparr>pre_rating_id := 0\<rparr>) rtp, s1)
          | _ \<Rightarrow>
            if fst (db_sql_escape (Some (pre_timestamp (ra_pre rtp))) 64) < 0 then None
            else do {
              let p1 = snd (db_query (st_db s1) (rating_insert_str rtp (pc_id card)) False);
              let p2 = snd (db_fetch p1);
              let (rows2, p3) = take_result p2;
              n \<leftarrow> one_int 0 rows2;
              Some (0, case n of Some v \<Rightarrow> upd_pre (\<lambda>p. p\<lparr>pre_rating_id := v\<rparr>) rtp | None \<Rightarrow> rtp,
                    s1\<lparr>st_db := p3\<rparr>)
            }
        } else Some (-2, rtp, s)
      })"

definition rt_data_q_rating_add_nosql :: "rt_env \<Rightarrow> racc \<Rightarrow> 'e st \<Rightarrow> int \<times> 'e st" where
  "rt_data_q_rating_add_nosql env rtp s =
     (let (header, msg) = js_rated_put env (ra_pre rtp);
          (ret, p) = db_set (st_db s) header msg
      in (ret, s\<lparr>st_db := p\<rparr>))"

definition rt_data_q_rating_add :: "rt_env \<Rightarrow> racc \<Rightarrow> 'e st \<Rightarrow> (int \<times> racc \<times> 'e st) option" where
  "rt_data_q_rating_add env rtp s =
     (if st_db s = None then Some (DB_ERR_DBP_NUL, rtp, s)
      else if st_type s = sql then rt_data_q_rating_add_sql rtp s
      else if st_type s = nosql then
        let (ret, s') = rt_data_q_rating_add_nosql env rtp s
        in Some (ret, upd_pre (\<lambda>p. p\<lparr>pre_rating_id := 1\<rparr>) rtp, s')
      else Some (DB_ERR_TYPE_UNK, rtp, s))"

section \<open>The rating account\<close>

text \<open>Table, condition and the two address indicators per rating mode.\<close>

definition racc_mode :: "int \<Rightarrow> rating \<Rightarrow> (string \<times> string \<times> int \<times> int) option" where
  "racc_mode rtm pre =
     (if rtm = rt_mode_clg then Some (''calling_number'', pre_clg pre, -1, -1)
      else if rtm = rt_mode_acode then Some (''account_code'', pre_account_code pre, -1, -1)
      else if rtm = rt_mode_srcc then Some (''src_context'', pre_src_context pre, -1, -1)
      else if rtm = rt_mode_dstc then Some (''dst_context'', pre_dst_context pre, -1, -1)
      else if rtm = rt_mode_srctg then Some (''src_tgroup'', pre_src_tgroup pre, pre_clg_nadi pre, pre_cld_nadi pre)
      else if rtm = rt_mode_dsttg then Some (''dst_tgroup'', pre_dst_tgroup pre, pre_clg_nadi pre, pre_cld_nadi pre)
      else if rtm = rt_mode_sms then Some (''calling_number'', pre_clg pre, -2, -2)
      else None)"

definition racc_sql_str :: "string \<Rightarrow> string \<Rightarrow> int \<Rightarrow> int \<Rightarrow> int \<Rightarrow> string" where
  "racc_sql_str table safe_cond clg_nadi cld_nadi cdr_server_id = (let
     plan = (if clg_nadi = -1 \<and> cld_nadi = -1 then ''bill_plan_id'' else ''sm_bill_plan_id'') in
     if (clg_nadi = -1 \<and> cld_nadi = -1) \<or> (clg_nadi = -2 \<and> cld_nadi = -2) then
       ''SELECT clg.billing_account_id,clg_df.'' @ plan @ '',bp.start_period,bp.end_period,'' @
       ''bacc.billing_day,bacc.round_mode_id,bacc.day_of_payment '' @
       '' from '' @ table @ '' as clg,'' @ table @ ''_deff as clg_df,bill_plan as bp,billing_account as bacc '' @
       '' where clg.id = clg_df.'' @ table @ ''_id and '' @
       '' bp.id = clg_df.'' @ plan @ '' and '' @
       '' clg.'' @ table @ '' = '' @ quoted safe_cond @ '' and '' @
       '' bacc.id = clg.billing_account_id and'' @
       '' bacc.cdr_server_id = '' @ dec_int cdr_server_id @ '' ''
     else
       ''SELECT src.billing_account_id,src_df.bill_plan_id,src_df.clg_nadi,src_df.cld_nadi,bp.start_period,bp.end_period,bacc.billing_day,bacc.round_mode_id'' @
       '' from '' @ table @ '' as src,'' @ table @ ''_deff as src_df,bill_plan as bp,billing_account as bacc  '' @
       '' where src.id = src_df.'' @ table @ ''_id and '' @
       '' bp.id = src_df.bill_plan_id and '' @
       '' src.'' @ table @ '' = '' @ quoted safe_cond @ '' and '' @
       '' bacc.id = src.billing_account_id and '' @
       '' bacc.cdr_server_id = '' @ dec_int cdr_server_id @ '' and src_df.clg_nadi = '' @ dec_int clg_nadi @
       '' and src_df.cld_nadi = '' @ dec_int cld_nadi)"

definition set_racc_data :: "rt_cache_racc_data \<Rightarrow> racc \<Rightarrow> racc" where
  "set_racc_data d r = r\<lparr>
     ra_bacc := (ra_bacc r)\<lparr>ba_id := rd_bacc_id d, ba_billing_day := rd_billing_day d,
       ba_round_mode_id := rd_round_mode_id d, ba_day_of_payment := ucast (rd_day_of_payment d)\<rparr>,
     ra_bplan := (ra_bplan r)\<lparr>bp_id := rd_bplan_id d, bp_start_period := rd_bplan_start_period d,
       bp_end_period := rd_bplan_end_period d\<rparr>\<rparr>"

definition get_racc_data :: "racc \<Rightarrow> rt_cache_racc_data" where
  "get_racc_data r = \<lparr>rd_bacc_id = ba_id (ra_bacc r), rd_bplan_id = bp_id (ra_bplan r),
     rd_bplan_start_period = bp_start_period (ra_bplan r), rd_bplan_end_period = bp_end_period (ra_bplan r),
     rd_billing_day = ba_billing_day (ra_bacc r), rd_round_mode_id = ba_round_mode_id (ra_bacc r),
     rd_day_of_payment = ucast (ba_day_of_payment (ra_bacc r))\<rparr>"

text \<open>The columns of a row, by position, whatever the statement selected.\<close>

definition racc_row :: "string list \<Rightarrow> racc \<Rightarrow> racc option" where
  "racc_row row r = do {
     bacc \<leftarrow> coli row 0;
     bplan \<leftarrow> coli row 1;
     start \<leftarrow> coli row 2;
     end \<leftarrow> coli row 3;
     day \<leftarrow> coli row 4;
     mode \<leftarrow> coli row 5;
     dop \<leftarrow> coli row 6;
     Some (r\<lparr>ra_bacc := (ra_bacc r)\<lparr>ba_id := word_of_int bacc, ba_billing_day := word_of_int day,
               ba_round_mode_id := word_of_int mode, ba_day_of_payment := word_of_int dop\<rparr>,
             ra_bplan := (ra_bplan r)\<lparr>bp_id := word_of_int bplan, bp_start_period := word_of_int start,
               bp_end_period := word_of_int end\<rparr>\<rparr>)
   }"

fun racc_rows :: "string list list \<Rightarrow> racc \<Rightarrow> racc option" where
  "racc_rows [] r = Some r"
| "racc_rows (row # rows) r = do { r' \<leftarrow> racc_row row r; racc_rows rows r' }"

definition rt_data_q_racc_sql :: "rt_env \<Rightarrow> racc \<Rightarrow> 'e st \<Rightarrow> (int \<times> racc \<times> 'e st) option" where
  "rt_data_q_racc_sql env rtp s =
     (if st_db s = None then Some (DB_ERR_DBP_NUL, rtp, s)
      else case racc_mode (ra_rtm rtp) (ra_pre rtp) of
        None \<Rightarrow> Some (-999, rtp, s)
      | Some (table, cond, clg_nadi, cld_nadi) \<Rightarrow>
          let (n, safe_cond) = db_sql_escape (Some cond) 160 in
          if n < 0 then Some (-998, rtp, s)
          else
            let key = racc_key (ra_rtm rtp) cond;
                (hit, cache1) = rt_cache_racc_get (ev_now env) key (st_cache s);
                s0 = s\<lparr>st_cache := cache1\<rparr>
            in (case hit of
                  Some d \<Rightarrow> Some (DB_OK, set_racc_data d rtp, s0)
                | None \<Rightarrow> do {
                    (rows, s1) \<leftarrow> q_rows (racc_sql_str table safe_cond clg_nadi cld_nadi
                                     (pre_cdr_server_id (ra_pre rtp))) s0;
                    rtp1 \<leftarrow> (case rows of Some rs \<Rightarrow> racc_rows rs rtp | None \<Rightarrow> Some rtp);
                    Some (DB_OK, rtp1,
                      if 0 < ba_id (ra_bacc rtp1)
                      then s1\<lparr>st_cache := rt_cache_racc_put (ev_now env) key (get_racc_data rtp1) (st_cache s1)\<rparr>
                      else s1)
                  }))"

section \<open>Tariff and rates\<close>

definition calc_row :: "fpenv \<Rightarrow> string list \<Rightarrow> calc_function option" where
  "calc_row fp row = do {
     pos \<leftarrow> coli row 0;
     delta \<leftarrow> coli row 1;
     fee \<leftarrow> col row 2;
     iterations \<leftarrow> coli row 3;
     Some \<lparr>cf_pos = pos, cf_delta = delta, cf_fee = rd fp (atof fee), cf_iterations = iterations\<rparr>
   }"

text \<open>Writing through \<open>rates_ptr\<close> needs it not to be NULL. An answer without rows keeps the
  result unfreed.\<close>

definition rt_data_q_tariff_sql :: "rt_env \<Rightarrow> racc \<Rightarrow> 'e st \<Rightarrow> (int \<times> racc \<times> 'e st) option" where
  "rt_data_q_tariff_sql env rtp s =
     (if st_db s = None then Some (DB_ERR_DBP_NUL, rtp, s)
      else
        let tariff_id = pre_tariff_id (ra_pre rtp) in
        if tariff_id \<le> 0 then Some (-998, rtp, s)
        else
          let (hit, cache1) = rt_cache_tariff_get (ev_now env) (word_of_int tariff_id) (st_cache s);
              s0 = s\<lparr>st_cache := cache1\<rparr>
          in (case hit of
                Some tr \<Rightarrow> if bp_rates (ra_bplan rtp) = None then None
                           else Some (DB_OK, set_calc_funcs (Some tr) rtp, s0)
              | None \<Rightarrow> do {
                  (rows, s1) \<leftarrow> q_fetch (''select pos,delta_time,fee,iterations from calc_function where tariff_id = '' @
                                   dec_int tariff_id @ '' order by pos '') s0;
                  case rows of
                    None \<Rightarrow> Some (DB_OK, rtp, s1)
                  | Some [] \<Rightarrow> Some (-10, rtp, s1)
                  | Some (r # rs) \<Rightarrow> do {
                      tr \<leftarrow> those_list (map (calc_row (ev_fp env)) (r # rs));
                      let s2 = s1\<lparr>st_cache := rt_cache_tariff_put (ev_now env) (word_of_int tariff_id) tr (st_cache s1)\<rparr>;
                      if bp_rates (ra_bplan rtp) = None then None
                      else Some (DB_OK, set_calc_funcs (Some tr) rtp, q_free s2)
                    }
                }))"

definition rate_sql_str :: "int \<Rightarrow> u32 \<Rightarrow> string" where
  "rate_sql_str bplan_num bplan_id =
     (if bplan_num = 0 then
        ''select rt.id,rt.tariff_id,pr.prefix,tr.start_period,tr.end_period,rt.prefix_id,tr.free_billsec_id '' @
        '' from rate as rt,prefix as pr,tariff as tr '' @
        '' where rt.bill_plan_id = '' @ fmt_u bplan_id @ '' and pr.id = rt.prefix_id and '' @
        '' rt.tariff_id = tr.id '' @
        '' order by pr.prefix desc''
      else
        ''select rt.id,rt.tariff_id,pr.prefix,tr.start_period,tr.end_period,rt.prefix_id,tr.free_billsec_id '' @
        '' from rate as rt,prefix as pr,tariff as tr,bill_plan_tree as tree '' @
        '' where tree.root_bplan_id = '' @ fmt_u bplan_id @ '' and '' @
        '' rt.bill_plan_id = tree.bill_plan_id and '' @
        '' pr.id = rt.prefix_id and '' @
        '' rt.tariff_id = tr.id '' @
        '' order by pr.prefix desc'')"

definition rate_row :: "string list \<Rightarrow> rate option" where
  "rate_row row = do {
     id \<leftarrow> coli row 0;
     tariff_id \<leftarrow> coli row 1;
     prefix \<leftarrow> col row 2;
     start \<leftarrow> coli row 3;
     end \<leftarrow> coli row 4;
     prefix_id \<leftarrow> coli row 5;
     fb \<leftarrow> coli row 6;
     Some \<lparr>rt_id = word_of_int id, rt_prefix_id = word_of_int prefix_id, rt_prefix = prefix,
       rt_tariff_id = word_of_int tariff_id, rt_tariff_name = [], rt_start_period = word_of_int start,
       rt_end_period = word_of_int end, rt_free_billsec_id = word_of_int fb, rt_calc_funcs = None\<rparr>
   }"

abbreviation set_rates :: "rate list option \<Rightarrow> racc \<Rightarrow> racc" where
  "set_rates rs r \<equiv> r\<lparr>ra_bplan := (ra_bplan r)\<lparr>bp_rates := rs\<rparr>\<rparr>"

definition rt_data_q_rate_sql :: "rt_env \<Rightarrow> racc \<Rightarrow> 'e st \<Rightarrow> (int \<times> racc \<times> 'e st) option" where
  "rt_data_q_rate_sql env rtp s =
     (if st_db s = None then Some (DB_ERR_DBP_NUL, rtp, s)
      else
        let rtp0 = set_rates None rtp;
            bplan_id = bp_id (ra_bplan rtp);
            (hit, cache1) = rt_cache_rates_get (ev_now env) bplan_id (st_cache s);
            s0 = s\<lparr>st_cache := cache1\<rparr>
        in (case hit of
              Some rt \<Rightarrow> Some (0, set_rates (Some rt) rtp0, s0)
            | None \<Rightarrow>
                if st_type s0 \<noteq> sql then Some (-999, rtp0, s0)
                else do {
                  (bplan_num, s1) \<leftarrow> rt_data_q_bplan_tree_num env rtp0 s0;
                  (rows, s2) \<leftarrow> q_rows (rate_sql_str bplan_num bplan_id) s1;
                  case rows of
                    None \<Rightarrow> Some (0, rtp0, s2)
                  | Some rs \<Rightarrow> do {
                      rt \<leftarrow> those_list (map rate_row rs);
                      Some (0, set_rates (Some rt) rtp0,
                        s2\<lparr>st_cache := rt_cache_rates_put (ev_now env) bplan_id rt (st_cache s2)\<rparr>)
                    }
                }))"

section \<open>Time conditions: the queries\<close>

definition tc_row :: "string list \<Rightarrow> time_cond option" where
  "tc_row row = do {
     id \<leftarrow> coli row 0;
     tariff_id \<leftarrow> coli row 1;
     hours \<leftarrow> col row 2;
     dweek \<leftarrow> col row 3;
     tc \<leftarrow> col row 4;
     date \<leftarrow> col row 5;
     Some \<lparr>tcd_id = id, tcd_tariff_id = tariff_id, tcd_hours = hours, tcd_dweek = dweek,
       tcd_date = date, tcd_name = tc\<rparr>
   }"

definition f_time_cond_query_v2 :: "rating \<Rightarrow> 'e st \<Rightarrow> (int \<times> rating \<times> 'e st) option" where
  "f_time_cond_query_v2 pre s = (let pre0 = pre\<lparr>pre_tc := None\<rparr> in
     if pre_tariff_id pre \<le> 0 \<or> st_db s = None \<or> st_type s \<noteq> sql \<or> no_api s then Some (RE_ERROR_N, pre0, s)
     else do {
       (rows, s1) \<leftarrow> q_rows (''select df.id,tc.tariff_id,df.hours,df.days_week,df.tc_name,df.tc_date,tc.prior '' @
         ''from time_condition as tc,time_condition_deff as df '' @
         ''where df.id = tc.time_condition_id and tc.tariff_id = tc.tariff_id and tc.tariff_id = '' @
         dec_int (pre_tariff_id pre) @ '' order by tc.prior desc'') s;
       case rows of
         Some (r # rs) \<Rightarrow> do {
           tcs \<leftarrow> those_list (map tc_row (r # rs));
           Some (RE_SUCCESS, pre0\<lparr>pre_tc := Some tcs\<rparr>, s1)
         }
       | _ \<Rightarrow> Some (RE_SUCCESS, pre0, s1)
     })"

text \<open>\<open>f_time_cond_query_id\<close> sets its result only when there is exactly one row.\<close>

definition f_time_cond_query_id :: "rt_env \<Rightarrow> rating \<Rightarrow> 'e st \<Rightarrow> (int \<times> 'e st) option" where
  "f_time_cond_query_id env pre s =
     (if pre_tariff_id pre \<le> 0 \<or> st_db s = None \<or> st_type s \<noteq> sql \<or> no_api s then Some (0, s)
      else do {
        (rows, s1) \<leftarrow> q_rows (''select id from time_condition where tariff_id = '' @ dec_int (pre_tariff_id pre)) s;
        n \<leftarrow> one_int 0 rows;
        Some (case n of Some v \<Rightarrow> v | None \<Rightarrow> ev_junk env ''id'', s1)
      })"

section \<open>Free seconds, \<open>free_billsec.c\<close>\<close>

text \<open>The queries differ in the statement and in the field they set.\<close>

definition fb_query :: "string \<Rightarrow> (int \<Rightarrow> rating \<Rightarrow> rating) \<Rightarrow> rating \<Rightarrow> 'e st \<Rightarrow> (int \<times> rating \<times> 'e st) option" where
  "fb_query str upd pre s =
     (if st_db s = None then Some (DB_ERR_DBP_NUL, pre, s)
      else if st_type s \<noteq> sql then Some (-3, pre, s)
      else if no_api s then Some (-2, pre, s)
      else do {
        (rows, s1) \<leftarrow> q_rows str s;
        n \<leftarrow> one_int 0 rows;
        Some (DB_OK, case n of Some v \<Rightarrow> upd v pre | None \<Rightarrow> pre, s1)
      })"

definition f_free_billsec_query :: "rating \<Rightarrow> 'e st \<Rightarrow> (int \<times> rating \<times> 'e st) option" where
  "f_free_billsec_query pre = fb_query
     (''SELECT fr.free_billsec from tariff as tr,free_billsec as fr '' @
      ''where tr.id = '' @ dec_int (pre_tariff_id pre) @ '' and tr.free_billsec_id = fr.id'')
     (\<lambda>v p. p\<lparr>pre_free_billsec_limit := v\<rparr>) pre"

definition f_free_billsec_bal_query :: "rating \<Rightarrow> 'e st \<Rightarrow> (int \<times> rating \<times> 'e st) option" where
  "f_free_billsec_bal_query pre s =
     (if st_db s = None then Some (-1, pre, s)
      else if st_type s \<noteq> sql then Some (-3, pre, s)
      else if no_api s then Some (-2, pre, s)
      else do {
        (rows, s1) \<leftarrow> q_rows (''select free_billsec,id from free_billsec_balance where free_billsec_id = '' @
          dec_int (pre_free_billsec_id pre) @ '' and balance_id = '' @ dec_int (pre_bal_id pre)) s;
        case rows of
          Some [row] \<Rightarrow> do {
            n \<leftarrow> coli row 0;
            id \<leftarrow> coli row 1;
            Some (0, pre\<lparr>pre_free_billsec := n, pre_free_id := id\<rparr>, s1)
          }
        | _ \<Rightarrow> Some (0, pre, s1)
      })"

definition f_free_billsec_bal_query_2 :: "rating \<Rightarrow> 'e st \<Rightarrow> (int \<times> rating \<times> 'e st) option" where
  "f_free_billsec_bal_query_2 pre = fb_query
     (''select sum(free_billsec) as sum from free_billsec_balance '' @
      ''where balance_id = '' @ dec_int (pre_bal_id pre) @ '' and free_billsec_id = '' @
      dec_int (pre_free_billsec_id pre) @ '' '')
     (\<lambda>v p. p\<lparr>pre_free_billsec_sum := v\<rparr>) pre"

definition f_free_bal_id_query :: "rating \<Rightarrow> 'e st \<Rightarrow> (int \<times> rating \<times> 'e st) option" where
  "f_free_bal_id_query pre = fb_query
     (''select id from free_billsec_balance where balance_id = '' @ dec_int (pre_bal_id pre) @
      '' and free_billsec_id = '' @ dec_int (pre_free_billsec_id pre))
     (\<lambda>v p. p\<lparr>pre_free_id := v\<rparr>) pre"

definition create_free_billsec_balance :: "rating \<Rightarrow> 'e st \<Rightarrow> (int \<times> rating \<times> 'e st) option" where
  "create_free_billsec_balance pre s =
     (if st_db s = None then Some (-1, pre, s)
      else if st_type s \<noteq> sql then Some (-3, pre, s)
      else if no_api s then Some (-2, pre, s)
      else f_free_bal_id_query pre (s\<lparr>st_db := snd (db_insert (st_db s)
        (''insert into free_billsec_balance (balance_id,free_billsec_id,free_billsec) values ('' @
         dec_int (pre_bal_id pre) @ '','' @ dec_int (pre_free_billsec_id pre) @ '','' @
         dec_int (pre_free_billsec pre) @ '')''))\<rparr>))"

definition update_free_billsec_balance :: "rating \<Rightarrow> 'e st \<Rightarrow> int \<times> 'e st" where
  "update_free_billsec_balance pre s =
     (if st_db s = None then (-1, s)
      else if 0 < pre_bal_id pre \<and> 0 < pre_tariff_id pre then
        if st_type s \<noteq> sql then (-3, s)
        else if no_api s then (-2, s)
        else (0, s\<lparr>st_db := snd (db_update (st_db s)
          (''update free_billsec_balance set free_billsec = '' @ dec_int (pre_free_billsec pre) @
           '',last_update = now() where balance_id = '' @ dec_int (pre_bal_id pre) @
           '' and free_billsec_id = '' @ dec_int (pre_free_billsec_id pre)))\<rparr>)
      else (0, s))"

definition free_billsec_sms_balance ::
  "racc \<Rightarrow> string \<Rightarrow> string \<Rightarrow> 'e st \<Rightarrow> (int \<times> racc \<times> 'e st) option" where
  "free_billsec_sms_balance rtp time1 time2 s = do {
     (ret, pre, s1) \<leftarrow> fb_query
       (''select count(*) as cnt from rating rt where rt.billing_account_id = '' @ fmt_u (ba_id (ra_bacc rtp)) @
        '' and rt.call_ts >= '' @ quoted time1 @ '' and rt.call_ts <= '' @ quoted time2 @
        '' and rt.call_price < 0 and rt.free_billsec_id = '' @ dec_int (pre_free_billsec_id (ra_pre rtp)))
       (\<lambda>v p. p\<lparr>pre_free_billsec := v\<rparr>) (ra_pre rtp) s;
     Some (ret, rtp\<lparr>ra_pre := pre\<rparr>, s1)
   }"

definition free_billsec_balance_v2 ::
  "racc \<Rightarrow> string \<Rightarrow> string \<Rightarrow> 'e st \<Rightarrow> (int \<times> racc \<times> 'e st) option" where
  "free_billsec_balance_v2 rtp time1 time2 s = do {
     (ret, pre, s1) \<leftarrow> fb_query
       (''select sum(rt.call_billsec) from rating rt where rt.billing_account_id = '' @ fmt_u (ba_id (ra_bacc rtp)) @
        '' and rt.call_ts >= '' @ quoted time1 @ '' and rt.call_ts <= '' @ quoted time2 @
        '' and rt.call_price < 0 and rt.free_billsec_id = '' @ dec_int (pre_free_billsec_id (ra_pre rtp)))
       (\<lambda>v p. p\<lparr>pre_free_billsec := v\<rparr>) (ra_pre rtp) s;
     Some (ret, rtp\<lparr>ra_pre := pre\<rparr>, s1)
   }"

definition free_billsec_exec ::
  "racc \<Rightarrow> string \<Rightarrow> string \<Rightarrow> 'e st \<Rightarrow> (int \<times> racc \<times> 'e st) option" where
  "free_billsec_exec rtp start end s = do {
     (r1, rtp1, s1) \<leftarrow> free_billsec_balance_v2 rtp start end s;
     if r1 < 0 then Some (RE_ERROR, rtp1, s1)
     else do {
       (r2, pre2, s2) \<leftarrow> f_free_bal_id_query (ra_pre rtp1) s1;
       if r2 < 0 then Some (RE_ERROR, rtp1\<lparr>ra_pre := pre2\<rparr>, s2)
       else do {
         (r3, pre3, s3) \<leftarrow>
           (if 0 < pre_free_id pre2 then let (r, s') = update_free_billsec_balance pre2 s2 in Some (r, pre2, s')
            else create_free_billsec_balance pre2 s2);
         if r3 < 0 then Some (RE_ERROR, rtp1\<lparr>ra_pre := pre3\<rparr>, s3)
         else do {
           (r4, pre4, s4) \<leftarrow> f_free_billsec_bal_query_2 pre3 s3;
           Some (if r4 < 0 then RE_ERROR else RE_SUCCESS, rtp1\<lparr>ra_pre := pre4\<rparr>, s4)
         }
       }
     }
   }"

section \<open>The options of a tariff, \<open>rating.c\<close>\<close>

definition tr_opt_tc :: "rt_env \<Rightarrow> rating \<Rightarrow> 'e st \<Rightarrow> (rating \<times> 'e st) option" where
  "tr_opt_tc env pre s = do {
     (_, pre1, s1) \<leftarrow> f_time_cond_query_v2 pre s;
     (hit, pre2) \<leftarrow> tc_ts_cmp (ev_localtime env) pre1;
     Some ((if hit = 0 then pre2\<lparr>pre_tariff_id := 0\<rparr> else pre2)\<lparr>pre_tc := None\<rparr>, s1)
   }"

definition rt_chk_tr_opt :: "rt_env \<Rightarrow> rating \<Rightarrow> 'e st \<Rightarrow> (rating \<times> 'e st) option" where
  "rt_chk_tr_opt env pre s = do {
     let tid = word_of_int (pre_tariff_id pre);
     let (seen, cache1) = rt_cache_tc_get (ev_now env) tid (st_cache s);
     let s0 = s\<lparr>st_cache := cache1\<rparr>;
     (has_tc, s1) \<leftarrow> (case seen of
         Some h \<Rightarrow> Some (h, s0)
       | None \<Rightarrow> do {
           (h, s') \<leftarrow> f_time_cond_query_id env pre s0;
           Some (h, s'\<lparr>st_cache := rt_cache_tc_put (ev_now env) tid h (st_cache s')\<rparr>)
         });
     (pre2, s2) \<leftarrow> (if has_tc \<noteq> 0 then tr_opt_tc env pre s1 else Some (pre, s1));
     let tid2 = word_of_int (pre_tariff_id pre2);
     let (limit, cache2) = rt_cache_fbs_get (ev_now env) tid2 (st_cache s2);
     let s3 = s2\<lparr>st_cache := cache2\<rparr>;
     (case limit of
         Some l \<Rightarrow> Some (pre2\<lparr>pre_free_billsec_limit := l\<rparr>, s3)
       | None \<Rightarrow> do {
           (_, pre3, s4) \<leftarrow> f_free_billsec_query pre2 s3;
           Some (pre3, s4\<lparr>st_cache := rt_cache_fbs_put (ev_now env) tid2 (pre_free_billsec_limit pre3) (st_cache s4)\<rparr>)
         })
   }"

section \<open>The search for a rate\<close>

text \<open>The rates array ends at \<open>tariff_id = 0\<close>.\<close>

fun prefix_loop :: "rt_env \<Rightarrow> rate list \<Rightarrow> racc \<Rightarrow> 'e st \<Rightarrow> (racc \<times> 'e st) option" where
  "prefix_loop env [] rtp s = Some (rtp, s)"
| "prefix_loop env (rt # rts) rtp s =
     (let pre = ra_pre rtp in
      if rt_tariff_id rt = 0 then Some (rtp, s)
      else if rt_data_q_chk_rate_periods (sint (rt_start_period rt)) (sint (rt_end_period rt)) (pre_ts pre) = 0
      then prefix_loop env rts rtp s
      else if rt_prefix rt = ''&'' \<or> strncmp (pre_cld pre) (rt_prefix rt) (length (rt_prefix rt)) = 0 then do {
        (pre1, s1) \<leftarrow> rt_chk_tr_opt env
          (pre\<lparr>pre_tariff_id := sint (rt_tariff_id rt), pre_rate_id := sint (rt_id rt),
               pre_prefix_id := sint (rt_prefix_id rt), pre_free_billsec_id := sint (rt_free_billsec_id rt)\<rparr>) s;
        if pre_tariff_id pre1 \<noteq> 0 then do {
          (_, rtp2, s2) \<leftarrow> rt_data_q_tariff_sql env (rtp\<lparr>ra_pre := pre1\<rparr>) s1;
          Some (rtp2, s2)
        } else prefix_loop env rts (rtp\<lparr>ra_pre := pre1\<rparr>) s1
      } else prefix_loop env rts rtp s)"

definition rt_data_q_prefix_sql :: "rt_env \<Rightarrow> racc \<Rightarrow> 'e st \<Rightarrow> (racc \<times> 'e st) option" where
  "rt_data_q_prefix_sql env rtp s = (case bp_rates (ra_bplan rtp) of
     None \<Rightarrow> Some (rtp, s)
   | Some rts \<Rightarrow> prefix_loop env rts rtp s)"

definition rt_data_q_rate :: "rt_env \<Rightarrow> racc \<Rightarrow> 'e st \<Rightarrow> (int \<times> racc \<times> 'e st) option" where
  "rt_data_q_rate env rtp s =
     (if st_db s = None then Some (DB_ERR_DBP_NUL, rtp, s)
      else if st_type s = sql then do {
        (ret, rtp1, s1) \<leftarrow> rt_data_q_rate_sql env rtp s;
        if ret = 0 then do {
          (rtp2, s2) \<leftarrow> rt_data_q_prefix_sql env rtp1 s1;
          Some (ret, rtp2, s2)
        } else Some (ret, rtp1, s1)
      } else if st_type s = nosql then Some (ev_junk env ''ret'', rtp, s)
      else Some (DB_ERR_TYPE_UNK, rtp, s))"

section \<open>The NoSQL branch\<close>

definition rate0 :: rate where
  "rate0 = \<lparr>rt_id = 0, rt_prefix_id = 0, rt_prefix = [], rt_tariff_id = 0, rt_tariff_name = [],
     rt_start_period = 0, rt_end_period = 0, rt_free_billsec_id = 0, rt_calc_funcs = None\<rparr>"

definition rt_data_q_rate_nosql :: "rt_env \<Rightarrow> racc \<Rightarrow> string \<Rightarrow> 'e st \<Rightarrow> (int \<times> racc \<times> 'e st) option" where
  "rt_data_q_rate_nosql env rtp search s = do {
     (ret, msg, s1) \<leftarrow> q_get (''get rate_'' @ bp_name (ra_bplan rtp) @ ''_'' @ search) s;
     Some (ret, set_rates (Some [case msg of None \<Rightarrow> rate0 | Some m \<Rightarrow> js_rate_get env m rate0]) rtp, s1)
   }"

definition rt_data_q_tariff_nosql :: "rt_env \<Rightarrow> racc \<Rightarrow> 'e st \<Rightarrow> (int \<times> racc \<times> 'e st) option" where
  "rt_data_q_tariff_nosql env rtp s = (case bp_rates (ra_bplan rtp) of
     None \<Rightarrow> Some (-4, rtp, s)
   | Some [] \<Rightarrow> None
   | Some (r # rs) \<Rightarrow> do {
       (ret, msg, s1) \<leftarrow> q_get (''get tariff_'' @ rt_tariff_name r) s;
       Some (ret, case msg of None \<Rightarrow> rtp
                  | Some m \<Rightarrow> set_rates (Some (js_tariff_get env m r # rs)) rtp, s1)
     })"

text \<open>The number is shortened from the right until a rate is found.\<close>

fun prefix_nosql_loop :: "rt_env \<Rightarrow> nat \<Rightarrow> string \<Rightarrow> racc \<Rightarrow> 'e st \<Rightarrow> (racc \<times> 'e st) option" where
  "prefix_nosql_loop env n dst rtp s = do {
     (ret, rtp1, s1) \<leftarrow> rt_data_q_rate_nosql env rtp dst s;
     if ret < 0 then
       (case n of 0 \<Rightarrow> Some (rtp1, s1)
        | Suc m \<Rightarrow> prefix_nosql_loop env m (take m dst) rtp1 s1)
     else do {
       (_, rtp2, s2) \<leftarrow> rt_data_q_tariff_nosql env rtp1 s1;
       Some (rtp2, s2)
     }
   }"

declare prefix_nosql_loop.simps [simp del]

definition rt_data_q_prefix_nosql :: "rt_env \<Rightarrow> racc \<Rightarrow> 'e st \<Rightarrow> (racc \<times> 'e st) option" where
  "rt_data_q_prefix_nosql env rtp s =
     (let cld = pre_cld (ra_pre rtp) in prefix_nosql_loop env (length cld) cld rtp s)"

text \<open>A document that does not parse frees the account; the caller goes on with the freed
  pointer, which is undefined behaviour.\<close>

definition rt_data_q_racc_nosql :: "rt_env \<Rightarrow> racc \<Rightarrow> 'e st \<Rightarrow> (racc \<times> 'e st) option" where
  "rt_data_q_racc_nosql env rtp s = (let pre = ra_pre rtp; rtm = ra_rtm rtp;
     q = (if rtm = rt_mode_clg then Some (''racc_clg_'' @ pre_clg pre)
          else if rtm = rt_mode_acode then Some (''racc_acode_'' @ pre_account_code pre)
          else if rtm = rt_mode_srcc then Some (''racc_srcc_'' @ pre_src_context pre)
          else if rtm = rt_mode_dstc then Some (''racc_dstc_'' @ pre_dst_context pre)
          else if rtm = rt_mode_srctg then Some (''racc_srctg_'' @ pre_src_tgroup pre)
          else if rtm = rt_mode_dsttg then Some (''racc_dsttg_'' @ pre_dst_tgroup pre)
          else None)
     in (case q of
           None \<Rightarrow> Some (rtp, s)
         | Some key \<Rightarrow> do {
             (ret, msg, s1) \<leftarrow> q_get (''get '' @ key) s;
             case msg of
               None \<Rightarrow> Some (rtp, s1)
             | Some m \<Rightarrow> let (r, rtp') = js_racc_get env m rtp
                         in if r < 0 then None else Some (rtp', s1)
           }))"

definition rt_data_q_bacc_nosql :: "rt_env \<Rightarrow> racc \<Rightarrow> 'e st \<Rightarrow> (racc \<times> 'e st) option" where
  "rt_data_q_bacc_nosql env rtp s = do {
     (ret, msg, s1) \<leftarrow> q_get (''get bacc_'' @ ba_username (ra_bacc rtp)) s;
     Some (case msg of None \<Rightarrow> rtp | Some m \<Rightarrow> rtp\<lparr>ra_bacc := js_bacc_get env m (ra_bacc rtp)\<rparr>, s1)
   }"

definition rt_data_q_bplan_nosql :: "rt_env \<Rightarrow> racc \<Rightarrow> 'e st \<Rightarrow> (racc \<times> 'e st) option" where
  "rt_data_q_bplan_nosql env rtp s = do {
     (ret, msg, s1) \<leftarrow> q_get (''get bplan_'' @ bp_name (ra_bplan rtp)) s;
     Some (case msg of None \<Rightarrow> rtp | Some m \<Rightarrow> rtp\<lparr>ra_bplan := js_bplan_get env m (ra_bplan rtp)\<rparr>, s1)
   }"

text \<open>\<open>rt_data_q_racc\<close>: NULL on an SQL error, and always for a NoSQL database, whose branch
  falls through to the label \<open>error\<close>.\<close>

definition rt_data_q_racc :: "rt_env \<Rightarrow> rating \<Rightarrow> 'e st \<Rightarrow> (racc option \<times> 'e st) option" where
  "rt_data_q_racc env pre s =
     (if st_db s = None then Some (None, s)
      else
        let r0 = rt_data_racc_init pre;
            rtp = r0\<lparr>ra_rtm := pre_rating_mode_id pre,
                     ra_bacc := (ra_bacc r0)\<lparr>ba_cdr_server_id := word_of_int (pre_cdr_server_id pre)\<rparr>\<rparr>
        in if st_type s = sql then do {
             (ret, rtp1, s1) \<leftarrow> rt_data_q_racc_sql env rtp s;
             Some (if ret < 0 then None else Some rtp1, s1)
           } else if st_type s = nosql then do {
             (rtp1, s1) \<leftarrow> rt_data_q_racc_nosql env rtp s;
             (rtp2, s2) \<leftarrow> rt_data_q_bacc_nosql env rtp1 s1;
             (_, s3) \<leftarrow> rt_data_q_bplan_nosql env rtp2 s2;
             Some (None, s3)
           } else Some (None, s))"

end
