(* ===== verification/Rating.thy ===== *)
theory Rating
  imports RtStore
begin

text \<open>
  The rating of one call and of one batch: \<open>rating.c\<close> (with the mutex sections as plain calls)
  and the online duration limit of \<open>rt_maxsec.c\<close>. The state is the one of the queries; the
  account \<open>rtp\<close> carries the call as \<open>ra_pre\<close>, as the C structs alias it, so that what happens
  to the call is read from the account that is returned.
\<close>

section \<open>Periods and balance\<close>

text \<open>The periods are unsigned, so the comparisons convert \<open>ts\<close>.\<close>

definition rt_chk_bplan_periods :: "bplan \<Rightarrow> int \<Rightarrow> bplan" where
  "rt_chk_bplan_periods bpt ts =
     (if bp_start_period bpt \<noteq> 0 then
        if bp_start_period bpt \<le> word_of_int ts then
          if bp_end_period bpt \<noteq> 0 then
            if word_of_int ts \<le> bp_end_period bpt then bpt else bpt\<lparr>bp_id := 0\<rparr>
          else bpt
        else bpt\<lparr>bp_id := 0\<rparr>
      else bpt)"

definition add_cprice :: "rt_env \<Rightarrow> racc \<Rightarrow> racc" where
  "add_cprice env r =
     r\<lparr>ra_bal := (ra_bal r)\<lparr>bl_amount := dadd (ev_fp env) (bl_amount (ra_bal r)) (pre_cprice (ra_pre r))\<rparr>\<rparr>"

definition rt_balance_exec ::
  "rt_env \<Rightarrow> racc \<Rightarrow> string \<Rightarrow> string \<Rightarrow> 'e st \<Rightarrow> (racc \<times> 'e st) option" where
  "rt_balance_exec env rtp start end s =
     (if st_db s = None then Some (rtp, s)
      else if 0 < bl_id (ra_bal rtp) then
        let rtp1 = add_cprice env rtp; (_, s1) = rt_data_q_bal_add env rtp1 start end s
        in Some (rtp1, s1)
      else do {
        (ret, rtp1, s1) \<leftarrow> rt_data_q_bal env rtp start end s;
        if ret = 0 then
          let rtp2 = add_cprice env rtp1; (_, s2) = rt_data_q_bal_add env rtp2 start end s1
          in Some (rtp2, s2)
        else Some (rtp1, s1)
      })"

section \<open>Before rating: the card\<close>

text \<open>\<open>None\<close> when the card is not to be blocked; otherwise the function blocks it.\<close>

definition day_of_payment_reached :: "int \<Rightarrow> int \<Rightarrow> int \<Rightarrow> bool" where
  "day_of_payment_reached day bday pp \<longleftrightarrow>
     0 < pp \<and> (if pp < bday then day < bday \<and> pp \<le> day else pp \<le> day)"

definition rt_prerating_process :: "rt_env \<Rightarrow> racc \<Rightarrow> 'e st \<Rightarrow> (int \<times> racc \<times> 'e st) option" where
  "rt_prerating_process env rtp s =
     (if st_db s = None then Some (DB_ERR_DBP_NUL, rtp, s)
      else do {
        let pre = ra_pre rtp;
        let btp = ra_bacc rtp;
        card \<leftarrow> ba_pcard btp;
        let online_rating = (pre_epoch pre = 0);
        let tt = (if online_rating then pre_ts pre else pre_epoch pre);
        (blocked, s1) \<leftarrow>
          (if pc_id card \<noteq> 0 \<and> online_rating then do {
             (bal_num, s0) \<leftarrow> rt_data_q_bal_count (Some rtp) (CHR ''t'') s;
             if 1 < bal_num then do {
               let day = tm_mday (ev_localtime env tt);
               bday \<leftarrow> (if ba_billing_day btp = 0 then atoi (ev_billing_day env) else Some (uint (ba_billing_day btp)));
               if uint (ev_bal_num env) < bal_num \<or>
                  day_of_payment_reached day bday (uint (ba_day_of_payment btp))
               then do { (_, s') \<leftarrow> rt_data_q_pcard_set env btp pcard_block s0; Some (True, s') }
               else Some (False, s0)
             } else Some (False, s0)
           } else Some (False, s));
        if blocked then Some (RE_ERROR, rtp, s1)
        else if pc_start card \<noteq> [] \<and> pc_end card \<noteq> [] then do {
          v1 \<leftarrow> check_date_valid (pc_start card);
          v2 \<leftarrow> (if v1 = 0 then Some 0 else check_date_valid (pc_end card));
          if v2 = 0 then do {
            (_, s2) \<leftarrow> rt_data_q_pcard_set env btp pcard_block s1;
            Some (RE_ERROR, rtp, s2)
          } else do {
            (_, rtp2, s2) \<leftarrow> rt_data_q_bal env rtp (pc_start card) (pc_end card) s1;
            if pre_free_billsec_limit (ra_pre rtp2) \<noteq> 0 then do {
              (_, rtp3, s3) \<leftarrow> free_billsec_balance_v2 rtp2 (pc_start card) (pc_end card) s2;
              (_, pre4, s4) \<leftarrow> f_free_billsec_bal_query_2 (ra_pre rtp3) s3;
              Some (RE_SUCCESS, rtp3\<lparr>ra_pre := pre4\<rparr>, s4)
            } else Some (RE_SUCCESS, rtp2, s2)
          }
        } else Some (RE_ERROR, rtp, s1)
      })"

definition rt_rate_searching :: "rt_env \<Rightarrow> racc \<Rightarrow> 'e st \<Rightarrow> (racc \<times> 'e st) option" where
  "rt_rate_searching env rtp s =
     (if st_db s = None then Some (rtp, s)
      else do {
        (_, rtp1, s1) \<leftarrow> rt_data_q_rate env rtp s;
        if bp_rates (ra_bplan rtp1) = None then Some (rtp1, s1)
        else if ba_pcard (ra_bacc rtp1) \<noteq> None then do {
          (_, rtp2, s2) \<leftarrow> rt_prerating_process env rtp1 s1;
          Some (rtp2, s2)
        } else Some (rtp1, s1)
      })"

section \<open>Rating one call\<close>

definition rt_cdr_to_rating :: "rt_env \<Rightarrow> cdr \<Rightarrow> rating \<Rightarrow> rating" where
  "rt_cdr_to_rating env c pre =
     (let tmp_ts = sint (word_of_int (convert_ts_to_epoch (ev_mktime env) (cdr_start_ts c)) :: u32) in
      pre\<lparr>pre_cdr_server_id := uint (cdr_cdr_server_id c), pre_call_uid := cdr_call_uid c,
        pre_clg := cdr_calling_number c, pre_cld := cdr_called_number c,
        pre_billsec := sint (cdr_billsec c), pre_cdr_id := sint (cdr_id c),
        pre_timestamp := cdr_start_ts c, pre_dow := get_weekday_from_epoch (ev_localtime env) tmp_ts,
        pre_ts := sint (cdr_start_epoch c), pre_account_code := cdr_account_code c,
        pre_src_context := cdr_src_context c, pre_dst_context := cdr_dst_context c,
        pre_src_tgroup := cdr_src_tgroup c, pre_dst_tgroup := cdr_dst_tgroup c,
        pre_epoch := tmp_ts, pre_clg_nadi := uint (cdr_clg_nadi c), pre_cld_nadi := uint (cdr_cld_nadi c),
        pre_billusec := uint (cdr_billusec c)\<rparr>)"

definition rt_rating_save :: "rt_env \<Rightarrow> racc \<Rightarrow> 'e st \<Rightarrow> (racc \<times> 'e st) option" where
  "rt_rating_save env rtp s =
     (if 0 < pre_cdr_id (ra_pre rtp) then do {
        (_, rtp1, s1) \<leftarrow> rt_data_q_rating_add env rtp s;
        Some (rtp1, s1)
      } else Some (rtp, s))"

text \<open>From label \<open>no_free_billsec\<close> on.\<close>

definition double_rating_rest :: "rt_env \<Rightarrow> racc \<Rightarrow> 'e st \<Rightarrow> (int \<times> racc \<times> 'e st) option" where
  "double_rating_rest env rtp s = do {
     (ret_2, rtp1) \<leftarrow> calc_cprice_group (ev_fp env) rtp;
     if ret_2 = 0 \<or> ret_2 = 1 then do {
       (rtp2, s2) \<leftarrow> rt_rating_save env rtp1 s;
       Some (0, rtp2, s2)
     } else Some (-1, rtp1, s)
   }"

definition rt_double_rating :: "rt_env \<Rightarrow> racc \<Rightarrow> 'e st \<Rightarrow> (int \<times> racc \<times> 'e st) option" where
  "rt_double_rating env rtp s = do {
     let pre = ra_pre rtp;
     let card = ba_pcard (ra_bacc rtp);
     let old_billsec = pre_billsec pre;
     free_sec \<leftarrow> csub (pre_free_billsec_limit pre) (pre_free_billsec_sum pre);
     if \<not> 0 < free_sec then double_rating_rest env rtp s
     else do {
       no_free_sec \<leftarrow> csub old_billsec free_sec;
       (ret_1, rtp1) \<leftarrow> calc_cprice_group (ev_fp env) (upd_pre (\<lambda>p. p\<lparr>pre_billsec := free_sec\<rparr>) rtp);
       if ret_1 = 1 then
         double_rating_rest env (upd_pre (\<lambda>p. p\<lparr>pre_billsec := old_billsec\<rparr>) rtp1) s
       else if ret_1 \<noteq> 0 then Some (-1, rtp1, s)
       else do {
         (rtp2, s2) \<leftarrow> rt_rating_save env rtp1 s;
         let rtp3 = upd_pre (\<lambda>p. p\<lparr>pre_billsec := no_free_sec\<rparr>) rtp2;
         (case card of
            Some c \<Rightarrow>
              if pc_start c \<noteq> [] \<and> pc_end c \<noteq> [] then do {
                (rtp4, s4) \<leftarrow> rt_balance_exec env rtp3 (pc_start c) (pc_end c) s2;
                if pre_free_billsec_limit (ra_pre rtp4) \<noteq> 0 then do {
                  (_, rtp5, s5) \<leftarrow> free_billsec_exec rtp4 (pc_start c) (pc_end c) s4;
                  double_rating_rest env rtp5 s5
                } else double_rating_rest env rtp4 s4
              } else double_rating_rest env rtp3 s2
          | None \<Rightarrow> double_rating_rest env rtp3 s2)
       }
     }
   }"

text \<open>The rounding of the microseconds, when the account has a mode.\<close>

definition exec_round :: "rt_env \<Rightarrow> racc \<Rightarrow> racc option" where
  "exec_round env rtp = do {
     billsec_temp \<leftarrow>
       (if ba_round_mode_id (ra_bacc rtp) \<noteq> 0
        then round_billsec (ev_fp env) (sint (ba_round_mode_id (ra_bacc rtp))) (pre_billusec (ra_pre rtp))
        else Some 0);
     Some (if billsec_temp \<noteq> 0 then upd_pre (\<lambda>p. p\<lparr>pre_billsec := billsec_temp\<rparr>) rtp else rtp)
   }"

text \<open>The part of \<open>rt_exec\<close> up to the log message: search, round, price, store.\<close>

definition rt_exec_price :: "rt_env \<Rightarrow> racc \<Rightarrow> 'e st \<Rightarrow> (racc \<times> 'e st) option" where
  "rt_exec_price env rtp s =
     (let fail = upd_pre (\<lambda>p. p\<lparr>pre_rating_id := -1\<rparr>) in
      if ra_rtm rtp = 0 then Some (fail rtp, s)
      else do {
        let card = ba_pcard (ra_bacc rtp);
        (rtp1, s1) \<leftarrow> rt_rate_searching env rtp s;
        (case racc_calc_funcs rtp1 of
           Some (Some cs) \<Rightarrow> do {
             rtp2 \<leftarrow> exec_round env rtp1;
             (rtp3, s3) \<leftarrow>
               (case card of
                  Some c \<Rightarrow>
                    if ra_rtm rtp2 = rt_mode_sms \<and> 0 < pre_free_billsec_id (ra_pre rtp2) then do {
                      (_, r', s') \<leftarrow> free_billsec_sms_balance rtp2 (pc_start c) (pc_end c) s1;
                      Some (r', s')
                    } else Some (rtp2, s1)
                | None \<Rightarrow> Some (rtp2, s1));
             (ret, rtp4) \<leftarrow> calc_cprice_group (ev_fp env) rtp3;
             (if ret = 0 then rt_rating_save env rtp4 s3
              else if ret = -1 then Some (fail rtp4, s3)
              else if ret = 1 then do {
                (ret2, rtp5, s5) \<leftarrow> rt_double_rating env rtp4 s3;
                Some (if ret2 = -1 then fail rtp5 else rtp5, s5)
              } else Some (rtp4, s3))
           }
         | _ \<Rightarrow> Some (fail rtp1, s1))
      })"

text \<open>\<open>cdrm_api->update_cdr\<close> is \<open>cdr_update_cdr\<close>.\<close>

definition update_cdr :: "int \<Rightarrow> rating \<Rightarrow> char \<Rightarrow> 'e st \<Rightarrow> 'e st option" where
  "update_cdr rating_id pre leg s = do {
     p \<leftarrow> cdr_update_cdr rating_id (pre_cdr_id pre) leg (pre_call_uid pre) (st_db s);
     Some (s\<lparr>st_db := p\<rparr>)
   }"

definition rt_exec :: "rt_env \<Rightarrow> racc \<Rightarrow> char \<Rightarrow> 'e st \<Rightarrow> (racc \<times> 'e st) option" where
  "rt_exec env rtp leg s = do {
     let card = (if ra_rtm rtp = 0 then None else ba_pcard (ra_bacc rtp));
     let rtp0 = rtp\<lparr>ra_bplan := rt_chk_bplan_periods (ra_bplan rtp) (pre_ts (ra_pre rtp))\<rparr>;
     (rtp1, s1) \<leftarrow> rt_exec_price env rtp0 s;
     let pre = ra_pre rtp1;
     if pre_rating_id pre = 0 then do {
       s2 \<leftarrow> update_cdr (-1) pre leg s1;
       Some (rtp1, s2)
     } else do {
       s2 \<leftarrow> update_cdr (pre_rating_id pre) pre leg s1;
       (case card of
          Some c \<Rightarrow>
            if 0 < pre_rating_id pre then do {
              (rtp3, s3) \<leftarrow> rt_balance_exec env rtp1 (pc_start c) (pc_end c) s2;
              if pre_free_billsec_limit (ra_pre rtp3) \<noteq> 0 \<and> pre_rating_mode_id (ra_pre rtp3) < rt_mode_sms then do {
                (_, rtp4, s4) \<leftarrow> free_billsec_exec rtp3 (pc_start c) (pc_end c) s3;
                Some (rtp4, s4)
              } else Some (rtp3, s3)
            } else Some (rtp1, s2)
        | None \<Rightarrow> Some (rtp1, s2))
     }
   }"

section \<open>Finding the account\<close>

text \<open>Each function sets the rating mode and asks; the call is returned too, because it keeps the
  last mode when no account is found.\<close>

definition try_mode :: "rt_env \<Rightarrow> int \<Rightarrow> rating \<Rightarrow> 'e st \<Rightarrow> (racc option \<times> rating \<times> 'e st) option" where
  "try_mode env mode pre s = do {
     let pre1 = pre\<lparr>pre_rating_mode_id := mode\<rparr>;
     (r, s1) \<leftarrow> rt_data_q_racc env pre1 s;
     Some (r, pre1, s1)
   }"

fun try_modes :: "rt_env \<Rightarrow> int list \<Rightarrow> rating \<Rightarrow> 'e st \<Rightarrow> (racc option \<times> rating \<times> 'e st) option" where
  "try_modes env [] pre s = Some (None, pre, s)"
| "try_modes env (m # ms) pre s = do {
     (r, pre1, s1) \<leftarrow> try_mode env m pre s;
     if r = None then try_modes env ms pre1 s1 else Some (r, pre1, s1)
   }"

definition rt_racc_voip_av_a :: "rt_env \<Rightarrow> rating \<Rightarrow> 'e st \<Rightarrow> (racc option \<times> rating \<times> 'e st) option" where
  "rt_racc_voip_av_a env = try_modes env [rt_mode_clg, rt_mode_acode]"

definition rt_racc_voip_t_a :: "rt_env \<Rightarrow> rating \<Rightarrow> 'e st \<Rightarrow> (racc option \<times> rating \<times> 'e st) option" where
  "rt_racc_voip_t_a env = try_modes env [rt_mode_acode, rt_mode_srcc]"

definition rt_racc_voip_t_b :: "rt_env \<Rightarrow> rating \<Rightarrow> 'e st \<Rightarrow> (racc option \<times> rating \<times> 'e st) option" where
  "rt_racc_voip_t_b env = try_mode env rt_mode_dstc"

definition rt_racc_isup_a :: "rt_env \<Rightarrow> rating \<Rightarrow> 'e st \<Rightarrow> (racc option \<times> rating \<times> 'e st) option" where
  "rt_racc_isup_a env = try_mode env rt_mode_srctg"

definition rt_racc_isup_b :: "rt_env \<Rightarrow> rating \<Rightarrow> 'e st \<Rightarrow> (racc option \<times> rating \<times> 'e st) option" where
  "rt_racc_isup_b env = try_mode env rt_mode_dsttg"

definition rt_racc_sms_a :: "rt_env \<Rightarrow> rating \<Rightarrow> 'e st \<Rightarrow> (racc option \<times> rating \<times> 'e st) option" where
  "rt_racc_sms_a env = try_mode env rt_mode_sms"

definition rt_racc_sms_b :: "rt_env \<Rightarrow> rating \<Rightarrow> 'e st \<Rightarrow> (racc option \<times> rating \<times> 'e st) option" where
  "rt_racc_sms_b env = try_mode env rt_mode_sms"

definition rt_racc_unkn_a :: "rt_env \<Rightarrow> rating \<Rightarrow> 'e st \<Rightarrow> (racc option \<times> rating \<times> 'e st) option" where
  "rt_racc_unkn_a env = try_modes env [rt_mode_clg, rt_mode_acode, rt_mode_srcc, rt_mode_srctg]"

definition rt_racc_unkn_b :: "rt_env \<Rightarrow> rating \<Rightarrow> 'e st \<Rightarrow> (racc option \<times> rating \<times> 'e st) option" where
  "rt_racc_unkn_b env pre =
     try_modes env ((if pre_dst_context pre \<noteq> [] then [rt_mode_dstc] else []) @
                    (if pre_dst_tgroup pre \<noteq> [] then [rt_mode_dsttg] else [])) pre"

text \<open>The record types, \<open>enum cdr_rec_type\<close>.\<close>

abbreviation (input) unkn :: int where "unkn \<equiv> 0"
abbreviation (input) isup :: int where "isup \<equiv> 1"
abbreviation (input) sms :: int where "sms \<equiv> 2"
abbreviation (input) voip_a :: int where "voip_a \<equiv> 3"
abbreviation (input) voip_v :: int where "voip_v \<equiv> 4"
abbreviation (input) voip_t :: int where "voip_t \<equiv> 5"

definition find_racc :: "rt_env \<Rightarrow> char \<Rightarrow> int \<Rightarrow> rating \<Rightarrow> 'e st \<Rightarrow> (racc option \<times> rating \<times> 'e st) option" where
  "find_racc env leg t pre s =
     (if leg = CHR ''a'' then
        if t = unkn then rt_racc_unkn_a env pre s
        else if t = isup then rt_racc_isup_a env pre s
        else if t = voip_a then rt_racc_voip_av_a env pre s
        else if t = voip_t then rt_racc_voip_t_a env pre s
        else if t = sms then rt_racc_sms_a env pre s
        else Some (None, pre, s)
      else if leg = CHR ''b'' then
        if t = unkn then rt_racc_unkn_b env pre s
        else if t = isup then rt_racc_isup_b env pre s
        else if t = voip_a then rt_racc_voip_av_a env pre s
        else if t = voip_t then rt_racc_voip_t_b env pre s
        else if t = sms then rt_racc_sms_b env pre s
        else Some (None, pre, s)
      else Some (None, pre, s))"

definition rt_main :: "rt_env \<Rightarrow> rating \<Rightarrow> char \<Rightarrow> int \<Rightarrow> 'e st \<Rightarrow> (rating \<times> 'e st) option" where
  "rt_main env pre leg t s = do {
     (r, pre1, s1) \<leftarrow> find_racc env leg t (pre\<lparr>pre_rating_mode_id := 0\<rparr>) s;
     (case r of
        None \<Rightarrow> Some (pre1, s1)
      | Some rtp \<Rightarrow> do {
          (rtp1, s2) \<leftarrow>
            (if ba_id (ra_bacc rtp) \<noteq> 0 \<or> ba_username (ra_bacc rtp) \<noteq> []
             then pcard_manager env rtp s1 else Some (rtp, s1));
          (rtp2, s3) \<leftarrow> rt_exec env rtp1 leg s2;
          Some (ra_pre rtp2, s3)
        })
   }"

section \<open>One batch\<close>

text \<open>The worker runs over its part of the records and counts the rated ones.\<close>

fun rt_worker_func :: "rt_env \<Rightarrow> char \<Rightarrow> cdr list \<Rightarrow> nat \<times> nat \<Rightarrow> 'e st \<Rightarrow> ((nat \<times> nat) \<times> 'e st) option" where
  "rt_worker_func env leg [] n s = Some (n, s)"
| "rt_worker_func env leg (c # cs) (ok, err) s = do {
     (pre, s1) \<leftarrow> rt_main env (rt_cdr_to_rating env c rating0) leg (uint (cdr_cdr_rec_type_id c)) s;
     rt_worker_func env leg cs (if 0 < pre_rating_id pre then (Suc ok, err) else (ok, Suc err)) s1
   }"

text \<open>The part of worker \<open>t\<close>: its first index and its number of records.\<close>

definition worker_part :: "nat \<Rightarrow> nat \<Rightarrow> nat \<Rightarrow> nat \<times> nat" where
  "worker_part pp num_threads t = (let
     per_thread = pp div num_threads;
     remainder = pp mod num_threads
   in (t * per_thread + (if t < remainder then t else remainder),
       per_thread + (if t < remainder then 1 else 0)))"

definition worker_indices :: "nat \<Rightarrow> nat \<Rightarrow> nat \<Rightarrow> nat list" where
  "worker_indices pp num_threads t = (let (start, count) = worker_part pp num_threads t in [start ..< start + count])"

definition rt_cache_ensure :: "'e st \<Rightarrow> 'e st" where
  "rt_cache_ensure s = (if st_cache s = None then s\<lparr>st_cache := Some rt_cache_init\<rparr> else s)"

text \<open>\<open>rt_loop\<close> with one thread; the records end at \<open>id = 0\<close>.\<close>

definition rt_loop :: "rt_env \<Rightarrow> char \<Rightarrow> 'e st \<Rightarrow> (nat \<times> 'e st) option" where
  "rt_loop env leg s = do {
     let s0 = rt_cache_ensure s;
     (cdrs, p) \<leftarrow> cdr_get_cdrs (js_cdr_get env) leg 0 (st_db s0);
     let s1 = s0\<lparr>st_db := p\<rparr>;
     (case cdrs of
        None \<Rightarrow> Some (0, s1)
      | Some all \<Rightarrow> do {
          let cs = takeWhile (\<lambda>c. cdr_id c \<noteq> 0) all;
          s3 \<leftarrow> (case cs of
             [] \<Rightarrow> Some s1
           | c # _ \<Rightarrow> do {
               (_, cache2, p2) \<leftarrow> rt_cache_preload_raccs (ev_now env) (st_cache s1) (st_db s1)
                  (map (\<lambda>c. Some (cdr_calling_number c)) cs) (uint (cdr_cdr_server_id c));
               (_, cache3, p3) \<leftarrow> rt_cache_preload_pcards (ev_fp env) (ev_now env) cache2 p2;
               Some (s1\<lparr>st_cache := cache3, st_db := p3\<rparr>)
             });
          (_, s4) \<leftarrow> rt_worker_func env leg cs (0, 0) s3;
          Some (length cs, s4)
        })
   }"

section \<open>The duration limit of a prepaid call, \<open>rt_maxsec.c\<close>\<close>

abbreviation (input) RT_MAXSEC_NO_BACC :: int where "RT_MAXSEC_NO_BACC \<equiv> -1"
abbreviation (input) RT_MAXSEC_NO_BPLAN :: int where "RT_MAXSEC_NO_BPLAN \<equiv> -2"
abbreviation (input) RT_MAXSEC_NO_PCARD :: int where "RT_MAXSEC_NO_PCARD \<equiv> -3"
abbreviation (input) RT_MAXSEC_NO_CLIMIT :: int where "RT_MAXSEC_NO_CLIMIT \<equiv> -4"
abbreviation (input) RT_MAXSEC_CRESTICT :: int where "RT_MAXSEC_CRESTICT \<equiv> -6"
abbreviation (input) RT_MAXSEC_NO_TARIFF :: int where "RT_MAXSEC_NO_TARIFF \<equiv> -7"
abbreviation (input) RT_MAXSEC_NO_CREDIT :: int where "RT_MAXSEC_NO_CREDIT \<equiv> -8"

text \<open>The share of the remaining credit \<open>lmt\<close> one call may use, or \<open>Inl\<close> an error code and the
  value \<open>pre->limit\<close> is left with. The quotient by an amount of zero is infinite, so it exceeds
  the threshold.\<close>

definition split_limit :: "rt_env \<Rightarrow> pcard \<Rightarrow> int \<Rightarrow> rat \<Rightarrow> (int \<times> rat + rat) option" where
  "split_limit env pc sim lmt =
     (if 1 < pc_call_number pc then do {
        big \<leftarrow> (if pc_amount pc = 0 then Some True
                else do { k \<leftarrow> ddiv (ev_fp env) lmt (pc_amount pc); Some (ev_k_limit_min env < k) });
        if big then do {
          test \<leftarrow> ddiv (ev_fp env) lmt (of_int (pc_call_number pc));
          Some (if test \<le> 0 then Inl (RT_MAXSEC_NO_PCARD, test) else Inr test)
        } else Some (if 0 < sim then Inl (RT_MAXSEC_CRESTICT, 0) else Inr lmt)
      } else Some (Inr lmt))"

text \<open>The checks after the search, up to \<open>calc_maxsec\<close>.\<close>

definition maxsec_limit :: "rt_env \<Rightarrow> racc \<Rightarrow> int \<Rightarrow> (int \<times> rat + rat) option" where
  "maxsec_limit env rtp sim = do {
     pc \<leftarrow> ba_pcard (ra_bacc rtp);
     let lmt = dsub (ev_fp env) (pc_amount pc) (bl_amount (ra_bal rtp));
     if lmt \<le> 0 then Some (Inl (RT_MAXSEC_NO_CLIMIT, lmt))
     else if pc_call_number pc \<le> 0 then Some (Inl (RT_MAXSEC_CRESTICT, lmt))
     else if pc_call_number pc \<le> sim then Some (Inl (RT_MAXSEC_CRESTICT, lmt))
     else split_limit env pc sim lmt
   }"

text \<open>The result is the account (NULL on failure) and the call, whose \<open>maxsec\<close> holds the limit or
  the error code.\<close>

definition rt_maxsec :: "rt_env \<Rightarrow> rating \<Rightarrow> int \<Rightarrow> 'e st \<Rightarrow> (racc option \<times> rating \<times> 'e st) option" where
  "rt_maxsec env pre sim s =
     (if st_db s = None then Some (None, pre, s)
      else
        let fail = (\<lambda>code p s'. Some (None, p\<lparr>pre_maxsec := code\<rparr>, s')) in do {
          (r, pre1, s1) \<leftarrow> rt_racc_voip_av_a env pre (rt_cache_ensure s);
          (case r of
             None \<Rightarrow> fail RT_MAXSEC_NO_BACC pre1 s1
           | Some rtp \<Rightarrow>
               if ba_id (ra_bacc rtp) = 0 then fail RT_MAXSEC_NO_BACC (ra_pre rtp) s1
               else if bp_id (ra_bplan rtp) = 0 then fail RT_MAXSEC_NO_BPLAN (ra_pre rtp) s1
               else do {
                 let rtp0 = rtp\<lparr>ra_bplan := rt_chk_bplan_periods (ra_bplan rtp) (pre_ts (ra_pre rtp))\<rparr>;
                 (rtp1, s2) \<leftarrow> pcard_manager env rtp0 s1;
                 if ba_pcard (ra_bacc rtp1) = None then fail RT_MAXSEC_NO_PCARD (ra_pre rtp1) s2
                 else do {
                   (rtp2, s3) \<leftarrow> rt_rate_searching env rtp1 s2;
                   (case racc_calc_funcs rtp2 of
                      Some (Some cs) \<Rightarrow> do {
                        lim \<leftarrow> maxsec_limit env rtp2 sim;
                        (case lim of
                           Inl (code, l) \<Rightarrow> fail code ((ra_pre rtp2)\<lparr>pre_limit := l\<rparr>) s3
                         | Inr lmt \<Rightarrow> do {
                             rtp3 \<leftarrow> calc_maxsec (ev_fp env) (ev_call_maxsec env)
                                       (upd_pre (\<lambda>p. p\<lparr>pre_limit := lmt\<rparr>) rtp2);
                             if pre_maxsec (ra_pre rtp3) \<le> 0 then fail RT_MAXSEC_NO_CREDIT (ra_pre rtp3) s3
                             else Some (Some rtp3, ra_pre rtp3, s3)
                           })
                      }
                    | _ \<Rightarrow> fail RT_MAXSEC_NO_TARIFF (ra_pre rtp2) s3)
                 }
               })
        })"

end
