(* ===== verification/RateSearch.thy ===== *)
theory RateSearch
  imports RtStore
begin

text \<open>
  What the queries of the Rating module find: the rate with the longest matching prefix, the
  account behind a calling number, and the options of a tariff. The databases are the recording
  engines of theory \<open>Query\<close>: \<open>ost ans lg rows cache\<close> is a state whose engine answers by \<open>ans\<close>.
\<close>

section \<open>States over a recording engine\<close>

definition ost :: "answers \<Rightarrow> string list \<Rightarrow> string list list option \<Rightarrow> rt_cache option \<Rightarrow> recorder st" where
  "ost ans lg rows cache = \<lparr>st_db = rdb ans lg rows, st_cache = cache\<rparr>"

lemma ost_simps [simp]:
  "st_db (ost ans lg r c) = rdb ans lg r" "st_cache (ost ans lg r c) = c"
  "st_type (ost ans lg r c) = sql" "\<not> no_api (ost ans lg r c)"
  "(ost ans lg r c)\<lparr>st_cache := c'\<rparr> = ost ans lg r c'"
  "(ost ans lg r c)\<lparr>st_db := rdb ans' lg' r'\<rparr> = ost ans' lg' r' c"
  "q_free (ost ans lg r c) = ost ans lg r c"
  by (simp_all add: ost_def st_type_def no_api_def q_free_def) (simp_all add: rdb_def)

lemma ost_query [simp]:
  assumes "is_select q"
  shows "q_rows q (ost ans lg r c) = Some (snd (ans lg q), ost ans (lg @ [q]) None c)"
  using assms by (simp add: q_rows_def)

section \<open>The rate of the longest prefix\<close>

definition in_period :: "int \<Rightarrow> rate \<Rightarrow> bool" where
  "in_period ts r \<longleftrightarrow> rt_start_period r = 0 \<or>
     (sint (rt_start_period r) \<le> ts \<and> (rt_end_period r = 0 \<or> ts \<le> sint (rt_end_period r)))"

definition prefix_of :: "string \<Rightarrow> rate \<Rightarrow> bool" where
  "prefix_of cld r \<longleftrightarrow> take (length (rt_prefix r)) cld = rt_prefix r"

definition rate_matches :: "int \<Rightarrow> string \<Rightarrow> rate \<Rightarrow> bool" where
  "rate_matches ts cld r \<longleftrightarrow> in_period ts r \<and> (rt_prefix r = ''&'' \<or> prefix_of cld r)"

lemma chk_rate_periods_iff:
  "rt_data_q_chk_rate_periods (sint (rt_start_period r)) (sint (rt_end_period r)) ts \<noteq> 0 \<longleftrightarrow> in_period ts r"
  by (auto simp: rt_data_q_chk_rate_periods_def in_period_def signed_eq_0_iff)

text \<open>The options of every tariff are in the cache: no time condition, a free limit, the steps.\<close>

definition options_cached ::
  "rt_env \<Rightarrow> rt_cache option \<Rightarrow> (u32 \<Rightarrow> int) \<Rightarrow> (u32 \<Rightarrow> calc_function list) \<Rightarrow> rate list \<Rightarrow> bool" where
  "options_cached env c fb tr rts \<longleftrightarrow> (\<forall>r \<in> set rts. 0 < sint (rt_tariff_id r) \<and>
     fst (rt_cache_tc_get (ev_now env) (rt_tariff_id r) c) = Some 0 \<and>
     fst (rt_cache_fbs_get (ev_now env) (rt_tariff_id r) c) = Some (fb (rt_tariff_id r)) \<and>
     fst (rt_cache_tariff_get (ev_now env) (rt_tariff_id r) c) = Some (tr (rt_tariff_id r)))"

definition chosen :: "(u32 \<Rightarrow> int) \<Rightarrow> (u32 \<Rightarrow> calc_function list) \<Rightarrow> rate \<Rightarrow> racc \<Rightarrow> racc" where
  "chosen fb tr r rtp = set_calc_funcs (Some (tr (rt_tariff_id r))) (upd_pre (\<lambda>p. p\<lparr>
     pre_tariff_id := sint (rt_tariff_id r), pre_rate_id := sint (rt_id r),
     pre_prefix_id := sint (rt_prefix_id r), pre_free_billsec_id := sint (rt_free_billsec_id r),
     pre_free_billsec_limit := fb (rt_tariff_id r)\<rparr>) rtp)"

lemma get_keeps_cache:
  "snd (rt_cache_tc_get now k c) = c" "snd (rt_cache_fbs_get now k c) = c"
  by (auto simp: rt_cache_tc_get_def rt_cache_fbs_get_def split: option.splits)

lemma rt_chk_tr_opt_cached:
  assumes "fst (rt_cache_tc_get (ev_now env) (word_of_int (pre_tariff_id pre)) (st_cache s)) = Some 0"
    and "fst (rt_cache_fbs_get (ev_now env) (word_of_int (pre_tariff_id pre)) (st_cache s)) = Some l"
  shows "rt_chk_tr_opt env pre s = Some (pre\<lparr>pre_free_billsec_limit := l\<rparr>, s)"
proof -
  have "rt_cache_tc_get (ev_now env) (word_of_int (pre_tariff_id pre)) (st_cache s) = (Some 0, st_cache s)"
    "rt_cache_fbs_get (ev_now env) (word_of_int (pre_tariff_id pre)) (st_cache s) = (Some l, st_cache s)"
    using assms get_keeps_cache by (metis prod.collapse)+
  then show ?thesis by (simp add: rt_chk_tr_opt_def)
qed

lemma tariff_sql_cached:
  assumes "st_db s \<noteq> None" "0 < pre_tariff_id (ra_pre rtp)" "bp_rates (ra_bplan rtp) \<noteq> None"
    and "rt_cache_tariff_get (ev_now env) (word_of_int (pre_tariff_id (ra_pre rtp))) (st_cache s) = (Some t, c1)"
  shows "rt_data_q_tariff_sql env rtp s = Some (DB_OK, set_calc_funcs (Some t) rtp, s\<lparr>st_cache := c1\<rparr>)"
  using assms by (simp add: rt_data_q_tariff_sql_def)

lemma prefix_loop_find:
  assumes "options_cached env (st_cache s) fb tr rts" "st_db s \<noteq> None" "bp_rates (ra_bplan rtp) \<noteq> None"
  shows "prefix_loop env rts rtp s =
     (case List.find (rate_matches (pre_ts (ra_pre rtp)) (pre_cld (ra_pre rtp))) rts of
        None \<Rightarrow> Some (rtp, s)
      | Some r \<Rightarrow> Some (chosen fb tr r rtp,
          s\<lparr>st_cache := snd (rt_cache_tariff_get (ev_now env) (rt_tariff_id r) (st_cache s))\<rparr>))"
  using assms(1)
proof (induction rts)
  case (Cons r rts)
  let ?pre = "ra_pre rtp"
  have o: "0 < sint (rt_tariff_id r)"
    "fst (rt_cache_tc_get (ev_now env) (rt_tariff_id r) (st_cache s)) = Some 0"
    "fst (rt_cache_fbs_get (ev_now env) (rt_tariff_id r) (st_cache s)) = Some (fb (rt_tariff_id r))"
    "fst (rt_cache_tariff_get (ev_now env) (rt_tariff_id r) (st_cache s)) = Some (tr (rt_tariff_id r))"
    and IH: "prefix_loop env rts rtp s = (case List.find (rate_matches (pre_ts ?pre) (pre_cld ?pre)) rts of
        None \<Rightarrow> Some (rtp, s)
      | Some r \<Rightarrow> Some (chosen fb tr r rtp,
          s\<lparr>st_cache := snd (rt_cache_tariff_get (ev_now env) (rt_tariff_id r) (st_cache s))\<rparr>))"
    using Cons by (auto simp: options_cached_def)
  have nz: "rt_tariff_id r \<noteq> 0" using o(1) by auto
  have m: "(rt_prefix r = ''&'' \<or> strncmp (pre_cld ?pre) (rt_prefix r) (length (rt_prefix r)) = 0) =
      (rt_prefix r = ''&'' \<or> prefix_of (pre_cld ?pre) r)"
    by (simp add: strncmp_def prefix_of_def)
  have per: "(rt_data_q_chk_rate_periods (sint (rt_start_period r)) (sint (rt_end_period r)) (pre_ts ?pre) = 0) =
      (\<not> in_period (pre_ts ?pre) r)"
    using chk_rate_periods_iff by blast
  obtain c1 where t: "rt_cache_tariff_get (ev_now env) (rt_tariff_id r) (st_cache s) = (Some (tr (rt_tariff_id r)), c1)"
    using o(4) by (cases "rt_cache_tariff_get (ev_now env) (rt_tariff_id r) (st_cache s)") auto
  show ?case
  proof (cases "rate_matches (pre_ts ?pre) (pre_cld ?pre) r")
    case True
    let ?p = "?pre\<lparr>pre_tariff_id := sint (rt_tariff_id r), pre_rate_id := sint (rt_id r),
               pre_prefix_id := sint (rt_prefix_id r), pre_free_billsec_id := sint (rt_free_billsec_id r)\<rparr>"
    have a: "rt_chk_tr_opt env ?p s = Some (?p\<lparr>pre_free_billsec_limit := fb (rt_tariff_id r)\<rparr>, s)"
      using rt_chk_tr_opt_cached [of env ?p s] o by simp
    have b: "rt_data_q_tariff_sql env (rtp\<lparr>ra_pre := ?p\<lparr>pre_free_billsec_limit := fb (rt_tariff_id r)\<rparr>\<rparr>) s =
        Some (DB_OK, chosen fb tr r rtp, s\<lparr>st_cache := c1\<rparr>)"
      using tariff_sql_cached [OF assms(2), of "rtp\<lparr>ra_pre := ?p\<lparr>pre_free_billsec_limit := fb (rt_tariff_id r)\<rparr>\<rparr>" env] o(1) assms(3) t
      by (simp add: chosen_def)
    show ?thesis using True nz o(1) a b t
      by (simp add: rate_matches_def per m)
  next
    case False
    then have "prefix_loop env (r # rts) rtp s = prefix_loop env rts rtp s"
      using nz m per by (cases "in_period (pre_ts ?pre) r") (auto simp: rate_matches_def Let_def)
    then show ?thesis using False IH by simp
  qed
qed simp


text \<open>Descending order puts the longest of the matching prefixes first, and \<open>''&''\<close> after every
  non-empty prefix of a number that begins with a byte above it.\<close>

lemma strcmp_prefix: "take n c = q \<Longrightarrow> length p < length q \<Longrightarrow> take (length p) c = p \<Longrightarrow> strcmp p q < 0"
proof -
  assume a: "take n c = q" "length p < length q" "take (length p) c = p"
  then have "take (length p) q = p" by (metis min.absorb1 nat_less_le take_take length_take min.bounded_iff)
  then have "q = p @ drop (length p) q" by (metis append_take_drop_id)
  moreover obtain x xs where "drop (length p) q = x # xs" using a(2) by (cases "drop (length p) q") auto
  ultimately have "strcmp p q = strcmp (p @ []) (p @ x # xs)" by simp
  then show ?thesis by (simp only: strcmp_same_prefix) simp
qed

definition rates_sorted :: "rate list \<Rightarrow> bool" where
  "rates_sorted rts \<longleftrightarrow> sorted_wrt (\<lambda>a b. 0 \<le> strcmp (rt_prefix a) (rt_prefix b)) rts"

lemma find_longest:
  assumes "rates_sorted rts" "List.find P rts = Some r" "x \<in> set rts" "P x"
  shows "x = r \<or> 0 \<le> strcmp (rt_prefix r) (rt_prefix x)"
  using assms
proof (induction rts)
  case (Cons y ys)
  show ?case
  proof (cases "P y")
    case True
    then show ?thesis using Cons.prems by (auto simp: rates_sorted_def)
  next
    case False
    then show ?thesis using Cons by (auto simp: rates_sorted_def)
  qed
qed simp

lemma wildcard_below:
  assumes "byte (hd cld) > 38" "cld \<noteq> []" "prefix_of cld x" "rt_prefix x \<noteq> []"
  shows "strcmp ''&'' (rt_prefix x) < 0"
proof -
  obtain a as where x: "rt_prefix x = a # as" using assms(4) by (cases "rt_prefix x") auto
  then have "a = hd cld" using assms(2,3) by (cases cld) (auto simp: prefix_of_def)
  moreover have "byte (CHR ''&'') = 38" by code_simp
  ultimately show ?thesis using assms(1) x by simp
qed

lemma find_matches:
  "List.find P xs = Some r \<Longrightarrow> r \<in> set xs \<and> P r" "List.find P xs = None \<Longrightarrow> \<forall>x \<in> set xs. \<not> P x"
  by (induction xs) (auto split: if_splits)

text \<open>Property C4. Without time conditions the rate search is a longest-prefix match. It is stated for rates in
  the descending prefix order of the query whose tariffs all have their options in the cache and no
  time condition (a tariff with conditions that fail is passed over, so then a shorter prefix may
  win), and a called number that starts with a character above \<open>&\<close>. The search changes nothing when
  no rate matches; otherwise it takes one matching rate: no other matching rate has a longer
  prefix, and the wildcard is only taken when no non-empty prefix matches. The rate, its tariff
  and the tariff's steps and free seconds are what the call is left with.\<close>

theorem rate_search_longest_prefix:
  fixes s :: "'e st"
  assumes "bp_rates (ra_bplan rtp) = Some rts" "rates_sorted rts" "st_db s \<noteq> None"
    and "options_cached env (st_cache s) fb tr rts"
    and "pre_cld (ra_pre rtp) \<noteq> []" "38 < byte (hd (pre_cld (ra_pre rtp)))"
  shows "let M = rate_matches (pre_ts (ra_pre rtp)) (pre_cld (ra_pre rtp)) in
     if \<forall>r \<in> set rts. \<not> M r then rt_data_q_prefix_sql env rtp s = Some (rtp, s)
     else \<exists>r s'. rt_data_q_prefix_sql env rtp s = Some (chosen fb tr r rtp, s') \<and> st_db s' = st_db s \<and>
       r \<in> set rts \<and> M r \<and>
       (\<forall>x \<in> set rts. M x \<and> rt_prefix x \<noteq> ''&'' \<longrightarrow>
          length (rt_prefix x) \<le> length (rt_prefix r) \<and> (rt_prefix r = ''&'' \<longrightarrow> rt_prefix x = []))"
proof -
  let ?M = "rate_matches (pre_ts (ra_pre rtp)) (pre_cld (ra_pre rtp))"
  have e: "rt_data_q_prefix_sql env rtp s = prefix_loop env rts rtp s"
    using assms(1) by (simp add: rt_data_q_prefix_sql_def)
  note loop = prefix_loop_find [OF assms(4,3), of rtp, unfolded assms(1), simplified]
  show ?thesis
  proof (cases "List.find ?M rts")
    case None
    have "rt_data_q_prefix_sql env rtp s = Some (rtp, s)" using loop e None by simp
    moreover have "\<forall>r \<in> set rts. \<not> ?M r" by (rule find_matches(2) [OF None])
    ultimately show ?thesis by (simp add: Let_def)
  next
    case (Some r)
    have r: "r \<in> set rts" "?M r" using find_matches(1) [OF Some] by simp_all
    have long: "length (rt_prefix x) \<le> length (rt_prefix r) \<and> (rt_prefix r = ''&'' \<longrightarrow> rt_prefix x = [])"
      if x: "x \<in> set rts" "?M x" "rt_prefix x \<noteq> ''&''" for x
    proof -
      have px: "prefix_of (pre_cld (ra_pre rtp)) x" using x by (simp add: rate_matches_def)
      have le: "x = r \<or> 0 \<le> strcmp (rt_prefix r) (rt_prefix x)"
        using find_longest [OF assms(2) Some x(1,2)] .
      show ?thesis
      proof (cases "rt_prefix r = ''&''")
        case True
        then have "rt_prefix x = []" using wildcard_below [OF assms(6,5) px] le x(3)
          by (cases "rt_prefix x = []") auto
        then show ?thesis using True by simp
      next
        case False
        then have pr: "prefix_of (pre_cld (ra_pre rtp)) r" using r by (simp add: rate_matches_def)
        have "\<not> length (rt_prefix r) < length (rt_prefix x)"
          using strcmp_prefix [of _ "pre_cld (ra_pre rtp)" "rt_prefix x" "rt_prefix r"] px pr le
          by (auto simp: prefix_of_def)
        then show ?thesis using False by simp
      qed
    qed
    let ?s = "s\<lparr>st_cache := snd (rt_cache_tariff_get (ev_now env) (rt_tariff_id r) (st_cache s))\<rparr>"
    have "rt_data_q_prefix_sql env rtp s = Some (chosen fb tr r rtp, ?s)" using loop e Some by simp
    moreover have "st_db ?s = st_db s" by simp
    moreover have "\<not> (\<forall>r \<in> set rts. \<not> ?M r)" using r by blast
    ultimately show ?thesis using r long by (auto simp: Let_def)
  qed
qed


text \<open>Prefixes \<open>359 88\<close>, \<open>359\<close> and the wildcard; a Sofia number takes \<open>359\<close>.\<close>

definition bg_rate :: "u32 \<Rightarrow> string \<Rightarrow> rate" where
  "bg_rate n p = rate0\<lparr>rt_id := n, rt_tariff_id := n, rt_prefix := p\<rparr>"

definition plan_359 :: "rate list" where
  "plan_359 = [bg_rate 1 ''35988'', bg_rate 2 ''359'', bg_rate 3 ''&'']"

definition exact_env :: rt_env where
  "exact_env = \<lparr>ev_fp = exact, ev_now = 0, ev_localtime = (\<lambda>_. \<lparr>tm_sec = 0, tm_min = 0, tm_hour = 12, tm_mday = 10,
       tm_mon = 5, tm_year = 124, tm_wday = 1\<rparr>),
     ev_mktime = (\<lambda>_. 0), ev_billing_day = ''1'', ev_bal_num = 2, ev_k_limit_min = 0, ev_call_maxsec = 3600,
     ev_junk = (\<lambda>_. 0), js_balance_get = (\<lambda>_ r. (0, r)), js_balance_put = (\<lambda>_. ([], [])),
     js_rated_put = (\<lambda>_. ([], [])), js_tariff_get = (\<lambda>_ r. r), js_rate_get = (\<lambda>_ r. r),
     js_racc_get = (\<lambda>_ r. (0, r)), js_bacc_get = (\<lambda>_ b. b), js_cdr_get = (\<lambda>_ c. c), js_bplan_get = (\<lambda>_ b. b)\<rparr>"

definition one_cent :: "calc_function list" where
  "one_cent = [\<lparr>cf_pos = 1, cf_delta = 60, cf_fee = 1/100, cf_iterations = 0\<rparr>]"

fun cache_options :: "u32 list \<Rightarrow> rt_cache option \<Rightarrow> rt_cache option" where
  "cache_options [] c = c"
| "cache_options (t # ts) c = cache_options ts
     (rt_cache_tc_put 0 t 0 (rt_cache_fbs_put 0 t 0 (rt_cache_tariff_put 0 t one_cent c)))"

definition plan_cache :: "rt_cache option" where
  "plan_cache = cache_options [1, 2, 3] (Some rt_cache_init)"

definition sofia_call :: racc where
  "sofia_call = set_rates (Some plan_359) (rt_data_racc_init (rating0\<lparr>pre_cld := ''3592123''\<rparr>))"

lemma plan_cached: "options_cached exact_env plan_cache (\<lambda>_. 0) (\<lambda>_. one_cent) plan_359"
  by code_simp

theorem rate_search_longest_prefix_witness:
  "\<exists>r s'. rt_data_q_prefix_sql exact_env sofia_call (ost (\<lambda>_ _. (0, None)) [] None plan_cache) =
        Some (chosen (\<lambda>_. 0) (\<lambda>_. one_cent) r sofia_call, s') \<and> rt_id r = 2"
proof -
  have m: "rate_matches 0 ''3592123'' (bg_rate 2 ''359'')" "\<not> rate_matches 0 ''3592123'' (bg_rate 1 ''35988'')"
    "rate_matches 0 ''3592123'' (bg_rate 3 ''&'')"
    by (simp_all add: rate_matches_def in_period_def prefix_of_def bg_rate_def rate0_def)
  have srt: "rates_sorted plan_359" by code_simp
  have b: "38 < byte (hd ''3592123'')" by code_simp
  have p: "rt_prefix (bg_rate n q) = q" "rt_id (bg_rate n q) = n" for n q by (simp_all add: bg_rate_def)
  have c: "bp_rates (ra_bplan sofia_call) = Some plan_359" "pre_cld (ra_pre sofia_call) = ''3592123''"
    "pre_ts (ra_pre sofia_call) = 0"
    by (simp_all add: sofia_call_def zero_defs)
  have plan: "set plan_359 = {bg_rate 1 ''35988'', bg_rate 2 ''359'', bg_rate 3 ''&''}" by (simp add: plan_359_def)
  show ?thesis
    using rate_search_longest_prefix [OF c(1) srt, of "ost (\<lambda>_ _. (0, None)) [] None plan_cache" exact_env
        "\<lambda>_. 0" "\<lambda>_. one_cent"] plan_cached m b
    by (auto simp: c plan p Let_def)
qed


section \<open>The account of a call\<close>

lemma escape_fits: "length (escs s) + 2 \<le> n \<Longrightarrow> db_sql_escape (Some s) (int n) = (int (length (escs s)), escs s)"
  using db_sql_escape_loop_fits [of "[]" s "int n"] by (simp add: db_sql_escape_def)

lemma is_select_racc [simp]: "is_select (racc_sql_str table cond n1 n2 server)"
  by (simp add: racc_sql_str_def Let_def verb_prefix)

lemma racc_sql_hit:
  assumes "racc_mode (ra_rtm rtp) (ra_pre rtp) = Some (table, cond, n1, n2)" "length (escs cond) \<le> 158"
    and "rt_cache_racc_get (ev_now env) (racc_key (ra_rtm rtp) cond) (st_cache s) = (Some d, c1)" "st_db s \<noteq> None"
  shows "rt_data_q_racc_sql env rtp s = Some (DB_OK, set_racc_data d rtp, s\<lparr>st_cache := c1\<rparr>)"
  using assms escape_fits [of cond 160] by (simp add: rt_data_q_racc_sql_def)

lemma racc_sql_miss:
  assumes "racc_mode (ra_rtm rtp) (ra_pre rtp) = Some (table, cond, n1, n2)" "length (escs cond) \<le> 158"
    and "rt_cache_racc_get (ev_now env) (racc_key (ra_rtm rtp) cond) c = (None, c1)"
    and "q = racc_sql_str table (escs cond) n1 n2 (pre_cdr_server_id (ra_pre rtp))"
  shows "rt_data_q_racc_sql env rtp (ost ans lg r c) = do {
     rtp1 \<leftarrow> (case snd (ans lg q) of Some rs \<Rightarrow> racc_rows rs rtp | None \<Rightarrow> Some rtp);
     Some (DB_OK, rtp1, ost ans (lg @ [q]) None
       (if 0 < ba_id (ra_bacc rtp1)
        then rt_cache_racc_put (ev_now env) (racc_key (ra_rtm rtp) cond) (get_racc_data rtp1) c1 else c1))
   }"
  using assms escape_fits [of cond 160]
  by (auto simp: rt_data_q_racc_sql_def Let_def split: option.splits bind_split)

text \<open>The account of a call is asked for once a minute. A lookup that misses the cache
  sends exactly the one statement, fills the account from the row and remembers it; every later
  lookup within 60 seconds with the same rating mode and the same condition string sends
  nothing and gives the same account and plan. The later call may have another CDR server or
  other address indicators: they are part of the statement but not of the key.\<close>

theorem racc_lookup_cached:
  fixes lg lg' :: "string list"
  assumes "cache_inv c" "racc_mode (ra_rtm rtp) (ra_pre rtp) = Some (table, cond, n1, n2)"
    and "length (escs cond) \<le> 158" "length (racc_key (ra_rtm rtp) cond) \<le> 127"
    and "fst (rt_cache_racc_get (ev_now env) (racc_key (ra_rtm rtp) cond) c) = None"
    and "q = racc_sql_str table (escs cond) n1 n2 (pre_cdr_server_id (ra_pre rtp))"
    and "snd (ans lg q) = Some [row]" "racc_row row rtp = Some rtp1" "0 < ba_id (ra_bacc rtp1)"
    and "ra_rtm rtp' = ra_rtm rtp" "racc_mode (ra_rtm rtp') (ra_pre rtp') = Some (table, cond, n1', n2')"
    and "ev_now env' - ev_now env \<le> 60"
  shows "\<exists>c' c''. rt_data_q_racc_sql env rtp (ost ans lg r c) = Some (DB_OK, rtp1, ost ans (lg @ [q]) None c') \<and>
     rt_data_q_racc_sql env' rtp' (ost ans' lg' r' c') =
       Some (DB_OK, set_racc_data (get_racc_data rtp1) rtp', ost ans' lg' r' c'')"
proof -
  let ?key = "racc_key (ra_rtm rtp) cond"
  obtain c1 where g: "rt_cache_racc_get (ev_now env) ?key c = (None, c1)"
    using assms(5) by (cases "rt_cache_racc_get (ev_now env) ?key c") auto
  have c1: "cache_inv c1" using raccs.get_live [OF assms(1), of "ev_now env" ?key] g by simp
  define c' where "c' = rt_cache_racc_put (ev_now env) ?key (get_racc_data rtp1) c1"
  have "racc_view c' ?key = Some (ev_now env, get_racc_data rtp1)" "cache_inv c'"
    using raccs.put_view [OF c1, of ?key "ev_now env" "get_racc_data rtp1"]
      raccs.put_live [OF c1, of ?key "ev_now env" "get_racc_data rtp1"] assms(4) by (simp_all add: c'_def)
  then have "fst (rt_cache_racc_get (ev_now env') ?key c') = Some (get_racc_data rtp1)"
    using raccs.get_view [of c' ?key "ev_now env'"] assms(4,12) by simp
  then obtain c'' where "rt_cache_racc_get (ev_now env') ?key c' = (Some (get_racc_data rtp1), c'')"
    by (cases "rt_cache_racc_get (ev_now env') ?key c'") auto
  then have "rt_data_q_racc_sql env' rtp' (ost ans' lg' r' c') =
       Some (DB_OK, set_racc_data (get_racc_data rtp1) rtp', ost ans' lg' r' c'')"
    using racc_sql_hit [OF assms(11,3), of env' "ost ans' lg' r' c'"] assms(10) by simp
  moreover have "rt_data_q_racc_sql env rtp (ost ans lg r c) = Some (DB_OK, rtp1, ost ans (lg @ [q]) None c')"
    using racc_sql_miss [OF assms(2,3) g assms(6), of ans lg r] assms(7-9) by (simp add: c'_def)
  ultimately show ?thesis by blast
qed

text \<open>A call from server 1, then one from server 2 with the same number.\<close>

definition from_server :: "int \<Rightarrow> racc" where
  "from_server n = (rt_data_racc_init (rating0\<lparr>pre_cdr_server_id := n, pre_clg := ''359888''\<rparr>))\<lparr>ra_rtm := 1\<rparr>"

theorem racc_lookup_cached_witness:
  "\<exists>c' rtp1 s2. rt_data_q_racc_sql exact_env (from_server 1) (ost (\<lambda>_ _. (0, Some [[''7'', ''3'', ''0'', ''0'', ''1'', ''1'', ''0'']])) [] None
       (Some rt_cache_init)) = Some (0, rtp1, s2) \<and> ba_id (ra_bacc rtp1) = 7 \<and>
     st_cache s2 = c' \<and>
     (\<exists>rtp2 c''. rt_data_q_racc_sql exact_env (from_server 2) (ost (\<lambda>_ _. (0, Some [])) [] None c') =
        Some (0, rtp2, ost (\<lambda>_ _. (0, Some [])) [] None c'') \<and> ba_id (ra_bacc rtp2) = 7)"
proof -
  let ?row = "[''7'', ''3'', ''0'', ''0'', ''1'', ''1'', ''0'']"
  have a: "atoi ''7'' = Some 7" "atoi ''3'' = Some 3" "atoi ''0'' = Some 0" "atoi ''1'' = Some 1" by code_simp+
  define rtp1 where "rtp1 = the (racc_row ?row (from_server 1))"
  have r1: "racc_row ?row (from_server 1) = Some rtp1" "ba_id (ra_bacc rtp1) = 7"
    by (simp_all add: rtp1_def racc_row_def coli_def col_def a)
  have e: "length (escs ''359888'') \<le> 158" by (simp add: esc_def)
  have d: "length (racc_key (ra_rtm (from_server 1)) ''359888'') \<le> 127" by code_simp
  have n: "ev_now exact_env = 0" by (simp add: exact_env_def)
  have m: "racc_mode (ra_rtm (from_server n)) (ra_pre (from_server n)) = Some (''calling_number'', ''359888'', -1, -1)"
    "ra_rtm (from_server n) = 1" for n
    by (simp_all add: racc_mode_def from_server_def zero_defs)
  have g: "fst (rt_cache_racc_get 0 k (Some rt_cache_init)) = None" for k
    by (simp add: rt_cache_racc_get_def rt_cache_init_def chain_get_def)
  show ?thesis
    using racc_lookup_cached [where env = exact_env and env' = exact_env and ans = "\<lambda>_ _. (0, Some [?row])" and
        lg = "[]" and r = None and ans' = "\<lambda>_ _. (0, Some [])" and lg' = "[]" and r' = None,
        OF cache_inv_init m(1) [of 1] e d _ refl _ r1(1) _ _ m(1) [of 2]] g r1(2) m(2)
    by (auto simp: n set_racc_data_def get_racc_data_def simp del: list.map concat.simps)
qed


section \<open>The options of a tariff\<close>

lemma is_select_tc [simp]:
  "is_select (CHR ''s'' # CHR ''e'' # CHR ''l'' # CHR ''e'' # CHR ''c'' # CHR ''t'' # x)"
  "is_select (CHR ''S'' # CHR ''E'' # CHR ''L'' # CHR ''E'' # CHR ''C'' # CHR ''T'' # x)"
  by (rule verb_prefix)+

lemma f_time_cond_query_id_empty:
  assumes "\<forall>lg q. snd (ans lg q) = Some []" "0 < pre_tariff_id pre"
  shows "\<exists>lg'. f_time_cond_query_id env pre (ost ans lg r c) = Some (ev_junk env ''id'', ost ans lg' None c)"
  using assms by (simp add: f_time_cond_query_id_def one_int_def) blast

lemma f_time_cond_query_v2_empty:
  assumes "\<forall>lg q. snd (ans lg q) = Some []" "0 < pre_tariff_id pre"
  shows "\<exists>lg'. f_time_cond_query_v2 pre (ost ans lg r c) = Some (RE_SUCCESS, pre\<lparr>pre_tc := None\<rparr>, ost ans lg' None c)"
  using assms by (simp add: f_time_cond_query_v2_def Let_def) blast

lemma free_billsec_query_empty:
  assumes "\<forall>lg q. snd (ans lg q) = Some []"
  shows "\<exists>lg'. f_free_billsec_query pre (ost ans lg r c) = Some (DB_OK, pre, ost ans lg' None c)"
  using assms by (simp add: f_free_billsec_query_def fb_query_def one_int_def) blast

text \<open>A tariff without time conditions, asked for the first time. The query that looks for
  time conditions returns a variable it only sets when there is exactly one row, so with no rows
  the outcome is up to what that variable happens to hold: if it is zero the call keeps its
  tariff, otherwise the tariff is taken away and the call stays unrated.\<close>

theorem tr_opt_reads_uninitialised:
  assumes "\<forall>lg q. snd (ans lg q) = Some []" "0 < pre_tariff_id pre"
    and "fst (rt_cache_tc_get (ev_now env) (word_of_int (pre_tariff_id pre)) c) = None"
  shows "\<exists>pre' s'. rt_chk_tr_opt env pre (ost ans lg r c) = Some (pre', s') \<and>
     pre_tariff_id pre' = (if ev_junk env ''id'' = 0 then pre_tariff_id pre else 0)"
proof -
  let ?tid = "word_of_int (pre_tariff_id pre) :: u32"
  have g: "rt_cache_tc_get (ev_now env) ?tid c = (None, c)"
    using assms(3) get_keeps_cache(1) by (metis prod.collapse)
  obtain lg1 where q1: "f_time_cond_query_id env pre (ost ans lg r c) = Some (ev_junk env ''id'', ost ans lg1 None c)"
    using f_time_cond_query_id_empty [OF assms(1,2)] by blast
  define c1 where "c1 = rt_cache_tc_put (ev_now env) ?tid (ev_junk env ''id'') c"
  define pre2 where "pre2 = (if ev_junk env ''id'' = 0 then pre else pre\<lparr>pre_tariff_id := 0, pre_tc := None\<rparr>)"
  have "\<exists>lg2 r2. (if ev_junk env ''id'' \<noteq> 0 then tr_opt_tc env pre (ost ans lg1 None c1) else Some (pre, ost ans lg1 None c1)) =
      Some (pre2, ost ans lg2 r2 c1)"
    using f_time_cond_query_v2_empty [OF assms(1,2), of lg1 None c1]
    by (cases "ev_junk env ''id'' = 0") (auto simp: tr_opt_tc_def tc_ts_cmp_def pre2_def simp del: ex_simps, blast+)
  then obtain lg2 r2 where q2: "(if ev_junk env ''id'' \<noteq> 0 then tr_opt_tc env pre (ost ans lg1 None c1) else Some (pre, ost ans lg1 None c1)) =
      Some (pre2, ost ans lg2 r2 c1)" by blast
  obtain fr where f: "rt_cache_fbs_get (ev_now env) (word_of_int (pre_tariff_id pre2)) c1 = (fr, c1)"
    using get_keeps_cache(2) by (metis prod.collapse)
  obtain lg3 where q3: "f_free_billsec_query pre2 (ost ans lg2 r2 c1) = Some (DB_OK, pre2, ost ans lg3 None c1)"
    using free_billsec_query_empty [OF assms(1)] by blast
  have "rt_chk_tr_opt env pre (ost ans lg r c) = (case fr of
        Some l \<Rightarrow> Some (pre2\<lparr>pre_free_billsec_limit := l\<rparr>, ost ans lg2 r2 c1)
      | None \<Rightarrow> Some (pre2, ost ans lg3 None (rt_cache_fbs_put (ev_now env) (word_of_int (pre_tariff_id pre2))
                       (pre_free_billsec_limit pre2) c1)))"
  proof -
    let ?rest = "\<lambda>(p, s2). (let tid = word_of_int (pre_tariff_id p);
        (l, cache2) = rt_cache_fbs_get (ev_now env) tid (st_cache s2); s3 = s2\<lparr>st_cache := cache2\<rparr>
      in (case l of Some l \<Rightarrow> Some (p\<lparr>pre_free_billsec_limit := l\<rparr>, s3)
          | None \<Rightarrow> do {
              (_, p3, s4) \<leftarrow> f_free_billsec_query p s3;
              Some (p3, s4\<lparr>st_cache := rt_cache_fbs_put (ev_now env) tid (pre_free_billsec_limit p3) (st_cache s4)\<rparr>)
            }))"
    have "rt_chk_tr_opt env pre (ost ans lg r c) = (if ev_junk env ''id'' \<noteq> 0
        then tr_opt_tc env pre (ost ans lg1 None c1) else Some (pre, ost ans lg1 None c1)) \<bind> ?rest"
      by (simp add: rt_chk_tr_opt_def g q1 Let_def c1_def)
    then show ?thesis unfolding q2 using f q3 by (cases fr) (simp_all add: Let_def)
  qed
  then show ?thesis by (auto simp: pre2_def split: option.splits)
qed

theorem tr_opt_reads_uninitialised_witness:
  "\<exists>pre' s'. rt_chk_tr_opt (exact_env\<lparr>ev_junk := (\<lambda>_. 32767)\<rparr>) (rating0\<lparr>pre_tariff_id := 5\<rparr>)
       (ost (\<lambda>_ _. (0, Some [])) [] None None) = Some (pre', s') \<and> pre_tariff_id pre' = 0"
  using tr_opt_reads_uninitialised [of "\<lambda>_ _. (0, Some [])" "rating0\<lparr>pre_tariff_id := 5\<rparr>"
      "exact_env\<lparr>ev_junk := (\<lambda>_. 32767)\<rparr>" None "[]" None]
  by (simp add: rt_cache_tc_get_def zero_defs)

end
