(* ===== verification/Statements.thy ===== *)
theory Statements
  imports Rating RateSearch
begin

text \<open>
  Which statements the rating sends. A database on a recording engine keeps the list of the
  statements it was sent, so an operation is described by what it may append: \<open>sends P s s'\<close>.
  The three locales say what \<open>P\<close> has to allow for reading, for the online limit and for
  rating, and carry the facts for each operation; they are interpreted on the statements of the
  online limit and of a rating run.
\<close>

section \<open>Appending to the record\<close>

definition on_log :: "answers \<Rightarrow> string list \<Rightarrow> recorder db option \<Rightarrow> bool" where
  "on_log ans lg p \<longleftrightarrow> (\<exists>d c rows. p = Some d \<and> db_t d = sql \<and> db_sql d = Some (recorder_api ans) \<and>
     db_conn d = Some c \<and> cn_rconn c = Some (lg, rows))"

definition sends_db :: "(string \<Rightarrow> bool) \<Rightarrow> recorder db option \<Rightarrow> recorder db option \<Rightarrow> bool" where
  "sends_db P p p' \<longleftrightarrow> (\<forall>ans lg. on_log ans lg p \<longrightarrow> (\<exists>l. on_log ans (lg @ l) p' \<and> list_all P l))"

abbreviation sends :: "(string \<Rightarrow> bool) \<Rightarrow> recorder st \<Rightarrow> recorder st \<Rightarrow> bool" where
  "sends P s s' \<equiv> sends_db P (st_db s) (st_db s')"

lemma on_log_rdb [simp]: "on_log ans lg (rdb ans lg r)"
  by (simp add: on_log_def rdb_def db_conn_init_def)

lemma sends_refl [simp, intro!]: "sends_db P p p"
  by (auto simp: sends_db_def intro: exI [of _ "[]"])

lemma sends_trans: "sends_db P p q \<Longrightarrow> sends_db P q r \<Longrightarrow> sends_db P p r"
  by (fastforce simp: sends_db_def)

lemma sends_mono: "sends_db P p q \<Longrightarrow> (\<And>x. P x \<Longrightarrow> Q x) \<Longrightarrow> sends_db Q p q"
  by (fastforce simp: sends_db_def list_all_iff)

text \<open>Only databases on a recording engine count, so the other branches need no proof.\<close>

lemma sends_sql:
  assumes "\<lbrakk>p \<noteq> None; db_type p = sql; (case p of None \<Rightarrow> True | Some d \<Rightarrow> db_sql d = None) = False\<rbrakk> \<Longrightarrow> sends_db P p p'"
  shows "sends_db P p p'"
proof (cases "\<exists>ans lg. on_log ans lg p")
  case True
  then show ?thesis using assms by (auto simp: on_log_def db_type_def)
next
  case False
  then show ?thesis by (simp add: sends_db_def)
qed

lemma st_type_db [simp]: "st_type s = db_type (st_db s)"
  by (simp add: st_type_def db_type_def)

lemma sends_st_sql:
  assumes "\<lbrakk>st_db s \<noteq> None; db_type (st_db s) = sql; \<not> no_api s\<rbrakk> \<Longrightarrow> sends P s s'"
  shows "sends P s s'"
  by (rule sends_sql, rule assms) (simp_all add: no_api_def)

lemma on_log_clear [simp]: "on_log ans lg (clear_conn_result p) = on_log ans lg p"
  by (cases p) (auto simp: on_log_def clear_conn_result_def)

lemma sends_clear [simp]: "sends_db P p (clear_conn_result q) = sends_db P p q"
  by (simp add: sends_db_def)

lemma sends_q_free [simp]: "st_db (q_free s) = clear_conn_result (st_db s)"
  by (simp add: q_free_def)

section \<open>The calls of the database interface\<close>

lemmas call_simps = db_on_def via_def recorder_api_def sql_api0_def db_free_result_def Let_def split_beta

lemma on_log_query:
  "on_log ans lg p \<Longrightarrow> on_log ans (lg @ [q]) (snd (db_query p q False))"
  by (auto simp: on_log_def db_query_def call_simps)

lemma on_log_select:
  "on_log ans lg p \<Longrightarrow> on_log ans (if is_select q then lg @ [q] else lg) (snd (db_select p q))"
  by (auto simp: on_log_def db_select_def call_simps)

lemma on_log_fetch:
  "on_log ans lg p \<Longrightarrow> on_log ans lg (snd (db_fetch p))"
  by (auto simp: on_log_def db_fetch_def call_simps)

lemma on_log_verb:
  "on_log ans lg p \<Longrightarrow> strncasecmp0 q verb (length verb) \<Longrightarrow> on_log ans (lg @ [q]) (snd (db_verb verb p q))"
  by (auto simp: on_log_def db_verb_def call_simps)

section \<open>Reading\<close>

text \<open>The facts are destruction rules: they turn the equation of a step into what it sends. The
  bundle of a locale is used together with \<open>sends_trans\<close>.\<close>

named_theorems steps
named_theorems sends_dest

locale reading =
  fixes P :: "string \<Rightarrow> bool"
  assumes select: "is_select q \<Longrightarrow> P q"
begin

lemma db_select: "sends_db P p (snd (db_select p q))"
proof -
  have "\<exists>l. on_log ans (lg @ l) (snd (db_select p q)) \<and> list_all P l" if "on_log ans lg p" for ans lg
    using on_log_select [OF that, of q] select [of q] by (cases "is_select q") (fastforce intro: exI [of _ "[]"])+
  then show ?thesis by (simp add: sends_db_def)
qed

lemma db_fetch: "sends_db P p (snd (db_fetch p))"
  using on_log_fetch by (fastforce simp: sends_db_def intro: exI [of _ "[]"])

lemma fetch_rows [sends_dest]: "fetch_rows q p = Some (rows, p') \<Longrightarrow> sends_db P p p'"
  using sends_trans [OF db_select db_fetch] by (auto simp: fetch_rows_def Let_def split: if_splits)

lemma query_rows [sends_dest]: "query_rows q p = Some (rows, p') \<Longrightarrow> sends_db P p p'"
  using fetch_rows by (auto simp: query_rows_def split: Option.bind_splits)

lemma q_rows [sends_dest]: "q_rows q s = Some (rows, s') \<Longrightarrow> sends P s s'"
  using query_rows by (auto simp: q_rows_def split: Option.bind_splits)

lemma q_fetch [sends_dest]: "q_fetch q s = Some (rows, s') \<Longrightarrow> sends P s s'"
  using fetch_rows by (auto simp: q_fetch_def split: Option.bind_splits)

lemma bplan_tree_num [sends_dest]: "rt_data_q_bplan_tree_num env rtp s = Some (n, s') \<Longrightarrow> sends P s s'"
  by (auto simp: rt_data_q_bplan_tree_num_def split: if_splits Option.bind_splits dest!: sends_dest)

lemma bal_count [sends_dest]: "rt_data_q_bal_count r flag s = Some (n, s') \<Longrightarrow> sends P s s'"
  by (rule sends_st_sql)
    (auto simp: rt_data_q_bal_count_def split: if_splits option.splits Option.bind_splits dest!: sends_dest)

lemma pcard_sql [sends_dest]: "rt_data_q_pcard_sql env b status s = Some (ret, cs, s') \<Longrightarrow> sends P s s'"
  by (auto simp: rt_data_q_pcard_sql_def split: if_splits option.splits list.splits Option.bind_splits dest!: sends_dest)

lemma pcard [sends_dest]: "rt_data_q_pcard env b status s = Some (ret, cs, s') \<Longrightarrow> sends P s s'"
  by (auto simp: rt_data_q_pcard_def split: if_splits dest!: sends_dest)

lemma card [sends_dest]: "pcard_manager env rtp s = Some (rtp', s') \<Longrightarrow> sends P s s'"
  by (auto simp: pcard_manager_def Let_def split_beta split: if_splits option.splits Option.bind_splits dest!: sends_dest)

lemma bal_sql [sends_dest]: "rt_data_q_bal_sql env rtp a b s = Some (ret, rtp', s') \<Longrightarrow> sends P s s'"
  by (auto simp: rt_data_q_bal_sql_def split: if_splits option.splits list.splits Option.bind_splits dest!: sends_dest)

lemma bal [sends_dest]: "rt_data_q_bal env rtp a b s = Some (ret, rtp', s') \<Longrightarrow> sends P s s'"
  by (rule sends_st_sql) (auto simp: rt_data_q_bal_def split: if_splits Option.bind_splits dest!: sends_dest)

lemma racc_sql [sends_dest]: "rt_data_q_racc_sql env rtp s = Some (ret, rtp', s') \<Longrightarrow> sends P s s'"
  by (auto simp: rt_data_q_racc_sql_def Let_def split: if_splits option.splits prod.splits Option.bind_splits
      dest!: sends_dest)

lemma racc [sends_dest]: "rt_data_q_racc env pre s = Some (r, s') \<Longrightarrow> sends P s s'"
  by (rule sends_st_sql) (auto simp: rt_data_q_racc_def Let_def split: if_splits Option.bind_splits dest!: sends_dest)

lemma tariff_sql [sends_dest]: "rt_data_q_tariff_sql env rtp s = Some (ret, rtp', s') \<Longrightarrow> sends P s s'"
  by (auto simp: rt_data_q_tariff_sql_def Let_def split: if_splits option.splits list.splits prod.splits Option.bind_splits
      dest!: sends_dest)

lemma rate_sql [sends_dest]: "rt_data_q_rate_sql env rtp s = Some (ret, rtp', s') \<Longrightarrow> sends P s s'"
  by (auto simp: rt_data_q_rate_sql_def Let_def split: if_splits option.splits prod.splits Option.bind_splits
      dest!: sends_dest intro: sends_trans)

lemma tc_query_v2 [sends_dest]: "f_time_cond_query_v2 pre s = Some (ret, pre', s') \<Longrightarrow> sends P s s'"
  by (auto simp: f_time_cond_query_v2_def Let_def split: if_splits option.splits list.splits Option.bind_splits
      dest!: sends_dest)

lemma tc_query_id [sends_dest]: "f_time_cond_query_id env pre s = Some (n, s') \<Longrightarrow> sends P s s'"
  by (auto simp: f_time_cond_query_id_def split: if_splits Option.bind_splits dest!: sends_dest)

lemma fb_query [sends_dest]: "fb_query q upd pre s = Some (ret, pre', s') \<Longrightarrow> sends P s s'"
  by (auto simp: fb_query_def split: if_splits Option.bind_splits dest!: sends_dest)

lemma fb_queries [sends_dest]:
  "f_free_billsec_query pre s = Some (ret, pre', s') \<Longrightarrow> sends P s s'"
  "f_free_billsec_bal_query_2 pre s = Some (ret, pre', s') \<Longrightarrow> sends P s s'"
  "f_free_bal_id_query pre s = Some (ret, pre', s') \<Longrightarrow> sends P s s'"
  "free_billsec_sms_balance rtp a b s = Some (ret, rtp', s') \<Longrightarrow> sends P s s'"
  "free_billsec_balance_v2 rtp a b s = Some (ret, rtp', s') \<Longrightarrow> sends P s s'"
  by (auto simp: f_free_billsec_query_def f_free_billsec_bal_query_2_def f_free_bal_id_query_def
      free_billsec_sms_balance_def free_billsec_balance_v2_def split: Option.bind_splits dest!: sends_dest)

lemma tr_opt_tc [sends_dest]: "tr_opt_tc env pre s = Some (pre', s') \<Longrightarrow> sends P s s'"
  by (auto simp: tr_opt_tc_def split: Option.bind_splits dest!: sends_dest)

lemma tr_opt [sends_dest]: "rt_chk_tr_opt env pre s = Some (pre', s') \<Longrightarrow> sends P s s'"
  by (auto simp: rt_chk_tr_opt_def Let_def split_beta split: if_splits option.splits Option.bind_splits
      dest!: sends_dest) (meson sends_trans)+

lemma prefix_loop [sends_dest]: "prefix_loop env rts rtp s = Some (rtp', s') \<Longrightarrow> sends P s s'"
proof (induction rts arbitrary: rtp s)
  case (Cons rt rts)
  from Cons.prems show ?case
    by (auto simp: Let_def split: if_splits Option.bind_splits dest!: sends_dest Cons.IH)
      (blast intro: sends_trans)+
qed simp

lemma prefix_sql [sends_dest]: "rt_data_q_prefix_sql env rtp s = Some (rtp', s') \<Longrightarrow> sends P s s'"
  by (auto simp: rt_data_q_prefix_sql_def split: option.splits dest!: sends_dest)

lemma rate [sends_dest]: "rt_data_q_rate env rtp s = Some (ret, rtp', s') \<Longrightarrow> sends P s s'"
  by (auto simp: rt_data_q_rate_def split: if_splits Option.bind_splits dest!: sends_dest intro: sends_trans)

lemma try_modes [sends_dest]:
  "try_mode env m pre s = Some (r, pre', s') \<Longrightarrow> sends P s s'"
  "try_modes env ms pre s = Some (r, pre', s') \<Longrightarrow> sends P s s'"
proof -
  show one: "try_mode env m pre s = Some (r, pre', s') \<Longrightarrow> sends P s s'" for m pre s r pre' s'
    by (auto simp: try_mode_def Let_def split: Option.bind_splits dest!: sends_dest)
  show "try_modes env ms pre s = Some (r, pre', s') \<Longrightarrow> sends P s s'"
    by (induction ms arbitrary: pre s)
      (auto split: if_splits Option.bind_splits dest!: one intro: sends_trans)
qed

lemma voip_av_a [sends_dest]: "rt_racc_voip_av_a env pre s = Some (r, pre', s') \<Longrightarrow> sends P s s'"
  unfolding rt_racc_voip_av_a_def by (rule try_modes)

lemma find_racc [sends_dest]: "find_racc env leg t pre s = Some (r, pre', s') \<Longrightarrow> sends P s s'"
  by (auto simp: find_racc_def rt_racc_unkn_a_def rt_racc_isup_a_def rt_racc_voip_av_a_def rt_racc_voip_t_a_def
      rt_racc_sms_a_def rt_racc_unkn_b_def rt_racc_isup_b_def rt_racc_voip_t_b_def rt_racc_sms_b_def
      simp del: try_modes.simps split: if_splits dest!: sends_dest)

lemma take_result_fetch: "sends_db P p (snd (take_result (snd (db_fetch p))))"
  using db_fetch [of p] by (simp add: take_result_def)

lemma get_cdrs [sends_dest]: "cdr_get_cdrs js leg dig p = Some (cs, p') \<Longrightarrow> sends_db P p p'"
  by (rule sends_sql)
    (auto simp: cdr_get_cdrs_def simp del: not_None_eq split: if_splits option.splits list.splits Option.bind_splits
      dest!: sends_dest)

lemma select_fetch: "sends_db P p (snd (db_fetch (snd (db_select p q))))"
  by (rule sends_trans [OF db_select db_fetch])

lemma select_take: "sends_db P p (snd (take_result (snd (db_fetch (snd (db_select p q))))))"
  by (rule sends_trans [OF db_select take_result_fetch])

lemma preload_raccs [sends_dest]:
  "rt_cache_preload_raccs now c p ns server = Some (n, c', p') \<Longrightarrow> sends_db P p p'"
  by (auto simp: rt_cache_preload_raccs_def Let_def split_beta simp del: not_None_eq
      split: if_splits option.splits Option.bind_splits intro!: select_fetch select_take)

lemma preload_pcards [sends_dest]:
  "rt_cache_preload_pcards fp now c p = Some (n, c', p') \<Longrightarrow> sends_db P p p'"
  by (auto simp: rt_cache_preload_pcards_def Let_def split_beta simp del: not_None_eq
      split: if_splits option.splits Option.bind_splits intro!: select_fetch select_take)

end

section \<open>The online limit\<close>

abbreviation starts :: "string \<Rightarrow> string \<Rightarrow> bool" where "starts p q \<equiv> take (length p) q = p"

locale limiting = reading +
  assumes block: "starts ''update pcard set pcard_status_id = '' q \<Longrightarrow> P q"
begin

lemma db_update: "P q \<Longrightarrow> sends_db P p (snd (db_update p q))"
  using on_log_verb [of _ _ p q "''update''"]
  by (cases "strncasecmp0 q ''update'' 6")
   (fastforce simp: sends_db_def db_update_def db_verb_def on_log_def db_on_def via_def split: option.splits)+

lemma pcard_set [sends_dest]: "rt_data_q_pcard_set env b status s = Some (ret, s') \<Longrightarrow> sends P s s'"
  by (rule sends_st_sql)
    (auto simp: rt_data_q_pcard_set_def split_beta split: if_splits Option.bind_splits intro!: db_update block)

lemma prerating [sends_dest]: "rt_prerating_process env rtp s = Some (ret, rtp', s') \<Longrightarrow> sends P s s'"
  by (auto simp: rt_prerating_process_def Let_def simp del: not_None_eq split: if_splits Option.bind_splits
      dest!: sends_dest) (meson sends_trans)+

lemma searching [sends_dest]: "rt_rate_searching env rtp s = Some (rtp', s') \<Longrightarrow> sends P s s'"
  by (auto simp: rt_rate_searching_def split: if_splits Option.bind_splits dest!: sends_dest intro: sends_trans)

lemma ensure [simp]: "st_db (rt_cache_ensure s) = st_db s"
  by (simp add: rt_cache_ensure_def)

lemma maxsec: "rt_maxsec env pre sim s = Some (r, pre', s') \<Longrightarrow> sends P s s'"
  by (auto simp: rt_maxsec_def Let_def simp del: not_None_eq split: if_splits option.splits sum.splits Option.bind_splits
      dest!: sends_dest) (meson sends_trans)+

end

section \<open>Rating\<close>

text \<open>The statements of a rating run that write.\<close>

definition rating_heads :: "string list" where
  "rating_heads =
     [''update pcard set pcard_status_id = '',
      ''insert into rating (call_price,'',
      ''update balance set amount = '', ''insert into balance (billing_account_id,'',
      ''update free_billsec_balance set free_billsec = '', ''insert into free_billsec_balance (balance_id,'',
      ''update cdrs set leg_a = '', ''update cdrs set leg_b = '']"

lemma rating_head_starts:
  "starts ''insert into rating (call_price,'' (rating_insert_str rtp n)"
  "starts ''update balance set amount = '' (bal_update_str rtp)"
  "starts ''insert into balance (billing_account_id,'' (bal_insert_str rtp a b)"
  "starts ''update cdrs set leg_a = '' (cdr_update_str r c CHR ''a'')"
  "starts ''update cdrs set leg_b = '' (cdr_update_str r c CHR ''b'')"
  by (simp_all add: rating_insert_str_def Let_def bal_update_str_def bal_insert_str_def cdr_update_str_def)

locale booking = limiting +
  assumes head: "h \<in> set rating_heads \<Longrightarrow> starts h q \<Longrightarrow> P q"
begin

lemma heads [simp]:
  "P (rating_insert_str rtp n)" "P (bal_update_str rtp)" "P (bal_insert_str rtp a b)"
  "leg = CHR ''a'' \<or> leg = CHR ''b'' \<Longrightarrow> P (cdr_update_str r c leg)"
  by (rule head [OF _ rating_head_starts(1)], simp add: rating_heads_def)
    (rule head [OF _ rating_head_starts(2)], simp add: rating_heads_def,
     rule head [OF _ rating_head_starts(3)], simp add: rating_heads_def,
     auto intro: head [OF _ rating_head_starts(4)] head [OF _ rating_head_starts(5)] simp: rating_heads_def)

lemma db_insert: "P q \<Longrightarrow> sends_db P p (snd (db_insert p q))"
  using on_log_verb [of _ _ p q "''insert''"]
  by (cases "strncasecmp0 q ''insert'' 6")
   (fastforce simp: sends_db_def db_insert_def db_verb_def on_log_def db_on_def via_def split: option.splits)+

lemma db_query: "P q \<Longrightarrow> sends_db P p (snd (db_query p q False))"
  using on_log_query [of _ _ p q] by (fastforce simp: sends_db_def)

lemma bal_add [sends_dest]: "rt_data_q_bal_add env rtp a b s = (ret, s') \<Longrightarrow> sends P s s'"
  by (rule sends_st_sql)
    (auto simp: rt_data_q_bal_add_def rt_data_q_bal_add_sql_def split_beta split: if_splits intro!: db_update db_insert)

lemma balance_exec [sends_dest]: "rt_balance_exec env rtp a b s = Some (rtp', s') \<Longrightarrow> sends P s s'"
  by (auto simp: rt_balance_exec_def Let_def simp del: not_None_eq split: if_splits prod.splits Option.bind_splits
      dest!: sends_dest) (meson sends_trans)+

lemma create_free [sends_dest]: "create_free_billsec_balance pre s = Some (ret, pre', s') \<Longrightarrow> sends P s s'"
proof -
  define q where "q = ''insert into free_billsec_balance (balance_id,free_billsec_id,free_billsec) values ('' @
         dec_int (pre_bal_id pre) @ '','' @ dec_int (pre_free_billsec_id pre) @ '','' @
         dec_int (pre_free_billsec pre) @ '')''"
  have "P q" by (rule head [of "''insert into free_billsec_balance (balance_id,''"]) (simp_all add: rating_heads_def q_def)
  then have "sends_db P p (snd (db_insert p q))" for p by (rule db_insert)
  moreover assume "create_free_billsec_balance pre s = Some (ret, pre', s')"
  ultimately show ?thesis
    unfolding create_free_billsec_balance_def q_def [symmetric]
    by (auto simp del: not_None_eq split: if_splits dest!: sends_dest) (meson sends_trans)+
qed

lemma update_free [sends_dest]: "update_free_billsec_balance pre s = (ret, s') \<Longrightarrow> sends P s s'"
proof -
  define q where "q = ''update free_billsec_balance set free_billsec = '' @ dec_int (pre_free_billsec pre) @
           '',last_update = now() where balance_id = '' @ dec_int (pre_bal_id pre) @
           '' and free_billsec_id = '' @ dec_int (pre_free_billsec_id pre)"
  have "P q" by (rule head [of "''update free_billsec_balance set free_billsec = ''"]) (simp_all add: rating_heads_def q_def)
  then have "sends_db P p (snd (db_update p q))" for p by (rule db_update)
  moreover assume "update_free_billsec_balance pre s = (ret, s')"
  ultimately show ?thesis
    unfolding update_free_billsec_balance_def q_def [symmetric]
    by (auto simp del: not_None_eq split: if_splits)
qed

lemma free_exec [sends_dest]: "free_billsec_exec rtp a b s = Some (ret, rtp', s') \<Longrightarrow> sends P s s'"
  by (auto simp: free_billsec_exec_def Let_def split: if_splits prod.splits Option.bind_splits
      dest!: sends_dest) (meson sends_trans)+

lemma rating_add_sql [sends_dest]: "rt_data_q_rating_add_sql rtp s = Some (ret, rtp', s') \<Longrightarrow> sends P s s'"
proof -
  have q: "sends_db P p (snd (take_result (snd (db_fetch (snd (db_query p (rating_insert_str r n) False))))))" for p r n
    by (rule sends_trans [OF db_query take_result_fetch]) simp
  show "rt_data_q_rating_add_sql rtp s = Some (ret, rtp', s') \<Longrightarrow> sends P s s'"
    using q
    by (auto simp: rt_data_q_rating_add_sql_def Let_def split_beta simp del: not_None_eq
        split: if_splits option.splits list.splits Option.bind_splits dest!: sends_dest intro: sends_trans)
qed

lemma rating_add [sends_dest]: "rt_data_q_rating_add env rtp s = Some (ret, rtp', s') \<Longrightarrow> sends P s s'"
  by (rule sends_st_sql) (auto simp: rt_data_q_rating_add_def split: if_splits dest!: sends_dest)

lemma rating_save [sends_dest]: "rt_rating_save env rtp s = Some (rtp', s') \<Longrightarrow> sends P s s'"
  by (auto simp: rt_rating_save_def split: if_splits Option.bind_splits dest!: sends_dest)

lemma double_rest [sends_dest]: "double_rating_rest env rtp s = Some (ret, rtp', s') \<Longrightarrow> sends P s s'"
  by (auto simp: double_rating_rest_def split: if_splits Option.bind_splits dest!: sends_dest)

lemma double_rating [sends_dest]: "rt_double_rating env rtp s = Some (ret, rtp', s') \<Longrightarrow> sends P s s'"
  by (auto simp: rt_double_rating_def Let_def split: if_splits option.splits Option.bind_splits dest!: sends_dest)
    (meson sends_trans)+

lemma exec_price [sends_dest]: "rt_exec_price env rtp s = Some (rtp', s') \<Longrightarrow> sends P s s'"
  by (auto simp: rt_exec_price_def Let_def split: if_splits option.splits Option.bind_splits dest!: sends_dest)
    (meson sends_trans)+

lemma update_cdr [sends_dest]:
  "update_cdr r pre leg s = Some s' \<Longrightarrow> sends P s s'"
  by (rule sends_st_sql)
    (auto simp: update_cdr_def cdr_update_cdr_def simp del: not_None_eq split: if_splits intro!: db_update)

lemma exec [sends_dest]: "rt_exec env rtp leg s = Some (rtp', s') \<Longrightarrow> sends P s s'"
  by (auto simp: rt_exec_def Let_def split: if_splits option.splits Option.bind_splits dest!: sends_dest)
    (meson sends_trans)+

lemma main [sends_dest]: "rt_main env pre leg t s = Some (pre', s') \<Longrightarrow> sends P s s'"
  by (auto simp: rt_main_def Let_def split: if_splits option.splits Option.bind_splits dest!: sends_dest)
    (meson sends_trans)+

lemma worker [sends_dest]: "rt_worker_func env leg cs n s = Some (n', s') \<Longrightarrow> sends P s s'"
proof (induction cs arbitrary: n s)
  case (Cons c cs)
  obtain ok err where n: "n = (ok, err)" by (cases n)
  from Cons.prems [unfolded n rt_worker_func.simps] obtain pre s1 n1 where
    "rt_main env (rt_cdr_to_rating env c rating0) leg (uint (cdr_cdr_rec_type_id c)) s = Some (pre, s1)"
    "rt_worker_func env leg cs n1 s1 = Some (n', s')"
    by (auto split: Option.bind_splits if_splits)
  then show ?case using main Cons.IH by (blast intro: sends_trans)
qed simp

lemma loop: "rt_loop env leg s = Some (n, s') \<Longrightarrow> sends P s s'"
  by (auto simp: rt_loop_def Let_def simp del: not_None_eq split: if_splits option.splits list.splits Option.bind_splits
      dest!: sends_dest) (meson sends_trans)+

end

section \<open>What is sent\<close>

definition limit_statement :: "string \<Rightarrow> bool" where
  "limit_statement q \<longleftrightarrow> is_select q \<or> starts ''update pcard set pcard_status_id = '' q"

definition rating_statement :: "string \<Rightarrow> bool" where
  "rating_statement q \<longleftrightarrow> is_select q \<or> list_ex (\<lambda>h. starts h q) rating_heads"

interpretation lim: limiting limit_statement
  by unfold_locales (simp_all add: limit_statement_def)

interpretation run: booking rating_statement
  by unfold_locales (auto simp: rating_statement_def list_ex_iff rating_heads_def)

end
