(* ===== verification/CdrRecords.thy ===== *)
theory CdrRecords
  imports Cdr RateSearch "HOL-Library.Sublist"
begin

text \<open>
  Call records stay within their arrays: reading a row, the setters and the prefix filters keep
  the invariant \<open>cdr_ok\<close>, and the statement that stores a record fits its buffer.
\<close>

section \<open>The invariant of a record\<close>

lemma cdr_field_set_length [simp]: "0 < n \<Longrightarrow> length (cdr_field_set s n) < n"
  by (simp add: cdr_field_set_def strncpy_def)

lemma cdr_ok_init [simp]: "cdr_ok cdr0"
  by (simp add: cdr_ok_def cdr0_def)

lemma cdr_ok_upd [simp]:
  "cdr_ok (cdr_id_update g1 c) = cdr_ok c"
  "cdr_ok (cdr_cdr_server_id_update g2 c) = cdr_ok c"
  "cdr_ok (cdr_cdr_rec_type_id_update g3 c) = cdr_ok c"
  "cdr_ok (cdr_leg_a_update g4 c) = cdr_ok c"
  "cdr_ok (cdr_leg_b_update g5 c) = cdr_ok c"
  "cdr_ok (cdr_start_epoch_update g6 c) = cdr_ok c"
  "cdr_ok (cdr_answer_epoch_update g7 c) = cdr_ok c"
  "cdr_ok (cdr_end_epoch_update g8 c) = cdr_ok c"
  "cdr_ok (cdr_c_epoch_update g9 c) = cdr_ok c"
  "cdr_ok (cdr_dow_update g10 c) = cdr_ok c"
  "cdr_ok (cdr_clg_nadi_update g11 c) = cdr_ok c"
  "cdr_ok (cdr_cld_nadi_update g12 c) = cdr_ok c"
  "cdr_ok (cdr_rdnis_nadi_update g13 c) = cdr_ok c"
  "cdr_ok (cdr_ocn_nadi_update g14 c) = cdr_ok c"
  "cdr_ok (cdr_prefix_filter_id_update g15 c) = cdr_ok c"
  "cdr_ok (cdr_billsec_update g16 c) = cdr_ok c"
  "cdr_ok (cdr_duration_update g17 c) = cdr_ok c"
  "cdr_ok (cdr_uduration_update g18 c) = cdr_ok c"
  "cdr_ok (cdr_billusec_update g19 c) = cdr_ok c"
  by (simp_all add: cdr_ok_def)

lemma cdr_ok_upd_string [simp]:
  "cdr_ok c \<Longrightarrow> length s < 32 \<Longrightarrow> cdr_ok (c\<lparr>cdr_profile_name := s\<rparr>)"
  "cdr_ok c \<Longrightarrow> length s < 128 \<Longrightarrow> cdr_ok (c\<lparr>cdr_call_uid := s\<rparr>)"
  "cdr_ok c \<Longrightarrow> length s < 32 \<Longrightarrow> cdr_ok (c\<lparr>cdr_start_ts := s\<rparr>)"
  "cdr_ok c \<Longrightarrow> length s < 32 \<Longrightarrow> cdr_ok (c\<lparr>cdr_answer_ts := s\<rparr>)"
  "cdr_ok c \<Longrightarrow> length s < 32 \<Longrightarrow> cdr_ok (c\<lparr>cdr_end_ts := s\<rparr>)"
  "cdr_ok c \<Longrightarrow> length s < 80 \<Longrightarrow> cdr_ok (c\<lparr>cdr_src := s\<rparr>)"
  "cdr_ok c \<Longrightarrow> length s < 80 \<Longrightarrow> cdr_ok (c\<lparr>cdr_dst := s\<rparr>)"
  "cdr_ok c \<Longrightarrow> length s < 80 \<Longrightarrow> cdr_ok (c\<lparr>cdr_calling_number := s\<rparr>)"
  "cdr_ok c \<Longrightarrow> length s < 80 \<Longrightarrow> cdr_ok (c\<lparr>cdr_called_number := s\<rparr>)"
  "cdr_ok c \<Longrightarrow> length s < 80 \<Longrightarrow> cdr_ok (c\<lparr>cdr_rdnis := s\<rparr>)"
  "cdr_ok c \<Longrightarrow> length s < 80 \<Longrightarrow> cdr_ok (c\<lparr>cdr_ocn := s\<rparr>)"
  "cdr_ok c \<Longrightarrow> length s < 80 \<Longrightarrow> cdr_ok (c\<lparr>cdr_account_code := s\<rparr>)"
  "cdr_ok c \<Longrightarrow> length s < 80 \<Longrightarrow> cdr_ok (c\<lparr>cdr_src_context := s\<rparr>)"
  "cdr_ok c \<Longrightarrow> length s < 80 \<Longrightarrow> cdr_ok (c\<lparr>cdr_src_tgroup := s\<rparr>)"
  "cdr_ok c \<Longrightarrow> length s < 80 \<Longrightarrow> cdr_ok (c\<lparr>cdr_dst_context := s\<rparr>)"
  "cdr_ok c \<Longrightarrow> length s < 80 \<Longrightarrow> cdr_ok (c\<lparr>cdr_dst_tgroup := s\<rparr>)"
  by (simp_all add: cdr_ok_def)

definition keeps_ok :: "cdr_func \<Rightarrow> bool" where
  "keeps_ok f \<longleftrightarrow> (\<forall>c txt c'. cdr_ok c \<longrightarrow> f c txt = Some c' \<longrightarrow> cdr_ok c')"

lemma setters_keep_ok:
  "keeps_ok cdr_add_id"
  "keeps_ok cdr_add_cdr_server_id"
  "keeps_ok cdr_add_cdr_rec_type"
  "keeps_ok cdr_add_leg_a"
  "keeps_ok cdr_add_leg_b"
  "keeps_ok cdr_add_call_uid"
  "keeps_ok cdr_add_start_ts"
  "keeps_ok cdr_add_answer_ts"
  "keeps_ok cdr_add_end_ts"
  "keeps_ok cdr_add_start_epoch"
  "keeps_ok cdr_add_answer_epoch"
  "keeps_ok cdr_add_end_epoch"
  "keeps_ok cdr_add_src"
  "keeps_ok cdr_add_dst"
  "keeps_ok cdr_add_calling_number"
  "keeps_ok cdr_add_clg_nadi"
  "keeps_ok cdr_add_called_number"
  "keeps_ok cdr_add_cld_nadi"
  "keeps_ok cdr_add_rdnis"
  "keeps_ok cdr_add_rdnis_nadi"
  "keeps_ok cdr_add_ocn"
  "keeps_ok cdr_add_ocn_nadi"
  "keeps_ok cdr_add_prefix_filter_id"
  "keeps_ok cdr_add_account_code"
  "keeps_ok cdr_add_src_context"
  "keeps_ok cdr_add_src_tgroup"
  "keeps_ok cdr_add_dst_context"
  "keeps_ok cdr_add_dst_tgroup"
  "keeps_ok cdr_add_billsec"
  "keeps_ok cdr_add_duration"
  "keeps_ok cdr_add_uduration"
  "keeps_ok cdr_add_billusec"
  by (auto simp: keeps_ok_def cdr_add_defs split: Option.bind_splits)

lemma cdr_func_ok:
  "(name, f) \<in> set cdr_tbl \<Longrightarrow> keeps_ok f"
proof -
  have "list_all (\<lambda>(n, f). keeps_ok f) cdr_tbl" by (simp add: cdr_tbl_def setters_keep_ok)
  then show "(name, f) \<in> set cdr_tbl \<Longrightarrow> keeps_ok f" by (auto simp: list_all_iff)
qed

lemma set_cols_ok:
  "set_cols tbl row i c = Some c' \<Longrightarrow> set tbl \<subseteq> set cdr_tbl \<Longrightarrow> cdr_ok c \<Longrightarrow> cdr_ok c'"
proof (induction tbl row i c rule: set_cols.induct)
  case (2 name f tbl row i c)
  then show ?case using cdr_func_ok [of name f] by (auto simp: keeps_ok_def split: Option.bind_splits)
qed simp

lemma cdr_row_ok: "cdr_row row = Some c \<Longrightarrow> cdr_ok c"
  unfolding cdr_row_def by (erule set_cols_ok) simp_all

lemma records_fit:
  assumes "cdr_get_cdrs js leg dig dbp = Some (Some cs, dbp')" "db_type dbp = sql"
  shows "\<forall>c \<in> set cs. cdr_ok c"
proof -
  obtain rows where "those_list (map cdr_row rows) = Some cs"
    using assms
    by (auto simp: cdr_get_cdrs_def simp del: list.map(2) split: if_splits option.splits list.splits Option.bind_splits)
  then have "list_all cdr_ok cs"
  proof (induction rows arbitrary: cs)
    case (Cons row rows)
    then show ?case by (auto split: Option.bind_splits dest: cdr_row_ok)
  qed simp
  then show ?thesis by (simp add: list_all_iff)
qed

text \<open>Property C35. Every record read from the table \<open>cdrs\<close> fits its arrays, whatever the rows
  hold: the setters cut every text to its field, the terminator included.\<close>

theorem records_read_fit:
  assumes "cdr_get_cdrs js leg dig dbp = Some (Some cs, dbp')" "db_type dbp = sql"
  shows "\<forall>c \<in> set cs. cdr_ok c"
  by (rule records_fit [OF assms])

section \<open>Storing a record\<close>

lemma escs_length_le: "length (escs s) \<le> 2 * length s"
proof (induction s)
  case (Cons c s)
  then show ?case using esc_length [of c] by simp
qed simp

lemma escaped_fits: "2 * length s + 2 \<le> n \<Longrightarrow> escaped s (int n) = Some (escs s)"
  using escape_fits [of s n] escs_length_le [of s] by (simp add: escaped_def)

lemma dec_int_length: "\<bar>i\<bar> < 10 ^ k \<Longrightarrow> 0 < k \<Longrightarrow> length (dec_int i) \<le> Suc k"
proof -
  assume i: "\<bar>i\<bar> < 10 ^ k" and k: "0 < k"
  have "nat \<bar>i\<bar> < 10 ^ k" using i by (simp add: nat_less_iff)
  then have "length (dec_nat (nat \<bar>i\<bar>)) \<le> k" using k by (rule dec_nat_length)
  then show ?thesis by (auto simp: dec_int_def split: if_splits)
qed

lemma fmt_u_length: "length (fmt_u w) \<le> 11"
proof -
  have "\<bar>sint w\<bar> < 10 ^ 10" using sint_lt [of w] sint_ge [of w] by simp
  then show ?thesis unfolding fmt_u_def using dec_int_length [of "sint w" 10] by simp
qed

lemma u16_length: "length (dec_int (uint (w :: u16))) \<le> 6"
proof -
  have "\<bar>uint w\<bar> < 10 ^ 5" using uint_lt2p [of w] by simp
  then show ?thesis using dec_int_length [of "uint w" 5] by simp
qed

lemma join_cols_length: "length (join_cols xs) \<le> sum_list (map (\<lambda>x. Suc (length x)) xs)"
  by (induction xs rule: join_cols.induct) auto

lemma quoted_length [simp]: "length (quoted s) = length s + 2"
  by (simp add: quoted_def)

text \<open>The statement before it is cut to the buffer.\<close>

definition insert_head :: "string \<Rightarrow> string" where
  "insert_head e = (if e = ''mysql'' then ''insert ignore into'' else ''insert into'')"

definition insert_tail :: "string \<Rightarrow> string" where
  "insert_tail e = '')'' @ (if e = ''mysql'' then [] else '' on conflict do nothing'')"

lemma insert_str_complete:
  assumes "cdr_ok c"
  shows "\<exists>m. cdr_insert_str e c = Some (insert_head e @ '' cdrs '' @ m @ insert_tail e) \<and>
    length (insert_head e @ '' cdrs '' @ m @ insert_tail e) < 4095"
proof -
  have e: "escaped (cdr_call_uid c) 257 = Some (escs (cdr_call_uid c))"
    "escaped (cdr_start_ts c) 65 = Some (escs (cdr_start_ts c))"
    "escaped (cdr_answer_ts c) 65 = Some (escs (cdr_answer_ts c))"
    "escaped (cdr_end_ts c) 65 = Some (escs (cdr_end_ts c))"
    and e80: "length s < 80 \<Longrightarrow> escaped s 161 = Some (escs s)" for s
    using assms escaped_fits [of "cdr_call_uid c" 257] escaped_fits [of "cdr_start_ts c" 65]
      escaped_fits [of "cdr_answer_ts c" 65] escaped_fits [of "cdr_end_ts c" 65] escaped_fits [of s 161]
    by (simp_all add: cdr_ok_def)
  have l: "length s < n \<Longrightarrow> length (escs s) \<le> 2 * n - 2" for s n using escs_length_le [of s] by simp
  define vals where "vals = [dec_int (uint (cdr_cdr_server_id c)), dec_int (uint (cdr_cdr_rec_type_id c)),
     fmt_u (cdr_leg_a c), fmt_u (cdr_leg_b c),
     quoted (escs (cdr_call_uid c)), quoted (escs (cdr_start_ts c)), quoted (escs (cdr_answer_ts c)),
     quoted (escs (cdr_end_ts c)), fmt_u (cdr_start_epoch c), fmt_u (cdr_answer_epoch c), fmt_u (cdr_end_epoch c),
     quoted (escs (cdr_src c)), quoted (escs (cdr_dst c)), quoted (escs (cdr_calling_number c)),
     dec_int (uint (cdr_clg_nadi c)), quoted (escs (cdr_called_number c)), dec_int (uint (cdr_cld_nadi c)),
     quoted (escs (cdr_rdnis c)), dec_int (uint (cdr_rdnis_nadi c)), quoted (escs (cdr_ocn c)),
     dec_int (uint (cdr_ocn_nadi c)), dec_int (uint (cdr_prefix_filter_id c)),
     quoted (escs (cdr_account_code c)), quoted (escs (cdr_src_context c)), quoted (escs (cdr_src_tgroup c)),
     quoted (escs (cdr_dst_context c)), quoted (escs (cdr_dst_tgroup c)),
     fmt_u (cdr_billsec c), fmt_u (cdr_duration c), fmt_u (cdr_uduration c), fmt_u (cdr_billusec c)]"
  define cols where "cols = ''(cdr_server_id,cdr_rec_type_id,leg_a,leg_b,'' @
       ''call_uid,start_ts,answer_ts,end_ts,start_epoch,answer_epoch,end_epoch,'' @
       ''src,dst,calling_number,clg_nadi,called_number,cld_nadi,'' @
       ''rdnis,rdnis_nadi,ocn,ocn_nadi,prefix_filter_id,'' @
       ''account_code,src_context,src_tgroup,dst_context,dst_tgroup,'' @
       ''billsec,duration,uduration,billusec) values (''"
  have fit: "length (escs (cdr_call_uid c)) \<le> 254" "length (escs (cdr_start_ts c)) \<le> 62"
    "length (escs (cdr_answer_ts c)) \<le> 62" "length (escs (cdr_end_ts c)) \<le> 62"
    "length (escs (cdr_src c)) \<le> 158" "length (escs (cdr_dst c)) \<le> 158" "length (escs (cdr_calling_number c)) \<le> 158"
    "length (escs (cdr_called_number c)) \<le> 158" "length (escs (cdr_rdnis c)) \<le> 158" "length (escs (cdr_ocn c)) \<le> 158"
    "length (escs (cdr_account_code c)) \<le> 158" "length (escs (cdr_src_context c)) \<le> 158"
    "length (escs (cdr_src_tgroup c)) \<le> 158" "length (escs (cdr_dst_context c)) \<le> 158"
    "length (escs (cdr_dst_tgroup c)) \<le> 158"
    using assms l [of _ 128] l [of _ 32] l [of _ 80] by (auto simp: cdr_ok_def)
  have "sum_list (map (\<lambda>x. Suc (length x)) vals) \<le> 2600"
    unfolding vals_def
    using fit fmt_u_length [of "cdr_leg_a c"] fmt_u_length [of "cdr_leg_b c"] fmt_u_length [of "cdr_start_epoch c"]
      fmt_u_length [of "cdr_answer_epoch c"] fmt_u_length [of "cdr_end_epoch c"] fmt_u_length [of "cdr_billsec c"]
      fmt_u_length [of "cdr_duration c"] fmt_u_length [of "cdr_uduration c"] fmt_u_length [of "cdr_billusec c"]
      u16_length [of "cdr_cdr_server_id c"] u16_length [of "cdr_cdr_rec_type_id c"] u16_length [of "cdr_clg_nadi c"]
      u16_length [of "cdr_cld_nadi c"] u16_length [of "cdr_rdnis_nadi c"] u16_length [of "cdr_ocn_nadi c"]
      u16_length [of "cdr_prefix_filter_id c"]
    by (simp only: list.map sum_list.Cons sum_list.Nil quoted_length)
  then have "length (join_cols vals) \<le> 2600" using join_cols_length [of vals] by linarith
  moreover have "length cols < 500" by (simp add: cols_def)
  moreover have "length (insert_head e) < 20" "length (insert_tail e) < 30"
    by (simp_all add: insert_head_def insert_tail_def)
  ultimately have len: "length (insert_head e @ '' cdrs '' @ (cols @ join_cols vals) @ insert_tail e) < 4095" by simp
  have "cdr_insert_str e c = Some (strncpy (insert_head e @ '' cdrs '' @ (cols @ join_cols vals) @ insert_tail e) 4095)"
    using assms unfolding cdr_insert_str_def cdr_ok_def
    by (simp add: e e80 Let_def vals_def cols_def insert_head_def insert_tail_def)
  then show ?thesis using len unfolding strncpy_def by (metis order.strict_implies_order take_all)
qed

section \<open>Prefix filters\<close>

text \<open>What a filter does to a number it applies to: its prefix matches, its length too when it
  has one, and the number it makes is not empty.\<close>

definition rewritten :: "filter \<Rightarrow> string \<Rightarrow> string" where
  "rewritten f n = fl_replace_str f @ (if fl_filtering_number f < 0 then [] else drop (nat (fl_filtering_number f)) n)"

definition filter_applies :: "string \<Rightarrow> filter \<Rightarrow> bool" where
  "filter_applies n f \<longleftrightarrow> prefix (fl_filtering_prefix f) n \<and> (fl_len f \<le> 0 \<or> int (length n) = fl_len f) \<and>
     rewritten f n \<noteq> []"

text \<open>A filter that cannot overflow the buffers.\<close>

definition filter_fits :: "filter \<Rightarrow> bool" where
  "filter_fits f \<longleftrightarrow> length (fl_filtering_prefix f) < 32 \<and>
     (fl_replace_str f = [] \<or> int (length (fl_replace_str f)) \<le> fl_filtering_number f)"

definition apply_filter :: "filter \<Rightarrow> cdr \<Rightarrow> cdr" where
  "apply_filter f c = c\<lparr>cdr_called_number := rewritten f (cdr_called_number c),
     cdr_prefix_filter_id := word_of_int (fl_id f)\<rparr>"

lemma take_prefix_iff: "take (length p) n = p \<longleftrightarrow> prefix p n"
  by (metis append_eq_conv_conj prefix_def take_is_prefix)

lemma rewritten_short:
  assumes "filter_fits f" "length n < 80" "length (fl_replace_str f) < 80"
  shows "length (rewritten f n) < 80"
proof -
  have "length (fl_replace_str f) + (length n - k) < 80" if "fl_replace_str f = [] \<or> length (fl_replace_str f) \<le> k" for k
    using that assms(2,3) by auto
  then show ?thesis using assms
    by (cases "fl_filtering_number f < 0") (simp_all add: rewritten_def filter_fits_def nat_le_iff[symmetric] le_nat_iff)
qed

lemma cuti_replace_spec:
  assumes "filter_fits f" "length n < 80" "length (fl_replace_str f) < 80"
  shows "prefix_filter_cuti_replace n (fl_filtering_prefix f) (fl_filtering_number f) (fl_replace_str f) (fl_len f) =
    Some (if filter_applies n f then rewritten f n else [])"
proof -
  have "length (rewritten f n) < 80" using rewritten_short [OF assms(1,2)] assms(3) by simp
  then show ?thesis
    using assms(1) by (auto simp: prefix_filter_cuti_replace_def filter_applies_def filter_fits_def rewritten_def Let_def
        take_prefix_iff)
qed

lemma filter_match_first:
  assumes "\<forall>f \<in> set fs. filter_fits f \<and> length (fl_replace_str f) < 80" "length (cdr_called_number c) < 80"
  shows "cdr_called_number_filtering_match fs c =
    Some (case find (filter_applies (cdr_called_number c)) (takeWhile (\<lambda>f. fl_id f \<noteq> 0) fs) of
       None \<Rightarrow> c | Some f \<Rightarrow> apply_filter f c)"
  using assms
proof (induction fs)
  case (Cons f fs)
  then show ?case
    by (auto simp: cuti_replace_spec apply_filter_def) (simp add: filter_applies_def)+
qed simp

lemma filter_match_ok:
  assumes "\<forall>f \<in> set fs. filter_fits f \<and> length (fl_replace_str f) < 80" "cdr_ok c"
    and "cdr_called_number_filtering_match fs c = Some c'"
  shows "cdr_ok c'"
proof -
  have n: "length (cdr_called_number c) < 80" using assms(2) by (simp add: cdr_ok_def)
  have "cdr_ok (apply_filter f c)" if "f \<in> set fs" for f
    using assms(1,2) that rewritten_short [OF _ n, of f] by (simp add: apply_filter_def)
  moreover have "f \<in> set fs" if "find P (takeWhile Q fs) = Some f" for f P Q
    using that by (metis find_Some_iff nth_mem set_takeWhileD)
  ultimately show ?thesis using filter_match_first [OF assms(1) n] assms(2,3)
    by (auto split: option.splits)
qed

text \<open>The called number of a new record is rewritten by the first filter, in the
  order of the table and up to the end mark, whose prefix and length match and whose result is
  not empty; its id is stored; without such a filter the record is left alone. This holds for
  filters that replace at least as many characters as they put in front.\<close>

theorem filter_match_spec:
  assumes "\<forall>f \<in> set fs. filter_fits f \<and> length (fl_replace_str f) < 80" "length (cdr_called_number c) < 80"
  shows "cdr_called_number_filtering_match fs c =
    Some (case find (filter_applies (cdr_called_number c)) (takeWhile (\<lambda>f. fl_id f \<noteq> 0) fs) of
       None \<Rightarrow> c | Some f \<Rightarrow> apply_filter f c)"
  by (rule filter_match_first [OF assms])

definition demo_filters :: "filter list" where
  "demo_filters =
     [\<lparr>fl_id = 1, fl_filtering_prefix = ''00'', fl_filtering_number = 2, fl_replace_str = [], fl_cdr_server_id = 1, fl_len = 9\<rparr>,
      \<lparr>fl_id = 2, fl_filtering_prefix = ''08'', fl_filtering_number = 1, fl_replace_str = [], fl_cdr_server_id = 1, fl_len = 0\<rparr>,
      \<lparr>fl_id = 3, fl_filtering_prefix = ''0'', fl_filtering_number = 3, fl_replace_str = ''359'', fl_cdr_server_id = 1, fl_len = 0\<rparr>]"

theorem filter_match_spec_witness:
  "cdr_called_number_filtering_match demo_filters (cdr0\<lparr>cdr_called_number := ''0888123456''\<rparr>) =
     Some (cdr0\<lparr>cdr_called_number := ''888123456'', cdr_prefix_filter_id := 2\<rparr>)"
proof -
  have "\<forall>f \<in> set demo_filters. filter_fits f \<and> length (fl_replace_str f) < 80"
    by (simp add: demo_filters_def filter_fits_def)
  then show ?thesis
    using filter_match_spec [of demo_filters "cdr0\<lparr>cdr_called_number := ''0888123456''\<rparr>"]
    by (simp add: demo_filters_def filter_applies_def apply_filter_def rewritten_def)
qed

text \<open>A filter that puts more in front than it takes away overflows the buffer of 80 bytes.\<close>

lemma filter_overflow:
  "prefix_filter_cuti_replace (replicate 79 (CHR ''1'')) ''1'' 1 ''00'' 0 = None"
  by code_simp

section \<open>Storing a record: the statement\<close>

lemma stored_once:
  assumes "cdr_ok c" "\<forall>f \<in> set fs. filter_fits f \<and> length (fl_replace_str f) < 80"
  shows "\<exists>c' q m. cdr_add_in_db ep js c (Some fs) (rdb ans lg r) =
      Some (fst (ans lg q), c', rdb ans (lg @ [q]) (snd (ans lg q))) \<and>
    cdr_ok c' \<and> cdr_called_number_filtering_match fs
      (c\<lparr>cdr_start_ts := trim_ts (cdr_start_ts c), cdr_answer_ts := trim_ts (cdr_answer_ts c),
         cdr_end_ts := trim_ts (cdr_end_ts c)\<rparr>) = Some c' \<and>
    cdr_insert_str [] c' = Some q \<and> q = insert_head [] @ '' cdrs '' @ m @ insert_tail [] \<and> length q < 4095"
proof -
  define c1 where "c1 = c\<lparr>cdr_start_ts := trim_ts (cdr_start_ts c), cdr_answer_ts := trim_ts (cdr_answer_ts c),
         cdr_end_ts := trim_ts (cdr_end_ts c)\<rparr>"
  have "length (trim_ts s) < 32" if "length s < 32" for s
    using that by (simp add: trim_ts_def convert_datetime_def strncpy_def)
  then have c1: "cdr_ok c1" using assms(1) by (simp add: c1_def cdr_ok_def)
  then have n: "length (cdr_called_number c1) < 80" by (simp add: cdr_ok_def)
  obtain c' where c': "cdr_called_number_filtering_match fs c1 = Some c'"
    using filter_match_first [OF assms(2) n] by simp
  have ok: "cdr_ok c'" by (rule filter_match_ok [OF assms(2) c1 c'])
  obtain m where m: "cdr_insert_str [] c' = Some (insert_head [] @ '' cdrs '' @ m @ insert_tail [])"
    "length (insert_head [] @ '' cdrs '' @ m @ insert_tail []) < 4095"
    using insert_str_complete [OF ok] by blast
  define q where "q = insert_head [] @ '' cdrs '' @ m @ insert_tail []"
  have "strncasecmp0 q ''insert'' 6" using verb_prefix(3) by (simp add: q_def insert_head_def)
  then have "\<exists>d cc. rdb ans lg r = Some d \<and> db_conn d = Some cc \<and> cn_enginename cc = [] \<and>
      db_insert (Some d) q = (fst (ans lg q), rdb ans (lg @ [q]) (snd (ans lg q)))"
    using rdb_insert [of q ans lg r] by (simp add: rdb_def db_conn_init_def)
  then have "cdr_add_in_db_query c' (rdb ans lg r) = Some (fst (ans lg q), rdb ans (lg @ [q]) (snd (ans lg q)))"
    using m(1) [folded q_def]
    by (auto simp: cdr_add_in_db_query_def)
  then have "cdr_add_in_db ep js c (Some fs) (rdb ans lg r) =
      Some (fst (ans lg q), c', rdb ans (lg @ [q]) (snd (ans lg q)))"
    using c' by (simp add: cdr_add_in_db_def c1_def [symmetric]) (simp add: rdb_def db_type_def)
  then show ?thesis using ok c' m c1_def q_def by blast
qed

text \<open>Property C36. A record is stored by exactly one complete statement: with records and filters
  that fit, \<open>cdr_add_in_db\<close> never fails on its way to the database, the engine receives one
  insert, uncut, for the record with its number rewritten, and the result is the engine's.\<close>

theorem cdr_stored_once:
  assumes "cdr_ok c" "\<forall>f \<in> set fs. filter_fits f \<and> length (fl_replace_str f) < 80"
  shows "\<exists>c' q m. cdr_add_in_db ep js c (Some fs) (rdb ans lg r) =
      Some (fst (ans lg q), c', rdb ans (lg @ [q]) (snd (ans lg q))) \<and>
    cdr_ok c' \<and> cdr_called_number_filtering_match fs
      (c\<lparr>cdr_start_ts := trim_ts (cdr_start_ts c), cdr_answer_ts := trim_ts (cdr_answer_ts c),
         cdr_end_ts := trim_ts (cdr_end_ts c)\<rparr>) = Some c' \<and>
    cdr_insert_str [] c' = Some q \<and> q = insert_head [] @ '' cdrs '' @ m @ insert_tail [] \<and> length q < 4095"
  by (rule stored_once [OF assms])

theorem cdr_stored_once_witness:
  "\<exists>q. cdr_add_in_db (\<lambda>_. 0) (\<lambda>_. ([], [])) (cdr0\<lparr>cdr_called_number := ''0888123456''\<rparr>) (Some demo_filters)
        (rdb (\<lambda>_ _. (0, None)) [] None) =
      Some (0, cdr0\<lparr>cdr_called_number := ''888123456'', cdr_prefix_filter_id := 2\<rparr>, rdb (\<lambda>_ _. (0, None)) [q] None) \<and>
      length q < 4095"
proof -
  have f: "\<forall>f \<in> set demo_filters. filter_fits f \<and> length (fl_replace_str f) < 80"
    by (simp add: demo_filters_def filter_fits_def)
  have c: "cdr_ok (cdr0\<lparr>cdr_called_number := ''0888123456''\<rparr>)" by simp
  have t: "cdr0\<lparr>cdr_called_number := x, cdr_start_ts := trim_ts [], cdr_answer_ts := trim_ts [], cdr_end_ts := trim_ts []\<rparr>
      = cdr0\<lparr>cdr_called_number := x\<rparr>" for x
    by (simp add: cdr0_def trim_ts_def)
  have z: "cdr_start_ts cdr0 = []" "cdr_answer_ts cdr0 = []" "cdr_end_ts cdr0 = []" by (simp_all add: cdr0_def)
  have m: "cdr_called_number_filtering_match demo_filters (cdr0\<lparr>cdr_called_number := ''0888123456''\<rparr>) =
     Some (cdr0\<lparr>cdr_called_number := ''888123456'', cdr_prefix_filter_id := 2\<rparr>)"
    using filter_match_first [of demo_filters "cdr0\<lparr>cdr_called_number := ''0888123456''\<rparr>"] f
    by (simp add: demo_filters_def filter_applies_def apply_filter_def rewritten_def)
  show ?thesis using cdr_stored_once [OF c f, of "\<lambda>_. 0" "\<lambda>_. ([], [])" "\<lambda>_ _. (0, None)" "[]" None] m
    by (auto simp: z t)
qed

text \<open>A batch of one row.\<close>

definition row_88 :: "string list" where
  "row_88 = [''5'', ''1'', ''3''] @ replicate 11 ''0'' @ [replicate 90 (CHR ''8'')] @ replicate 17 ''0''"

theorem records_read_fit_witness:
  "\<exists>c p. cdr_get_cdrs (\<lambda>_ c. c) CHR ''a'' 0 (rdb (\<lambda>_ _. (0, Some [row_88])) [] None) = Some (Some [c], p) \<and> cdr_ok c"
proof -
  have "map_option (map_option length \<circ> fst) (cdr_get_cdrs (\<lambda>_ c. c) CHR ''a'' 0 (rdb (\<lambda>_ _. (0, Some [row_88])) [] None)) =
      Some (Some 1)"
    by code_simp
  then obtain c p where g: "cdr_get_cdrs (\<lambda>_ c. c) CHR ''a'' 0 (rdb (\<lambda>_ _. (0, Some [row_88])) [] None) = Some (Some [c], p)"
    by (auto simp: length_Suc_conv)
  moreover have "db_type (rdb (\<lambda>_ _. (0, Some [row_88])) [] None) = sql" by (simp add: rdb_def db_type_def)
  ultimately show ?thesis using records_read_fit [OF g] by auto
qed

end
