(* ===== verification/Marking.thy ===== *)
theory Marking
  imports Statements CdrRecords
begin

text \<open>
  Every call of a batch ends up marked: rating never changes which call it works on, so the
  update of \<open>cdrs\<close> that closes the rating of a call names that call, with the number of its
  rating or \<open>-1\<close>. The calls of the types the engine does not know are never marked, and such a
  batch is fetched again and again.
\<close>

section \<open>The call that is rated\<close>

definition call_of :: "rating \<Rightarrow> int \<times> string \<times> string \<times> string \<times> int" where
  "call_of p = (pre_cdr_id p, pre_call_uid p, pre_clg p, pre_cld p, pre_ts p)"

abbreviation call :: "racc \<Rightarrow> int \<times> string \<times> string \<times> string \<times> int" where
  "call r \<equiv> call_of (ra_pre r)"

text \<open>The JSON codec of a balance fills the balance.\<close>

definition balance_codec :: "rt_env \<Rightarrow> bool" where
  "balance_codec env \<longleftrightarrow> (\<forall>m r. call (snd (js_balance_get env m r)) = call r)"

named_theorems same_call

lemma call_of_upd [simp]:
  "call_of (p\<lparr>pre_rating_id := i\<rparr>) = call_of p" "call_of (p\<lparr>pre_tariff_id := i\<rparr>) = call_of p"
  "call_of (p\<lparr>pre_tc := t\<rparr>) = call_of p" "call_of (p\<lparr>pre_tc_id := i\<rparr>) = call_of p"
  "call_of (p\<lparr>pre_free_billsec_limit := i\<rparr>) = call_of p" "call_of (p\<lparr>pre_free_billsec_sum := i\<rparr>) = call_of p"
  "call_of (p\<lparr>pre_free_billsec := i\<rparr>) = call_of p" "call_of (p\<lparr>pre_free_id := i\<rparr>) = call_of p"
  "call_of (p\<lparr>pre_rate_id := i\<rparr>) = call_of p" "call_of (p\<lparr>pre_prefix_id := i\<rparr>) = call_of p"
  "call_of (p\<lparr>pre_free_billsec_id := i\<rparr>) = call_of p" "call_of (p\<lparr>pre_billsec := i\<rparr>) = call_of p"
  "call_of (p\<lparr>pre_cprice := x\<rparr>) = call_of p" "call_of (p\<lparr>pre_rating_mode_id := i\<rparr>) = call_of p"
  by (simp_all add: call_of_def)

lemma tc_ts_cmp_loop_call [same_call]: "tc_ts_cmp_loop d t tcs pre = Some (h, pre') \<Longrightarrow> call_of pre' = call_of pre"
  by (induction tcs) (auto simp: Let_def split_beta split: if_splits Option.bind_splits)

lemma search_call [same_call]:
  "tc_ts_cmp lt pre = Some (h, pre') \<Longrightarrow> call_of pre' = call_of pre"
  "f_time_cond_query_v2 pre s = Some (ret, pre', s') \<Longrightarrow> call_of pre' = call_of pre"
  "f_free_billsec_query pre s = Some (ret, pre', s') \<Longrightarrow> call_of pre' = call_of pre"
  "f_free_billsec_bal_query_2 pre s = Some (ret, pre', s') \<Longrightarrow> call_of pre' = call_of pre"
  "f_free_bal_id_query pre s = Some (ret, pre', s') \<Longrightarrow> call_of pre' = call_of pre"
  "free_billsec_sms_balance rtp a b s = Some (ret, rtp', s') \<Longrightarrow> call rtp' = call rtp"
  "free_billsec_balance_v2 rtp a b s = Some (ret, rtp', s') \<Longrightarrow> call rtp' = call rtp"
  by (auto simp: tc_ts_cmp_def f_time_cond_query_v2_def f_free_billsec_query_def f_free_billsec_bal_query_2_def
      f_free_bal_id_query_def free_billsec_sms_balance_def free_billsec_balance_v2_def fb_query_def Let_def
      split: if_splits option.splits list.splits Option.bind_splits dest!: same_call)

lemma tr_opt_call [same_call]: "rt_chk_tr_opt env pre s = Some (pre', s') \<Longrightarrow> call_of pre' = call_of pre"
  by (auto simp: rt_chk_tr_opt_def tr_opt_tc_def Let_def split_beta split: if_splits option.splits Option.bind_splits
      dest!: same_call)

lemma tariff_call [same_call]: "rt_data_q_tariff_sql env rtp s = Some (ret, rtp', s') \<Longrightarrow> ra_pre rtp' = ra_pre rtp"
  by (auto simp: rt_data_q_tariff_sql_def set_calc_funcs_def Let_def split: if_splits option.splits list.splits prod.splits
      Option.bind_splits)

lemma prefix_call [same_call]: "prefix_loop env rts rtp s = Some (rtp', s') \<Longrightarrow> call rtp' = call rtp"
  by (induction rts arbitrary: rtp s) (auto simp: Let_def split: if_splits Option.bind_splits dest!: same_call)

lemma rate_call [same_call]: "rt_data_q_rate env rtp s = Some (ret, rtp', s') \<Longrightarrow> call rtp' = call rtp"
  by (auto simp: rt_data_q_rate_def rt_data_q_rate_sql_def rt_data_q_prefix_sql_def Let_def
      split: if_splits option.splits prod.splits Option.bind_splits dest!: same_call)

lemma price_call [same_call]: "calc_cprice_group fp rtp = Some (ret, rtp') \<Longrightarrow> call rtp' = call rtp"
  by (auto simp: calc_cprice_group_def calc_cprice_2_def append_free_billsec_def Let_def
      split: if_splits option.splits Option.bind_splits)

lemma round_call [same_call]: "exec_round env rtp = Some rtp' \<Longrightarrow> call rtp' = call rtp"
  by (auto simp: exec_round_def split: if_splits Option.bind_splits)

lemma save_call [same_call]: "rt_rating_save env rtp s = Some (rtp', s') \<Longrightarrow> call rtp' = call rtp"
  by (auto simp: rt_rating_save_def rt_data_q_rating_add_def rt_data_q_rating_add_sql_def Let_def split_beta
      split: if_splits option.splits list.splits Option.bind_splits)

lemma double_rest_call [same_call]: "double_rating_rest env rtp s = Some (ret, rtp', s') \<Longrightarrow> call rtp' = call rtp"
  by (auto simp: double_rating_rest_def split: if_splits Option.bind_splits dest!: same_call)

lemma bal_call [same_call]:
  "rt_data_q_bal env rtp a b s = Some (ret, rtp', s') \<Longrightarrow> balance_codec env \<Longrightarrow> call rtp' = call rtp"
  by (auto simp: rt_data_q_bal_def rt_data_q_bal_sql_def rt_data_q_bal_nosql_def balance_codec_def
      split: if_splits option.splits list.splits prod.splits Option.bind_splits) (metis snd_conv)

lemma free_exec_call [same_call]: "free_billsec_exec rtp a b s = Some (ret, rtp', s') \<Longrightarrow> call rtp' = call rtp"
  by (auto simp: free_billsec_exec_def create_free_billsec_balance_def Let_def
      split: if_splits prod.splits Option.bind_splits dest!: same_call)

lemma balance_exec_call [same_call]:
  "rt_balance_exec env rtp a b s = Some (rtp', s') \<Longrightarrow> balance_codec env \<Longrightarrow> call rtp' = call rtp"
  by (auto simp: rt_balance_exec_def add_cprice_def Let_def split: if_splits prod.splits Option.bind_splits
      dest!: bal_call)

lemma prerating_call [same_call]:
  "rt_prerating_process env rtp s = Some (ret, rtp', s') \<Longrightarrow> balance_codec env \<Longrightarrow> call rtp' = call rtp"
  by (auto simp: rt_prerating_process_def Let_def split: if_splits Option.bind_splits dest!: same_call)

lemma searching_call [same_call]:
  "rt_rate_searching env rtp s = Some (rtp', s') \<Longrightarrow> balance_codec env \<Longrightarrow> call rtp' = call rtp"
  by (auto simp: rt_rate_searching_def split: if_splits Option.bind_splits dest!: same_call)

lemma double_call [same_call]:
  "rt_double_rating env rtp s = Some (ret, rtp', s') \<Longrightarrow> balance_codec env \<Longrightarrow> call rtp' = call rtp"
  by (auto simp: rt_double_rating_def Let_def split: if_splits option.splits Option.bind_splits dest!: same_call)

lemma exec_price_call [same_call]:
  "rt_exec_price env rtp s = Some (rtp', s') \<Longrightarrow> balance_codec env \<Longrightarrow> call rtp' = call rtp"
  by (auto simp: rt_exec_price_def Let_def split: if_splits option.splits Option.bind_splits dest!: same_call)

section \<open>Marking\<close>

text \<open>\<open>marked leg i p q\<close>: on the way from \<open>p\<close> to \<open>q\<close> the record \<open>i\<close> was marked.\<close>

definition marked :: "char \<Rightarrow> int \<Rightarrow> recorder db option \<Rightarrow> recorder db option \<Rightarrow> bool" where
  "marked leg i p q \<longleftrightarrow> (\<forall>ans lg. on_log ans lg p \<longrightarrow>
     (\<exists>l r. on_log ans (lg @ l) q \<and> cdr_update_str r i leg \<in> set l))"

interpretation any: booking "\<lambda>_. True"
  by unfold_locales simp_all

lemma marked_before: "marked leg i p q \<Longrightarrow> sends_db (\<lambda>_. True) q r \<Longrightarrow> marked leg i p r"
  by (fastforce simp: marked_def sends_db_def)

lemma marked_after: "sends_db (\<lambda>_. True) p q \<Longrightarrow> marked leg i q r \<Longrightarrow> marked leg i p r"
  by (fastforce simp: marked_def sends_db_def)

lemma update_cdr_marks:
  assumes "update_cdr r pre leg s = Some s'" "0 < pre_cdr_id pre" "leg = CHR ''a'' \<or> leg = CHR ''b''"
  shows "marked leg (pre_cdr_id pre) (st_db s) (st_db s')"
proof -
  have v: "strncasecmp0 (cdr_update_str r i leg) ''update'' (length ''update'')" for i
    using verb_prefix(4) by (simp add: cdr_update_str_def numeral_eq_Suc)
  have "on_log ans (lg @ [cdr_update_str r (pre_cdr_id pre) leg]) (st_db s')" if "on_log ans lg (st_db s)" for ans lg
    using assms on_log_verb [OF that v]
    by (auto simp: update_cdr_def cdr_update_cdr_def db_update_def simp del: not_None_eq split: if_splits)
      (use that in \<open>auto simp: on_log_def db_type_def\<close>)
  then show ?thesis by (fastforce simp: marked_def)
qed

lemma exec_marks:
  assumes "rt_exec env rtp leg s = Some (rtp', s')" "balance_codec env"
    and "0 < pre_cdr_id (ra_pre rtp)" "leg = CHR ''a'' \<or> leg = CHR ''b''"
  shows "marked leg (pre_cdr_id (ra_pre rtp)) (st_db s) (st_db s')"
proof -
  obtain rtp1 s1 r s2 where e: "rt_exec_price env (rtp\<lparr>ra_bplan := rt_chk_bplan_periods (ra_bplan rtp) (pre_ts (ra_pre rtp))\<rparr>) s =
      Some (rtp1, s1)" "update_cdr r (ra_pre rtp1) leg s1 = Some s2" "sends (\<lambda>_. True) s2 s'"
    using assms(1)
    by (fastforce simp: rt_exec_def Let_def split: if_splits option.splits Option.bind_splits
        dest: any.balance_exec any.free_exec intro: sends_trans)
  have "call rtp1 = call rtp" using exec_price_call [OF e(1) assms(2)] by simp
  then have i: "pre_cdr_id (ra_pre rtp1) = pre_cdr_id (ra_pre rtp)" by (simp add: call_of_def)
  have "marked leg (pre_cdr_id (ra_pre rtp)) (st_db s1) (st_db s2)"
    using update_cdr_marks [OF e(2) _ assms(4)] assms(3) i by simp
  then show ?thesis using any.exec_price [OF e(1)] e(3) by (blast intro: marked_before marked_after)
qed

section \<open>The account of a record\<close>

lemma racc_rows_pre: "racc_rows rows r = Some r' \<Longrightarrow> ra_pre r' = ra_pre r"
  by (induction rows arbitrary: r) (auto simp: racc_row_def split: Option.bind_splits)

lemma racc_sql_pre:
  assumes "rt_data_q_racc_sql env rtp s = Some (ret, rtp', s')" "st_db s \<noteq> None"
    and "racc_mode (ra_rtm rtp) (ra_pre rtp) = Some (t, cond, n1, n2)" "length cond < 80"
  shows "ret = 0 \<and> ra_pre rtp' = ra_pre rtp"
proof -
  have "db_sql_escape (Some cond) 160 = (int (length (escs cond)), escs cond)"
    using escape_fits [of cond 160] escs_length_le [of cond] assms(4) by simp
  then show ?thesis using assms(1-3)
    by (auto simp: rt_data_q_racc_sql_def set_racc_data_def Let_def split: prod.splits option.splits Option.bind_splits
        dest: racc_rows_pre)
qed

lemma racc_found:
  assumes "rt_data_q_racc env pre s = Some (r, s')" "on_log ans lg (st_db s)"
    and "racc_mode (pre_rating_mode_id pre) pre = Some (t, cond, n1, n2)" "length cond < 80"
  shows "\<exists>rtp. r = Some rtp \<and> ra_pre rtp = pre"
proof -
  define rtp0 where "rtp0 = (rt_data_racc_init pre)\<lparr>ra_rtm := pre_rating_mode_id pre,
     ra_bacc := (ra_bacc (rt_data_racc_init pre))\<lparr>ba_cdr_server_id := word_of_int (pre_cdr_server_id pre)\<rparr>\<rparr>"
  have p: "ra_pre rtp0 = pre" "ra_rtm rtp0 = pre_rating_mode_id pre" by (simp_all add: rtp0_def rt_data_racc_init_def)
  obtain ret rtp1 where q: "rt_data_q_racc_sql env rtp0 s = Some (ret, rtp1, s')" "r = (if ret < 0 then None else Some rtp1)"
    using assms(1,2) by (auto simp: rt_data_q_racc_def Let_def rtp0_def on_log_def db_type_def split: Option.bind_splits)
  have "st_db s \<noteq> None" using assms(2) by (auto simp: on_log_def)
  then show ?thesis using racc_sql_pre [OF q(1)] q(2) assms(3,4) by (simp add: p)
qed

text \<open>The types \<open>rt_main\<close> knows; the rest of the numbers has no branch.\<close>

definition known_types :: "int list" where
  "known_types = [unkn, isup, sms, voip_a, voip_t]"

definition call_fits :: "rating \<Rightarrow> bool" where
  "call_fits p \<longleftrightarrow> length (pre_clg p) < 80 \<and> length (pre_account_code p) < 80 \<and> length (pre_src_tgroup p) < 80"

lemma find_racc_found:
  assumes "find_racc env CHR ''a'' t pre s = Some (r, pre', s')" "on_log ans lg (st_db s)"
    and "t \<in> set known_types" "call_fits pre"
  shows "\<exists>rtp. r = Some rtp \<and> call rtp = call_of pre"
proof -
  have first: "\<exists>rtp. r' = Some rtp \<and> call rtp = call_of pre"
    if "try_mode env m pre s = Some (r', p', s'')" "m \<in> {rt_mode_clg, rt_mode_acode, rt_mode_srctg, rt_mode_sms}" for m r' p' s''
proof -
    have "rt_data_q_racc env (pre\<lparr>pre_rating_mode_id := m\<rparr>) s = Some (r', s'')"
      using that(1) by (auto simp: try_mode_def Let_def split: Option.bind_splits)
    moreover have "\<exists>t cond n1 n2. racc_mode m (pre\<lparr>pre_rating_mode_id := m\<rparr>) = Some (t, cond, n1, n2) \<and> length cond < 80"
      using that(2) assms(4) by (auto simp: racc_mode_def call_fits_def)
    ultimately obtain rtp where "r' = Some rtp" "ra_pre rtp = pre\<lparr>pre_rating_mode_id := m\<rparr>"
      using racc_found [OF _ assms(2), of env "pre\<lparr>pre_rating_mode_id := m\<rparr>" r' s''] by auto
    then show ?thesis by simp
  qed
  have mm: "try_modes env (m # ms) pre s = Some (r, pre', s') \<Longrightarrow>
      \<exists>r' p' s''. try_mode env m pre s = Some (r', p', s'') \<and> (r' = None \<or> r' = r)" for m ms
    by (auto simp: Option.is_none_def split: Option.bind_splits if_splits)
  consider "t = unkn" | "t = isup" | "t = sms" | "t = voip_a" | "t = voip_t" using assms(3) by (auto simp: known_types_def)
  then have "\<exists>m. m \<in> {rt_mode_clg, rt_mode_acode, rt_mode_srctg, rt_mode_sms} \<and>
    (\<exists>r' p' s''. try_mode env m pre s = Some (r', p', s'') \<and> (r' = None \<or> r' = r))"
    using assms(1)
    by cases (use mm in \<open>fastforce simp: find_racc_def rt_racc_unkn_a_def rt_racc_isup_a_def rt_racc_voip_av_a_def
        rt_racc_voip_t_a_def rt_racc_sms_a_def simp del: try_modes.simps\<close>)+
  then show ?thesis using first by fastforce
qed

lemma card_call: "pcard_manager env rtp s = Some (rtp', s') \<Longrightarrow> call rtp' = call rtp"
  by (auto simp: pcard_manager_def Let_def split_beta split: Option.bind_splits)

lemma main_marks:
  assumes "rt_main env pre CHR ''a'' t s = Some (pre', s')" "balance_codec env" "on_log ans lg (st_db s)"
    and "t \<in> set known_types" "call_fits pre" "0 < pre_cdr_id pre"
  shows "marked CHR ''a'' (pre_cdr_id pre) (st_db s) (st_db s')"
proof -
  obtain r pre1 s1 where f: "find_racc env CHR ''a'' t (pre\<lparr>pre_rating_mode_id := 0\<rparr>) s = Some (r, pre1, s1)"
    using assms(1) by (auto simp: rt_main_def split: Option.bind_splits)
  have "call_fits (pre\<lparr>pre_rating_mode_id := 0\<rparr>)" using assms(5) by (simp add: call_fits_def)
  then obtain rtp where r: "r = Some rtp" "call rtp = call_of pre"
    using find_racc_found [OF f assms(3,4)] by auto
  obtain rtp1 s2 rtp2 where e: "rt_exec env rtp1 CHR ''a'' s2 = Some (rtp2, s')"
    and g: "pcard_manager env rtp s1 = Some (rtp1, s2) \<or> rtp1 = rtp \<and> s2 = s1"
    using assms(1) f r(1) by (auto simp: rt_main_def split: if_splits Option.bind_splits)
  have c: "call rtp1 = call rtp" "sends (\<lambda>_. True) s1 s2" using g card_call any.card by auto
  have i: "pre_cdr_id (ra_pre rtp1) = pre_cdr_id pre" using c(1) r(2) by (simp add: call_of_def)
  have "marked CHR ''a'' (pre_cdr_id pre) (st_db s2) (st_db s')"
    using exec_marks [OF e assms(2)] assms(6) by (simp add: i)
  then show ?thesis using any.find_racc [OF f] c(2) by (blast intro: marked_after)
qed

section \<open>A batch\<close>

definition ratable :: "cdr \<Rightarrow> bool" where
  "ratable c \<longleftrightarrow> cdr_ok c \<and> 0 < sint (cdr_id c) \<and> uint (cdr_cdr_rec_type_id c) \<in> set known_types"

lemma cdr_call [simp]:
  "pre_cdr_id (rt_cdr_to_rating env c p) = sint (cdr_id c)"
  "cdr_ok c \<Longrightarrow> call_fits (rt_cdr_to_rating env c p)"
  by (simp_all add: rt_cdr_to_rating_def call_fits_def cdr_ok_def Let_def)

lemma worker_marks:
  assumes "rt_worker_func env CHR ''a'' cs n s = Some (n', s')" "balance_codec env" "on_log ans lg (st_db s)"
    and "\<forall>c \<in> set cs. ratable c"
  shows "\<exists>l. on_log ans (lg @ l) (st_db s') \<and>
    (\<forall>c \<in> set cs. \<exists>r. cdr_update_str r (sint (cdr_id c)) CHR ''a'' \<in> set l)"
  using assms
proof (induction cs arbitrary: n s lg)
  case Nil
  then show ?case by (auto intro: exI [of _ "[]"])
next
  case (Cons c cs)
  obtain ok err where n: "n = (ok, err)" by (cases n)
  from Cons.prems(1) [unfolded n rt_worker_func.simps] obtain pre s1 n1 where
    m: "rt_main env (rt_cdr_to_rating env c rating0) CHR ''a'' (uint (cdr_cdr_rec_type_id c)) s = Some (pre, s1)"
    and w: "rt_worker_func env CHR ''a'' cs n1 s1 = Some (n', s')"
    by (auto split: Option.bind_splits if_splits)
  have "ratable c" using Cons.prems(4) by simp
  then have "marked CHR ''a'' (sint (cdr_id c)) (st_db s) (st_db s1)"
    using main_marks [OF m Cons.prems(2,3)] by (simp add: ratable_def)
  then obtain l1 r where l1: "on_log ans (lg @ l1) (st_db s1)" "cdr_update_str r (sint (cdr_id c)) CHR ''a'' \<in> set l1"
    using Cons.prems(3) unfolding marked_def by blast
  obtain l2 where l2: "on_log ans ((lg @ l1) @ l2) (st_db s')"
    "\<forall>c \<in> set cs. \<exists>r. cdr_update_str r (sint (cdr_id c)) CHR ''a'' \<in> set l2"
    using Cons.IH [OF w Cons.prems(2) l1(1)] Cons.prems(4) by auto
  have "on_log ans (lg @ (l1 @ l2)) (st_db s')" using l2(1) by simp
  moreover have "\<forall>c' \<in> set (c # cs). \<exists>r. cdr_update_str r (sint (cdr_id c')) CHR ''a'' \<in> set (l1 @ l2)"
    using l1(2) l2(2) by auto
  ultimately show ?case by blast
qed

lemma on_log_sql: "on_log ans lg p \<Longrightarrow> p \<noteq> None \<and> db_type p = sql"
  by (auto simp: on_log_def db_type_def)

text \<open>A batch of the table, in one step.\<close>

lemma rt_loop_steps:
  assumes "rt_loop env leg s = Some (k, s')" "on_log ans lg (st_db s)"
    and "cdr_get_cdrs (js_cdr_get env) leg 0 (st_db s) = Some (Some cs, p)" "\<forall>c \<in> set cs. cdr_id c \<noteq> 0"
  shows "k = length cs \<and> (\<exists>s1 n'. (\<forall>P. reading P \<longrightarrow> sends P s s1) \<and> rt_worker_func env leg cs (0, 0) s1 = Some (n', s'))"
proof -
  have db: "st_db (rt_cache_ensure s) = st_db s" by (simp add: rt_cache_ensure_def)
  have get: "sends_db P (st_db s) p" if "reading P" for P
    using reading.get_cdrs [OF that assms(3)] .
  show ?thesis
  proof (cases cs)
    case Nil
    then show ?thesis using assms(1,3) get by (fastforce simp: rt_loop_def Let_def db)
  next
    case (Cons c cs')
    have tw': "cdr_id c \<noteq> 0" "takeWhile (\<lambda>c. cdr_id c \<noteq> 0) cs' = cs'"
      using assms(4) Cons by (simp_all add: takeWhile_eq_all_conv)
    obtain n1 c1 p1 n2 c2 p2 n' where
      r: "rt_cache_preload_raccs (ev_now env) (st_cache (rt_cache_ensure s)) p
            (map (\<lambda>c. Some (cdr_calling_number c)) cs) (uint (cdr_cdr_server_id c)) = Some (n1, c1, p1)"
      "rt_cache_preload_pcards (ev_fp env) (ev_now env) c1 p1 = Some (n2, c2, p2)"
      and w: "rt_worker_func env leg cs (0, 0) ((rt_cache_ensure s)\<lparr>st_cache := c2, st_db := p2\<rparr>) = Some (n', s')" "k = length cs"
      using assms(1,3) unfolding rt_loop_def Let_def db
      by (auto simp: Cons tw' simp del: rt_worker_func.simps split: Option.bind_splits)
    have "sends P s ((rt_cache_ensure s)\<lparr>st_cache := c2, st_db := p2\<rparr>)" if "reading P" for P
      using get [OF that] reading.preload_raccs [OF that r(1)] reading.preload_pcards [OF that r(2)]
      by (auto intro: sends_trans)
    then show ?thesis using w by blast
  qed
qed

text \<open>Property C9. A pass over the A legs that returns has marked its batch. When all records of the batch
  have a known type and a positive id, and the pass is not undefined on the way (it is, for a call
  of an account without a card), each record was closed by an update of \<open>cdrs\<close> with its own id,
  whatever the database answered and whatever price, balance or error the call had; and the pass
  counts the whole batch.\<close>

theorem batch_marked:
  assumes "rt_loop env CHR ''a'' s = Some (k, s')" "on_log ans lg (st_db s)" "balance_codec env"
    and "cdr_get_cdrs (js_cdr_get env) CHR ''a'' 0 (st_db s) = Some (Some cs, p)"
    and "\<forall>c \<in> set cs. 0 < sint (cdr_id c) \<and> uint (cdr_cdr_rec_type_id c) \<in> set known_types"
  shows "k = length cs \<and> (\<exists>l. on_log ans (lg @ l) (st_db s') \<and>
    (\<forall>c \<in> set cs. \<exists>r. cdr_update_str r (sint (cdr_id c)) CHR ''a'' \<in> set l))"
proof -
  have id: "\<forall>c \<in> set cs. cdr_id c \<noteq> 0" using assms(5) by fastforce
  obtain s1 n' where k: "k = length cs" and s1: "\<forall>P. reading P \<longrightarrow> sends P s s1"
    and w: "rt_worker_func env CHR ''a'' cs (0, 0) s1 = Some (n', s')"
    using rt_loop_steps [OF assms(1,2,4) id] by blast
  have "sends (\<lambda>_. True) s s1" using s1 by (simp add: reading_def)
  then obtain l1 where l1: "on_log ans (lg @ l1) (st_db s1)" using assms(2) unfolding sends_db_def by blast
  have "\<forall>c \<in> set cs. cdr_ok c" using records_fit [OF assms(4)] on_log_sql [OF assms(2)] by blast
  then have "\<forall>c \<in> set cs. ratable c" using assms(5) by (simp add: ratable_def)
  then obtain l2 where "on_log ans ((lg @ l1) @ l2) (st_db s')"
    "\<forall>c \<in> set cs. \<exists>r. cdr_update_str r (sint (cdr_id c)) CHR ''a'' \<in> set l2"
    using worker_marks [OF w assms(3) l1] by blast
  then show ?thesis using k by (intro conjI exI [of _ "l1 @ l2"]) auto
qed

section \<open>Records that are never marked\<close>

text \<open>A database whose answers change only when something is written.\<close>

definition steady :: "answers \<Rightarrow> bool" where
  "steady ans \<longleftrightarrow> (\<forall>lg l q. list_all is_select l \<longrightarrow> ans (lg @ l) q = ans lg q)"

interpretation selects: reading is_select
  by unfold_locales

lemma query_rows_log:
  "on_log ans lg p \<Longrightarrow> is_select q \<Longrightarrow> \<exists>p'. query_rows q p = Some (snd (ans lg q), p')"
  by (cases "snd (ans lg q)")
    (auto simp: on_log_def query_rows_def fetch_rows_def has_conn_def db_select_def db_fetch_def conn_rows_def call_simps
      split: option.splits)

lemma get_cdrs_log:
  assumes "cdr_get_cdrs js leg dig p = Some (r, p')" "on_log ans lg p" "on_log ans lg' q"
    and "\<And>x. ans lg' x = ans lg x"
  shows "\<exists>q'. cdr_get_cdrs js leg dig q = Some (r, q')"
proof -
  define x where "x = ''select '' @ cdr_tbl_sql_columns @ '' from cdrs where leg_'' @ [leg] @ '' = '' @
          dec_int dig @ '' order by id limit 1000''"
  have "is_select x" using verb_prefix(1) by (simp add: x_def)
  then obtain p1 q1 where "query_rows x p = Some (snd (ans lg x), p1)" "query_rows x q = Some (snd (ans lg x), q1)"
    using query_rows_log [OF assms(2)] query_rows_log [OF assms(3)] assms(4) by fastforce
  then show ?thesis
    using assms(1) on_log_sql [OF assms(2)] on_log_sql [OF assms(3)] unfolding cdr_get_cdrs_def x_def [symmetric]
    by (auto split: option.splits list.splits Option.bind_splits)
qed

lemma unknown_main:
  "t \<notin> set known_types \<Longrightarrow> rt_main env pre leg t s = Some (pre\<lparr>pre_rating_mode_id := 0\<rparr>, s)"
  by (simp add: rt_main_def find_racc_def known_types_def)

lemma unknown_worker:
  "\<forall>c \<in> set cs. uint (cdr_cdr_rec_type_id c) \<notin> set known_types \<Longrightarrow>
   rt_worker_func env leg cs n s = Some (n', s') \<Longrightarrow> s' = s"
  by (induction cs arbitrary: n) (auto simp: unknown_main split_paired_all split: if_splits)

text \<open>A batch that holds only records of types \<open>rt_main\<close> has no branch for, such as
  \<open>voip_v\<close>, is never finished: the pass sends nothing but queries, so the next pass fetches the
  same records; and as it reports them as rated, the engine does not sleep in between. Records
  with larger ids behind a full batch of them are never reached.\<close>

theorem unknown_batch_stays:
  assumes "rt_loop env leg s = Some (k, s')" "on_log ans lg (st_db s)" "steady ans"
    and "cdr_get_cdrs (js_cdr_get env) leg 0 (st_db s) = Some (Some cs, p)"
    and "\<forall>c \<in> set cs. cdr_id c \<noteq> 0 \<and> uint (cdr_cdr_rec_type_id c) \<notin> set known_types"
  shows "k = length cs \<and> (\<exists>l p'. on_log ans (lg @ l) (st_db s') \<and> list_all is_select l \<and>
    cdr_get_cdrs (js_cdr_get env) leg 0 (st_db s') = Some (Some cs, p'))"
proof -
  have id: "\<forall>c \<in> set cs. cdr_id c \<noteq> 0" using assms(5) by blast
  obtain s1 n' where k: "k = length cs" and s1: "\<forall>P. reading P \<longrightarrow> sends P s s1"
    and w: "rt_worker_func env leg cs (0, 0) s1 = Some (n', s')"
    using rt_loop_steps [OF assms(1,2,4) id] by blast
  have "s' = s1" using unknown_worker [OF _ w] assms(5) by blast
  moreover have "sends is_select s s1" using s1 selects.reading_axioms by blast
  ultimately obtain l where l: "on_log ans (lg @ l) (st_db s')" "list_all is_select l"
    using assms(2) unfolding sends_db_def by blast
  then have "\<exists>q. cdr_get_cdrs (js_cdr_get env) leg 0 (st_db s') = Some (Some cs, q)"
    using get_cdrs_log [OF assms(4,2) l(1)] assms(3) by (simp add: steady_def)
  then show ?thesis using k l by blast
qed

definition one_row :: "string list \<Rightarrow> answers" where
  "one_row row = (\<lambda>_ q. (0, if starts ''select id,cdr_server_id'' q then Some [row] else None))"

definition row_of_type :: "string \<Rightarrow> string list" where
  "row_of_type t = [''5'', ''1'', t] @ replicate 29 ''0''"

definition table_of_type :: "string \<Rightarrow> recorder st" where
  "table_of_type t = ost (one_row (row_of_type t)) [] None None"

lemma table_loops:
  "map_option fst (rt_loop exact_env CHR ''a'' (table_of_type ''3'')) = Some 1"
  "map_option fst (rt_loop exact_env CHR ''a'' (table_of_type ''4'')) = Some 1"
  by code_simp+

lemma table_fetch:
  "map_option (map_option (map (\<lambda>c. (sint (cdr_id c), uint (cdr_cdr_rec_type_id c)))) \<circ> fst)
     (cdr_get_cdrs (js_cdr_get exact_env) CHR ''a'' 0 (st_db (table_of_type ''3''))) = Some (Some [(5, 3)])"
  "map_option (map_option (map (\<lambda>c. (sint (cdr_id c), uint (cdr_cdr_rec_type_id c)))) \<circ> fst)
     (cdr_get_cdrs (js_cdr_get exact_env) CHR ''a'' 0 (st_db (table_of_type ''4''))) = Some (Some [(5, 4)])"
  by code_simp+

lemma table_simps [simp]: "on_log (one_row (row_of_type t)) [] (st_db (table_of_type t))" "balance_codec exact_env"
  "steady (one_row r)"
  by (simp_all add: table_of_type_def balance_codec_def exact_env_def steady_def one_row_def)

theorem batch_marked_witness:
  "\<exists>s'. rt_loop exact_env CHR ''a'' (table_of_type ''3'') = Some (1, s') \<and>
     (\<exists>l r. on_log (one_row (row_of_type ''3'')) l (st_db s') \<and> cdr_update_str r 5 CHR ''a'' \<in> set l)"
proof -
  obtain s' where r: "rt_loop exact_env CHR ''a'' (table_of_type ''3'') = Some (1, s')"
    using table_loops(1) by auto
  obtain c p where c: "cdr_get_cdrs (js_cdr_get exact_env) CHR ''a'' 0 (st_db (table_of_type ''3'')) = Some (Some [c], p)"
    "sint (cdr_id c) = 5" "uint (cdr_cdr_rec_type_id c) = 3"
    using table_fetch(1) by auto
  have "3 \<in> set known_types" by (simp add: known_types_def)
  then show ?thesis using batch_marked [OF r table_simps(1,2) c(1)] c(2,3) r by auto
qed

theorem unknown_batch_stays_witness:
  "\<exists>s' c l p'. rt_loop exact_env CHR ''a'' (table_of_type ''4'') = Some (1, s') \<and>
     on_log (one_row (row_of_type ''4'')) l (st_db s') \<and> list_all is_select l \<and>
     cdr_get_cdrs (js_cdr_get exact_env) CHR ''a'' 0 (st_db s') = Some (Some [c], p') \<and> sint (cdr_id c) = 5"
proof -
  obtain s' where r: "rt_loop exact_env CHR ''a'' (table_of_type ''4'') = Some (1, s')"
    using table_loops(2) by auto
  obtain c p where c: "cdr_get_cdrs (js_cdr_get exact_env) CHR ''a'' 0 (st_db (table_of_type ''4'')) = Some (Some [c], p)"
    "sint (cdr_id c) = 5" "uint (cdr_cdr_rec_type_id c) = 4"
    using table_fetch(2) by auto
  have "cdr_id c \<noteq> 0" using c(2) by auto
  moreover have "4 \<notin> set known_types" by (simp add: known_types_def)
  ultimately show ?thesis
    using unknown_batch_stays [OF r table_simps(1,3) c(1)] c(2,3) r by auto
qed

section \<open>The statements of a pass\<close>

text \<open>Property C34. The online limit never charges: whatever the call, the cache and the answers of
  the database, \<open>rt_maxsec\<close> sends queries and, to block a card, updates of \<open>pcard\<close>; it does not
  touch balances, ratings or call records.\<close>

theorem maxsec_only_reads:
  assumes "rt_maxsec env pre sim (ost ans lg rows cache) = Some (res, pre', s')"
  shows "\<exists>l. on_log ans (lg @ l) (st_db s') \<and> list_all limit_statement l"
  using lim.maxsec [OF assms] by (simp add: sends_db_def)

theorem maxsec_only_reads_witness:
  "\<exists>pre' s' l. rt_maxsec exact_env rating0 0 (ost (\<lambda>_ _. (0, None)) [] None None) = Some (None, pre', s') \<and>
     on_log (\<lambda>_ _. (0, None)) l (st_db s') \<and> list_all limit_statement l"
proof -
  have "map_option (\<lambda>(r, p, s). Option.is_none r) (rt_maxsec exact_env rating0 0 (ost (\<lambda>_ _. (0, None)) [] None None)) = Some True"
    by code_simp
  then obtain pre' s' where r: "rt_maxsec exact_env rating0 0 (ost (\<lambda>_ _. (0, None)) [] None None) = Some (None, pre', s')"
    by (auto simp: Option.is_none_def)
  then show ?thesis using maxsec_only_reads [OF r] by auto
qed

text \<open>Property C33. A rating pass writes five tables in eight ways: whatever the records and the
  answers, each statement it sends is a query, blocks a card, stores a rating, stores or updates a
  balance or a counter of free seconds, or marks a leg of a call. It never deletes.\<close>

theorem rating_run_statements:
  assumes "rt_loop env leg (ost ans lg rows cache) = Some (k, s')"
  shows "\<exists>l. on_log ans (lg @ l) (st_db s') \<and> list_all rating_statement l"
  using run.loop [OF assms] by (simp add: sends_db_def)

theorem rating_run_statements_witness:
  "\<exists>s' l. rt_loop exact_env CHR ''a'' (table_of_type ''3'') = Some (1, s') \<and>
     on_log (one_row (row_of_type ''3'')) l (st_db s') \<and> list_all rating_statement l"
proof -
  obtain s' where r: "rt_loop exact_env CHR ''a'' (table_of_type ''3'') = Some (1, s')"
    using table_loops(1) by auto
  then show ?thesis using rating_run_statements [OF r [unfolded table_of_type_def]] by auto
qed

section \<open>The modes that are not tried\<close>

lemma try_modes_first:
  assumes "on_log ans lg (st_db s)" "\<exists>t cond n1 n2. racc_mode m (pre\<lparr>pre_rating_mode_id := m\<rparr>) = Some (t, cond, n1, n2) \<and> length cond < 80"
  shows "try_modes env (m # ms) pre s = try_mode env m pre s"
proof (cases "try_mode env m pre s")
  case (Some x)
  obtain r pre1 s1 where x: "x = (r, pre1, s1)" by (cases x)
  then have "rt_data_q_racc env (pre\<lparr>pre_rating_mode_id := m\<rparr>) s = Some (r, s1)"
    using Some by (auto simp: try_mode_def Let_def split: Option.bind_splits)
  then have "r \<noteq> None" using racc_found [OF _ assms(1), of env "pre\<lparr>pre_rating_mode_id := m\<rparr>" r s1] assms(2) by fastforce
  then show ?thesis using Some x by (auto simp del: not_None_eq)
qed simp

text \<open>The other modes of an account search are never tried. A search of an SQL database
  that finds no account still returns one, empty, and \<open>rt_racc_voip_av_a\<close>, which is to fall back
  to the account code, and \<open>rt_racc_unkn_a\<close> and \<open>rt_racc_voip_t_a\<close> are their first mode.\<close>

theorem first_mode_only:
  assumes "on_log ans lg (st_db s)" "length (pre_clg pre) < 80" "length (pre_account_code pre) < 80"
  shows "rt_racc_voip_av_a env pre s = try_mode env rt_mode_clg pre s \<and>
    rt_racc_unkn_a env pre s = try_mode env rt_mode_clg pre s \<and>
    rt_racc_voip_t_a env pre s = try_mode env rt_mode_acode pre s"
  using assms try_modes_first [OF assms(1)]
  by (simp add: rt_racc_voip_av_a_def rt_racc_unkn_a_def rt_racc_voip_t_a_def racc_mode_def del: try_modes.simps)

theorem first_mode_only_witness:
  "rt_racc_voip_av_a exact_env (rating0\<lparr>pre_account_code := ''acme''\<rparr>) (ost (\<lambda>_ _. (0, Some [])) [] None None) =
   try_mode exact_env rt_mode_clg (rating0\<lparr>pre_account_code := ''acme''\<rparr>) (ost (\<lambda>_ _. (0, Some [])) [] None None)"
  using first_mode_only [of "\<lambda>_ _. (0, Some [])" "[]" "ost (\<lambda>_ _. (0, Some [])) [] None None"
      "rating0\<lparr>pre_account_code := ''acme''\<rparr>" exact_env]
  by (simp add: rating0_def)

end
