(* ===== verification/Pricing.thy ===== *)
theory Pricing
  imports CalcFunctions
begin

text \<open>
  What \<open>calc_cprice_2\<close> and \<open>calc_maxsec\<close> promise: whole blocks are billed and cover the
  call; on tariffs whose bounded steps do not overshoot into shorter blocks the price is the
  tariff's reference price \<open>ideal_price\<close>; on tariffs whose fees do not fall the granted
  \<open>maxsec\<close> never costs more than the limit; what happens on the other tariffs; the SQL
  batch pricing of the DuckDB module computes the same price.
\<close>

section \<open>Tariff shapes\<close>

fun tariff_fit :: "calc_function list \<Rightarrow> bool" where
  "tariff_fit [] = True"
| "tariff_fit (c # cs) =
     ((2 \<le> cf_iterations c \<longrightarrow> (\<forall>d \<in> set cs. cf_delta c \<le> cf_delta d)) \<and> tariff_fit cs)"

fun fees_rise :: "calc_function list \<Rightarrow> bool" where
  "fees_rise [] = True"
| "fees_rise (c # cs) = ((\<forall>d \<in> set cs. cf_fee c \<le> cf_fee d) \<and> fees_rise cs)"

definition tariff_closed :: "calc_function list \<Rightarrow> bool" where
  "tariff_closed cs \<longleftrightarrow> cs \<noteq> [] \<and> cf_iterations (last cs) = 0"

section \<open>The price is the reference price\<close>

lemma blocks_price_exact: "blocks_price exact p ns cs = p + blocks_price exact 0 ns cs"
proof (induction ns cs arbitrary: p rule: list_induct2')
  case (4 n ns c cs)
  have "blocks_price exact p (n # ns) (c # cs) = p + of_int n * cf_fee c + blocks_price exact 0 ns cs"
    using 4 [of "p + of_int n * cf_fee c"] by simp
  moreover have "blocks_price exact 0 (n # ns) (c # cs) = of_int n * cf_fee c + blocks_price exact 0 ns cs"
    using 4 [of "of_int n * cf_fee c"] by simp
  ultimately show ?case by simp
qed (simp_all add: blocks_price_def)

lemma blocks_price_exact_Cons [simp]:
  "blocks_price exact 0 (n # ns) (c # cs) = of_int n * cf_fee c + blocks_price exact 0 ns cs"
  using blocks_price_exact [of "of_int n * cf_fee c" ns cs] by simp

declare blocks_simps(2) [simp del]

lemma charge_blocks_unfold:
  "u = ceil_div s (cf_delta c) \<Longrightarrow>
   charge_blocks s (c # cs) =
     (if cf_iterations c \<noteq> 0 \<and> cf_iterations c < u then cf_iterations c else u) #
     (if cf_iterations c = 0 \<or> u = 1 then []
      else charge_blocks (s - (if cf_iterations c \<noteq> 0 \<and> cf_iterations c < u then cf_iterations c else u)
             * cf_delta c) cs)"
  by (simp add: charge_blocks.simps Let_def)

lemma ceil_div_zero: "- d < s \<Longrightarrow> s \<le> 0 \<Longrightarrow> ceil_div s d = 0"
  by (simp add: ceil_div_def)

lemma charge_blocks_tail_zero:
  assumes "tariff_ok cs" "s \<le> 0" "\<forall>c \<in> set cs. - s < cf_delta c"
  shows "blocks_price exact 0 (charge_blocks s cs) cs = 0"
  using assms
proof (induction cs)
  case (Cons c cs)
  have "ceil_div s (cf_delta c) = 0" using Cons.prems by (intro ceil_div_zero) auto
  moreover have "0 \<le> cf_iterations c" using Cons.prems by (simp add: step_ok_def)
  ultimately show ?case using Cons by (simp add: charge_blocks_unfold [OF refl])
qed (simp add: charge_blocks.simps)

lemma blocks_price_ideal:
  assumes "tariff_ok cs" "tariff_fit cs" "0 < s"
  shows "blocks_price exact 0 (charge_blocks s cs) cs = ideal_price s cs"
  using assms
proof (induction cs arbitrary: s)
  case (Cons c cs)
  define u where "u = ceil_div s (cf_delta c)"
  have d: "0 < cf_delta c" "0 \<le> cf_iterations c" and cs: "tariff_ok cs" "tariff_fit cs"
    using Cons.prems by (auto simp: step_ok_def)
  have u: "0 < u" using Cons.prems d by (auto simp: u_def)
  have lo: "(u - 1) * cf_delta c < s" and up: "s \<le> u * cf_delta c"
    using ceil_div_bounds [OF d(1), of s] by (simp_all add: u_def)
  note unf = charge_blocks_unfold [OF u_def, of cs]
  have I: "ideal_price s (c # cs) =
     (if cf_iterations c = 0 \<or> u \<le> cf_iterations c then of_int u * cf_fee c
      else of_int (cf_iterations c) * cf_fee c + ideal_price (s - cf_iterations c * cf_delta c) cs)"
    using Cons.prems by (simp add: ideal_price.simps Let_def flip: u_def)
  consider "cf_iterations c = 0 \<or> u = 1" | "cf_iterations c \<noteq> 0" "1 < u" "u \<le> cf_iterations c"
    | "cf_iterations c \<noteq> 0" "1 < u" "cf_iterations c < u" using u by linarith
  then show ?case
  proof cases
    case 1
    then show ?thesis using unf d I by auto
  next
    case 2
    have r: "s - u * cf_delta c \<le> 0" "- (s - u * cf_delta c) < cf_delta c"
      using lo up by (simp_all add: algebra_simps)
    have "\<forall>e \<in> set cs. cf_delta c \<le> cf_delta e" using Cons.prems(2) 2 by simp
    then have "blocks_price exact 0 (charge_blocks (s - u * cf_delta c) cs) cs = 0"
      using r by (intro charge_blocks_tail_zero [OF cs(1)]) auto
    then show ?thesis using 2 unf I by simp
  next
    case 3
    have "cf_iterations c * cf_delta c \<le> (u - 1) * cf_delta c" using 3 d by (intro mult_right_mono) auto
    then have "0 < s - cf_iterations c * cf_delta c" using lo by linarith
    then have "blocks_price exact 0 (charge_blocks (s - cf_iterations c * cf_delta c) cs) cs
        = ideal_price (s - cf_iterations c * cf_delta c) cs"
      by (rule Cons.IH [OF cs])
    then show ?thesis using 3 unf I by simp
  qed
qed (simp add: ideal_price.simps charge_blocks.simps)

lemma calc_cprice_2_eq:
  assumes "fp_ok fp" "racc_calc_funcs r = Some (Some cs)" "tariff_ok cs"
    and "\<bar>pre_billsec (ra_pre r)\<bar> < 2 ^ 24"
  shows "calc_cprice_2 fp r =
    (let s = pre_billsec (ra_pre r); ns = charge_blocks s cs; b = blocks_sec ns cs in
     Some (if s \<le> b then 0 else -1,
           upd_pre (\<lambda>p. p\<lparr>pre_cprice := blocks_price fp 0 ns cs, pre_billsec := b\<rparr>) r))"
  using calc_cprice_2_loop_blocks [OF assms(1,3,4), of 0 0] assms
  by (simp add: calc_cprice_2_def Let_def)

section \<open>Seconds granted for a limit\<close>

lemma loop_out_of_money:
  assumes "tariff_ok cs" "0 \<le> L" "\<forall>c \<in> set cs. L < cf_fee c" "fb \<le> 0"
    and "calc_maxsec_loop exact fb u m L cs = Some m'"
  shows "m' = m"
  using assms
proof (induction cs arbitrary: u)
  case (Cons c cs)
  have c: "0 < cf_fee c" "cf_pos c \<noteq> 0" "0 \<le> cf_iterations c"
    using Cons.prems by (auto simp: step_ok_def)
  have fl: "\<lfloor>L / cf_fee c\<rfloor> = 0" using Cons.prems c by (simp add: floor_eq_iff)
  show ?case
  proof (cases "L = 0")
    case True
    then show ?thesis using Cons.prems c by simp
  next
    case False
    then have L: "\<not> L \<le> 0" using Cons.prems by simp
    show ?thesis
    proof (cases "cf_iterations c = 0")
      case True
      then show ?thesis using Cons.prems(4,5) c L fl
        by (auto simp: cmul_def cadd_def int_range_def split: if_splits Option.bind_splits)
    next
      case False
      then have "calc_maxsec_loop exact fb 0 m L cs = Some m'"
        using Cons.prems(4,5) c L fl
        by (auto simp: cmul_def cadd_def int_range_def split: if_splits Option.bind_splits)
      then show ?thesis using Cons.IH Cons.prems by simp
    qed
  qed
qed simp

lemma ideal_price_block:
  assumes "step_ok c" "0 \<le> n" "n \<le> cf_iterations c \<or> cf_iterations c = 0"
  shows "ideal_price (n * cf_delta c) (c # cs) = of_int n * cf_fee c"
proof -
  have d: "0 < cf_delta c" using assms by (simp add: step_ok_def)
  have "- (n * cf_delta c) div cf_delta c = - n"
    using d by (metis less_irrefl minus_mult_left nonzero_mult_div_cancel_right)
  then have "ceil_div (n * cf_delta c) (cf_delta c) = n" by (simp add: ceil_div_def)
  moreover have "n * cf_delta c \<le> 0 \<longleftrightarrow> n = 0" using d assms(2) by (auto simp: mult_le_0_iff)
  ultimately show ?thesis using assms by (auto simp: ideal_price.simps Let_def)
qed

lemma ideal_price_full_step:
  assumes "step_ok c" "0 < cf_iterations c" "0 \<le> m"
  shows "ideal_price (cf_iterations c * cf_delta c + m) (c # cs) =
     of_int (cf_iterations c) * cf_fee c + ideal_price m cs"
proof (cases "m = 0")
  case True
  then show ?thesis using ideal_price_block [OF assms(1), of "cf_iterations c" cs] assms by simp
next
  case False
  have d: "0 < cf_delta c" using assms by (simp add: step_ok_def)
  have pos: "0 < cf_iterations c * cf_delta c + m" using assms d by (simp add: add_pos_nonneg)
  have "cf_iterations c < ceil_div (cf_iterations c * cf_delta c + m) (cf_delta c)"
  proof (rule ccontr)
    assume "\<not> ?thesis"
    then have "ceil_div (cf_iterations c * cf_delta c + m) (cf_delta c) * cf_delta c \<le> cf_iterations c * cf_delta c"
      using d by (intro mult_right_mono) auto
    then show False
      using ceil_div_upper [OF d, of "cf_iterations c * cf_delta c + m"] False assms by linarith
  qed
  then show ?thesis using pos assms(2) by (simp add: ideal_price.simps Let_def)
qed

text \<open>One step of the loop, unfolded in exact arithmetic.\<close>

lemma maxsec_step_cases:
  assumes "step_ok c" "0 < L" "fb \<le> 0" "calc_maxsec_loop exact fb u m L (c # cs) = Some m'"
  obtains (final) n where "cf_iterations c = 0" "0 \<le> n" "of_int n * cf_fee c \<le> L"
      "m' = m + n * cf_delta c"
  | (used) v where "0 < cf_iterations c" "of_int (cf_iterations c) * cf_fee c \<le> L"
      "calc_maxsec_loop exact fb v (m + cf_iterations c * cf_delta c)
         (L - of_int (cf_iterations c) * cf_fee c) cs = Some m'"
  | (free) "0 < cf_iterations c" "cf_fee c = 0"
      "calc_maxsec_loop exact fb 1 (m + cf_delta c) L cs = Some m'"
  | (short) n where "0 \<le> n" "n \<le> cf_iterations c" "0 < cf_fee c" "of_int n * cf_fee c \<le> L"
      "L - of_int n * cf_fee c < cf_fee c"
      "calc_maxsec_loop exact fb n (m + n * cf_delta c) (L - of_int n * cf_fee c) cs = Some m'"
proof (cases "cf_fee c = 0")
  case True
  then show ?thesis using assms final [of 1] used [of 1] free
    by (auto simp: step_ok_def cmul_def cadd_def Let_def split: if_splits Option.bind_splits)
next
  case False
  then have f: "0 < cf_fee c" using assms by (simp add: step_ok_def)
  define n where "n = \<lfloor>L / cf_fee c\<rfloor>"
  have n0: "0 \<le> n" using f assms(2) by (simp add: n_def)
  have "of_int n \<le> L / cf_fee c" "L / cf_fee c < of_int n + 1"
    using floor_correct [of "L / cf_fee c"] by (auto simp: n_def)
  then have nL: "of_int n * cf_fee c \<le> L" "L - of_int n * cf_fee c < cf_fee c"
    using f by (simp_all add: field_simps)
  have itL: "cf_iterations c < n \<Longrightarrow> of_int (cf_iterations c) * cf_fee c \<le> L"
  proof -
    assume "cf_iterations c < n"
    then have "of_int (cf_iterations c) * cf_fee c \<le> of_int n * cf_fee c"
      using f by (intro mult_right_mono) auto
    then show ?thesis using nL(1) by linarith
  qed
  show ?thesis using assms f False final [OF _ n0 nL(1)] used [of n] short [OF n0 _ f nL] itL
    by (auto simp: step_ok_def cmul_def cadd_def Let_def split: if_splits Option.bind_splits simp flip: n_def)
qed

lemma maxsec_loop_affordable:
  assumes "tariff_ok cs" "fees_rise cs" "fb \<le> 0" "0 \<le> L"
    and "calc_maxsec_loop exact fb u m L cs = Some m'"
  shows "m \<le> m' \<and> ideal_price (m' - m) cs \<le> L"
  using assms
proof (induction cs arbitrary: u m L)
  case (Cons c cs)
  have c: "step_ok c" and cs: "tariff_ok cs" "fees_rise cs" using Cons.prems by auto
  have d: "0 < cf_delta c" using c by (simp add: step_ok_def)
  note IH = Cons.IH [OF cs Cons.prems(3)]
  show ?case
  proof (cases "L = 0")
    case True
    then show ?thesis using Cons.prems c by (auto simp: step_ok_def split: if_splits)
  next
    case False
    then have L: "0 < L" using Cons.prems by simp
    from c L Cons.prems(3,5) show ?thesis
    proof (cases rule: maxsec_step_cases)
      case (final n)
      then show ?thesis using ideal_price_block [OF c, of n cs] d by simp
    next
      case (used v)
      have "m + cf_iterations c * cf_delta c \<le> m'"
        "ideal_price (m' - (m + cf_iterations c * cf_delta c)) cs \<le> L - of_int (cf_iterations c) * cf_fee c"
        using IH [OF _ used(3)] used(2) by simp_all
      moreover have "0 < cf_iterations c * cf_delta c" using used(1) d by simp
      ultimately show ?thesis
        using ideal_price_full_step [OF c used(1), of "m' - (m + cf_iterations c * cf_delta c)" cs] by simp
    next
      case free
      have h: "m + cf_delta c \<le> m'" "ideal_price (m' - (m + cf_delta c)) cs \<le> L"
        using IH [OF _ free(3)] Cons.prems by simp_all
      have "cf_delta c * 1 \<le> cf_delta c * cf_iterations c" using free(1) d by (intro mult_left_mono) auto
      then have "ideal_price (m' - m) (c # cs)
          \<le> ideal_price (cf_iterations c * cf_delta c + (m' - (m + cf_delta c))) (c # cs)"
        by (intro ideal_price_mono [OF Cons.prems(1)]) (simp add: mult.commute)
      also have "\<dots> = ideal_price (m' - (m + cf_delta c)) cs"
        using ideal_price_full_step [OF c free(1), of "m' - (m + cf_delta c)" cs] free(2) h by simp
      finally show ?thesis using h d by simp
    next
      case (short n)
      have "\<forall>e \<in> set cs. L - of_int n * cf_fee c < cf_fee e" using Cons.prems(2) short(5) by auto
      then have "m' = m + n * cf_delta c"
        using loop_out_of_money [OF cs(1) _ _ Cons.prems(3) short(6)] short(4) by simp
      then show ?thesis using ideal_price_block [OF c short(1), of cs] short d by simp
    qed
  qed
qed (simp add: ideal_price.simps)

lemma maxsec_cap_eq:
  assumes "int_range m" "0 \<le> sint cap"
  shows "maxsec_cap cap m = (if 0 \<le> m \<and> m < sint cap then m else sint cap)"
proof -
  have u: "uint (word_of_int x :: u32) = x mod 4294967296" for x by (simp add: uint_word_of_int)
  have s: "sint cap < 2147483648" using sint_lt [of cap] by simp
  have "uint cap = uint (word_of_int (sint cap) :: u32)" by simp
  also have "\<dots> = sint cap mod 4294967296" by (rule u)
  also have "\<dots> = sint cap" using s assms(2) by simp
  finally have c: "uint cap = sint cap" .
  have "cap \<le> word_of_int m \<longleftrightarrow> sint cap \<le> m mod 4294967296" by (simp add: word_le_def u c)
  moreover have "0 \<le> m \<Longrightarrow> m mod 4294967296 = m" using assms(1) by (simp add: int_range_def)
  moreover have "m < 0 \<Longrightarrow> sint cap \<le> m mod 4294967296"
  proof -
    assume m: "m < 0"
    have "(m + 4294967296) mod 4294967296 = m + 4294967296"
      using m assms(1) by (intro mod_pos_pos_trivial) (auto simp: int_range_def)
    then have "m mod 4294967296 = m + 4294967296" by simp
    then show ?thesis using assms(1) s by (simp add: int_range_def)
  qed
  ultimately show ?thesis by (cases "0 \<le> m") (auto simp: maxsec_cap_def not_le not_less)
qed

section \<open>The unit test's two formulas: SQL pricing and the free pool\<close>

text \<open>\<open>cte\<close> of \<open>unit_tests/tariff_pricing.c\<close>, the per-step formula of the recursive SQL of
  \<open>rt_duckdb.c\<close>; the quotient is in \<open>double\<close>.\<close>

fun cte_loop :: "fpenv \<Rightarrow> int \<Rightarrow> int \<Rightarrow> rat \<Rightarrow> calc_function list \<Rightarrow> (rat \<times> int) option" where
  "cte_loop fp rem bsec price [] = Some (price, bsec)"
| "cte_loop fp rem bsec price (c # cs) =
     (let d = cf_delta c; it = cf_iterations c in do {
        u \<leftarrow> (if d = 0 then Some 1
              else to_int \<lceil>rd fp (rd fp (of_int rem) / rd fp (of_int d))\<rceil>);
        let charge = (if it = 0 \<or> u \<le> it then u else it);
        t \<leftarrow> cmul charge d;
        bsec' \<leftarrow> cadd bsec t;
        rem' \<leftarrow> csub rem t;
        let price' = dadd fp price (imul fp charge (cf_fee c));
        if it = 0 \<or> d = 0 \<or> u = 1 then Some (price', bsec')
        else cte_loop fp rem' bsec' price' cs
      })"

definition cte :: "fpenv \<Rightarrow> int \<Rightarrow> calc_function list \<Rightarrow> (rat \<times> int) option" where
  "cte fp billsec cs = cte_loop fp billsec 0 0 cs"

text \<open>The two free-pool computations of \<open>test_free_split\<close>: the sequential drawdown and the
  clamp over the running sum.\<close>

fun free_seq :: "int \<Rightarrow> int \<Rightarrow> int list \<Rightarrow> int list" where
  "free_seq limit consumed [] = []"
| "free_seq limit consumed (b # bs) =
     (let rem = limit - consumed; cap = (if 0 < rem then rem else 0); f = (if cap < b then cap else b)
      in f # free_seq limit (consumed + f) bs)"

fun free_clamp :: "int \<Rightarrow> int \<Rightarrow> int \<Rightarrow> int list \<Rightarrow> int list" where
  "free_clamp limit hist cum [] = []"
| "free_clamp limit hist cum (b # bs) =
     (let rem = limit - (hist + cum); cap = (if 0 < rem then rem else 0); f = (if cap < b then cap else b)
      in f # free_clamp limit hist (cum + b) bs)"

lemma double_ceil_div_eq:
  assumes "fp_ok fp" "\<bar>a\<bar> < 2 ^ 24" "0 < b" "b < 2 ^ 24"
  shows "to_int \<lceil>rd fp (rd fp (of_int a) / rd fp (of_int b))\<rceil> = Some (ceil_div a b)"
proof -
  have r: "rounding (rd fp) 53" using assms by (simp add: fp_ok_def)
  have a: "\<bar>a\<bar> < 2 ^ 53" "\<bar>b\<bar> < 2 ^ 53" using assms by auto
  have "rd fp (of_int a) = of_int a" "rd fp (of_int b) = of_int b"
    using rounding.r_of_int [OF r] a by auto
  then have "\<lceil>rd fp (rd fp (of_int a) / rd fp (of_int b))\<rceil> = ceil_div a b"
    using rounding.r_ceil_quotient [OF r a(1) assms(3)] by (simp add: ceil_div_def ceiling_divide_eq_div)
  moreover have "int_range (ceil_div a b)"
    using ceil_div_abs_le [OF assms(3), of a] assms(2) by (simp add: int_range_def abs_if split: if_splits)
  ultimately show ?thesis by simp
qed

lemma cte_loop_eq:
  assumes "fp_ok fp" "tariff_ok cs" "\<bar>s\<bar> < 2 ^ 24" "\<bar>b + s\<bar> < 2 ^ 24"
  shows "cte_loop fp s b p cs = map_option (\<lambda>(q, b', s'). (q, b')) (calc_cprice_2_loop fp s b p cs)"
  using assms
proof (induction cs arbitrary: s b p)
  case (Cons c cs)
  define u where "u = ceil_div s (cf_delta c)"
  define n where "n = (if cf_iterations c \<noteq> 0 \<and> cf_iterations c < u then cf_iterations c else u)"
  have c: "step_ok c" using Cons.prems by simp
  have u: "float_ceil_div fp s (cf_delta c) = Some u"
    "to_int \<lceil>rd fp (rd fp (of_int s) / rd fp (of_int (cf_delta c)))\<rceil> = Some u"
    unfolding u_def using c
    by (auto intro!: float_ceil_div_eq double_ceil_div_eq Cons.prems simp: step_ok_def simp del: to_int_Some)
  have bnd: "\<bar>s - n * cf_delta c\<bar> < 2 ^ 24" "\<bar>n * cf_delta c\<bar> < 2 ^ 25"
    using charge_left_bounds [OF c Cons.prems(3) n_def [unfolded u_def]] by simp_all
  have rng: "int_range (n * cf_delta c)" "int_range (b + n * cf_delta c)" "int_range (s - n * cf_delta c)"
    using bnd Cons.prems(3,4) by (simp_all add: int_range_def abs_if split: if_splits)
  have IH: "cte_loop fp (s - n * cf_delta c) (b + n * cf_delta c) q cs =
    map_option (\<lambda>(q, b', s'). (q, b')) (calc_cprice_2_loop fp (s - n * cf_delta c) (b + n * cf_delta c) q cs)" for q
    using Cons.IH [OF Cons.prems(1) _ bnd(1), of "b + n * cf_delta c" q] Cons.prems by simp
  have n': "(if cf_iterations c = 0 then u else if cf_iterations c < u then cf_iterations c else u) = n"
    "(if cf_iterations c = 0 \<or> u \<le> cf_iterations c then u else cf_iterations c) = n"
    by (auto simp: n_def)
  have nz: "cf_pos c \<noteq> 0" "cf_delta c \<noteq> 0" using c by (auto simp: step_ok_def)
  have L: "cte_loop fp s b p (c # cs) =
      (if cf_iterations c = 0 \<or> u = 1 then Some (dadd fp p (imul fp n (cf_fee c)), b + n * cf_delta c)
       else cte_loop fp (s - n * cf_delta c) (b + n * cf_delta c) (dadd fp p (imul fp n (cf_fee c))) cs)"
    unfolding cte_loop.simps Let_def if_not_P [OF nz(2)] u(2) bind.bind_lunit n'
    using rng nz by (simp add: cmul_def cadd_def csub_def)
  have R: "calc_cprice_2_loop fp s b p (c # cs) =
      (if cf_iterations c = 0 \<or> u = 1
       then Some (dadd fp p (imul fp n (cf_fee c)), b + n * cf_delta c, s - n * cf_delta c)
       else calc_cprice_2_loop fp (s - n * cf_delta c) (b + n * cf_delta c)
              (dadd fp p (imul fp n (cf_fee c))) cs)"
    unfolding calc_cprice_2_loop.simps Let_def if_not_P [OF nz(1)] u(1) bind.bind_lunit n'
    using rng by (simp add: cmul_def cadd_def csub_def)
  show ?case unfolding L R by (simp add: IH)
qed simp

section \<open>The price under rounding\<close>

text \<open>Each of the two roundings of a step scales by at most \<open>1 \<plusminus> 2 ^ -53\<close>.\<close>

definition eps53 :: rat where "eps53 = 1 / 2 ^ 53"

lemma eps53_bounds: "0 < eps53" "eps53 < 1"
  by (simp_all add: eps53_def)

lemma rd_scale:
  assumes "fp_ok fp" "0 \<le> x"
  shows "x * (1 - eps53) \<le> rd fp x" and "rd fp x \<le> x * (1 + eps53)"
proof -
  have "rounding (rd fp) 53" using assms by (simp add: fp_ok_def)
  from rounding.r_error [OF this, of x] assms(2)
  have "\<bar>rd fp x - x\<bar> \<le> x * eps53" by (simp add: eps53_def)
  then show "x * (1 - eps53) \<le> rd fp x" "rd fp x \<le> x * (1 + eps53)"
    by (simp_all add: abs_le_iff algebra_simps)
qed

lemma charge_step_scale:
  assumes fp: "fp_ok fp" and x: "0 \<le> x" and t: "0 \<le> t"
    and lo: "t * (1 - eps53) ^ k \<le> p" and hi: "p \<le> t * (1 + eps53) ^ k"
  shows "(t + x) * (1 - eps53) ^ (k + 2) \<le> rd fp (p + rd fp x)"
    and "rd fp (p + rd fp x) \<le> (t + x) * (1 + eps53) ^ (k + 2)"
proof -
  have e: "0 \<le> 1 - eps53" "1 - eps53 \<le> 1" "1 \<le> 1 + eps53" using eps53_bounds by simp_all
  have pw: "(1 - eps53) ^ Suc k \<le> (1 - eps53) ^ k" "(1 - eps53) ^ Suc k \<le> 1 - eps53"
    "(1 + eps53) ^ k \<le> (1 + eps53) ^ Suc k" "1 + eps53 \<le> (1 + eps53) ^ Suc k"
    using e power_le_one [OF e(1,2), of k] one_le_power [OF e(3), of k]
    by (simp_all add: mult_left_le mult_left_le_one_le mult_le_cancel_right1 mult_le_cancel_left1)
  have p0: "0 \<le> p" using lo t e by (meson order_trans mult_nonneg_nonneg zero_le_power)
  have x0: "0 \<le> rd fp x" using rd_scale(1) [OF fp x] x e by (meson order_trans mult_nonneg_nonneg)
  have "(t + x) * (1 - eps53) ^ Suc k \<le> p + rd fp x"
  proof -
    have "t * (1 - eps53) ^ Suc k \<le> p" using lo pw(1) t by (meson mult_left_mono order_trans)
    moreover have "x * (1 - eps53) ^ Suc k \<le> rd fp x"
      using rd_scale(1) [OF fp x] pw(2) x by (meson mult_left_mono order_trans)
    ultimately show ?thesis by (simp only: distrib_right)
  qed
  then have "(t + x) * (1 - eps53) ^ Suc k * (1 - eps53) \<le> (p + rd fp x) * (1 - eps53)"
    using e by (intro mult_right_mono)
  also have "\<dots> \<le> rd fp (p + rd fp x)" using p0 x0 by (intro rd_scale(1) [OF fp]) simp
  finally show "(t + x) * (1 - eps53) ^ (k + 2) \<le> rd fp (p + rd fp x)"
    by (simp add: mult.assoc mult.commute mult.left_commute)
  have "p + rd fp x \<le> (t + x) * (1 + eps53) ^ Suc k"
  proof -
    have "p \<le> t * (1 + eps53) ^ Suc k" using hi pw(3) t by (meson mult_left_mono order_trans)
    moreover have "rd fp x \<le> x * (1 + eps53) ^ Suc k"
      using rd_scale(2) [OF fp x] pw(4) x by (meson mult_left_mono order_trans)
    ultimately show ?thesis by (simp only: distrib_right)
  qed
  then have "(p + rd fp x) * (1 + eps53) \<le> (t + x) * (1 + eps53) ^ Suc k * (1 + eps53)"
    using e by (intro mult_right_mono) auto
  moreover have "rd fp (p + rd fp x) \<le> (p + rd fp x) * (1 + eps53)"
    using p0 x0 by (intro rd_scale(2) [OF fp]) simp
  ultimately show "rd fp (p + rd fp x) \<le> (t + x) * (1 + eps53) ^ (k + 2)"
    by (simp add: mult.assoc mult.commute mult.left_commute)
qed

lemma blocks_price_scale:
  assumes "fp_ok fp" "0 \<le> t" "\<forall>c \<in> set cs. 0 \<le> cf_fee c" "\<forall>n \<in> set ns. 0 \<le> n"
    and "t * (1 - eps53) ^ k \<le> p" "p \<le> t * (1 + eps53) ^ k"
  shows "\<exists>j \<le> k + 2 * length cs.
      (t + blocks_price exact 0 ns cs) * (1 - eps53) ^ j \<le> blocks_price fp p ns cs \<and>
      blocks_price fp p ns cs \<le> (t + blocks_price exact 0 ns cs) * (1 + eps53) ^ j"
  using assms
proof (induction ns cs arbitrary: t p k rule: list_induct2')
  case (4 n ns c cs)
  define x where "x = of_int n * cf_fee c"
  have x: "0 \<le> x" using "4.prems" by (simp add: x_def)
  note st = charge_step_scale [OF "4.prems"(1) x "4.prems"(2,5,6)]
  have F: "blocks_price fp p (n # ns) (c # cs) = blocks_price fp (rd fp (p + rd fp x)) ns cs"
    by (simp add: blocks_simps(2) dadd_def imul_def x_def)
  have E: "t + blocks_price exact 0 (n # ns) (c # cs) = (t + x) + blocks_price exact 0 ns cs"
    by (simp add: x_def)
  have "0 \<le> t + x" "\<forall>c \<in> set cs. 0 \<le> cf_fee c" "\<forall>n \<in> set ns. 0 \<le> n" using "4.prems" x by auto
  from "4.IH" [OF "4.prems"(1) this st] show ?case unfolding F E by simp
qed (simp_all add: blocks_price_def, (rule exI, blast intro: le_add1 order_refl le_SucI trans_le_add1)+)

lemma charge_blocks_tail_nonneg:
  assumes "tariff_ok cs" "s \<le> 0" "\<forall>c \<in> set cs. - s < cf_delta c"
  shows "\<forall>n \<in> set (charge_blocks s cs). 0 \<le> n"
  using assms
proof (induction cs)
  case (Cons c cs)
  have "ceil_div s (cf_delta c) = 0" using Cons.prems by (intro ceil_div_zero) auto
  moreover have "0 \<le> cf_iterations c" using Cons.prems by (simp add: step_ok_def)
  ultimately show ?case using Cons by (simp add: charge_blocks_unfold [OF refl])
qed (simp add: charge_blocks.simps)

lemma charge_blocks_nonneg:
  assumes "tariff_ok cs" "tariff_fit cs" "0 < s"
  shows "\<forall>n \<in> set (charge_blocks s cs). 0 \<le> n"
  using assms
proof (induction cs arbitrary: s)
  case (Cons c cs)
  define u where "u = ceil_div s (cf_delta c)"
  have d: "0 < cf_delta c" "0 \<le> cf_iterations c" and cs: "tariff_ok cs" "tariff_fit cs"
    using Cons.prems by (auto simp: step_ok_def)
  have u: "0 < u" using Cons.prems d by (auto simp: u_def)
  have lo: "(u - 1) * cf_delta c < s" and up: "s \<le> u * cf_delta c"
    using ceil_div_bounds [OF d(1), of s] by (simp_all add: u_def)
  note unf = charge_blocks_unfold [OF u_def, of cs]
  consider "cf_iterations c = 0 \<or> u = 1" | "cf_iterations c \<noteq> 0" "1 < u" "u \<le> cf_iterations c"
    | "cf_iterations c \<noteq> 0" "1 < u" "cf_iterations c < u" using u by linarith
  then show ?case
  proof cases
    case 1
    then show ?thesis using unf d u by auto
  next
    case 2
    have r: "s - u * cf_delta c \<le> 0" "- (s - u * cf_delta c) < cf_delta c"
      using lo up by (simp_all add: algebra_simps)
    have "\<forall>e \<in> set cs. cf_delta c \<le> cf_delta e" using Cons.prems(2) 2 by simp
    then have "\<forall>n \<in> set (charge_blocks (s - u * cf_delta c) cs). 0 \<le> n"
      using r by (intro charge_blocks_tail_nonneg [OF cs(1)]) auto
    then show ?thesis using 2 unf u by simp
  next
    case 3
    have "cf_iterations c * cf_delta c \<le> (u - 1) * cf_delta c" using 3 d by (intro mult_right_mono) auto
    then have "0 < s - cf_iterations c * cf_delta c" using lo by linarith
    then have "\<forall>n \<in> set (charge_blocks (s - cf_iterations c * cf_delta c) cs). 0 \<le> n"
      by (rule Cons.IH [OF cs])
    then show ?thesis using 3 unf d by simp
  qed
qed (simp add: charge_blocks.simps)

lemma blocks_price_rounding:
  assumes "fp_ok fp" "tariff_ok cs" "tariff_fit cs" "0 < s"
  shows "ideal_price s cs * (1 - eps53) ^ (2 * length cs) \<le> blocks_price fp 0 (charge_blocks s cs) cs"
    and "blocks_price fp 0 (charge_blocks s cs) cs \<le> ideal_price s cs * (1 + eps53) ^ (2 * length cs)"
proof -
  let ?q = "blocks_price fp 0 (charge_blocks s cs) cs" and ?i = "ideal_price s cs"
  have fees: "\<forall>c \<in> set cs. 0 \<le> cf_fee c" using assms by (auto simp: step_ok_def)
  have i: "0 \<le> ?i" using ideal_price_nonneg [OF assms(2)] .
  obtain j where j: "j \<le> 2 * length cs" "?i * (1 - eps53) ^ j \<le> ?q" "?q \<le> ?i * (1 + eps53) ^ j"
    using blocks_price_scale [OF assms(1) order_refl fees charge_blocks_nonneg [OF assms(2-)], of 0 0]
      blocks_price_ideal [OF assms(2-)] by auto
  have "?i * (1 - eps53) ^ (2 * length cs) \<le> ?i * (1 - eps53) ^ j"
    using eps53_bounds j(1) i by (intro mult_left_mono power_decreasing) auto
  then show "?i * (1 - eps53) ^ (2 * length cs) \<le> ?q" using j(2) by (rule order_trans)
  have "?i * (1 + eps53) ^ j \<le> ?i * (1 + eps53) ^ (2 * length cs)"
    using eps53_bounds j(1) i by (intro mult_left_mono power_increasing) auto
  with j(3) show "?q \<le> ?i * (1 + eps53) ^ (2 * length cs)" by (rule order_trans)
qed

section \<open>calc_maxsec returns\<close>

lemma maxsec_loop_range:
  "calc_maxsec_loop fp fb u m L cs = Some m' \<Longrightarrow> int_range m \<Longrightarrow> int_range m'"
proof (induction fp fb u m L cs rule: calc_maxsec_loop.induct)
  case (2 fp fb u m L c cs)
  have "int_range 0" by (simp add: int_range_def)
  then show ?case using 2
    by (auto simp: cadd_def Let_def split: if_splits Option.bind_splits)
qed simp

lemma maxsec_units_bounded:
  assumes "fp_ok fp" "\<bar>U\<bar> < 2 ^ 31" "0 < f" "0 \<le> L" "L \<le> of_int U * f"
  shows "\<exists>u. (do { q \<leftarrow> ddiv fp L f; to_int \<lfloor>q\<rfloor> }) = Some u \<and> 0 \<le> u \<and> u \<le> U"
proof -
  have r: "rounding (rd fp) 53" using assms by (simp add: fp_ok_def)
  have "L / f \<le> of_int U" using assms by (simp add: pos_divide_le_eq)
  then have "rd fp (L / f) \<le> rd fp (of_int U)" by (rule rounding.r_mono [OF r])
  also have "\<dots> = of_int U" using assms(2) by (intro rounding.r_of_int [OF r]) simp
  finally have up: "\<lfloor>rd fp (L / f)\<rfloor> \<le> U" using floor_mono by fastforce
  have lo: "0 \<le> \<lfloor>rd fp (L / f)\<rfloor>"
    using rounding.r_nonneg [OF r, of "L / f"] assms by simp
  have "int_range \<lfloor>rd fp (L / f)\<rfloor>"
  proof -
    have "int_range v" if "0 \<le> v" "v \<le> U" for v
      using that assms(2) by (simp add: int_range_def)
    then show ?thesis using lo up by blast
  qed
  then show ?thesis using up lo assms(3) by (simp add: ddiv_def)
qed

lemma maxsec_loop_total:
  assumes fp: "fp_ok fp" and "tariff_ok cs" "fb \<le> 0" "\<bar>K\<bar> < 2 ^ 53" "L \<le> of_int K"
    and "\<forall>c \<in> set cs. 0 < cf_fee c \<longrightarrow> of_int K \<le> of_int U * cf_fee c"
    and "1 \<le> U" "U < 2 ^ 31" "\<forall>c \<in> set cs. U * cf_delta c \<le> B" "0 \<le> u" "u \<le> U"
    and "0 \<le> m" "m + B * int (length cs) < 2 ^ 31"
  shows "calc_maxsec_loop fp fb u m L cs \<noteq> None"
  using assms(2-)
proof (induction cs arbitrary: u m L)
  case (Cons c cs)
  have c: "0 < cf_pos c" "0 < cf_delta c" "0 \<le> cf_fee c" "0 \<le> cf_iterations c"
    using Cons.prems by (auto simp: step_ok_def)
  have r: "rounding (rd fp) 53" using fp by (simp add: fp_ok_def)
  have B: "U * cf_delta c \<le> B" "0 \<le> B * int (length cs)"
    using Cons.prems(6,8) c(2) by (auto intro!: mult_nonneg_nonneg order_trans [of 0 "U * cf_delta c" B])
  show ?case
  proof (cases "L \<le> 0")
    case True
    then show ?thesis using Cons.prems by simp
  next
    case False
    obtain v where v: "0 \<le> v" "v \<le> U"
      "(if 0 < cf_fee c then do { q \<leftarrow> ddiv fp L (cf_fee c); to_int \<lfloor>q\<rfloor> } else Some u) = Some v"
    proof (cases "0 < cf_fee c")
      case True
      then have "of_int K \<le> of_int U * cf_fee c" using Cons.prems(5) by simp
      then have "L \<le> of_int U * cf_fee c" using Cons.prems(4) by (rule order_trans [rotated])
      moreover have "\<bar>U\<bar> < 2 ^ 31" "0 \<le> L" using Cons.prems(6,7) False by simp_all
      ultimately show ?thesis
        using maxsec_units_bounded [OF fp, of U "cf_fee c" L] True that
        by (metis (no_types, lifting))
    next
      case False
      then show ?thesis using Cons.prems(9,10) that [of u] by simp
    qed
    define w where "w = (if cf_fee c = 0 then 1 else v)"
    have w: "0 \<le> w" "w \<le> U" using v Cons.prems by (auto simp: w_def)
    have step: "0 \<le> n * cf_delta c" "n * cf_delta c \<le> B" if "0 \<le> n" "n \<le> w" for n
    proof -
      show "0 \<le> n * cf_delta c" using that c by simp
      have "n \<le> U" using that w by linarith
      then have "n * cf_delta c \<le> U * cf_delta c" using c(2) by (intro mult_right_mono) linarith+
      then show "n * cf_delta c \<le> B" using B(1) by linarith
    qed
    define N where "N = B * int (length cs)"
    have len: "B * int (length (c # cs)) = B + B * int (length cs)" by (simp add: algebra_simps)
    have add: "int_range (n * cf_delta c)" "int_range (m + n * cf_delta c)"
      "0 \<le> m + n * cf_delta c" "m + n * cf_delta c + B * int (length cs) < 2 ^ 31"
      if "0 \<le> n" "n \<le> w" for n
      using step [OF that] B(2) Cons.prems(11,12) unfolding len int_range_def N_def [symmetric] by simp_all
    have lim: "dsub fp L (imul fp n (cf_fee c)) \<le> of_int K" if "0 \<le> n" for n
    proof -
      have "0 \<le> imul fp n (cf_fee c)" using that c by (auto simp: imul_def intro!: rounding.r_nonneg [OF r])
      then have "dsub fp L (imul fp n (cf_fee c)) \<le> rd fp (of_int K)"
        using Cons.prems(4) by (auto simp: dsub_def intro!: rounding.r_mono [OF r])
      then show ?thesis using rounding.r_of_int [OF r Cons.prems(3)] by simp
    qed
    have IH: "calc_maxsec_loop fp fb w (m + n * cf_delta c) (dsub fp L (imul fp n (cf_fee c))) cs \<noteq> None"
      if "0 \<le> n" "n \<le> w" for n
      by (rule Cons.IH [OF _ Cons.prems(2,3) lim [OF that(1)] _ Cons.prems(6,7) _ w add(3,4) [OF that]])
        (use Cons.prems(1,5,8) in \<open>auto simp only: list.set(2) insert_iff\<close>)
    show ?thesis
      unfolding calc_maxsec_loop.simps Let_def v(3) bind.bind_lunit w_def [symmetric]
      using c False Cons.prems(2) add [OF w(1) order_refl] IH [OF w(1) order_refl]
        add [of "cf_iterations c"] IH [of "cf_iterations c"]
      by (simp add: cmul_def cadd_def)
  qed
qed simp

section \<open>The free pool\<close>

lemma free_seq_exhausted:
  "limit \<le> consumed \<Longrightarrow> limit \<le> hist + cum \<Longrightarrow> \<forall>b \<in> set bs. 0 \<le> b \<Longrightarrow>
   free_seq limit consumed bs = free_clamp limit hist cum bs"
proof (induction bs arbitrary: consumed cum)
  case (Cons b bs)
  have "free_seq limit consumed bs = free_clamp limit hist (cum + b) bs"
    using Cons.prems by (intro Cons.IH) auto
  then show ?case using Cons.prems by (cases "b = 0") (auto simp: Let_def)
qed simp

lemma round_billsec_quotient:
  assumes "fp_ok fp" "\<bar>us\<bar> < 2 ^ 51"
  shows "\<lceil>rd fp (rd fp (of_int us) / 1000000)\<rceil> = ceil_div us 1000000"
    and "\<lfloor>rd fp (rd fp (of_int us) / 1000000)\<rfloor> = us div 1000000"
proof -
  have r: "rounding (rd fp) 53" using assms by (simp add: fp_ok_def)
  have us: "\<bar>us\<bar> < 2 ^ 53" "\<bar>- us\<bar> < 2 ^ 53" using assms by auto
  have id: "rd fp (of_int us) = of_int us" using rounding.r_of_int [OF r us(1)] .
  have q: "\<lceil>rd fp (of_int x / of_int 1000000)\<rceil> = ceil_div x 1000000" if "\<bar>x\<bar> < 2 ^ 53" for x
    using rounding.r_ceil_quotient [OF r that, of 1000000] by (simp add: ceil_div_def ceiling_divide_eq_div [of x 1000000, simplified])
  show "\<lceil>rd fp (rd fp (of_int us) / 1000000)\<rceil> = ceil_div us 1000000"
    using q [OF us(1)] by (simp add: id)
  have "rd fp (of_int us / 1000000) = - rd fp (of_int (- us) / of_int 1000000)"
    by (simp add: rounding.r_minus [OF r, symmetric])
  then have "\<lfloor>rd fp (of_int us / 1000000)\<rfloor> = - ceil_div (- us) 1000000"
    using q [OF us(2)] by (simp add: floor_minus)
  then show "\<lfloor>rd fp (rd fp (of_int us) / 1000000)\<rfloor> = us div 1000000"
    by (simp add: id ceil_div_def)
qed

section \<open>Example accounts\<close>

definition tariff_account :: "calc_function list \<Rightarrow> rating \<Rightarrow> racc" where
  "tariff_account cs pre = (rt_data_racc_init pre)\<lparr>ra_bplan := bplan0\<lparr>bp_rates := Some [
     \<lparr>rt_id = 1, rt_prefix_id = 1, rt_prefix = ''359'', rt_tariff_id = 1, rt_tariff_name = ''std'',
      rt_start_period = 0, rt_end_period = 0, rt_free_billsec_id = 0, rt_calc_funcs = Some cs\<rparr>]\<rparr>\<rparr>"

definition step :: "int \<Rightarrow> int \<Rightarrow> rat \<Rightarrow> int \<Rightarrow> calc_function" where
  "step p d f i = \<lparr>cf_pos = p, cf_delta = d, cf_fee = f, cf_iterations = i\<rparr>"

lemma step_simps [simp]:
  "cf_pos (step p d f i) = p" "cf_delta (step p d f i) = d" "cf_fee (step p d f i) = f"
  "cf_iterations (step p d f i) = i"
  by (simp_all add: step_def)

lemma tariff_account_simps [simp]:
  "racc_calc_funcs (tariff_account cs pre) = Some (Some cs)"
  "ra_pre (tariff_account cs pre) = pre"
  by (simp_all add: tariff_account_def racc_calc_funcs_def rt_data_racc_init_def)

lemma pre_billsec_rating0 [simp]: "pre_billsec (rating0\<lparr>pre_billsec := b\<rparr>) = b"
  by simp

text \<open>A minute that is always charged, then blocks of ten seconds.\<close>

definition tariff_60_10 :: "calc_function list" where
  "tariff_60_10 = [step 1 60 (1/10) 1, step 2 10 (1/10) 0]"

lemma tariff_60_10_ok:
  "tariff_ok tariff_60_10" "tariff_fit tariff_60_10" "fees_rise tariff_60_10" "tariff_closed tariff_60_10"
  "\<forall>c \<in> set tariff_60_10. cf_delta c \<le> 60" "length tariff_60_10 = 2"
  by (simp_all add: tariff_60_10_def step_ok_def tariff_closed_def)

section \<open>What the pricing of a call guarantees\<close>

lemma cprice_covers:
  assumes "fp_ok fp" "racc_calc_funcs r = Some (Some cs)" "tariff_ok cs" "tariff_closed cs"
    and "0 \<le> pre_billsec (ra_pre r)" "pre_billsec (ra_pre r) < 2 ^ 24"
    and "\<forall>c \<in> set cs. cf_delta c \<le> d"
  shows "\<exists>q b. calc_cprice_2 fp r = Some (0, upd_pre (\<lambda>p. p\<lparr>pre_cprice := q, pre_billsec := b\<rparr>) r) \<and>
    pre_billsec (ra_pre r) \<le> b \<and> b < pre_billsec (ra_pre r) + d"
proof -
  define s where "s = pre_billsec (ra_pre r)"
  define b where "b = blocks_sec (charge_blocks s cs) cs"
  have cs: "cs \<noteq> []" "cf_iterations (last cs) = 0" using assms(4) by (auto simp: tariff_closed_def)
  have "0 < cf_delta (hd cs)" "cf_delta (hd cs) \<le> d" using cs assms(3,7) by (auto simp: step_ok_def)
  then have d: "0 < d" by linarith
  have "s \<le> b" using charge_blocks_cover [OF assms(3) cs] by (simp add: b_def)
  moreover have "- d < s - b"
    using charge_blocks_overshoot [OF assms(3,7) d, of s] d assms(5) by (simp add: b_def s_def)
  moreover have "calc_cprice_2 fp r = Some (0, upd_pre (\<lambda>p. p\<lparr>pre_cprice :=
      blocks_price fp 0 (charge_blocks s cs) cs, pre_billsec := b\<rparr>) r)"
    using calc_cprice_2_eq [OF assms(1,2,3)] assms(5,6) \<open>s \<le> b\<close> by (simp add: Let_def s_def b_def)
  ultimately show ?thesis unfolding s_def [symmetric] by (intro exI conjI) auto
qed

lemma cprice_exact:
  assumes "racc_calc_funcs r = Some (Some cs)" "tariff_ok cs" "tariff_fit cs"
    and "0 < pre_billsec (ra_pre r)" "pre_billsec (ra_pre r) < 2 ^ 24" "calc_cprice_2 exact r = Some (ret, r')"
  shows "pre_cprice (ra_pre r') = ideal_price (pre_billsec (ra_pre r)) cs"
  using blocks_price_ideal [OF assms(2,3,4)] assms(4-6)
  by (auto simp: calc_cprice_2_eq [OF fp_ok_exact assms(1,2)] Let_def)

text \<open>Property C2. On a tariff where a step of two or more iterations is never followed by a
  shorter block, the price of \<open>calc_cprice_2\<close> in exact arithmetic is the reference price
  \<open>ideal_price\<close> (blocks taken from the first step until its iterations are used, the rest
  by the next steps), and the machine's price differs from it by at most the two roundings
  of \<open>2 ^ -53\<close> per step of the tariff.\<close>

theorem calc_cprice_2_price:
  assumes "fp_ok fp" "racc_calc_funcs r = Some (Some cs)" "tariff_ok cs" "tariff_fit cs"
    and "0 < pre_billsec (ra_pre r)" "pre_billsec (ra_pre r) < 2 ^ 24"
  shows "\<exists>ret r'. calc_cprice_2 fp r = Some (ret, r') \<and>
      (let i = ideal_price (pre_billsec (ra_pre r)) cs in
        i * (1 - 1 / 2 ^ 53) ^ (2 * length cs) \<le> pre_cprice (ra_pre r') \<and>
        pre_cprice (ra_pre r') \<le> i * (1 + 1 / 2 ^ 53) ^ (2 * length cs) \<and>
        (fp = exact \<longrightarrow> pre_cprice (ra_pre r') = i))"
  using blocks_price_rounding [OF assms(1,3,4,5)] blocks_price_ideal [OF assms(3,4,5)] assms(5,6)
  unfolding calc_cprice_2_eq [OF assms(1,2,3)] Let_def eps53_def
  by (auto simp: calc_cprice_2_eq [OF assms(1,2,3)] Let_def)

theorem calc_cprice_2_price_witness:
  "\<exists>ret r'. calc_cprice_2 exact (tariff_account tariff_60_10 (rating0\<lparr>pre_billsec := 75\<rparr>)) = Some (ret, r') \<and>
     pre_cprice (ra_pre r') = 3 / 10"
proof -
  have "ideal_price 75 tariff_60_10 = 3 / 10"
    by (simp add: tariff_60_10_def ideal_price.simps ceil_div_def Let_def)
  then show ?thesis
    using calc_cprice_2_price [of exact "tariff_account tariff_60_10 (rating0\<lparr>pre_billsec := 75\<rparr>)" tariff_60_10]
      tariff_60_10_ok by (auto simp: Let_def)
qed

lemma maxsec_pays:
  assumes "calc_maxsec exact cap r = Some r1" "racc_calc_funcs r = Some (Some cs)"
    and "tariff_ok cs" "tariff_fit cs" "fees_rise cs"
    and "pre_free_billsec_limit (ra_pre r) \<le> pre_free_billsec_sum (ra_pre r)"
    and "0 \<le> pre_limit (ra_pre r)" "0 \<le> sint cap"
    and "0 < b" "b \<le> pre_maxsec (ra_pre r1)" "b < 2 ^ 24"
    and "calc_cprice_2 exact (upd_pre (\<lambda>p. p\<lparr>pre_billsec := b\<rparr>) r) = Some (ret, r2)"
  shows "pre_cprice (ra_pre r2) \<le> pre_limit (ra_pre r)"
proof -
  define fb where "fb = pre_free_billsec_limit (ra_pre r) - pre_free_billsec_sum (ra_pre r)"
  have fb: "fb \<le> 0" using assms(6) by (simp add: fb_def)
  obtain m where m: "calc_maxsec_loop exact fb 0 0 (pre_limit (ra_pre r)) cs = Some m"
    and r1: "r1 = upd_pre (\<lambda>p. p\<lparr>pre_maxsec := maxsec_cap cap m\<rparr>) r"
    using assms(1,2) fb by (auto simp: calc_maxsec_def csub_def Let_def simp flip: fb_def
        split: Option.bind_splits if_splits)
  have "int_range m" using maxsec_loop_range [OF m] by (simp add: int_range_def)
  moreover have aff: "0 \<le> m" "ideal_price m cs \<le> pre_limit (ra_pre r)"
    using maxsec_loop_affordable [OF assms(3,5) fb assms(7) m] by simp_all
  ultimately have "b \<le> m" using assms(10) by (auto simp: r1 maxsec_cap_eq [OF _ assms(8)] split: if_splits)
  then have "ideal_price b cs \<le> pre_limit (ra_pre r)"
    using ideal_price_mono [OF assms(3)] aff(2) order_trans by blast
  moreover have "pre_cprice (ra_pre r2) = ideal_price b cs"
    using cprice_exact [OF _ assms(3,4) _ _ assms(12)] assms by simp
  ultimately show ?thesis by simp
qed

text \<open>Property C1. Prepaid safety: on a tariff that is well formed, fits and whose fees do
  not fall from step to step, an account without free seconds is never granted more
  seconds by \<open>calc_maxsec\<close> than it can pay: any call of at most \<open>maxsec\<close> seconds, rated by
  \<open>calc_cprice_2\<close> on the same tariff, costs at most the limit. Arithmetic is exact.\<close>

theorem calc_maxsec_affordable:
  assumes "calc_maxsec exact cap r = Some r1" "racc_calc_funcs r = Some (Some cs)"
    and "tariff_ok cs" "tariff_fit cs" "fees_rise cs"
    and "pre_free_billsec_limit (ra_pre r) \<le> pre_free_billsec_sum (ra_pre r)"
    and "0 \<le> pre_limit (ra_pre r)" "0 \<le> sint cap"
    and "0 < b" "b \<le> pre_maxsec (ra_pre r1)" "b < 2 ^ 24"
    and "calc_cprice_2 exact (upd_pre (\<lambda>p. p\<lparr>pre_billsec := b\<rparr>) r) = Some (ret, r2)"
  shows "pre_cprice (ra_pre r2) \<le> pre_limit (ra_pre r)"
  by (rule maxsec_pays [OF assms])

theorem calc_maxsec_affordable_witness:
  "\<exists>r1 r2. calc_maxsec exact 7200 (tariff_account tariff_60_10 (rating0\<lparr>pre_limit := 1 / 2\<rparr>)) = Some r1 \<and>
     pre_maxsec (ra_pre r1) = 100 \<and>
     calc_cprice_2 exact (upd_pre (\<lambda>p. p\<lparr>pre_billsec := 95\<rparr>)
       (tariff_account tariff_60_10 (rating0\<lparr>pre_limit := 1 / 2\<rparr>))) = Some (0, r2) \<and>
     pre_cprice (ra_pre r2) \<le> 1 / 2"
proof -
  let ?r = "tariff_account tariff_60_10 (rating0\<lparr>pre_limit := 1 / 2\<rparr>)"
  have m: "calc_maxsec exact 7200 ?r = Some (upd_pre (\<lambda>p. p\<lparr>pre_maxsec := 100\<rparr>) ?r)"
    by (simp add: calc_maxsec_def tariff_60_10_def Let_def csub_def cmul_def cadd_def int_range_def
        maxsec_cap_def rating0_def)
  obtain r2 where c: "calc_cprice_2 exact (upd_pre (\<lambda>p. p\<lparr>pre_billsec := 95\<rparr>) ?r) = Some (0, r2)"
    using cprice_covers [of exact "upd_pre (\<lambda>p. p\<lparr>pre_billsec := 95\<rparr>) ?r" tariff_60_10 60]
      tariff_60_10_ok by auto
  show ?thesis
    using calc_maxsec_affordable [OF m _ _ _ _ _ _ _ _ _ _ c, of tariff_60_10] tariff_60_10_ok m c
    by (auto simp: rating0_def)
qed

text \<open>Property C29. \<open>calc_maxsec\<close> returns within bounds: for an account without free seconds, a limit of at most
  \<open>K\<close> money units and at most \<open>U\<close> affordable blocks per step, where \<open>U\<close> blocks of every step together
  fit an \<open>int\<close>, it computes a value without any overflow or undefined conversion (beyond these bounds
  the products of the code can overflow); the
  value lies between 0 and the configured cap \<open>call_maxsec_limit\<close>, and nothing but
  \<open>pre->maxsec\<close> changes. It holds of IEEE and of exact arithmetic.\<close>

theorem calc_maxsec_total:
  assumes "fp_ok fp" "racc_calc_funcs r = Some (Some cs)" "tariff_ok cs"
    and "int_range (pre_free_billsec_limit (ra_pre r) - pre_free_billsec_sum (ra_pre r))"
    and "pre_free_billsec_limit (ra_pre r) \<le> pre_free_billsec_sum (ra_pre r)"
    and "pre_limit (ra_pre r) \<le> of_int K" "\<bar>K\<bar> < 2 ^ 53"
    and "\<forall>c \<in> set cs. 0 < cf_fee c \<longrightarrow> of_int K \<le> of_int U * cf_fee c" "1 \<le> U" "U < 2 ^ 31"
    and "\<forall>c \<in> set cs. U * cf_delta c \<le> B" "B * int (length cs) < 2 ^ 31" "0 \<le> sint cap"
  shows "\<exists>m. calc_maxsec fp cap r = Some (upd_pre (\<lambda>p. p\<lparr>pre_maxsec := m\<rparr>) r) \<and> 0 \<le> m \<and> m \<le> sint cap"
proof -
  define fb where "fb = pre_free_billsec_limit (ra_pre r) - pre_free_billsec_sum (ra_pre r)"
  have fb: "fb \<le> 0" "int_range fb" using assms(4,5) by (simp_all add: fb_def)
  obtain m where m: "calc_maxsec_loop fp fb 0 0 (pre_limit (ra_pre r)) cs = Some m"
    using maxsec_loop_total [OF assms(1,3) fb(1) assms(7,6,8,9,10,11), of 0 0] assms(9,12) by auto
  have "int_range m" using maxsec_loop_range [OF m] by (simp add: int_range_def)
  from maxsec_cap_eq [OF this assms(13)] have "0 \<le> maxsec_cap cap m" "maxsec_cap cap m \<le> sint cap"
    using assms(13) by auto
  then show ?thesis using m fb assms(2)
    by (intro exI [of _ "maxsec_cap cap m"]) (simp add: calc_maxsec_def csub_def Let_def flip: fb_def)
qed

theorem calc_maxsec_total_witness:
  "\<exists>m. calc_maxsec ieee 7200 (tariff_account tariff_60_10 (rating0\<lparr>pre_limit := 1 / 2\<rparr>)) =
     Some (upd_pre (\<lambda>p. p\<lparr>pre_maxsec := m\<rparr>) (tariff_account tariff_60_10 (rating0\<lparr>pre_limit := 1 / 2\<rparr>)))
     \<and> 0 \<le> m \<and> m \<le> sint (7200 :: u32)"
  using tariff_60_10_ok
  by (intro calc_maxsec_total [of ieee _ tariff_60_10 1 10 600])
     (auto simp: rating0_def int_range_def tariff_60_10_def)

text \<open>The batch formula and the per-call function agree: the per-step formula of
  the DuckDB module, as the unit test \<open>tariff_pricing.c\<close> writes it in C with a \<open>double\<close>
  quotient, gives the price and the billed seconds of \<open>calc_cprice_2\<close> with its \<open>float\<close>
  quotient, for every well-formed tariff and every call below \<open>2 ^ 24\<close> seconds.\<close>

theorem cte_eq_calc_cprice_2:
  assumes "fp_ok fp" "racc_calc_funcs r = Some (Some cs)" "tariff_ok cs"
    and "\<bar>pre_billsec (ra_pre r)\<bar> < 2 ^ 24"
  shows "cte fp (pre_billsec (ra_pre r)) cs =
    map_option (\<lambda>(ret, r'). (pre_cprice (ra_pre r'), pre_billsec (ra_pre r'))) (calc_cprice_2 fp r)"
  using cte_loop_eq [OF assms(1,3,4), of 0 0] calc_cprice_2_loop_blocks [OF assms(1,3,4), of 0 0]
    assms(2,4) by (simp add: cte_def calc_cprice_2_def)

theorem cte_eq_calc_cprice_2_witness:
  "cte ieee 75 tariff_60_10 =
    map_option (\<lambda>(ret, r'). (pre_cprice (ra_pre r'), pre_billsec (ra_pre r')))
      (calc_cprice_2 ieee (tariff_account tariff_60_10 (rating0\<lparr>pre_billsec := 75\<rparr>)))"
  using cte_eq_calc_cprice_2 [of ieee "tariff_account tariff_60_10 (rating0\<lparr>pre_billsec := 75\<rparr>)" tariff_60_10]
    tariff_60_10_ok by simp

text \<open>The window clamp of the free pool (limit minus history minus the running
  sum of full durations) gives every call the same free seconds as the sequential
  drawdown.\<close>

theorem free_seq_eq_clamp:
  "\<forall>b \<in> set bs. 0 \<le> b \<Longrightarrow> free_seq limit hist bs = free_clamp limit hist 0 bs"
proof -
  have "free_seq limit (hist + cum) bs = free_clamp limit hist cum bs"
    if "\<forall>b \<in> set bs. 0 \<le> b" for cum
    using that
  proof (induction bs arbitrary: cum)
    case (Cons b bs)
    show ?case
    proof (cases "b \<le> limit - (hist + cum)")
      case True
      then show ?thesis using Cons.IH [of "cum + b"] Cons.prems by (auto simp: Let_def add.assoc)
    next
      case False
      define f where "f = (if 0 < limit - (hist + cum) then limit - (hist + cum) else 0)"
      have "free_seq limit (hist + cum + f) bs = free_clamp limit hist (cum + b) bs"
        using False Cons.prems by (intro free_seq_exhausted) (auto simp: f_def)
      then show ?thesis using False Cons.prems by (auto simp: Let_def f_def split: if_splits)
    qed
  qed simp
  from this [of 0] show "\<forall>b \<in> set bs. 0 \<le> b \<Longrightarrow> free_seq limit hist bs = free_clamp limit hist 0 bs"
    by simp
qed

theorem free_seq_eq_clamp_witness: "free_clamp 100 20 0 [50, 60, 10] = [50, 30, 0]"
  using free_seq_eq_clamp [of "[50, 60, 10]" 100 20] by simp

text \<open>Rounding of a duration in microseconds whose seconds fit an \<open>int\<close>: mode 1 bills the
  started seconds, mode 2 the completed ones, any other mode bills none; the \<open>double\<close>
  quotient is never rounded across a second.\<close>

theorem round_billsec_correct:
  assumes "fp_ok fp" "0 \<le> us" "us \<le> 2147483647 * 1000000"
  shows "\<exists>up down. round_billsec fp 1 us = Some up \<and> round_billsec fp 2 us = Some down \<and>
      (up - 1) * 1000000 < us \<and> us \<le> up * 1000000 \<and>
      down * 1000000 \<le> us \<and> us < (down + 1) * 1000000 \<and>
      (\<forall>mode. mode \<noteq> 1 \<and> mode \<noteq> 2 \<longrightarrow> round_billsec fp mode us = Some 0)"
proof -
  have us: "\<bar>us\<bar> < 2 ^ 51" using assms by simp
  define up where "up = ceil_div us 1000000"
  define down where "down = us div 1000000"
  have u: "(up - 1) * 1000000 < us" "us \<le> up * 1000000"
    using ceil_div_bounds [of 1000000 us] by (simp_all add: up_def)
  have d: "down * 1000000 \<le> us" "us < (down + 1) * 1000000"
    using div_mult_mod_eq [of us 1000000] pos_mod_bound [of 1000000 us] pos_mod_sign [of 1000000 us]
    unfolding down_def distrib_right by linarith+
  have r: "int_range up" "int_range down"
    using u d assms(2,3) by (simp_all add: int_range_def)
  have "round_billsec fp 1 us = Some up" "round_billsec fp 2 us = Some down"
    using round_billsec_quotient [OF assms(1) us] r
    by (simp_all add: round_billsec_def Let_def up_def down_def)
  then show ?thesis using u d by (auto simp: round_billsec_def)
qed

theorem round_billsec_correct_witness:
  "\<exists>up. round_billsec ieee 1 59999999 = Some up \<and> up = 60"
  using round_billsec_correct [of ieee 59999999] by auto

text \<open>Property C40. \<open>calc_cprice_group\<close> with a free pool on a well-formed closed tariff: when
  the billed seconds fit in what is left of the pool the call is free, marked by the
  negated price (return 0); when they exceed it the return is 1 and the price stays
  positive, which asks the caller to split the call; with an empty pool the price is the
  plain price (return 0).\<close>

theorem calc_cprice_group_free_pool:
  assumes "fp_ok fp" "racc_calc_funcs r = Some (Some cs)" "tariff_ok cs" "tariff_closed cs"
    and "0 \<le> pre_billsec (ra_pre r)" "pre_billsec (ra_pre r) < 2 ^ 24"
    and "left = pre_free_billsec_limit (ra_pre r) - pre_free_billsec_sum (ra_pre r)" "int_range left"
    and "pre_free_billsec_limit (ra_pre r) \<noteq> 0"
  shows "\<exists>r1. calc_cprice_2 fp r = Some (0, r1) \<and>
     calc_cprice_group fp r = Some
       (if 0 < left \<and> left < pre_billsec (ra_pre r1) then 1 else 0,
        upd_pre (\<lambda>p. p\<lparr>pre_cprice := if 0 < left \<and> pre_billsec (ra_pre r1) \<le> left
                                      then - pre_cprice p else pre_cprice p\<rparr>) r1)"
proof -
  have "cs \<noteq> []" using assms(4) by (simp add: tariff_closed_def)
  obtain q b where r1: "calc_cprice_2 fp r = Some (0, upd_pre (\<lambda>p. p\<lparr>pre_cprice := q, pre_billsec := b\<rparr>) r)"
    using cprice_covers [OF assms(1-6), of "Max (cf_delta ` set cs)"] by auto
  then show ?thesis using assms(7-)
    by (auto simp: calc_cprice_group_def append_free_billsec_def csub_def)
qed

theorem calc_cprice_group_free_pool_witness:
  "\<exists>r1 r2. calc_cprice_2 ieee (tariff_account tariff_60_10 (rating0\<lparr>pre_billsec := 75, pre_free_billsec_limit := 100\<rparr>))
      = Some (0, r1) \<and>
    calc_cprice_group ieee (tariff_account tariff_60_10 (rating0\<lparr>pre_billsec := 75, pre_free_billsec_limit := 100\<rparr>))
      = Some (if 100 < pre_billsec (ra_pre r1) then 1 else 0, r2)"
  using calc_cprice_group_free_pool
      [of ieee "tariff_account tariff_60_10 (rating0\<lparr>pre_billsec := 75, pre_free_billsec_limit := 100\<rparr>)"
        tariff_60_10 100] tariff_60_10_ok
  by (auto simp: rating0_def int_range_def)

section \<open>Where the shapes are needed\<close>

lemma rat_units:
  "\<lceil>61 / 60 :: rat\<rceil> = 2" "\<lceil>1 / 15 :: rat\<rceil> = 1" "\<lfloor>4 / 5 :: rat\<rfloor> = 0"
  by (simp_all add: ceiling_eq_iff floor_eq_iff)

text \<open>A step of two iterations followed by shorter blocks: a call of 61 seconds is priced two
  blocks of 60 seconds and then 59 blocks of one second are taken back.\<close>

lemma calc_cprice_2_refund:
  "map_option (\<lambda>(ret, r). (ret, pre_cprice (ra_pre r), pre_billsec (ra_pre r)))
     (calc_cprice_2 exact (tariff_account [step 1 60 (1/100) 2, step 2 1 1 0] (rating0\<lparr>pre_billsec := 61\<rparr>)))
   = Some (0, 2/100 - 59, 61)"
  by (simp add: calc_cprice_2_def float_ceil_div_def cmul_def cadd_def csub_def int_range_def Let_def
      rat_units)

text \<open>A first block that the limit does not pay for is skipped by \<open>calc_maxsec\<close>, the cheaper
  next step is granted: the two seconds granted for 0.04 cost 0.05.\<close>

lemma calc_maxsec_overspend:
  "map_option (\<lambda>r. pre_maxsec (ra_pre r))
     (calc_maxsec exact 7200 (tariff_account [step 1 30 (5/100) 1, step 2 1 (2/100) 0] (rating0\<lparr>pre_limit := 4/100\<rparr>)))
   = Some 2"
  "map_option (\<lambda>(ret, r). pre_cprice (ra_pre r))
     (calc_cprice_2 exact (tariff_account [step 1 30 (5/100) 1, step 2 1 (2/100) 0] (rating0\<lparr>pre_billsec := 2\<rparr>)))
   = Some (5/100)"
  by (simp_all add: calc_maxsec_def calc_cprice_2_def float_ceil_div_def cmul_def cadd_def csub_def
      int_range_def Let_def maxsec_cap_def rating0_def rat_units)

end
