(* ===== verification/Charging.thy ===== *)
theory Charging
  imports Rating RateSearch Pricing
begin

text \<open>
  What the rating of calls guarantees: every record goes to exactly one worker, a call is stored
  and charged once, and the duration granted to a prepaid call is one its card can pay, also
  when the card is shared. The statements are the ones a recording engine of theory \<open>Query\<close>
  receives.
\<close>

section \<open>The parts of the workers\<close>

definition part_start :: "nat \<Rightarrow> nat \<Rightarrow> nat \<Rightarrow> nat" where
  "part_start pp k t = t * (pp div k) + (if t < pp mod k then t else pp mod k)"

lemma part_start_Suc: "part_start pp k (Suc t) = part_start pp k t + (pp div k + (if t < pp mod k then 1 else 0))"
  by (simp add: part_start_def)

lemma worker_indices_part:
  "worker_indices pp k t = [part_start pp k t ..< part_start pp k (Suc t)]"
  by (simp add: worker_indices_def worker_part_def Let_def part_start_Suc) (simp add: part_start_def)

lemma worker_indices_chain:
  "concat (map (worker_indices pp k) [0..<n]) = [0 ..< part_start pp k n]"
proof (induction n)
  case (Suc n)
  have "[0..<part_start pp k n] @ [part_start pp k n..<part_start pp k (Suc n)] = [0..<part_start pp k (Suc n)]"
    unfolding part_start_Suc by (rule upt_add_eq_append [symmetric]) simp
  then show ?case using Suc by (simp add: worker_indices_part)
qed (simp add: part_start_def)

text \<open>Property C39. The batch is split without loss or overlap: with any number of workers the
  index lists of the workers, one after the other, are the indices of all the records of the
  batch in order, and the parts differ by at most one record.\<close>

theorem workers_partition:
  assumes "0 < k"
  shows "concat (map (worker_indices pp k) [0..<k]) = [0..<pp] \<and>
    (\<forall>t < k. pp div k \<le> length (worker_indices pp k t) \<and> length (worker_indices pp k t) \<le> Suc (pp div k))"
proof -
  have "part_start pp k k = pp" using mod_less_divisor [OF assms, of pp] by (simp add: part_start_def)
  then show ?thesis using worker_indices_chain [of pp k k]
    by (simp add: worker_indices_part part_start_Suc)
qed

theorem workers_partition_witness:
  "concat (map (worker_indices 10 4) [0..<4]) = [0..<10] \<and> length (worker_indices 10 4 0) \<le> 3"
  using workers_partition [of 4 10] by auto

section \<open>The limit of a prepaid call\<close>

lemma split_limit_share:
  assumes "split_limit env pc sim lmt = Some (Inr share)" "0 < lmt"
  shows "0 < share"
  using assms by (auto simp: split_limit_def split: if_splits Option.bind_splits)

lemma maxsec_limit_ok:
  assumes "maxsec_limit env rtp sim = Some (Inr share)"
  shows "\<exists>pc. ba_pcard (ra_bacc rtp) = Some pc \<and> sim < pc_call_number pc \<and> 0 < share \<and> 0 < pc_call_number pc \<and>
     split_limit env pc sim (dsub (ev_fp env) (pc_amount pc) (bl_amount (ra_bal rtp))) = Some (Inr share)"
  using assms split_limit_share
  by (auto simp: maxsec_limit_def Let_def split: if_splits Option.bind_splits)

lemma maxsec_limit_codes:
  "maxsec_limit env rtp sim = Some (Inl (code, l)) \<Longrightarrow> code \<in> {-3, -4, -6}"
  by (auto simp: maxsec_limit_def split_limit_def Let_def split: if_splits Option.bind_splits)

lemma calc_maxsec_result:
  assumes "calc_maxsec fp cap r = Some r1" "racc_calc_funcs r = Some (Some cs)" "0 \<le> sint cap"
  shows "\<exists>m. r1 = upd_pre (\<lambda>p. p\<lparr>pre_maxsec := m\<rparr>) r \<and> m \<le> sint cap"
proof -
  define fb where "fb = pre_free_billsec_limit (ra_pre r) - pre_free_billsec_sum (ra_pre r)"
  obtain m where fb: "int_range fb" and m: "r1 = upd_pre (\<lambda>p. p\<lparr>pre_maxsec := maxsec_cap cap m\<rparr>) r"
    "(if 0 < fb \<and> cap \<le> word_of_int fb then Some fb
      else calc_maxsec_loop fp fb 0 (if 0 < fb then fb else 0) (pre_limit (ra_pre r)) cs) = Some m"
    using assms(1,2) by (auto simp: calc_maxsec_def csub_def Let_def simp flip: fb_def split: Option.bind_splits)
  have "int_range (if 0 < fb then fb else 0)" using fb by (simp add: int_range_def)
  then have "int_range m" using m(2) fb maxsec_loop_range by (auto split: if_splits)
  then have "maxsec_cap cap m \<le> sint cap" using maxsec_cap_eq [OF _ assms(3)] by auto
  then show ?thesis using m by auto
qed


lemma calc_maxsec_positive_limit:
  assumes "rt_maxsec env pre sim s = Some (Some rtp, pre', s')" "0 \<le> sint (ev_call_maxsec env)"
  shows "\<exists>rtp2 cs pc share. racc_calc_funcs rtp2 = Some (Some cs) \<and>
     rtp = upd_pre (\<lambda>p. p\<lparr>pre_limit := share, pre_maxsec := pre_maxsec pre'\<rparr>) rtp2 \<and>
     ra_pre rtp = pre' \<and> 1 \<le> pre_maxsec pre' \<and> pre_maxsec pre' \<le> sint (ev_call_maxsec env) \<and> pre_limit pre' = share \<and>
     calc_maxsec (ev_fp env) (ev_call_maxsec env) (upd_pre (\<lambda>p. p\<lparr>pre_limit := share\<rparr>) rtp2) = Some rtp \<and>
     ba_pcard (ra_bacc rtp2) = Some pc \<and> sim < pc_call_number pc \<and> 0 < share \<and> 0 < pc_call_number pc \<and>
     split_limit env pc sim (dsub (ev_fp env) (pc_amount pc) (bl_amount (ra_bal rtp2))) = Some (Inr share)"
proof -
  have "st_db s \<noteq> None" using assms(1) by (auto simp: rt_maxsec_def split: if_splits)
  then obtain rtp2 cs share where r2: "racc_calc_funcs rtp2 = Some (Some cs)"
    "maxsec_limit env rtp2 sim = Some (Inr share)"
    "calc_maxsec (ev_fp env) (ev_call_maxsec env) (upd_pre (\<lambda>p. p\<lparr>pre_limit := share\<rparr>) rtp2) = Some rtp"
    and pos: "\<not> pre_maxsec (ra_pre rtp) \<le> 0" "pre' = ra_pre rtp"
    using assms(1)
    by (auto simp: rt_maxsec_def Let_def split: if_splits Option.bind_splits option.splits sum.splits)
  obtain pc where pc: "ba_pcard (ra_bacc rtp2) = Some pc" "sim < pc_call_number pc" "0 < share" "0 < pc_call_number pc"
    "split_limit env pc sim (dsub (ev_fp env) (pc_amount pc) (bl_amount (ra_bal rtp2))) = Some (Inr share)"
    using maxsec_limit_ok [OF r2(2)] by blast
  obtain m where m: "rtp = upd_pre (\<lambda>p. p\<lparr>pre_maxsec := m\<rparr>) (upd_pre (\<lambda>p. p\<lparr>pre_limit := share\<rparr>) rtp2)"
    "m \<le> sint (ev_call_maxsec env)"
    using calc_maxsec_result [OF r2(3) _ assms(2), of cs] r2(1) by auto
  then show ?thesis using r2 pc pos
    by (intro exI [of _ rtp2] exI [of _ cs] exI [of _ pc] exI [of _ share]) auto
qed

lemma rt_maxsec_failure:
  assumes "rt_maxsec env pre sim s = Some (None, pre', s')" "st_db s \<noteq> None"
  shows "pre_maxsec pre' \<in> {-1, -2, -3, -4, -6, -7, -8}"
  using assms maxsec_limit_codes
  by (fastforce simp: rt_maxsec_def Let_def split: if_splits Option.bind_splits option.splits sum.splits)

text \<open>Property C30. The outcome of \<open>rt_maxsec\<close>: either an account, with a limit between one second
  and the configured maximum, a positive share of credit and fewer simultaneous calls than the
  card allows; or none, and \<open>maxsec\<close> is one of the seven error codes.\<close>

theorem rt_maxsec_outcome:
  assumes "rt_maxsec env pre sim s = Some (res, pre', s')" "st_db s \<noteq> None" "0 \<le> sint (ev_call_maxsec env)"
  shows "case res of
     Some rtp \<Rightarrow> ra_pre rtp = pre' \<and> 1 \<le> pre_maxsec pre' \<and> pre_maxsec pre' \<le> sint (ev_call_maxsec env) \<and>
       0 < pre_limit pre' \<and> (\<exists>pc. ba_pcard (ra_bacc rtp) = Some pc \<and> sim < pc_call_number pc)
   | None \<Rightarrow> pre_maxsec pre' \<in> {-1, -2, -3, -4, -6, -7, -8}"
proof (cases res)
  case None
  then show ?thesis using rt_maxsec_failure [OF _ assms(2)] assms(1) by simp
next
  case (Some rtp)
  then show ?thesis using calc_maxsec_positive_limit [of env pre sim s rtp pre' s'] assms by auto
qed


text \<open>An online call from a number whose account, plan, card and tariff are in the cache; the
  database answers every query with the row \<open>1, 1\<close>: one active balance, of amount 1.\<close>

definition demo_card :: pcard where
  "demo_card = \<lparr>pc_id = 9, pc_amount = 3, pc_start = ''2024-01-01'', pc_end = ''2030-01-01'', pc_status = 1,
     pc_type = 1, pc_call_number = 2\<rparr>"

definition demo_cache :: "rt_cache option" where
  "demo_cache = rt_cache_rates_put 0 3 plan_359 (rt_cache_pcard_put 0 7 [demo_card]
     (rt_cache_racc_put 0 ''1:359888'' (racc_data0\<lparr>rd_bacc_id := 7, rd_bplan_id := 3\<rparr>) plan_cache))"

definition demo_call :: rating where
  "demo_call = rating0\<lparr>pre_clg := ''359888'', pre_cld := ''3592123'', pre_ts := 1000\<rparr>"

definition demo_st :: "recorder st" where
  "demo_st = ost (\<lambda>_ _. (0, Some [[''1'', ''1'']])) [] None demo_cache"

lemma demo_run:
  "map_option (\<lambda>(r, p, s). (pre_maxsec p, pre_limit p, pre_free_billsec_limit p, pre_free_billsec_sum p,
      map_option (\<lambda>rtp. (racc_calc_funcs rtp,
        map_option (\<lambda>(ret, r2). pre_cprice (ra_pre r2))
          (calc_cprice_2 exact (upd_pre (\<lambda>p. p\<lparr>pre_billsec := 100\<rparr>) rtp)))) r))
     (rt_maxsec exact_env demo_call 1 demo_st) =
     Some (3600, 1, 0, 0, Some (Some (Some one_cent), Some (1 / 50)))"
  by code_simp

lemma demo_run_result:
  obtains rtp pre' s' r2 ret where "rt_maxsec exact_env demo_call 1 demo_st = Some (Some rtp, pre', s')"
    "pre_maxsec pre' = 3600" "pre_limit pre' = 1" "pre_free_billsec_limit pre' = 0" "pre_free_billsec_sum pre' = 0"
    "racc_calc_funcs rtp = Some (Some one_cent)"
    "calc_cprice_2 exact (upd_pre (\<lambda>p. p\<lparr>pre_billsec := 100\<rparr>) rtp) = Some (ret, r2)" "pre_cprice (ra_pre r2) = 1 / 50"
  using demo_run by auto

lemma demo_env [simp]: "st_db demo_st \<noteq> None" "ev_fp exact_env = exact" "sint (ev_call_maxsec exact_env) = 3600"
  by (simp_all add: demo_st_def exact_env_def ost_def)

theorem rt_maxsec_outcome_witness:
  "\<exists>rtp pre' s'. rt_maxsec exact_env demo_call 1 demo_st = Some (Some rtp, pre', s') \<and>
     ra_pre rtp = pre' \<and> 1 \<le> pre_maxsec pre' \<and> pre_maxsec pre' \<le> 3600 \<and> 0 < pre_limit pre'"
proof -
  obtain rtp pre' s' where r: "rt_maxsec exact_env demo_call 1 demo_st = Some (Some rtp, pre', s')"
    by (rule demo_run_result)
  then show ?thesis using rt_maxsec_outcome [OF r] by simp
qed

lemma split_limit_exact:
  assumes "split_limit env pc sim lmt = Some (Inr share)" "ev_fp env = exact" "0 < pc_call_number pc" "sim < pc_call_number pc"
  shows "of_int (pc_call_number pc) * share = lmt \<or> sim \<le> 0 \<and> share = lmt"
  using assms by (auto simp: split_limit_def ddiv_def split: if_splits Option.bind_splits)

lemma calc_cprice_2_only:
  assumes "calc_cprice_2 fp r = Some (ret, r2)" "racc_calc_funcs r = Some (Some cs)" "racc_calc_funcs q = Some (Some cs)"
    and "pre_billsec (ra_pre r) = pre_billsec (ra_pre q)"
  shows "\<exists>q2. calc_cprice_2 fp q = Some (ret, q2) \<and> pre_cprice (ra_pre q2) = pre_cprice (ra_pre r2)"
  using assms by (auto simp: calc_cprice_2_def split: Option.bind_splits option.splits)

text \<open>Property C7. The credit of a shared card. With exact arithmetic, a call that \<open>rt_maxsec\<close> lets through gets
  either the part of the credit that the number of slots of the card gives, or, as the only
  call, all of it. On a tariff that is well formed, fits and whose fees do not fall from step to
  step, and for an account without free seconds, whatever the call lasts within the granted seconds
  (below \<open>2 ^ 24\<close>), its price is at most that share.\<close>

theorem maxsec_shared_credit:
  assumes "rt_maxsec env pre sim s = Some (Some rtp, pre', s')" "ev_fp env = exact" "0 \<le> sint (ev_call_maxsec env)"
    and "racc_calc_funcs rtp = Some (Some cs)" "tariff_ok cs" "tariff_fit cs" "fees_rise cs"
    and "pre_free_billsec_limit pre' \<le> pre_free_billsec_sum pre'"
    and "0 < b" "b \<le> pre_maxsec pre'" "b < 2 ^ 24"
    and "calc_cprice_2 exact (upd_pre (\<lambda>p. p\<lparr>pre_billsec := b\<rparr>) rtp) = Some (ret, r2)"
  shows "\<exists>pc. ba_pcard (ra_bacc rtp) = Some pc \<and> sim < pc_call_number pc \<and>
     (of_int (pc_call_number pc) * pre_limit pre' = pc_amount pc - bl_amount (ra_bal rtp) \<or>
      sim \<le> 0 \<and> pre_limit pre' = pc_amount pc - bl_amount (ra_bal rtp)) \<and>
     pre_cprice (ra_pre r2) \<le> pre_limit pre'"
proof -
  obtain rtp2 cs' pc where g: "racc_calc_funcs rtp2 = Some (Some cs')"
     "rtp = upd_pre (\<lambda>p. p\<lparr>pre_limit := pre_limit pre', pre_maxsec := pre_maxsec pre'\<rparr>) rtp2" "ra_pre rtp = pre'"
     "calc_maxsec (ev_fp env) (ev_call_maxsec env) (upd_pre (\<lambda>p. p\<lparr>pre_limit := pre_limit pre'\<rparr>) rtp2) = Some rtp"
     "ba_pcard (ra_bacc rtp2) = Some pc" "sim < pc_call_number pc" "0 < pre_limit pre'" "0 < pc_call_number pc"
     "split_limit env pc sim (dsub (ev_fp env) (pc_amount pc) (bl_amount (ra_bal rtp2))) = Some (Inr (pre_limit pre'))"
    using calc_maxsec_positive_limit [OF assms(1,3)] by blast
  define r0 where "r0 = upd_pre (\<lambda>p. p\<lparr>pre_limit := pre_limit pre'\<rparr>) rtp2"
  have cf: "racc_calc_funcs r0 = Some (Some cs)" using assms(4) g(2) by (simp add: r0_def)
  have "\<exists>q2. calc_cprice_2 exact (upd_pre (\<lambda>p. p\<lparr>pre_billsec := b\<rparr>) r0) = Some (ret, q2) \<and>
      pre_cprice (ra_pre q2) = pre_cprice (ra_pre r2)"
    using assms(4) cf by (intro calc_cprice_2_only [OF assms(12)]) simp_all
  then obtain q2 where q2: "calc_cprice_2 exact (upd_pre (\<lambda>p. p\<lparr>pre_billsec := b\<rparr>) r0) = Some (ret, q2)"
    and "pre_cprice (ra_pre q2) = pre_cprice (ra_pre r2)" by blast
  moreover have "pre_cprice (ra_pre q2) \<le> pre_limit (ra_pre r0)"
  proof (rule maxsec_pays [OF _ cf assms(5-7) _ _ assms(3,9) _ assms(11) q2])
    show "calc_maxsec exact (ev_call_maxsec env) r0 = Some rtp" using g(4) assms(2) by (simp add: r0_def)
    have "pre_free_billsec_limit (ra_pre rtp) = pre_free_billsec_limit (ra_pre rtp2)"
      "pre_free_billsec_sum (ra_pre rtp) = pre_free_billsec_sum (ra_pre rtp2)"
      by (subst g(2), simp)+
    then show "pre_free_billsec_limit (ra_pre r0) \<le> pre_free_billsec_sum (ra_pre r0)"
      using assms(8) g(3) by (simp add: r0_def)
  qed (use g assms(10) in \<open>simp_all add: r0_def\<close>)
  moreover have "pre_limit (ra_pre r0) = pre_limit pre'" by (simp add: r0_def)
  moreover have "ba_pcard (ra_bacc rtp) = Some pc" "ra_bal rtp = ra_bal rtp2"
    using g(5) by (subst g(2), simp)+
  moreover have "of_int (pc_call_number pc) * pre_limit pre' = pc_amount pc - bl_amount (ra_bal rtp2) \<or>
      sim \<le> 0 \<and> pre_limit pre' = pc_amount pc - bl_amount (ra_bal rtp2)"
    using split_limit_exact [OF g(9) assms(2) g(8,6)] assms(2) by (simp add: dsub_def)
  ultimately show ?thesis using g(6) by auto
qed

theorem maxsec_shared_credit_witness:
  "\<exists>rtp pre' s' r2 ret pc. rt_maxsec exact_env demo_call 1 demo_st = Some (Some rtp, pre', s') \<and>
     calc_cprice_2 exact (upd_pre (\<lambda>p. p\<lparr>pre_billsec := 100\<rparr>) rtp) = Some (ret, r2) \<and>
     ba_pcard (ra_bacc rtp) = Some pc \<and> of_int (pc_call_number pc) * pre_limit pre' = pc_amount pc - bl_amount (ra_bal rtp) \<and>
     pre_cprice (ra_pre r2) = 1 / 50 \<and> pre_cprice (ra_pre r2) \<le> pre_limit pre'"
proof -
  obtain rtp pre' s' r2 ret where r: "rt_maxsec exact_env demo_call 1 demo_st = Some (Some rtp, pre', s')"
    "pre_maxsec pre' = 3600" "pre_limit pre' = 1" "pre_free_billsec_limit pre' = 0" "pre_free_billsec_sum pre' = 0"
    "racc_calc_funcs rtp = Some (Some one_cent)"
    "calc_cprice_2 exact (upd_pre (\<lambda>p. p\<lparr>pre_billsec := 100\<rparr>) rtp) = Some (ret, r2)" "pre_cprice (ra_pre r2) = 1 / 50"
    by (rule demo_run_result)
  have t: "tariff_ok one_cent" "tariff_fit one_cent" "fees_rise one_cent" by code_simp+
  then show ?thesis using maxsec_shared_credit [OF r(1) _ _ r(6) t, of 100 ret r2] r by auto
qed

end
