(* ===== verification/Ledger.thy ===== *)
theory Ledger
  imports Marking Charging
begin

text \<open>
  What a rated call leaves in the database: the row of \<open>rating\<close>, the mark in \<open>cdrs\<close> and the new
  amount in \<open>balance\<close>, in that order, once per call; and the two cases in which it does not: a
  subscriber without a card, and a call across the end of the free seconds.
\<close>

section \<open>Statements on a recording engine\<close>

lemma is_select_strings [simp]:
  "is_select (rating_id_str rtp)" "is_select (bal_sql_str rtp a b)"
  by (simp_all add: rating_id_str_def bal_sql_str_def verb_prefix)

lemma verb_strings [simp]:
  "strncasecmp0 (bal_update_str rtp) ''update'' 6" "strncasecmp0 (cdr_update_str r c leg) ''update'' 6"
  "strncasecmp0 (bal_insert_str rtp a b) ''insert'' 6"
  by (simp_all add: bal_update_str_def cdr_update_str_def bal_insert_str_def verb_prefix)

lemma db_type_rdb [simp]: "db_type (rdb ans lg r) = sql"
  by (simp add: db_type_def rdb_def)

lemma update_cdr_ost [simp]:
  "0 < pre_cdr_id pre \<Longrightarrow> leg = CHR ''a'' \<or> leg = CHR ''b'' \<Longrightarrow>
   update_cdr n pre leg (ost ans lg r c) =
     (let q = cdr_update_str n (pre_cdr_id pre) leg in Some (ost ans (lg @ [q]) (snd (ans lg q)) c))"
  by (auto simp: update_cdr_def cdr_update_cdr_def Let_def)

lemma bal_add_ost [simp]:
  "rt_data_q_bal_add env rtp a b (ost ans lg r c) =
     (let q = (if 0 < bl_id (ra_bal rtp) then bal_update_str rtp else bal_insert_str rtp a b)
      in (fst (ans lg q), ost ans (lg @ [q]) (snd (ans lg q)) c))"
  by (simp add: rt_data_q_bal_add_def rt_data_q_bal_add_sql_def Let_def)

section \<open>The balance\<close>

text \<open>The account of the examples: the plan of theory \<open>RateSearch\<close>, balance 5 of amount 1.\<close>

definition paid_account :: racc where
  "paid_account = (rt_data_racc_init (rating0\<lparr>pre_cld := ''3592123'', pre_cdr_id := 5, pre_billsec := 120, pre_cprice := 1 / 50\<rparr>))
     \<lparr>ra_rtm := 1, ra_bal := bal0\<lparr>bl_id := 5, bl_amount := 1\<rparr>, ra_bplan := bplan0\<lparr>bp_id := 3\<rparr>,
      ra_bacc := bacc0\<lparr>ba_id := 7, ba_pcard := Some demo_card\<rparr>\<rparr>"

section \<open>One rated call\<close>

text \<open>A call on its way through \<open>rt_exec\<close> up to its price: the account has a card, the search and
  the rounding succeeded, and the price needs no second part.\<close>

definition priced :: "rt_env \<Rightarrow> racc \<Rightarrow> recorder st \<Rightarrow> racc \<Rightarrow> recorder st \<Rightarrow> bool" where
  "priced env rtp s rtp3 s3 \<longleftrightarrow> ra_rtm rtp \<noteq> 0 \<and>
     (\<exists>rtp1 cs rtp2. rt_rate_searching env (rtp\<lparr>ra_bplan := rt_chk_bplan_periods (ra_bplan rtp) (pre_ts (ra_pre rtp))\<rparr>) s =
        Some (rtp1, s3) \<and> racc_calc_funcs rtp1 = Some (Some cs) \<and> exec_round env rtp1 = Some rtp2 \<and>
        ra_rtm rtp2 \<noteq> rt_mode_sms \<and> calc_cprice_group (ev_fp env) rtp2 = Some (0, rtp3))"

lemma exec_priced:
  assumes "priced env rtp s rtp3 s3" "0 < pre_cdr_id (ra_pre rtp3)"
  shows "rt_exec_price env (rtp\<lparr>ra_bplan := rt_chk_bplan_periods (ra_bplan rtp) (pre_ts (ra_pre rtp))\<rparr>) s =
    (do { (_, r, s') \<leftarrow> rt_data_q_rating_add env rtp3 s3; Some (r, s') })"
  using assms
  by (auto simp: priced_def rt_exec_price_def rt_rating_save_def Let_def split: option.splits)

lemma rating_add_known:
  assumes "snd (ans lg (rating_id_str rtp)) = Some (x # xs)" "ba_pcard (ra_bacc rtp) = Some pc"
  shows "rt_data_q_rating_add env rtp (ost ans lg r c) =
    Some (0, upd_pre (\<lambda>p. p\<lparr>pre_rating_id := 0\<rparr>) rtp, ost ans (lg @ [rating_id_str rtp]) None c)"
  using assms by (simp add: rt_data_q_rating_add_def rt_data_q_rating_add_sql_def)

lemma rating_add_new:
  assumes "snd (ans lg (rating_id_str rtp)) = None \<or> snd (ans lg (rating_id_str rtp)) = Some []" "ba_pcard (ra_bacc rtp) = Some pc"
    and "2 * length (pre_timestamp (ra_pre rtp)) + 2 \<le> 64"
    and "snd (ans (lg @ [rating_id_str rtp]) (rating_insert_str rtp (pc_id pc))) = Some [[v]]" "atoi v = Some n"
  shows "rt_data_q_rating_add env rtp (ost ans lg r c) =
    Some (0, upd_pre (\<lambda>p. p\<lparr>pre_rating_id := n\<rparr>) rtp,
      ost ans (lg @ [rating_id_str rtp, rating_insert_str rtp (pc_id pc)]) None c)"
proof -
  have "\<not> fst (db_sql_escape (Some (pre_timestamp (ra_pre rtp))) 64) < 0"
    using escaped_fits [of "pre_timestamp (ra_pre rtp)" 64] assms(3)
    by (auto simp: escaped_def split: prod.splits if_splits)
  then show ?thesis using assms
    by (auto simp: rt_data_q_rating_add_def rt_data_q_rating_add_sql_def Let_def one_int_def coli_def col_def)
qed

text \<open>Property C8. A call is stored and charged once, in this order: an account with a card and a known
  balance, without free seconds, on a call that is rated. When the look-up in \<open>rating\<close> finds a row
  of the call for its account and rate, the call is only marked \<open>-1\<close>: no row is stored and the
  balance stays. When it finds none (a result of no rows, or no result) and the insert returns an
  id, the call is inserted into \<open>rating\<close>, its record is marked with that id, and then the price is
  added to the balance; nothing else is sent.\<close>

theorem call_charged_once:
  assumes "priced env rtp s rtp3 (ost ans lg r c)" "0 < pre_cdr_id (ra_pre rtp3)" "leg = CHR ''a'' \<or> leg = CHR ''b''"
    and "ba_pcard (ra_bacc rtp) = Some pc0" "ba_pcard (ra_bacc rtp3) = Some pc"
    and "pre_free_billsec_limit (ra_pre rtp3) = 0" "0 < bl_id (ra_bal rtp3)"
    and "2 * length (pre_timestamp (ra_pre rtp3)) + 2 \<le> 64"
  shows "(\<forall>x xs. snd (ans lg (rating_id_str rtp3)) = Some (x # xs) \<longrightarrow>
      (\<exists>r'. rt_exec env rtp leg s = Some (upd_pre (\<lambda>p. p\<lparr>pre_rating_id := 0\<rparr>) rtp3,
        ost ans (lg @ [rating_id_str rtp3, cdr_update_str (-1) (pre_cdr_id (ra_pre rtp3)) leg]) r' c))) \<and>
    (\<forall>v n. snd (ans lg (rating_id_str rtp3)) = None \<or> snd (ans lg (rating_id_str rtp3)) = Some [] \<longrightarrow> 0 < n \<longrightarrow> atoi v = Some n \<longrightarrow>
       snd (ans (lg @ [rating_id_str rtp3]) (rating_insert_str rtp3 (pc_id pc))) = Some [[v]] \<longrightarrow>
       (let rtp4 = add_cprice env (upd_pre (\<lambda>p. p\<lparr>pre_rating_id := n\<rparr>) rtp3) in
        \<exists>r'. rt_exec env rtp leg s = Some (rtp4,
          ost ans (lg @ [rating_id_str rtp3, rating_insert_str rtp3 (pc_id pc),
            cdr_update_str n (pre_cdr_id (ra_pre rtp3)) leg, bal_update_str rtp4]) r' c)))"
proof (intro conjI allI impI)
  have rtm: "ra_rtm rtp \<noteq> 0" using assms(1) by (simp add: priced_def)
  show "\<exists>r'. rt_exec env rtp leg s = Some (upd_pre (\<lambda>p. p\<lparr>pre_rating_id := 0\<rparr>) rtp3,
        ost ans (lg @ [rating_id_str rtp3, cdr_update_str (-1) (pre_cdr_id (ra_pre rtp3)) leg]) r' c)"
    if "snd (ans lg (rating_id_str rtp3)) = Some (x # xs)" for x xs
    using exec_priced [OF assms(1,2)] rating_add_known [of ans lg rtp3 x xs pc env r c] that assms(5) assms(2,3)
    by (auto simp: rt_exec_def Let_def)
  fix v n assume n: "snd (ans lg (rating_id_str rtp3)) = None \<or> snd (ans lg (rating_id_str rtp3)) = Some []" "0 < n" "atoi v = Some n"
    "snd (ans (lg @ [rating_id_str rtp3]) (rating_insert_str rtp3 (pc_id pc))) = Some [[v]]"
  show "let rtp4 = add_cprice env (upd_pre (\<lambda>p. p\<lparr>pre_rating_id := n\<rparr>) rtp3) in
        \<exists>r'. rt_exec env rtp leg s = Some (rtp4,
          ost ans (lg @ [rating_id_str rtp3, rating_insert_str rtp3 (pc_id pc),
            cdr_update_str n (pre_cdr_id (ra_pre rtp3)) leg, bal_update_str rtp4]) r' c)"
    using exec_priced [OF assms(1,2)] rating_add_new [of ans lg rtp3 pc v n env r c] assms(2-8) rtm n
    by (auto simp: rt_exec_def Let_def rt_balance_exec_def add_cprice_def)
qed

text \<open>Calls of the example account, with its rates and tariffs in the cache.\<close>

definition paid_cache :: "rt_cache option" where
  "paid_cache = rt_cache_rates_put 0 3 plan_359 plan_cache"

definition paid_by :: "pcard option \<Rightarrow> racc" where
  "paid_by pc = paid_account\<lparr>ra_bacc := (ra_bacc paid_account)\<lparr>ba_pcard := pc\<rparr>\<rparr>"

definition no_dates :: pcard where
  "no_dates = demo_card\<lparr>pc_id := 0, pc_start := [], pc_end := []\<rparr>"

definition rated_by :: "pcard option \<Rightarrow> racc" where
  "rated_by pc = chosen (\<lambda>_. 0) (\<lambda>_. one_cent) (bg_rate 2 ''359'') (set_rates (Some plan_359) (paid_by pc))"

lemma paid_cache_facts:
  "fst (rt_cache_rates_get 0 3 paid_cache) = Some plan_359"
  "options_cached exact_env (snd (rt_cache_rates_get 0 3 paid_cache)) (\<lambda>_. 0) (\<lambda>_. one_cent) plan_359"
  by code_simp+

lemma paid_finds: "List.find (rate_matches 0 ''3592123'') plan_359 = Some (bg_rate 2 ''359'')"
  by code_simp

lemma paid_priced:
  assumes "pc = None \<or> pc = Some no_dates"
  shows "\<exists>rtp3 c. priced exact_env (paid_by pc) (ost ans lg r paid_cache) rtp3 (ost ans lg r c) \<and>
    ba_pcard (ra_bacc rtp3) = pc \<and> pre_cdr_id (ra_pre rtp3) = 5 \<and> pre_free_billsec_limit (ra_pre rtp3) = 0 \<and>
    bl_id (ra_bal rtp3) = 5 \<and> pre_timestamp (ra_pre rtp3) = [] \<and> pre_cprice (ra_pre rtp3) = 1 / 50"
proof -
  obtain c1 where c1: "rt_cache_rates_get 0 3 paid_cache = (Some plan_359, c1)"
    using paid_cache_facts(1) by (cases "rt_cache_rates_get 0 3 paid_cache") auto
  have o: "options_cached exact_env (st_cache (ost ans lg r c1)) (\<lambda>_. 0) (\<lambda>_. one_cent) plan_359"
    using paid_cache_facts(2) c1 by simp
  have now: "ev_now exact_env = 0" "ev_fp exact_env = exact" by (simp_all add: exact_env_def)
  have acc: "bp_id (ra_bplan (paid_by pc)) = 3" "pre_ts (ra_pre (paid_by pc)) = 0" "pre_cld (ra_pre (paid_by pc)) = ''3592123''"
     "rt_chk_bplan_periods (ra_bplan (paid_by pc)) 0 = ra_bplan (paid_by pc)" "ra_rtm (paid_by pc) = 1"
     "ba_pcard (ra_bacc (paid_by pc)) = pc"
    by (simp_all add: paid_by_def paid_account_def zero_defs rt_chk_bplan_periods_def)
  define c2 where "c2 = snd (rt_cache_tariff_get 0 (rt_tariff_id (bg_rate 2 ''359'')) c1)"
  have "prefix_loop exact_env plan_359 (set_rates (Some plan_359) (set_rates None (paid_by pc))) (ost ans lg r c1) =
      Some (rated_by pc, ost ans lg r c2)"
    using prefix_loop_find [OF o, of "set_rates (Some plan_359) (set_rates None (paid_by pc))"] paid_finds
    by (simp add: acc rated_by_def now c2_def)
  then have "rt_data_q_rate exact_env (paid_by pc) (ost ans lg r paid_cache) = Some (0, rated_by pc, ost ans lg r c2)"
    by (simp add: rt_data_q_rate_def rt_data_q_rate_sql_def rt_data_q_prefix_sql_def acc now c1)
  moreover have rt: "bp_rates (ra_bplan (rated_by pc)) \<noteq> None" "ba_pcard (ra_bacc (rated_by pc)) = pc"
     "racc_calc_funcs (rated_by pc) = Some (Some one_cent)"
    by (auto simp: rated_by_def chosen_def acc plan_359_def set_calc_funcs_def racc_calc_funcs_def)
  moreover have "rt_prerating_process exact_env (rated_by pc) (ost ans lg r c2) = Some (RE_ERROR, rated_by pc, ost ans lg r c2)"
    if "pc = Some no_dates"
    using that rt(2) by (simp add: rt_prerating_process_def Let_def no_dates_def)
  ultimately have search: "rt_rate_searching exact_env (paid_by pc) (ost ans lg r paid_cache) = Some (rated_by pc, ost ans lg r c2)"
    using assms by (auto simp: rt_rate_searching_def)
  have pre: "pre_billsec (ra_pre (rated_by pc)) = 120" "pre_free_billsec_limit (ra_pre (rated_by pc)) = 0"
     "pre_cdr_id (ra_pre (rated_by pc)) = 5" "pre_timestamp (ra_pre (rated_by pc)) = []"
     "ba_round_mode_id (ra_bacc (rated_by pc)) = 0" "bl_id (ra_bal (rated_by pc)) = 5" "ra_rtm (rated_by pc) = 1"
    by (simp_all add: rated_by_def chosen_def set_calc_funcs_def paid_by_def paid_account_def zero_defs plan_359_def)
  have price: "calc_cprice_2_loop exact 120 0 0 one_cent = Some (1 / 50, 120, 0)" by code_simp
  have "exec_round exact_env (rated_by pc) = Some (rated_by pc)" by (simp add: exec_round_def pre)
  moreover have "calc_cprice_group exact (rated_by pc) =
      Some (0, upd_pre (\<lambda>p. p\<lparr>pre_cprice := 1 / 50, pre_billsec := 120\<rparr>) (rated_by pc))"
    by (simp add: calc_cprice_group_def calc_cprice_2_def rt(3) pre price append_free_billsec_def)
  ultimately show ?thesis
    using search rt pre
    by (intro exI [of _ "upd_pre (\<lambda>p. p\<lparr>pre_cprice := 1 / 50, pre_billsec := 120\<rparr>) (rated_by pc)"] exI [of _ c2])
      (simp add: priced_def acc now)
qed

text \<open>A priced call of an account without a card does not return: storing the rating
  reads the id of the card through a null pointer. The search only skips the steps that need a
  card, so every call of a subscriber whose cards are all blocked or out of date gets here.\<close>

theorem no_card_no_return:
  assumes "priced env rtp s rtp3 (ost ans lg r c)" "0 < pre_cdr_id (ra_pre rtp3)" "ba_pcard (ra_bacc rtp3) = None"
  shows "rt_exec env rtp leg s = None"
  using exec_priced [OF assms(1,2)] assms(3)
  by (simp add: rt_exec_def Let_def rt_data_q_rating_add_def rt_data_q_rating_add_sql_def)

text \<open>A database that has the row, and one that has no row and gives the insert the number 7.\<close>

definition has_row :: answers where
  "has_row lg q = (0, Some [[''1'']])"

definition gives_7 :: answers where
  "gives_7 lg q = (0, Some (if hd q = CHR ''i'' then [[''7'']] else []))"

theorem call_charged_once_witness:
  "(\<exists>rtp3 c r' v. priced exact_env (paid_by (Some no_dates)) (ost has_row [] None paid_cache) rtp3 (ost has_row [] None c) \<and>
     rt_exec exact_env (paid_by (Some no_dates)) CHR ''a'' (ost has_row [] None paid_cache) =
       Some (v, ost has_row [rating_id_str rtp3, cdr_update_str (-1) 5 CHR ''a''] r' c)) \<and>
   (\<exists>rtp3 rtp4 c r' v. priced exact_env (paid_by (Some no_dates)) (ost gives_7 [] None paid_cache) rtp3 (ost gives_7 [] None c) \<and>
     rt_exec exact_env (paid_by (Some no_dates)) CHR ''a'' (ost gives_7 [] None paid_cache) =
       Some (v, ost gives_7 [rating_id_str rtp3, rating_insert_str rtp3 0, cdr_update_str 7 5 CHR ''a'', bal_update_str rtp4] r' c) \<and>
     bl_amount (ra_bal rtp4) = bl_amount (ra_bal rtp3) + 1 / 50)"
proof (intro conjI)
  have card: "ba_pcard (ra_bacc (paid_by (Some no_dates))) = Some no_dates" by (simp add: paid_by_def)
  obtain rtp3 c where p: "priced exact_env (paid_by (Some no_dates)) (ost has_row [] None paid_cache) rtp3 (ost has_row [] None c)"
    and f: "ba_pcard (ra_bacc rtp3) = Some no_dates" "pre_cdr_id (ra_pre rtp3) = 5" "pre_free_billsec_limit (ra_pre rtp3) = 0"
      "bl_id (ra_bal rtp3) = 5" "pre_timestamp (ra_pre rtp3) = []"
    using paid_priced [of "Some no_dates" has_row "[]" None] by blast
  show "\<exists>rtp3 c r' v. priced exact_env (paid_by (Some no_dates)) (ost has_row [] None paid_cache) rtp3 (ost has_row [] None c) \<and>
     rt_exec exact_env (paid_by (Some no_dates)) CHR ''a'' (ost has_row [] None paid_cache) =
       Some (v, ost has_row [rating_id_str rtp3, cdr_update_str (-1) 5 CHR ''a''] r' c)"
    using call_charged_once [OF p _ _ _ f(1,3), of "CHR ''a''" no_dates] card p f(2,4,5) by (auto simp: has_row_def)
next
  have card: "ba_pcard (ra_bacc (paid_by (Some no_dates))) = Some no_dates" by (simp add: paid_by_def)
  obtain rtp3 c where p: "priced exact_env (paid_by (Some no_dates)) (ost gives_7 [] None paid_cache) rtp3 (ost gives_7 [] None c)"
    and f: "ba_pcard (ra_bacc rtp3) = Some no_dates" "pre_cdr_id (ra_pre rtp3) = 5" "pre_free_billsec_limit (ra_pre rtp3) = 0"
      "bl_id (ra_bal rtp3) = 5" "pre_timestamp (ra_pre rtp3) = []" "pre_cprice (ra_pre rtp3) = 1 / 50"
    using paid_priced [of "Some no_dates" gives_7 "[]" None] by blast
  have a: "snd (gives_7 [] (rating_id_str rtp3)) = Some []"
    "snd (gives_7 ([] @ [rating_id_str rtp3]) (rating_insert_str rtp3 (pc_id no_dates))) = Some [[''7'']]"
    by (simp_all add: gives_7_def rating_id_str_def rating_insert_str_def Let_def)
  have v: "atoi ''7'' = Some 7" by code_simp
  define rtp4 where "rtp4 = add_cprice exact_env (upd_pre (\<lambda>p. p\<lparr>pre_rating_id := 7\<rparr>) rtp3)"
  have amt: "bl_amount (ra_bal rtp4) = bl_amount (ra_bal rtp3) + 1 / 50"
    by (simp add: rtp4_def add_cprice_def dadd_def exact_env_def f(6))
  have "\<exists>r'. rt_exec exact_env (paid_by (Some no_dates)) CHR ''a'' (ost gives_7 [] None paid_cache) =
      Some (rtp4, ost gives_7 [rating_id_str rtp3, rating_insert_str rtp3 0, cdr_update_str 7 5 CHR ''a'', bal_update_str rtp4] r' c)"
    using call_charged_once [OF p _ _ card f(1,3), of "CHR ''a''"] a v f(2,4,5)
    by (simp add: Let_def rtp4_def no_dates_def)
  then show "\<exists>rtp3 rtp4 c r' v. priced exact_env (paid_by (Some no_dates)) (ost gives_7 [] None paid_cache) rtp3 (ost gives_7 [] None c) \<and>
     rt_exec exact_env (paid_by (Some no_dates)) CHR ''a'' (ost gives_7 [] None paid_cache) =
       Some (v, ost gives_7 [rating_id_str rtp3, rating_insert_str rtp3 0, cdr_update_str 7 5 CHR ''a'', bal_update_str rtp4] r' c) \<and>
     bl_amount (ra_bal rtp4) = bl_amount (ra_bal rtp3) + 1 / 50"
    using p amt by blast
qed

theorem no_card_no_return_witness:
  "\<exists>rtp3 s3. priced exact_env (paid_by None) (ost (\<lambda>_ _. (0, None)) [] None paid_cache) rtp3 s3 \<and>
     rt_exec exact_env (paid_by None) CHR ''a'' (ost (\<lambda>_ _. (0, None)) [] None paid_cache) = None"
proof -
  obtain rtp3 c where p: "priced exact_env (paid_by None) (ost (\<lambda>_ _. (0, None)) [] None paid_cache) rtp3
        (ost (\<lambda>_ _. (0, None)) [] None c)" "ba_pcard (ra_bacc rtp3) = None" "pre_cdr_id (ra_pre rtp3) = 5"
    using paid_priced [of None] by blast
  then show ?thesis using no_card_no_return [OF p(1), of "CHR ''a''"] by auto
qed

section \<open>A call across the end of the free seconds\<close>

text \<open>What identifies the row of \<open>rating\<close> of a part of a call.\<close>

definition pre_key :: "rating \<Rightarrow> int \<times> int" where
  "pre_key p = (pre_cdr_id p, pre_rate_id p)"

definition row_key :: "racc \<Rightarrow> (int \<times> int) \<times> u32" where
  "row_key r = (pre_key (ra_pre r), ba_id (ra_bacc r))"

lemma row_key_id: "row_key r = row_key r' \<Longrightarrow> rating_id_str r = rating_id_str r'"
  by (simp add: row_key_def pre_key_def rating_id_str_def)

lemma row_key_upd [simp]:
  "row_key (upd_pre (\<lambda>p. p\<lparr>pre_billsec := i\<rparr>) r) = row_key r"
  "row_key (upd_pre (\<lambda>p. p\<lparr>pre_rating_id := i\<rparr>) r) = row_key r"
  by (simp_all add: row_key_def pre_key_def)

named_theorems same_key

lemma fb_key [same_key]:
  "f_free_billsec_bal_query_2 pre s = Some (ret, pre', s') \<Longrightarrow> pre_key pre' = pre_key pre"
  "f_free_bal_id_query pre s = Some (ret, pre', s') \<Longrightarrow> pre_key pre' = pre_key pre"
  "create_free_billsec_balance pre s = Some (ret, pre', s') \<Longrightarrow> pre_key pre' = pre_key pre"
  "free_billsec_balance_v2 rtp a b s = Some (ret, rtp', s') \<Longrightarrow> row_key rtp' = row_key rtp"
  by (auto simp: f_free_billsec_bal_query_2_def f_free_bal_id_query_def create_free_billsec_balance_def
      free_billsec_balance_v2_def fb_query_def row_key_def pre_key_def split: if_splits option.splits Option.bind_splits)

lemma group_key [same_key]: "calc_cprice_group fp rtp = Some (ret, rtp') \<Longrightarrow> row_key rtp' = row_key rtp"
  by (auto simp: calc_cprice_group_def calc_cprice_2_def append_free_billsec_def row_key_def pre_key_def Let_def
      split: if_splits option.splits Option.bind_splits)

lemma save_key [same_key]: "rt_rating_save env rtp s = Some (rtp', s') \<Longrightarrow> row_key rtp' = row_key rtp"
  by (auto simp: rt_rating_save_def rt_data_q_rating_add_def rt_data_q_rating_add_sql_def row_key_def pre_key_def Let_def split_beta
      split: if_splits option.splits list.splits Option.bind_splits)

lemma free_exec_key [same_key]: "free_billsec_exec rtp a b s = Some (ret, rtp', s') \<Longrightarrow> row_key rtp' = row_key rtp"
  by (auto simp: free_billsec_exec_def row_key_def Let_def split: if_splits prod.splits Option.bind_splits
      dest!: same_key)

lemma bal_key [same_key]:
  "rt_balance_exec env rtp a b s = Some (rtp', s') \<Longrightarrow> db_type (st_db s) = sql \<Longrightarrow> row_key rtp' = row_key rtp"
  by (auto simp: rt_balance_exec_def add_cprice_def rt_data_q_bal_def rt_data_q_bal_sql_def row_key_def pre_key_def Let_def
      split: if_splits option.splits list.splits prod.splits Option.bind_splits)

text \<open>A database that finds a row of \<open>rating\<close> once it was inserted.\<close>

definition remembers :: "answers \<Rightarrow> bool" where
  "remembers ans \<longleftrightarrow> (\<forall>lg r n. rating_insert_str r n \<in> set lg \<longrightarrow>
     (\<exists>x xs. snd (ans lg (rating_id_str r)) = Some (x # xs)))"

lemma q_rows_log:
  assumes "q_rows q s = Some (rows, s')" "on_log ans lg (st_db s)" "is_select q"
  shows "rows = snd (ans lg q) \<and> on_log ans (lg @ [q]) (st_db s')"
proof -
  have "on_log ans (lg @ [q]) (snd (db_fetch (snd (db_select (st_db s) q))))"
    using on_log_fetch [OF on_log_select [OF assms(2), of q]] assms(3) by simp
  then show ?thesis using query_rows_log [OF assms(2,3)] assms(1)
    by (auto simp: q_rows_def query_rows_def fetch_rows_def Let_def split: if_splits Option.bind_splits)
qed

lemma save_stores:
  assumes "rt_rating_save env rtp s = Some (rtp', s')" "on_log ans lg (st_db s)" "0 < pre_cdr_id (ra_pre rtp)"
  shows "\<exists>l. on_log ans (lg @ l) (st_db s') \<and>
    ((\<exists>x xs. snd (ans lg (rating_id_str rtp)) = Some (x # xs)) \<and> pre_rating_id (ra_pre rtp') = 0 \<and> l = [rating_id_str rtp] \<or>
     (\<forall>x xs. snd (ans lg (rating_id_str rtp)) \<noteq> Some (x # xs)) \<and> (\<exists>n. l = [rating_id_str rtp, rating_insert_str rtp n]))"
proof -
  have db: "st_db s \<noteq> None" "db_type (st_db s) = sql" using on_log_sql [OF assms(2)] by auto
  obtain pc rows s1 where pc: "ba_pcard (ra_bacc rtp) = Some pc" and q: "q_rows (rating_id_str rtp) s = Some (rows, s1)"
    using assms(1,3) db
    by (auto simp: rt_rating_save_def rt_data_q_rating_add_def rt_data_q_rating_add_sql_def split: Option.bind_splits)
  have l1: "rows = snd (ans lg (rating_id_str rtp))" "on_log ans (lg @ [rating_id_str rtp]) (st_db s1)"
    using q_rows_log [OF q assms(2)] by simp_all
  define ins where "ins = rating_insert_str rtp (pc_id pc)"
  have l2: "on_log ans (lg @ [rating_id_str rtp, ins]) (snd (take_result (snd (db_fetch (snd (db_query (st_db s1) ins False))))))"
    using on_log_fetch [OF on_log_query [OF l1(2), of ins]] by (simp add: take_result_def)
  consider x xs where "rows = Some (x # xs)" | "\<forall>x xs. rows \<noteq> Some (x # xs)" by blast
  then show ?thesis
  proof cases
    case 1
    then have "pre_rating_id (ra_pre rtp') = 0" "s' = s1"
      using assms(1,3) db pc q by (auto simp: rt_rating_save_def rt_data_q_rating_add_def rt_data_q_rating_add_sql_def)
    then show ?thesis using l1 1 by blast
  next
    case 2
    then have "rows = None \<or> rows = Some []" by (metis list.exhaust option.exhaust)
    then have "st_db s' = snd (take_result (snd (db_fetch (snd (db_query (st_db s1) ins False)))))"
      using assms(1,3) db pc q
      by (auto simp: rt_rating_save_def rt_data_q_rating_add_def rt_data_q_rating_add_sql_def Let_def split_beta
          simp flip: ins_def split: if_splits Option.bind_splits)
    then show ?thesis using l2 2 l1(1) ins_def by metis
  qed
qed

lemma rest_finds:
  assumes "double_rating_rest env rtp s = Some (0, rtp', s')" "on_log ans lg (st_db s)" "remembers ans"
    and "0 < pre_cdr_id (ra_pre rtp)" "rating_insert_str r n \<in> set lg" "row_key r = row_key rtp"
  shows "pre_rating_id (ra_pre rtp') = 0 \<and> on_log ans (lg @ [rating_id_str rtp]) (st_db s')"
proof -
  obtain ret rtp1 where g: "calc_cprice_group (ev_fp env) rtp = Some (ret, rtp1)"
    and save: "rt_rating_save env rtp1 s = Some (rtp', s')"
    using assms(1) by (auto simp: double_rating_rest_def split: if_splits Option.bind_splits)
  have k: "row_key rtp1 = row_key rtp" by (rule group_key [OF g])
  then have "rating_id_str rtp1 = rating_id_str rtp" "rating_id_str r = rating_id_str rtp"
    using row_key_id assms(6) by metis+
  moreover have "0 < pre_cdr_id (ra_pre rtp1)" using k assms(4) by (simp add: row_key_def pre_key_def)
  moreover have "\<exists>x xs. snd (ans lg (rating_id_str r)) = Some (x # xs)" using assms(3,5) unfolding remembers_def by blast
  ultimately show ?thesis using save_stores [OF save assms(2)] by auto
qed

text \<open>The paid part of a call across the end of the free seconds is lost. Such a call is
  stored in two parts with the same call, account and rate. On a database that finds a row once it
  was inserted, whatever it answers otherwise, the second part of a new call finds the first and is
  not stored: the last thing sent is the query, and the call comes back with \<open>rating_id = 0\<close>, with
  which \<open>rt_exec\<close> marks it \<open>-1\<close> and leaves the price of the second part off the balance.\<close>

theorem paid_part_dropped:
  assumes "rt_double_rating env rtp s = Some (0, rtp', s')" "on_log ans lg (st_db s)" "remembers ans"
    and "\<forall>x xs. snd (ans lg (rating_id_str rtp)) \<noteq> Some (x # xs)"
    and "pre_free_billsec_sum (ra_pre rtp) < pre_free_billsec_limit (ra_pre rtp)" "0 < pre_cdr_id (ra_pre rtp)"
    and "calc_cprice_group (ev_fp env) (upd_pre (\<lambda>p. p\<lparr>pre_billsec :=
           pre_free_billsec_limit (ra_pre rtp) - pre_free_billsec_sum (ra_pre rtp)\<rparr>) rtp) = Some (0, rtp1)"
  shows "pre_rating_id (ra_pre rtp') = 0 \<and> (\<exists>l. on_log ans (lg @ l @ [rating_id_str rtp]) (st_db s'))"
proof -
  have k1: "row_key rtp1 = row_key rtp" using group_key [OF assms(7)] by simp
  have i1: "rating_id_str rtp1 = rating_id_str rtp" by (rule row_key_id [OF k1])
  obtain rtp2 s2 rtp3 s3 b where save: "rt_rating_save env rtp1 s = Some (rtp2, s2)"
    and rest: "double_rating_rest env rtp3 s3 = Some (0, rtp', s')"
    and between: "\<exists>rtp4 s4 st en ret. (rt_balance_exec env (upd_pre (\<lambda>p. p\<lparr>pre_billsec := b\<rparr>) rtp2) st en s2 = Some (rtp4, s4) \<or>
        rtp4 = upd_pre (\<lambda>p. p\<lparr>pre_billsec := b\<rparr>) rtp2 \<and> s4 = s2) \<and>
      (free_billsec_exec rtp4 st en s4 = Some (ret, rtp3, s3) \<or> rtp3 = rtp4 \<and> s3 = s4)"
    using assms(1,5,7)
    by (auto simp: rt_double_rating_def csub_def Let_def split: if_splits option.splits Option.bind_splits) blast+
  have "0 < pre_cdr_id (ra_pre rtp1)" using k1 assms(6) by (simp add: row_key_def pre_key_def)
  then obtain l1 n where l1: "on_log ans (lg @ l1) (st_db s2)" "l1 = [rating_id_str rtp1, rating_insert_str rtp1 n]"
    using save_stores [OF save assms(2)] assms(4) i1 by metis
  have k2: "row_key rtp2 = row_key rtp1" by (rule save_key [OF save])
  obtain rtp4 s4 st en ret where
      b1: "rt_balance_exec env (upd_pre (\<lambda>p. p\<lparr>pre_billsec := b\<rparr>) rtp2) st en s2 = Some (rtp4, s4) \<or>
        rtp4 = upd_pre (\<lambda>p. p\<lparr>pre_billsec := b\<rparr>) rtp2 \<and> s4 = s2"
    and b2: "free_billsec_exec rtp4 st en s4 = Some (ret, rtp3, s3) \<or> rtp3 = rtp4 \<and> s3 = s4"
    using between by blast
  have m: "row_key rtp4 = row_key rtp2" "sends (\<lambda>_. True) s2 s4"
    using b1 bal_key [of env "upd_pre (\<lambda>p. p\<lparr>pre_billsec := b\<rparr>) rtp2" st en s2 rtp4 s4]
      any.balance_exec [of env "upd_pre (\<lambda>p. p\<lparr>pre_billsec := b\<rparr>) rtp2" st en s2 rtp4 s4] on_log_sql [OF l1(1)]
    by auto
  have m': "row_key rtp3 = row_key rtp4" "sends (\<lambda>_. True) s4 s3"
    using b2 free_exec_key any.free_exec by auto
  obtain l2 where l2: "on_log ans ((lg @ l1) @ l2) (st_db s3)"
    using sends_trans [OF m(2) m'(2)] l1(1) unfolding sends_db_def by blast
  have k3: "row_key rtp1 = row_key rtp3" "row_key rtp3 = row_key rtp" using k1 k2 m(1) m'(1) by simp_all
  have "0 < pre_cdr_id (ra_pre rtp3)" using k3 assms(6) by (simp add: row_key_def pre_key_def)
  then have "pre_rating_id (ra_pre rtp') = 0 \<and> on_log ans (((lg @ l1) @ l2) @ [rating_id_str rtp3]) (st_db s')"
    using rest_finds [OF rest l2 assms(3) _ _ k3(1), of n] l1(2) by auto
  then show ?thesis using row_key_id [OF k3(2)] by (intro conjI exI [of _ "l1 @ l2"]) simp_all
qed


text \<open>A call of 120 seconds with 60 free ones left.\<close>

definition free_account :: racc where
  "free_account = upd_pre (\<lambda>p. p\<lparr>pre_free_billsec_limit := 60, pre_rate_id := 2\<rparr>)
     (set_calc_funcs (Some one_cent) (set_rates (Some plan_359) (paid_by (Some demo_card))))"

definition rating_table :: answers where
  "rating_table = (\<lambda>lg q. (0,
     if starts ''select sum(free_billsec)'' q then Some [[''60'']]
     else if starts ''insert into rating ('' q \<or>
        starts ''select id from rating where call_id = '' q \<and> list_ex (starts ''insert into rating ('') lg
     then Some [[''1'']] else None))"

lemma rating_table_remembers: "remembers rating_table"
proof -
  have "starts ''insert into rating ('' (rating_insert_str r n)" for r n
    by (simp add: rating_insert_str_def Let_def)
  moreover have "starts ''select id from rating where call_id = '' (rating_id_str r)" for r
    by (simp add: rating_id_str_def)
  ultimately show ?thesis by (auto simp: remembers_def rating_table_def list_ex_iff)
qed

lemma free_run:
  "map_option (\<lambda>(ret, r, s). (ret, pre_cprice (ra_pre r))) (rt_double_rating exact_env free_account (ost rating_table [] None None)) =
     Some (0, 1 / 100)"
  "map_option (\<lambda>(ret, r). (ret, pre_cprice (ra_pre r))) (calc_cprice_group exact (upd_pre (\<lambda>p. p\<lparr>pre_billsec := 60\<rparr>) free_account)) =
     Some (0, - 1 / 100)"
  "pre_free_billsec_limit (ra_pre free_account) = 60" "pre_free_billsec_sum (ra_pre free_account) = 0"
  "pre_cdr_id (ra_pre free_account) = 5"
  by code_simp+

theorem paid_part_dropped_witness:
  "\<exists>rtp' s' l. rt_double_rating exact_env free_account (ost rating_table [] None None) = Some (0, rtp', s') \<and>
     pre_cprice (ra_pre rtp') = 1 / 100 \<and> pre_rating_id (ra_pre rtp') = 0 \<and>
     on_log rating_table (l @ [rating_id_str free_account]) (st_db s')"
proof -
  obtain rtp' s' where r: "rt_double_rating exact_env free_account (ost rating_table [] None None) = Some (0, rtp', s')"
    "pre_cprice (ra_pre rtp') = 1 / 100"
    using free_run(1) by auto
  obtain rtp1 where g: "calc_cprice_group exact (upd_pre (\<lambda>p. p\<lparr>pre_billsec := 60\<rparr>) free_account) = Some (0, rtp1)"
    using free_run(2) by auto
  have fp: "ev_fp exact_env = exact" by (simp add: exact_env_def)
  have new: "\<forall>x xs. snd (rating_table [] (rating_id_str free_account)) \<noteq> Some (x # xs)"
    by (simp add: rating_table_def rating_id_str_def)
  show ?thesis
    using paid_part_dropped [OF r(1) _ rating_table_remembers, of "[]" rtp1] r new g by (auto simp: fp free_run(3-5))
qed

end
