(* ===== verification/Net.thy ===== *)
theory Net
  imports CString
begin

text \<open>
  The network layer: \<open>net/net.h\<close>, the dispatch and socket functions of \<open>net/net.c\<close>, and the
  transports \<open>mod/tcp/tcp.c\<close>, \<open>mod/udp/udp.c\<close> and \<open>mod/sctp/sctp.c\<close>. The system calls are the
  functions of the record \<open>sys\<close> over a world \<open>'w\<close>; a transport is a record of functions, as in
  the C code, and a NULL pointer is \<open>None\<close>. A buffer is its bytes; \<open>None\<close> as the result of an
  operation is undefined behaviour. The worker pool of \<open>net_parallel_server\<close> is in theory
  \<open>NetServer\<close>.
\<close>

section \<open>Types\<close>

abbreviation (input) NET_OK :: int where "NET_OK \<equiv> 0"
abbreviation (input) NET_ERROR_SOCKET :: int where "NET_ERROR_SOCKET \<equiv> -1"
abbreviation (input) NET_ERROR_GETHOST :: int where "NET_ERROR_GETHOST \<equiv> -2"
abbreviation (input) NET_ERROR_CONNECT :: int where "NET_ERROR_CONNECT \<equiv> -3"
abbreviation (input) NET_ERROR_PORT :: int where "NET_ERROR_PORT \<equiv> -4"
abbreviation (input) NET_ERROR_BIND :: int where "NET_ERROR_BIND \<equiv> -5"
abbreviation (input) NET_ERROR_LISTEN :: int where "NET_ERROR_LISTEN \<equiv> -6"
abbreviation (input) NET_ERROR_ACCEPT :: int where "NET_ERROR_ACCEPT \<equiv> -7"
abbreviation (input) NET_ERROR_SEND :: int where "NET_ERROR_SEND \<equiv> -8"
abbreviation (input) NET_ERROR_RECV :: int where "NET_ERROR_RECV \<equiv> -9"
abbreviation (input) NET_ERROR_SETSOCKOPT :: int where "NET_ERROR_SETSOCKOPT \<equiv> -10"
abbreviation (input) NET_ERROR_NOTCONN :: int where "NET_ERROR_NOTCONN \<equiv> 104"
abbreviation (input) NET_T_POINTER_NUL :: int where "NET_T_POINTER_NUL \<equiv> -100"
abbreviation (input) NET_T_CONN_POINTER_NUL :: int where "NET_T_CONN_POINTER_NUL \<equiv> -101"
abbreviation (input) NET_T_API_POINTER_NUL :: int where "NET_T_API_POINTER_NUL \<equiv> -102"
abbreviation (input) NET_T_API_OPEN_P_NUL :: int where "NET_T_API_OPEN_P_NUL \<equiv> -103"
abbreviation (input) NET_T_API_ACCEPT_P_NUL :: int where "NET_T_API_ACCEPT_P_NUL \<equiv> -105"
abbreviation (input) NET_T_API_SEND_P_NUL :: int where "NET_T_API_SEND_P_NUL \<equiv> -106"
abbreviation (input) NET_T_API_RECV_P_NUL :: int where "NET_T_API_RECV_P_NUL \<equiv> -107"
abbreviation (input) NET_T_API_SSERV_P_NUL :: int where "NET_T_API_SSERV_P_NUL \<equiv> -108"

abbreviation (input) NET_CONN_REPLY_NUM :: nat where "NET_CONN_REPLY_NUM \<equiv> 10"
abbreviation (input) NET_CONN_NUM :: u16 where "NET_CONN_NUM \<equiv> 5"

datatype net_type = server | client

text \<open>A domain or protocol number outside the enumeration is possible, as in C.\<close>

datatype net_dom = ipv4 | ipv6 | loc | dom_other int

datatype net_proto = udp | tcp | tls | sctp | tls_sctp | proto_other int

record net_conn =
  nc_domain :: net_dom
  nc_t :: net_type
  nc_proto_id :: net_proto
  nc_sockfd :: int
  nc_newsockfd :: int
  nc_port :: u16
  nc_conn_num :: u16
  nc_opt :: int
  nc_proto :: string
  nc_ip_str :: string
  nc_hostname :: string
  nc_buffer :: "string option"
  nc_buf_size :: u32
  nc_eng_tmp :: nat
  nc_eng_ctx :: nat
  nc_unix_socket_filename :: string
  nc_cert_filename :: string
  nc_pkey_filename :: string
  nc_ca_filename :: string
  nc_tls_verify_peer :: int

type_synonym 'w net_op = "net_conn \<Rightarrow> 'w \<Rightarrow> (int \<times> net_conn \<times> 'w) option"

text \<open>A request handler rewrites the buffer and may change the world.\<close>

type_synonym 'w handler = "string \<Rightarrow> 'w \<Rightarrow> int \<times> string \<times> 'w"

record 'w net_funcs =
  nf_open :: "'w net_op option"
  nf_close :: "(net_conn \<Rightarrow> 'w \<Rightarrow> 'w) option"
  nf_accept :: "'w net_op option"
  nf_listen :: "'w net_op option"
  nf_recv_msg :: "'w net_op option"
  nf_send_msg :: "'w net_op option"
  nf_status :: "'w net_op option"
  nf_connect :: "'w net_op option"
  nf_s_server :: "('w handler \<Rightarrow> 'w net_op) option"

record 'w net =
  np_conn :: "net_conn option"
  np_api :: "'w net_funcs option"

text \<open>An address to bind to: an empty \<open>ip_str\<close> is the wildcard address.\<close>

datatype sockaddr = Inet string u16 | Inet6 string u16 | Local string

record 'w sys =
  sy_socket :: "net_dom \<Rightarrow> bool \<Rightarrow> bool \<Rightarrow> 'w \<Rightarrow> int \<times> 'w"
  sy_close :: "int \<Rightarrow> 'w \<Rightarrow> 'w"
  sy_accept :: "int \<Rightarrow> 'w \<Rightarrow> int \<times> 'w"
  sy_recv :: "int \<Rightarrow> nat \<Rightarrow> 'w \<Rightarrow> int \<times> string \<times> 'w"
  sy_send :: "int \<Rightarrow> string \<Rightarrow> 'w \<Rightarrow> int \<times> 'w"
  sy_setsockopt :: "int \<Rightarrow> int \<Rightarrow> 'w \<Rightarrow> int \<times> 'w"
  sy_bind :: "int \<Rightarrow> sockaddr \<Rightarrow> 'w \<Rightarrow> int \<times> 'w"
  sy_listen :: "int \<Rightarrow> u16 \<Rightarrow> 'w \<Rightarrow> int \<times> 'w"
  sy_gethostbyname :: "string \<Rightarrow> 'w \<Rightarrow> string option"
  sy_connect :: "int \<Rightarrow> sockaddr \<Rightarrow> 'w \<Rightarrow> int \<times> 'w"
  sy_so_error :: "int \<Rightarrow> 'w \<Rightarrow> int"
  sy_select :: "int list \<Rightarrow> 'w \<Rightarrow> bool \<times> int list \<times> 'w"
  sy_usable :: "nat \<Rightarrow> nat"

section \<open>Handles and buffers\<close>

definition net_conn0 :: net_conn where
  "net_conn0 = \<lparr>nc_domain = dom_other 0, nc_t = client, nc_proto_id = proto_other 0, nc_sockfd = 0, nc_newsockfd = 0,
     nc_port = 0, nc_conn_num = 0, nc_opt = 0, nc_proto = [], nc_ip_str = [], nc_hostname = [], nc_buffer = None,
     nc_buf_size = 0, nc_eng_tmp = 0, nc_eng_ctx = 0, nc_unix_socket_filename = [], nc_cert_filename = [],
     nc_pkey_filename = [], nc_ca_filename = [], nc_tls_verify_peer = 0\<rparr>"

definition net_funcs0 :: "'w net_funcs" where
  "net_funcs0 = \<lparr>nf_open = None, nf_close = None, nf_accept = None, nf_listen = None, nf_recv_msg = None,
     nf_send_msg = None, nf_status = None, nf_connect = None, nf_s_server = None\<rparr>"

definition net_init :: "'w net" where
  "net_init = \<lparr>np_conn = Some net_conn0, np_api = Some net_funcs0\<rparr>"

definition net_buffer_init :: "net_conn \<Rightarrow> net_conn" where
  "net_buffer_init c =
     (if 0 < nc_buf_size c then c\<lparr>nc_buffer := Some (replicate (unat (nc_buf_size c)) (CHR 0x00))\<rparr> else c)"

definition net_buffer_free :: "net_conn \<Rightarrow> net_conn" where
  "net_buffer_free c = c\<lparr>nc_buffer := None\<rparr>"

definition net_clear_buffer :: "net_conn \<Rightarrow> net_conn" where
  "net_clear_buffer c =
     (if nc_buffer c \<noteq> None \<and> 0 < nc_buf_size c
      then c\<lparr>nc_buffer := Some (replicate (unat (nc_buf_size c)) (CHR 0x00))\<rparr> else c)"

section \<open>Sockets\<close>

text \<open>The type and the protocol of the socket: stream or datagram, SCTP or default.\<close>

definition socket_kind :: "net_proto \<Rightarrow> (bool \<times> bool) option" where
  "socket_kind p = (case p of
     udp \<Rightarrow> Some (False, False)
   | tcp \<Rightarrow> Some (True, False)
   | tls \<Rightarrow> Some (True, False)
   | sctp \<Rightarrow> Some (True, True)
   | tls_sctp \<Rightarrow> Some (True, True)
   | proto_other _ \<Rightarrow> None)"

definition net_open_socket :: "'w sys \<Rightarrow> 'w net_op" where
  "net_open_socket sy c w = (case socket_kind (nc_proto_id c) of
     None \<Rightarrow> Some (NET_ERROR_SOCKET, c, w)
   | Some (stream, proto) \<Rightarrow>
       let (sd, w1) = sy_socket sy (nc_domain c) stream proto w in
       if sd < 0 then Some (NET_ERROR_SOCKET, c, w1)
       else Some (NET_OK, if nc_t c = server then c\<lparr>nc_sockfd := sd\<rparr> else c\<lparr>nc_newsockfd := sd\<rparr>, w1))"

definition conn_fd :: "net_conn \<Rightarrow> int" where
  "conn_fd c = (if nc_t c = server then nc_sockfd c else nc_newsockfd c)"

definition net_close_socket :: "'w sys \<Rightarrow> net_conn \<Rightarrow> 'w \<Rightarrow> 'w" where
  "net_close_socket sy c w = sy_close sy (conn_fd c) w"

definition net_socket_status :: "'w sys \<Rightarrow> 'w net_op" where
  "net_socket_status sy c w = Some (sy_so_error sy (nc_sockfd c) w, c, w)"

text \<open>The address, or the error code. \<open>strcpy\<close> into \<open>sun_path\<close> (108 bytes) is the \<open>None\<close>.\<close>

definition listen_addr :: "net_conn \<Rightarrow> (int + sockaddr) option" where
  "listen_addr c = (case nc_domain c of
     ipv4 \<Rightarrow> Some (if 0 < nc_port c then Inr (Inet (nc_ip_str c) (nc_port c)) else Inl NET_ERROR_PORT)
   | ipv6 \<Rightarrow> Some (if 0 < nc_port c then Inr (Inet6 (nc_ip_str c) (nc_port c)) else Inl NET_ERROR_PORT)
   | loc \<Rightarrow> if 108 \<le> length (nc_unix_socket_filename c) then None else Some (Inr (Local (nc_unix_socket_filename c)))
   | dom_other _ \<Rightarrow> Some (Inl NET_ERROR_BIND))"

definition net_listen :: "'w sys \<Rightarrow> 'w net_op" where
  "net_listen sy c w =
     (if nc_sockfd c < 0 then Some (NET_ERROR_SOCKET, c, w)
      else do {
        addr \<leftarrow> listen_addr c;
        case addr of
          Inl err \<Rightarrow> Some (err, c, w)
        | Inr a \<Rightarrow>
            let (r1, w1) = sy_setsockopt sy (nc_sockfd c) (nc_opt c) w in
            if r1 < 0 then Some (NET_ERROR_SETSOCKOPT, c, w1)
            else let (r2, w2) = sy_bind sy (nc_sockfd c) a w1 in
            if r2 < 0 then Some (NET_ERROR_BIND, c, w2)
            else if nc_proto_id c = udp then Some (NET_OK, c, w2)
            else
              let c1 = (if nc_conn_num c = 0 then c\<lparr>nc_conn_num := NET_CONN_NUM\<rparr> else c);
                  (r3, w3) = sy_listen sy (nc_sockfd c1) (nc_conn_num c1) w2
              in Some (if r3 < 0 then NET_ERROR_LISTEN else NET_OK, c1, w3)
      })"

section \<open>Dispatch\<close>

type_synonym 'w net_ret = "(int \<times> 'w net option \<times> 'w) option"

text \<open>The guards, then the call through the function pointer.\<close>

definition net_via ::
  "int \<times> int \<times> int \<times> int \<Rightarrow> ('w net_funcs \<Rightarrow> 'f option) \<Rightarrow> ('f \<Rightarrow> 'w net_op) \<Rightarrow> 'w net option \<Rightarrow> 'w \<Rightarrow> 'w net_ret" where
  "net_via codes sel call ptr w = (let (e_np, e_conn, e_api, e_fun) = codes in
     case ptr of
       None \<Rightarrow> Some (e_np, None, w)
     | Some np \<Rightarrow> (case np_conn np of
         None \<Rightarrow> Some (e_conn, ptr, w)
       | Some c \<Rightarrow> (case np_api np of
           None \<Rightarrow> Some (e_api, ptr, w)
         | Some a \<Rightarrow> (case sel a of
             None \<Rightarrow> Some (e_fun, ptr, w)
           | Some f \<Rightarrow> do {
               (ret, c', w') \<leftarrow> call f c w;
               Some (ret, Some (np\<lparr>np_conn := Some c'\<rparr>), w')
             }))))"

text \<open>\<open>net_open\<close> tries again up to \<open>NET_CONN_REPLY_NUM\<close> times.\<close>

fun net_open_loop :: "'w net_op \<Rightarrow> nat \<Rightarrow> 'w net_op" where
  "net_open_loop f n c w = do {
     (ret, c', w') \<leftarrow> f c w;
     if 0 \<le> ret then Some (NET_OK, c', w')
     else case n of 0 \<Rightarrow> Some (NET_ERROR_SOCKET, c', w') | Suc m \<Rightarrow> net_open_loop f m c' w'
   }"

declare net_open_loop.simps [simp del]

definition net_open :: "'w net option \<Rightarrow> 'w \<Rightarrow> 'w net_ret" where
  "net_open = net_via (NET_T_POINTER_NUL, NET_T_CONN_POINTER_NUL, NET_T_API_POINTER_NUL, NET_T_API_OPEN_P_NUL)
     nf_open (\<lambda>f. net_open_loop f NET_CONN_REPLY_NUM)"

definition net_accept :: "'w net option \<Rightarrow> 'w \<Rightarrow> 'w net_ret" where
  "net_accept = net_via (NET_T_POINTER_NUL, NET_T_CONN_POINTER_NUL, NET_T_API_POINTER_NUL, NET_T_API_ACCEPT_P_NUL)
     nf_accept (\<lambda>f. f)"

definition net_recv_msg :: "'w net option \<Rightarrow> 'w \<Rightarrow> 'w net_ret" where
  "net_recv_msg = net_via (NET_T_POINTER_NUL, NET_T_CONN_POINTER_NUL, NET_T_API_POINTER_NUL, NET_T_API_RECV_P_NUL)
     nf_recv_msg (\<lambda>f. f)"

definition net_send_msg :: "'w net option \<Rightarrow> 'w \<Rightarrow> 'w net_ret" where
  "net_send_msg = net_via (NET_T_POINTER_NUL, NET_T_CONN_POINTER_NUL, NET_T_API_POINTER_NUL, NET_T_API_SEND_P_NUL)
     nf_send_msg (\<lambda>f. f)"

definition net_close :: "'w net option \<Rightarrow> 'w \<Rightarrow> 'w net_ret" where
  "net_close = net_via (-1, -2, -3, -4) nf_close (\<lambda>f c w. Some (NET_OK, c, f c w))"

text \<open>The default number of connections is set before the API is checked.\<close>

definition default_conn_num :: "net_conn \<Rightarrow> net_conn" where
  "default_conn_num c = (if nc_conn_num c = 0 then c\<lparr>nc_conn_num := NET_CONN_NUM\<rparr> else c)"

definition net_serial_server :: "'w net option \<Rightarrow> 'w handler \<Rightarrow> 'w \<Rightarrow> 'w net_ret" where
  "net_serial_server ptr ext =
     net_via (NET_T_POINTER_NUL, NET_T_CONN_POINTER_NUL, NET_T_API_POINTER_NUL, NET_T_API_SSERV_P_NUL)
       nf_s_server (\<lambda>f. f ext)
       (map_option (\<lambda>np. np\<lparr>np_conn := map_option default_conn_num (np_conn np)\<rparr>) ptr)"

section \<open>TCP\<close>

text \<open>The bytes received overwrite the start of the buffer; more than it holds is undefined.\<close>

definition fill_buffer :: "string \<Rightarrow> net_conn \<Rightarrow> net_conn option" where
  "fill_buffer data c = (case nc_buffer c of
     None \<Rightarrow> if data = [] then Some c else None
   | Some b \<Rightarrow> if length data \<le> length b then Some (c\<lparr>nc_buffer := Some (data @ drop (length data) b)\<rparr>) else None)"

definition tcp_open :: "'w sys \<Rightarrow> 'w net_op" where
  "tcp_open sy = net_open_socket sy"

definition tcp_close :: "'w sys \<Rightarrow> net_conn \<Rightarrow> 'w \<Rightarrow> 'w" where
  "tcp_close sy = net_close_socket sy"

definition tcp_accept :: "'w sys \<Rightarrow> 'w net_op" where
  "tcp_accept sy c w = (let (fd, w1) = sy_accept sy (nc_sockfd c) w; c1 = c\<lparr>nc_newsockfd := fd\<rparr>
     in Some (if fd < 0 then NET_ERROR_ACCEPT else NET_OK, c1, w1))"

definition tcp_recv :: "'w sys \<Rightarrow> 'w net_op" where
  "tcp_recv sy c w = (let (n, data, w1) = sy_recv sy (conn_fd c) (unat (nc_buf_size c)) w in
     if n < 0 then Some (NET_ERROR_RECV, c, w1)
     else do { c1 \<leftarrow> fill_buffer (take (nat n) data) c; Some (n, c1, w1) })"

definition tcp_send :: "'w sys \<Rightarrow> 'w net_op" where
  "tcp_send sy c w = do {
     b \<leftarrow> nc_buffer c;
     let (n, w1) = sy_send sy (conn_fd c) (take (unat (nc_buf_size c)) b) w;
     Some (if n < 0 then NET_ERROR_SEND else n, c, w1)
   }"

definition tcp_client_connect :: "'w sys \<Rightarrow> 'w net_op" where
  "tcp_client_connect sy c w = (let (sd, w1) = sy_socket sy (nc_domain c) True False w; c1 = c\<lparr>nc_sockfd := sd\<rparr> in
     if sd < 0 then Some (NET_ERROR_SOCKET, c1, w1)
     else case sy_gethostbyname sy (nc_hostname c) w1 of
       None \<Rightarrow> Some (NET_ERROR_GETHOST, c1, w1)
     | Some h \<Rightarrow> let (r, w2) = sy_connect sy sd (Inet h (nc_port c)) w1
                in Some (if r < 0 then NET_ERROR_CONNECT else NET_OK, c1, w2))"

text \<open>\<open>tcp_serial_server\<close>. One pass over the client slots: a slot that is ready is read; what came
  is handled and answered, an end or an error closes the connection and frees the slot.\<close>

fun serve_slots :: "'w sys \<Rightarrow> 'w handler \<Rightarrow> int list \<Rightarrow> int list \<Rightarrow> net_conn \<Rightarrow> 'w \<Rightarrow> (int list \<times> net_conn \<times> 'w) option" where
  "serve_slots sy ext ready [] c w = Some ([], c, w)"
| "serve_slots sy ext ready (fd # fds) c w = do {
     let c0 = c\<lparr>nc_newsockfd := fd\<rparr>;
     (fd', c', w') \<leftarrow>
       (if fd \<in> set ready then do {
          (n, c1, w1) \<leftarrow> tcp_recv sy (net_clear_buffer c0) w;
          if n \<le> 0 then Some (0, c1, tcp_close sy c1 w1)
          else do {
            b \<leftarrow> nc_buffer c1;
            let (_, b', w2) = ext b w1;
            (_, c3, w3) \<leftarrow> tcp_send sy (c1\<lparr>nc_buffer := Some b'\<rparr>) w2;
            Some (fd, c3, w3)
          }
        } else Some (fd, c0, w));
     (fds', c'', w'') \<leftarrow> serve_slots sy ext ready fds c' w';
     Some (fd' # fds', c'', w'')
   }"

text \<open>A new connection goes to the first free slot, or nowhere.\<close>

fun take_slot :: "int \<Rightarrow> int list \<Rightarrow> int list" where
  "take_slot fd [] = []"
| "take_slot fd (s # ss) = (if s = 0 then fd # ss else s # take_slot fd ss)"

text \<open>One turn of the loop; \<open>Inl\<close> leaves it. \<open>select\<close> returns whether it failed other than by
  \<open>EINTR\<close>, and the ready ones of the descriptors it was given.\<close>

definition tcp_serial_turn ::
  "'w sys \<Rightarrow> 'w handler \<Rightarrow> int list \<Rightarrow> net_conn \<Rightarrow> 'w \<Rightarrow> (net_conn \<times> 'w + int list \<times> net_conn \<times> 'w) option" where
  "tcp_serial_turn sy ext slots c w =
     (if nc_sockfd c \<le> 0 then Some (Inl (c, w))
      else
        let fds = nc_sockfd c # List.filter (\<lambda>fd. 0 < fd) slots;
            (failed, sel, w1) = sy_select sy fds w;
            ready = List.filter (\<lambda>fd. fd \<in> set sel) fds
        in if failed then Some (Inl (c, w1))
           else do {
             (ret, c1, w2) \<leftarrow> (if nc_sockfd c \<in> set ready then tcp_accept sy c w1 else Some (NET_OK, c, w1));
             if ret < 0 then Some (Inl (c1, w2))
             else do {
               let slots1 = (if nc_sockfd c \<in> set ready then take_slot (nc_newsockfd c1) slots else slots);
               (slots2, c2, w3) \<leftarrow> serve_slots sy ext ready slots1 (c1\<lparr>nc_t := client\<rparr>) w2;
               Some (Inr (slots2, c2, w3))
             }
           })"

partial_function (option) tcp_serial_loop ::
  "'w sys \<Rightarrow> 'w handler \<Rightarrow> int list \<Rightarrow> net_conn \<Rightarrow> 'w \<Rightarrow> (net_conn \<times> 'w) option" where
  "tcp_serial_loop sy ext slots c w = do {
     r \<leftarrow> tcp_serial_turn sy ext slots c w;
     case r of
       Inl (c', w') \<Rightarrow> Some (c', w')
     | Inr (slots', c', w') \<Rightarrow> tcp_serial_loop sy ext slots' c' w'
   }"

text \<open>The slots are \<open>conn_num\<close> integers in an allocation of \<open>conn_num\<close> bytes, of which
  \<open>sy_usable\<close> can be used.\<close>

definition client_slots :: "'w sys \<Rightarrow> nat \<Rightarrow> int list option" where
  "client_slots sy n = (if 4 * n \<le> sy_usable sy n then Some (replicate n 0) else None)"

definition tcp_serial_server :: "'w sys \<Rightarrow> 'w handler \<Rightarrow> 'w net_op" where
  "tcp_serial_server sy ext c w = (let c1 = net_buffer_init (default_conn_num c) in
     if nc_buffer c1 = None then Some (-1002, c1, w)
     else do {
       slots \<leftarrow> client_slots sy (unat (nc_conn_num c1));
       (c2, w2) \<leftarrow> tcp_serial_loop sy ext slots c1 w;
       let c3 = c2\<lparr>nc_t := server\<rparr>;
       Some (NET_OK, net_buffer_free c3, tcp_close sy c3 w2)
     })"

definition tcp_bind_api :: "'w sys \<Rightarrow> 'w net_funcs" where
  "tcp_bind_api sy = \<lparr>nf_open = Some (tcp_open sy), nf_close = Some (tcp_close sy), nf_accept = Some (tcp_accept sy),
     nf_listen = None, nf_recv_msg = Some (tcp_recv sy), nf_send_msg = Some (tcp_send sy),
     nf_status = Some (net_socket_status sy), nf_connect = Some (tcp_client_connect sy),
     nf_s_server = Some (tcp_serial_server sy)\<rparr>"

section \<open>UDP and SCTP\<close>

text \<open>\<open>udp_recv\<close> asks for 1024 bytes whatever the size of the buffer; \<open>udp_send\<close> sends the string
  in it.\<close>

definition udp_recv :: "'w sys \<Rightarrow> 'w net_op" where
  "udp_recv sy c w = (let (n, data, w1) = sy_recv sy (nc_sockfd c) 1024 w in
     do { c1 \<leftarrow> fill_buffer (if n < 0 then [] else take (nat n) data) c; Some (n, c1, w1) })"

definition c_string :: "string \<Rightarrow> string option" where
  "c_string b = (if CHR 0x00 \<in> set b then Some (takeWhile (\<lambda>x. x \<noteq> CHR 0x00) b) else None)"

definition udp_send :: "'w sys \<Rightarrow> 'w net_op" where
  "udp_send sy c w = do {
     b \<leftarrow> nc_buffer c;
     s \<leftarrow> c_string b;
     Some (0, c, snd (sy_send sy (nc_sockfd c) s w))
   }"

partial_function (option) udp_serial_loop :: "'w sys \<Rightarrow> 'w handler \<Rightarrow> net_conn \<Rightarrow> 'w \<Rightarrow> (net_conn \<times> 'w) option" where
  "udp_serial_loop sy ext c w =
     (if nc_sockfd c \<le> 0 then Some (c, w)
      else do {
        (_, c1, w1) \<leftarrow> udp_recv sy (net_clear_buffer c) w;
        b \<leftarrow> nc_buffer c1;
        let (_, b', w2) = ext b w1;
        (_, c3, w3) \<leftarrow> udp_send sy (c1\<lparr>nc_buffer := Some b'\<rparr>) w2;
        udp_serial_loop sy ext c3 w3
      })"

definition udp_serial_server :: "'w sys \<Rightarrow> 'w handler \<Rightarrow> 'w net_op" where
  "udp_serial_server sy ext c w = (let c1 = net_buffer_init (default_conn_num c) in
     if nc_buffer c1 = None then Some (-1002, c1, w)
     else do { (c2, w2) \<leftarrow> udp_serial_loop sy ext c1 w; Some (NET_OK, c2, w2) })"

definition udp_bind_api :: "'w sys \<Rightarrow> 'w net_funcs" where
  "udp_bind_api sy = net_funcs0\<lparr>nf_open := Some (net_open_socket sy), nf_close := Some (net_close_socket sy),
     nf_recv_msg := Some (udp_recv sy), nf_send_msg := Some (udp_send sy), nf_s_server := Some (udp_serial_server sy)\<rparr>"

definition sctp_bind_api :: "'w sys \<Rightarrow> 'w net_funcs" where
  "sctp_bind_api sy = net_funcs0\<lparr>nf_open := Some (net_open_socket sy), nf_close := Some (net_close_socket sy),
     nf_s_server := Some (\<lambda>ext c w. Some (NET_OK, c, w))\<rparr>"

section \<open>Opening\<close>

lemma open_loop_bound:
  "net_open_loop f n c w = Some (ret, c', w') \<Longrightarrow> (\<And>c w r c' w'. f c w = Some (r, c', w') \<Longrightarrow> cnt w' \<le> Suc (cnt w)) \<Longrightarrow>
   cnt w' \<le> cnt w + Suc n \<and> ret \<in> {NET_OK, NET_ERROR_SOCKET}"
proof (induction n arbitrary: c w)
  case 0
  then show ?case by (subst (asm) net_open_loop.simps) (fastforce split: Option.bind_splits if_splits)
next
  case (Suc n)
  from Suc.prems(1) obtain r1 c1 w1 where f: "f c w = Some (r1, c1, w1)"
    and r: "0 \<le> r1 \<and> ret = NET_OK \<and> w' = w1 \<or> net_open_loop f n c1 w1 = Some (ret, c', w')"
    by (subst (asm) net_open_loop.simps) (auto split: Option.bind_splits if_splits)
  have "cnt w1 \<le> Suc (cnt w)" by (rule Suc.prems(2) [OF f])
  then show ?case using r Suc.IH [of c1 w1] Suc.prems(2) by fastforce
qed

text \<open>\<open>net_open\<close> ends: it calls the transport's open at most eleven times (\<open>cnt\<close> is any
  count that a call raises by at most one), and its answer is \<open>NET_OK\<close>, \<open>NET_ERROR_SOCKET\<close> after
  the last failure, or the code of the missing pointer; the missing pointers call nothing.\<close>

theorem net_open_bounded:
  assumes "net_open (Some \<lparr>np_conn = Some c, np_api = Some a\<rparr>) w = Some (ret, np', w')"
    and "\<And>f c w r c' w'. nf_open a = Some f \<Longrightarrow> f c w = Some (r, c', w') \<Longrightarrow> cnt w' \<le> Suc (cnt w)"
  shows "cnt w' \<le> cnt w + 11 \<and> ret \<in> {NET_OK, NET_ERROR_SOCKET, NET_T_API_OPEN_P_NUL} \<and>
    (nf_open a = None \<longrightarrow> w' = w \<and> ret = NET_T_API_OPEN_P_NUL)"
proof (cases "nf_open a")
  case None
  then show ?thesis using assms(1) by (auto simp: net_open_def net_via_def)
next
  case (Some f)
  then obtain c' where "net_open_loop f 10 c w = Some (ret, c', w')"
    using assms(1) by (auto simp: net_open_def net_via_def split: Option.bind_splits)
  then show ?thesis using open_loop_bound [of f 10 c w ret c' w' cnt] assms(2) [OF Some] Some by auto
qed

theorem net_open_bounded_witness:
  "\<exists>np. net_open (Some \<lparr>np_conn = Some net_conn0, np_api = Some (net_funcs0\<lparr>nf_open := Some (\<lambda>c w. Some (-1, c, Suc w))\<rparr>)\<rparr>) 0 =
     Some (NET_ERROR_SOCKET, np, 11) \<and> (11::nat) \<le> 0 + 11"
proof -
  let ?a = "net_funcs0\<lparr>nf_open := Some (\<lambda>c w. Some (-1, c, Suc w))\<rparr>"
  have "map_option (\<lambda>(ret, np, w). (ret, w)) (net_open (Some \<lparr>np_conn = Some net_conn0, np_api = Some ?a\<rparr>) 0) = Some (-1, 11)"
    by code_simp
  then obtain np where n: "net_open (Some \<lparr>np_conn = Some net_conn0, np_api = Some ?a\<rparr>) 0 = Some (-1, np, 11)" by auto
  have c: "w' \<le> Suc w" if "nf_open ?a = Some f" "f c w = Some (r, c', w')" for f c w r c' w'
    using that by (auto simp: net_funcs0_def)
  show ?thesis using net_open_bounded [OF n, of id] c n by auto
qed

section \<open>The slots of the serial server\<close>

lemma serve_slots_slots:
  "serve_slots sy ext ready fds c w = Some (fds', c', w') \<Longrightarrow>
   list_all2 (\<lambda>new old. new = old \<or> new = 0 \<and> old \<in> set ready) fds' fds"
  by (induction fds arbitrary: c w fds' c' w') (auto simp: Let_def split_beta split: if_splits Option.bind_splits)

lemma take_slot_full: "0 \<notin> set slots \<Longrightarrow> take_slot fd slots = slots"
  by (induction slots) auto

lemma take_slot_length [simp]: "length (take_slot fd slots) = length slots"
  by (induction slots) auto

text \<open>The table of clients of the serial TCP server: a turn of its loop keeps the size of
  the table, puts a new connection in the first free slot only, and otherwise only frees the slots
  of clients that were ready. With no free slot the new connection is in no slot: it is neither
  served nor closed.\<close>

theorem tcp_turn_slots:
  assumes "tcp_serial_turn sy ext slots c w = Some (Inr (slots', c', w'))"
    and "sy_select sy (nc_sockfd c # List.filter (\<lambda>fd. 0 < fd) slots) w = (failed, sel, w1)"
  shows "\<not> failed \<and> length slots' = length slots \<and>
    (\<exists>fd. list_all2 (\<lambda>new old. new = old \<or> new = 0 \<and> old \<in> set sel) slots'
       (if nc_sockfd c \<in> set sel \<and> 0 \<in> set slots then take_slot fd slots else slots))"
proof -
  define ready where "ready = List.filter (\<lambda>fd. fd \<in> set sel) (nc_sockfd c # List.filter (\<lambda>fd. 0 < fd) slots)"
  have in_ready: "nc_sockfd c \<in> set ready \<longleftrightarrow> nc_sockfd c \<in> set sel" by (auto simp: ready_def)
  have sub: "set ready \<subseteq> set sel" by (auto simp: ready_def)
  obtain fd c2 w2 where "\<not> failed"
    and sv: "serve_slots sy ext ready (if nc_sockfd c \<in> set sel then take_slot fd slots else slots) c2 w2 =
      Some (slots', c', w')"
    using assms unfolding tcp_serial_turn_def Let_def
    by (auto simp only: split_beta fst_conv snd_conv ready_def [symmetric] in_ready sum.inject option.inject prod.inject
        split: if_splits Option.bind_splits) (auto split: if_splits Option.bind_splits)
  define s1 where "s1 = (if nc_sockfd c \<in> set sel then take_slot fd slots else slots)"
  have s1: "s1 = (if nc_sockfd c \<in> set sel \<and> 0 \<in> set slots then take_slot fd slots else slots)"
    using take_slot_full by (auto simp: s1_def)
  have l: "list_all2 (\<lambda>new old. new = old \<or> new = 0 \<and> old \<in> set sel) slots' s1"
    unfolding s1_def by (rule list_all2_mono [OF serve_slots_slots [OF sv]]) (use sub in auto)
  then show ?thesis using \<open>\<not> failed\<close> list_all2_lengthD [OF l] unfolding s1 by (auto split: if_splits)
qed

text \<open>A world that is the list of what was done.\<close>

definition tape :: "string list sys" where
  "tape = \<lparr>sy_socket = (\<lambda>d s p w. (3, w @ [''socket''])), sy_close = (\<lambda>fd w. w @ [''close'']),
     sy_accept = (\<lambda>fd w. (4, w @ [''accept''])), sy_recv = (\<lambda>fd n w. (2, ''ab'', w @ [''recv''])),
     sy_send = (\<lambda>fd s w. (int (length s), w @ [s])), sy_setsockopt = (\<lambda>fd opt w. (0, w)), sy_bind = (\<lambda>fd a w. (0, w)),
     sy_listen = (\<lambda>fd n w. (0, w)), sy_gethostbyname = (\<lambda>h w. None), sy_connect = (\<lambda>fd a w. (0, w)),
     sy_so_error = (\<lambda>fd w. 0), sy_select = (\<lambda>fds w. (False, fds, w)), sy_usable = (\<lambda>n. n)\<rparr>"

theorem tcp_turn_slots_witness:
  "\<exists>c'. tcp_serial_turn tape (\<lambda>b w. (0, b, w)) [0, 0] (net_conn0\<lparr>nc_sockfd := 3, nc_buf_size := 3\<rparr>) [] =
     Some (Inr ([4, 0], c', [''accept''])) \<and>
   (\<exists>fd. list_all2 (\<lambda>new old. new = old \<or> new = 0 \<and> old \<in> {3}) [4, 0] (take_slot fd [0, 0]))"
proof -
  have "map_option (map_sum fst (\<lambda>(s, c, w). (s, w))) (tcp_serial_turn tape (\<lambda>b w. (0, b, w)) [0, 0]
      (net_conn0\<lparr>nc_sockfd := 3, nc_buf_size := 3\<rparr>) []) = Some (Inr ([4, 0], [''accept'']))" by code_simp
  then obtain c' where t: "tcp_serial_turn tape (\<lambda>b w. (0, b, w)) [0, 0] (net_conn0\<lparr>nc_sockfd := 3, nc_buf_size := 3\<rparr>) [] =
     Some (Inr ([4, 0], c', [''accept'']))"
    by (simp only: map_option_eq_Some, elim exE conjE, case_tac z) auto
  show ?thesis using tcp_turn_slots [OF t, of False "[3]" "[]"] t by (auto simp: tape_def)
qed

end
