(* ===== verification/NetServer.thy ===== *)
theory NetServer
  imports Net "HOL-Library.Multiset"
begin

text \<open>
  The worker pool of \<open>net_parallel_server\<close>, \<open>net/net.c\<close>: the bounded queue between the acceptor
  and the workers, one request in a worker, and the server as a transition system of its threads.
  An operation on the queue holds its mutex, so it is one step; a thread that waits on a
  condition variable has no step until the queue changes.
\<close>

section \<open>The queue of descriptors\<close>

abbreviation (input) NET_PSRV_QCAP :: nat where "NET_PSRV_QCAP \<equiv> 1024"

record net_job_q =
  jq_fds :: "int list"
  jq_head :: nat
  jq_tail :: nat
  jq_count :: nat

definition net_job_q0 :: net_job_q where
  "net_job_q0 = \<lparr>jq_fds = replicate NET_PSRV_QCAP 0, jq_head = 0, jq_tail = 0, jq_count = 0\<rparr>"

text \<open>\<open>None\<close>: the caller waits.\<close>

definition net_job_push :: "net_job_q \<Rightarrow> int \<Rightarrow> net_job_q option" where
  "net_job_push q fd =
     (if jq_count q = NET_PSRV_QCAP then None
      else Some (q\<lparr>jq_fds := (jq_fds q)[jq_tail q := fd], jq_tail := (jq_tail q + 1) mod NET_PSRV_QCAP,
                   jq_count := jq_count q + 1\<rparr>))"

definition net_job_pop :: "net_job_q \<Rightarrow> (int \<times> net_job_q) option" where
  "net_job_pop q =
     (if jq_count q = 0 then None
      else Some (jq_fds q ! jq_head q, q\<lparr>jq_head := (jq_head q + 1) mod NET_PSRV_QCAP, jq_count := jq_count q - 1\<rparr>))"

text \<open>What a bounded queue promises.\<close>

locale bounded_fifo =
  fixes push :: "'q \<Rightarrow> 'a \<Rightarrow> 'q option" and pop :: "'q \<Rightarrow> ('a \<times> 'q) option"
    and contents :: "'q \<Rightarrow> 'a list" and inv :: "'q \<Rightarrow> bool" and cap :: nat
  assumes bounded: "inv q \<Longrightarrow> length (contents q) \<le> cap"
    and push_room: "inv q \<Longrightarrow> length (contents q) < cap \<Longrightarrow>
      \<exists>q'. push q x = Some q' \<and> inv q' \<and> contents q' = contents q @ [x]"
    and push_full: "inv q \<Longrightarrow> length (contents q) = cap \<Longrightarrow> push q x = None"
    and pop_empty: "inv q \<Longrightarrow> contents q = [] \<Longrightarrow> pop q = None"
    and pop_head: "inv q \<Longrightarrow> contents q = x # xs \<Longrightarrow> \<exists>q'. pop q = Some (x, q') \<and> inv q' \<and> contents q' = xs"
begin

lemma pushD: "push q x = Some q' \<Longrightarrow> inv q \<Longrightarrow> inv q' \<and> contents q' = contents q @ [x]"
  using push_room [of q x] push_full [of q x] bounded [of q] by (cases "length (contents q) < cap") auto

lemma popD: "pop q = Some (x, q') \<Longrightarrow> inv q \<Longrightarrow> inv q' \<and> contents q = x # contents q'"
  using pop_empty [of q] pop_head [of q] by (cases "contents q") fastforce+

lemma push_iff: "inv q \<Longrightarrow> (\<exists>q'. push q x = Some q') \<longleftrightarrow> length (contents q) < cap"
  using push_room [of q x] push_full [of q x] bounded [of q] by (cases "length (contents q) < cap") auto

lemma pop_iff: "inv q \<Longrightarrow> (\<exists>x q'. pop q = Some (x, q')) \<longleftrightarrow> contents q \<noteq> []"
  using pop_empty [of q] pop_head [of q] by (cases "contents q") fastforce+

end

definition jq_ok :: "net_job_q \<Rightarrow> bool" where
  "jq_ok q \<longleftrightarrow> length (jq_fds q) = NET_PSRV_QCAP \<and> jq_head q < NET_PSRV_QCAP \<and> jq_count q \<le> NET_PSRV_QCAP \<and>
     jq_tail q = (jq_head q + jq_count q) mod NET_PSRV_QCAP"

definition jq_contents :: "net_job_q \<Rightarrow> int list" where
  "jq_contents q = map (\<lambda>i. jq_fds q ! ((jq_head q + i) mod NET_PSRV_QCAP)) [0..<jq_count q]"

lemma ring_distinct: "i < c \<Longrightarrow> c < n \<Longrightarrow> (h + i) mod n \<noteq> (h + c) mod (n :: nat)"
proof
  assume "i < c" "c < n" "(h + i) mod n = (h + c) mod n"
  then have "n dvd (h + c) - (h + i)" by (metis add_le_mono le_refl less_imp_le mod_eq_dvd_iff_nat)
  moreover have "(h + c) - (h + i) = c - i" by simp
  ultimately show False using \<open>i < c\<close> \<open>c < n\<close> by (auto dest: dvd_imp_le)
qed

interpretation jobs: bounded_fifo net_job_push net_job_pop jq_contents jq_ok NET_PSRV_QCAP
proof unfold_locales
  fix q :: net_job_q and x :: int
  assume ok: "jq_ok q"
  show "length (jq_contents q) \<le> NET_PSRV_QCAP" using ok by (simp add: jq_ok_def jq_contents_def)
  show "\<exists>q'. net_job_push q x = Some q' \<and> jq_ok q' \<and> jq_contents q' = jq_contents q @ [x]"
    if "length (jq_contents q) < NET_PSRV_QCAP"
  proof -
    have c: "jq_count q < NET_PSRV_QCAP" using that by (simp add: jq_contents_def)
    have "(jq_fds q)[jq_tail q := x] ! ((jq_head q + i) mod NET_PSRV_QCAP) = jq_fds q ! ((jq_head q + i) mod NET_PSRV_QCAP)"
      if "i < jq_count q" for i
      using ring_distinct [OF that c, of "jq_head q"] ok by (simp add: jq_ok_def)
    then show ?thesis using ok c
      by (auto simp: net_job_push_def jq_ok_def jq_contents_def mod_Suc_eq)
  qed
  show "net_job_push q x = None" if "length (jq_contents q) = NET_PSRV_QCAP"
    using that by (simp add: net_job_push_def jq_contents_def)
  show "net_job_pop q = None" if "jq_contents q = []"
    using that by (simp add: net_job_pop_def jq_contents_def)
  show "\<exists>q'. net_job_pop q = Some (x, q') \<and> jq_ok q' \<and> jq_contents q' = xs" if "jq_contents q = x # xs" for xs
  proof -
    note xs = that
    obtain n where n: "jq_count q = Suc n" using xs by (cases "jq_count q") (auto simp: jq_contents_def)
    have "jq_contents q = jq_fds q ! jq_head q # map (\<lambda>i. jq_fds q ! ((jq_head q + Suc i) mod NET_PSRV_QCAP)) [0..<n]"
      using ok by (simp add: jq_contents_def n jq_ok_def upt_conv_Cons map_Suc_upt [symmetric] del: upt_Suc) 
    then show ?thesis using ok xs n
      by (auto simp: net_job_pop_def jq_ok_def jq_contents_def mod_Suc_eq mod_add_left_eq)
  qed
qed

section \<open>One request\<close>

text \<open>What a worker does with a descriptor: its own connection, zeroed but for what it copies from
  the listener's, one message, the handler with the context of the worker, one answer, and the
  connection is closed in any case. A missing \<open>close\<close> is called all the same (\<open>None\<close>).\<close>

definition worker_conn :: "net_conn \<Rightarrow> int \<Rightarrow> net_conn" where
  "worker_conn listener fd = net_conn0\<lparr>nc_t := client, nc_proto_id := nc_proto_id listener,
     nc_domain := nc_domain listener, nc_buf_size := nc_buf_size listener,
     nc_buffer := Some (replicate (unat (nc_buf_size listener)) (CHR 0x00)), nc_newsockfd := fd,
     nc_eng_ctx := nc_eng_ctx listener\<rparr>"

definition worker_serve :: "'w net_funcs \<Rightarrow> 'w handler \<Rightarrow> net_conn \<Rightarrow> int \<Rightarrow> 'w \<Rightarrow> 'w option" where
  "worker_serve api handler listener fd w = do {
     recv \<leftarrow> nf_recv_msg api;
     close \<leftarrow> nf_close api;
     (n, wc1, w1) \<leftarrow> recv (worker_conn listener fd) w;
     if 0 < n then do {
       b \<leftarrow> nc_buffer wc1;
       let (_, b', w2) = handler b w1;
       send \<leftarrow> nf_send_msg api;
       (_, wc3, w3) \<leftarrow> send (wc1\<lparr>nc_buffer := Some b'\<rparr>) w2;
       Some (close wc3 w3)
     } else Some (close wc1 w1)
   }"

text \<open>One request over TCP: the worker reads from the descriptor once, gives the handler
  the message followed by zero bytes up to the size of the buffer, sends the whole buffer as the
  handler left it, and closes the descriptor once, also when there was nothing to read.\<close>

theorem worker_serves_tcp:
  assumes "sy_recv sy fd (unat (nc_buf_size l)) w = (n, data, w1)" "length data \<le> unat (nc_buf_size l)"
    and "0 < n \<Longrightarrow> length data = nat n"
    and "handler (data @ replicate (unat (nc_buf_size l) - length data) (CHR 0x00)) w1 = (r, b, w2)"
    and "length b = unat (nc_buf_size l)"
  shows "worker_serve (tcp_bind_api sy) handler l fd w =
    Some (sy_close sy fd (if 0 < n then snd (sy_send sy fd b w2) else w1))"
  using assms
  by (auto simp: worker_serve_def tcp_bind_api_def worker_conn_def net_conn0_def tcp_recv_def tcp_send_def tcp_close_def
      net_close_socket_def conn_fd_def fill_buffer_def Let_def split_beta)

theorem worker_serves_tcp_witness:
  "worker_serve (tcp_bind_api tape) (\<lambda>b w. (0, map (\<lambda>c. if c = CHR ''a'' then CHR ''x'' else c) b, w))
     (net_conn0\<lparr>nc_buf_size := 3\<rparr>) 7 [] = Some [''recv'', [CHR ''x'', CHR ''b'', CHR 0x00], ''close'']"
  using worker_serves_tcp [of tape 7 "net_conn0\<lparr>nc_buf_size := 3\<rparr>" "[]" 2 "''ab''" "[''recv'']"
      "\<lambda>b w. (0, map (\<lambda>c. if c = CHR ''a'' then CHR ''x'' else c) b, w)" 0 "[CHR ''x'', CHR ''b'', CHR 0x00]" "[''recv'']"]
  by (simp add: tape_def)

text \<open>The checks of \<open>net_parallel_server\<close>: an error code, or the number of workers to start.\<close>

definition net_parallel_start :: "'w net option \<Rightarrow> 'w handler option \<Rightarrow> int \<Rightarrow> int + nat" where
  "net_parallel_start ptr handler nworkers = (case ptr of
     None \<Rightarrow> Inl NET_T_POINTER_NUL
   | Some np \<Rightarrow>
       if np_conn np = None then Inl NET_T_CONN_POINTER_NUL
       else (case np_api np of
         None \<Rightarrow> Inl NET_T_API_POINTER_NUL
       | Some a \<Rightarrow>
           if Option.is_none (nf_accept a) then Inl NET_T_API_ACCEPT_P_NUL
           else if Option.is_none (nf_recv_msg a) then Inl NET_T_API_RECV_P_NUL
           else if Option.is_none (nf_send_msg a) then Inl NET_T_API_SEND_P_NUL
           else if Option.is_none handler then Inl NET_T_API_SSERV_P_NUL
           else Inr (if nworkers \<le> 0 then 1 else nat nworkers)))"

section \<open>The threads\<close>

datatype acceptor = Accepting | Pushing int | Stopping nat | Done

datatype worker = Starting | Waiting | Serving int | Exited

text \<open>The last four fields only record: what was accepted, taken from the queue and closed, in
  order, and how many workers got their buffer and how many left on a sentinel.\<close>

record psrv =
  ps_q :: net_job_q
  ps_acc :: acceptor
  ps_workers :: "worker list"
  ps_accepted :: "int list"
  ps_taken :: "int list"
  ps_closed :: "int list"
  ps_started :: nat
  ps_left :: nat

definition psrv_init :: "nat \<Rightarrow> psrv" where
  "psrv_init n = \<lparr>ps_q = net_job_q0, ps_acc = Accepting, ps_workers = replicate n Starting,
     ps_accepted = [], ps_taken = [], ps_closed = [], ps_started = 0, ps_left = 0\<rparr>"

inductive psrv_step :: "psrv \<Rightarrow> psrv \<Rightarrow> bool" where
  accept: "ps_acc s = Accepting \<Longrightarrow> 0 \<le> fd \<Longrightarrow>
    psrv_step s (s\<lparr>ps_acc := Pushing fd, ps_accepted := ps_accepted s @ [fd]\<rparr>)"
| stop: "ps_acc s = Accepting \<Longrightarrow> psrv_step s (s\<lparr>ps_acc := Stopping (length (ps_workers s))\<rparr>)"
| push: "ps_acc s = Pushing fd \<Longrightarrow> net_job_push (ps_q s) fd = Some q \<Longrightarrow>
    psrv_step s (s\<lparr>ps_acc := Accepting, ps_q := q\<rparr>)"
| sentinel: "ps_acc s = Stopping (Suc k) \<Longrightarrow> net_job_push (ps_q s) (-1) = Some q \<Longrightarrow>
    psrv_step s (s\<lparr>ps_acc := Stopping k, ps_q := q\<rparr>)"
| joined: "ps_acc s = Stopping 0 \<Longrightarrow> \<forall>w \<in> set (ps_workers s). w = Exited \<Longrightarrow> psrv_step s (s\<lparr>ps_acc := Done\<rparr>)"
| start: "i < length (ps_workers s) \<Longrightarrow> ps_workers s ! i = Starting \<Longrightarrow>
    psrv_step s (s\<lparr>ps_workers := (ps_workers s)[i := Waiting], ps_started := Suc (ps_started s)\<rparr>)"
| no_buffer: "i < length (ps_workers s) \<Longrightarrow> ps_workers s ! i = Starting \<Longrightarrow>
    psrv_step s (s\<lparr>ps_workers := (ps_workers s)[i := Exited]\<rparr>)"
| take: "i < length (ps_workers s) \<Longrightarrow> ps_workers s ! i = Waiting \<Longrightarrow> net_job_pop (ps_q s) = Some (fd, q) \<Longrightarrow> 0 \<le> fd \<Longrightarrow>
    psrv_step s (s\<lparr>ps_workers := (ps_workers s)[i := Serving fd], ps_q := q, ps_taken := ps_taken s @ [fd]\<rparr>)"
| leave: "i < length (ps_workers s) \<Longrightarrow> ps_workers s ! i = Waiting \<Longrightarrow> net_job_pop (ps_q s) = Some (fd, q) \<Longrightarrow> fd < 0 \<Longrightarrow>
    psrv_step s (s\<lparr>ps_workers := (ps_workers s)[i := Exited], ps_q := q, ps_left := Suc (ps_left s)\<rparr>)"
| serve: "i < length (ps_workers s) \<Longrightarrow> ps_workers s ! i = Serving fd \<Longrightarrow>
    psrv_step s (s\<lparr>ps_workers := (ps_workers s)[i := Waiting], ps_closed := ps_closed s @ [fd]\<rparr>)"

inductive psrv_reach :: "nat \<Rightarrow> psrv \<Rightarrow> bool" for n where
  init: "psrv_reach n (psrv_init n)"
| step: "psrv_reach n s \<Longrightarrow> psrv_step s s' \<Longrightarrow> psrv_reach n s'"

section \<open>The invariant\<close>

definition being_served :: "worker list \<Rightarrow> int multiset" where
  "being_served ws = mset (List.map_filter (\<lambda>w. case w of Serving fd \<Rightarrow> Some fd | _ \<Rightarrow> None) ws)"

definition live :: "worker list \<Rightarrow> nat" where
  "live ws = length (List.filter (\<lambda>w. w = Waiting \<or> (\<exists>fd. w = Serving fd)) ws)"

definition starting :: "worker list \<Rightarrow> nat" where
  "starting ws = length (List.filter (\<lambda>w. w = Starting) ws)"

definition in_hand :: "acceptor \<Rightarrow> int list" where
  "in_hand a = (case a of Pushing fd \<Rightarrow> [fd] | _ \<Rightarrow> [])"

definition sentinels_sent :: "nat \<Rightarrow> acceptor \<Rightarrow> nat" where
  "sentinels_sent n a = (case a of Stopping k \<Rightarrow> n - k | Done \<Rightarrow> n | _ \<Rightarrow> 0)"

definition psrv_inv :: "nat \<Rightarrow> psrv \<Rightarrow> bool" where
  "psrv_inv n s \<longleftrightarrow> jq_ok (ps_q s) \<and> length (ps_workers s) = n \<and>
     (case ps_acc s of Stopping k \<Rightarrow> k \<le> n | Pushing fd \<Rightarrow> 0 \<le> fd | _ \<Rightarrow> True) \<and>
     (\<exists>fds m. jq_contents (ps_q s) = fds @ replicate m (-1) \<and> (\<forall>fd \<in> set fds. 0 \<le> fd) \<and>
        ps_accepted s = ps_taken s @ fds @ in_hand (ps_acc s) \<and>
        m + ps_left s = sentinels_sent n (ps_acc s) \<and> (0 < ps_left s \<longrightarrow> fds = [])) \<and>
     mset (ps_taken s) = mset (ps_closed s) + being_served (ps_workers s) \<and>
     live (ps_workers s) + ps_left s = ps_started s \<and> ps_started s + starting (ps_workers s) \<le> n"

lemma worker_split:
  assumes "i < length ws" "ws ! i = w"
  obtains a b where "ws = a @ w # b" "\<forall>x. ws[i := x] = a @ x # b"
  using assms id_take_nth_drop [OF assms(1)] list_update_split [OF assms(1)] that by metis

lemma being_served_simps [simp]:
  "being_served (a @ b) = being_served a + being_served b" "being_served [] = {#}"
  "being_served (Serving fd # ws) = add_mset fd (being_served ws)"
  "being_served (Waiting # ws) = being_served ws" "being_served (Starting # ws) = being_served ws"
  "being_served (Exited # ws) = being_served ws"
  by (simp_all add: being_served_def map_filter_simps) (simp add: List.map_filter_def)

lemma live_simps [simp]:
  "live (a @ b) = live a + live b" "live [] = 0" "live (Serving fd # ws) = Suc (live ws)" "live (Waiting # ws) = Suc (live ws)"
  "live (Starting # ws) = live ws" "live (Exited # ws) = live ws"
  by (simp_all add: live_def)

lemma starting_simps [simp]:
  "starting (a @ b) = starting a + starting b" "starting [] = 0" "starting (Serving fd # ws) = starting ws"
  "starting (Waiting # ws) = starting ws" "starting (Starting # ws) = Suc (starting ws)" "starting (Exited # ws) = starting ws"
  by (simp_all add: starting_def)

lemma psrv_inv_init: "psrv_inv n (psrv_init n)"
proof -
  have "being_served (replicate n Starting) = {#}" "live (replicate n Starting) = 0" "starting (replicate n Starting) = n"
    by (induction n) simp_all
  then show ?thesis
    by (simp add: psrv_inv_def psrv_init_def net_job_q0_def jq_ok_def jq_contents_def in_hand_def sentinels_sent_def)
qed

lemma nonneg_head:
  assumes "x # xs = fds @ replicate m (-1 :: int)" "\<forall>fd \<in> set fds. 0 \<le> fd" "0 \<le> x"
  obtains fds' where "fds = x # fds'" "xs = fds' @ replicate m (-1)"
  using assms by (cases fds; cases m) (auto intro: that)

lemma neg_head:
  assumes "x # xs = fds @ replicate m (-1 :: int)" "\<forall>fd \<in> set fds. 0 \<le> fd" "x < 0"
  obtains m' where "fds = []" "m = Suc m'" "xs = replicate m' (-1)"
  using assms by (cases fds; cases m) (auto intro: that)

lemma psrv_inv_step:
  assumes "psrv_step s s'" "psrv_inv n s"
  shows "psrv_inv n s'"
proof -
  obtain fds m where I: "jq_ok (ps_q s)" "length (ps_workers s) = n" "jq_contents (ps_q s) = fds @ replicate m (-1)"
      "\<forall>fd \<in> set fds. 0 \<le> fd" "ps_accepted s = ps_taken s @ fds @ in_hand (ps_acc s)"
      "m + ps_left s = sentinels_sent n (ps_acc s)" "0 < ps_left s \<longrightarrow> fds = []"
      "mset (ps_taken s) = mset (ps_closed s) + being_served (ps_workers s)"
      "live (ps_workers s) + ps_left s = ps_started s" "ps_started s + starting (ps_workers s) \<le> n"
    and A: "case ps_acc s of Stopping k \<Rightarrow> k \<le> n | Pushing fd \<Rightarrow> 0 \<le> fd | _ \<Rightarrow> True"
    using assms(2) by (auto simp: psrv_inv_def)
  from assms(1) show ?thesis
  proof cases
    case (push fd q)
    have "jq_ok q" "jq_contents q = fds @ replicate m (-1) @ [fd]" using jobs.pushD [OF push(3) I(1)] I(3) by simp_all
    moreover have "m = 0" "ps_left s = 0" using I(6) push(2) by (simp_all add: sentinels_sent_def)
    ultimately show ?thesis using push I A
      by (auto simp: psrv_inv_def in_hand_def sentinels_sent_def intro!: exI [of _ "fds @ [fd]"] exI [of _ 0])
  next
    case (sentinel k q)
    have "jq_ok q" "jq_contents q = fds @ replicate (Suc m) (-1)"
      using jobs.pushD [OF sentinel(3) I(1)] I(3) by (simp_all add: replicate_append_same)
    then show ?thesis using sentinel I A
      by (auto simp: psrv_inv_def in_hand_def sentinels_sent_def intro!: exI [of _ fds] exI [of _ "Suc m"])
  next
    case (take i fd q)
    have q: "jq_ok q" "fd # jq_contents q = fds @ replicate m (-1)" using jobs.popD [OF take(4) I(1)] I(3) by simp_all
    obtain fds' where f: "fds = fd # fds'" "jq_contents q = fds' @ replicate m (-1)" using nonneg_head [OF q(2) I(4) take(5)] .
    obtain a b where w: "ps_workers s = a @ Waiting # b" "\<forall>x. (ps_workers s)[i := x] = a @ x # b"
      using worker_split [OF take(2,3)] .
    show ?thesis unfolding psrv_inv_def take(1)
      using I A q(1) f w by (auto intro!: exI [of _ fds'] exI [of _ m])
  next
    case (leave i fd q)
    have q: "jq_ok q" "fd # jq_contents q = fds @ replicate m (-1)" using jobs.popD [OF leave(4) I(1)] I(3) by simp_all
    obtain m' where f: "fds = []" "m = Suc m'" "jq_contents q = replicate m' (-1)" using neg_head [OF q(2) I(4) leave(5)] .
    obtain a b where w: "ps_workers s = a @ Waiting # b" "\<forall>x. (ps_workers s)[i := x] = a @ x # b"
      using worker_split [OF leave(2,3)] .
    show ?thesis unfolding psrv_inv_def leave(1)
      using I A q(1) f w by (auto intro!: exI [of _ "[]"] exI [of _ m'])
  next
    case (start i)
    obtain a b where w: "ps_workers s = a @ Starting # b" "\<forall>x. (ps_workers s)[i := x] = a @ x # b"
      using worker_split [OF start(2,3)] .
    show ?thesis unfolding psrv_inv_def start(1) using I A w by (auto intro!: exI [of _ fds] exI [of _ m])
  next
    case (no_buffer i)
    obtain a b where w: "ps_workers s = a @ Starting # b" "\<forall>x. (ps_workers s)[i := x] = a @ x # b"
      using worker_split [OF no_buffer(2,3)] .
    show ?thesis unfolding psrv_inv_def no_buffer(1) using I A w by (auto intro!: exI [of _ fds] exI [of _ m])
  next
    case (serve i fd)
    obtain a b where w: "ps_workers s = a @ Serving fd # b" "\<forall>x. (ps_workers s)[i := x] = a @ x # b"
      using worker_split [OF serve(2,3)] .
    show ?thesis unfolding psrv_inv_def serve(1) using I A w by (auto intro!: exI [of _ fds] exI [of _ m])
  qed (use I A in \<open>auto simp: psrv_inv_def in_hand_def sentinels_sent_def intro!: exI [of _ fds] exI [of _ m]\<close>)
qed

lemma psrv_reach_inv: "psrv_reach n s \<Longrightarrow> psrv_inv n s"
  by (induction rule: psrv_reach.induct) (auto intro: psrv_inv_init psrv_inv_step)

section \<open>The queue is first in, first out\<close>

datatype q_op = Push int | Pop

text \<open>A run of operations on the ring, and on a list of at most 1024; an operation that would wait
  answers \<open>None\<close> and changes nothing.\<close>

fun run_ring :: "net_job_q \<Rightarrow> q_op list \<Rightarrow> int option list" where
  "run_ring q [] = []"
| "run_ring q (Push x # ops) = (case net_job_push q x of
     None \<Rightarrow> None # run_ring q ops | Some q' \<Rightarrow> Some x # run_ring q' ops)"
| "run_ring q (Pop # ops) = (case net_job_pop q of
     None \<Rightarrow> None # run_ring q ops | Some (x, q') \<Rightarrow> Some x # run_ring q' ops)"

fun run_list :: "int list \<Rightarrow> q_op list \<Rightarrow> int option list" where
  "run_list xs [] = []"
| "run_list xs (Push x # ops) =
     (if length xs < NET_PSRV_QCAP then Some x # run_list (xs @ [x]) ops else None # run_list xs ops)"
| "run_list xs (Pop # ops) = (case xs of [] \<Rightarrow> None # run_list xs ops | x # ys \<Rightarrow> Some x # run_list ys ops)"

lemma run_ring_list: "jq_ok q \<Longrightarrow> run_ring q ops = run_list (jq_contents q) ops"
proof (induction ops arbitrary: q)
  case (Cons op ops)
  show ?case
  proof (cases op)
    case (Push x)
    show ?thesis
    proof (cases "net_job_push q x")
      case None
      then have "\<not> length (jq_contents q) < NET_PSRV_QCAP" using jobs.push_iff [OF Cons.prems, of x] by simp
      then show ?thesis using Cons None Push by simp
    next
      case (Some q')
      then have "length (jq_contents q) < NET_PSRV_QCAP" using jobs.push_iff [OF Cons.prems, of x] by auto
      then show ?thesis using Cons Some Push jobs.pushD [OF Some Cons.prems] by simp
    qed
  next
    case Pop
    show ?thesis
    proof (cases "net_job_pop q")
      case None
      then have "jq_contents q = []" using jobs.pop_iff [OF Cons.prems] by auto
      then show ?thesis using Cons None Pop by simp
    next
      case (Some r)
      obtain x q' where "r = (x, q')" by (cases r)
      then show ?thesis using Cons Some Pop jobs.popD [of q x q'] by simp
    qed
  qed
qed simp

text \<open>The ring buffer of the server is a first in, first out queue of 1024 descriptors:
  any sequence of pushes and pops on it, from the empty queue, gives the results of the same
  sequence on a list, also when the indices wrap around.\<close>

theorem job_queue_fifo:
  "run_ring net_job_q0 ops = run_list [] ops"
proof -
  have "jq_ok net_job_q0" "jq_contents net_job_q0 = []" by (simp_all add: jq_ok_def jq_contents_def net_job_q0_def)
  then show ?thesis using run_ring_list [of net_job_q0] by simp
qed

section \<open>Every connection is served\<close>

lemma done_all_exited: "psrv_reach n s \<Longrightarrow> ps_acc s = Done \<Longrightarrow> \<forall>w \<in> set (ps_workers s). w = Exited"
proof (induction rule: psrv_reach.induct)
  case (step s s')
  from step.hyps(2) show ?case
    by cases (use step in \<open>auto dest!: nth_mem\<close>)
qed (simp add: psrv_init_def)

lemma all_exited: "\<forall>w \<in> set ws. w = Exited \<Longrightarrow> being_served ws = {#} \<and> live ws = 0"
  by (induction ws) auto

text \<open>Property C11. Every connection is served once. At any time the connections taken by workers are
  the first ones accepted, in order; and once the server has returned, if at least one worker had
  got its buffer, every accepted connection was taken and closed, each exactly once, none was left
  in the queue, and no sentinel was taken for a connection.\<close>

theorem server_serves_all:
  assumes "psrv_reach n s"
  shows "(\<exists>rest. ps_accepted s = ps_taken s @ rest) \<and> mset (ps_closed s) \<subseteq># mset (ps_taken s) \<and>
    (ps_acc s = Done \<and> 0 < ps_started s \<longrightarrow>
       ps_taken s = ps_accepted s \<and> mset (ps_closed s) = mset (ps_accepted s))"
proof -
  have I: "psrv_inv n s" by (rule psrv_reach_inv [OF assms])
  have "ps_taken s = ps_accepted s \<and> mset (ps_closed s) = mset (ps_accepted s)"
    if "ps_acc s = Done" "0 < ps_started s"
    using I all_exited [OF done_all_exited [OF assms that(1)]] that
    by (auto simp: psrv_inv_def in_hand_def)
  then show ?thesis using I by (auto simp: psrv_inv_def)
qed

section \<open>The server does not get stuck\<close>

lemma worker_can_move:
  assumes "psrv_inv n s" "0 < live (ps_workers s)" "jq_contents (ps_q s) \<noteq> []"
  shows "\<exists>s'. psrv_step s s'"
proof -
  have "\<exists>w \<in> set (ps_workers s). w = Waiting \<or> (\<exists>fd. w = Serving fd)"
    using assms(2) by (auto simp: live_def dest: length_pos_if_in_set intro: ccontr)
  then obtain i where i: "i < length (ps_workers s)" "ps_workers s ! i = Waiting \<or> (\<exists>fd. ps_workers s ! i = Serving fd)"
    by (auto simp: in_set_conv_nth)
  obtain x q where q: "net_job_pop (ps_q s) = Some (x, q)"
    using jobs.pop_iff [of "ps_q s"] assms(1,3) by (auto simp: psrv_inv_def)
  show ?thesis using i psrv_step.serve [OF i(1)] psrv_step.take [OF i(1) _ q] psrv_step.leave [OF i(1) _ q]
    by (cases "0 \<le> x") auto
qed

lemma starting_can_move: "Starting \<in> set (ps_workers s) \<Longrightarrow> \<exists>s'. psrv_step s s'"
  by (auto simp: in_set_conv_nth dest: psrv_step.start)

lemma psrv_progress:
  assumes "psrv_inv n s" "n \<le> NET_PSRV_QCAP" "ps_acc s \<noteq> Done" "0 < ps_started s \<or> Starting \<in> set (ps_workers s)"
  shows "\<exists>s'. psrv_step s s'"
proof (cases "Starting \<in> set (ps_workers s)")
  case True
  then show ?thesis by (rule starting_can_move)
next
  case False
  obtain fds m where I: "jq_ok (ps_q s)" "jq_contents (ps_q s) = fds @ replicate m (-1)"
      "m + ps_left s = sentinels_sent n (ps_acc s)" "0 < ps_left s \<longrightarrow> fds = []"
      "live (ps_workers s) + ps_left s = ps_started s" "ps_started s + starting (ps_workers s) \<le> n"
    using assms(1) by (auto simp: psrv_inv_def)
  have started: "0 < ps_started s" using assms(4) False by simp
  show ?thesis
  proof (cases "ps_acc s")
    case Accepting
    then show ?thesis by (blast intro: psrv_step.stop)
  next
    case (Pushing fd)
    show ?thesis
    proof (cases "net_job_push (ps_q s) fd")
      case None
      then have "jq_contents (ps_q s) \<noteq> []" using jobs.push_iff [OF I(1), of fd] by auto
      moreover have "0 < live (ps_workers s)" using I(3,5) Pushing started by (simp add: sentinels_sent_def)
      ultimately show ?thesis using worker_can_move [OF assms(1)] by blast
    next
      case (Some q)
      then show ?thesis using psrv_step.push [OF Pushing] by blast
    qed
  next
    case (Stopping k)
    show ?thesis
    proof (cases k)
      case (Suc j)
      show ?thesis
      proof (cases "net_job_push (ps_q s) (-1)")
        case None
        then have full: "\<not> length (jq_contents (ps_q s)) < NET_PSRV_QCAP" using jobs.push_iff [OF I(1), of "-1"] by auto
        have "0 < live (ps_workers s)"
        proof (rule ccontr)
          assume "\<not> 0 < live (ps_workers s)"
          then have "0 < ps_left s" using I(5) started by simp
          then show False using I(2-4) full Stopping Suc assms(2) by (simp add: sentinels_sent_def)
        qed
        moreover have "jq_contents (ps_q s) \<noteq> []" using full by auto
        ultimately show ?thesis using worker_can_move [OF assms(1)] by blast
      next
        case (Some q)
        then show ?thesis using psrv_step.sentinel [of s j q] Stopping Suc by blast
      qed
    next
      case 0
      show ?thesis
      proof (cases "0 < live (ps_workers s)")
        case True
        have "live (ps_workers s) + ps_left s \<le> n" using I(5,6) by simp
        then have "0 < m" using I(3) Stopping 0 True by (simp add: sentinels_sent_def)
        then have "jq_contents (ps_q s) \<noteq> []" using I(2) by auto
        then show ?thesis using worker_can_move [OF assms(1) True] by blast
      next
        case F: False
        have "w = Exited" if "w \<in> set (ps_workers s)" for w
          using F False that by (cases w) (auto simp: live_def filter_empty_conv)
        then show ?thesis using psrv_step.joined [of s] Stopping 0 by blast
      qed
    qed
  qed (use assms(3) in simp)
qed

section \<open>The server ends\<close>

definition serving :: "worker list \<Rightarrow> nat" where
  "serving ws = length (List.filter (\<lambda>w. \<exists>fd. w = Serving fd) ws)"

lemma serving_simps [simp]:
  "serving (a @ b) = serving a + serving b" "serving [] = 0" "serving (Serving fd # ws) = Suc (serving ws)"
  "serving (Waiting # ws) = serving ws" "serving (Starting # ws) = serving ws" "serving (Exited # ws) = serving ws"
  by (simp_all add: serving_def)

text \<open>What is left to do: sentinels to push, entries to take, requests in hand, workers to start.\<close>

definition shutdown_measure :: "psrv \<Rightarrow> nat" where
  "shutdown_measure s = (case ps_acc s of Stopping k \<Rightarrow> 3 * k + 1 | _ \<Rightarrow> 0) + 2 * length (jq_contents (ps_q s)) +
     serving (ps_workers s) + starting (ps_workers s)"

definition stopping :: "psrv \<Rightarrow> bool" where
  "stopping s \<longleftrightarrow> (\<exists>k. ps_acc s = Stopping k)"

lemma shutdown_decreases:
  assumes "psrv_step s s'" "psrv_inv n s" "stopping s"
  shows "shutdown_measure s' < shutdown_measure s \<and> (stopping s' \<or> ps_acc s' = Done)"
proof -
  have ok: "jq_ok (ps_q s)" using assms(2) by (simp add: psrv_inv_def)
  from assms(1) show ?thesis
  proof cases
    case (sentinel k q)
    then show ?thesis using jobs.pushD [OF sentinel(3) ok] by (simp add: shutdown_measure_def stopping_def)
  next
    case (take i fd q)
    obtain a b where "ps_workers s = a @ Waiting # b" "\<forall>x. (ps_workers s)[i := x] = a @ x # b"
      using worker_split [OF take(2,3)] .
    then show ?thesis using take jobs.popD [OF take(4) ok] assms(3) by (auto simp: shutdown_measure_def stopping_def)
  next
    case (leave i fd q)
    obtain a b where "ps_workers s = a @ Waiting # b" "\<forall>x. (ps_workers s)[i := x] = a @ x # b"
      using worker_split [OF leave(2,3)] .
    then show ?thesis using leave jobs.popD [OF leave(4) ok] assms(3) by (auto simp: shutdown_measure_def stopping_def)
  next
    case (start i)
    obtain a b where "ps_workers s = a @ Starting # b" "\<forall>x. (ps_workers s)[i := x] = a @ x # b"
      using worker_split [OF start(2,3)] .
    then show ?thesis using start assms(3) by (auto simp: shutdown_measure_def stopping_def)
  next
    case (no_buffer i)
    obtain a b where "ps_workers s = a @ Starting # b" "\<forall>x. (ps_workers s)[i := x] = a @ x # b"
      using worker_split [OF no_buffer(2,3)] .
    then show ?thesis using no_buffer assms(3) by (auto simp: shutdown_measure_def stopping_def)
  next
    case (serve i fd)
    obtain a b where "ps_workers s = a @ Serving fd # b" "\<forall>x. (ps_workers s)[i := x] = a @ x # b"
      using worker_split [OF serve(2,3)] .
    then show ?thesis using serve assms(3) by (auto simp: shutdown_measure_def stopping_def)
  qed (use assms(3) in \<open>auto simp: shutdown_measure_def stopping_def\<close>)
qed

text \<open>Runs of steps, of a given length.\<close>

inductive psrv_run :: "nat \<Rightarrow> psrv \<Rightarrow> psrv \<Rightarrow> bool" where
  stay: "psrv_run 0 s s"
| move: "psrv_step s s' \<Longrightarrow> psrv_run k s' s'' \<Longrightarrow> psrv_run (Suc k) s s''"

lemma done_stays: "psrv_reach n s \<Longrightarrow> ps_acc s = Done \<Longrightarrow> \<not> psrv_step s s'"
proof
  assume r: "psrv_reach n s" "ps_acc s = Done" and st: "psrv_step s s'"
  have w: "ps_workers s ! i = Exited" if "i < length (ps_workers s)" for i
    using done_all_exited [OF r] nth_mem [OF that] by blast
  from st show False by cases (use r w in auto)
qed

lemma run_length:
  "psrv_run k s s' \<Longrightarrow> psrv_reach n s \<Longrightarrow> stopping s \<Longrightarrow> k \<le> shutdown_measure s \<and> psrv_reach n s' \<and> (stopping s' \<or> ps_acc s' = Done)"
proof (induction rule: psrv_run.induct)
  case (move s s' k s'')
  have d: "shutdown_measure s' < shutdown_measure s" "stopping s' \<or> ps_acc s' = Done"
    using shutdown_decreases [OF move.hyps(1) psrv_reach_inv [OF move.prems(1)] move.prems(2)] by blast+
  have r: "psrv_reach n s'" by (rule psrv_reach.step [OF move.prems(1) move.hyps(1)])
  show ?case
  proof (cases "stopping s'")
    case True
    then show ?thesis using move.IH [OF r] d by simp
  next
    case False
    then have "\<not> psrv_step s' x" for x using d(2) done_stays [OF r] by simp
    with move.hyps(2) have "k = 0 \<and> s'' = s'" by (cases rule: psrv_run.cases) auto
    then show ?thesis using d r by simp
  qed
qed auto

text \<open>Property C12. Shutdown ends. From the moment the acceptor stops, every run of the threads, in any
  order, has at most \<open>shutdown_measure\<close> steps, and with at most 1024 workers, one of which has got
  its buffer or is still starting, a run can only end where the server has returned: there are no
  deadlocks between the full queue, the sentinels and the joins.\<close>

theorem shutdown_terminates:
  assumes "psrv_reach n s" "stopping s" "psrv_run k s s'"
  shows "k \<le> shutdown_measure s \<and>
    (n \<le> NET_PSRV_QCAP \<and> (0 < ps_started s' \<or> Starting \<in> set (ps_workers s')) \<and> (\<nexists>s''. psrv_step s' s'') \<longrightarrow> ps_acc s' = Done)"
proof -
  have r: "k \<le> shutdown_measure s" "psrv_reach n s'" using run_length [OF assms(3,1,2)] by blast+
  then show ?thesis using psrv_progress [OF psrv_reach_inv [OF r(2)]] by blast
qed

text \<open>Property C37. The server makes progress: with at most 1024 workers, one of which has got its
  buffer or is still starting, no reachable state before the return is stuck, whatever the queue
  holds.\<close>

theorem server_progress:
  assumes "psrv_reach n s" "n \<le> NET_PSRV_QCAP" "ps_acc s \<noteq> Done" "0 < ps_started s \<or> Starting \<in> set (ps_workers s)"
  shows "\<exists>s'. psrv_step s s'"
  by (rule psrv_progress [OF psrv_reach_inv [OF assms(1)] assms(2-4)])

section \<open>Examples\<close>

text \<open>A server with one worker.\<close>

definition single :: "net_job_q \<Rightarrow> acceptor \<Rightarrow> worker \<Rightarrow> int list \<Rightarrow> int list \<Rightarrow> int list \<Rightarrow> nat \<Rightarrow> nat \<Rightarrow> psrv" where
  "single q a w acc taken cl st lf = \<lparr>ps_q = q, ps_acc = a, ps_workers = [w], ps_accepted = acc, ps_taken = taken,
     ps_closed = cl, ps_started = st, ps_left = lf\<rparr>"

lemma single_steps:
  "psrv_step (single q Accepting w acc t c st lf) (single q (Stopping 1) w acc t c st lf)"
  "0 \<le> fd \<Longrightarrow> psrv_step (single q Accepting w acc t c st lf) (single q (Pushing fd) w (acc @ [fd]) t c st lf)"
  "net_job_push q fd = Some q' \<Longrightarrow> psrv_step (single q (Pushing fd) w acc t c st lf) (single q' Accepting w acc t c st lf)"
  "net_job_push q (-1) = Some q' \<Longrightarrow> psrv_step (single q (Stopping 1) w acc t c st lf) (single q' (Stopping 0) w acc t c st lf)"
  "psrv_step (single q (Stopping 0) Exited acc t c st lf) (single q Done Exited acc t c st lf)"
  "psrv_step (single q a Starting acc t c st lf) (single q a Waiting acc t c (Suc st) lf)"
  "psrv_step (single q a Starting acc t c st lf) (single q a Exited acc t c st lf)"
  "net_job_pop q = Some (fd, q') \<Longrightarrow> 0 \<le> fd \<Longrightarrow>
     psrv_step (single q a Waiting acc t c st lf) (single q' a (Serving fd) acc (t @ [fd]) c st lf)"
  "net_job_pop q = Some (fd, q') \<Longrightarrow> fd < 0 \<Longrightarrow>
     psrv_step (single q a Waiting acc t c st lf) (single q' a Exited acc t c st (Suc lf))"
  "psrv_step (single q a (Serving fd) acc t c st lf) (single q a Waiting acc t (c @ [fd]) st lf)"
  using psrv_step.stop [of "single q Accepting w acc t c st lf"] psrv_step.accept [of "single q Accepting w acc t c st lf" fd]
    psrv_step.push [of "single q (Pushing fd) w acc t c st lf" fd q']
    psrv_step.sentinel [of "single q (Stopping 1) w acc t c st lf" 0 q'] psrv_step.joined [of "single q (Stopping 0) Exited acc t c st lf"]
    psrv_step.start [of 0 "single q a Starting acc t c st lf"] psrv_step.no_buffer [of 0 "single q a Starting acc t c st lf"]
    psrv_step.take [of 0 "single q a Waiting acc t c st lf" fd q'] psrv_step.leave [of 0 "single q a Waiting acc t c st lf" fd q']
    psrv_step.serve [of 0 "single q a (Serving fd) acc t c st lf" fd]
  by (simp_all add: single_def)

lemma single_init: "psrv_reach 1 (single net_job_q0 Accepting Starting [] [] [] 0 0)"
  using psrv_reach.init [of 1] by (simp add: psrv_init_def single_def)

lemma empty_queue: "jq_ok net_job_q0 \<and> jq_contents net_job_q0 = []"
  by (simp add: jq_ok_def jq_contents_def net_job_q0_def)

lemma single_run:
  obtains q1 q2 q3 q4 where
    "psrv_reach 1 (single q1 (Stopping 1) (Serving 5) [5] [5] [] 1 0)" "jq_contents q1 = []"
    "psrv_reach 1 (single q2 Done Exited [5] [5] [5] 1 1)"
proof -
  obtain q where q: "net_job_push net_job_q0 5 = Some q" "jq_ok q" "jq_contents q = [5]"
    using jobs.push_room [of net_job_q0 5] empty_queue by auto
  obtain q1 where q1: "net_job_pop q = Some (5, q1)" "jq_ok q1" "jq_contents q1 = []"
    using jobs.pop_head [of q 5 "[]"] q by auto
  obtain q2 where q2: "net_job_push q1 (-1) = Some q2" "jq_ok q2" "jq_contents q2 = [-1]"
    using jobs.push_room [of q1 "-1"] q1 by auto
  obtain q3 where q3: "net_job_pop q2 = Some (-1, q3)" using jobs.pop_head [of q2 "-1" "[]"] q2 by auto
  note st = psrv_reach.step
  have "psrv_reach 1 (single net_job_q0 Accepting Waiting [] [] [] 1 0)"
    using st [OF single_init single_steps(6)] by simp
  from st [OF this single_steps(2) [of 5]] have "psrv_reach 1 (single net_job_q0 (Pushing 5) Waiting [5] [] [] 1 0)" by simp
  from st [OF this single_steps(3) [OF q(1)]] have "psrv_reach 1 (single q Accepting Waiting [5] [] [] 1 0)" .
  from st [OF this single_steps(8) [OF q1(1)]] have "psrv_reach 1 (single q1 Accepting (Serving 5) [5] [5] [] 1 0)" by simp
  from st [OF this single_steps(1)] have mid: "psrv_reach 1 (single q1 (Stopping 1) (Serving 5) [5] [5] [] 1 0)" .
  from st [OF this single_steps(10)] have "psrv_reach 1 (single q1 (Stopping 1) Waiting [5] [5] [5] 1 0)" by simp
  from st [OF this single_steps(4) [OF q2(1)]] have "psrv_reach 1 (single q2 (Stopping 0) Waiting [5] [5] [5] 1 0)" .
  from st [OF this single_steps(9) [OF q3]] have "psrv_reach 1 (single q3 (Stopping 0) Exited [5] [5] [5] 1 1)" by simp
  from st [OF this single_steps(5)] have "psrv_reach 1 (single q3 Done Exited [5] [5] [5] 1 1)" .
  then show ?thesis using mid q1(3) that by blast
qed

theorem server_serves_all_witness:
  "\<exists>s. psrv_reach 1 s \<and> ps_acc s = Done \<and> ps_accepted s = [5] \<and> mset (ps_closed s) = mset [5]"
proof -
  obtain q where r: "psrv_reach 1 (single q Done Exited [5] [5] [5] 1 1)" by (rule single_run)
  then show ?thesis using server_serves_all [OF r] by (intro exI [of _ "single q Done Exited [5] [5] [5] 1 1"]) (simp add: single_def)
qed

theorem shutdown_terminates_witness:
  "\<exists>s. psrv_reach 1 s \<and> stopping s \<and> (\<forall>k s'. psrv_run k s s' \<longrightarrow> k \<le> 5)"
proof -
  obtain q where r: "psrv_reach 1 (single q (Stopping 1) (Serving 5) [5] [5] [] 1 0)" "jq_contents q = []" by (rule single_run)
  have s: "stopping (single q (Stopping 1) (Serving 5) [5] [5] [] 1 0)" by (simp add: stopping_def single_def)
  have "shutdown_measure (single q (Stopping 1) (Serving 5) [5] [5] [] 1 0) = 5"
    using r(2) by (simp add: shutdown_measure_def single_def)
  then show ?thesis using shutdown_terminates [OF r(1) s] r(1) s by metis
qed

theorem server_progress_witness:
  "\<exists>q s'. psrv_reach 1 (single q (Stopping 1) (Serving 5) [5] [5] [] 1 0) \<and>
     psrv_step (single q (Stopping 1) (Serving 5) [5] [5] [] 1 0) s'"
proof -
  obtain q where r: "psrv_reach 1 (single q (Stopping 1) (Serving 5) [5] [5] [] 1 0)" by (rule single_run)
  show ?thesis using server_progress [OF r] r by (auto simp: single_def)
qed

text \<open>Without a worker the connections stay in the queue, and the server still returns: the
  only worker did not get its buffer.\<close>

lemma no_worker_loses:
  "\<exists>q. psrv_reach 1 (single q Done Exited [5] [] [] 0 0) \<and> 5 \<in> set (jq_contents q)"
proof -
  obtain q where q: "net_job_push net_job_q0 5 = Some q" "jq_ok q" "jq_contents q = [5]"
    using jobs.push_room [of net_job_q0 5] empty_queue by auto
  obtain q' where q': "net_job_push q (-1) = Some q'" "jq_contents q' = [5, -1]" using jobs.push_room [of q "-1"] q by auto
  note st = psrv_reach.step
  from st [OF single_init single_steps(7)] have "psrv_reach 1 (single net_job_q0 Accepting Exited [] [] [] 0 0)" .
  from st [OF this single_steps(2) [of 5]] have "psrv_reach 1 (single net_job_q0 (Pushing 5) Exited [5] [] [] 0 0)" by simp
  from st [OF this single_steps(3) [OF q(1)]] have "psrv_reach 1 (single q Accepting Exited [5] [] [] 0 0)" .
  from st [OF this single_steps(1)] have "psrv_reach 1 (single q (Stopping 1) Exited [5] [] [] 0 0)" .
  from st [OF this single_steps(4) [OF q'(1)]] have "psrv_reach 1 (single q' (Stopping 0) Exited [5] [] [] 0 0)" .
  from st [OF this single_steps(5)] have "psrv_reach 1 (single q' Done Exited [5] [] [] 0 0)" .
  then show ?thesis using q'(2) by auto
qed

end
