(* ===== verification/CallControl.thy ===== *)
theory CallControl
  imports Rating
begin

text \<open>
  The call control module: \<open>CallControl/cc.h\<close>, \<open>cc.c\<close> and the table of calls of \<open>cc_server.c\<close>.
  A request and the server share structs by pointer, and who frees what, and when, is the point
  of this code, so the structs live in an explicit heap: an address is a number, never used
  twice, and reading, writing or freeing one that is not allocated is undefined, the value
  \<open>None\<close>. Allocation does not fail. The rated account \<open>rtp\<close> and its call \<open>pre\<close> are only reached
  from the table, so they are a value in it. The functions of the modules Rating and CDRMediator
  are called through the tables \<open>rt_api\<close> and \<open>cc_cdrm_api\<close>, as in the C code.
\<close>

section \<open>Types\<close>

abbreviation (input) CC_MAXSEC_NO_PRE :: int where "CC_MAXSEC_NO_PRE \<equiv> -9"
abbreviation (input) CC_MAXSEC_NO_CCTBL :: int where "CC_MAXSEC_NO_CCTBL \<equiv> -10"
abbreviation (input) CC_STATUS_ACTIVE :: u16 where "CC_STATUS_ACTIVE \<equiv> 1"
abbreviation (input) CC_STATUS_DEACTIVE :: u16 where "CC_STATUS_DEACTIVE \<equiv> 0"
abbreviation (input) CC_CLG_LEN :: nat where "CC_CLG_LEN \<equiv> 32"
abbreviation (input) CC_CLD_LEN :: nat where "CC_CLD_LEN \<equiv> 32"
abbreviation (input) CC_CALL_UID :: nat where "CC_CALL_UID \<equiv> 128"
abbreviation (input) CALL_MAXSEC_LIMIT_WAIT :: u32 where "CALL_MAXSEC_LIMIT_WAIT \<equiv> 90"

datatype cc_events =
  unkn_event | status_event | maxsec_event | balance_event | rate_event | cprice_event | term_event

datatype cc_term_status = unkn_status | normal_clear | busy | cancel | cc_error

record cc_maxsec =
  mx_clg :: string
  mx_cld :: string
  mx_call_uid :: string
  mx_ts :: int
  mx_maxsec :: int

record cc_balance =
  cb_clg :: string
  cb_amount :: rat

record cc_rate =
  cr_clg :: string
  cr_cld :: string
  cr_rate_price :: rat

record cc_cprice =
  cp_clg :: string
  cp_cld :: string
  cp_billsec :: u32
  cp_cprice :: rat

record cc_term =
  ct_status :: cc_term_status
  ct_call_uid :: string
  ct_billsec :: u32
  ct_duration :: u32
  ct_tbl_idx :: int

type_synonym addr = nat

record cc =
  cc_cdr_server_id :: u16
  cc_t :: cc_events
  cc_max :: "addr option"
  cc_bal :: "addr option"
  cc_rate :: "addr option"
  cc_cprice :: "addr option"
  cc_term :: "addr option"
  cc_status :: u16

datatype cc_obj =
  O_cc cc | O_max cc_maxsec | O_bal cc_balance | O_rate cc_rate | O_cprice cc_cprice | O_term cc_term

type_synonym cc_heap = "addr \<Rightarrow> cc_obj option"

record cc_server_tbl =
  tb_cc_ptr :: "addr option"
  tb_rtp :: "racc option"

record 'w ccs =
  cs_heap :: cc_heap
  cs_next :: addr
  cs_tbl :: "cc_server_tbl list"
  cs_sim :: u16
  cs_world :: 'w

text \<open>What the module calls in others: \<open>rt_api\<close>, \<open>cc_cdrm_api\<close> and \<open>localtime\<close>. A database handle is a
  number, \<open>ccserver_dbp\<close> the one of the table's own thread.\<close>

record 'w cc_api =
  rt_api_maxsec :: "nat \<Rightarrow> rating \<Rightarrow> int \<Rightarrow> 'w \<Rightarrow> (racc option \<times> rating \<times> 'w) option"
  rt_api_exec :: "nat \<Rightarrow> racc \<Rightarrow> char \<Rightarrow> 'w \<Rightarrow> (racc \<times> 'w) option"
  cdrm_add_cdr :: "nat \<Rightarrow> cdr \<Rightarrow> 'w \<Rightarrow> (int \<times> cdr \<times> 'w) option"
  cdrm_get_cdr_id :: "nat \<Rightarrow> cdr \<Rightarrow> 'w \<Rightarrow> (int \<times> 'w) option"
  cc_localtime :: "int \<Rightarrow> tm"

abbreviation (input) ccserver_dbp :: nat where "ccserver_dbp \<equiv> 0"

section \<open>The heap\<close>

definition get_cc :: "cc_heap \<Rightarrow> addr \<Rightarrow> cc option" where
  "get_cc h a = (case h a of Some (O_cc c) \<Rightarrow> Some c | _ \<Rightarrow> None)"

definition get_max :: "cc_heap \<Rightarrow> addr \<Rightarrow> cc_maxsec option" where
  "get_max h a = (case h a of Some (O_max m) \<Rightarrow> Some m | _ \<Rightarrow> None)"

definition get_bal :: "cc_heap \<Rightarrow> addr \<Rightarrow> cc_balance option" where
  "get_bal h a = (case h a of Some (O_bal m) \<Rightarrow> Some m | _ \<Rightarrow> None)"

definition get_rate :: "cc_heap \<Rightarrow> addr \<Rightarrow> cc_rate option" where
  "get_rate h a = (case h a of Some (O_rate m) \<Rightarrow> Some m | _ \<Rightarrow> None)"

definition get_term :: "cc_heap \<Rightarrow> addr \<Rightarrow> cc_term option" where
  "get_term h a = (case h a of Some (O_term m) \<Rightarrow> Some m | _ \<Rightarrow> None)"

definition put :: "addr \<Rightarrow> cc_obj \<Rightarrow> 'w ccs \<Rightarrow> 'w ccs" where
  "put a obj s = s\<lparr>cs_heap := (cs_heap s)(a := Some obj)\<rparr>"

definition cc_mem_alloc :: "cc_obj \<Rightarrow> 'w ccs \<Rightarrow> addr \<times> 'w ccs" where
  "cc_mem_alloc obj s = (cs_next s, (put (cs_next s) obj s)\<lparr>cs_next := Suc (cs_next s)\<rparr>)"

definition cc_mem_free :: "addr option \<Rightarrow> 'w ccs \<Rightarrow> 'w ccs option" where
  "cc_mem_free p s = (case p of
     None \<Rightarrow> Some s
   | Some a \<Rightarrow> if cs_heap s a = None then None else Some (s\<lparr>cs_heap := (cs_heap s)(a := None)\<rparr>))"

definition cc0 :: cc where
  "cc0 = \<lparr>cc_cdr_server_id = 0, cc_t = unkn_event, cc_max = None, cc_bal = None, cc_rate = None,
     cc_cprice = None, cc_term = None, cc_status = CC_STATUS_ACTIVE\<rparr>"

definition cc_alloc :: "'w ccs \<Rightarrow> addr \<times> 'w ccs" where
  "cc_alloc s = cc_mem_alloc (O_cc cc0) s"

text \<open>The log messages read the call id of what is freed.\<close>

definition cc_free :: "addr \<Rightarrow> 'w ccs \<Rightarrow> 'w ccs option" where
  "cc_free a s = do {
     c \<leftarrow> get_cc (cs_heap s) a;
     if cc_status c = CC_STATUS_DEACTIVE then do {
       _ \<leftarrow> (case cc_max c of None \<Rightarrow> Some () | Some m \<Rightarrow> map_option (\<lambda>_. ()) (get_max (cs_heap s) m));
       s1 \<leftarrow> cc_mem_free (cc_max c) s;
       s2 \<leftarrow> cc_mem_free (cc_bal c) s1;
       s3 \<leftarrow> cc_mem_free (cc_cprice c) s2;
       s4 \<leftarrow> cc_mem_free (cc_rate c) s3;
       _ \<leftarrow> (case cc_term c of None \<Rightarrow> Some () | Some t \<Rightarrow> map_option (\<lambda>_. ()) (get_term (cs_heap s4) t));
       s5 \<leftarrow> cc_mem_free (cc_term c) s4;
       cc_mem_free (Some a) s5
     } else Some s
   }"

definition set_cc :: "addr \<Rightarrow> (cc \<Rightarrow> cc) \<Rightarrow> 'w ccs \<Rightarrow> 'w ccs option" where
  "set_cc a f s = do { c \<leftarrow> get_cc (cs_heap s) a; Some (put a (O_cc (f c)) s) }"

definition set_status :: "addr \<Rightarrow> u16 \<Rightarrow> 'w ccs \<Rightarrow> 'w ccs option" where
  "set_status a v = set_cc a (\<lambda>c. c\<lparr>cc_status := v\<rparr>)"

section \<open>The table of calls\<close>

definition cc_server_tbl_init :: "nat \<Rightarrow> cc_server_tbl list option" where
  "cc_server_tbl_init sim = (if sim = 0 then None else Some (replicate sim \<lparr>tb_cc_ptr = None, tb_rtp = None\<rparr>))"

fun first_free :: "nat \<Rightarrow> cc_server_tbl list \<Rightarrow> nat option" where
  "first_free i [] = None"
| "first_free i (e # es) = (if tb_cc_ptr e = None \<and> tb_rtp e = None then Some i else first_free (Suc i) es)"

definition cc_server_call_init :: "addr \<Rightarrow> racc \<Rightarrow> 'w ccs \<Rightarrow> int \<times> 'w ccs" where
  "cc_server_call_init a rtp s = (case first_free 0 (cs_tbl s) of
     None \<Rightarrow> (RE_ERROR, s)
   | Some i \<Rightarrow> (RE_SUCCESS, s\<lparr>cs_tbl := (cs_tbl s)[i := \<lparr>tb_cc_ptr = Some a, tb_rtp = Some rtp\<rparr>]\<rparr>))"

text \<open>The index of the first call with the id, or \<open>-1\<close>.\<close>

fun search_uid :: "cc_heap \<Rightarrow> addr option \<Rightarrow> nat \<Rightarrow> cc_server_tbl list \<Rightarrow> int option" where
  "search_uid h term i [] = Some RE_ERROR_N"
| "search_uid h term i (e # es) = (case tb_cc_ptr e of
     None \<Rightarrow> search_uid h term (Suc i) es
   | Some b \<Rightarrow> do {
       c \<leftarrow> get_cc h b;
       (case cc_max c of
          None \<Rightarrow> search_uid h term (Suc i) es
        | Some m \<Rightarrow> do {
            mx \<leftarrow> get_max h m;
            t \<leftarrow> term;
            tr \<leftarrow> get_term h t;
            if strcmp (mx_call_uid mx) (ct_call_uid tr) = 0 then Some (int i)
            else search_uid h term (Suc i) es
          })
     })"

definition cc_server_call_search_call_uid :: "addr \<Rightarrow> 'w ccs \<Rightarrow> (int \<times> 'w ccs) option" where
  "cc_server_call_search_call_uid a s = do {
     c \<leftarrow> get_cc (cs_heap s) a;
     ret \<leftarrow> search_uid (cs_heap s) (cc_term c) 0 (cs_tbl s);
     if 0 \<le> ret then do {
       b \<leftarrow> tb_cc_ptr (cs_tbl s ! nat ret);
       s1 \<leftarrow> set_cc b (\<lambda>d. d\<lparr>cc_term := cc_term c\<rparr>) s;
       Some (ret, s1)
     } else Some (ret, s)
   }"

fun count_clg :: "cc_heap \<Rightarrow> string \<Rightarrow> cc_server_tbl list \<Rightarrow> int option" where
  "count_clg h racc [] = Some 0"
| "count_clg h racc (e # es) = (case tb_cc_ptr e of
     None \<Rightarrow> count_clg h racc es
   | Some b \<Rightarrow> do {
       c \<leftarrow> get_cc h b;
       (case cc_max c of
          None \<Rightarrow> count_clg h racc es
        | Some m \<Rightarrow> do {
            mx \<leftarrow> get_max h m;
            n \<leftarrow> count_clg h racc es;
            Some (if strcmp (mx_clg mx) racc = 0 then n + 1 else n)
          })
     })"

definition cc_server_call_search_racc :: "string \<Rightarrow> 'w ccs \<Rightarrow> int option" where
  "cc_server_call_search_racc racc s = count_clg (cs_heap s) racc (cs_tbl s)"

definition cc_server_call_term :: "nat \<Rightarrow> addr \<Rightarrow> 'w ccs \<Rightarrow> 'w ccs option" where
  "cc_server_call_term i a s = (case tb_cc_ptr (cs_tbl s ! i) of
     None \<Rightarrow> Some s
   | Some b \<Rightarrow> do {
       c \<leftarrow> get_cc (cs_heap s) a;
       if cc_term c \<noteq> None then set_cc b (\<lambda>d. d\<lparr>cc_term := cc_term c\<rparr>) s else Some s
     })"

definition set_entry :: "nat \<Rightarrow> cc_server_tbl \<Rightarrow> 'w ccs \<Rightarrow> 'w ccs" where
  "set_entry i e s = s\<lparr>cs_tbl := (cs_tbl s)[i := e]\<rparr>"

definition cc_server_call_clear :: "nat \<Rightarrow> 'w ccs \<Rightarrow> 'w ccs option" where
  "cc_server_call_clear i s = do {
     let p = tb_cc_ptr (cs_tbl s ! i);
     s1 \<leftarrow> (case p of
        None \<Rightarrow> Some s
      | Some a \<Rightarrow> do { s0 \<leftarrow> set_status a CC_STATUS_DEACTIVE s; cc_free a s0 });
     Some (set_entry i \<lparr>tb_cc_ptr = None, tb_rtp = None\<rparr> s1)
   }"

section \<open>The events\<close>

definition cc_maxsec_pre :: "cc \<Rightarrow> cc_maxsec \<Rightarrow> rating" where
  "cc_maxsec_pre c mx = rating0\<lparr>pre_cdr_server_id := uint (cc_cdr_server_id c), pre_clg := mx_clg mx,
     pre_cld := mx_cld mx, pre_call_uid := mx_call_uid mx, pre_ts := mx_ts mx\<rparr>"

definition set_maxsec :: "addr \<Rightarrow> int \<Rightarrow> 'w ccs \<Rightarrow> 'w ccs option" where
  "set_maxsec a v s = do {
     c \<leftarrow> get_cc (cs_heap s) a;
     m \<leftarrow> cc_max c;
     mx \<leftarrow> get_max (cs_heap s) m;
     Some (put m (O_max (mx\<lparr>mx_maxsec := v\<rparr>)) s)
   }"

text \<open>\<open>cc_maxsec_f\<close> in its three parts: the count of the calls that are up, the limit, and the entry
  in the table. The first and the last hold the lock.\<close>

definition cc_maxsec_count :: "addr \<Rightarrow> 'w ccs \<Rightarrow> (rating \<times> int) option option" where
  "cc_maxsec_count a s = do {
     c \<leftarrow> get_cc (cs_heap s) a;
     m \<leftarrow> cc_max c;
     mx \<leftarrow> get_max (cs_heap s) m;
     if mx_clg mx = [] then Some None
     else do {
       let pre = cc_maxsec_pre c mx;
       sim \<leftarrow> cc_server_call_search_racc (pre_clg pre) s;
       Some (Some (pre, sim))
     }
   }"

definition cc_maxsec_limit :: "'w cc_api \<Rightarrow> nat \<Rightarrow> rating \<Rightarrow> int \<Rightarrow> 'w ccs \<Rightarrow> (racc option \<times> rating \<times> 'w ccs) option" where
  "cc_maxsec_limit api dbp pre sim s = do {
     (r, pre', w) \<leftarrow> rt_api_maxsec api dbp pre sim (cs_world s);
     Some (r, pre', s\<lparr>cs_world := w\<rparr>)
   }"

definition cc_maxsec_enter :: "addr \<Rightarrow> racc option \<Rightarrow> rating \<Rightarrow> 'w ccs \<Rightarrow> 'w ccs option" where
  "cc_maxsec_enter a r pre s = do {
     s1 \<leftarrow> set_maxsec a (pre_maxsec pre) s;
     (case r of
        None \<Rightarrow> Some s1
      | Some rtp \<Rightarrow>
          let (cc_f, s2) = cc_server_call_init a (rtp\<lparr>ra_pre := pre\<rparr>) s1 in
          if cc_f = RE_ERROR then set_maxsec a CC_MAXSEC_NO_CCTBL s2 else Some s2)
   }"

definition cc_maxsec_f :: "'w cc_api \<Rightarrow> nat \<Rightarrow> addr \<Rightarrow> 'w ccs \<Rightarrow> 'w ccs option" where
  "cc_maxsec_f api dbp a s = do {
     start \<leftarrow> cc_maxsec_count a s;
     (case start of
        None \<Rightarrow> set_maxsec a CC_MAXSEC_NO_PRE s
      | Some (pre, sim) \<Rightarrow> do {
          (r, pre', s1) \<leftarrow> cc_maxsec_limit api dbp pre sim s;
          cc_maxsec_enter a r pre' s1
        })
   }"

text \<open>The events balance, rate and cprice only end the request.\<close>

definition cc_balance_f :: "addr \<Rightarrow> 'w ccs \<Rightarrow> 'w ccs option" where
  "cc_balance_f a s = set_status a CC_STATUS_DEACTIVE s"

definition cc_rate_f :: "addr \<Rightarrow> 'w ccs \<Rightarrow> 'w ccs option" where
  "cc_rate_f a s = set_status a CC_STATUS_DEACTIVE s"

definition cc_cprice_f :: "addr \<Rightarrow> 'w ccs \<Rightarrow> 'w ccs option" where
  "cc_cprice_f a s = set_status a CC_STATUS_DEACTIVE s"

definition set_tbl_idx :: "addr \<Rightarrow> int \<Rightarrow> 'w ccs \<Rightarrow> 'w ccs option" where
  "set_tbl_idx a i s = do {
     c \<leftarrow> get_cc (cs_heap s) a;
     t \<leftarrow> cc_term c;
     tr \<leftarrow> get_term (cs_heap s) t;
     Some (put t (O_term (tr\<lparr>ct_tbl_idx := i\<rparr>)) s)
   }"

definition cc_term_f :: "addr \<Rightarrow> 'w ccs \<Rightarrow> 'w ccs option" where
  "cc_term_f a s = do {
     c \<leftarrow> get_cc (cs_heap s) a;
     if cc_term c = None then Some s
     else do {
       (i, s1) \<leftarrow> cc_server_call_search_call_uid a s;
       s2 \<leftarrow> (if 0 \<le> i then cc_server_call_term (nat i) a s1 else Some s1);
       set_tbl_idx a i s2
     }
   }"

definition cc_event_manager :: "'w cc_api \<Rightarrow> nat \<Rightarrow> addr \<Rightarrow> 'w ccs \<Rightarrow> 'w ccs option" where
  "cc_event_manager api dbp a s = do {
     c \<leftarrow> get_cc (cs_heap s) a;
     (case cc_t c of
        maxsec_event \<Rightarrow> cc_maxsec_f api dbp a s
      | balance_event \<Rightarrow> cc_balance_f a s
      | rate_event \<Rightarrow> cc_rate_f a s
      | cprice_event \<Rightarrow> cc_cprice_f a s
      | term_event \<Rightarrow> cc_term_f a s
      | unkn_event \<Rightarrow> Some s
      | status_event \<Rightarrow> Some s)
   }"

section \<open>The thread of the table\<close>

definition cc_term_cdr :: "racc \<Rightarrow> cc_maxsec \<Rightarrow> cc_term \<Rightarrow> cdr" where
  "cc_term_cdr rtp mx tr = cdr0\<lparr>cdr_cdr_server_id := word_of_int (pre_cdr_server_id (ra_pre rtp)),
     cdr_cdr_rec_type_id := word_of_int voip_a, cdr_call_uid := ct_call_uid tr,
     cdr_start_ts := pre_timestamp (ra_pre rtp), cdr_start_epoch := word_of_int (pre_ts (ra_pre rtp)),
     cdr_calling_number := mx_clg mx, cdr_called_number := mx_cld mx,
     cdr_billsec := ct_billsec tr, cdr_duration := ct_duration tr\<rparr>"

text \<open>The record of the call is stored, and its id, or 0, is put in \<open>pre\<close>.\<close>

definition cc_server_add_cdr :: "'w cc_api \<Rightarrow> racc \<Rightarrow> cc_maxsec \<Rightarrow> cc_term \<Rightarrow> 'w \<Rightarrow> (racc \<times> 'w) option" where
  "cc_server_add_cdr api rtp mx tr w = do {
     (ret, c, w1) \<leftarrow> cdrm_add_cdr api ccserver_dbp (cc_term_cdr rtp mx tr) w;
     if ret = DB_OK then do {
       (id, w2) \<leftarrow> cdrm_get_cdr_id api ccserver_dbp c w1;
       Some (upd_pre (\<lambda>p. p\<lparr>pre_cdr_id := id\<rparr>) rtp, w2)
     } else Some (upd_pre (\<lambda>p. p\<lparr>pre_cdr_id := 0\<rparr>) rtp, w1)
   }"

definition cc_call_rating :: "'w cc_api \<Rightarrow> cc_term \<Rightarrow> racc \<Rightarrow> 'w \<Rightarrow> (racc \<times> 'w) option" where
  "cc_call_rating api tr rtp w =
     rt_api_exec api ccserver_dbp
       (upd_pre (\<lambda>p. p\<lparr>pre_rating_mode_id := rt_mode_clg, pre_billsec := sint (ct_billsec tr)\<rparr>) rtp) (CHR ''a'') w"

text \<open>What a call that ended normally leads to.\<close>

definition cc_finish_call :: "'w cc_api \<Rightarrow> racc \<Rightarrow> cc_maxsec option \<Rightarrow> cc_term \<Rightarrow> 'w \<Rightarrow> (racc \<times> 'w) option" where
  "cc_finish_call api rtp entry tr w = do {
     let rtp0 = upd_pre (\<lambda>p. p\<lparr>pre_timestamp := convert_epoch_to_ts (cc_localtime api) (pre_ts p)\<rparr>) rtp;
     (rtp1, w1) \<leftarrow>
       (if 0 < ct_billsec tr then do { mx \<leftarrow> entry; cc_server_add_cdr api rtp0 mx tr w } else Some (rtp0, w));
     if 0 < pre_cdr_id (ra_pre rtp1) then cc_call_rating api tr rtp1 w1 else Some (rtp1, w1)
   }"

text \<open>One entry of the table in a pass of \<open>cc_server_thread\<close>; \<open>now\<close> is \<open>time(NULL)\<close>, \<open>limit\<close> is
  \<open>call_maxsec_limit\<close>. The work on the call and the removal of the entry are two steps.\<close>

definition cc_server_work :: "'w cc_api \<Rightarrow> u32 \<Rightarrow> int \<Rightarrow> nat \<Rightarrow> 'w ccs \<Rightarrow> (bool \<times> 'w ccs) option" where
  "cc_server_work api limit now i s = (let e = cs_tbl s ! i in case tb_cc_ptr e of
     None \<Rightarrow> Some (False, s)
   | Some a \<Rightarrow> do {
       c \<leftarrow> get_cc (cs_heap s) a;
       (case cc_term c of
          Some t \<Rightarrow> do {
            tr \<leftarrow> get_term (cs_heap s) t;
            (case tb_rtp e of
               None \<Rightarrow> Some (True, s)
             | Some rtp \<Rightarrow>
                 if ct_status tr = normal_clear then do {
                   mx \<leftarrow> (case cc_max c of None \<Rightarrow> Some None | Some m \<Rightarrow> map_option Some (get_max (cs_heap s) m));
                   (rtp', w) \<leftarrow> cc_finish_call api rtp mx tr (cs_world s);
                   Some (True, (set_entry i (e\<lparr>tb_rtp := Some rtp'\<rparr>) s)\<lparr>cs_world := w\<rparr>)
                 } else Some (True, s))
          }
        | None \<Rightarrow> (case cc_max c of
            None \<Rightarrow> Some (False, s)
          | Some m \<Rightarrow> do {
              mx \<leftarrow> get_max (cs_heap s) m;
              Some (uint (limit + CALL_MAXSEC_LIMIT_WAIT) < now - mx_ts mx, s)
            }))
     })"

definition cc_server_entry :: "'w cc_api \<Rightarrow> u32 \<Rightarrow> int \<Rightarrow> nat \<Rightarrow> 'w ccs \<Rightarrow> 'w ccs option" where
  "cc_server_entry api limit now i s = do {
     (clear, s1) \<leftarrow> cc_server_work api limit now i s;
     if clear then do {
       s2 \<leftarrow> cc_server_call_clear i s1;
       Some (s2\<lparr>cs_sim := cs_sim s2 - 1 + 1\<rparr>)
     } else Some (if tb_cc_ptr (cs_tbl s1 ! i) = None then s1 else s1\<lparr>cs_sim := cs_sim s1 + 1\<rparr>)
   }"

fun cc_server_entries :: "'w cc_api \<Rightarrow> u32 \<Rightarrow> int \<Rightarrow> nat list \<Rightarrow> 'w ccs \<Rightarrow> 'w ccs option" where
  "cc_server_entries api limit now [] s = Some s"
| "cc_server_entries api limit now (i # is) s = do {
     s1 \<leftarrow> cc_server_entry api limit now i s;
     cc_server_entries api limit now is s1
   }"

definition cc_server_pass :: "'w cc_api \<Rightarrow> u32 \<Rightarrow> int \<Rightarrow> 'w ccs \<Rightarrow> 'w ccs option" where
  "cc_server_pass api limit now s = cc_server_entries api limit now [0..<length (cs_tbl s)] (s\<lparr>cs_sim := 0\<rparr>)"

section \<open>The modules behind the API\<close>

text \<open>A world for the model of the other modules: a connection for each handle, and the one cache.
  A handle without a connection is the null pointer \<open>cc_worker_init\<close> returns when it fails.\<close>

record 'e cc_world =
  cw_dbs :: "nat \<Rightarrow> 'e db option"
  cw_cache :: "rt_cache option"

definition with_st :: "nat \<Rightarrow> ('e st \<Rightarrow> ('a \<times> 'e st) option) \<Rightarrow> 'e cc_world \<Rightarrow> ('a \<times> 'e cc_world) option" where
  "with_st dbp f w = do {
     (a, s) \<leftarrow> f \<lparr>st_db = cw_dbs w dbp, st_cache = cw_cache w\<rparr>;
     Some (a, w\<lparr>cw_dbs := (cw_dbs w)(dbp := st_db s), cw_cache := st_cache s\<rparr>)
   }"

definition on_db :: "('e db option \<Rightarrow> ('a \<times> 'e db option) option) \<Rightarrow> 'e st \<Rightarrow> ('a \<times> 'e st) option" where
  "on_db f s = do { (a, p) \<leftarrow> f (st_db s); Some (a, s\<lparr>st_db := p\<rparr>) }"

definition rt_bind_api :: "rt_env \<Rightarrow> (string \<Rightarrow> int) \<Rightarrow> (cdr \<Rightarrow> string \<times> string) \<Rightarrow> 'e cc_world cc_api" where
  "rt_bind_api env ts_epoch json =
     \<lparr>rt_api_maxsec = (\<lambda>dbp pre sim w. do {
        ((r, pre'), w') \<leftarrow> with_st dbp (\<lambda>s. do { (r, pre', s') \<leftarrow> rt_maxsec env pre sim s; Some ((r, pre'), s') }) w;
        Some (r, pre', w')
      }),
      rt_api_exec = (\<lambda>dbp rtp leg. with_st dbp (rt_exec env rtp leg)),
      cdrm_add_cdr = (\<lambda>dbp c w. do {
        ((ret, c'), w') \<leftarrow> with_st dbp (on_db (\<lambda>p. do {
            (ret, c', p') \<leftarrow> cdr_add_in_db ts_epoch json c None p;
            Some ((ret, c'), p')
          })) w;
        Some (ret, c', w')
      }),
      cdrm_get_cdr_id = (\<lambda>dbp c. with_st dbp (on_db (cdr_get_cdr_id c))),
      cc_localtime = ev_localtime env\<rparr>"

end
