(* ===== verification/MyCC.thy ===== *)
theory MyCC
  imports CallControl Net
begin

text \<open>
  The text protocol of call control, \<open>my_cc/my_cc.c\<close>: the parser of a request, the reply, and the
  handler the server calls. The disabled server loop in the middle of the file is not modelled.
\<close>

section \<open>The parser\<close>

abbreviation (input) MY_CC_SEPARATOR :: char where "MY_CC_SEPARATOR \<equiv> CHR '',''"
abbreviation (input) MY_CC_COMM_LEN :: nat where "MY_CC_COMM_LEN \<equiv> 16"

record my_cc =
  my_cdr_server_id :: u16
  my_transaction_id :: u32
  my_command :: string
  my_timestamp :: int

text \<open>What the parser makes of a request: the request with its event and the struct of the event;
  nothing, with all memory freed; or nothing, with the memory, such as the struct of the event,
  not freed.\<close>

datatype my_parsed = Parsed my_cc cc_events "cc_obj option" | Unknown | Broken "cc_obj option"

definition with_tok :: "string \<Rightarrow> cc_obj option \<Rightarrow> (string \<Rightarrow> string \<Rightarrow> my_parsed option) \<Rightarrow> my_parsed option" where
  "with_tok s leak k = (case strtok MY_CC_SEPARATOR s of
     (None, _) \<Rightarrow> Some (Broken leak)
   | (Some t, r) \<Rightarrow> k t r)"

text \<open>\<open>strcpy\<close> of the token into an array of \<open>n\<close> bytes, and \<open>atoi\<close> of it.\<close>

definition with_str :: "nat \<Rightarrow> string \<Rightarrow> cc_obj option \<Rightarrow> (string \<Rightarrow> string \<Rightarrow> my_parsed option) \<Rightarrow> my_parsed option" where
  "with_str n s leak k = with_tok s leak (\<lambda>t r. if length t < n then k t r else None)"

definition with_int :: "string \<Rightarrow> cc_obj option \<Rightarrow> (int \<Rightarrow> string \<Rightarrow> my_parsed option) \<Rightarrow> my_parsed option" where
  "with_int s leak k = with_tok s leak (\<lambda>t r. do { v \<leftarrow> atoi t; k v r })"

definition max0 :: cc_maxsec where
  "max0 = \<lparr>mx_clg = [], mx_cld = [], mx_call_uid = [], mx_ts = 0, mx_maxsec = 0\<rparr>"

definition rate0 :: cc_rate where
  "rate0 = \<lparr>cr_clg = [], cr_cld = [], cr_rate_price = 0\<rparr>"

definition balance0 :: cc_balance where
  "balance0 = \<lparr>cb_clg = [], cb_amount = 0\<rparr>"

definition cprice0 :: cc_cprice where
  "cprice0 = \<lparr>cp_clg = [], cp_cld = [], cp_billsec = 0, cp_cprice = 0\<rparr>"

definition term0 :: cc_term where
  "term0 = \<lparr>ct_status = unkn_status, ct_call_uid = [], ct_billsec = 0, ct_duration = 0, ct_tbl_idx = 0\<rparr>"

definition my_term_status :: "string \<Rightarrow> cc_term_status" where
  "my_term_status t =
     (if strcmp t ''nc'' = 0 then normal_clear
      else if strcmp t ''c'' = 0 then cancel
      else if strcmp t ''b'' = 0 then busy
      else if strcmp t ''e'' = 0 then cc_error
      else unkn_status)"

text \<open>The fields of each command.\<close>

definition my_maxsec_fields :: "int \<Rightarrow> my_cc \<Rightarrow> string \<Rightarrow> my_parsed option" where
  "my_maxsec_fields now my r = (let leak = Some (O_max max0) in
     with_str CC_CLG_LEN r leak (\<lambda>clg r. with_str CC_CLD_LEN r leak (\<lambda>cld r.
       with_str CC_CALL_UID r leak (\<lambda>uid r.
         Some (Parsed my maxsec_event (Some (O_max (max0\<lparr>mx_clg := clg, mx_cld := cld, mx_call_uid := uid, mx_ts := now\<rparr>))))))))"

definition my_rate_fields :: "my_cc \<Rightarrow> string \<Rightarrow> my_parsed option" where
  "my_rate_fields my r = (let leak = Some (O_rate rate0) in
     with_str CC_CLG_LEN r leak (\<lambda>clg r. with_str CC_CLD_LEN r leak (\<lambda>cld r.
       Some (Parsed my rate_event (Some (O_rate (rate0\<lparr>cr_clg := clg, cr_cld := cld\<rparr>)))))))"

definition my_balance_fields :: "my_cc \<Rightarrow> string \<Rightarrow> my_parsed option" where
  "my_balance_fields my r = (let leak = Some (O_bal balance0) in
     with_str CC_CLG_LEN r leak (\<lambda>clg r. Some (Parsed my balance_event (Some (O_bal (balance0\<lparr>cb_clg := clg\<rparr>))))))"

definition my_cprice_fields :: "my_cc \<Rightarrow> string \<Rightarrow> my_parsed option" where
  "my_cprice_fields my r = (let leak = Some (O_cprice cprice0) in
     with_str CC_CLG_LEN r leak (\<lambda>clg r. with_str CC_CLD_LEN r leak (\<lambda>cld r.
       with_int r leak (\<lambda>sec r.
         Some (Parsed my cprice_event (Some (O_cprice (cprice0\<lparr>cp_clg := clg, cp_cld := cld, cp_billsec := word_of_int sec\<rparr>))))))))"

definition my_term_fields :: "my_cc \<Rightarrow> string \<Rightarrow> my_parsed option" where
  "my_term_fields my r = (let leak = Some (O_term term0) in
     with_tok r leak (\<lambda>st r. with_str CC_CALL_UID r leak (\<lambda>uid r.
       let t = term0\<lparr>ct_status := my_term_status st, ct_call_uid := uid\<rparr> in
       if my_term_status st = normal_clear then
         with_int r leak (\<lambda>sec r. with_int r leak (\<lambda>dur r.
           Some (Parsed my term_event (Some (O_term (t\<lparr>ct_billsec := word_of_int sec, ct_duration := word_of_int dur\<rparr>))))))
       else Some (Parsed my term_event (Some (O_term t))))))"

text \<open>The buffer: server, transaction, command, time stamp, then the fields of the command. \<open>now\<close>
  is \<open>time(NULL)\<close>; \<open>None\<close> is an array overrun, or a number \<open>atoi\<close> cannot hold.\<close>

definition my_cc_fields :: "int \<Rightarrow> string \<Rightarrow> my_parsed option" where
  "my_cc_fields now buffer =
     (if buffer = [] then Some Unknown
      else
        with_int buffer None (\<lambda>srv r. with_int r None (\<lambda>transaction r.
          with_str MY_CC_COMM_LEN r None (\<lambda>command r. with_int r None (\<lambda>timestamp r.
            let my = \<lparr>my_cdr_server_id = word_of_int srv, my_transaction_id = word_of_int transaction,
                      my_command = command, my_timestamp = timestamp\<rparr> in
            if strcmp command ''status'' = 0 then Some (Parsed my status_event None)
            else if strcmp command ''maxsec'' = 0 then my_maxsec_fields now my r
            else if strcmp command ''rate'' = 0 then my_rate_fields my r
            else if strcmp command ''balance'' = 0 then my_balance_fields my r
            else if strcmp command ''cprice'' = 0 then my_cprice_fields my r
            else if strcmp command ''term'' = 0 then my_term_fields my r
            else Some Unknown)))))"

text \<open>Where the struct of the event hangs.\<close>

definition with_body :: "cc_obj \<Rightarrow> addr \<Rightarrow> cc \<Rightarrow> cc" where
  "with_body obj p c = (case obj of
     O_cc _ \<Rightarrow> c
   | O_max _ \<Rightarrow> c\<lparr>cc_max := Some p\<rparr>
   | O_bal _ \<Rightarrow> c\<lparr>cc_bal := Some p\<rparr>
   | O_rate _ \<Rightarrow> c\<lparr>cc_rate := Some p\<rparr>
   | O_cprice _ \<Rightarrow> c\<lparr>cc_cprice := Some p\<rparr>
   | O_term _ \<Rightarrow> c\<lparr>cc_term := Some p\<rparr>)"

definition my_cc_parser :: "int \<Rightarrow> string \<Rightarrow> 'w ccs \<Rightarrow> ((my_cc \<times> addr) option \<times> 'w ccs) option" where
  "my_cc_parser now buffer s = do {
     let (a, s1) = cc_alloc s;
     r \<leftarrow> my_cc_fields now buffer;
     (case r of
        Unknown \<Rightarrow> do { s2 \<leftarrow> cc_mem_free (Some a) s1; Some (None, s2) }
      | Broken None \<Rightarrow> Some (None, s1)
      | Broken (Some obj) \<Rightarrow> Some (None, snd (cc_mem_alloc obj s1))
      | Parsed my ev body \<Rightarrow>
          let c = cc0\<lparr>cc_t := ev, cc_cdr_server_id := my_cdr_server_id my\<rparr> in
          (case body of
             None \<Rightarrow> Some (Some (my, a), put a (O_cc c) s1)
           | Some obj \<Rightarrow> let (p, s2) = cc_mem_alloc obj s1 in
               Some (Some (my, a), put a (O_cc (with_body obj p c)) s2)))
   }"

section \<open>The reply\<close>

definition my_cc_ack :: "my_cc \<Rightarrow> string \<Rightarrow> string" where
  "my_cc_ack my data = dec_int (uint (my_cdr_server_id my)) @ '','' @ fmt_u (my_transaction_id my) @ '','' @ data"

text \<open>The text of the reply, and whether the request is over.\<close>

definition my_cc_reply :: "cc_heap \<Rightarrow> cc \<Rightarrow> (string \<times> bool) option" where
  "my_cc_reply h c = (case cc_t c of
     maxsec_event \<Rightarrow> (case cc_max c of
         Some p \<Rightarrow> do { m \<leftarrow> get_max h p; Some (dec_int (mx_maxsec m), mx_maxsec m < 0) }
       | None \<Rightarrow> Some (''error'', True))
   | balance_event \<Rightarrow> (case cc_bal c of
         Some p \<Rightarrow> do { b \<leftarrow> get_bal h p; Some (fmt_f (cb_amount b), True) }
       | None \<Rightarrow> Some (''error'', True))
   | rate_event \<Rightarrow> (case cc_rate c of
         Some p \<Rightarrow> do { r \<leftarrow> get_rate h p; Some (fmt_f (cr_rate_price r), True) }
       | None \<Rightarrow> Some (''error'', True))
   | term_event \<Rightarrow> (case cc_term c of
         Some p \<Rightarrow> do {
           t \<leftarrow> get_term h p;
           Some (if 0 \<le> ct_tbl_idx t then (''ok'', False) else (''nok'', True))
         }
       | None \<Rightarrow> Some (''error'', True))
   | cprice_event \<Rightarrow> Some (''ok'', True)
   | status_event \<Rightarrow> Some (''ok'', True)
   | unkn_event \<Rightarrow> Some (''empty'', True))"

definition my_cc_comp_ack :: "addr \<Rightarrow> 'w ccs \<Rightarrow> (string \<times> 'w ccs) option" where
  "my_cc_comp_ack a s = do {
     c \<leftarrow> get_cc (cs_heap s) a;
     (data, over) \<leftarrow> my_cc_reply (cs_heap s) c;
     s1 \<leftarrow> (if over then set_status a CC_STATUS_DEACTIVE s else Some s);
     Some (data, s1)
   }"

section \<open>The handler\<close>

text \<open>What becomes of the request: it is freed when it is over; a call that was let through stays,
  because the table has it; of an accepted end only the struct itself is freed.\<close>

definition cc_release :: "addr \<Rightarrow> 'w ccs \<Rightarrow> 'w ccs option" where
  "cc_release a s = do {
     c \<leftarrow> get_cc (cs_heap s) a;
     if cc_status c = CC_STATUS_DEACTIVE then cc_free a s
     else if cc_t c = term_event then cc_mem_free (Some a) s
     else Some s
   }"

definition my_cc_finish :: "my_cc \<Rightarrow> addr \<Rightarrow> 'w ccs \<Rightarrow> (string \<times> 'w ccs) option" where
  "my_cc_finish my a s = do {
     (data, s1) \<leftarrow> my_cc_comp_ack a s;
     s2 \<leftarrow> cc_release a s1;
     Some (my_cc_ack my data, s2)
   }"

definition my_cc_serve :: "'w cc_api \<Rightarrow> nat \<Rightarrow> my_cc \<Rightarrow> addr \<Rightarrow> 'w ccs \<Rightarrow> (string \<times> 'w ccs) option" where
  "my_cc_serve api dbp my a s = do { s1 \<leftarrow> cc_event_manager api dbp a s; my_cc_finish my a s1 }"

text \<open>The handler after \<open>strdup\<close>: the request to the reply.\<close>

definition my_cc_answer :: "'w cc_api \<Rightarrow> nat \<Rightarrow> int \<Rightarrow> string \<Rightarrow> 'w ccs \<Rightarrow> (string \<times> 'w ccs) option" where
  "my_cc_answer api dbp now readbuf s = do {
     (r, s1) \<leftarrow> my_cc_parser now readbuf s;
     (case r of
        None \<Rightarrow> Some (''error'', s1)
      | Some (my, a) \<Rightarrow> my_cc_serve api dbp my a s1)
   }"

text \<open>The bytes of the buffer before and after; \<open>bound\<close> says whether the module \<open>cc.so\<close> is bound.
  A buffer without a zero byte, and one that is too short for the reply, are overrun.\<close>

definition memcpy :: "string \<Rightarrow> string \<Rightarrow> string option" where
  "memcpy buf src = (if length src \<le> length buf then Some (src @ drop (length src) buf) else None)"

definition my_cc_proto_bind :: "bool \<Rightarrow> 'w cc_api \<Rightarrow> nat \<Rightarrow> int \<Rightarrow> string \<Rightarrow> 'w ccs \<Rightarrow> (int \<times> string \<times> 'w ccs) option" where
  "my_cc_proto_bind bound api dbp now buf s =
     (if \<not> bound then do { b \<leftarrow> memcpy buf ''error''; Some (RE_SUCCESS, b, s) }
      else do {
        readbuf \<leftarrow> c_string buf;
        let buf1 = replicate (length readbuf) (CHR 0x00) @ drop (length readbuf) buf;
        (ack, s1) \<leftarrow> my_cc_answer api dbp now readbuf s;
        b \<leftarrow> memcpy buf1 ack;
        Some (RE_SUCCESS, b, s1)
      })"

end
