(* ===== verification/CallTable.thy ===== *)
theory CallTable
  imports MyCC Charging
begin

text \<open>
  What the table of calls means: a list of slots, free or with a call, as values. An entry and
  the structs it reaches on the heap represent a slot, and no struct belongs to two entries. The
  handler of \<open>my_cc.c\<close> and the pass of \<open>cc_server_thread\<close>, run one after the other, refine
  functions on that list; so between whole requests and passes nothing is used after it was freed.
\<close>

section \<open>Calls as values\<close>

record call =
  ca_server :: u16
  ca_max :: cc_maxsec
  ca_rtp :: racc
  ca_term :: "cc_term option"

definition call_cc :: "call \<Rightarrow> addr \<Rightarrow> addr option \<Rightarrow> cc" where
  "call_cc k m t = cc0\<lparr>cc_cdr_server_id := ca_server k, cc_t := maxsec_event, cc_max := Some m, cc_term := t\<rparr>"

definition rep :: "cc_heap \<Rightarrow> cc_server_tbl \<Rightarrow> call option \<Rightarrow> addr list \<Rightarrow> bool" where
  "rep h e x as = (case x of
     None \<Rightarrow> e = \<lparr>tb_cc_ptr = None, tb_rtp = None\<rparr> \<and> as = []
   | Some k \<Rightarrow> \<exists>a m. tb_cc_ptr e = Some a \<and> tb_rtp e = Some (ca_rtp k) \<and> h m = Some (O_max (ca_max k)) \<and>
       (case ca_term k of
          None \<Rightarrow> h a = Some (O_cc (call_cc k m None)) \<and> as = [a, m]
        | Some t \<Rightarrow> \<exists>p. h a = Some (O_cc (call_cc k m (Some p))) \<and> h p = Some (O_term t) \<and> as = [a, m, p]))"

text \<open>The table represents the slots \<open>xs\<close>, with structs that are apart from each other and from
  the ones in \<open>F\<close>, and nothing is allocated beyond the next address.\<close>

definition own_by :: "'w ccs \<Rightarrow> (call option \<times> addr list) list \<Rightarrow> addr set \<Rightarrow> bool" where
  "own_by s xas F \<longleftrightarrow> list_all2 (\<lambda>e (x, as). rep (cs_heap s) e x as) (cs_tbl s) xas \<and>
     distinct (concat (map snd xas)) \<and> F \<inter> set (concat (map snd xas)) = {} \<and>
     (\<forall>a. cs_heap s a \<noteq> None \<longrightarrow> a < cs_next s)"

definition own :: "'w ccs \<Rightarrow> call option list \<Rightarrow> addr set \<Rightarrow> bool" where
  "own s xs F \<longleftrightarrow> (\<exists>xas. xs = map fst xas \<and> own_by s xas F)"

section \<open>What the operations do to the slots\<close>

definition is_up :: "string \<Rightarrow> call option \<Rightarrow> bool" where
  "is_up clg x = (case x of None \<Rightarrow> False | Some k \<Rightarrow> mx_clg (ca_max k) = clg)"

definition calls_up :: "string \<Rightarrow> call option list \<Rightarrow> int" where
  "calls_up clg xs = int (length (List.filter (is_up clg) xs))"

definition has_uid :: "string \<Rightarrow> call option \<Rightarrow> bool" where
  "has_uid uid x = (case x of None \<Rightarrow> False | Some k \<Rightarrow> mx_call_uid (ca_max k) = uid)"

fun index_of :: "('a \<Rightarrow> bool) \<Rightarrow> nat \<Rightarrow> 'a list \<Rightarrow> nat option" where
  "index_of P i [] = None"
| "index_of P i (x # xs) = (if P x then Some i else index_of P (Suc i) xs)"

definition enter :: "call \<Rightarrow> call option list \<Rightarrow> call option list option" where
  "enter k xs = (case index_of (\<lambda>x. x = None) 0 xs of None \<Rightarrow> None | Some i \<Rightarrow> Some (xs[i := Some k]))"

definition end_call :: "cc_term \<Rightarrow> call option list \<Rightarrow> call option list option" where
  "end_call t xs = (case index_of (has_uid (ct_call_uid t)) 0 xs of
     None \<Rightarrow> None
   | Some i \<Rightarrow> Some (xs[i := map_option (\<lambda>k. k\<lparr>ca_term := Some (t\<lparr>ct_tbl_idx := int i\<rparr>)\<rparr>) (xs ! i)]))"

definition spec_maxsec ::
  "'w cc_api \<Rightarrow> nat \<Rightarrow> u16 \<Rightarrow> cc_maxsec \<Rightarrow> call option list \<Rightarrow> 'w \<Rightarrow> (int \<times> call option list \<times> 'w) option" where
  "spec_maxsec api dbp srv mx xs w =
     (if mx_clg mx = [] then Some (CC_MAXSEC_NO_PRE, xs, w)
      else do {
        (r, pre, w') \<leftarrow> rt_api_maxsec api dbp (cc_maxsec_pre (cc0\<lparr>cc_cdr_server_id := srv\<rparr>) mx) (calls_up (mx_clg mx) xs) w;
        let answer = pre_maxsec pre;
        (case r of
           None \<Rightarrow> Some (answer, xs, w')
         | Some rtp \<Rightarrow> (case enter \<lparr>ca_server = srv, ca_max = mx\<lparr>mx_maxsec := answer\<rparr>, ca_rtp = rtp\<lparr>ra_pre := pre\<rparr>,
               ca_term = None\<rparr> xs of
             None \<Rightarrow> Some (CC_MAXSEC_NO_CCTBL, xs, w')
           | Some xs' \<Rightarrow> Some (answer, xs', w')))
      })"

definition spec_event ::
  "'w cc_api \<Rightarrow> nat \<Rightarrow> u16 \<Rightarrow> cc_events \<Rightarrow> cc_obj option \<Rightarrow> call option list \<Rightarrow> 'w \<Rightarrow> (string \<times> call option list \<times> 'w) option" where
  "spec_event api dbp srv ev body xs w = (case body of
     Some (O_max mx) \<Rightarrow> do { (n, xs', w') \<leftarrow> spec_maxsec api dbp srv mx xs w; Some (dec_int n, xs', w') }
   | Some (O_term t) \<Rightarrow> (case end_call t xs of None \<Rightarrow> Some (''nok'', xs, w) | Some xs' \<Rightarrow> Some (''ok'', xs', w))
   | Some (O_bal b) \<Rightarrow> Some (fmt_f (cb_amount b), xs, w)
   | Some (O_rate r) \<Rightarrow> Some (fmt_f (cr_rate_price r), xs, w)
   | _ \<Rightarrow> Some (''ok'', xs, w))"

definition spec_answer ::
  "'w cc_api \<Rightarrow> nat \<Rightarrow> int \<Rightarrow> string \<Rightarrow> call option list \<Rightarrow> 'w \<Rightarrow> (string \<times> call option list \<times> 'w) option" where
  "spec_answer api dbp now buffer xs w = do {
     r \<leftarrow> my_cc_fields now buffer;
     (case r of
        Parsed my ev body \<Rightarrow> do {
          (data, xs', w') \<leftarrow> spec_event api dbp (my_cdr_server_id my) ev body xs w;
          Some (my_cc_ack my data, xs', w')
        }
      | _ \<Rightarrow> Some (''error'', xs, w))
   }"

definition expired :: "u32 \<Rightarrow> int \<Rightarrow> call \<Rightarrow> bool" where
  "expired limit now k \<longleftrightarrow> uint (limit + CALL_MAXSEC_LIMIT_WAIT) < now - mx_ts (ca_max k)"

definition spec_entry :: "'w cc_api \<Rightarrow> u32 \<Rightarrow> int \<Rightarrow> call option \<Rightarrow> 'w \<Rightarrow> (call option \<times> 'w) option" where
  "spec_entry api limit now x w = (case x of
     None \<Rightarrow> Some (None, w)
   | Some k \<Rightarrow> (case ca_term k of
       Some t \<Rightarrow>
         if ct_status t = normal_clear then do {
           (_, w') \<leftarrow> cc_finish_call api (ca_rtp k) (Some (ca_max k)) t w;
           Some (None, w')
         } else Some (None, w)
     | None \<Rightarrow> Some (if expired limit now k then None else x, w)))"

fun spec_entries :: "'w cc_api \<Rightarrow> u32 \<Rightarrow> int \<Rightarrow> call option list \<Rightarrow> 'w \<Rightarrow> (call option list \<times> 'w) option" where
  "spec_entries api limit now [] w = Some ([], w)"
| "spec_entries api limit now (x # xs) w = do {
     (x', w1) \<leftarrow> spec_entry api limit now x w;
     (xs', w2) \<leftarrow> spec_entries api limit now xs w1;
     Some (x' # xs', w2)
   }"

section \<open>The heap around the table\<close>

lemma put_simps [simp]:
  "cs_heap (put a obj s) = (cs_heap s)(a := Some obj)" "cs_next (put a obj s) = cs_next s"
  "cs_tbl (put a obj s) = cs_tbl s" "cs_sim (put a obj s) = cs_sim s" "cs_world (put a obj s) = cs_world s"
  by (simp_all add: put_def)

lemma rep_frame: "rep h e x as \<Longrightarrow> \<forall>a \<in> set as. h' a = h a \<Longrightarrow> rep h' e x as"
  by (cases x) (fastforce simp: rep_def split: option.splits)+

lemma rep_alloc: "rep h e x as \<Longrightarrow> a \<in> set as \<Longrightarrow> h a \<noteq> None"
  by (cases x) (auto simp: rep_def split: option.splits)

lemma own_by_alloc:
  assumes "own_by s xas F" "a \<in> set (concat (map snd xas))"
  shows "cs_heap s a \<noteq> None"
proof -
  obtain x as where x: "(x, as) \<in> set xas" "a \<in> set as" using assms(2) by auto
  then obtain i where "i < length xas" "xas ! i = (x, as)" by (meson in_set_conv_nth)
  then show ?thesis using assms(1) x(2) by (auto simp: own_by_def list_all2_conv_all_nth dest!: spec [of _ i] rep_alloc)
qed

lemma own_by_frame:
  assumes "own_by s xas F" "\<forall>a \<in> set (concat (map snd xas)). cs_heap s' a = cs_heap s a" "cs_tbl s' = cs_tbl s"
    and "F' \<inter> set (concat (map snd xas)) = {}" "\<forall>a. cs_heap s' a \<noteq> None \<longrightarrow> a < cs_next s'"
  shows "own_by s' xas F'"
proof -
  have "list_all2 (\<lambda>e (x, as). rep (cs_heap s') e x as) (cs_tbl s) xas"
  proof (rule list_all2_all_nthI)
    show "length (cs_tbl s) = length xas" using assms(1) by (auto simp: own_by_def dest: list_all2_lengthD)
    fix i assume i: "i < length (cs_tbl s)"
    obtain x as where x: "xas ! i = (x, as)" by fastforce
    have "i < length xas" using i assms(1) by (auto simp: own_by_def dest: list_all2_lengthD)
    then have "(x, as) \<in> set xas" using x by (metis nth_mem)
    then have "\<forall>a \<in> set as. cs_heap s' a = cs_heap s a" using assms(2) by fastforce
    moreover have "rep (cs_heap s) (cs_tbl s ! i) x as"
      using assms(1) i x by (auto simp: own_by_def list_all2_conv_all_nth)
    ultimately show "case xas ! i of (x, as) \<Rightarrow> rep (cs_heap s') (cs_tbl s ! i) x as" using x by (simp add: rep_frame)
  qed
  then show ?thesis using assms by (simp add: own_by_def)
qed

lemma own_weaken: "own s xs F \<Longrightarrow> F' \<subseteq> F \<Longrightarrow> own s xs F'"
  by (auto simp: own_def own_by_def)

lemma own_put:
  assumes "own s xs F" "a \<in> F" "a < cs_next s"
  shows "own (put a obj s) xs F"
proof -
  obtain xas where x: "xs = map fst xas" "own_by s xas F" using assms(1) by (auto simp: own_def)
  have "own_by (put a obj s) xas F"
    by (rule own_by_frame [OF x(2)]) (use x(2) assms in \<open>auto simp: own_by_def\<close>)
  then show ?thesis using x by (auto simp: own_def)
qed

lemma own_world [simp]: "own (s\<lparr>cs_world := w\<rparr>) xs F = own s xs F" "own (s\<lparr>cs_sim := n\<rparr>) xs F = own s xs F"
  by (simp_all add: own_def own_by_def)

lemma own_below: "own s xs F \<Longrightarrow> cs_heap s a \<noteq> None \<Longrightarrow> a < cs_next s"
  by (auto simp: own_def own_by_def)

lemma own_alloc:
  assumes "own s xs F"
  shows "own (snd (cc_mem_alloc obj s)) xs (insert (cs_next s) F)"
    "fst (cc_mem_alloc obj s) = cs_next s" "cs_heap s (cs_next s) = None"
proof -
  obtain xas where x: "xs = map fst xas" "own_by s xas F" using assms(1) by (auto simp: own_def)
  show n: "cs_heap s (cs_next s) = None" using own_below [OF assms] by (metis less_irrefl)
  have "cs_next s \<notin> set (concat (map snd xas))" using own_by_alloc [OF x(2)] n by blast
  then have "own_by (snd (cc_mem_alloc obj s)) xas (insert (cs_next s) F)"
    by (intro own_by_frame [OF x(2)]) (use x(2) in \<open>auto simp: own_by_def cc_mem_alloc_def less_Suc_eq\<close>)
  then show "own (snd (cc_mem_alloc obj s)) xs (insert (cs_next s) F)" using x by (auto simp: own_def)
  show "fst (cc_mem_alloc obj s) = cs_next s" by (simp add: cc_mem_alloc_def)
qed

lemma own_free:
  assumes "own s xs F" "a \<in> F"
  shows "own (s\<lparr>cs_heap := (cs_heap s)(a := None)\<rparr>) xs F"
proof -
  obtain xas where x: "xs = map fst xas" "own_by s xas F" using assms(1) by (auto simp: own_def)
  have "own_by (s\<lparr>cs_heap := (cs_heap s)(a := None)\<rparr>) xas F"
    by (rule own_by_frame [OF x(2)]) (use x(2) assms in \<open>auto simp: own_by_def\<close>)
  then show ?thesis using x by (auto simp: own_def)
qed

section \<open>Searching\<close>

abbreviation (input) reps :: "cc_heap \<Rightarrow> cc_server_tbl list \<Rightarrow> (call option \<times> addr list) list \<Rightarrow> bool" where
  "reps h \<equiv> list_all2 (\<lambda>e (x, as). rep h e x as)"

lemma get_simps [simp]:
  "h a = Some (O_cc c) \<Longrightarrow> get_cc h a = Some c"
  "h a = Some (O_max m) \<Longrightarrow> get_max h a = Some m"
  "h a = Some (O_bal b) \<Longrightarrow> get_bal h a = Some b"
  "h a = Some (O_rate r) \<Longrightarrow> get_rate h a = Some r"
  "h a = Some (O_term t) \<Longrightarrow> get_term h a = Some t"
  by (simp_all add: get_cc_def get_max_def get_bal_def get_rate_def get_term_def)

lemma call_cc_simps [simp]:
  "cc_max (call_cc k m t) = Some m" "cc_term (call_cc k m t) = t" "cc_bal (call_cc k m t) = None"
  "cc_rate (call_cc k m t) = None" "cc_cprice (call_cc k m t) = None" "cc_status (call_cc k m t) = CC_STATUS_ACTIVE"
  "cc_t (call_cc k m t) = maxsec_event" "cc_cdr_server_id (call_cc k m t) = ca_server k"
  by (simp_all add: call_cc_def cc0_def)

lemma call_cc_upd [simp]: "(call_cc k m t)\<lparr>cc_term := t'\<rparr> = call_cc k m t'"
  by (simp add: call_cc_def)

text \<open>A slot with a call: where its structs are.\<close>

lemma rep_call:
  assumes "rep h e (Some k) as"
  obtains a m t where "tb_cc_ptr e = Some a" "tb_rtp e = Some (ca_rtp k)" "h a = Some (O_cc (call_cc k m t))"
    "h m = Some (O_max (ca_max k))" "as = a # m # (case t of None \<Rightarrow> [] | Some p \<Rightarrow> [p])"
    "case t of None \<Rightarrow> ca_term k = None | Some p \<Rightarrow> \<exists>tr. ca_term k = Some tr \<and> h p = Some (O_term tr)"
  using assms by (cases "ca_term k") (auto simp: rep_def)

lemma rep_free: "rep h e None as \<Longrightarrow> tb_cc_ptr e = None \<and> tb_rtp e = None \<and> as = []"
  by (simp add: rep_def)

lemma count_reps: "reps h es xas \<Longrightarrow> count_clg h clg es = Some (calls_up clg (map fst xas))"
proof (induction rule: list_all2_induct)
  case (Cons e es y xas)
  obtain x as where y: "y = (x, as)" by fastforce
  show ?case
  proof (cases x)
    case None
    then have "tb_cc_ptr e = None" using Cons(1) y by (simp add: rep_def)
    then show ?thesis using Cons.IH y None by (simp add: calls_up_def is_up_def)
  next
    case (Some k)
    then obtain a m t where "tb_cc_ptr e = Some a" "h a = Some (O_cc (call_cc k m t))" "h m = Some (O_max (ca_max k))"
      using Cons(1) y by (auto elim: rep_call)
    then show ?thesis using Cons.IH y Some by (simp add: calls_up_def is_up_def)
  qed
qed (simp add: calls_up_def)

lemma search_reps:
  "reps h es xas \<Longrightarrow> h p = Some (O_term tr) \<Longrightarrow> search_uid h (Some p) i es =
     Some (case index_of (has_uid (ct_call_uid tr)) i (map fst xas) of None \<Rightarrow> -1 | Some j \<Rightarrow> int j)"
proof (induction arbitrary: i rule: list_all2_induct)
  case (Cons e es y xas)
  obtain x as where y: "y = (x, as)" by fastforce
  show ?case
  proof (cases x)
    case None
    then have "tb_cc_ptr e = None" using Cons(1) y by (simp add: rep_def)
    then show ?thesis using Cons.IH Cons.prems y None by (simp add: has_uid_def)
  next
    case (Some k)
    then obtain a m t where "tb_cc_ptr e = Some a" "h a = Some (O_cc (call_cc k m t))" "h m = Some (O_max (ca_max k))"
      using Cons(1) y by (auto elim: rep_call)
    then show ?thesis using Cons.IH Cons.prems y Some by (simp add: has_uid_def)
  qed
qed simp

lemma first_free_reps: "reps h es xas \<Longrightarrow> first_free i es = index_of (\<lambda>x. x = None) i (map fst xas)"
proof (induction arbitrary: i rule: list_all2_induct)
  case (Cons e es y xas)
  then show ?case by (cases y; cases "fst y") (auto dest: rep_free elim!: rep_call)
qed simp

lemma index_of_Some:
  "index_of P i xs = Some j \<Longrightarrow> i \<le> j \<and> j - i < length xs \<and> P (xs ! (j - i))"
proof (induction xs arbitrary: i)
  case (Cons x xs)
  then show ?case by (fastforce simp: nth_Cons' split: if_splits)
qed simp

section \<open>Changing one slot\<close>

lemma distinct_concat_update:
  assumes "distinct (concat ass)" "i < length ass" "distinct as" "set as \<inter> (set (concat ass) - set (ass ! i)) = {}"
  shows "distinct (concat (ass[i := as])) \<and> set (concat (ass[i := as])) = set (concat ass) - set (ass ! i) \<union> set as"
proof -
  have e: "ass = take i ass @ ass ! i # drop (Suc i) ass" using assms(2) by (rule id_take_nth_drop)
  have u: "ass[i := as] = take i ass @ as # drop (Suc i) ass" using assms(2) by (rule upd_conv_take_nth_drop)
  define l r where "l = concat (take i ass)" and "r = concat (drop (Suc i) ass)"
  have c: "concat ass = l @ ass ! i @ r" by (subst e) (simp add: l_def r_def)
  have d: "concat (ass[i := as]) = l @ as @ r" by (subst u) (simp add: l_def r_def)
  show ?thesis using assms(1,3,4) unfolding c d by auto
qed

lemma own_by_update:
  assumes "own_by s xas F" "i < length xas" "cs_tbl s' = (cs_tbl s)[i := e]" "rep (cs_heap s') e x as" "distinct as"
    and "set as \<subseteq> F \<union> set (snd (xas ! i))" "F' \<subseteq> F \<union> set (snd (xas ! i))" "F' \<inter> set as = {}"
    and "\<forall>a. a \<notin> F \<union> set (snd (xas ! i)) \<longrightarrow> cs_heap s' a = cs_heap s a" "\<forall>a. cs_heap s' a \<noteq> None \<longrightarrow> a < cs_next s'"
  shows "own_by s' (xas[i := (x, as)]) F'"
proof -
  let ?ass = "map snd xas"
  have i: "i < length ?ass" using assms(2) by simp
  have dis: "distinct (concat ?ass)" and F: "F \<inter> set (concat ?ass) = {}" and r: "reps (cs_heap s) (cs_tbl s) xas"
    using assms(1) by (auto simp: own_by_def)
  have u: "distinct (concat (?ass[i := as])) \<and> set (concat (?ass[i := as])) = set (concat ?ass) - set (snd (xas ! i)) \<union> set as"
    using distinct_concat_update [OF dis i assms(5)] assms(6) F i by auto
  have apart: "set (snd (xas ! i)) \<inter> set (snd (xas ! j)) = {}" if "j < length xas" "j \<noteq> i" for j
  proof -
    have "set (?ass ! i) \<inter> set (?ass ! j) = {}"
    proof (rule ccontr)
      assume n: "set (?ass ! i) \<inter> set (?ass ! j) \<noteq> {}"
      have e: "?ass = take i ?ass @ ?ass ! i # drop (Suc i) ?ass" using i by (rule id_take_nth_drop)
      have "?ass ! j \<in> set (take i ?ass) \<or> ?ass ! j \<in> set (drop (Suc i) ?ass)"
      proof (cases "j < i")
        case True
        then show ?thesis using that i by (metis in_set_conv_nth length_map length_take min.absorb4 nth_take)
      next
        case False
        then have "drop (Suc i) ?ass ! (j - Suc i) = ?ass ! j" "j - Suc i < length (drop (Suc i) ?ass)" using that by auto
        then show ?thesis by (metis nth_mem)
      qed
      moreover have "distinct (concat (take i ?ass) @ ?ass ! i @ concat (drop (Suc i) ?ass))"
        using dis by (subst (asm) e) simp
      ultimately show False using n by auto
    qed
    then show ?thesis using that assms(2) by simp
  qed
  have other: "a \<notin> F \<union> set (snd (xas ! i))" if "j < length xas" "j \<noteq> i" "a \<in> set (snd (xas ! j))" for a j
  proof -
    have "a \<in> set (concat ?ass)" using that by (auto intro!: bexI [of _ "xas ! j"])
    then show ?thesis using F apart [OF that(1,2)] that(3) by blast
  qed
  have rs: "reps (cs_heap s') (cs_tbl s') (xas[i := (x, as)])"
  proof (rule list_all2_all_nthI)
    show "length (cs_tbl s') = length (xas[i := (x, as)])" using r assms(3) by (auto dest: list_all2_lengthD)
    fix j assume "j < length (cs_tbl s')"
    then have j: "j < length (cs_tbl s)" "j < length xas" using r assms(3) by (auto dest: list_all2_lengthD)
    show "case xas[i := (x, as)] ! j of (x, as) \<Rightarrow> rep (cs_heap s') (cs_tbl s' ! j) x as"
    proof (cases "j = i")
      case True
      then show ?thesis using assms(3,4) j by simp
    next
      case False
      obtain y bs where y: "xas ! j = (y, bs)" by fastforce
      have "rep (cs_heap s) (cs_tbl s ! j) y bs" using r j y by (auto simp: list_all2_conv_all_nth)
      moreover have "\<forall>a \<in> set bs. cs_heap s' a = cs_heap s a" using other [OF j(2) False] y assms(9) by simp
      ultimately have "rep (cs_heap s') (cs_tbl s ! j) y bs" by (rule rep_frame)
      then show ?thesis using False y assms(3) by simp
    qed
  qed
  moreover have "F' \<inter> set (concat (map snd (xas[i := (x, as)]))) = {}"
    using u assms(7,8) F by (auto simp: map_update)
  ultimately show ?thesis using u assms(10) by (simp add: own_by_def map_update)
qed

section \<open>The operations on the table\<close>

lemma own_len: "own s xs F \<Longrightarrow> length xs = length (cs_tbl s)"
  by (auto simp: own_def own_by_def dest: list_all2_lengthD)

lemma own_count: "own s xs F \<Longrightarrow> cc_server_call_search_racc clg s = Some (calls_up clg xs)"
  by (auto simp: own_def own_by_def cc_server_call_search_racc_def count_reps)

lemma own_search:
  "own s xs F \<Longrightarrow> cs_heap s p = Some (O_term tr) \<Longrightarrow> search_uid (cs_heap s) (Some p) 0 (cs_tbl s) =
     Some (case index_of (has_uid (ct_call_uid tr)) 0 xs of None \<Rightarrow> -1 | Some j \<Rightarrow> int j)"
  by (auto simp: own_def own_by_def search_reps)

lemma own_first_free: "own s xs F \<Longrightarrow> first_free 0 (cs_tbl s) = index_of (\<lambda>x. x = None) 0 xs"
  by (auto simp: own_def own_by_def first_free_reps)

text \<open>A slot of the table, and what can be done with it.\<close>

lemma own_by_slot:
  assumes "own_by s xas F" "i < length xas"
  shows "rep (cs_heap s) (cs_tbl s ! i) (fst (xas ! i)) (snd (xas ! i)) \<and> distinct (snd (xas ! i)) \<and> F \<inter> set (snd (xas ! i)) = {}"
proof -
  have e: "snd (xas ! i) \<in> set (map snd xas)" using assms(2) by simp
  then have "distinct (snd (xas ! i))" using assms(1) by (auto simp: own_by_def distinct_concat_iff)
  moreover have "set (snd (xas ! i)) \<subseteq> set (concat (map snd xas))" using assms(2) by (force intro: nth_mem)
  ultimately show ?thesis using assms by (auto simp: own_by_def list_all2_conv_all_nth split_beta)
qed

lemma own_slot:
  assumes "own s xs F" "i < length xs" "xs ! i = Some k"
  obtains xas a m t where "xs = map fst xas" "own_by s xas F" "xas ! i = (Some k, a # m # (case t of None \<Rightarrow> [] | Some p \<Rightarrow> [p]))"
    "tb_cc_ptr (cs_tbl s ! i) = Some a" "tb_rtp (cs_tbl s ! i) = Some (ca_rtp k)"
    "cs_heap s a = Some (O_cc (call_cc k m t))" "cs_heap s m = Some (O_max (ca_max k))" "a \<notin> F" "m \<notin> F" "a \<noteq> m"
    "case t of None \<Rightarrow> ca_term k = None
       | Some p \<Rightarrow> p \<notin> F \<and> p \<noteq> a \<and> p \<noteq> m \<and> (\<exists>tr. ca_term k = Some tr \<and> cs_heap s p = Some (O_term tr))"
proof -
  obtain xas where x: "xs = map fst xas" "own_by s xas F" using assms(1) by (auto simp: own_def)
  have f: "i < length xas" "fst (xas ! i) = Some k" using assms(2,3) x(1) by simp_all
  note sl = own_by_slot [OF x(2) f(1)]
  then obtain a m t where r: "tb_cc_ptr (cs_tbl s ! i) = Some a" "tb_rtp (cs_tbl s ! i) = Some (ca_rtp k)"
    "cs_heap s a = Some (O_cc (call_cc k m t))" "cs_heap s m = Some (O_max (ca_max k))"
    "snd (xas ! i) = a # m # (case t of None \<Rightarrow> [] | Some p \<Rightarrow> [p])"
    "case t of None \<Rightarrow> ca_term k = None | Some p \<Rightarrow> \<exists>tr. ca_term k = Some tr \<and> cs_heap s p = Some (O_term tr)"
    using f(2) by (auto elim: rep_call)
  moreover have "xas ! i = (Some k, a # m # (case t of None \<Rightarrow> [] | Some p \<Rightarrow> [p]))" using r(5) f(2) by (metis prod.collapse)
  ultimately show ?thesis using x sl by (intro that [of xas a m t]) (auto split: option.splits)
qed

lemma own_enter:
  assumes "own s xs F" "i < length xs" "xs ! i = None" "a \<in> F" "m \<in> F" "a \<noteq> m" "ca_term k = None"
    and "cs_heap s a = Some (O_cc (call_cc k m None))" "cs_heap s m = Some (O_max (ca_max k))"
  shows "own (s\<lparr>cs_tbl := (cs_tbl s)[i := \<lparr>tb_cc_ptr = Some a, tb_rtp = Some (ca_rtp k)\<rparr>]\<rparr>) (xs[i := Some k]) (F - {a, m})"
proof -
  obtain xas where x: "xs = map fst xas" "own_by s xas F" using assms(1) by (auto simp: own_def)
  have "own_by (s\<lparr>cs_tbl := (cs_tbl s)[i := \<lparr>tb_cc_ptr = Some a, tb_rtp = Some (ca_rtp k)\<rparr>]\<rparr>) (xas[i := (Some k, [a, m])]) (F - {a, m})"
    by (rule own_by_update [OF x(2)]) (use assms x in \<open>auto simp: rep_def own_by_def\<close>)
  then show ?thesis unfolding own_def by (intro exI [of _ "xas[i := (Some k, [a, m])]"]) (simp add: x(1) map_update)
qed

lemma own_end:
  assumes "own s xs F" "i < length xs" "xs ! i = Some k" "p \<in> F" "p < cs_next s"
    and "tb_cc_ptr (cs_tbl s ! i) = Some b" "cs_heap s b = Some (O_cc (call_cc k m t))"
    and "cs_heap s' = (cs_heap s)(b \<mapsto> O_cc (call_cc k m (Some p)), p \<mapsto> O_term tr)" "cs_tbl s' = cs_tbl s" "cs_next s' = cs_next s"
  shows "own s' (xs[i := Some (k\<lparr>ca_term := Some tr\<rparr>)]) (F - {p})"
proof -
  obtain xas a m' t' where x: "xs = map fst xas" "own_by s xas F"
    "xas ! i = (Some k, a # m' # (case t' of None \<Rightarrow> [] | Some p \<Rightarrow> [p]))"
    and a: "tb_cc_ptr (cs_tbl s ! i) = Some a" "tb_rtp (cs_tbl s ! i) = Some (ca_rtp k)"
    "cs_heap s a = Some (O_cc (call_cc k m' t'))" "cs_heap s m' = Some (O_max (ca_max k))" "a \<notin> F" "m' \<notin> F" "a \<noteq> m'"
    by (rule own_slot [OF assms(1-3)])
  have e: "a = b" "m' = m" using a assms(6,7) by (auto dest: arg_cong [of _ _ cc_max])
  have "own_by s' (xas[i := (Some (k\<lparr>ca_term := Some tr\<rparr>), [b, m, p])]) (F - {p})"
  proof (rule own_by_update [OF x(2), where e = "cs_tbl s ! i"])
    show "cs_tbl s' = (cs_tbl s)[i := cs_tbl s ! i]" using assms(9) by simp
    show "rep (cs_heap s') (cs_tbl s ! i) (Some (k\<lparr>ca_term := Some tr\<rparr>)) [b, m, p]"
      using a assms(4,6,8) e by (auto simp: rep_def call_cc_def)
  qed (use assms a e x in \<open>auto simp: own_by_def\<close>)
  then show ?thesis unfolding own_def
    by (intro exI [of _ "xas[i := (Some (k\<lparr>ca_term := Some tr\<rparr>), [b, m, p])]"]) (simp add: x(1) map_update)
qed

lemma own_rtp:
  assumes "own s xs F" "i < length xs" "xs ! i = Some k"
  shows "own (set_entry i ((cs_tbl s ! i)\<lparr>tb_rtp := Some r\<rparr>) s) (xs[i := Some (k\<lparr>ca_rtp := r\<rparr>)]) F"
proof -
  obtain xas where x: "xs = map fst xas" "own_by s xas F" using assms(1) by (auto simp: own_def)
  have i: "i < length xas" "fst (xas ! i) = Some k" using assms(2,3) x(1) by simp_all
  note sl = own_by_slot [OF x(2) i(1)]
  have "own_by (set_entry i ((cs_tbl s ! i)\<lparr>tb_rtp := Some r\<rparr>) s) (xas[i := (Some (k\<lparr>ca_rtp := r\<rparr>), snd (xas ! i))]) F"
  proof (rule own_by_update [OF x(2) i(1)])
    show "rep (cs_heap (set_entry i ((cs_tbl s ! i)\<lparr>tb_rtp := Some r\<rparr>) s)) ((cs_tbl s ! i)\<lparr>tb_rtp := Some r\<rparr>)
        (Some (k\<lparr>ca_rtp := r\<rparr>)) (snd (xas ! i))"
      using sl i(2) by (auto simp: rep_def set_entry_def call_cc_def split: option.splits)
  qed (use sl x(2) in \<open>auto simp: set_entry_def own_by_def\<close>)
  then show ?thesis unfolding own_def
    by (intro exI [of _ "xas[i := (Some (k\<lparr>ca_rtp := r\<rparr>), snd (xas ! i))]"]) (simp add: x(1) map_update)
qed

lemma own_drop:
  assumes "own s xs F" "i < length xs" "xs ! i = Some k"
  shows "\<exists>s'. cc_server_call_clear i s = Some s' \<and> own s' (xs[i := None]) F \<and> cs_world s' = cs_world s \<and>
    cs_sim s' = cs_sim s \<and> cs_next s' = cs_next s"
proof -
  obtain xas a m t where x: "xs = map fst xas" "own_by s xas F"
    "xas ! i = (Some k, a # m # (case t of None \<Rightarrow> [] | Some p \<Rightarrow> [p]))"
    and a: "tb_cc_ptr (cs_tbl s ! i) = Some a" "cs_heap s a = Some (O_cc (call_cc k m t))"
    "cs_heap s m = Some (O_max (ca_max k))" "a \<noteq> m"
    "case t of None \<Rightarrow> ca_term k = None
       | Some p \<Rightarrow> p \<notin> F \<and> p \<noteq> a \<and> p \<noteq> m \<and> (\<exists>tr. ca_term k = Some tr \<and> cs_heap s p = Some (O_term tr))"
    by (rule own_slot [OF assms])
  define h where "h = (case t of None \<Rightarrow> (cs_heap s)(a := None, m := None)
      | Some p \<Rightarrow> (cs_heap s)(a := None, m := None, p := None))"
  define s' where "s' = set_entry i \<lparr>tb_cc_ptr = None, tb_rtp = None\<rparr> (s\<lparr>cs_heap := h\<rparr>)"
  have c: "cc_server_call_clear i s = Some s'"
    using a by (auto simp: cc_server_call_clear_def set_status_def set_cc_def cc_free_def cc_mem_free_def s'_def h_def put_def
        set_entry_def fun_upd_twist Let_def split: option.splits)
  have "own_by s' (xas[i := (None, [])]) F"
    by (rule own_by_update [OF x(2), where e = "\<lparr>tb_cc_ptr = None, tb_rtp = None\<rparr>"])
      (use x assms(2) in \<open>auto simp: rep_def s'_def set_entry_def h_def own_by_def split: option.splits if_splits\<close>)
  then have "own s' (xs[i := None]) F" unfolding own_def
    by (intro exI [of _ "xas[i := (None, [])]"]) (simp add: x(1) map_update)
  then show ?thesis using c by (simp add: s'_def set_entry_def)
qed

section \<open>A request\<close>

lemma set_cc_Some: "cs_heap s a = Some (O_cc c) \<Longrightarrow> set_cc a f s = Some (put a (O_cc (f c)) s)"
  by (simp add: set_cc_def)

lemma set_maxsec_Some:
  "cs_heap s a = Some (O_cc c) \<Longrightarrow> cc_max c = Some p \<Longrightarrow> cs_heap s p = Some (O_max mx) \<Longrightarrow>
   set_maxsec a v s = Some (put p (O_max (mx\<lparr>mx_maxsec := v\<rparr>)) s)"
  by (simp add: set_maxsec_def)

definition req_cc :: "u16 \<Rightarrow> cc_events \<Rightarrow> u16 \<Rightarrow> cc_obj \<Rightarrow> addr \<Rightarrow> cc" where
  "req_cc srv ev st obj p = (with_body obj p (cc0\<lparr>cc_t := ev, cc_cdr_server_id := srv\<rparr>))\<lparr>cc_status := st\<rparr>"

lemma req_cc_simps [simp]:
  "cc_t (req_cc srv ev st obj p) = ev" "cc_cdr_server_id (req_cc srv ev st obj p) = srv"
  "cc_status (req_cc srv ev st obj p) = st" "(req_cc srv ev st obj p)\<lparr>cc_status := st'\<rparr> = req_cc srv ev st' obj p"
  by (cases obj; simp add: req_cc_def with_body_def cc0_def)+

lemma req_cc_parts [simp]:
  "cc_max (req_cc srv ev st (O_max m) p) = Some p" "cc_term (req_cc srv ev st (O_term t) p) = Some p"
  "cc_bal (req_cc srv ev st (O_bal b) p) = Some p" "cc_rate (req_cc srv ev st (O_rate r) p) = Some p"
  by (simp_all add: req_cc_def with_body_def)

lemma cc_free_req:
  assumes "own s xs F" "a \<in> F" "p \<in> F" "a \<noteq> p" "cs_heap s a = Some (O_cc (req_cc srv ev 0 obj p))" "cs_heap s p = Some obj"
    and "\<not> (\<exists>c. obj = O_cc c)"
  shows "\<exists>s'. cc_free a s = Some s' \<and> own s' xs F \<and> cs_world s' = cs_world s"
proof -
  have o: "own (s\<lparr>cs_heap := (cs_heap s)(p := None, a := None)\<rparr>) xs F"
    using own_free [OF own_free [OF assms(1,3)] assms(2)] by simp
  have "cc_free a s = Some (s\<lparr>cs_heap := (cs_heap s)(p := None, a := None)\<rparr>)"
    using assms(4-7) by (cases obj) (auto simp: cc_free_def cc_mem_free_def req_cc_def with_body_def cc0_def)
  then show ?thesis using o by simp
qed

text \<open>A request that is over is freed, with its struct.\<close>

lemma answer_over:
  assumes "own s xs F" "a \<in> F" "p \<in> F" "a \<noteq> p" "cs_heap s a = Some (O_cc (req_cc srv ev st obj p))" "cs_heap s p = Some obj"
    and "\<not> (\<exists>c. obj = O_cc c)" "my_cc_reply (cs_heap s) (req_cc srv ev st obj p) = Some (data, True)"
  shows "\<exists>s'. my_cc_finish my a s = Some (my_cc_ack my data, s') \<and> own s' xs {} \<and> cs_world s' = cs_world s"
proof -
  define s2 where "s2 = put a (O_cc (req_cc srv ev 0 obj p)) s"
  have "a < cs_next s" using own_below [OF assms(1)] assms(5) by simp
  then have o: "own s2 xs F" using own_put [OF assms(1,2)] by (simp add: s2_def)
  have h: "cs_heap s2 a = Some (O_cc (req_cc srv ev 0 obj p))" "cs_heap s2 p = Some obj"
    using assms(4,6) by (simp_all add: s2_def)
  obtain s' where s': "cc_free a s2 = Some s'" "own s' xs F" "cs_world s' = cs_world s2"
    using cc_free_req [OF o assms(2-4) h assms(7)] by blast
  have "my_cc_comp_ack a s = Some (data, s2)"
    using assms(5,8) by (simp add: my_cc_comp_ack_def set_status_def set_cc_Some s2_def)
  moreover have "cc_release a s2 = Some s'" using s'(1) h by (simp add: cc_release_def)
  ultimately show ?thesis using s'(2,3) own_weaken [OF s'(2)] by (simp add: s2_def my_cc_finish_def)
qed

text \<open>A call that goes on stays as it is.\<close>

lemma answer_stays:
  assumes "cs_heap s a = Some (O_cc (req_cc srv maxsec_event CC_STATUS_ACTIVE (O_max mx) p))" "cs_heap s p = Some (O_max mx)"
    and "0 \<le> mx_maxsec mx"
  shows "my_cc_finish my a s = Some (my_cc_ack my (dec_int (mx_maxsec mx)), s)"
  using assms by (simp add: my_cc_finish_def my_cc_comp_ack_def my_cc_reply_def cc_release_def)

lemma req_call_cc: "req_cc srv maxsec_event CC_STATUS_ACTIVE (O_max mx) p = call_cc \<lparr>ca_server = srv, ca_max = mx', ca_rtp = r, ca_term = None\<rparr> p None"
  by (simp add: req_cc_def call_cc_def with_body_def cc0_def)

lemma req_cc_body: "req_cc srv ev st (O_max mx) p = req_cc srv ev st (O_max mx') p"
  "req_cc srv ev st (O_term t) p = req_cc srv ev st (O_term t') p"
  by (simp_all add: req_cc_def with_body_def)

lemma enter_spec:
  assumes "own s xs {a, p}" "a \<noteq> p" "cs_heap s a = Some (O_cc (req_cc srv maxsec_event CC_STATUS_ACTIVE (O_max mx) p))"
    and "cs_heap s p = Some (O_max mx)"
  shows "case enter \<lparr>ca_server = srv, ca_max = mx, ca_rtp = rtp, ca_term = None\<rparr> xs of
      None \<Rightarrow> cc_server_call_init a rtp s = (RE_ERROR, s)
    | Some xs' \<Rightarrow> \<exists>s'. cc_server_call_init a rtp s = (RE_SUCCESS, s') \<and> own s' xs' {} \<and> cs_heap s' = cs_heap s \<and> cs_world s' = cs_world s"
proof (cases "index_of (\<lambda>x. x = None) 0 xs")
  case None
  then show ?thesis by (simp add: enter_def cc_server_call_init_def own_first_free [OF assms(1)])
next
  case (Some i)
  let ?k = "\<lparr>ca_server = srv, ca_max = mx, ca_rtp = rtp, ca_term = None\<rparr>"
  have i: "i < length xs" "xs ! i = None" using index_of_Some [OF Some] by simp_all
  have "own (s\<lparr>cs_tbl := (cs_tbl s)[i := \<lparr>tb_cc_ptr = Some a, tb_rtp = Some (ca_rtp ?k)\<rparr>]\<rparr>) (xs[i := Some ?k]) ({a, p} - {a, p})"
    by (rule own_enter [OF assms(1) i]) (use assms req_call_cc in auto)
  then show ?thesis by (simp add: enter_def Some cc_server_call_init_def own_first_free [OF assms(1)])
qed

lemma maxsec_over:
  assumes "own s xs {a, p}" "a \<noteq> p" "cs_heap s a = Some (O_cc (req_cc srv maxsec_event CC_STATUS_ACTIVE (O_max mx) p))"
    and "cs_heap s p = Some (O_max mx)" "mx_maxsec mx < 0"
  shows "\<exists>s'. my_cc_finish my a s = Some (my_cc_ack my (dec_int (mx_maxsec mx)), s') \<and> own s' xs {} \<and> cs_world s' = cs_world s"
  by (rule answer_over [OF assms(1) _ _ assms(2-4)]) (use assms in \<open>simp_all add: my_cc_reply_def\<close>)

text \<open>Writing the limit into the request.\<close>

lemma own_set_maxsec:
  assumes "own s xs {a, p}" "a \<noteq> p" "cs_heap s a = Some (O_cc (req_cc srv maxsec_event CC_STATUS_ACTIVE (O_max mx) p))"
    and "cs_heap s p = Some (O_max mx)"
  shows "\<exists>s'. set_maxsec a v s = Some s' \<and> own s' xs {a, p} \<and> cs_world s' = cs_world s \<and>
    cs_heap s' a = Some (O_cc (req_cc srv maxsec_event CC_STATUS_ACTIVE (O_max (mx\<lparr>mx_maxsec := v\<rparr>)) p)) \<and>
    cs_heap s' p = Some (O_max (mx\<lparr>mx_maxsec := v\<rparr>))"
proof -
  have "p < cs_next s" using own_below [OF assms(1)] assms(4) by simp
  then show ?thesis
    using own_put [OF assms(1), of p] assms(2-4) req_cc_body(1) [of srv maxsec_event 1 mx p "mx\<lparr>mx_maxsec := v\<rparr>"]
    by (simp add: set_maxsec_Some)
qed

text \<open>From the answer of the limit to the end of the request.\<close>

lemma finish_maxsec:
  assumes "own s xs {a, p}" "a \<noteq> p" "cs_heap s a = Some (O_cc (req_cc srv maxsec_event CC_STATUS_ACTIVE (O_max mx) p))"
    and "cs_heap s p = Some (O_max mx)" "mx' = mx\<lparr>mx_maxsec := pre_maxsec pre'\<rparr>"
    and "case r of None \<Rightarrow> pre_maxsec pre' \<le> 0 | Some _ \<Rightarrow> 0 < pre_maxsec pre'"
    and "(n, xs') = (case r of
        None \<Rightarrow> (pre_maxsec pre', xs)
      | Some rtp \<Rightarrow> (case enter \<lparr>ca_server = srv, ca_max = mx', ca_rtp = rtp\<lparr>ra_pre := pre'\<rparr>, ca_term = None\<rparr> xs of
          None \<Rightarrow> (CC_MAXSEC_NO_CCTBL, xs) | Some xs' \<Rightarrow> (pre_maxsec pre', xs')))"
  shows "\<exists>s'. cc_maxsec_enter a r pre' s \<bind> my_cc_finish my a = Some (my_cc_ack my (dec_int n), s') \<and> own s' xs' {} \<and>
    cs_world s' = cs_world s"
proof -
  obtain s2 where s2: "set_maxsec a (pre_maxsec pre') s = Some s2" "own s2 xs {a, p}" "cs_world s2 = cs_world s"
    "cs_heap s2 a = Some (O_cc (req_cc srv maxsec_event CC_STATUS_ACTIVE (O_max mx') p))" "cs_heap s2 p = Some (O_max mx')"
    using own_set_maxsec [OF assms(1-4)] assms(5) by blast
  have mx': "mx_maxsec mx' = pre_maxsec pre'" by (simp add: assms(5))
  show ?thesis
  proof (cases r)
    case None
    then consider "pre_maxsec pre' < 0" | "pre_maxsec pre' = 0" using assms(6) by fastforce
    then show ?thesis
    proof cases
      case 1
      then show ?thesis using maxsec_over [OF s2(2) assms(2) s2(4,5)] None s2(1,3) mx' assms(7)
        by (auto simp: cc_maxsec_enter_def)
    next
      case 2
      then show ?thesis using answer_stays [OF s2(4,5)] own_weaken [OF s2(2)] None s2(1,3) mx' assms(7)
        by (auto simp: cc_maxsec_enter_def)
    qed
  next
    case (Some rtp)
    note ent = enter_spec [OF s2(2) assms(2) s2(4,5), of "rtp\<lparr>ra_pre := pre'\<rparr>"]
    show ?thesis
    proof (cases "enter \<lparr>ca_server = srv, ca_max = mx', ca_rtp = rtp\<lparr>ra_pre := pre'\<rparr>, ca_term = None\<rparr> xs")
      case None
      obtain s3 where s3: "set_maxsec a CC_MAXSEC_NO_CCTBL s2 = Some s3" "own s3 xs {a, p}" "cs_world s3 = cs_world s2"
        "cs_heap s3 a = Some (O_cc (req_cc srv maxsec_event CC_STATUS_ACTIVE (O_max (mx'\<lparr>mx_maxsec := -10\<rparr>)) p))"
        "cs_heap s3 p = Some (O_max (mx'\<lparr>mx_maxsec := -10\<rparr>))"
        using own_set_maxsec [OF s2(2) assms(2) s2(4,5)] by blast
      then have "cc_maxsec_enter a r pre' s = Some s3" using ent None Some s2(1) by (simp add: cc_maxsec_enter_def)
      then show ?thesis using maxsec_over [OF s3(2) assms(2) s3(4,5)] s3(3) s2(3) assms(7) None Some by auto
    next
      case e: (Some xs2)
      then obtain s3 where s3: "cc_server_call_init a (rtp\<lparr>ra_pre := pre'\<rparr>) s2 = (RE_SUCCESS, s3)" "own s3 xs2 {}"
        "cs_heap s3 = cs_heap s2" "cs_world s3 = cs_world s2" using ent by auto
      then have "cc_maxsec_enter a r pre' s = Some s3" using Some s2(1) by (simp add: cc_maxsec_enter_def)
      moreover have "my_cc_finish my a s3 = Some (my_cc_ack my (dec_int (mx_maxsec mx')), s3)"
        by (rule answer_stays) (use s3(3) s2 assms(6) Some mx' in auto)
      ultimately show ?thesis using s3 s2(3) assms(7) e Some mx' by simp
    qed
  qed
qed

text \<open>The other events.\<close>

lemma serve_term:
  assumes "own s xs {a, p}" "a \<noteq> p" "cs_heap s a = Some (O_cc (req_cc srv term_event CC_STATUS_ACTIVE (O_term t) p))"
    and "cs_heap s p = Some (O_term t)"
  shows "\<exists>s'. my_cc_serve api dbp my a s =
      Some (my_cc_ack my (case end_call t xs of None \<Rightarrow> ''nok'' | Some _ \<Rightarrow> ''ok''), s') \<and>
    own s' (case end_call t xs of None \<Rightarrow> xs | Some xs' \<Rightarrow> xs') {} \<and> cs_world s' = cs_world s"
proof (cases "index_of (has_uid (ct_call_uid t)) 0 xs")
  case None
  define s1 where "s1 = put p (O_term (t\<lparr>ct_tbl_idx := -1\<rparr>)) s"
  have o: "own s1 xs {a, p}" using own_put [OF assms(1)] own_below [OF assms(1)] assms(4) by (simp add: s1_def)
  have m: "cc_event_manager api dbp a s = Some s1"
    using own_search [OF assms(1,4)] None assms(2-4)
    by (simp add: cc_event_manager_def cc_term_f_def cc_server_call_search_call_uid_def set_tbl_idx_def s1_def)
  have "\<exists>s'. my_cc_finish my a s1 = Some (my_cc_ack my ''nok'', s') \<and> own s' xs {} \<and> cs_world s' = cs_world s1"
    by (rule answer_over [OF o _ _ assms(2), of srv term_event 1 "O_term (t\<lparr>ct_tbl_idx := -1\<rparr>)"])
      (use assms(2,3) req_cc_body(2) [of srv term_event 1 t p] in \<open>simp_all add: s1_def my_cc_reply_def\<close>)
  then show ?thesis using m None by (simp add: my_cc_serve_def end_call_def s1_def)
next
  case (Some i)
  then obtain k where k: "i < length xs" "xs ! i = Some k" using index_of_Some [OF Some] by (auto simp: has_uid_def split: option.splits)
  obtain xas b m tp where b: "tb_cc_ptr (cs_tbl s ! i) = Some b" "cs_heap s b = Some (O_cc (call_cc k m tp))" "b \<notin> {a, p}"
    by (rule own_slot [OF assms(1) k])
  define t' where "t' = t\<lparr>ct_tbl_idx := int i\<rparr>"
  define s1 where "s1 = put p (O_term t') (put b (O_cc (call_cc k m (Some p))) s)"
  have s0: "cc_server_call_search_call_uid a s = Some (int i, put b (O_cc (call_cc k m (Some p))) s)"
    using own_search [OF assms(1,4)] Some assms(3) b by (simp add: cc_server_call_search_call_uid_def set_cc_def)
  have m: "cc_event_manager api dbp a s = Some s1"
    using s0 assms(2-4) b
    by (simp add: cc_event_manager_def cc_term_f_def cc_server_call_term_def set_cc_def set_tbl_idx_def s1_def t'_def put_def)
  have "own s1 (xs[i := Some (k\<lparr>ca_term := Some t'\<rparr>)]) ({a, p} - {p})"
    by (rule own_end [OF assms(1) k _ _ b(1,2)]) (use own_below [OF assms(1)] assms(4) in \<open>simp_all add: s1_def\<close>)
  moreover have "{a, p} - {p} = {a}" using assms(2) by blast
  ultimately have o: "own s1 (xs[i := Some (k\<lparr>ca_term := Some t'\<rparr>)]) {a}" by simp
  have h: "cs_heap s1 a = cs_heap s a" "cs_heap s1 p = Some (O_term t')" using b(3) assms(2) by (auto simp: s1_def)
  have "my_cc_finish my a s1 = Some (my_cc_ack my ''ok'', s1\<lparr>cs_heap := (cs_heap s1)(a := None)\<rparr>)"
    using h assms(3)
    by (simp add: my_cc_finish_def my_cc_comp_ack_def my_cc_reply_def cc_release_def cc_mem_free_def t'_def)
  then show ?thesis using m Some k own_weaken [OF own_free [OF o]]
    by (simp add: my_cc_serve_def end_call_def t'_def s1_def)
qed

lemma serve_ends:
  assumes "own s xs {a, p}" "a \<noteq> p" "cs_heap s a = Some (O_cc (req_cc srv ev CC_STATUS_ACTIVE obj p))" "cs_heap s p = Some obj"
    and "ev = balance_event \<and> (\<exists>b. obj = O_bal b) \<or> ev = rate_event \<and> (\<exists>r. obj = O_rate r) \<or> ev = cprice_event \<and> (\<exists>c. obj = O_cprice c)"
  shows "\<exists>s'. my_cc_serve api dbp my a s = Some (my_cc_ack my (case obj of O_bal b \<Rightarrow> fmt_f (cb_amount b)
      | O_rate r \<Rightarrow> fmt_f (cr_rate_price r) | _ \<Rightarrow> ''ok''), s') \<and> own s' xs {} \<and> cs_world s' = cs_world s"
proof -
  define s1 where "s1 = put a (O_cc (req_cc srv ev 0 obj p)) s"
  have o: "own s1 xs {a, p}" using own_put [OF assms(1)] own_below [OF assms(1)] assms(3) by (simp add: s1_def)
  have m: "cc_event_manager api dbp a s = Some s1" using assms(3,5)
    by (auto simp: cc_event_manager_def cc_balance_f_def cc_rate_f_def cc_cprice_f_def set_status_def set_cc_def s1_def)
  have "\<exists>s'. my_cc_finish my a s1 = Some (my_cc_ack my (case obj of O_bal b \<Rightarrow> fmt_f (cb_amount b)
      | O_rate r \<Rightarrow> fmt_f (cr_rate_price r) | _ \<Rightarrow> ''ok''), s') \<and> own s' xs {} \<and> cs_world s' = cs_world s1"
    by (rule answer_over [OF o _ _ assms(2), of srv ev 0 obj]) (use assms(2,4,5) in \<open>auto simp: s1_def my_cc_reply_def\<close>)
  then show ?thesis using m by (simp add: my_cc_serve_def s1_def)
qed

lemma serve_status:
  assumes "own s xs {a}" "cs_heap s a = Some (O_cc (cc0\<lparr>cc_t := status_event, cc_cdr_server_id := srv\<rparr>))"
  shows "\<exists>s'. my_cc_serve api dbp my a s = Some (my_cc_ack my ''ok'', s') \<and> own s' xs {} \<and> cs_world s' = cs_world s"
proof -
  have "my_cc_serve api dbp my a s = Some (my_cc_ack my ''ok'', s\<lparr>cs_heap := (cs_heap s)(a := None)\<rparr>)"
    using assms(2) by (simp add: my_cc_serve_def cc_event_manager_def my_cc_finish_def my_cc_comp_ack_def my_cc_reply_def
        set_status_def set_cc_def cc_release_def cc_free_def cc_mem_free_def cc0_def put_def)
  then show ?thesis using own_weaken [OF own_free [OF assms(1)]] by simp
qed

text \<open>What the parser can deliver.\<close>

definition fits_event :: "cc_events \<Rightarrow> cc_obj option \<Rightarrow> bool" where
  "fits_event ev body \<longleftrightarrow> (case body of
     None \<Rightarrow> ev = status_event
   | Some (O_max m) \<Rightarrow> ev = maxsec_event
   | Some (O_bal b) \<Rightarrow> ev = balance_event
   | Some (O_rate r) \<Rightarrow> ev = rate_event
   | Some (O_cprice c) \<Rightarrow> ev = cprice_event
   | Some (O_term t) \<Rightarrow> ev = term_event
   | Some (O_cc c) \<Rightarrow> False)"

lemma with_tok_Some: "with_tok s leak k = Some r \<Longrightarrow> r = Broken leak \<or> (\<exists>t s'. k t s' = Some r)"
  by (auto simp: with_tok_def split: prod.splits option.splits)

lemma with_str_Some: "with_str n s leak k = Some r \<Longrightarrow> r = Broken leak \<or> (\<exists>t s'. length t < n \<and> k t s' = Some r)"
  by (auto simp: with_str_def with_tok_def split: prod.splits option.splits if_splits)

lemma with_int_Some: "with_int s leak k = Some r \<Longrightarrow> r = Broken leak \<or> (\<exists>v s'. k v s' = Some r)"
  by (auto simp: with_int_def with_tok_def split: prod.splits option.splits Option.bind_splits)

lemmas fields_dests = with_tok_Some with_str_Some with_int_Some

lemma fields_fit: "my_cc_fields now buffer = Some (Parsed my ev body) \<Longrightarrow> fits_event ev body"
  by (auto simp: my_cc_fields_def my_maxsec_fields_def my_rate_fields_def my_balance_fields_def my_cprice_fields_def
      my_term_fields_def fits_event_def Let_def split: if_splits dest!: fields_dests)

lemma fields_leak_no_cc: "my_cc_fields now buffer = Some (Broken (Some obj)) \<Longrightarrow> \<not> (\<exists>c. obj = O_cc c)"
  by (auto simp: my_cc_fields_def my_maxsec_fields_def my_rate_fields_def my_balance_fields_def my_cprice_fields_def
      my_term_fields_def Let_def split: if_splits dest!: fields_dests)

text \<open>What call control needs of the limit it asks for: a call that is let through has a positive one,
  a call that is not has none.\<close>

locale call_limits =
  fixes limit :: "nat \<Rightarrow> rating \<Rightarrow> int \<Rightarrow> 'w \<Rightarrow> (racc option \<times> rating \<times> 'w) option"
  assumes granted: "limit dbp pre sim w = Some (Some rtp, pre', w') \<Longrightarrow> 0 < pre_maxsec pre'"
    and refused: "limit dbp pre sim w = Some (None, pre', w') \<Longrightarrow> pre_maxsec pre = 0 \<Longrightarrow> pre_maxsec pre' \<le> 0"
begin

lemma serve_maxsec:
  assumes "own s xs {a, p}" "a \<noteq> p" "cs_heap s a = Some (O_cc (req_cc srv maxsec_event CC_STATUS_ACTIVE (O_max mx) p))"
    and "cs_heap s p = Some (O_max mx)" "rt_api_maxsec api = limit"
  shows "case spec_maxsec api dbp srv mx xs (cs_world s) of
      None \<Rightarrow> my_cc_serve api dbp my a s = None
    | Some (n, xs', w') \<Rightarrow> \<exists>s'. my_cc_serve api dbp my a s = Some (my_cc_ack my (dec_int n), s') \<and> own s' xs' {} \<and> cs_world s' = w'"
proof (cases "mx_clg mx = []")
  case True
  obtain s1 where s1: "set_maxsec a CC_MAXSEC_NO_PRE s = Some s1" "own s1 xs {a, p}" "cs_world s1 = cs_world s"
    "cs_heap s1 a = Some (O_cc (req_cc srv maxsec_event CC_STATUS_ACTIVE (O_max (mx\<lparr>mx_maxsec := -9\<rparr>)) p))"
    "cs_heap s1 p = Some (O_max (mx\<lparr>mx_maxsec := -9\<rparr>))"
    using own_set_maxsec [OF assms(1-4)] by blast
  then have "my_cc_serve api dbp my a s = my_cc_finish my a s1" using True assms(3,4)
    by (simp add: my_cc_serve_def cc_event_manager_def cc_maxsec_f_def cc_maxsec_count_def)
  then show ?thesis using maxsec_over [OF s1(2) assms(2) s1(4,5), of my] s1(3) True by (simp add: spec_maxsec_def)
next
  case False
  let ?pre = "cc_maxsec_pre (cc0\<lparr>cc_cdr_server_id := srv\<rparr>) mx"
  have pre: "cc_maxsec_pre (req_cc srv maxsec_event CC_STATUS_ACTIVE (O_max mx) p) mx = ?pre" by (simp add: cc_maxsec_pre_def)
  have count: "cc_maxsec_count a s = Some (Some (?pre, calls_up (mx_clg mx) xs))"
    using False assms(3,4) own_count [OF assms(1)] pre by (simp add: cc_maxsec_count_def cc_maxsec_pre_def)
  show ?thesis
  proof (cases "limit dbp ?pre (calls_up (mx_clg mx) xs) (cs_world s)")
    case None
    then show ?thesis using False count assms(3,5)
      by (simp add: spec_maxsec_def my_cc_serve_def cc_event_manager_def cc_maxsec_f_def cc_maxsec_limit_def)
  next
    case (Some res)
    obtain r pre' w' where res: "res = (r, pre', w')" by (cases res) auto
    define s1 where "s1 = s\<lparr>cs_world := w'\<rparr>"
    have s1: "own s1 xs {a, p}" "cs_heap s1 = cs_heap s" "cs_world s1 = w'" using assms(1) by (simp_all add: s1_def)
    have law: "case r of None \<Rightarrow> pre_maxsec pre' \<le> 0 | Some _ \<Rightarrow> 0 < pre_maxsec pre'"
      using granted refused [of dbp ?pre] Some res by (auto simp: cc_maxsec_pre_def rating0_def split: option.splits)
    define mx' where "mx' = mx\<lparr>mx_maxsec := pre_maxsec pre'\<rparr>"
    obtain n xs' where n: "(n, xs') = (case r of
        None \<Rightarrow> (pre_maxsec pre', xs)
      | Some rtp \<Rightarrow> (case enter \<lparr>ca_server = srv, ca_max = mx', ca_rtp = rtp\<lparr>ra_pre := pre'\<rparr>, ca_term = None\<rparr> xs of
          None \<Rightarrow> (CC_MAXSEC_NO_CCTBL, xs) | Some xs' \<Rightarrow> (pre_maxsec pre', xs')))" by (metis prod.collapse)
    have "my_cc_serve api dbp my a s = cc_maxsec_enter a r pre' s1 \<bind> my_cc_finish my a"
      using count Some res assms(3,5)
      by (simp add: my_cc_serve_def cc_event_manager_def cc_maxsec_f_def cc_maxsec_limit_def s1_def)
    moreover have "spec_maxsec api dbp srv mx xs (cs_world s) = Some (n, xs', w')"
      using False Some res assms(5) n by (auto simp: spec_maxsec_def mx'_def Let_def split: option.splits)
    ultimately show ?thesis
      using finish_maxsec [OF s1(1) assms(2) _ _ mx'_def law n, of my] assms(3,4) s1(2,3) by auto
  qed
qed

lemma answer_refines:
  assumes "own s xs {}" "rt_api_maxsec api = limit"
  shows "case spec_answer api dbp now buffer xs (cs_world s) of
      None \<Rightarrow> my_cc_answer api dbp now buffer s = None
    | Some (ack, xs', w') \<Rightarrow> \<exists>s'. my_cc_answer api dbp now buffer s = Some (ack, s') \<and> own s' xs' {} \<and> cs_world s' = w'"
proof -
  define a s1 where "a = cs_next s" and "s1 = snd (cc_alloc s)"
  have o1: "own s1 xs {a}" and al: "cc_alloc s = (a, s1)"
    using own_alloc(1,2) [OF assms(1), of "O_cc cc0"] by (simp_all add: s1_def a_def cc_alloc_def prod_eq_iff)
  have h1: "cs_heap s1 a = Some (O_cc cc0)" "cs_world s1 = cs_world s"
    by (simp_all add: s1_def a_def cc_alloc_def cc_mem_alloc_def)
  show ?thesis
  proof (cases "my_cc_fields now buffer")
    case None
    then show ?thesis using al by (simp add: spec_answer_def my_cc_answer_def my_cc_parser_def)
  next
    case (Some r)
    show ?thesis
    proof (cases r)
      case Unknown
      then show ?thesis using Some al h1 own_weaken [OF own_free [OF o1]]
        by (simp add: spec_answer_def my_cc_answer_def my_cc_parser_def cc_mem_free_def)
    next
      case (Broken leak)
      then show ?thesis using Some al h1 own_weaken [OF o1] own_weaken [OF own_alloc(1) [OF o1]]
        by (auto simp: spec_answer_def my_cc_answer_def my_cc_parser_def cc_mem_alloc_def split: option.splits)
    next
      case (Parsed my ev body)
      have fit: "fits_event ev body" using fields_fit Some Parsed by blast
      define c where "c = cc0\<lparr>cc_t := ev, cc_cdr_server_id := my_cdr_server_id my\<rparr>"
      show ?thesis
      proof (cases body)
        case None
        have "own (put a (O_cc c) s1) xs {a}" using own_put [OF o1] own_below [OF o1] h1(1) by simp
        then obtain s' where "my_cc_serve api dbp my a (put a (O_cc c) s1) = Some (my_cc_ack my ''ok'', s')" "own s' xs {}"
          "cs_world s' = cs_world s1"
          using serve_status [of "put a (O_cc c) s1" xs a "my_cdr_server_id my" api dbp my] fit None
          by (auto simp: fits_event_def c_def)
        then show ?thesis using Some Parsed None al h1(2)
          by (simp add: spec_answer_def my_cc_answer_def my_cc_parser_def spec_event_def c_def)
      next
        case b: (Some obj)
        define p s2 where "p = cs_next s1" and "s2 = put a (O_cc (with_body obj p c)) (snd (cc_mem_alloc obj s1))"
        have al2: "cc_mem_alloc obj s1 = (p, snd (cc_mem_alloc obj s1))" "fst (cc_mem_alloc obj s1) = p" by (simp_all add: p_def cc_mem_alloc_def)
        have ap: "a \<noteq> p" using own_below [OF o1] h1(1) by (fastforce simp: p_def)
        have h2: "cs_heap s2 p = Some obj" "cs_heap s2 a = Some (O_cc (req_cc (my_cdr_server_id my) ev CC_STATUS_ACTIVE obj p))"
          "cs_world s2 = cs_world s"
          using ap h1(2) by (auto simp: s2_def p_def cc_mem_alloc_def req_cc_def c_def with_body_def cc0_def split: cc_obj.splits)
        have o2: "own s2 xs {a, p}"
          using own_put [OF own_alloc(1) [OF o1, of obj], of a] own_below [OF o1, of a] h1(1)
          by (simp add: s2_def p_def insert_commute cc_mem_alloc_def)
        have ans: "my_cc_answer api dbp now buffer s = my_cc_serve api dbp my a s2"
          using Some Parsed b al al2 by (simp add: my_cc_answer_def my_cc_parser_def s2_def c_def split_beta)
        show ?thesis
        proof (cases obj)
          case (O_cc x)
          then show ?thesis using fit b by (simp add: fits_event_def)
        next
          case (O_max mx)
          then have "ev = maxsec_event" using fit b by (simp add: fits_event_def)
          then show ?thesis
            using serve_maxsec [OF o2 ap _ _ assms(2), of "my_cdr_server_id my" mx dbp my] h2 O_max ans Some Parsed b
            by (auto simp: spec_answer_def spec_event_def split: option.splits)
        next
          case (O_term t)
          then have "ev = term_event" using fit b by (simp add: fits_event_def)
          then show ?thesis
            using serve_term [OF o2 ap, of "my_cdr_server_id my" t api dbp my] h2 O_term ans Some Parsed b
            by (auto simp: spec_answer_def spec_event_def split: option.splits)
        qed (use serve_ends [OF o2 ap h2(2,1), of api dbp my] h2(3) ans Some Parsed b fit in
            \<open>auto simp: fits_event_def spec_answer_def spec_event_def\<close>)
      qed
    qed
  qed
qed

end

section \<open>A pass of the table's thread\<close>

lemma entry_refines:
  assumes "own s xs {}" "i < length xs"
  shows "case spec_entry api limit now (xs ! i) (cs_world s) of
      None \<Rightarrow> cc_server_entry api limit now i s = None
    | Some (x, w) \<Rightarrow> \<exists>s'. cc_server_entry api limit now i s = Some s' \<and> own s' (xs[i := x]) {} \<and> cs_world s' = w \<and>
        cs_sim s' = (if x = None then cs_sim s else cs_sim s + 1)"
proof (cases "xs ! i")
  case None
  obtain xas where x: "xs = map fst xas" "own_by s xas {}" using assms(1) by (auto simp: own_def)
  have "fst (xas ! i) = None" "i < length xas" using None x(1) assms(2) by auto
  then have "rep (cs_heap s) (cs_tbl s ! i) None (snd (xas ! i))" using own_by_slot [OF x(2), of i] by simp
  then have "tb_cc_ptr (cs_tbl s ! i) = None" using rep_free by blast
  moreover have "xs[i := None] = xs" using None by (metis list_update_id)
  ultimately show ?thesis using None assms(1) by (simp add: cc_server_entry_def cc_server_work_def spec_entry_def)
next
  case (Some k)
  obtain xas a m t where e: "tb_cc_ptr (cs_tbl s ! i) = Some a" "tb_rtp (cs_tbl s ! i) = Some (ca_rtp k)"
    "cs_heap s a = Some (O_cc (call_cc k m t))" "cs_heap s m = Some (O_max (ca_max k))"
    "case t of None \<Rightarrow> ca_term k = None
       | Some p \<Rightarrow> p \<notin> {} \<and> p \<noteq> a \<and> p \<noteq> m \<and> (\<exists>tr. ca_term k = Some tr \<and> cs_heap s p = Some (O_term tr))"
    by (rule own_slot [OF assms Some])
  have gone: "\<exists>s'. (do { s2 \<leftarrow> cc_server_call_clear i s1; Some (s2\<lparr>cs_sim := cs_sim s2 - 1 + 1\<rparr>) }) = Some s' \<and>
      own s' (xs[i := None]) {} \<and> cs_world s' = cs_world s1 \<and> cs_sim s' = cs_sim s"
    if "own s1 (xs[i := Some k']) {}" "cs_sim s1 = cs_sim s" for s1 k'
    using own_drop [OF that(1), of i k'] assms(2) that(2) by auto
  show ?thesis
  proof (cases t)
    case None
    have "xs[i := Some k] = xs" using Some by (metis list_update_id)
    then show ?thesis using None e Some assms(1) gone [of s k]
      by (auto simp: cc_server_entry_def cc_server_work_def spec_entry_def expired_def Let_def)
  next
    case t: (Some p)
    then obtain tr where tr: "ca_term k = Some tr" "cs_heap s p = Some (O_term tr)" using e(5) by auto
    show ?thesis
    proof (cases "ct_status tr = normal_clear")
      case False
      have "xs[i := Some k] = xs" using Some by (metis list_update_id)
      then show ?thesis using False e Some t tr assms(1) gone [of s k]
        by (auto simp: cc_server_entry_def cc_server_work_def spec_entry_def Let_def)
    next
      case True
      show ?thesis
      proof (cases "cc_finish_call api (ca_rtp k) (Some (ca_max k)) tr (cs_world s)")
        case None
        then show ?thesis using True e Some t tr
          by (simp add: cc_server_entry_def cc_server_work_def spec_entry_def Let_def)
      next
        case (Some res)
        obtain r w where r: "res = (r, w)" by fastforce
        define s1 where "s1 = (set_entry i ((cs_tbl s ! i)\<lparr>tb_rtp := Some r\<rparr>) s)\<lparr>cs_world := w\<rparr>"
        have "own s1 (xs[i := Some (k\<lparr>ca_rtp := r\<rparr>)]) {}" "cs_sim s1 = cs_sim s" "cs_world s1 = w"
          using own_rtp [OF assms \<open>xs ! i = Some k\<close>] by (simp_all add: s1_def set_entry_def)
        then show ?thesis using True e \<open>xs ! i = Some k\<close> t tr Some r gone [of s1]
          by (simp add: cc_server_entry_def cc_server_work_def spec_entry_def Let_def s1_def)
      qed
    qed
  qed
qed

lemma entries_refine:
  assumes "own s xs {}" "j \<le> length xs"
  shows "case spec_entries api limit now (drop j xs) (cs_world s) of
      None \<Rightarrow> cc_server_entries api limit now [j..<length xs] s = None
    | Some (ys, w) \<Rightarrow> \<exists>s'. cc_server_entries api limit now [j..<length xs] s = Some s' \<and> own s' (take j xs @ ys) {} \<and>
        cs_world s' = w \<and> cs_sim s' = cs_sim s + of_nat (length (List.filter (\<lambda>x. x \<noteq> None) ys))"
  using assms
proof (induction "length xs - j" arbitrary: j s xs)
  case 0
  then show ?case by simp
next
  case (Suc d)
  then have j: "j < length xs" by simp
  have d: "drop j xs = xs ! j # drop (Suc j) xs" "[j..<length xs] = j # [Suc j..<length xs]"
    using j by (simp_all add: Cons_nth_drop_Suc upt_conv_Cons)
  note ent = entry_refines [OF Suc.prems(1) j, of api limit now]
  show ?case
  proof (cases "spec_entry api limit now (xs ! j) (cs_world s)")
    case None
    then show ?thesis using ent by (simp add: d)
  next
    case (Some xw)
    obtain x w where xw: "xw = (x, w)" by fastforce
    then obtain s1 where s1: "cc_server_entry api limit now j s = Some s1" "own s1 (xs[j := x]) {}" "cs_world s1 = w"
      "cs_sim s1 = (if x = None then cs_sim s else cs_sim s + 1)" using ent Some by auto
    have ih: "case spec_entries api limit now (drop (Suc j) xs) w of
        None \<Rightarrow> cc_server_entries api limit now [Suc j..<length xs] s1 = None
      | Some (ys, w) \<Rightarrow> \<exists>s'. cc_server_entries api limit now [Suc j..<length xs] s1 = Some s' \<and>
          own s' (take (Suc j) (xs[j := x]) @ ys) {} \<and> cs_world s' = w \<and>
          cs_sim s' = cs_sim s1 + of_nat (length (List.filter (\<lambda>x. x \<noteq> None) ys))"
      using Suc.hyps(1) [of "xs[j := x]" "Suc j" s1, unfolded length_list_update] Suc.hyps(2) s1(2,3) j by simp
    have "take (Suc j) (xs[j := x]) = take j xs @ [x]" using j by (simp add: take_Suc_conv_app_nth)
    then show ?thesis using ih Some xw s1 by (auto simp: d split: option.splits)
  qed
qed

lemma pass_refines:
  assumes "own s xs {}"
  shows "case spec_entries api limit now xs (cs_world s) of
      None \<Rightarrow> cc_server_pass api limit now s = None
    | Some (ys, w) \<Rightarrow> \<exists>s'. cc_server_pass api limit now s = Some s' \<and> own s' ys {} \<and> cs_world s' = w \<and>
        cs_sim s' = of_nat (length (List.filter (\<lambda>x. x \<noteq> None) ys))"
  using entries_refine [of "s\<lparr>cs_sim := 0\<rparr>" xs 0 api limit now] assms own_len [OF assms]
  by (auto simp: cc_server_pass_def split: option.splits)

lemma spec_entries_slots:
  "spec_entries api limit now xs w = Some (ys, w') \<Longrightarrow>
   ys = map (\<lambda>x. case x of None \<Rightarrow> None | Some k \<Rightarrow> if ca_term k \<noteq> None \<or> expired limit now k then None else x) xs"
  by (induction xs arbitrary: w ys w')
    (auto simp: spec_entry_def split: Option.bind_splits option.splits if_splits)

section \<open>What a pass frees\<close>

text \<open>The structs an entry of the table reaches on the heap.\<close>

definition structs :: "'w ccs \<Rightarrow> nat \<Rightarrow> addr set" where
  "structs s i = (case tb_cc_ptr (cs_tbl s ! i) of
     None \<Rightarrow> {}
   | Some a \<Rightarrow> insert a (case cs_heap s a of Some (O_cc c) \<Rightarrow> set_option (cc_max c) \<union> set_option (cc_term c) | _ \<Rightarrow> {}))"

lemma structs_sim [simp]: "structs (s\<lparr>cs_sim := n\<rparr>) i = structs s i"
  by (simp add: structs_def cong: option.case_cong)

lemma structs_slot:
  assumes "own_by s xas F" "i < length xas"
  shows "structs s i = set (snd (xas ! i))"
  using own_by_slot [OF assms] by (auto simp: structs_def rep_def call_cc_def split: option.splits)

lemma distinct_concat_apart:
  assumes "distinct (concat xss)" "i < length xss" "j < length xss" "i \<noteq> j"
  shows "set (xss ! i) \<inter> set (xss ! j) = {}"
  using assms
proof (induction xss arbitrary: i j)
  case (Cons xs xss)
  have sub: "set (xss ! k) \<subseteq> set (concat xss)" if "k < length xss" for k using nth_mem [OF that] by auto
  have dis: "set xs \<inter> set (concat xss) = {}" "distinct (concat xss)" using Cons.prems(1) by simp_all
  show ?case
  proof (cases i)
    case 0
    then obtain j' where "j = Suc j'" "j' < length xss" using Cons.prems by (cases j) auto
    then show ?thesis using 0 dis(1) sub [of j'] by auto
  next
    case (Suc i')
    show ?thesis
    proof (cases j)
      case 0
      then show ?thesis using Suc dis(1) sub [of i'] Cons.prems(2) by auto
    next
      case (Suc j')
      then show ?thesis using \<open>i = Suc i'\<close> Cons.IH [OF dis(2), of i' j'] Cons.prems by simp
    qed
  qed
qed simp

lemma structs_apart:
  assumes "own s xs F" "i < length xs" "j < length xs" "i \<noteq> j"
  shows "structs s i \<inter> structs s j = {}"
proof -
  obtain xas where x: "xs = map fst xas" "own_by s xas F" using assms(1) by (auto simp: own_def)
  then have i: "i < length (map snd xas)" "j < length (map snd xas)" using assms by simp_all
  have d: "distinct (concat (map snd xas))" using x(2) by (simp add: own_by_def)
  have "set (map snd xas ! i) \<inter> set (map snd xas ! j) = {}" by (rule distinct_concat_apart [OF d i assms(4)])
  then show ?thesis using structs_slot [OF x(2)] i by simp
qed

definition gone :: "u32 \<Rightarrow> int \<Rightarrow> call option \<Rightarrow> bool" where
  "gone limit now x \<longleftrightarrow> (\<exists>k. x = Some k \<and> (ca_term k \<noteq> None \<or> expired limit now k))"

lemma own_slot_free:
  assumes "own s xs F" "i < length xs"
  shows "tb_cc_ptr (cs_tbl s ! i) = None \<longleftrightarrow> xs ! i = None"
proof -
  obtain xas where x: "xs = map fst xas" "own_by s xas F" using assms(1) by (auto simp: own_def)
  then show ?thesis using own_by_slot [OF x(2), of i] assms(2) by (auto simp: rep_def split: option.splits)
qed

lemma spec_entry_gone: "spec_entry api limit now x w = Some (y, w') \<Longrightarrow> y = (if gone limit now x then None else x)"
  by (auto simp: spec_entry_def gone_def split: Option.bind_splits option.splits if_splits)

lemma clear_heap:
  assumes "own s xs F" "i < length xs" "xs ! i = Some k"
    and "cc_server_call_clear i s1 = Some s2" "cs_heap s1 = cs_heap s" "tb_cc_ptr (cs_tbl s1 ! i) = tb_cc_ptr (cs_tbl s ! i)"
  shows "cs_heap s2 = cs_heap s |` (- structs s i) \<and> cs_tbl s2 = (cs_tbl s1)[i := \<lparr>tb_cc_ptr = None, tb_rtp = None\<rparr>]"
proof -
  obtain xas a m t where x: "xs = map fst xas" "own_by s xas F"
    "xas ! i = (Some k, a # m # (case t of None \<Rightarrow> [] | Some p \<Rightarrow> [p]))"
    and a: "tb_cc_ptr (cs_tbl s ! i) = Some a" "cs_heap s a = Some (O_cc (call_cc k m t))"
    "cs_heap s m = Some (O_max (ca_max k))" "a \<noteq> m"
    "case t of None \<Rightarrow> ca_term k = None
       | Some p \<Rightarrow> p \<notin> F \<and> p \<noteq> a \<and> p \<noteq> m \<and> (\<exists>tr. ca_term k = Some tr \<and> cs_heap s p = Some (O_term tr))"
    by (rule own_slot [OF assms(1-3)])
  have st: "structs s i = set (a # m # (case t of None \<Rightarrow> [] | Some p \<Rightarrow> [p]))"
    using structs_slot [OF x(2), of i] x(1,3) assms(2) by simp
  show ?thesis unfolding st
    using assms(4-6) a
    by (auto simp: cc_server_call_clear_def set_status_def set_cc_def cc_free_def cc_mem_free_def put_def
        set_entry_def Let_def restrict_map_def fun_eq_iff split: option.splits)
qed

lemma work_keeps:
  assumes "cc_server_work api limit now i s = Some (b, s')"
  shows "cs_heap s' = cs_heap s \<and> length (cs_tbl s') = length (cs_tbl s) \<and> tb_cc_ptr (cs_tbl s' ! j) = tb_cc_ptr (cs_tbl s ! j)"
  using assms
  by (cases "i < length (cs_tbl s)")
    (auto simp: cc_server_work_def set_entry_def Let_def nth_list_update list_update_beyond split: option.splits if_splits Option.bind_splits)

text \<open>What a pass does at an entry: its structs are freed when its call is gone, and nothing else
  on the heap changes.\<close>

lemma entry_heap:
  assumes "own s xs {}" "i < length xs" "cc_server_entry api limit now i s = Some s'"
  shows "own s' (xs[i := if gone limit now (xs ! i) then None else xs ! i]) {} \<and>
    cs_heap s' = (if gone limit now (xs ! i) then cs_heap s |` (- structs s i) else cs_heap s) \<and>
    (\<forall>j. j \<noteq> i \<longrightarrow> tb_cc_ptr (cs_tbl s' ! j) = tb_cc_ptr (cs_tbl s ! j))"
proof -
  obtain x w where x: "spec_entry api limit now (xs ! i) (cs_world s) = Some (x, w)" "own s' (xs[i := x]) {}"
    using entry_refines [OF assms(1,2), of api limit now] assms(3) by (auto split: option.splits)
  note g = spec_entry_gone [OF x(1)]
  have i: "i < length (cs_tbl s)" using own_len [OF assms(1)] assms(2) by simp
  obtain b s1 where w: "cc_server_work api limit now i s = Some (b, s1)"
    using assms(3) by (auto simp: cc_server_entry_def split: Option.bind_splits)
  note e = work_keeps [OF w]
  have slot: "tb_cc_ptr (cs_tbl s' ! i) = None \<longleftrightarrow> x = None"
    using own_slot_free [OF x(2), of i] assms(2) by simp
  show ?thesis
  proof (cases b)
    case False
    then have s': "cs_heap s' = cs_heap s" "cs_tbl s' = cs_tbl s1" using assms(3) w e by (auto simp: cc_server_entry_def)
    have "x = xs ! i"
    proof (cases "xs ! i")
      case None
      then show ?thesis using g by (simp add: gone_def)
    next
      case (Some k)
      then have "tb_cc_ptr (cs_tbl s ! i) \<noteq> None" using own_slot_free [OF assms(1,2)] by simp
      then have "x \<noteq> None" using slot s' e [of i] by auto
      then show ?thesis using g by (simp split: if_splits)
    qed
    then have "\<not> gone limit now (xs ! i)" using g by (auto simp: gone_def split: if_splits)
    then show ?thesis using x(2) g s' e by auto
  next
    case True
    then obtain s2 where s2: "cc_server_call_clear i s1 = Some s2" "cs_heap s' = cs_heap s2" "cs_tbl s' = cs_tbl s2"
      using assms(3) w by (auto simp: cc_server_entry_def split: Option.bind_splits)
    have "tb_cc_ptr (cs_tbl s ! i) \<noteq> None" using w True by (cases "tb_cc_ptr (cs_tbl s ! i)") (auto simp: cc_server_work_def)
    then obtain k where k: "xs ! i = Some k"
      using own_slot_free [OF assms(1,2)] by (cases "xs ! i") auto
    note c = clear_heap [OF assms(1,2) k s2(1)]
    have "x = None" using slot s2(3) c e [of i] i by simp
    then have "gone limit now (xs ! i)" using g k by (auto split: if_splits)
    then show ?thesis using x(2) g s2 c e by auto
  qed
qed

lemma entries_heap:
  assumes "own s xs {}" "distinct is" "set is \<subseteq> {..<length xs}" "cc_server_entries api limit now is s = Some s'"
  shows "cs_heap s' = cs_heap s |` (- (\<Union>i \<in> {i \<in> set is. gone limit now (xs ! i)}. structs s i))"
  using assms
proof (induction "is" arbitrary: s xs)
  case (Cons i "is")
  obtain s1 where s1: "cc_server_entry api limit now i s = Some s1" "cc_server_entries api limit now is s1 = Some s'"
    using Cons.prems(4) by (auto split: Option.bind_splits)
  define ys where "ys = xs[i := if gone limit now (xs ! i) then None else xs ! i]"
  have i: "i < length xs" "i \<notin> set is" "set is \<subseteq> {..<length xs}" using Cons.prems(2,3) by auto
  note e = entry_heap [OF Cons.prems(1) i(1) s1(1), folded ys_def]
  have len: "length ys = length xs" by (simp add: ys_def)
  have y: "ys ! j = xs ! j" if "j \<in> set is" for j using that i(2) by (cases "j = i") (auto simp: ys_def)
  have st: "structs s1 j = structs s j" if j: "j \<in> set is" for j
  proof -
    have "j \<noteq> i" "j < length xs" using j i by auto
    then have "structs s i \<inter> structs s j = {}" using structs_apart [OF Cons.prems(1) i(1)] by blast
    then have "cs_heap s1 a = cs_heap s a" if "tb_cc_ptr (cs_tbl s ! j) = Some a" for a
      using e that by (auto simp: structs_def restrict_map_def)
    then show ?thesis using e \<open>j \<noteq> i\<close> by (auto simp: structs_def split: option.splits)
  qed
  have "cs_heap s' = cs_heap s1 |` (- (\<Union>j \<in> {j \<in> set is. gone limit now (ys ! j)}. structs s1 j))"
    using Cons.IH [of s1 ys] e Cons.prems(2) i(3) len s1(2) by simp
  also have "(\<Union>j \<in> {j \<in> set is. gone limit now (ys ! j)}. structs s1 j) =
      (\<Union>j \<in> {j \<in> set is. gone limit now (xs ! j)}. structs s j)"
    using y st by auto
  finally have "cs_heap s' = cs_heap s1 |` (- (\<Union>j \<in> {j \<in> set is. gone limit now (xs ! j)}. structs s j))" .
  then show ?case using e by (auto simp: restrict_map_def fun_eq_iff)
qed (simp add: restrict_map_def)

section \<open>Runs\<close>

text \<open>Whole requests, on a connection at a time, and whole passes, in any order.\<close>

datatype cc_step = Request nat int string | Pass u32 int

definition cc_start :: "nat \<Rightarrow> 'w \<Rightarrow> 'w ccs" where
  "cc_start n w = \<lparr>cs_heap = (\<lambda>_. None), cs_next = 0, cs_tbl = replicate n \<lparr>tb_cc_ptr = None, tb_rtp = None\<rparr>,
     cs_sim = 0, cs_world = w\<rparr>"

fun cc_run :: "'w cc_api \<Rightarrow> cc_step list \<Rightarrow> 'w ccs \<Rightarrow> (string list \<times> 'w ccs) option" where
  "cc_run api [] s = Some ([], s)"
| "cc_run api (Request dbp now buffer # steps) s = do {
     (ack, s1) \<leftarrow> my_cc_answer api dbp now buffer s;
     (acks, s2) \<leftarrow> cc_run api steps s1;
     Some (ack # acks, s2)
   }"
| "cc_run api (Pass limit now # steps) s = do {
     s1 \<leftarrow> cc_server_pass api limit now s;
     cc_run api steps s1
   }"

fun spec_run :: "'w cc_api \<Rightarrow> cc_step list \<Rightarrow> call option list \<Rightarrow> 'w \<Rightarrow> (string list \<times> call option list \<times> 'w) option" where
  "spec_run api [] xs w = Some ([], xs, w)"
| "spec_run api (Request dbp now buffer # steps) xs w = do {
     (ack, xs1, w1) \<leftarrow> spec_answer api dbp now buffer xs w;
     (acks, xs2, w2) \<leftarrow> spec_run api steps xs1 w1;
     Some (ack # acks, xs2, w2)
   }"
| "spec_run api (Pass limit now # steps) xs w = do {
     (xs1, w1) \<leftarrow> spec_entries api limit now xs w;
     spec_run api steps xs1 w1
   }"

lemma own_start: "own (cc_start n w) (replicate n None) {}"
  unfolding own_def by (intro exI [of _ "replicate n (None, [])"])
    (auto simp: own_by_def cc_start_def rep_def list_all2_conv_all_nth)

lemma rt_maxsec_positive: "rt_maxsec env pre sim s = Some (Some rtp, pre', s') \<Longrightarrow> 0 < pre_maxsec pre'"
  by (auto simp: rt_maxsec_def Let_def split: if_splits Option.bind_splits option.splits sum.splits)

lemma rt_maxsec_none: "rt_maxsec env pre sim s = Some (None, pre', s') \<Longrightarrow> pre_maxsec pre = 0 \<Longrightarrow> pre_maxsec pre' \<le> 0"
proof (cases "st_db s = None")
  case False
  assume "rt_maxsec env pre sim s = Some (None, pre', s')"
  then show ?thesis using rt_maxsec_failure [OF _ False] by fastforce
qed (simp add: rt_maxsec_def)

interpretation online: call_limits "rt_api_maxsec (rt_bind_api env ts_epoch json)" for env ts_epoch json
  by unfold_locales (auto simp: rt_bind_api_def with_st_def dest: rt_maxsec_positive rt_maxsec_none split: Option.bind_splits)

lemma run_refines:
  assumes "own s xs {}" "api = rt_bind_api env ts_epoch json"
  shows "case spec_run api steps xs (cs_world s) of
      None \<Rightarrow> cc_run api steps s = None
    | Some (acks, xs', w') \<Rightarrow> \<exists>s'. cc_run api steps s = Some (acks, s') \<and> own s' xs' {} \<and> cs_world s' = w'"
  using assms(1)
proof (induction steps arbitrary: s xs)
  case (Cons st steps)
  show ?case
  proof (cases st)
    case (Request dbp now buffer)
    have ans: "case spec_answer api dbp now buffer xs (cs_world s) of
        None \<Rightarrow> my_cc_answer api dbp now buffer s = None
      | Some (ack, xs', w') \<Rightarrow> \<exists>s'. my_cc_answer api dbp now buffer s = Some (ack, s') \<and> own s' xs' {} \<and> cs_world s' = w'"
      using online.answer_refines [OF Cons.prems] assms(2) by blast
    show ?thesis
    proof (cases "spec_answer api dbp now buffer xs (cs_world s)")
      case None
      then show ?thesis using ans Request by simp
    next
      case (Some r)
      obtain ack xs1 w1 where r: "r = (ack, xs1, w1)" by (cases r) auto
      then obtain s1 where s1: "my_cc_answer api dbp now buffer s = Some (ack, s1)" "own s1 xs1 {}" "cs_world s1 = w1"
        using ans Some by auto
      show ?thesis using Cons.IH [OF s1(2)] s1 Some r Request by (auto split: option.splits)
    qed
  next
    case (Pass limit now)
    note pass = pass_refines [OF Cons.prems, of api limit now]
    show ?thesis
    proof (cases "spec_entries api limit now xs (cs_world s)")
      case None
      then show ?thesis using pass Pass by simp
    next
      case (Some r)
      obtain xs1 w1 where r: "r = (xs1, w1)" by (cases r) auto
      then obtain s1 where s1: "cc_server_pass api limit now s = Some s1" "own s1 xs1 {}" "cs_world s1 = w1"
        using pass Some by auto
      show ?thesis using Cons.IH [OF s1(2)] s1 Some r Pass by (auto split: option.splits)
    qed
  qed
qed simp

section \<open>What follows\<close>

text \<open>Property C5. The heap of call control refines a list of calls. From the empty table, any sequence
  of requests of the text protocol and of passes of the table's thread, each run to its end and one
  at a time, gives the replies, the calls and the world of the reference functions on a list of
  slots, and is undefined exactly where these are: where a field of a request is overrun or the
  rating of a call is undefined. So in such runs the table's pointers are never used after a free
  or freed twice. It does not say that every struct is freed: two ways to lose one are known.\<close>

theorem calls_refine:
  "case spec_run (rt_bind_api env ts_epoch json) steps (replicate n None) w of
     None \<Rightarrow> cc_run (rt_bind_api env ts_epoch json) steps (cc_start n w) = None
   | Some (acks, xs, w') \<Rightarrow> \<exists>s. cc_run (rt_bind_api env ts_epoch json) steps (cc_start n w) = Some (acks, s) \<and>
       own s xs {} \<and> cs_world s = w'"
  using run_refines [where api = "rt_bind_api env ts_epoch json", OF own_start refl, of steps n w] by (simp add: cc_start_def)

text \<open>Property C20. A pass of the table's thread that is defined, on a table the operations keep, removes
  exactly the calls that were ended and those that are older than the limit and 90 seconds, and
  leaves every other call in its slot. Of the heap it frees exactly the structs of the removed calls,
  that is the entry's struct, its request and its end, and changes nothing else. The counter ends at
  the number of calls that are left.\<close>

theorem pass_clears:
  assumes "own s xs {}" "cc_server_pass api limit now s = Some s'"
  shows "own s' (map (\<lambda>x. if gone limit now x then None else x) xs) {} \<and>
    cs_heap s' = cs_heap s |` (- (\<Union>i \<in> {i. i < length xs \<and> gone limit now (xs ! i)}. structs s i)) \<and>
    cs_sim s' = of_nat (length (List.filter (\<lambda>x. x \<noteq> None \<and> \<not> gone limit now x) xs))"
proof -
  obtain ys w where y: "spec_entries api limit now xs (cs_world s) = Some (ys, w)" "own s' ys {}"
    "cs_sim s' = of_nat (length (List.filter (\<lambda>x. x \<noteq> None) ys))"
    using pass_refines [OF assms(1), of api limit now] assms(2) by (auto split: option.splits)
  have ys: "ys = map (\<lambda>x. if gone limit now x then None else x) xs"
    using spec_entries_slots [OF y(1)] by (auto simp: gone_def split: option.splits)
  have "length (List.filter (\<lambda>x. x \<noteq> None) ys) = length (List.filter (\<lambda>x. x \<noteq> None \<and> \<not> gone limit now x) xs)"
    unfolding ys by (induction xs) auto
  moreover have "cs_heap s' = cs_heap (s\<lparr>cs_sim := 0\<rparr>) |` (- (\<Union>i \<in> {i \<in> set [0..<length xs]. gone limit now (xs ! i)}. structs (s\<lparr>cs_sim := 0\<rparr>) i))"
    using assms own_len [OF assms(1)] by (intro entries_heap) (auto simp: cc_server_pass_def)
  then have "cs_heap s' = cs_heap s |` (- (\<Union>i \<in> {i. i < length xs \<and> gone limit now (xs ! i)}. structs s i))"
    by simp
  ultimately show ?thesis using y(2,3) ys by simp
qed

lemma granted_card:
  assumes "rt_maxsec env pre sim s = Some (Some rtp, pre', s')" "0 \<le> sint (ev_call_maxsec env)"
  shows "\<exists>pc. pre_maxsec pre' \<le> sint (ev_call_maxsec env) \<and> ba_pcard (ra_bacc rtp) = Some pc \<and> sim < pc_call_number pc"
proof -
  obtain rtp2 pc share where "rtp = upd_pre (\<lambda>p. p\<lparr>pre_limit := share, pre_maxsec := pre_maxsec pre'\<rparr>) rtp2"
    "pre_maxsec pre' \<le> sint (ev_call_maxsec env)" "ba_pcard (ra_bacc rtp2) = Some pc" "sim < pc_call_number pc"
    using calc_maxsec_positive_limit [OF assms] by blast
  then show ?thesis by (intro exI [of _ pc]) simp
qed

lemma enter_slot: "enter k xs = Some xs' \<Longrightarrow> \<exists>i < length xs. xs ! i = None \<and> xs' = xs[i := Some k]"
  using index_of_Some [of "\<lambda>x. x = None" 0 xs] by (auto simp: enter_def split: option.splits)

lemma rt_api_limit:
  "rt_api_maxsec (rt_bind_api env ts_epoch json) dbp pre sim w =
    (case rt_maxsec env pre sim \<lparr>st_db = cw_dbs w dbp, st_cache = cw_cache w\<rparr> of
       None \<Rightarrow> None
     | Some (r, pre', s) \<Rightarrow> Some (r, pre', w\<lparr>cw_dbs := (cw_dbs w)(dbp := st_db s), cw_cache := st_cache s\<rparr>))"
  by (simp add: rt_bind_api_def with_st_def split: option.splits prod.splits)

lemma calls_up_enter:
  "i < length xs \<Longrightarrow> xs ! i = None \<Longrightarrow> calls_up (mx_clg (ca_max k)) (xs[i := Some k]) = calls_up (mx_clg (ca_max k)) xs + 1"
proof (induction xs arbitrary: i)
  case (Cons x xs)
  then show ?case by (cases i) (auto simp: calls_up_def is_up_def)
qed simp

text \<open>Property C6. A request for a call's limit, run to its end, either lets the call through with a
  positive number of seconds, at most the configured maximum, and puts it in a free slot, and then
  the calls of that number in the table are at most the ones its card allows; or it answers zero or
  an error code and leaves the table as it was.\<close>

theorem grant_within_card:
  assumes "own s xs {}" "0 \<le> sint (ev_call_maxsec env)"
    and "my_cc_fields now buffer = Some (Parsed my maxsec_event (Some (O_max mx)))"
    and "my_cc_answer (rt_bind_api env ts_epoch json) dbp now buffer s = Some (ack, s')"
  shows "\<exists>n. ack = my_cc_ack my (dec_int n) \<and>
     (n \<le> 0 \<and> own s' xs {} \<or>
      0 < n \<and> n \<le> sint (ev_call_maxsec env) \<and>
      (\<exists>i k pc. i < length xs \<and> xs ! i = None \<and> own s' (xs[i := Some k]) {} \<and> ca_max k = mx\<lparr>mx_maxsec := n\<rparr> \<and>
         ba_pcard (ra_bacc (ca_rtp k)) = Some pc \<and> calls_up (mx_clg mx) (xs[i := Some k]) \<le> pc_call_number pc))"
proof -
  obtain n xs' w' where n: "spec_maxsec (rt_bind_api env ts_epoch json) dbp (my_cdr_server_id my) mx xs (cs_world s) = Some (n, xs', w')"
    "ack = my_cc_ack my (dec_int n)" "own s' xs' {}"
    using online.answer_refines [where api = "rt_bind_api env ts_epoch json", OF assms(1) refl, of dbp now buffer] assms(3,4)
    by (auto simp: spec_answer_def spec_event_def split: option.splits Option.bind_splits)
  let ?pre = "cc_maxsec_pre (cc0\<lparr>cc_cdr_server_id := my_cdr_server_id my\<rparr>) mx"
  let ?st = "\<lparr>st_db = cw_dbs (cs_world s) dbp, st_cache = cw_cache (cs_world s)\<rparr>"
  show ?thesis
  proof (cases "0 < n")
    case False
    then have "xs' = xs" using n(1) rt_maxsec_positive
      by (fastforce simp: spec_maxsec_def rt_bind_api_def with_st_def Let_def split: if_splits Option.bind_splits option.splits)
    then show ?thesis using n(2,3) False by auto
  next
    case True
    have clg: "mx_clg mx \<noteq> []" using n(1) True by (auto simp: spec_maxsec_def)
    obtain r0 pre' s2 where rt: "rt_maxsec env ?pre (calls_up (mx_clg mx) xs) ?st = Some (r0, pre', s2)"
      using n(1) clg by (cases "rt_maxsec env ?pre (calls_up (mx_clg mx) xs) ?st") (auto simp: spec_maxsec_def rt_api_limit)
    have pre0: "pre_maxsec ?pre = 0" by (simp add: cc_maxsec_pre_def rating0_def)
    note spec = n(1) [unfolded spec_maxsec_def rt_api_limit]
    obtain rtp where r0: "r0 = Some rtp"
      using spec clg rt True rt_maxsec_none [OF _ pre0] by (cases r0) fastforce+
    have r: "rt_maxsec env ?pre (calls_up (mx_clg mx) xs) ?st = Some (Some rtp, pre', s2)" "n = pre_maxsec pre'"
      "enter \<lparr>ca_server = my_cdr_server_id my, ca_max = mx\<lparr>mx_maxsec := n\<rparr>, ca_rtp = rtp\<lparr>ra_pre := pre'\<rparr>, ca_term = None\<rparr> xs = Some xs'"
      using spec clg rt r0 True by (auto simp: Let_def split: option.splits)
    obtain pc where pc: "n \<le> sint (ev_call_maxsec env)" "ba_pcard (ra_bacc rtp) = Some pc" "calls_up (mx_clg mx) xs < pc_call_number pc"
      using granted_card [OF r(1) assms(2)] r(2) by blast
    let ?k = "\<lparr>ca_server = my_cdr_server_id my, ca_max = mx\<lparr>mx_maxsec := n\<rparr>, ca_rtp = rtp\<lparr>ra_pre := pre'\<rparr>, ca_term = None\<rparr>"
    obtain i where i: "i < length xs" "xs ! i = None" "xs' = xs[i := Some ?k]"
      using enter_slot [OF r(3)] by blast
    have "calls_up (mx_clg mx) (xs[i := Some ?k]) = calls_up (mx_clg mx) xs + 1" using calls_up_enter [OF i(1,2), of ?k] by simp
    then show ?thesis using i n(2,3) pc True by (intro exI [of _ n] conjI disjI2 exI [of _ i] exI [of _ ?k] exI [of _ pc]) auto
  qed
qed

section \<open>Examples\<close>

text \<open>The database and cache of the example of theory \<open>Charging\<close>: a card for two calls.\<close>

definition demo_world :: "recorder cc_world" where
  "demo_world = \<lparr>cw_dbs = (\<lambda>_. st_db demo_st), cw_cache = st_cache demo_st\<rparr>"

definition demo_api :: "recorder cc_world cc_api" where
  "demo_api = rt_bind_api exact_env (\<lambda>_. 0) (\<lambda>_. ([], []))"

text \<open>A table with a call that was cancelled and a call that is up.\<close>

definition demo_racc :: racc where
  "demo_racc = \<lparr>ra_rtm = 1, ra_id = 1, ra_rating_account = [], ra_bal = bal0, ra_bacc = bacc0, ra_bplan = bplan0, ra_pre = rating0\<rparr>"

definition demo_ended :: call where
  "demo_ended = \<lparr>ca_server = 1, ca_max = max0\<lparr>mx_clg := ''359888'', mx_call_uid := ''uid1'', mx_ts := 1000, mx_maxsec := 60\<rparr>,
     ca_rtp = demo_racc, ca_term = Some (term0\<lparr>ct_status := cancel, ct_call_uid := ''uid1''\<rparr>)\<rparr>"

definition demo_up :: call where
  "demo_up = \<lparr>ca_server = 1, ca_max = max0\<lparr>mx_clg := ''359888'', mx_call_uid := ''uid2'', mx_ts := 1000, mx_maxsec := 60\<rparr>,
     ca_rtp = demo_racc, ca_term = None\<rparr>"

definition demo_table :: "recorder cc_world ccs" where
  "demo_table = \<lparr>cs_heap = (\<lambda>_. None)(0 \<mapsto> O_cc (call_cc demo_ended 1 (Some 2)), 1 \<mapsto> O_max (ca_max demo_ended),
       2 \<mapsto> O_term (term0\<lparr>ct_status := cancel, ct_call_uid := ''uid1''\<rparr>),
       3 \<mapsto> O_cc (call_cc demo_up 4 None), 4 \<mapsto> O_max (ca_max demo_up)),
     cs_next = 5, cs_tbl = [\<lparr>tb_cc_ptr = Some 0, tb_rtp = Some demo_racc\<rparr>, \<lparr>tb_cc_ptr = None, tb_rtp = None\<rparr>,
       \<lparr>tb_cc_ptr = Some 3, tb_rtp = Some demo_racc\<rparr>], cs_sim = 0, cs_world = demo_world\<rparr>"

lemma demo_table_own: "own demo_table [Some demo_ended, None, Some demo_up] {}"
  unfolding own_def
  by (intro exI [of _ "[(Some demo_ended, [0, 1, 2]), (None, []), (Some demo_up, [3, 4])]"])
    (auto simp: own_by_def demo_table_def rep_def demo_ended_def demo_up_def call_cc_def split: if_splits)

theorem pass_clears_witness:
  "\<exists>s'. cc_server_pass demo_api 3600 1110 demo_table = Some s' \<and> own s' [None, None, Some demo_up] {} \<and> cs_sim s' = 1 \<and>
     cs_heap s' 0 = None \<and> cs_heap s' 1 = None \<and> cs_heap s' 2 = None \<and> cs_heap s' 4 = Some (O_max (ca_max demo_up))"
proof -
  have "spec_entries demo_api 3600 1110 [Some demo_ended, None, Some demo_up] (cs_world demo_table) \<noteq> None"
    by (simp add: spec_entry_def demo_ended_def demo_up_def term0_def)
  then obtain s' where s': "cc_server_pass demo_api 3600 1110 demo_table = Some s'"
    using pass_refines [OF demo_table_own, of demo_api 3600 1110] by (auto split: option.splits)
  have g: "gone 3600 1110 (Some demo_ended)" "\<not> gone 3600 1110 (Some demo_up)" "\<not> gone 3600 1110 None"
    by (simp_all add: gone_def demo_ended_def demo_up_def expired_def)
  have ix: "{i. i < length [Some demo_ended, None, Some demo_up] \<and> gone 3600 1110 ([Some demo_ended, None, Some demo_up] ! i)} = {0}"
    using g by (auto simp: less_Suc_eq numeral_eq_Suc)
  have st: "structs demo_table 0 = {0, 1, 2}" by (auto simp: structs_def demo_table_def call_cc_def)
  have "cs_heap demo_table 4 = Some (O_max (ca_max demo_up))" by (simp add: demo_table_def)
  then show ?thesis using pass_clears [OF demo_table_own s'] s' g st unfolding ix by simp
qed

text \<open>A run of a request and a pass on an empty table.\<close>

lemma calls_demo_run:
  "map_option (\<lambda>(acks, xs, w). (acks, map (map_option (\<lambda>k. mx_call_uid (ca_max k))) xs))
     (spec_run demo_api [Request 1 1000 ''1,7,maxsec,0,359888,3592123,uid1'', Pass 3600 1110, Pass 3600 4700] (replicate 2 None) demo_world) =
   Some ([''1,7,3600''], [None, None])"
  by code_simp

theorem calls_refine_witness:
  "\<exists>s. cc_run demo_api [Request 1 1000 ''1,7,maxsec,0,359888,3592123,uid1'', Pass 3600 1110, Pass 3600 4700] (cc_start 2 demo_world) =
     Some ([''1,7,3600''], s) \<and> own s [None, None] {}"
proof -
  let ?steps = "[Request 1 1000 ''1,7,maxsec,0,359888,3592123,uid1'', Pass 3600 1110, Pass 3600 4700]"
  obtain acks xs w where r: "spec_run demo_api ?steps (replicate 2 None) demo_world = Some (acks, xs, w)"
    and p: "acks = [''1,7,3600'']" "map (map_option (\<lambda>k. mx_call_uid (ca_max k))) xs = [None, None]"
    using calls_demo_run by (cases "spec_run demo_api ?steps (replicate 2 None) demo_world") auto
  have "xs = [None, None]" using p(2) by auto
  moreover have "\<exists>s. cc_run demo_api ?steps (cc_start 2 demo_world) = Some (acks, s) \<and> own s xs {} \<and> cs_world s = w"
    using calls_refine [of exact_env "\<lambda>_. 0" "\<lambda>_. ([], [])" ?steps 2 demo_world, folded demo_api_def]
    unfolding r by (simp only: option.case prod.case)
  ultimately show ?thesis using p(1) by blast
qed

lemma demo_fields:
  "my_cc_fields 1000 ''1,7,maxsec,0,359888,3592123,uid1'' =
     Some (Parsed \<lparr>my_cdr_server_id = 1, my_transaction_id = 7, my_command = ''maxsec'', my_timestamp = 0\<rparr> maxsec_event
       (Some (O_max (max0\<lparr>mx_clg := ''359888'', mx_cld := ''3592123'', mx_call_uid := ''uid1'', mx_ts := 1000\<rparr>))))"
  by code_simp

lemma demo_granted:
  "map_option fst (spec_maxsec demo_api 1 1 (max0\<lparr>mx_clg := ''359888'', mx_cld := ''3592123'', mx_call_uid := ''uid1'', mx_ts := 1000\<rparr>)
     (replicate 3 None) demo_world) = Some 3600"
  by code_simp

theorem grant_within_card_witness:
  "\<exists>s' i k pc. my_cc_answer demo_api 1 1000 ''1,7,maxsec,0,359888,3592123,uid1'' (cc_start 3 demo_world) = Some (''1,7,3600'', s') \<and>
     own s' ((replicate 3 None)[i := Some k]) {} \<and> ba_pcard (ra_bacc (ca_rtp k)) = Some pc \<and>
     calls_up ''359888'' ((replicate 3 None)[i := Some k]) \<le> pc_call_number pc"
proof -
  let ?my = "\<lparr>my_cdr_server_id = 1, my_transaction_id = 7, my_command = ''maxsec'', my_timestamp = 0\<rparr>"
  let ?s = "cc_start 3 demo_world"
  have w: "cs_world ?s = demo_world" by (simp add: cc_start_def)
  have ack: "my_cc_ack ?my (dec_int 3600) = ''1,7,3600''" by code_simp
  obtain xs' w' where "spec_answer demo_api 1 1000 ''1,7,maxsec,0,359888,3592123,uid1'' (replicate 3 None) (cs_world ?s) =
      Some (''1,7,3600'', xs', w')"
    using demo_granted ack by (auto simp: spec_answer_def demo_fields spec_event_def w)
  then obtain s' where a: "my_cc_answer demo_api 1 1000 ''1,7,maxsec,0,359888,3592123,uid1'' ?s = Some (''1,7,3600'', s')"
    using online.answer_refines [OF own_start demo_api_def [THEN arg_cong, of rt_api_maxsec],
        of 1 1000 "''1,7,maxsec,0,359888,3592123,uid1''" 3 demo_world] by auto
  obtain n where n: "''1,7,3600'' = my_cc_ack ?my (dec_int n)" "n \<le> 0 \<and> own s' (replicate 3 None) {} \<or>
      0 < n \<and> n \<le> sint (ev_call_maxsec exact_env) \<and>
      (\<exists>i k pc. i < length (replicate 3 (None :: call option)) \<and> replicate 3 None ! i = (None :: call option) \<and>
         own s' ((replicate 3 None)[i := Some k]) {} \<and>
         ca_max k = (max0\<lparr>mx_clg := ''359888'', mx_cld := ''3592123'', mx_call_uid := ''uid1'', mx_ts := 1000\<rparr>)\<lparr>mx_maxsec := n\<rparr> \<and>
         ba_pcard (ra_bacc (ca_rtp k)) = Some pc \<and>
         calls_up (mx_clg (max0\<lparr>mx_clg := ''359888'', mx_cld := ''3592123'', mx_call_uid := ''uid1'', mx_ts := 1000\<rparr>))
           ((replicate 3 None)[i := Some k]) \<le> pc_call_number pc)"
    using grant_within_card [OF own_start _ demo_fields a [unfolded demo_api_def]] by auto
  have "dec_int n = dec_int 3600" using n(1) ack by (simp add: my_cc_ack_def)
  moreover have "dec_nat 3600 = ''3600''" "dec_nat 0 = ''0''" by code_simp+
  then have "dec_int n \<noteq> dec_int 3600" if "n \<le> 0"
    using that by (cases "n = 0") (auto simp: dec_int_def)
  ultimately have "0 < n" by fastforce
  then show ?thesis using n(2) a by fastforce
qed

end
