(* ===== verification/CallRace.thy ===== *)
theory CallRace
  imports CallTable
begin

text \<open>
  Call control under interleaving. The lock of the table is held by single functions, not by whole
  requests: \<open>cc_maxsec_f\<close> counts the calls of a number, asks for the limit and enters the call in
  three sections, \<open>cc_term_f\<close> finds the call, writes its end into the table and then into its own
  request in three more, and the table's thread works between any two of them. Theory \<open>CallTable\<close>
  shows that whole operations keep the table sound; here is what happens when two of them overlap.
\<close>

section \<open>The end of a call and the thread of the table\<close>

text \<open>The first section of \<open>cc_term_f\<close> puts the struct of the request into the table.\<close>

lemma search_hands_over:
  assumes "own s xs F" "p \<in> F" "cs_heap s a = Some (O_cc (req_cc srv term_event CC_STATUS_ACTIVE (O_term t) p))"
    and "cs_heap s p = Some (O_term t)" "index_of (has_uid (ct_call_uid t)) 0 xs = Some i"
  shows "\<exists>s1 k. cc_server_call_search_call_uid a s = Some (int i, s1) \<and> i < length xs \<and> xs ! i = Some k \<and>
    own s1 (xs[i := Some (k\<lparr>ca_term := Some t\<rparr>)]) (F - {p}) \<and> cs_world s1 = cs_world s \<and>
    (\<forall>x \<in> F. cs_heap s1 x = cs_heap s x) \<and>
    (\<exists>b m. tb_cc_ptr (cs_tbl s1 ! i) = Some b \<and> cs_heap s1 b = Some (O_cc (call_cc k m (Some p))))"
proof -
  obtain k where k: "i < length xs" "xs ! i = Some k"
    using index_of_Some [OF assms(5)] by (auto simp: has_uid_def split: option.splits)
  obtain xas b m tp where b: "tb_cc_ptr (cs_tbl s ! i) = Some b" "cs_heap s b = Some (O_cc (call_cc k m tp))" "b \<notin> F"
    by (rule own_slot [OF assms(1) k])
  define s1 where "s1 = put b (O_cc (call_cc k m (Some p))) s"
  have bp: "b \<noteq> p" using b(3) assms(2) by blast
  have "cc_server_call_search_call_uid a s = Some (int i, s1)"
    using own_search [OF assms(1,4)] assms(3,5) b by (simp add: cc_server_call_search_call_uid_def set_cc_def s1_def)
  moreover have "own s1 (xs[i := Some (k\<lparr>ca_term := Some t\<rparr>)]) (F - {p})"
    by (rule own_end [OF assms(1) k assms(2) _ b(1,2)])
      (use own_below [OF assms(1)] assms(4) bp in \<open>auto simp: s1_def fun_eq_iff\<close>)
  ultimately show ?thesis using k b by (intro exI [of _ s1] exI [of _ k]) (auto simp: s1_def)
qed

lemma work_keeps_heap:
  assumes "cc_server_work api limit now i s = Some (b, s')" "i < length (cs_tbl s)"
  shows "cs_heap s' = cs_heap s \<and> tb_cc_ptr (cs_tbl s' ! i) = tb_cc_ptr (cs_tbl s ! i) \<and> length (cs_tbl s') = length (cs_tbl s)"
  using assms by (auto simp: cc_server_work_def set_entry_def Let_def split: option.splits if_splits Option.bind_splits)

lemma work_sees_end:
  assumes "cc_server_work api limit now i s = Some (b, s')" "tb_cc_ptr (cs_tbl s ! i) = Some e"
    and "cs_heap s e = Some (O_cc (call_cc k m (Some p)))"
  shows "b"
  using assms by (auto simp: cc_server_work_def Let_def split: option.splits if_splits Option.bind_splits)

lemma clear_frees:
  assumes "cc_server_call_clear i s = Some s'" "tb_cc_ptr (cs_tbl s ! i) = Some e" "i < length (cs_tbl s)"
    and "cs_heap s e = Some (O_cc (call_cc k m (Some p)))"
  shows "cs_heap s' p = None \<and> (\<forall>x. x \<notin> {e, m, p} \<longrightarrow> cs_heap s' x = cs_heap s x) \<and> tb_cc_ptr (cs_tbl s' ! i) = None"
  using assms
  by (auto simp: cc_server_call_clear_def set_status_def set_cc_def cc_free_def cc_mem_free_def put_def set_entry_def Let_def
      split: if_splits Option.bind_splits)

text \<open>Property C22. The end of a call is used after it was freed. When the table's thread comes to the
  entry after the request found it and before the request is done with it, it frees the struct of
  the request with the entry; the request then writes the index of the entry into it. This holds
  whatever the call and its end are; the reply reads the struct again.\<close>

theorem term_used_after_free:
  assumes "own s xs F" "a \<in> F" "p \<in> F" "a \<noteq> p"
    and "cs_heap s a = Some (O_cc (req_cc srv term_event CC_STATUS_ACTIVE (O_term t) p))" "cs_heap s p = Some (O_term t)"
    and "cc_server_call_search_call_uid a s = Some (i, s1)" "0 \<le> i"
    and "cc_server_entry api limit now (nat i) s1 = Some s2"
  shows "(do { s3 \<leftarrow> cc_server_call_term (nat i) a s2; set_tbl_idx a i s3 }) = None"
proof -
  have "index_of (has_uid (ct_call_uid t)) 0 xs \<noteq> None"
    using own_search [OF assms(1,6)] assms(5,7,8) by (auto simp: cc_server_call_search_call_uid_def split: option.splits)
  then obtain j where j: "index_of (has_uid (ct_call_uid t)) 0 xs = Some j" by blast
  obtain s1' k where f: "cc_server_call_search_call_uid a s = Some (int j, s1')" "j < length xs" "xs ! j = Some k"
    "own s1' (xs[j := Some (k\<lparr>ca_term := Some t\<rparr>)]) (F - {p})" "\<forall>x \<in> F. cs_heap s1' x = cs_heap s x"
    "\<exists>b m. tb_cc_ptr (cs_tbl s1' ! j) = Some b \<and> cs_heap s1' b = Some (O_cc (call_cc k m (Some p)))"
    using search_hands_over [OF assms(1,3,5,6) j] by blast
  have e: "i = int j" "s1 = s1'" using f(1) assms(7) by simp_all
  obtain b m where b: "tb_cc_ptr (cs_tbl s1 ! j) = Some b" "cs_heap s1 b = Some (O_cc (call_cc k m (Some p)))" using f(6) e by blast
  have len: "j < length (cs_tbl s1)" using own_len [OF f(4)] f(2) e by simp
  obtain xas b' m' t' where "tb_cc_ptr (cs_tbl s1 ! j) = Some b'" "cs_heap s1 b' = Some (O_cc (call_cc (k\<lparr>ca_term := Some t\<rparr>) m' t'))"
    "b' \<notin> F - {p}" "m' \<notin> F - {p}"
    by (rule own_slot [OF f(4) [folded e(2)], of j]) (use f(2) in auto)
  then have apart: "a \<notin> {b, m, p}" using b assms(2,4) by (auto dest: arg_cong [of _ _ cc_max])
  obtain c s' where w: "cc_server_work api limit now j s1 = Some (c, s')"
    using assms(9) e by (auto simp: cc_server_entry_def split: Option.bind_splits)
  then have "c" using work_sees_end b by blast
  then obtain s3 where s3: "cc_server_call_clear j s' = Some s3" "cs_heap s2 = cs_heap s3" "cs_tbl s2 = cs_tbl s3"
    using assms(9) e w by (auto simp: cc_server_entry_def split: Option.bind_splits)
  have freed: "cs_heap s2 p = None \<and> cs_heap s2 a = cs_heap s1 a \<and> tb_cc_ptr (cs_tbl s2 ! j) = None"
    using work_keeps_heap [OF w len] clear_frees [OF s3(1), of b k m p] s3(2,3) b len apart by auto
  show ?thesis using freed assms(2,5) f(5) e
    by (simp add: cc_server_call_term_def set_tbl_idx_def get_term_def)
qed

section \<open>Two requests for the same number\<close>

lemma own_set_maxsec_in:
  assumes "own s xs F" "p \<in> F" "cs_heap s a = Some (O_cc (req_cc srv maxsec_event CC_STATUS_ACTIVE (O_max mx) p))"
    and "cs_heap s p = Some (O_max mx)"
  shows "set_maxsec a v s = Some (put p (O_max (mx\<lparr>mx_maxsec := v\<rparr>)) s) \<and> own (put p (O_max (mx\<lparr>mx_maxsec := v\<rparr>)) s) xs F"
  using own_put [OF assms(1,2)] own_below [OF assms(1)] assms(3,4) by (simp add: set_maxsec_Some)

lemma free_left:
  "i < length xs \<Longrightarrow> xs ! i = None \<Longrightarrow>
   length (List.filter (\<lambda>x. x = None) xs) = Suc (length (List.filter (\<lambda>x. x = None) (xs[i := Some k])))"
proof (induction xs arbitrary: i)
  case (Cons x xs)
  then show ?case by (cases i) auto
qed simp

text \<open>The last section of \<open>cc_maxsec_f\<close>, with a free slot: it looks at nothing but the slots.\<close>

lemma enter_in:
  assumes "own s xs F" "a \<in> F" "p \<in> F" "a \<noteq> p"
    and "cs_heap s a = Some (O_cc (req_cc srv maxsec_event CC_STATUS_ACTIVE (O_max mx) p))" "cs_heap s p = Some (O_max mx)"
    and "None \<in> set xs" "k = \<lparr>ca_server = srv, ca_max = mx\<lparr>mx_maxsec := pre_maxsec pre\<rparr>, ca_rtp = rtp\<lparr>ra_pre := pre\<rparr>, ca_term = None\<rparr>"
  shows "\<exists>i s'. i < length xs \<and> xs ! i = None \<and> cc_maxsec_enter a (Some rtp) pre s = Some s' \<and>
    own s' (xs[i := Some k]) (F - {a, p}) \<and> (\<forall>x. x \<noteq> p \<longrightarrow> cs_heap s' x = cs_heap s x)"
proof -
  define s1 where "s1 = put p (O_max (mx\<lparr>mx_maxsec := pre_maxsec pre\<rparr>)) s"
  have s1: "set_maxsec a (pre_maxsec pre) s = Some s1" "own s1 xs F"
    using own_set_maxsec_in [OF assms(1,3,5,6)] by (simp_all add: s1_def)
  have "\<exists>i. index_of (\<lambda>x. x = None) n xs = Some i" for n using assms(7) by (induction xs arbitrary: n) auto
  then obtain i where ix: "index_of (\<lambda>x. x = None) 0 xs = Some i" by blast
  have i: "i < length xs" "xs ! i = None" using index_of_Some [OF ix] by simp_all
  have "own (s1\<lparr>cs_tbl := (cs_tbl s1)[i := \<lparr>tb_cc_ptr = Some a, tb_rtp = Some (ca_rtp k)\<rparr>]\<rparr>) (xs[i := Some k]) (F - {a, p})"
    by (rule own_enter [OF s1(2) i])
      (use assms req_cc_body(1) [of srv maxsec_event 1 mx p "mx\<lparr>mx_maxsec := pre_maxsec pre\<rparr>"] in
        \<open>auto simp: s1_def call_cc_def req_cc_def with_body_def cc0_def\<close>)
  moreover have "cc_maxsec_enter a (Some rtp) pre s =
      Some (s1\<lparr>cs_tbl := (cs_tbl s1)[i := \<lparr>tb_cc_ptr = Some a, tb_rtp = Some (ca_rtp k)\<rparr>]\<rparr>)"
    using s1(1) own_first_free [OF s1(2)] ix assms(8) by (simp add: cc_maxsec_enter_def cc_server_call_init_def)
  ultimately show ?thesis using i by (auto simp: s1_def)
qed

lemma limit_card:
  assumes "cc_maxsec_limit (rt_bind_api env ts_epoch json) d pre n s = Some (Some rtp, pre1, s1)" "0 \<le> sint (ev_call_maxsec env)"
  obtains pc where "ba_pcard (ra_bacc rtp) = Some pc" "n < pc_call_number pc"
  using assms granted_card [OF _ assms(2)]
  by (fastforce simp: cc_maxsec_limit_def rt_api_limit split: Option.bind_splits option.splits prod.splits)

text \<open>Property C21. The number of simultaneous calls of a card is checked before the call is entered. Two
  requests for the same number that both count the calls before either is entered are given the
  same count \<open>n\<close>. When the rating grants both, each grant compared its card's number of calls with
  that one count; then both are entered, as there are two free slots, and \<open>n + 2\<close> calls of the
  number are up. So a card that allows just one call more, \<open>n + 1\<close>, is overbooked by one.\<close>

theorem overlapping_grants:
  assumes "own s xs F" "{a, p, b, q} \<subseteq> F" "distinct [a, p, b, q]"
    and "cs_heap s a = Some (O_cc (req_cc srv maxsec_event CC_STATUS_ACTIVE (O_max mx) p))" "cs_heap s p = Some (O_max mx)"
    and "cs_heap s b = Some (O_cc (req_cc srv' maxsec_event CC_STATUS_ACTIVE (O_max mx') q))" "cs_heap s q = Some (O_max mx')"
    and "mx_clg mx' = mx_clg mx" "cc_maxsec_count a s = Some (Some (pre, n))" "cc_maxsec_count b s = Some (Some (pre', m))"
    and "cc_maxsec_limit (rt_bind_api env ts_epoch json) d pre n s = Some (Some rtp, pre1, s1)"
    and "cc_maxsec_limit (rt_bind_api env ts_epoch json) d' pre' m s1 = Some (Some rtp', pre2, s2)"
    and "2 \<le> length (List.filter (\<lambda>x. x = None) xs)" "0 \<le> sint (ev_call_maxsec env)"
  shows "n = calls_up (mx_clg mx) xs \<and> m = n \<and>
    (\<exists>pc pc' s3 s4 ys. ba_pcard (ra_bacc rtp) = Some pc \<and> n < pc_call_number pc \<and>
       ba_pcard (ra_bacc rtp') = Some pc' \<and> n < pc_call_number pc' \<and>
       cc_maxsec_enter a (Some rtp) pre1 s2 = Some s3 \<and> cc_maxsec_enter b (Some rtp') pre2 s3 = Some s4 \<and>
       own s4 ys (F - {a, p, b, q}) \<and> calls_up (mx_clg mx) ys = n + 2 \<and>
       (pc_call_number pc = n + 1 \<longrightarrow> pc_call_number pc < calls_up (mx_clg mx) ys))"
proof -
  have "cc_maxsec_count a s = (if mx_clg mx = [] then Some None
      else Some (Some (cc_maxsec_pre (req_cc srv maxsec_event CC_STATUS_ACTIVE (O_max mx) p) mx, calls_up (mx_clg mx) xs)))"
    using assms(4,5) own_count [OF assms(1)] by (simp add: cc_maxsec_count_def cc_maxsec_pre_def)
  moreover have "cc_maxsec_count b s = (if mx_clg mx' = [] then Some None
      else Some (Some (cc_maxsec_pre (req_cc srv' maxsec_event CC_STATUS_ACTIVE (O_max mx') q) mx', calls_up (mx_clg mx') xs)))"
    using assms(6,7) own_count [OF assms(1)] by (simp add: cc_maxsec_count_def cc_maxsec_pre_def)
  ultimately have n: "n = calls_up (mx_clg mx) xs" "m = calls_up (mx_clg mx') xs"
    using assms(9,10) by (simp_all split: if_splits)
  have s2: "cs_heap s2 = cs_heap s" "own s2 xs F"
    using assms(1,11,12) by (auto simp: cc_maxsec_limit_def split: Option.bind_splits)
  define k where "k = \<lparr>ca_server = srv, ca_max = mx\<lparr>mx_maxsec := pre_maxsec pre1\<rparr>, ca_rtp = rtp\<lparr>ra_pre := pre1\<rparr>, ca_term = None\<rparr>"
  define k' where "k' = \<lparr>ca_server = srv', ca_max = mx'\<lparr>mx_maxsec := pre_maxsec pre2\<rparr>, ca_rtp = rtp'\<lparr>ra_pre := pre2\<rparr>, ca_term = None\<rparr>"
  have clg: "mx_clg (ca_max k) = mx_clg mx" "mx_clg (ca_max k') = mx_clg mx" using assms(8) by (simp_all add: k_def k'_def)
  have F: "a \<in> F" "p \<in> F" "b \<in> F - {a, p}" "q \<in> F - {a, p}" "a \<noteq> p" "b \<noteq> q" using assms(2,3) by auto
  have "List.filter (\<lambda>x. x = None) xs \<noteq> []" using assms(13) by auto
  then have "None \<in> set xs" by (auto simp: filter_empty_conv)
  then obtain i s3 where s3: "i < length xs" "xs ! i = None" "cc_maxsec_enter a (Some rtp) pre1 s2 = Some s3"
    "own s3 (xs[i := Some k]) (F - {a, p})" "\<forall>x. x \<noteq> p \<longrightarrow> cs_heap s3 x = cs_heap s2 x"
    using enter_in [OF s2(2) F(1,2,5) _ _ _ k_def] assms(4,5) s2(1) by metis
  have "List.filter (\<lambda>x. x = None) (xs[i := Some k]) \<noteq> []" using free_left [OF s3(1,2), of k] assms(13) by auto
  then have free: "None \<in> set (xs[i := Some k])" by (auto simp: filter_empty_conv)
  have h3: "cs_heap s3 b = Some (O_cc (req_cc srv' maxsec_event CC_STATUS_ACTIVE (O_max mx') q))" "cs_heap s3 q = Some (O_max mx')"
    using s3(5) assms(3,6,7) s2(1) by auto
  obtain j s4 where s4: "j < length xs" "xs[i := Some k] ! j = None" "cc_maxsec_enter b (Some rtp') pre2 s3 = Some s4"
    "own s4 (xs[i := Some k, j := Some k']) (F - {a, p} - {b, q})"
    using enter_in [OF s3(4) F(3,4,6) h3 free k'_def] by auto
  have "calls_up (mx_clg mx) (xs[i := Some k, j := Some k']) = calls_up (mx_clg mx) xs + 2"
    using calls_up_enter [OF s3(1,2), of k] calls_up_enter [of j "xs[i := Some k]" k'] s4(1,2) clg by simp
  moreover have "F - {a, p} - {b, q} = F - {a, p, b, q}" by blast
  moreover obtain pc where "ba_pcard (ra_bacc rtp) = Some pc" "n < pc_call_number pc" using limit_card [OF assms(11,14)] .
  moreover obtain pc' where "ba_pcard (ra_bacc rtp') = Some pc'" "m < pc_call_number pc'" using limit_card [OF assms(12,14)] .
  ultimately show ?thesis using n assms(8) s3(3) s4(3,4) by auto
qed

section \<open>Examples\<close>

text \<open>A call that is up, and a request that ends it.\<close>

definition ending_table :: "recorder cc_world ccs" where
  "ending_table = \<lparr>cs_heap = (\<lambda>_. None)(0 \<mapsto> O_cc (call_cc demo_up 1 None), 1 \<mapsto> O_max (ca_max demo_up),
       2 \<mapsto> O_cc (req_cc 1 term_event CC_STATUS_ACTIVE (O_term (term0\<lparr>ct_status := cancel, ct_call_uid := ''uid2''\<rparr>)) 3),
       3 \<mapsto> O_term (term0\<lparr>ct_status := cancel, ct_call_uid := ''uid2''\<rparr>)),
     cs_next = 4, cs_tbl = [\<lparr>tb_cc_ptr = Some 0, tb_rtp = Some demo_racc\<rparr>], cs_sim = 0, cs_world = demo_world\<rparr>"

lemma ending_table_own: "own ending_table [Some demo_up] {2, 3}"
  unfolding own_def
  by (intro exI [of _ "[(Some demo_up, [0, 1])]"])
    (auto simp: own_by_def ending_table_def rep_def demo_up_def call_cc_def split: if_splits)

theorem term_used_after_free_witness:
  "\<exists>s1 s2. cc_server_call_search_call_uid 2 ending_table = Some (0, s1) \<and>
     cc_server_entry demo_api 3600 1110 0 s1 = Some s2 \<and>
     (do { s3 \<leftarrow> cc_server_call_term 0 2 s2; set_tbl_idx 2 0 s3 }) = None"
proof -
  have r: "cs_heap ending_table 2 = Some (O_cc (req_cc 1 term_event CC_STATUS_ACTIVE (O_term (term0\<lparr>ct_status := cancel, ct_call_uid := ''uid2''\<rparr>)) 3))"
    "cs_heap ending_table 3 = Some (O_term (term0\<lparr>ct_status := cancel, ct_call_uid := ''uid2''\<rparr>))"
    by (simp_all add: ending_table_def)
  have ix: "index_of (has_uid (ct_call_uid (term0\<lparr>ct_status := cancel, ct_call_uid := ''uid2''\<rparr>))) 0 [Some demo_up] = Some 0"
    by (simp add: has_uid_def demo_up_def)
  obtain s1 where s1: "cc_server_call_search_call_uid 2 ending_table = Some (0, s1)"
    "own s1 [Some (demo_up\<lparr>ca_term := Some (term0\<lparr>ct_status := cancel, ct_call_uid := ''uid2''\<rparr>)\<rparr>)] ({2, 3} - {3})"
    using search_hands_over [OF ending_table_own _ r ix] by auto
  have "spec_entry demo_api 3600 1110 (Some (demo_up\<lparr>ca_term := Some (term0\<lparr>ct_status := cancel, ct_call_uid := ''uid2''\<rparr>)\<rparr>))
      (cs_world s1) = Some (None, cs_world s1)"
    by (simp add: spec_entry_def)
  then obtain s2 where s2: "cc_server_entry demo_api 3600 1110 0 s1 = Some s2"
    using entry_refines [OF own_weaken [OF s1(2)], of 0 demo_api 3600 1110] by auto
  show ?thesis using term_used_after_free [OF ending_table_own _ _ _ r s1(1), of demo_api 3600 1110 s2] s1(1) s2 by simp
qed

text \<open>Two requests for a number whose card allows one call.\<close>

definition one_call_world :: "recorder cc_world" where
  "one_call_world = \<lparr>cw_dbs = (\<lambda>_. st_db demo_st),
     cw_cache = rt_cache_pcard_put 0 7 [demo_card\<lparr>pc_call_number := 1\<rparr>] (st_cache demo_st)\<rparr>"

definition mx_a :: cc_maxsec where
  "mx_a = max0\<lparr>mx_clg := ''359888'', mx_cld := ''3592123'', mx_call_uid := ''uid1'', mx_ts := 1000\<rparr>"

definition mx_b :: cc_maxsec where
  "mx_b = max0\<lparr>mx_clg := ''359888'', mx_cld := ''3592123'', mx_call_uid := ''uid2'', mx_ts := 1000\<rparr>"

definition asking_table :: "recorder cc_world ccs" where
  "asking_table = \<lparr>cs_heap = (\<lambda>_. None)(0 \<mapsto> O_cc (req_cc 1 maxsec_event CC_STATUS_ACTIVE (O_max mx_a) 1), 1 \<mapsto> O_max mx_a,
       2 \<mapsto> O_cc (req_cc 1 maxsec_event CC_STATUS_ACTIVE (O_max mx_b) 3), 3 \<mapsto> O_max mx_b),
     cs_next = 4, cs_tbl = replicate 2 \<lparr>tb_cc_ptr = None, tb_rtp = None\<rparr>, cs_sim = 0, cs_world = one_call_world\<rparr>"

lemma asking_table_own: "own asking_table (replicate 2 None) {0, 1, 2, 3}"
  unfolding own_def
  by (intro exI [of _ "replicate 2 (None, [])"])
    (auto simp: own_by_def asking_table_def rep_def list_all2_conv_all_nth split: if_splits)

definition card_calls :: "racc option \<Rightarrow> int option" where
  "card_calls r = do { rtp \<leftarrow> r; map_option pc_call_number (ba_pcard (ra_bacc rtp)) }"

lemma both_granted:
  "(do {
     (r, p, w) \<leftarrow> rt_api_maxsec demo_api 1 (cc_maxsec_pre (cc0\<lparr>cc_cdr_server_id := 1\<rparr>) mx_a) 0 one_call_world;
     (r', p', w') \<leftarrow> rt_api_maxsec demo_api 2 (cc_maxsec_pre (cc0\<lparr>cc_cdr_server_id := 1\<rparr>) mx_b) 0 w;
     Some (card_calls r, card_calls r')
   }) = Some (Some 1, Some 1)"
  by code_simp

theorem overlapping_grants_witness:
  "\<exists>pre pre' rtp rtp' pre1 pre2 s1 s2 s3 s4 ys.
     cc_maxsec_count 0 asking_table = Some (Some (pre, 0)) \<and> cc_maxsec_count 2 asking_table = Some (Some (pre', 0)) \<and>
     cc_maxsec_limit demo_api 1 pre 0 asking_table = Some (Some rtp, pre1, s1) \<and>
     cc_maxsec_limit demo_api 2 pre' 0 s1 = Some (Some rtp', pre2, s2) \<and>
     card_calls (Some rtp) = Some 1 \<and> card_calls (Some rtp') = Some 1 \<and>
     cc_maxsec_enter 0 (Some rtp) pre1 s2 = Some s3 \<and> cc_maxsec_enter 2 (Some rtp') pre2 s3 = Some s4 \<and>
     own s4 ys {} \<and> calls_up ''359888'' ys = 2"
proof -
  let ?pre = "cc_maxsec_pre (cc0\<lparr>cc_cdr_server_id := 1\<rparr>) mx_a" and ?pre' = "cc_maxsec_pre (cc0\<lparr>cc_cdr_server_id := 1\<rparr>) mx_b"
  have h: "cs_heap asking_table 0 = Some (O_cc (req_cc 1 maxsec_event CC_STATUS_ACTIVE (O_max mx_a) 1))" "cs_heap asking_table 1 = Some (O_max mx_a)"
    "cs_heap asking_table 2 = Some (O_cc (req_cc 1 maxsec_event CC_STATUS_ACTIVE (O_max mx_b) 3))" "cs_heap asking_table 3 = Some (O_max mx_b)"
    by (simp_all add: asking_table_def)
  have up: "calls_up clg (replicate 2 None) = 0" for clg by (simp add: calls_up_def is_up_def)
  have c: "cc_maxsec_count 0 asking_table = Some (Some (?pre, 0))" "cc_maxsec_count 2 asking_table = Some (Some (?pre', 0))"
    using h own_count [OF asking_table_own] up
    by (simp_all add: cc_maxsec_count_def cc_maxsec_pre_def mx_a_def mx_b_def max0_def)
  obtain rtp pre1 w rtp' pre2 w' where g: "rt_api_maxsec demo_api 1 ?pre 0 one_call_world = Some (Some rtp, pre1, w)"
    "rt_api_maxsec demo_api 2 ?pre' 0 w = Some (Some rtp', pre2, w')" "card_calls (Some rtp) = Some 1" "card_calls (Some rtp') = Some 1"
    using both_granted by (auto simp: card_calls_def split: Option.bind_splits)
  have l: "cc_maxsec_limit demo_api 1 ?pre 0 asking_table = Some (Some rtp, pre1, asking_table\<lparr>cs_world := w\<rparr>)"
    "cc_maxsec_limit demo_api 2 ?pre' 0 (asking_table\<lparr>cs_world := w\<rparr>) = Some (Some rtp', pre2, asking_table\<lparr>cs_world := w'\<rparr>)"
    using g(1,2) by (simp_all add: cc_maxsec_limit_def) (simp_all add: asking_table_def)
  have clg: "mx_clg mx_b = mx_clg mx_a" "mx_clg mx_a = ''359888''" by (simp_all add: mx_a_def mx_b_def max0_def)
  have e: "0 \<le> sint (ev_call_maxsec exact_env)" by (simp add: exact_env_def)
  obtain s3 s4 ys where "cc_maxsec_enter 0 (Some rtp) pre1 (asking_table\<lparr>cs_world := w'\<rparr>) = Some s3"
    "cc_maxsec_enter 2 (Some rtp') pre2 s3 = Some s4" "own s4 ys ({0, 1, 2, 3} - {0, 1, 2, 3})" "calls_up (mx_clg mx_a) ys = 0 + 2"
    using overlapping_grants [OF asking_table_own _ _ h clg(1) c l [unfolded demo_api_def] _ e] by auto
  then show ?thesis using c l g(3,4) clg(2) by auto
qed

end
