(* ===== verification/CdrFile.thy ===== *)
theory CdrFile
  imports CdrRecords
begin

text \<open>
  The CSV reader of the CDRMediator, \<open>CDRMediator/cdr_file.c\<close>: a line is cut into fields, the
  fields fill a record through the table of setters, and the record is stored; a file is read
  line by line, noted in the table \<open>cdr_files\<close> and moved away. The file system is a list of
  paths with their bytes; \<open>rename\<close> and the clock are arguments.
\<close>

section \<open>Types\<close>

abbreviation (input) READBUF_LEN :: nat where "READBUF_LEN \<equiv> 1024"
abbreviation (input) CDR_FIELD_TXT_LEN :: nat where "CDR_FIELD_TXT_LEN \<equiv> 256"

record cdr_file_field =
  ff_id :: int
  ff_txt :: string

record cdr_file_header =
  fh_hdr_id :: u16
  fh_hdr_name :: string
  fh_func :: "cdr_func option"

text \<open>The pointer \<open>list\<close>: null, an array of names, or an array that was freed.\<close>

datatype cdr_file_list = No_list | Names "string list" | Freed

record cdr_file_profile =
  fp_src_dir :: string
  fp_files_number :: u16
  fp_list :: cdr_file_list
  fp_dst_dir :: string
  fp_hdr :: "cdr_file_header list"
  fp_col_sep :: string
  fp_hdr_comm :: char
  fp_line_end :: string
  fp_filters :: "filter list option"
  fp_cdr_server_id :: int
  fp_cdr_rec_type_id :: int
  fp_profile_name :: string
  fp_col_delimiter :: string
  fp_file_field_num :: int

type_synonym files = "(string \<times> string) list"

record cdrm_env =
  me_ts_epoch :: "string \<Rightarrow> int"
  me_json :: "cdr \<Rightarrow> string \<times> string"
  me_rename :: "string \<Rightarrow> string \<Rightarrow> bool"
  me_datetime :: "string \<Rightarrow> string"

section \<open>Fields of a line\<close>

definition cdr_file_chk_readbuf :: "string \<Rightarrow> bool" where
  "cdr_file_chk_readbuf readbuf \<longleftrightarrow> length readbuf = READBUF_LEN - 1 \<and> last readbuf \<noteq> CHR 0x0A"

text \<open>One call of \<open>strtok\<close> with the delimiters \<open>sep\<close>, and the tokens a loop of calls meets.\<close>

definition strtok_in :: "string \<Rightarrow> string \<Rightarrow> (string \<times> string) option" where
  "strtok_in sep s = (let t = dropWhile (\<lambda>c. c \<in> set sep) s in
     if t = [] then None else Some (takeWhile (\<lambda>c. c \<notin> set sep) t, drop 1 (dropWhile (\<lambda>c. c \<notin> set sep) t)))"

lemma strtok_in_shorter: "strtok_in sep s = Some (t, r) \<Longrightarrow> length r < length s"
proof -
  assume a: "strtok_in sep s = Some (t, r)"
  define u where "u = dropWhile (\<lambda>c. c \<in> set sep) s"
  have "u \<noteq> []" "r = drop 1 (dropWhile (\<lambda>c. c \<notin> set sep) u)" using a by (auto simp: strtok_in_def u_def Let_def split: if_splits)
  moreover have "length (dropWhile (\<lambda>c. c \<notin> set sep) u) \<le> length u" "length u \<le> length s"
    by (simp_all add: length_dropWhile_le u_def)
  moreover have "hd u \<notin> set sep" if "u \<noteq> []" using that hd_dropWhile [of "\<lambda>c. c \<in> set sep" s] by (simp add: u_def)
  ultimately show ?thesis by (cases u) (auto simp: le_imp_less_Suc length_dropWhile_le)
qed

function tokens :: "string \<Rightarrow> string \<Rightarrow> string list" where
  "tokens sep s = (case strtok_in sep s of
     None \<Rightarrow> []
   | Some (t, r) \<Rightarrow> if t = [] then [] else t # tokens sep r)"
  by pat_completeness auto
termination by (relation "measure (length \<circ> snd)") (auto dest: strtok_in_shorter)

declare tokens.simps [simp del]

definition cdr_file_field_analize :: "string \<Rightarrow> string \<Rightarrow> int" where
  "cdr_file_field_analize line sep = int (length (tokens sep line))"

definition cdr_file_getfield_cr_fix :: "string \<Rightarrow> string" where
  "cdr_file_getfield_cr_fix row = (case strtok (CHR 0x0A) row of (Some t, _) \<Rightarrow> t | (None, _) \<Rightarrow> row)"

text \<open>With an empty delimiter \<open>del2\<close> is compared without a value. Whatever it holds, the text stays: either
  the comparison fails, or \<open>strtok\<close> with the empty \<open>del\<close> gives the whole text back. The model takes the
  variable to hold some value, and not the read itself to be undefined. A delimiter of more than one
  character does not fit \<open>col_delimiter[2]\<close>.\<close>

definition delimiter_fix :: "string \<Rightarrow> string \<Rightarrow> string" where
  "delimiter_fix del txt = (case del of
     [d] \<Rightarrow> if hd txt = d \<and> last txt = d then (case strtok d txt of (Some t, _) \<Rightarrow> t | (None, _) \<Rightarrow> txt) else txt
   | _ \<Rightarrow> txt)"

fun cdr_file_getfield_delimiter_fix :: "string \<Rightarrow> cdr_file_field list \<Rightarrow> cdr_file_field list" where
  "cdr_file_getfield_delimiter_fix del [] = []"
| "cdr_file_getfield_delimiter_fix del (f # fs) =
     (if 0 < ff_id f then f\<lparr>ff_txt := delimiter_fix del (ff_txt f)\<rparr> # cdr_file_getfield_delimiter_fix del fs
      else f # fs)"

text \<open>The tokens are written into the array; \<open>None\<close> is a token that is too long for its field, or
  a field outside the array.\<close>

fun put_fields :: "nat \<Rightarrow> string list \<Rightarrow> cdr_file_field list \<Rightarrow> cdr_file_field list option" where
  "put_fields i [] arr = Some arr"
| "put_fields i (t # ts) arr =
     (if i < length arr \<and> length t < CDR_FIELD_TXT_LEN
      then put_fields (Suc i) ts (arr[i := \<lparr>ff_id = int i + 1, ff_txt = t\<rparr>]) else None)"

definition cdr_file_getfield :: "cdr_file_field list \<Rightarrow> string \<Rightarrow> string \<Rightarrow> string \<Rightarrow> cdr_file_field list option" where
  "cdr_file_getfield arr line sep del = do {
     let ts = tokens sep line;
     let i = length ts;
     arr1 \<leftarrow> put_fields 0 ts arr;
     if length arr1 \<le> i \<or> i = 0 \<or> 1 < length del then None
     else do {
       let arr2 = arr1[i := \<lparr>ff_id = 0, ff_txt = []\<rparr>];
       let e = arr2 ! (i - 1);
       let arr3 = arr2[i - 1 := e\<lparr>ff_txt := cdr_file_getfield_cr_fix (ff_txt e)\<rparr>];
       Some (cdr_file_getfield_delimiter_fix del arr3)
     }
   }"

section \<open>From fields to a record\<close>

definition cdr_file_header_put :: "string \<times> cdr_func \<Rightarrow> string \<Rightarrow> int \<Rightarrow> cdr_file_header option" where
  "cdr_file_header_put tbl hdr_name hdr_id =
     (if length hdr_name < 32 then Some \<lparr>fh_hdr_id = word_of_int hdr_id, fh_hdr_name = hdr_name, fh_func = Some (snd tbl)\<rparr>
      else None)"

fun set_hdrs :: "cdr_file_header list \<Rightarrow> nat \<Rightarrow> string \<Rightarrow> cdr \<Rightarrow> cdr option" where
  "set_hdrs [] i txt c = Some c"
| "set_hdrs (h # hs) i txt c =
     (if int i = uint (fh_hdr_id h) then
        (case fh_func h of
           None \<Rightarrow> set_hdrs hs i txt c
         | Some f \<Rightarrow> do { c' \<leftarrow> f c txt; set_hdrs hs i txt c' })
      else set_hdrs hs i txt c)"

fun set_fields :: "cdr_file_header list \<Rightarrow> nat \<Rightarrow> string list \<Rightarrow> cdr \<Rightarrow> cdr option" where
  "set_fields hs i [] c = Some c"
| "set_fields hs i (txt # txts) c = do { c' \<leftarrow> set_hdrs hs i txt c; set_fields hs (Suc i) txts c' }"

definition record_start :: "cdr_file_profile \<Rightarrow> cdr" where
  "record_start profile = cdr0\<lparr>cdr_cdr_server_id := word_of_int (fp_cdr_server_id profile),
     cdr_cdr_rec_type_id := word_of_int (fp_cdr_rec_type_id profile), cdr_profile_name := fp_profile_name profile\<rparr>"

definition minimum_data :: "cdr \<Rightarrow> bool" where
  "minimum_data c \<longleftrightarrow> cdr_call_uid c \<noteq> [] \<and> cdr_called_number c \<noteq> [] \<and> 0 < cdr_cdr_server_id c \<and> 0 < cdr_billsec c"

section \<open>One file\<close>

text \<open>\<open>fgets\<close>, and the strings the loop over it sees: up to a zero byte of each buffer.\<close>

definition fgets :: "nat \<Rightarrow> string \<Rightarrow> string \<times> string" where
  "fgets n s = (let l = takeWhile (\<lambda>c. c \<noteq> CHR 0x0A) s; k = min (n - 1) (Suc (length l)) in (take k s, drop k s))"

function readbufs :: "string \<Rightarrow> string list" where
  "readbufs s = (if s = [] then [] else
     (case fgets READBUF_LEN s of (l, r) \<Rightarrow> takeWhile (\<lambda>c. c \<noteq> CHR 0x00) l # readbufs r))"
  by pat_completeness auto
termination by (relation "measure length") (auto simp: fgets_def Let_def)

declare readbufs.simps [simp del]

definition cdr_file_row ::
  "cdrm_env \<Rightarrow> cdr_file_profile \<Rightarrow> string \<Rightarrow> nat \<times> nat \<times> nat \<Rightarrow> 'e db option \<Rightarrow> ((nat \<times> nat \<times> nat) \<times> 'e db option) option" where
  "cdr_file_row env profile readbuf tally dbp = (let (all_rows, parse_rows, ins_rows) = tally;
       file_field_num = cdr_file_field_analize readbuf (fp_col_sep profile) in
     if (readbuf @ [CHR 0x00]) ! 0 = fp_hdr_comm profile then Some (tally, dbp)
     else if 0 < file_field_num \<and> fp_file_field_num profile = file_field_num then do {
       arr \<leftarrow> cdr_file_getfield (replicate (nat file_field_num + 1) \<lparr>ff_id = 0, ff_txt = []\<rparr>) readbuf
               (fp_col_sep profile) (fp_col_delimiter profile);
       the_cdr \<leftarrow> set_fields (fp_hdr profile) 0 (map ff_txt (take (nat (fp_file_field_num profile)) arr)) (record_start profile);
       if minimum_data the_cdr then do {
         (ret, _, p) \<leftarrow> cdr_add_in_db (me_ts_epoch env) (me_json env) the_cdr (fp_filters profile) dbp;
         Some ((all_rows + 1, parse_rows + 1, if ret = 0 then ins_rows + 1 else ins_rows), p)
       } else Some ((all_rows + 1, parse_rows, ins_rows), dbp)
     } else Some (tally, dbp))"

fun cdr_file_rows ::
  "cdrm_env \<Rightarrow> cdr_file_profile \<Rightarrow> string list \<Rightarrow> nat \<times> nat \<times> nat \<Rightarrow> 'e db option \<Rightarrow> ((nat \<times> nat \<times> nat) \<times> 'e db option) option" where
  "cdr_file_rows env profile [] tally dbp = Some (tally, dbp)"
| "cdr_file_rows env profile (b # bs) tally dbp = do {
     (tally', p) \<leftarrow> cdr_file_row env profile b tally dbp;
     cdr_file_rows env profile bs tally' p
   }"

definition files_insert_str :: "int \<Rightarrow> string \<Rightarrow> string \<Rightarrow> string" where
  "files_insert_str srv e_filename ts = strncpy (''insert into cdr_files (cdr_server_id,filename,last_update) '' @
     ''values ('' @ dec_int srv @ '','' @ quoted e_filename @ '','' @ quoted ts @ '')'') 511"

definition cdr_file_add_in_tbl :: "string \<Rightarrow> string \<Rightarrow> int \<Rightarrow> 'e db option \<Rightarrow> 'e db option option" where
  "cdr_file_add_in_tbl ts filename srv dbp =
     (if dbp = None \<or> db_type dbp \<noteq> sql then Some dbp
      else do {
        e_filename \<leftarrow> escaped filename 512;
        Some (snd (db_insert dbp (files_insert_str srv e_filename ts)))
      })"

definition files_select_str :: "int \<Rightarrow> string \<Rightarrow> string" where
  "files_select_str srv e_filename =
     strncpy (''select id from cdr_files where cdr_server_id = '' @ dec_int srv @ '' and filename = '' @ quoted e_filename) 511"

definition cdr_file_get_from_tbl :: "string \<Rightarrow> int \<Rightarrow> 'e db option \<Rightarrow> (int \<times> 'e db option) option" where
  "cdr_file_get_from_tbl filename srv dbp =
     (if dbp = None then None
      else if db_type dbp = sql then do {
        e_filename \<leftarrow> escaped filename 512;
        (rows, p) \<leftarrow> query_rows (files_select_str srv e_filename) dbp;
        n \<leftarrow> one_int 0 rows;
        Some (case n of Some v \<Rightarrow> v | None \<Rightarrow> 0, p)
      } else Some (0, dbp))"

text \<open>The result: 0, or 2 when the file cannot be opened. The server id falls back to 1 and stays so.\<close>

definition cdr_file_parser ::
  "cdrm_env \<Rightarrow> cdr_file_profile \<Rightarrow> string \<Rightarrow> files \<Rightarrow> 'e db option \<Rightarrow> (int \<times> cdr_file_profile \<times> 'e db option) option" where
  "cdr_file_parser env profile filename fs dbp = (let
       profile = (if fp_cdr_server_id profile = 0 then profile\<lparr>fp_cdr_server_id := 1\<rparr> else profile) in
     case map_of fs filename of
       None \<Rightarrow> Some (2, profile, dbp)
     | Some content \<Rightarrow> do {
         (tally, p) \<leftarrow> cdr_file_rows env profile (readbufs content) (0, 0, 0) dbp;
         p' \<leftarrow> cdr_file_add_in_tbl (me_datetime env filename) filename (fp_cdr_server_id profile) p;
         Some (0, profile, p')
       })"

section \<open>The directory\<close>

definition cdr_file_move :: "cdrm_env \<Rightarrow> string \<Rightarrow> string \<Rightarrow> files \<Rightarrow> files" where
  "cdr_file_move env src dst fs = (case map_of fs src of
     Some content \<Rightarrow> if me_rename env src dst then (dst, content) # List.filter (\<lambda>(p, _). p \<noteq> src \<and> p \<noteq> dst) fs else fs
   | None \<Rightarrow> fs)"

text \<open>The entries of a directory as \<open>readdir\<close> gives them; \<open>None\<close> when it cannot be opened.\<close>

definition entries :: "string \<Rightarrow> files \<Rightarrow> string list" where
  "entries dir fs = ''.'' # ''..'' # [drop (length dir) p. (p, _) \<leftarrow> fs,
     take (length dir) p = dir \<and> CHR ''/'' \<notin> set (drop (length dir) p)]"

definition cdr_file_list_get :: "string list option \<Rightarrow> cdr_file_profile \<Rightarrow> cdr_file_profile" where
  "cdr_file_list_get d cfg = (case d of
     None \<Rightarrow> cfg
   | Some names \<Rightarrow>
       let ns = List.filter (\<lambda>n. strcmp n ''.'' \<noteq> 0 \<and> strcmp n ''..'' \<noteq> 0) names in
       if 0 < length ns
       then cfg\<lparr>fp_list := Names (map (\<lambda>n. strncpy n 255) ns), fp_files_number := word_of_nat (length ns)\<rparr>
       else cfg)"

fun cdr_file_each ::
  "cdrm_env \<Rightarrow> cdr_file_profile \<Rightarrow> string list \<Rightarrow> files \<Rightarrow> 'e db option \<Rightarrow> (cdr_file_profile \<times> files \<times> 'e db option) option" where
  "cdr_file_each env profile [] fs dbp = Some (profile, fs, dbp)"
| "cdr_file_each env profile (n # ns) fs dbp =
     (if n = [] then cdr_file_each env profile ns fs dbp
      else do {
        let src = fp_src_dir profile @ n;
        let dst = fp_dst_dir profile @ n;
        (id, p) \<leftarrow> cdr_file_get_from_tbl src (fp_cdr_server_id profile) dbp;
        if id = 0 then do {
          (ret, profile', p') \<leftarrow> cdr_file_parser env profile src fs p;
          cdr_file_each env profile' ns (if ret = 0 then cdr_file_move env src dst fs else fs) p'
        } else cdr_file_each env profile ns (cdr_file_move env src dst fs) p
      })"

text \<open>\<open>opens\<close> says whether the directory can be opened. \<open>mem_free(profile->list)\<close> leaves the pointer
  as it is; freeing it again is undefined, the value \<open>None\<close>.\<close>

definition cdr_file_reader ::
  "cdrm_env \<Rightarrow> bool \<Rightarrow> cdr_file_profile \<Rightarrow> files \<Rightarrow> 'e db option \<Rightarrow> (cdr_file_profile \<times> files \<times> 'e db option) option" where
  "cdr_file_reader env opens profile fs dbp = (let
       profile1 = cdr_file_list_get (if opens then Some (entries (fp_src_dir profile) fs) else None) profile in
     case fp_list profile1 of
       No_list \<Rightarrow> Some (profile1, fs, dbp)
     | Freed \<Rightarrow> None
     | Names ns \<Rightarrow> do {
         (profile2, fs', p) \<leftarrow> cdr_file_each env profile1 (take (unat (fp_files_number profile1)) ns) fs dbp;
         Some (profile2\<lparr>fp_files_number := 0, fp_list := Freed\<rparr>, fs', p)
       })"

end
