(* ===== verification/CdrIngest.thy ===== *)
theory CdrIngest
  imports CdrFile
begin

text \<open>
  What the CSV reader makes of files: the fields of a line come back as they were written, a file
  of well-formed rows is stored row by row and then noted, no file is noted twice, and what
  happens to rows with empty fields and on the pass after the last file was moved.
\<close>

section \<open>Tokens\<close>

fun join_by :: "char \<Rightarrow> string list \<Rightarrow> string" where
  "join_by sep [] = []"
| "join_by sep [f] = f"
| "join_by sep (f # g # fs) = f @ sep # join_by sep (g # fs)"

lemma join_by_snoc: "fs \<noteq> [] \<Longrightarrow> join_by sep fs @ x = join_by sep (butlast fs @ [last fs @ x])"
proof (induction sep fs rule: join_by.induct)
  case (3 sep f g fs)
  then show ?case by (cases fs) auto
qed auto

lemma strtok_in_single:
  "strtok_in [d] s = (case strtok d s of (None, _) \<Rightarrow> None | (Some t, r) \<Rightarrow> Some (t, r))"
  by (simp add: strtok_in_def strtok_def Let_def)

lemma tokens_Nil [simp]: "tokens sep [] = []"
  by (simp add: tokens.simps strtok_in_def)

lemma tokens_skip: "tokens [d] (d # s) = tokens [d] s"
  by (simp add: tokens.simps [of "[d]" "d # s"] tokens.simps [of "[d]" s] strtok_in_def)

lemma tokens_field:
  assumes "d \<notin> set f" "f \<noteq> []"
  shows "tokens [d] f = [f]" "tokens [d] (f @ d # s) = f # tokens [d] s"
  using assms
  by (simp_all add: tokens.simps [of "[d]" f] tokens.simps [of "[d]" "f @ d # s"] strtok_in_single strtok_last strtok_token)

text \<open>Empty fields are lost.\<close>

lemma tokens_join:
  "\<forall>f \<in> set fs. d \<notin> set f \<Longrightarrow> tokens [d] (join_by d fs) = List.filter (\<lambda>f. f \<noteq> []) fs"
proof (induction d fs rule: join_by.induct)
  case (2 d f)
  then show ?case by (cases "f = []") (simp_all add: tokens_field)
next
  case (3 d f g fs)
  then show ?case by (cases "f = []") (simp_all add: tokens_skip tokens_field)
qed simp

section \<open>The array of fields\<close>

abbreviation blank_fields :: "nat \<Rightarrow> cdr_file_field list" where
  "blank_fields n \<equiv> replicate n \<lparr>ff_id = 0, ff_txt = []\<rparr>"

definition numbered :: "nat \<Rightarrow> string list \<Rightarrow> cdr_file_field list" where
  "numbered i ts = map (\<lambda>(k, t). \<lparr>ff_id = int k + 1, ff_txt = t\<rparr>) (enumerate i ts)"

lemma numbered_simps [simp]:
  "numbered i [] = []" "numbered i (t # ts) = \<lparr>ff_id = int i + 1, ff_txt = t\<rparr> # numbered (Suc i) ts"
  "length (numbered i ts) = length ts" "map ff_txt (numbered i ts) = ts"
  by (simp_all add: numbered_def comp_def split_beta)

lemma numbered_append: "numbered i (ts @ us) = numbered i ts @ numbered (i + length ts) us"
  by (simp add: numbered_def enumerate_append_eq)

lemma put_fields_numbered:
  "i + length ts \<le> length arr \<Longrightarrow> \<forall>t \<in> set ts. length t < CDR_FIELD_TXT_LEN \<Longrightarrow>
   put_fields i ts arr = Some (take i arr @ numbered i ts @ drop (i + length ts) arr)"
proof (induction ts arbitrary: i arr)
  case (Cons t ts)
  then show ?case by (simp add: take_Suc_conv_app_nth)
qed simp

lemma put_fields_long:
  "\<exists>t \<in> set ts. CDR_FIELD_TXT_LEN \<le> length t \<Longrightarrow> put_fields i ts arr = None"
  by (induction ts arbitrary: i arr) auto

lemma delimiter_fix_numbered:
  "map ff_txt (take (length ts) (cdr_file_getfield_delimiter_fix del (numbered i ts @ [\<lparr>ff_id = 0, ff_txt = []\<rparr>]))) =
     map (delimiter_fix del) ts"
  by (induction ts arbitrary: i) auto

text \<open>What the array holds: the tokens, the line break cut from the last and the delimiters from each.\<close>

definition cleaned :: "string \<Rightarrow> string list \<Rightarrow> string list" where
  "cleaned del ts = map (delimiter_fix del) (butlast ts @ [cdr_file_getfield_cr_fix (last ts)])"

lemma getfield_cleaned:
  assumes "tokens sep line = ts" "ts \<noteq> []" "\<forall>t \<in> set ts. length t < CDR_FIELD_TXT_LEN" "length del \<le> 1"
  obtains arr where "cdr_file_getfield (blank_fields (length ts + 1)) line sep del = Some arr"
    "map ff_txt (take (length ts) arr) = cleaned del ts"
proof -
  let ?z = "\<lparr>ff_id = 0, ff_txt = []\<rparr>"
  obtain us t where ts: "ts = us @ [t]" using assms(2) by (metis append_butlast_last_id)
  have "drop (length ts) (blank_fields (length ts + 1)) = [?z]" by (simp del: replicate_add add: replicate_append_same [symmetric])
  then have "put_fields 0 ts (blank_fields (length ts + 1)) = Some (numbered 0 ts @ [?z])"
    using put_fields_numbered [of 0 ts "blank_fields (length ts + 1)"] assms(3) by simp
  then have "cdr_file_getfield (blank_fields (length ts + 1)) line sep del = Some (cdr_file_getfield_delimiter_fix del
      (numbered 0 (us @ [cdr_file_getfield_cr_fix t]) @ [?z]))"
    using assms(1,4) by (simp add: cdr_file_getfield_def ts nth_append list_update_append numbered_append)
  then show thesis
    using that delimiter_fix_numbered [of "us @ [cdr_file_getfield_cr_fix t]" del 0] by (simp add: cleaned_def ts)
qed

section \<open>A written row\<close>

text \<open>The delimiter, if there is one, around every field.\<close>

definition csv_field :: "string \<Rightarrow> string \<Rightarrow> string" where
  "csv_field del f = del @ f @ del"

definition csv_line :: "char \<Rightarrow> string \<Rightarrow> string list \<Rightarrow> string" where
  "csv_line sep del fs = join_by sep (map (csv_field del) fs) @ [CHR 0x0A]"

definition plain_field :: "char \<Rightarrow> string \<Rightarrow> string \<Rightarrow> bool" where
  "plain_field sep del f \<longleftrightarrow> f \<noteq> [] \<and> sep \<notin> set f \<and> CHR 0x0A \<notin> set f \<and> set del \<inter> set f = {} \<and> length f < 253"

lemma cr_fix_line: "CHR 0x0A \<notin> set f \<Longrightarrow> f \<noteq> [] \<Longrightarrow> cdr_file_getfield_cr_fix (f @ [CHR 0x0A]) = f"
  by (simp add: cdr_file_getfield_cr_fix_def strtok_token)

lemma delimiter_fix_field:
  assumes "length del \<le> 1" "f \<noteq> []" "set del \<inter> set f = {}"
  shows "delimiter_fix del (csv_field del f) = f"
proof (cases del)
  case (Cons d ds)
  then have d: "del = [d]" "d \<notin> set f" using assms by auto
  have "strtok d (d # f @ [d]) = strtok d (f @ [d])" by (simp add: strtok_def)
  then show ?thesis using d assms(2) by (simp add: delimiter_fix_def csv_field_def strtok_token)
qed (simp add: delimiter_fix_def csv_field_def)

lemma csv_tokens:
  assumes "sep \<noteq> CHR 0x0A" "sep \<notin> set del" "\<forall>f \<in> set fs. sep \<notin> set f" "fs \<noteq> []" "csv_field del (last fs) \<noteq> []"
  shows "tokens [sep] (csv_line sep del fs) =
    List.filter (\<lambda>f. f \<noteq> []) (map (csv_field del) (butlast fs)) @ [csv_field del (last fs) @ [CHR 0x0A]]"
proof -
  let ?gs = "map (csv_field del) (butlast fs) @ [csv_field del (last fs) @ [CHR 0x0A]]"
  have "csv_line sep del fs = join_by sep ?gs"
    using join_by_snoc [of "map (csv_field del) fs" sep "[CHR 0x0A]"] assms(4)
    by (simp add: csv_line_def map_butlast last_map)
  moreover have "\<forall>g \<in> set ?gs. sep \<notin> set g"
    using assms in_set_butlastD [of _ fs] by (auto simp: csv_field_def)
  ultimately show ?thesis using tokens_join [of ?gs sep] by simp
qed

lemma plain_field_csv:
  assumes "plain_field sep del f" "length del \<le> 1" "CHR 0x0A \<notin> set del"
  shows "csv_field del f \<noteq> []" "length (csv_field del f) < 255" "CHR 0x0A \<notin> set (csv_field del f)"
    "delimiter_fix del (csv_field del f) = f"
  using assms delimiter_fix_field [OF assms(2)] by (auto simp: plain_field_def csv_field_def)

lemma line_fields:
  assumes "sep \<noteq> CHR 0x0A" "sep \<notin> set del" "length del \<le> 1" "CHR 0x0A \<notin> set del" "fs \<noteq> []"
    "\<forall>f \<in> set fs. plain_field sep del f"
  obtains arr where "tokens [sep] (csv_line sep del fs) = map (csv_field del) (butlast fs) @ [csv_field del (last fs) @ [CHR 0x0A]]"
    "cdr_file_getfield (blank_fields (length fs + 1)) (csv_line sep del fs) [sep] del = Some arr"
    "map ff_txt (take (length fs) arr) = fs"
proof -
  let ?ts = "map (csv_field del) (butlast fs) @ [csv_field del (last fs) @ [CHR 0x0A]]"
  note plain = plain_field_csv [OF _ assms(3,4)]
  have f: "plain_field sep del f" if "f \<in> set (butlast fs) \<or> f = last fs" for f
    using that assms(5,6) by (auto dest: in_set_butlastD)
  have "List.filter (\<lambda>f. f \<noteq> []) (map (csv_field del) (butlast fs)) = map (csv_field del) (butlast fs)"
    using f plain(1) by (intro filter_True) auto
  moreover have "csv_field del (last fs) \<noteq> []" using f plain(1) by blast
  moreover have "\<forall>f \<in> set fs. sep \<notin> set f" using assms(6) by (simp add: plain_field_def)
  ultimately have tk: "tokens [sep] (csv_line sep del fs) = ?ts"
    using csv_tokens [OF assms(1,2) _ assms(5)] by simp
  have len: "length ?ts = length fs" using assms(5) by (simp add: Suc_pred')
  have short: "\<forall>t \<in> set ?ts. length t < CDR_FIELD_TXT_LEN" using f plain(2) by fastforce
  obtain arr where arr: "cdr_file_getfield (blank_fields (length ?ts + 1)) (csv_line sep del fs) [sep] del = Some arr"
    "map ff_txt (take (length ?ts) arr) = cleaned del ?ts"
    using getfield_cleaned [OF tk _ short assms(3)] by blast
  have "cdr_file_getfield_cr_fix (csv_field del (last fs) @ [CHR 0x0A]) = csv_field del (last fs)"
    using cr_fix_line plain(1,3) f by blast
  then have "cleaned del ?ts = map (\<lambda>f. delimiter_fix del (csv_field del f)) (butlast fs @ [last fs])"
    by (simp add: cleaned_def comp_def)
  also have "\<dots> = butlast fs @ [last fs]" using f plain(4) by (intro map_idI) auto
  also have "\<dots> = fs" using assms(5) by simp
  finally show thesis using that tk arr len by metis
qed

text \<open>Property C28. A line of plain fields comes back as it was written: for fields that are not empty, fit
  the buffer of a field and hold neither the separator, the delimiter nor a line break, the reader counts the fields and finds exactly
  their texts, with or without a delimiter around each.\<close>

theorem csv_round_trip:
  assumes "sep \<noteq> CHR 0x0A" "sep \<notin> set del" "length del \<le> 1" "CHR 0x0A \<notin> set del" "fs \<noteq> []"
    and "\<forall>f \<in> set fs. plain_field sep del f"
  shows "cdr_file_field_analize (csv_line sep del fs) [sep] = int (length fs) \<and>
    (\<exists>arr. cdr_file_getfield (blank_fields (length fs + 1)) (csv_line sep del fs) [sep] del = Some arr \<and>
       map ff_txt (take (length fs) arr) = fs)"
proof -
  obtain arr where "tokens [sep] (csv_line sep del fs) = map (csv_field del) (butlast fs) @ [csv_field del (last fs) @ [CHR 0x0A]]"
    "cdr_file_getfield (blank_fields (length fs + 1)) (csv_line sep del fs) [sep] del = Some arr"
    "map ff_txt (take (length fs) arr) = fs"
    by (rule line_fields [OF assms])
  then show ?thesis using assms(5) by (simp add: cdr_file_field_analize_def Suc_pred')
qed

theorem csv_round_trip_witness:
  "cdr_file_field_analize (csv_line (CHR '','') [CHR 0x22] [''uid1'', ''0888123456'', ''61'']) [CHR '',''] = 3 \<and>
   (\<exists>arr. cdr_file_getfield (blank_fields 4) (csv_line (CHR '','') [CHR 0x22] [''uid1'', ''0888123456'', ''61'']) [CHR '',''] [CHR 0x22] =
      Some arr \<and> map ff_txt (take 3 arr) = [''uid1'', ''0888123456'', ''61''])"
  using csv_round_trip [of "CHR '',''" "[CHR 0x22]" "[''uid1'', ''0888123456'', ''61'']"] by (simp add: plain_field_def numeral_eq_Suc)

section \<open>One file\<close>

text \<open>A row that the reader can take: no zero byte, and short enough for its buffer. A field may
  be empty where there is no delimiter, except the last.\<close>

definition row_fits :: "char \<Rightarrow> string \<Rightarrow> nat \<Rightarrow> string list \<Rightarrow> bool" where
  "row_fits sep del n fs \<longleftrightarrow> length fs = n \<and> fs \<noteq> [] \<and> last fs \<noteq> [] \<and>
     (\<forall>f \<in> set fs. plain_field sep del f \<or> f = [] \<and> del = []) \<and>
     length (csv_line sep del fs) < READBUF_LEN \<and> CHR 0x00 \<notin> set (csv_line sep del fs)"

text \<open>A profile for such rows; the code never sets the comment character.\<close>

definition profile_fits :: "char \<Rightarrow> string \<Rightarrow> nat \<Rightarrow> cdr_file_profile \<Rightarrow> bool" where
  "profile_fits sep del n pr \<longleftrightarrow> sep \<noteq> CHR 0x0A \<and> sep \<notin> set del \<and> length del \<le> 1 \<and> CHR 0x0A \<notin> set del \<and>
     fp_col_sep pr = [sep] \<and> fp_col_delimiter pr = del \<and> fp_hdr_comm pr = CHR 0x00 \<and>
     fp_file_field_num pr = int n \<and> fp_cdr_server_id pr \<noteq> 0 \<and> length (fp_profile_name pr) < 32 \<and>
     (\<forall>h \<in> set (fp_hdr pr). \<forall>f. fh_func h = Some f \<longrightarrow> f \<in> snd ` set cdr_tbl) \<and>
     (\<forall>fl \<in> set (case fp_filters pr of None \<Rightarrow> [] | Some fls \<Rightarrow> fls). filter_fits fl \<and> length (fl_replace_str fl) < 80)"

lemma csv_line_fgets:
  assumes "length (csv_line sep del fs) < READBUF_LEN" "CHR 0x0A \<notin> set (join_by sep (map (csv_field del) fs))"
  shows "fgets READBUF_LEN (csv_line sep del fs @ rest) = (csv_line sep del fs, rest)"
proof -
  have "takeWhile (\<lambda>c. c \<noteq> CHR 0x0A) (csv_line sep del fs @ rest) = join_by sep (map (csv_field del) fs)"
    unfolding csv_line_def append_assoc using assms(2)
    by (subst takeWhile_append2) auto
  moreover have "Suc (length (join_by sep (map (csv_field del) fs))) = length (csv_line sep del fs)" by (simp add: csv_line_def)
  ultimately show ?thesis using assms(1) by (simp add: fgets_def Let_def)
qed

lemma join_by_chars: "set (join_by sep fs) \<subseteq> insert sep (\<Union> (set ` set fs))"
  by (induction sep fs rule: join_by.induct) auto

lemma readbufs_lines:
  assumes "\<forall>fs \<in> set rows. row_fits sep del n fs" "sep \<noteq> CHR 0x0A" "CHR 0x0A \<notin> set del"
  shows "readbufs (concat (map (csv_line sep del) rows)) = map (csv_line sep del) rows"
  using assms(1)
proof (induction rows)
  case (Cons fs rows)
  have "CHR 0x0A \<notin> set (join_by sep (map (csv_field del) fs))"
    using join_by_chars [of sep "map (csv_field del) fs"] Cons.prems assms(2,3)
    by (auto simp: row_fits_def plain_field_def csv_field_def)
  then have "fgets READBUF_LEN (csv_line sep del fs @ concat (map (csv_line sep del) rows)) =
      (csv_line sep del fs, concat (map (csv_line sep del) rows))"
    using Cons.prems by (intro csv_line_fgets) (auto simp: row_fits_def)
  moreover have "takeWhile (\<lambda>c. c \<noteq> CHR 0x00) (csv_line sep del fs) = csv_line sep del fs"
    using Cons.prems by (auto simp: row_fits_def takeWhile_eq_all_conv)
  moreover have "csv_line sep del fs \<noteq> []" by (simp add: csv_line_def)
  ultimately show ?case using Cons by (simp add: readbufs.simps [of "csv_line sep del fs @ _"])
qed (simp add: readbufs.simps)

text \<open>The statements a row leads to: none when a field is empty or the minimum is missing.\<close>

definition record_stmt :: "filter list option \<Rightarrow> cdr \<Rightarrow> string option" where
  "record_stmt filters c = do {
     c' \<leftarrow> cdr_called_number_filtering_match (case filters of None \<Rightarrow> [] | Some fls \<Rightarrow> fls)
       (c\<lparr>cdr_start_ts := trim_ts (cdr_start_ts c), cdr_answer_ts := trim_ts (cdr_answer_ts c),
          cdr_end_ts := trim_ts (cdr_end_ts c)\<rparr>);
     cdr_insert_str [] c'
   }"

definition row_stmts :: "cdr_file_profile \<Rightarrow> string list \<Rightarrow> string list option" where
  "row_stmts pr fs =
     (if [] \<in> set fs then Some []
      else do {
        c \<leftarrow> set_fields (fp_hdr pr) 0 fs (record_start pr);
        if minimum_data c then do { q \<leftarrow> record_stmt (fp_filters pr) c; Some [q] } else Some []
      })"

fun file_stmts :: "cdr_file_profile \<Rightarrow> string list list \<Rightarrow> string list option" where
  "file_stmts pr [] = Some []"
| "file_stmts pr (fs # rows) = do { q \<leftarrow> row_stmts pr fs; qs \<leftarrow> file_stmts pr rows; Some (q @ qs) }"

definition is_cdr_insert :: "string \<Rightarrow> bool" where
  "is_cdr_insert q \<longleftrightarrow> (\<exists>m. q = ''insert into cdrs '' @ m)"

lemma add_in_db_stmt:
  assumes "cdr_ok c" "\<forall>fl \<in> set (case fls of None \<Rightarrow> [] | Some fls \<Rightarrow> fls). filter_fits fl \<and> length (fl_replace_str fl) < 80"
  obtains c' q where "record_stmt fls c = Some q" "is_cdr_insert q"
    "cdr_add_in_db ep js c fls (rdb ans lg r) = Some (fst (ans lg q), c', rdb ans (lg @ [q]) (snd (ans lg q)))"
proof -
  let ?fs = "case fls of None \<Rightarrow> [] | Some fls \<Rightarrow> fls"
  have n: "cdr_add_in_db ep js c fls (rdb ans lg r) = cdr_add_in_db ep js c (Some ?fs) (rdb ans lg r)"
    by (cases fls) (simp_all add: cdr_add_in_db_def Let_def)
  show thesis using stored_once [OF assms, of ep js ans lg r] that
    by (auto simp: n record_stmt_def is_cdr_insert_def insert_head_def)
qed

lemma set_fields_ok:
  assumes "\<forall>h \<in> set hs. \<forall>f. fh_func h = Some f \<longrightarrow> f \<in> snd ` set cdr_tbl"
  shows "set_fields hs i txts c = Some c' \<Longrightarrow> cdr_ok c \<Longrightarrow> cdr_ok c'"
proof (induction txts arbitrary: i c)
  case (Cons t ts)
  have "set_hdrs hs i t c = Some d \<Longrightarrow> cdr_ok c \<Longrightarrow> cdr_ok d" for c d
    using assms
  proof (induction hs arbitrary: c)
    case (Cons h hs)
    then show ?case using cdr_func_ok by (fastforce simp: keeps_ok_def split: if_splits option.splits Option.bind_splits)
  qed simp
  then show ?case using Cons by (auto split: Option.bind_splits)
qed simp

lemma record_start_ok: "length (fp_profile_name pr) < 32 \<Longrightarrow> cdr_ok (record_start pr)"
  by (simp add: record_start_def cdr_ok_def cdr0_def)

lemma short_line:
  assumes "sep \<noteq> CHR 0x0A" "[] \<in> set fs" "row_fits sep [] n fs"
  shows "cdr_file_field_analize (csv_line sep [] fs) [sep] < int n"
proof -
  have fs: "fs \<noteq> []" "last fs \<noteq> []" "length fs = n" using assms(3) by (simp_all add: row_fits_def)
  have id: "map (csv_field []) gs = gs" for gs by (induction gs) (simp_all add: csv_field_def)
  obtain gs g where g: "fs = gs @ [g]" using fs(1) by (metis append_butlast_last_id)
  have e: "[] \<in> set (butlast fs)" using assms(2) fs(2) by (auto simp: g)
  have p: "\<forall>f \<in> set fs. plain_field sep [] f \<or> f = []" using assms(3) by (simp add: row_fits_def)
  have "sep \<notin> set f" if "f \<in> set fs" for f using bspec [OF p that] by (cases "f = []") (simp_all add: plain_field_def)
  then have "tokens [sep] (csv_line sep [] fs) = List.filter (\<lambda>f. f \<noteq> []) (butlast fs) @ [last fs @ [CHR 0x0A]]"
    using csv_tokens [of sep "[]" fs] assms(1) fs(1,2) by (simp add: id csv_field_def)
  moreover have "length (List.filter (\<lambda>f. f \<noteq> []) (butlast fs)) < length (butlast fs)"
    using e by (intro length_filter_less) auto
  ultimately show ?thesis using fs by (simp add: cdr_file_field_analize_def)
qed

lemma row_stored:
  assumes "profile_fits sep del n pr" "row_fits sep del n fs" "row_stmts pr fs = Some qs"
  obtains tally' r' where "cdr_file_row env pr (csv_line sep del fs) tally (rdb ans lg r) = Some (tally', rdb ans (lg @ qs) r')"
    "\<forall>q \<in> set qs. is_cdr_insert q"
proof -
  let ?line = "csv_line sep del fs"
  note pr = assms(1) [unfolded profile_fits_def]
  note fs = assms(2) [unfolded row_fits_def]
  have h: "(?line @ [CHR 0x00]) ! 0 \<noteq> CHR 0x00"
  proof -
    have "?line \<noteq> []" by (simp add: csv_line_def)
    then have "(?line @ [CHR 0x00]) ! 0 \<in> set ?line" by (simp add: nth_append)
    then show ?thesis using fs by metis
  qed
  show thesis
  proof (cases "[] \<in> set fs")
    case True
    then have "del = []" using fs by (auto simp: plain_field_def)
    then have "cdr_file_field_analize ?line [sep] < int n" using short_line [of sep fs n] pr True assms(2) by simp
    then show thesis using that [of tally r] True assms(3) pr h by (simp add: cdr_file_row_def row_stmts_def split_beta Let_def)
  next
    case False
    then have plain: "\<forall>f \<in> set fs. plain_field sep del f" using fs by metis
    obtain arr where arr: "tokens [sep] ?line = map (csv_field del) (butlast fs) @ [csv_field del (last fs) @ [CHR 0x0A]]"
      "cdr_file_getfield (blank_fields (length fs + 1)) ?line [sep] del = Some arr"
      "map ff_txt (take (length fs) arr) = fs"
      using line_fields [of sep del fs] pr fs plain by blast
    have num: "cdr_file_field_analize ?line [sep] = int n" "length fs = n" "0 < n"
      using arr(1) fs by (auto simp: cdr_file_field_analize_def of_nat_diff Suc_leI)
    obtain c where c: "set_fields (fp_hdr pr) 0 fs (record_start pr) = Some c"
      using assms(3) False by (auto simp: row_stmts_def split: Option.bind_splits)
    have ok: "cdr_ok c" using set_fields_ok [OF _ c] record_start_ok [of pr] pr by simp
    obtain c' q where q: "record_stmt (fp_filters pr) c = Some q" "is_cdr_insert q"
      "cdr_add_in_db (me_ts_epoch env) (me_json env) c (fp_filters pr) (rdb ans lg r) =
         Some (fst (ans lg q), c', rdb ans (lg @ [q]) (snd (ans lg q)))"
      using add_in_db_stmt [OF ok, of "fp_filters pr"] pr by metis
    have qs: "qs = (if minimum_data c then [q] else [])" using assms(3) False c q(1) by (auto simp: row_stmts_def)
    have "cdr_file_row env pr ?line tally (rdb ans lg r) =
      (case tally of (a, b, i) \<Rightarrow>
         if minimum_data c then Some ((a + 1, b + 1, if fst (ans lg q) = 0 then i + 1 else i), rdb ans (lg @ [q]) (snd (ans lg q)))
         else Some ((a + 1, b, i), rdb ans lg r))"
      using h pr num arr(2,3) c q(3) by (simp add: cdr_file_row_def Let_def split: prod.splits)
    then show thesis using that qs q(2) by (cases "minimum_data c") (auto split: prod.splits)
  qed
qed

lemma rows_stored:
  assumes "profile_fits sep del n pr" "\<forall>fs \<in> set rows. row_fits sep del n fs" "file_stmts pr rows = Some qs"
  obtains tally' r' where
    "cdr_file_rows env pr (map (csv_line sep del) rows) tally (rdb ans lg r) = Some (tally', rdb ans (lg @ qs) r')"
    "\<forall>q \<in> set qs. is_cdr_insert q"
  using assms(2,3)
proof (induction rows arbitrary: thesis tally lg r qs)
  case (Cons fs rows)
  obtain q qs' where q: "row_stmts pr fs = Some q" "file_stmts pr rows = Some qs'" "qs = q @ qs'"
    using Cons.prems(3) by (auto split: Option.bind_splits)
  have fs: "row_fits sep del n fs" "\<forall>fs \<in> set rows. row_fits sep del n fs" using Cons.prems(2) by simp_all
  obtain t1 r1 where 1: "cdr_file_row env pr (csv_line sep del fs) tally (rdb ans lg r) = Some (t1, rdb ans (lg @ q) r1)"
    "\<forall>x \<in> set q. is_cdr_insert x"
    by (rule row_stored [OF assms(1) fs(1) q(1)])
  obtain t2 r2 where 2: "cdr_file_rows env pr (map (csv_line sep del) rows) t1 (rdb ans (lg @ q) r1) = Some (t2, rdb ans ((lg @ q) @ qs') r2)"
    "\<forall>x \<in> set qs'. is_cdr_insert x"
    by (rule Cons.IH [OF _ fs(2) q(2)])
  show ?case using Cons.prems(1) 1 2 q(3) by auto
qed simp

lemma files_insert_start: "\<exists>m. files_insert_str srv e ts = ''insert into cdr_files '' @ m"
  by (simp add: files_insert_str_def strncpy_def)

lemma add_in_tbl:
  assumes "escaped name 512 = Some e"
  shows "cdr_file_add_in_tbl ts name srv (rdb ans lg r) =
    Some (rdb ans (lg @ [files_insert_str srv e ts]) (snd (ans lg (files_insert_str srv e ts))))"
proof -
  obtain m where m: "files_insert_str srv e ts = ''insert into cdr_files '' @ m" using files_insert_start by blast
  have "strncasecmp0 (files_insert_str srv e ts) ''insert'' 6" using verb_prefix(3) by (simp add: m)
  then show ?thesis using assms by (simp add: cdr_file_add_in_tbl_def) (simp add: rdb_def db_type_def)
qed

lemma file_parsed:
  assumes "profile_fits sep del n pr" "\<forall>fs \<in> set rows. row_fits sep del n fs" "file_stmts pr rows = Some qs"
    and "map_of fs name = Some (concat (map (csv_line sep del) rows))" "escaped name 512 = Some e"
  shows "\<exists>r'. cdr_file_parser env pr name fs (rdb ans lg r) =
    Some (0, pr, rdb ans (lg @ qs @ [files_insert_str (fp_cdr_server_id pr) e (me_datetime env name)]) r')"
proof -
  have pr: "sep \<noteq> CHR 0x0A" "CHR 0x0A \<notin> set del" "fp_cdr_server_id pr \<noteq> 0" using assms(1) by (simp_all add: profile_fits_def)
  obtain t r1 where "cdr_file_rows env pr (map (csv_line sep del) rows) (0, 0, 0) (rdb ans lg r) = Some (t, rdb ans (lg @ qs) r1)"
    by (rule rows_stored [OF assms(1-3)])
  then show ?thesis using readbufs_lines [OF assms(2) pr(1,2)] pr(3) assms(4) add_in_tbl [OF assms(5)]
    by (intro exI [of _ "snd (ans (lg @ qs) (files_insert_str (fp_cdr_server_id pr) e (me_datetime env name)))"])
      (simp add: cdr_file_parser_def split: prod.splits)
qed

text \<open>Property C14. A file of well-formed rows is taken in row by row: with a database that answers as it
  likes, the reader sends exactly the inserts of the rows that have no empty field and hold the
  minimum, in their order, then notes the file in \<open>cdr_files\<close>, and returns 0. A row with an empty
  field leaves no trace.\<close>

theorem file_stored:
  assumes "profile_fits sep del n pr" "\<forall>fs \<in> set rows. row_fits sep del n fs" "file_stmts pr rows = Some qs"
    and "map_of fs name = Some (concat (map (csv_line sep del) rows))" "escaped name 512 = Some e"
  shows "\<exists>r'. cdr_file_parser env pr name fs (rdb ans lg r) =
    Some (0, pr, rdb ans (lg @ qs @ [files_insert_str (fp_cdr_server_id pr) e (me_datetime env name)]) r')"
  by (rule file_parsed [OF assms])

text \<open>A file of two rows, the second with an empty field.\<close>

definition demo_profile :: cdr_file_profile where
  "demo_profile = \<lparr>fp_src_dir = ''/in/'', fp_files_number = 0, fp_list = No_list, fp_dst_dir = ''/ok/'',
     fp_hdr = [\<lparr>fh_hdr_id = 0, fh_hdr_name = ''0'', fh_func = Some cdr_add_call_uid\<rparr>,
       \<lparr>fh_hdr_id = 1, fh_hdr_name = ''1'', fh_func = Some cdr_add_called_number\<rparr>,
       \<lparr>fh_hdr_id = 2, fh_hdr_name = ''2'', fh_func = Some cdr_add_billsec\<rparr>],
     fp_col_sep = '','', fp_hdr_comm = CHR 0x00, fp_line_end = [], fp_filters = None, fp_cdr_server_id = 1,
     fp_cdr_rec_type_id = 4, fp_profile_name = ''demo'', fp_col_delimiter = [], fp_file_field_num = 3\<rparr>"

definition demo_rows :: "string list list" where
  "demo_rows = [[''uid1'', ''0888123456'', ''61''], [''uid2'', [], ''10'']]"

definition demo_files :: files where
  "demo_files = [(''/in/a'', concat (map (csv_line (CHR '','') []) demo_rows))]"

definition demo_env :: cdrm_env where
  "demo_env = \<lparr>me_ts_epoch = (\<lambda>_. 0), me_json = (\<lambda>_. ([], [])), me_rename = (\<lambda>_ _. True), me_datetime = (\<lambda>_. ''2024-05-01 10:00:00'')\<rparr>"

lemma demo_profile_fits: "profile_fits (CHR '','') [] 3 demo_profile"
proof -
  have "f \<in> snd ` set cdr_tbl" if "f = cdr_add_call_uid \<or> f = cdr_add_called_number \<or> f = cdr_add_billsec" for f
    using that by (auto simp: cdr_tbl_def)
  then show ?thesis by (simp add: profile_fits_def demo_profile_def)
qed

lemma demo_rows_fit: "\<forall>fs \<in> set demo_rows. row_fits (CHR '','') [] 3 fs"
  by (simp add: demo_rows_def row_fits_def plain_field_def csv_line_def csv_field_def)

lemma demo_stmts: obtains q where "file_stmts demo_profile demo_rows = Some [q]"
proof -
  let ?c = "(record_start demo_profile)\<lparr>cdr_call_uid := ''uid1'', cdr_called_number := ''0888123456'', cdr_billsec := 61\<rparr>"
  have at: "atoi ''61'' = Some 61" by code_simp
  have "set_fields (fp_hdr demo_profile) 0 [''uid1'', ''0888123456'', ''61''] (record_start demo_profile) = Some ?c"
    by (simp add: demo_profile_def cdr_add_defs cdr_field_set_def strncpy_def at)
  moreover have "minimum_data ?c" by (simp add: minimum_data_def record_start_def demo_profile_def)
  moreover have "cdr_ok ?c" using record_start_ok [of demo_profile] by (simp add: demo_profile_def cdr_ok_def)
  then obtain q where "record_stmt None ?c = Some q" by (rule add_in_db_stmt [where fls = None]) simp_all
  moreover have "fp_filters demo_profile = None" by (simp add: demo_profile_def)
  ultimately show thesis using that by (simp add: demo_rows_def row_stmts_def)
qed

theorem file_stored_witness:
  "\<exists>q note r'. cdr_file_parser demo_env demo_profile ''/in/a'' demo_files (rdb (\<lambda>_ _. (0, None)) [] None) =
     Some (0, demo_profile, rdb (\<lambda>_ _. (0, None)) [q, note] r')"
proof -
  obtain q where q: "file_stmts demo_profile demo_rows = Some [q]" by (rule demo_stmts)
  have e: "escaped ''/in/a'' 512 = Some ''/in/a''" by code_simp
  have f: "map_of demo_files ''/in/a'' = Some (concat (map (csv_line (CHR '','') []) demo_rows))" by (simp add: demo_files_def)
  show ?thesis
    using file_stored [OF demo_profile_fits demo_rows_fit q f e, of demo_env "\<lambda>_ _. (0, None)" "[]" None] by auto
qed

section \<open>Passes over the directory\<close>

text \<open>New files arrive before a pass.\<close>

fun reader_run ::
  "(cdrm_env \<times> bool \<times> files) list \<Rightarrow> cdr_file_profile \<Rightarrow> files \<Rightarrow> 'e db option \<Rightarrow>
     (cdr_file_profile \<times> files \<times> 'e db option) option" where
  "reader_run [] pr fs dbp = Some (pr, fs, dbp)"
| "reader_run ((env, opens, new) # steps) pr fs dbp = do {
     (pr', fs', p) \<leftarrow> cdr_file_reader env opens pr (fs @ new) dbp;
     reader_run steps pr' fs' p
   }"

definition no_entries :: "string \<Rightarrow> files \<Rightarrow> bool" where
  "no_entries dir fs \<longleftrightarrow> List.filter (\<lambda>n. strcmp n ''.'' \<noteq> 0 \<and> strcmp n ''..'' \<noteq> 0) (entries dir fs) = []"

text \<open>Property C26. After a pass that found files, the next pass over a directory that is empty, or
  cannot be opened, frees the list of names a second time.\<close>

theorem second_pass_double_free:
  assumes "cdr_file_reader env opens pr fs dbp = Some (pr', fs', p)" "opens" "\<not> no_entries (fp_src_dir pr) fs"
    and "opens' \<longrightarrow> no_entries (fp_src_dir pr') fs2"
  shows "cdr_file_reader env' opens' pr' fs2 dbp' = None"
proof -
  have "fp_list pr' = Freed"
    using assms(1-3)
    by (auto simp: cdr_file_reader_def cdr_file_list_get_def no_entries_def Let_def split: Option.bind_splits)
  then show ?thesis using assms(4)
    by (simp add: cdr_file_reader_def cdr_file_list_get_def no_entries_def Let_def)
qed

lemma demo_entries: "\<not> no_entries (fp_src_dir demo_profile) demo_files"
  by (simp add: no_entries_def entries_def demo_profile_def demo_files_def)

text \<open>One pass over the example.\<close>

lemma demo_reader:
  assumes "cdr_file_get_from_tbl ''/in/a'' 1 (rdb ans lg r) = Some (fid, rdb ans lg1 r1)"
    and "file_stmts demo_profile demo_rows = Some qs"
  obtains r2 where "cdr_file_reader env True (demo_profile\<lparr>fp_list := l, fp_files_number := k\<rparr>) demo_files (rdb ans lg r) =
     Some (demo_profile\<lparr>fp_list := Freed, fp_files_number := 0\<rparr>, cdr_file_move env ''/in/a'' ''/ok/a'' demo_files,
       rdb ans (if fid = 0 then lg1 @ qs @ [files_insert_str 1 ''/in/a'' (me_datetime env ''/in/a'')] else lg1) r2)"
proof -
  let ?pr = "demo_profile\<lparr>fp_list := Names [''a''], fp_files_number := 1\<rparr>"
  have e: "escaped ''/in/a'' 512 = Some ''/in/a''" by code_simp
  have f: "map_of demo_files ''/in/a'' = Some (concat (map (csv_line (CHR '','') []) demo_rows))" by (simp add: demo_files_def)
  have fit: "profile_fits (CHR '','') [] 3 ?pr" using demo_profile_fits by (simp add: profile_fits_def)
  have "file_stmts ?pr rows = file_stmts demo_profile rows" for rows
    by (induction rows) (simp_all add: row_stmts_def record_start_def cong: if_cong)
  then have stm: "file_stmts ?pr demo_rows = Some qs" using assms(2) by simp
  have dirs: "fp_src_dir demo_profile = ''/in/''" "fp_dst_dir demo_profile = ''/ok/''" "fp_cdr_server_id demo_profile = 1"
    by (simp_all add: demo_profile_def)
  have lst: "cdr_file_list_get (Some (entries ''/in/'' demo_files)) (demo_profile\<lparr>fp_list := l, fp_files_number := k\<rparr>) = ?pr"
    by (simp add: cdr_file_list_get_def entries_def demo_files_def strncpy_def)
  obtain r2 where "cdr_file_parser env ?pr ''/in/a'' demo_files (rdb ans lg1 r1) =
      Some (0, ?pr, rdb ans (lg1 @ qs @ [files_insert_str 1 ''/in/a'' (me_datetime env ''/in/a'')]) r2)"
    using file_parsed [OF fit demo_rows_fit stm f e, of env ans lg1 r1] by (auto simp: dirs)
  then show thesis using assms(1) lst by (cases "fid = 0") (auto intro!: that simp: cdr_file_reader_def dirs Let_def)
qed

theorem second_pass_double_free_witness:
  "\<exists>pr' c p. cdr_file_reader demo_env True demo_profile demo_files (rdb (\<lambda>_ _. (0, None)) [] None) =
       Some (pr', [(''/ok/a'', c)], p) \<and>
     cdr_file_reader demo_env True pr' [(''/ok/a'', c)] p = None"
proof -
  obtain q where qs: "file_stmts demo_profile demo_rows = Some [q]" by (rule demo_stmts)
  have e: "escaped ''/in/a'' 512 = Some ''/in/a''" by code_simp
  have "\<exists>m. files_select_str 1 ''/in/a'' = ''select '' @ m" by (simp add: files_select_str_def strncpy_def)
  then have "is_select (files_select_str 1 ''/in/a'')" using verb_prefix(1) by auto
  then have get: "cdr_file_get_from_tbl ''/in/a'' 1 (rdb (\<lambda>_ _. (0, None)) [] None) =
      Some (0, rdb (\<lambda>_ _. (0, None)) [files_select_str 1 ''/in/a''] None)"
    by (simp add: cdr_file_get_from_tbl_def e one_int_def) (simp add: rdb_def db_type_def)
  have mv: "cdr_file_move demo_env ''/in/a'' ''/ok/a'' demo_files = [(''/ok/a'', concat (map (csv_line (CHR '','') []) demo_rows))]"
    by (simp add: cdr_file_move_def demo_files_def demo_env_def)
  have pr: "demo_profile\<lparr>fp_list := No_list, fp_files_number := 0\<rparr> = demo_profile" by (simp add: demo_profile_def)
  obtain r2 where run: "cdr_file_reader demo_env True demo_profile demo_files (rdb (\<lambda>_ _. (0, None)) [] None) =
       Some (demo_profile\<lparr>fp_list := Freed, fp_files_number := 0\<rparr>,
         [(''/ok/a'', concat (map (csv_line (CHR '','') []) demo_rows))],
         rdb (\<lambda>_ _. (0, None)) ([files_select_str 1 ''/in/a''] @ [q] @ [files_insert_str 1 ''/in/a'' (me_datetime demo_env ''/in/a'')]) r2)"
    using demo_reader [OF get qs, where env = demo_env and l = No_list and k = 0] unfolding pr mv by auto
  have "no_entries ''/in/'' [(''/ok/a'', c)]" for c by (simp add: no_entries_def entries_def)
  moreover have "fp_src_dir demo_profile = ''/in/''" by (simp add: demo_profile_def)
  ultimately show ?thesis
    using second_pass_double_free [OF run _ demo_entries, of True "[(''/ok/a'', concat (map (csv_line (CHR '','') []) demo_rows))]"] run
    by auto
qed

end
