(* ===== verification/CdrOnce.thy ===== *)
theory CdrOnce
  imports CdrIngest
begin

text \<open>
  The notes in \<open>cdr_files\<close> over many passes of the CSV reader: a database that finds what was
  noted keeps a file from being taken in a second time, also when it cannot be moved away.
\<close>

section \<open>No file is taken in twice\<close>

definition is_note :: "int \<Rightarrow> string \<Rightarrow> string \<Rightarrow> bool" where
  "is_note srv e q \<longleftrightarrow> (\<exists>ts. length ts < 32 \<and> q = files_insert_str srv e ts)"

definition noted :: "int \<Rightarrow> string \<Rightarrow> string list \<Rightarrow> nat" where
  "noted srv e lg = length (List.filter (is_note srv e) lg)"

text \<open>A database that finds what was noted: the query for a file has a row, with an id, for each
  time it was noted.\<close>

definition finds_notes :: "answers \<Rightarrow> int \<Rightarrow> bool" where
  "finds_notes ans srv \<longleftrightarrow> (\<forall>lg path. length path \<le> 190 \<longrightarrow>
     (\<exists>rows. snd (ans lg (files_select_str srv (escs path))) = Some rows \<and> length rows = noted srv (escs path) lg \<and>
        (\<forall>row \<in> set rows. \<exists>k. coli row 0 = Some k \<and> k \<noteq> 0)))"

text \<open>Names short enough that no statement is cut.\<close>

definition short_paths :: "files \<Rightarrow> bool" where
  "short_paths fs \<longleftrightarrow> (\<forall>(p, c) \<in> set fs. length p \<le> 190)"

lemma escaped_escs: "escaped s n = Some e \<Longrightarrow> e = escs s"
  by (auto simp: escaped_def db_sql_escape_def Let_def split: if_splits prod.splits dest: db_sql_escape_loop_ok)

lemma insert_str_whole:
  assumes "length e \<le> 380" "length ts < 32" "int_range srv"
  shows "files_insert_str srv e ts = ''insert into cdr_files (cdr_server_id,filename,last_update) values ('' @ dec_int srv @ '','' @
     [CHR 0x27] @ (e @ CHR 0x27 # '','' @ quoted ts @ '')'')"
proof -
  have "length (dec_int srv) \<le> 11" using dec_int_length [of srv 10] assms(3) by (auto simp: int_range_def)
  then show ?thesis using assms(1,2) by (simp add: files_insert_str_def strncpy_def quoted_def)
qed

lemma note_of_one:
  assumes "escaped p 512 = Some e" "escaped p' 512 = Some e'" "length e \<le> 380" "length e' \<le> 380" "int_range srv"
    and "length ts < 32" "is_note srv e' (files_insert_str srv e ts)"
  shows "e = e'"
proof -
  obtain ts' where ts': "length ts' < 32" "files_insert_str srv e ts = files_insert_str srv e' ts'"
    using assms(7) by (auto simp: is_note_def)
  have "e @ CHR 0x27 # '','' @ quoted ts @ '')'' = e' @ CHR 0x27 # '','' @ quoted ts' @ '')''"
    using ts' insert_str_whole [OF assms(3,6,5)] insert_str_whole [OF assms(4) ts'(1) assms(5)] by simp
  moreover have "e = escs p" "e' = escs p'" using assms(1,2) escaped_escs by auto
  moreover have "read_literal True (escs s @ CHR 0x27 # '','' @ x) = Some (s, '','' @ x)" for s x
    using read_literal_escs [of "'','' @ x" True s] by (simp add: stored_def)
  ultimately show ?thesis by (metis Pair_inject option.inject)
qed

lemma cdr_insert_start: "cdr_insert_str [] c = Some q \<Longrightarrow> is_cdr_insert q"
  unfolding cdr_insert_str_def is_cdr_insert_def
  by (auto simp: strncpy_def Let_def split: Option.bind_splits)

lemma cdr_insert_no_note: "is_cdr_insert q \<Longrightarrow> \<not> is_note srv e q"
  by (auto simp: is_cdr_insert_def is_note_def files_insert_str_def strncpy_def)

lemma select_no_note: "\<not> is_note srv e (files_select_str srv' e')"
  by (auto simp: files_select_str_def is_note_def files_insert_str_def strncpy_def)

lemma add_in_db_log:
  assumes "cdr_add_in_db ep js c fls (rdb ans lg r) = Some (ret, c', p)"
  shows "\<exists>q r'. is_cdr_insert q \<and> p = rdb ans (lg @ [q]) r'"
proof -
  obtain c2 where q: "cdr_add_in_db_query c2 (rdb ans lg r) = Some (ret, p)"
    using assms by (auto simp: cdr_add_in_db_def rdb_def db_type_def Let_def split: Option.bind_splits if_splits prod.splits)
  then obtain str where str: "cdr_insert_str [] c2 = Some str" "db_insert (rdb ans lg r) str = (ret, p)"
    by (auto simp: cdr_add_in_db_query_def rdb_def db_conn_init_def split: Option.bind_splits)
  have i: "is_cdr_insert str" by (rule cdr_insert_start [OF str(1)])
  then have "strncasecmp0 str ''insert'' 6" using verb_prefix(3) by (auto simp: is_cdr_insert_def)
  then show ?thesis using str(2) i by auto
qed

lemma row_log:
  "cdr_file_row env pr b tally dbp = Some (t1, p1) \<Longrightarrow>
     p1 = dbp \<or> (\<exists>c ret c'. cdr_add_in_db (me_ts_epoch env) (me_json env) c (fp_filters pr) dbp = Some (ret, c', p1))"
  unfolding cdr_file_row_def Let_def
  by (cases tally) (auto split: prod.splits if_splits Option.bind_splits)

lemma rows_log:
  "cdr_file_rows env pr bs tally (rdb ans lg r) = Some (t', p) \<Longrightarrow>
     \<exists>qs r'. p = rdb ans (lg @ qs) r' \<and> (\<forall>q \<in> set qs. is_cdr_insert q)"
proof (induction bs arbitrary: tally lg r)
  case Nil
  then show ?case by (intro exI [of _ "[]"]) auto
next
  case (Cons b bs)
  obtain t1 p1 where 1: "cdr_file_row env pr b tally (rdb ans lg r) = Some (t1, p1)"
    "cdr_file_rows env pr bs t1 p1 = Some (t', p)"
    using Cons.prems by (auto split: Option.bind_splits)
  consider "p1 = rdb ans lg r" | q r' where "is_cdr_insert q" "p1 = rdb ans (lg @ [q]) r'"
    using row_log [OF 1(1)] add_in_db_log by metis
  then show ?case
  proof cases
    case 1
    then show ?thesis using Cons.IH \<open>cdr_file_rows env pr bs t1 p1 = _\<close> by blast
  next
    case 2
    then obtain qs r'' where "p = rdb ans ((lg @ [q]) @ qs) r''" "\<forall>x \<in> set qs. is_cdr_insert x"
      using Cons.IH [of t1 "lg @ [q]" r'] \<open>cdr_file_rows env pr bs t1 p1 = _\<close> by metis
    then show ?thesis using 2(1) by (intro exI [of _ "q # qs"] exI [of _ r'']) simp
  qed
qed

lemma noted_append: "noted srv e (lg @ qs) = noted srv e lg + noted srv e qs"
  by (simp add: noted_def)

lemma noted_inserts: "\<forall>q \<in> set qs. is_cdr_insert q \<Longrightarrow> noted srv e qs = 0"
  using cdr_insert_no_note by (simp add: noted_def filter_empty_conv)

text \<open>No file was noted twice.\<close>

definition once :: "int \<Rightarrow> string list \<Rightarrow> bool" where
  "once srv lg \<longleftrightarrow> (\<forall>path e. escaped path 512 = Some e \<longrightarrow> length e \<le> 380 \<longrightarrow> noted srv e lg \<le> 1)"

lemma select_start: "is_select (files_select_str srv e)"
proof -
  have "\<exists>m. files_select_str srv e = ''select '' @ m" by (simp add: files_select_str_def strncpy_def)
  then show ?thesis using verb_prefix(1) by auto
qed

lemma get_from_tbl_noted:
  assumes "finds_notes ans srv" "escaped path 512 = Some e" "noted srv e lg \<le> 1" "length path \<le> 190"
  obtains id where "cdr_file_get_from_tbl path srv (rdb ans lg r) = Some (id, rdb ans (lg @ [files_select_str srv e]) None)"
    "id = 0 \<longleftrightarrow> noted srv e lg = 0"
proof -
  obtain rows where rows: "snd (ans lg (files_select_str srv e)) = Some rows" "length rows = noted srv e lg"
    "\<forall>row \<in> set rows. \<exists>k. coli row 0 = Some k \<and> k \<noteq> 0"
    using assms(1,4) escaped_escs [OF assms(2)] unfolding finds_notes_def by blast
  have g: "cdr_file_get_from_tbl path srv (rdb ans lg r) =
      do { n \<leftarrow> one_int 0 (Some rows); Some (case n of Some v \<Rightarrow> v | None \<Rightarrow> 0, rdb ans (lg @ [files_select_str srv e]) None) }"
    using rows(1) assms(2) select_start by (simp add: cdr_file_get_from_tbl_def) (simp add: rdb_def db_type_def)
  show thesis
  proof (cases rows)
    case Nil
    then show thesis using that [of 0] g rows(2) by (simp add: one_int_def)
  next
    case (Cons row rest)
    then have "rest = []" using rows(2) assms(3) by (cases rest) auto
    then show thesis using that g rows(2,3) Cons by (auto simp: one_int_def)
  qed
qed

lemma short_escaped: "length s \<le> 190 \<Longrightarrow> escaped s 512 = Some (escs s) \<and> length (escs s) \<le> 380"
  using escaped_fits [of s 512] escs_length_le [of s] by simp

lemma parser_once:
  assumes "cdr_file_parser env pr path fs (rdb ans lg r) = Some (ret, pr', p)" "once srv lg"
    and "fp_cdr_server_id pr = srv" "srv \<noteq> 0" "int_range srv" "length path \<le> 190" "noted srv (escs path) lg = 0"
    and "length (me_datetime env path) < 32"
  shows "pr' = pr \<and> (\<exists>lg' r'. p = rdb ans lg' r' \<and> once srv lg')"
proof (cases "map_of fs path")
  case None
  then show ?thesis using assms(1-4) by (auto simp: cdr_file_parser_def)
next
  case (Some content)
  note e = short_escaped [OF assms(6)]
  obtain t p1 where 1: "cdr_file_rows env pr (readbufs content) (0, 0, 0) (rdb ans lg r) = Some (t, p1)"
    "cdr_file_add_in_tbl (me_datetime env path) path srv p1 = Some p" "pr' = pr"
    using assms(1,3,4) Some by (auto simp: cdr_file_parser_def split: Option.bind_splits)
  obtain qs r1 where qs: "p1 = rdb ans (lg @ qs) r1" "\<forall>q \<in> set qs. is_cdr_insert q" using rows_log [OF 1(1)] by blast
  let ?note = "files_insert_str srv (escs path) (me_datetime env path)"
  have p: "p = rdb ans (lg @ qs @ [?note]) (snd (ans (lg @ qs) ?note))"
    using 1(2) add_in_tbl [of path "escs path"] e qs(1) by simp
  have "noted srv e' (lg @ qs @ [?note]) \<le> 1" if "escaped path' 512 = Some e'" "length e' \<le> 380" for path' e'
  proof -
    have "noted srv e' [?note] = 0 \<or> noted srv e' [?note] = 1 \<and> e' = escs path"
      using note_of_one [OF conjunct1 [OF e] that(1) conjunct2 [OF e] that(2) assms(5,8)] by (auto simp: noted_def)
    moreover have "noted srv e' lg \<le> 1" using assms(2) that by (auto simp: once_def)
    ultimately show ?thesis using assms(7) noted_inserts [OF qs(2), of srv e'] by (auto simp: noted_append)
  qed
  then show ?thesis using 1(3) p unfolding once_def by blast
qed

lemma once_select: "once srv lg \<Longrightarrow> once srv (lg @ [files_select_str srv e])"
  using select_no_note by (simp add: once_def noted_append noted_def)

lemma each_once:
  assumes "finds_notes ans srv" "fp_cdr_server_id pr = srv" "srv \<noteq> 0" "int_range srv"
    and "\<forall>path. length (me_datetime env path) < 32"
  shows "cdr_file_each env pr ns fs (rdb ans lg r) = Some (pr', fs', p) \<Longrightarrow> once srv lg \<Longrightarrow>
    \<forall>n \<in> set ns. length (fp_src_dir pr @ n) \<le> 190 \<Longrightarrow>
    pr' = pr \<and> (\<exists>lg' r'. p = rdb ans lg' r' \<and> once srv lg')"
proof (induction ns arbitrary: fs lg r)
  case Nil
  then show ?case by auto
next
  case (Cons n ns)
  have ns: "\<forall>n \<in> set ns. length (fp_src_dir pr @ n) \<le> 190" using Cons.prems(3) by simp
  show ?case
  proof (cases "n = []")
    case True
    then show ?thesis using Cons.IH [OF _ Cons.prems(2) ns] Cons.prems(1) by simp
  next
    case False
    define src where "src = fp_src_dir pr @ n"
    have sh: "length src \<le> 190" using Cons.prems(3) by (simp add: src_def)
    note e = short_escaped [OF sh]
    have le: "noted srv (escs src) lg \<le> 1" using Cons.prems(2) e unfolding once_def by blast
    let ?lg = "lg @ [files_select_str srv (escs src)]"
    obtain id where g: "cdr_file_get_from_tbl src srv (rdb ans lg r) = Some (id, rdb ans ?lg None)"
      "id = 0 \<longleftrightarrow> noted srv (escs src) lg = 0"
      by (rule get_from_tbl_noted [OF assms(1) conjunct1 [OF e] le sh])
    have o1: "once srv ?lg" by (rule once_select [OF Cons.prems(2)])
    show ?thesis
    proof (cases "id = 0")
      case True
      then have z: "noted srv (escs src) ?lg = 0" using g(2) select_no_note by (simp add: noted_append noted_def)
      obtain ret pr1 p1 fs1 where 1: "cdr_file_parser env pr src fs (rdb ans ?lg None) = Some (ret, pr1, p1)"
        "cdr_file_each env pr1 ns fs1 p1 = Some (pr', fs', p)"
        using Cons.prems(1) False g(1) True assms(2)
        by (auto simp: src_def Let_def split: Option.bind_splits)
      obtain lg1 r1 where "pr1 = pr" "p1 = rdb ans lg1 r1" "once srv lg1"
        using parser_once [OF 1(1) o1 assms(2-4) sh z] assms(5) by blast
      then show ?thesis using Cons.IH [OF _ _ ns] 1(2) by blast
    next
      case False
      then have "cdr_file_each env pr ns (cdr_file_move env src (fp_dst_dir pr @ n) fs) (rdb ans ?lg None) = Some (pr', fs', p)"
        using Cons.prems(1) \<open>n \<noteq> []\<close> g(1) assms(2) by (simp add: src_def)
      then show ?thesis using Cons.IH [OF _ o1 ns] by blast
    qed
  qed
qed

lemma each_files:
  "cdr_file_each env pr ns fs dbp = Some (pr', fs', p) \<Longrightarrow> short_paths fs \<Longrightarrow>
     \<forall>n \<in> set ns. length (fp_dst_dir pr @ n) \<le> 190 \<Longrightarrow> short_paths fs' \<and> fp_dst_dir pr' = fp_dst_dir pr"
proof (induction ns arbitrary: pr fs dbp)
  case (Cons n ns)
  have mv: "short_paths (cdr_file_move env src (fp_dst_dir pr @ n) fs)" for src
    using Cons.prems(2,3) by (auto simp: cdr_file_move_def short_paths_def split: option.splits)
  have ns: "\<forall>n \<in> set ns. length (fp_dst_dir pr @ n) \<le> 190" using Cons.prems(3) by simp
  have ps: "fp_dst_dir pr1 = fp_dst_dir pr" if "cdr_file_parser env pr src fs q = Some (ret, pr1, p1)" for src q ret pr1 p1
    using that by (auto simp: cdr_file_parser_def Let_def split: if_splits option.splits Option.bind_splits)
  show ?case
  proof (cases "n = []")
    case True
    then show ?thesis using Cons.IH [OF _ Cons.prems(2) ns] Cons.prems(1) by simp
  next
    case False
    then obtain id q where g: "cdr_file_get_from_tbl (fp_src_dir pr @ n) (fp_cdr_server_id pr) dbp = Some (id, q)"
      using Cons.prems(1) by (auto simp: Let_def split: Option.bind_splits)
    show ?thesis
    proof (cases "id = 0")
      case True
      then obtain ret pr1 p1 where 1: "cdr_file_parser env pr (fp_src_dir pr @ n) fs q = Some (ret, pr1, p1)"
        "cdr_file_each env pr1 ns (if ret = 0 then cdr_file_move env (fp_src_dir pr @ n) (fp_dst_dir pr @ n) fs else fs) p1 =
           Some (pr', fs', p)"
        using Cons.prems(1) False g by (auto simp: Let_def split: Option.bind_splits)
      show ?thesis using Cons.IH [OF 1(2)] ps [OF 1(1)] mv Cons.prems(2) ns by simp
    next
      case f: False
      then show ?thesis using Cons.IH [OF _ mv ns] Cons.prems(1) False g by (simp add: Let_def)
    qed
  qed
qed simp

lemma entries_short:
  assumes "short_paths fs" "n \<in> set (entries dir fs)" "strcmp n ''.'' \<noteq> 0" "strcmp n ''..'' \<noteq> 0"
  shows "length (dir @ n) \<le> 190"
proof -
  obtain q c where "(q, c) \<in> set fs" "take (length dir) q = dir" "n = drop (length dir) q"
    using assms(2-4) by (auto simp: entries_def)
  then show ?thesis using assms(1) by (metis append_take_drop_id case_prodD short_paths_def)
qed

lemma list_fields:
  "fp_src_dir (pr\<lparr>fp_list := l, fp_files_number := k\<rparr>) = fp_src_dir pr"
  "fp_dst_dir (pr\<lparr>fp_list := l, fp_files_number := k\<rparr>) = fp_dst_dir pr"
  "fp_cdr_server_id (pr\<lparr>fp_list := l, fp_files_number := k\<rparr>) = fp_cdr_server_id pr"
  "fp_src_dir (pr\<lparr>fp_files_number := k, fp_list := l\<rparr>) = fp_src_dir pr"
  "fp_dst_dir (pr\<lparr>fp_files_number := k, fp_list := l\<rparr>) = fp_dst_dir pr"
  "fp_cdr_server_id (pr\<lparr>fp_files_number := k, fp_list := l\<rparr>) = fp_cdr_server_id pr"
  "fp_list (pr\<lparr>fp_files_number := k, fp_list := l\<rparr>) = l"
  by simp_all

lemma reader_once:
  assumes "finds_notes ans srv" "fp_cdr_server_id pr = srv" "srv \<noteq> 0" "int_range srv" "\<forall>path. length (me_datetime env path) < 32"
    and "cdr_file_reader env opens pr fs (rdb ans lg r) = Some (pr', fs', p)" "once srv lg" "short_paths fs"
    and "length (fp_dst_dir pr) \<le> length (fp_src_dir pr)" "fp_list pr \<in> {No_list, Freed}"
  shows "(\<exists>lg' r'. p = rdb ans lg' r' \<and> once srv lg') \<and> short_paths fs' \<and> fp_cdr_server_id pr' = srv \<and>
    fp_dst_dir pr' = fp_dst_dir pr \<and> fp_src_dir pr' = fp_src_dir pr \<and> fp_list pr' \<in> {No_list, Freed}"
proof -
  let ?ns = "List.filter (\<lambda>n. strcmp n ''.'' \<noteq> 0 \<and> strcmp n ''..'' \<noteq> 0) (entries (fp_src_dir pr) fs)"
  have short: "length (fp_src_dir pr @ n) \<le> 190" if "n \<in> set ?ns" for n
    using entries_short [OF assms(8), of n "fp_src_dir pr"] that by simp
  have trunc: "map (\<lambda>n. strncpy n 255) ?ns = ?ns"
  proof (rule map_idI)
    fix n assume "n \<in> set ?ns"
    then have "length n \<le> 190" using short by fastforce
    then show "strncpy n 255 = n" by (simp add: strncpy_def)
  qed
  show ?thesis
  proof (cases "opens \<and> ?ns \<noteq> []")
    case False
    then have "cdr_file_reader env opens pr fs (rdb ans lg r) =
        (case fp_list pr of No_list \<Rightarrow> Some (pr, fs, rdb ans lg r) | _ \<Rightarrow> None)"
      using assms(10) by (auto simp: cdr_file_reader_def cdr_file_list_get_def)
    then have "p = rdb ans lg r \<and> pr' = pr \<and> fs' = fs" using assms(6,10) by auto
    then show ?thesis using assms(2,7,8,10) by blast
  next
    case True
    let ?pr = "pr\<lparr>fp_list := Names ?ns, fp_files_number := word_of_nat (length ?ns)\<rparr>"
    let ?ls = "take (unat (word_of_nat (length ?ns) :: u16)) ?ns"
    have lst: "cdr_file_list_get (Some (entries (fp_src_dir pr) fs)) pr = ?pr"
      using True trunc by (simp add: cdr_file_list_get_def Let_def)
    let ?close = "\<lambda>(pr2, fs', p). Some (pr2\<lparr>fp_files_number := 0, fp_list := Freed\<rparr>, fs', p :: recorder db option)"
    have rd: "cdr_file_reader env opens pr fs (rdb ans lg r) = cdr_file_each env ?pr ?ls fs (rdb ans lg r) \<bind> ?close"
      unfolding cdr_file_reader_def Let_def using True by (simp only: lst if_True) simp
    obtain x where x: "cdr_file_each env ?pr ?ls fs (rdb ans lg r) = Some x" "?close x = Some (pr', fs', p)"
      using trans [OF rd [symmetric] assms(6), unfolded bind_eq_Some_conv] by blast
    obtain pr2 fs2 p2 where x2: "x = (pr2, fs2, p2)" by (cases x)
    have eq: "fs2 = fs'" "p2 = p" "pr2\<lparr>fp_files_number := 0, fp_list := Freed\<rparr> = pr'"
      using x(2) unfolding x2 prod.case by blast+
    note 1 = x(1) [unfolded x2 eq(1,2)] eq(3) [symmetric]
    have src: "length (fp_src_dir pr @ n) \<le> 190" if "n \<in> set ?ls" for n by (rule short [OF in_set_takeD [OF that]])
    have ls: "\<forall>n \<in> set ?ls. length (fp_src_dir ?pr @ n) \<le> 190"
    proof
      fix n assume "n \<in> set ?ls"
      from src [OF this] show "length (fp_src_dir ?pr @ n) \<le> 190" by (simp only: list_fields)
    qed
    have "\<forall>n \<in> set ?ls. length (fp_dst_dir ?pr @ n) \<le> 190"
    proof
      fix n assume "n \<in> set ?ls"
      from src [OF this] assms(9) show "length (fp_dst_dir ?pr @ n) \<le> 190"
        by (simp only: list_fields length_append)
    qed
    then have "short_paths fs'" using each_files [OF 1(1) assms(8)] by blast
    moreover have "fp_cdr_server_id ?pr = srv" using assms(2) by (simp only: list_fields)
    then have "pr2 = ?pr \<and> (\<exists>lg' r'. p = rdb ans lg' r' \<and> once srv lg')"
      using each_once [OF assms(1) _ assms(3-5) 1(1) assms(7) ls] by blast
    moreover have "fp_cdr_server_id pr' = srv \<and> fp_dst_dir pr' = fp_dst_dir pr \<and> fp_src_dir pr' = fp_src_dir pr \<and>
        fp_list pr' = Freed" if "pr2 = ?pr"
      unfolding 1(2) that using assms(2) by (simp only: list_fields)
    ultimately show ?thesis by blast
  qed
qed

lemma run_once:
  assumes "finds_notes ans srv" "srv \<noteq> 0" "int_range srv"
  shows "reader_run steps pr fs (rdb ans lg r) = Some (pr', fs', p) \<Longrightarrow> once srv lg \<Longrightarrow> short_paths fs \<Longrightarrow>
    fp_cdr_server_id pr = srv \<Longrightarrow> length (fp_dst_dir pr) \<le> length (fp_src_dir pr) \<Longrightarrow> fp_list pr \<in> {No_list, Freed} \<Longrightarrow>
    \<forall>(env, opens, new) \<in> set steps. short_paths new \<and> (\<forall>path. length (me_datetime env path) < 32) \<Longrightarrow>
    \<exists>lg' r'. p = rdb ans lg' r' \<and> once srv lg'"
proof (induction steps arbitrary: pr fs lg r)
  case Nil
  then show ?case by auto
next
  case (Cons step steps)
  obtain env opens new where step: "step = (env, opens, new)" by (cases step) auto
  obtain pr1 fs1 p1 where 1: "cdr_file_reader env opens pr (fs @ new) (rdb ans lg r) = Some (pr1, fs1, p1)"
    "reader_run steps pr1 fs1 p1 = Some (pr', fs', p)"
    using Cons.prems(1) step by (auto split: Option.bind_splits)
  have env: "\<forall>path. length (me_datetime env path) < 32" "short_paths (fs @ new)"
    using Cons.prems(3,7) step by (auto simp: short_paths_def)
  note one = reader_once [OF assms(1) Cons.prems(4) assms(2,3) env(1) 1(1) Cons.prems(2) env(2) Cons.prems(5,6)]
  obtain lg1 r1 where "p1 = rdb ans lg1 r1" "once srv lg1" using one by blast
  then show ?case using Cons.IH [of pr1 fs1 lg1 r1] one Cons.prems(5,7) 1(2) by simp
qed

text \<open>Property C13. No file is taken in twice: over any passes over the directory, with files that
  arrive in between and files that cannot be moved away, against a database that finds what
  was noted, every path is noted in \<open>cdr_files\<close> at most once.\<close>

theorem taken_in_once:
  assumes "reader_run steps pr fs (rdb ans [] r) = Some (pr', fs', p)" "finds_notes ans (fp_cdr_server_id pr)"
    and "fp_cdr_server_id pr \<noteq> 0" "int_range (fp_cdr_server_id pr)" "fp_list pr = No_list" "short_paths fs"
    and "length (fp_dst_dir pr) \<le> length (fp_src_dir pr)"
    and "\<forall>(env, opens, new) \<in> set steps. short_paths new \<and> (\<forall>path. length (me_datetime env path) < 32)"
  shows "\<exists>lg r'. p = rdb ans lg r' \<and>
    (\<forall>path. length path \<le> 190 \<longrightarrow> length (List.filter (is_note (fp_cdr_server_id pr) (escs path)) lg) \<le> 1)"
proof -
  have "once (fp_cdr_server_id pr) []" by (simp add: once_def noted_def)
  then obtain lg r' where "p = rdb ans lg r'" "once (fp_cdr_server_id pr) lg"
    using run_once [OF assms(2-4,1)] assms(5-8) by auto
  then show ?thesis using short_escaped unfolding once_def noted_def by blast
qed

text \<open>A database that remembers the notes, and a directory whose file cannot be moved: the second
  pass finds the note.\<close>

definition remembers :: answers where
  "remembers lg q = (0, Some (map (\<lambda>_. [''7''])
     (List.filter (\<lambda>x. \<exists>e. length e \<le> 380 \<and> q = files_select_str 1 e \<and> is_note 1 e x) lg)))"

lemma select_str_whole:
  "length e \<le> 380 \<Longrightarrow> files_select_str 1 e =
     ''select id from cdr_files where cdr_server_id = 1 and filename = '' @ CHR 0x27 # e @ [CHR 0x27]"
proof -
  have "dec_int 1 = ''1''" by code_simp
  then show "length e \<le> 380 \<Longrightarrow> ?thesis" by (simp add: files_select_str_def strncpy_def quoted_def)
qed

lemma remembers_finds: "finds_notes remembers 1"
  unfolding finds_notes_def
proof (intro allI impI)
  fix lg and path :: string assume "length path \<le> 190"
  then have e: "length (escs path) \<le> 380" using short_escaped by blast
  have "files_select_str 1 (escs path) = files_select_str 1 e \<longleftrightarrow> escs path = e" if "length e \<le> 380" for e
    using select_str_whole [OF e] select_str_whole [OF that] by auto
  then have "(\<exists>e. length e \<le> 380 \<and> files_select_str 1 (escs path) = files_select_str 1 e \<and> is_note 1 e x) \<longleftrightarrow>
      is_note 1 (escs path) x" for x
    using e by blast
  moreover have "coli [''7''] 0 = Some 7" by code_simp
  ultimately show "\<exists>rows. snd (remembers lg (files_select_str 1 (escs path))) = Some rows \<and>
      length rows = noted 1 (escs path) lg \<and> (\<forall>row \<in> set rows. \<exists>k. coli row 0 = Some k \<and> k \<noteq> 0)"
    by (auto simp: remembers_def noted_def)
qed

definition stuck_env :: cdrm_env where
  "stuck_env = demo_env\<lparr>me_rename := \<lambda>_ _. False\<rparr>"

lemma demo_insert: "file_stmts demo_profile demo_rows = Some [q] \<Longrightarrow> is_cdr_insert q"
  by (auto simp: demo_rows_def row_stmts_def record_stmt_def cdr_insert_start split: Option.bind_splits if_splits)

theorem taken_in_once_witness:
  "\<exists>pr' lg r'. reader_run [(stuck_env, True, []), (stuck_env, True, [])] demo_profile demo_files (rdb remembers [] None) =
      Some (pr', demo_files, rdb remembers lg r') \<and>
    length (List.filter (is_note 1 ''/in/a'') lg) \<le> 1"
proof -
  obtain q where qs: "file_stmts demo_profile demo_rows = Some [q]" by (rule demo_stmts)
  have e: "escaped ''/in/a'' 512 = Some ''/in/a''" by code_simp
  have esc: "escs ''/in/a'' = ''/in/a''" by (simp add: esc_def)
  have mv: "cdr_file_move stuck_env ''/in/a'' ''/ok/a'' demo_files = demo_files"
    by (simp add: cdr_file_move_def demo_files_def stuck_env_def)
  have pr: "demo_profile\<lparr>fp_list := No_list, fp_files_number := 0\<rparr> = demo_profile"
    "fp_cdr_server_id demo_profile = 1" "fp_list demo_profile = No_list" "fp_dst_dir demo_profile = ''/ok/''"
    "fp_src_dir demo_profile = ''/in/''"
    by (simp_all add: demo_profile_def)
  let ?sel = "files_select_str 1 ''/in/a''" and ?note = "files_insert_str 1 ''/in/a'' (me_datetime stuck_env ''/in/a'')"
  have sh: "length ''/in/a'' \<le> 190" by simp
  obtain i where i: "cdr_file_get_from_tbl ''/in/a'' 1 (rdb remembers [] None) = Some (i, rdb remembers [?sel] None)" "i = 0"
    using get_from_tbl_noted [OF remembers_finds e _ sh, of "[]" None thesis] by (auto simp: noted_def)
  obtain r2 where r2: "cdr_file_reader stuck_env True demo_profile demo_files (rdb remembers [] None) =
      Some (demo_profile\<lparr>fp_list := Freed, fp_files_number := 0\<rparr>, demo_files, rdb remembers ([?sel] @ [q] @ [?note]) r2)"
    using demo_reader [OF i(1) qs, where env = stuck_env and l = No_list and k = 0] i(2) unfolding pr mv by auto
  have one: "noted 1 ''/in/a'' ([?sel] @ [q] @ [?note]) = 1"
  proof -
    have "length (me_datetime stuck_env ''/in/a'') < 32" by (simp add: stuck_env_def demo_env_def)
    then have "is_note 1 ''/in/a'' ?note" unfolding is_note_def by blast
    moreover have "\<not> is_note 1 ''/in/a'' q"
      using demo_insert [OF qs] cdr_insert_no_note by blast
    ultimately show ?thesis using select_no_note by (simp add: noted_def)
  qed
  obtain j where j: "cdr_file_get_from_tbl ''/in/a'' 1 (rdb remembers ([?sel] @ [q] @ [?note]) r2) =
      Some (j, rdb remembers (([?sel] @ [q] @ [?note]) @ [?sel]) None)" "j \<noteq> 0"
    using get_from_tbl_noted [OF remembers_finds e _ sh, of "[?sel] @ [q] @ [?note]" r2 thesis] one by auto
  obtain r3 where r3: "cdr_file_reader stuck_env True (demo_profile\<lparr>fp_list := Freed, fp_files_number := 0\<rparr>) demo_files
        (rdb remembers ([?sel] @ [q] @ [?note]) r2) =
      Some (demo_profile\<lparr>fp_list := Freed, fp_files_number := 0\<rparr>, demo_files,
        rdb remembers (([?sel] @ [q] @ [?note]) @ [?sel]) r3)"
    using demo_reader [OF j(1) qs, where env = stuck_env and l = Freed and k = 0] j(2) unfolding mv by auto
  have run: "reader_run [(stuck_env, True, []), (stuck_env, True, [])] demo_profile demo_files (rdb remembers [] None) =
      Some (demo_profile\<lparr>fp_list := Freed, fp_files_number := 0\<rparr>, demo_files,
        rdb remembers (([?sel] @ [q] @ [?note]) @ [?sel]) r3)"
    using r2 r3 by simp
  have sp: "short_paths demo_files" "short_paths []" by (simp_all add: short_paths_def demo_files_def)
  have "finds_notes remembers (fp_cdr_server_id demo_profile)" using remembers_finds by (simp add: pr)
  moreover have "fp_cdr_server_id demo_profile \<noteq> 0" "int_range (fp_cdr_server_id demo_profile)"
    "length (fp_dst_dir demo_profile) \<le> length (fp_src_dir demo_profile)"
    by (simp_all only: pr) (simp_all add: int_range_def)
  moreover have "\<forall>(env, opens, new) \<in> set [(stuck_env, True, []), (stuck_env, True, [])].
      short_paths new \<and> (\<forall>path. length (me_datetime env path) < 32)"
    using sp(2) by (simp add: stuck_env_def demo_env_def)
  ultimately obtain lg r' where lg: "rdb remembers (([?sel] @ [q] @ [?note]) @ [?sel]) r3 = rdb remembers lg r'"
    "\<forall>path. length path \<le> 190 \<longrightarrow> length (List.filter (is_note (fp_cdr_server_id demo_profile) (escs path)) lg) \<le> 1"
    using taken_in_once [OF run _ _ _ pr(3) sp(1)] by blast
  have "length (List.filter (is_note 1 ''/in/a'') lg) \<le> 1" using spec [OF lg(2), of "''/in/a''"] unfolding pr esc by simp
  then show ?thesis using run unfolding lg(1) by blast
qed

end
