(* ===== verification/CdrStorage.thy ===== *)
theory CdrStorage
  imports CdrRecords "HOL-Library.Signed_Division"
begin

text \<open>
  Records from a remote database: \<open>CDRMediator/cdr_storage.c\<close> reads the rows from a time on,
  \<open>cdr_storage_sched.c\<close> keeps that time in the table \<open>cdr_storage_sched\<close>. The clock, \<open>mktime\<close>,
  \<open>localtime\<close> and the JSON codec of \<open>cdrm_json.c\<close> are arguments. Seconds are integers, cut to
  32 bits where the code stores them in an \<open>int\<close>.
\<close>

section \<open>Types\<close>

abbreviation (input) CDR_STORAGE_SCHED_M :: u32 where "CDR_STORAGE_SCHED_M \<equiv> 60"
abbreviation (input) CDR_STORAGE_SCHED_D :: int where "CDR_STORAGE_SCHED_D \<equiv> 86400"

datatype sql_col_where_type = col_ts | col_epoch

record cdr_storage_col =
  sc_col_id :: u16
  sc_col_name :: string
  sc_func :: "cdr_func option"

record cdr_storage_profile =
  sp_ts :: int
  sp_chk_ts :: int
  sp_cdr_sched_ts :: string
  sp_dbtype :: string
  sp_dbhost :: string
  sp_dbname :: string
  sp_dbuser :: string
  sp_dbpass :: string
  sp_dbport :: int
  sp_sql_query :: string
  sp_cdr_table :: string
  sp_sql_col_where :: string
  sp_sql_col_t :: sql_col_where_type
  sp_sql_where_const :: string
  sp_cols :: "cdr_storage_col list"
  sp_cols_num :: u16
  sp_filters :: "filter list option"
  sp_cdr_server_id :: int
  sp_cdr_rec_type_id :: int
  sp_profile_name :: string

record cdr_storage_sched =
  sd_ts :: int
  sd_last :: int
  sd_start :: int
  sd_replies :: int

record storage_env =
  se_time :: int
  se_mktime :: "int \<times> int \<times> int \<times> int \<times> int \<times> int \<Rightarrow> int"
  se_localtime :: "int \<Rightarrow> tm"
  se_call_maxsec_limit :: u32
  se_ts_epoch :: "string \<Rightarrow> int"
  se_json :: "cdr \<Rightarrow> string \<times> string"
  se_sched_json :: "cdr_storage_profile \<Rightarrow> string \<times> string"
  se_json_sched :: "string \<Rightarrow> cdr_storage_sched"

definition int32 :: "int \<Rightarrow> int" where
  "int32 x = sint (word_of_int x :: u32)"

definition sched0 :: cdr_storage_sched where
  "sched0 = \<lparr>sd_ts = 0, sd_last = 0, sd_start = 0, sd_replies = 0\<rparr>"

definition cdr_storage_col_put :: "string \<times> cdr_func \<Rightarrow> string \<Rightarrow> int \<Rightarrow> cdr_storage_col option" where
  "cdr_storage_col_put tbl nm i = do {
     n \<leftarrow> fits 32 nm;
     Some \<lparr>sc_col_id = word_of_int i, sc_col_name = n, sc_func = Some (snd tbl)\<rparr>
   }"

section \<open>The schedule\<close>

text \<open>Every row is read into the same struct: the last one stays.\<close>

fun sched_rows :: "string list list \<Rightarrow> cdr_storage_sched \<Rightarrow> cdr_storage_sched option" where
  "sched_rows [] s = Some s"
| "sched_rows (row # rows) s = do {
     t \<leftarrow> coli row 0;
     l \<leftarrow> coli row 1;
     b \<leftarrow> coli row 2;
     r \<leftarrow> coli row 3;
     sched_rows rows \<lparr>sd_ts = t, sd_last = l, sd_start = b, sd_replies = r\<rparr>
   }"

definition sched_select_str :: "cdr_storage_profile \<Rightarrow> string" where
  "sched_select_str cfg = ''select ts,last_chk_ts,start_ts,replies from cdr_storage_sched where cdr_server_id = '' @
     dec_int (sp_cdr_server_id cfg)"

definition cdr_storage_sched_get ::
  "storage_env \<Rightarrow> cdr_storage_profile \<Rightarrow> cdr_storage_sched \<Rightarrow> 'e db option \<Rightarrow> (int \<times> cdr_storage_sched \<times> 'e db option) option" where
  "cdr_storage_sched_get env cfg sched dbp =
     (if dbp = None then Some (DB_ERR_DBP_NUL, sched, dbp)
      else if db_type dbp = sql then do {
        (rows, p) \<leftarrow> query_rows (sched_select_str cfg) dbp;
        (case rows of
           None \<Rightarrow> Some (0, sched, p)
         | Some rs \<Rightarrow> do { sched' \<leftarrow> sched_rows rs sched; Some (int (length rs), sched', p) })
      } else if db_type dbp = nosql then
        (let (ret, p) = db_get dbp (''get cdrm_sched_'' @ sp_profile_name cfg) in
         if ret < 0 then Some (0, sched, p)
         else do {
           msg \<leftarrow> conn_str p;
           Some (0, se_json_sched env msg, snd (db_free_result (clear_conn_result p)))
         })
      else Some (DB_ERR_TYPE_UNK, sched, dbp))"

definition cdr_storage_sched_nosql_insert :: "storage_env \<Rightarrow> cdr_storage_profile \<Rightarrow> 'e db option \<Rightarrow> int \<times> 'e db option" where
  "cdr_storage_sched_nosql_insert env cfg dbp = (let
       (header, msg) = se_sched_json env cfg;
       (ret, p) = db_set dbp (''set '' @ header @ '' '' @ msg) []
     in (if ret < 0 then -1 else ret, p))"

definition sched_insert_str :: "storage_env \<Rightarrow> cdr_storage_profile \<Rightarrow> string" where
  "sched_insert_str env cfg = ''insert into cdr_storage_sched (cdr_server_id,start_ts,last_chk_ts,ts) values ('' @
     dec_int (sp_cdr_server_id cfg) @ '','' @ dec_int (int32 (convert_ts_to_epoch (se_mktime env) (sp_cdr_sched_ts cfg))) @ '','' @
     dec_int (sp_chk_ts cfg) @ '','' @ dec_int (sp_ts cfg) @ '')''"

definition cdr_storage_sched_insert :: "storage_env \<Rightarrow> cdr_storage_profile \<Rightarrow> 'e db option \<Rightarrow> int \<times> 'e db option" where
  "cdr_storage_sched_insert env cfg dbp =
     (if dbp = None then (DB_ERR_DBP_NUL, dbp)
      else if db_type dbp = sql then
        (let (ret, p) = db_insert dbp (sched_insert_str env cfg) in (if ret < 0 then -12 else ret, p))
      else if db_type dbp = nosql then cdr_storage_sched_nosql_insert env cfg dbp
      else (DB_ERR_TYPE_UNK, dbp))"

definition sched_update_str :: "cdr_storage_profile \<Rightarrow> string" where
  "sched_update_str cfg = ''update cdr_storage_sched  set last_chk_ts = '' @ dec_int (sp_chk_ts cfg) @ '',ts='' @
     dec_int (sp_ts cfg) @ '' where cdr_server_id = '' @ dec_int (sp_cdr_server_id cfg)"

text \<open>The caller does not use the result.\<close>

definition cdr_storage_sched_update :: "storage_env \<Rightarrow> cdr_storage_profile \<Rightarrow> 'e db option \<Rightarrow> 'e db option" where
  "cdr_storage_sched_update env cfg dbp =
     (if dbp = None then dbp
      else if db_type dbp = sql then snd (db_update dbp (sched_update_str cfg))
      else if db_type dbp = nosql then snd (cdr_storage_sched_nosql_insert env cfg dbp)
      else dbp)"

text \<open>From which time on the next query reads: the start of the schedule, the begin of a cycle of
  a day, or the time of the last pass less the longest call and a minute. Division truncates.\<close>

definition sched_window :: "u32 \<Rightarrow> int \<Rightarrow> cdr_storage_sched \<Rightarrow> int" where
  "sched_window limit chk s = (let
       curr_cycle = int32 ((chk - sd_start s) sdiv CDR_STORAGE_SCHED_D);
       curr_ts = curr_cycle * CDR_STORAGE_SCHED_D + sd_start s;
       last_cycle = int32 ((sd_last s - sd_start s) sdiv CDR_STORAGE_SCHED_D) in
     if sd_start s = sd_last s then sd_start s
     else if 1 < curr_cycle then
       if sd_last s < curr_ts then
         if 1 < last_cycle then last_cycle * CDR_STORAGE_SCHED_D + sd_start s else sd_start s
       else if curr_ts \<le> sd_ts s then sd_last s - uint (limit + CDR_STORAGE_SCHED_M)
       else curr_ts
     else sd_start s)"

definition cdr_storage_sched_set_ts ::
  "storage_env \<Rightarrow> cdr_storage_profile \<Rightarrow> 'e db option \<Rightarrow> (int \<times> cdr_storage_profile \<times> 'e db option) option" where
  "cdr_storage_sched_set_ts env cfg dbp = do {
     (num, s, p) \<leftarrow> cdr_storage_sched_get env cfg sched0 dbp;
     let s1 = (if sd_start s = 0 then s\<lparr>sd_start := convert_ts_to_epoch (se_mktime env) (sp_cdr_sched_ts cfg)\<rparr> else s);
     let s2 = (if sd_last s1 = 0 then s1\<lparr>sd_last := sd_start s1\<rparr> else s1);
     Some (num, cfg\<lparr>sp_ts := int32 (sched_window (se_call_maxsec_limit env) (se_time env) s2),
                    sp_chk_ts := int32 (se_time env)\<rparr>, p)
   }"

section \<open>The query\<close>

fun join_names :: "string \<Rightarrow> cdr_storage_col list \<Rightarrow> string" where
  "join_names acc [] = acc"
| "join_names acc (c # cs) = join_names (if sc_col_name c = [] then acc else acc @ '','' @ sc_col_name c) cs"

definition cdr_storage_sql_query_parser :: "storage_env \<Rightarrow> cdr_storage_profile \<Rightarrow> cdr_storage_profile option" where
  "cdr_storage_sql_query_parser env profile = do {
     let cols = take (unat (sp_cols_num profile)) (sp_cols profile);
     columns \<leftarrow> fits 2048 (case cols of [] \<Rightarrow> [] | c # cs \<Rightarrow> join_names (sc_col_name c) cs);
     let sql_where = (case sp_sql_col_t profile of
         col_ts \<Rightarrow> quoted (convert_epoch_to_ts (se_localtime env) (sp_ts profile))
       | col_epoch \<Rightarrow> dec_int (sp_ts profile));
     sql_query \<leftarrow> fits 2048 (''select '' @ columns @ '' from '' @ sp_cdr_table profile @ '' where '' @
       sp_sql_col_where profile @ '' >= '' @ sql_where);
     sql_query2 \<leftarrow> (if sp_sql_where_const profile = [] then Some sql_query
       else fits 2048 (sql_query @ '' and '' @ sp_sql_where_const profile));
     Some (profile\<lparr>sp_sql_query := sql_query2\<rparr>)
   }"

section \<open>The records\<close>

text \<open>The setters of the columns on one row; a column without a setter is a call through NULL.\<close>

fun set_row :: "cdr_storage_col list \<Rightarrow> string list \<Rightarrow> nat \<Rightarrow> cdr \<Rightarrow> cdr option" where
  "set_row [] row i c = Some c"
| "set_row (h # hs) row i c = do {
     f \<leftarrow> sc_func h;
     txt \<leftarrow> col row i;
     c' \<leftarrow> f c txt;
     set_row hs row (Suc i) c'
   }"

definition storage_record :: "cdr_storage_profile \<Rightarrow> string list \<Rightarrow> cdr option" where
  "storage_record profile row = do {
     c \<leftarrow> set_row (take (unat (sp_cols_num profile) - 1) (sp_cols profile)) row 0
            (cdr0\<lparr>cdr_cdr_server_id := word_of_int (sp_cdr_server_id profile),
                  cdr_cdr_rec_type_id := word_of_int (sp_cdr_rec_type_id profile)\<rparr>);
     Some (c\<lparr>cdr_profile_name := sp_profile_name profile\<rparr>)
   }"

fun storage_rows ::
  "storage_env \<Rightarrow> cdr_storage_profile \<Rightarrow> string list list \<Rightarrow> int \<Rightarrow> 'e db option \<Rightarrow> (int \<times> 'e db option) option" where
  "storage_rows env profile [] n dbp = Some (n, dbp)"
| "storage_rows env profile (row # rows) n dbp = do {
     the_cdr \<leftarrow> storage_record profile row;
     (ret, _, p) \<leftarrow> cdr_add_in_db (se_ts_epoch env) (se_json env) the_cdr (sp_filters profile) dbp;
     storage_rows env profile rows (if ret = 0 then n + 1 else n) p
   }"

text \<open>The count is not initialised when the remote database is not SQL.\<close>

definition cdr_storage_get_remote_cdrs ::
  "storage_env \<Rightarrow> cdr_storage_profile \<Rightarrow> 'r db option \<Rightarrow> 'e db option \<Rightarrow> (int \<times> 'r db option \<times> 'e db option) option" where
  "cdr_storage_get_remote_cdrs env profile rem dbp =
     (if rem = None then Some (-1, rem, dbp)
      else if db_type rem = sql then do {
        (rows, q) \<leftarrow> query_rows (sp_sql_query profile) rem;
        (case rows of
           None \<Rightarrow> Some (0, q, dbp)
         | Some rs \<Rightarrow> do { (n, p) \<leftarrow> storage_rows env profile rs 0 dbp; Some (n, q, p) })
      } else None)"

definition cdr_storage_reader ::
  "storage_env \<Rightarrow> cdr_storage_profile \<Rightarrow> 'r db option \<Rightarrow> 'e db option \<Rightarrow>
     (cdr_storage_profile \<times> 'r db option \<times> 'e db option) option" where
  "cdr_storage_reader env profile rem dbp = do {
     (num, profile1, p) \<leftarrow> cdr_storage_sched_set_ts env profile dbp;
     profile2 \<leftarrow> cdr_storage_sql_query_parser env profile1;
     let (ret, q) = db_connect rem;
     if ret < 0 then if has_conn q then Some (profile2, q, p) else None
     else do {
       (ret, q1, p1) \<leftarrow> cdr_storage_get_remote_cdrs env profile2 q p;
       let num = (if ret = -1 then -1 else num);
       let q2 = snd (db_close q1);
       let p2 = (if 0 < num then cdr_storage_sched_update env profile2 p1
                 else if num = 0 then snd (cdr_storage_sched_insert env profile2 p1) else p1);
       Some (profile2, q2, p2)
     }
   }"

end
