(* ===== verification/CdrSchedule.thy ===== *)
theory CdrSchedule
  imports CdrStorage CdrIngest
begin

text \<open>
  What a pass of the storage reader does: which time it reads from, that everything it gets is
  stored, how the schedule moves, and what a query that fails costs.
\<close>

section \<open>The window\<close>

lemma int32_id: "int_range x \<Longrightarrow> int32 x = x"
  by (simp add: int32_def sint_sbintrunc' signed_take_bit_int_eq_self int_range_def)

definition sched_ok :: "int \<Rightarrow> cdr_storage_sched \<Rightarrow> bool" where
  "sched_ok chk s \<longleftrightarrow> 0 \<le> sd_start s \<and> sd_start s \<le> sd_last s \<and> sd_last s \<le> chk \<and> chk < 2147483648"

lemma sdiv_days:
  assumes "0 \<le> (a :: int)"
  shows "a sdiv 86400 = a div 86400"
  using assms by (simp add: signed_divide_int_def sgn_if)

lemma days_range: "0 \<le> a \<Longrightarrow> a < 2147483648 \<Longrightarrow> int_range (a div 86400)"
  using zdiv_mono2 [of a 1 86400] pos_imp_zdiv_nonneg_iff [of 86400 a] by (simp add: int_range_def)

text \<open>The begin of the cycle of a day that a time lies in.\<close>

definition cycle_begin :: "int \<Rightarrow> int \<Rightarrow> int" where
  "cycle_begin start t = (t - start) div 86400 * 86400 + start"

lemma cycle_begin_le: "cycle_begin start t \<le> t"
  by (simp add: cycle_begin_def minus_mod_eq_div_mult [symmetric])

lemma sched_window_cases:
  assumes "sched_ok chk s"
  shows "sched_window limit chk s =
    (if sd_start s = sd_last s \<or> chk - sd_start s < 2 * 86400 then sd_start s
     else if sd_last s < cycle_begin (sd_start s) chk then
       if sd_last s - sd_start s < 2 * 86400 then sd_start s else cycle_begin (sd_start s) (sd_last s)
     else if cycle_begin (sd_start s) chk \<le> sd_ts s then sd_last s - uint (limit + CDR_STORAGE_SCHED_M)
     else cycle_begin (sd_start s) chk)"
proof -
  have d: "int32 ((t - sd_start s) sdiv 86400) = (t - sd_start s) div 86400" if "sd_start s \<le> t" "t \<le> chk" for t
    using that assms sdiv_days [of "t - sd_start s"] days_range [of "t - sd_start s"]
    by (simp add: int32_id sched_ok_def)
  have c: "1 < (t - sd_start s) div 86400 \<longleftrightarrow> \<not> t - sd_start s < 2 * 86400" for t by linarith
  show ?thesis using assms
    by (simp add: sched_window_def Let_def d c cycle_begin_def sched_ok_def)
qed

lemma window_le:
  assumes "sched_ok chk s"
  shows "sched_window limit chk s \<le> sd_last s"
  using assms cycle_begin_le [of "sd_start s" "sd_last s"] uint_nonnegative [of "limit + CDR_STORAGE_SCHED_M"]
  by (simp add: sched_window_cases) (simp add: sched_ok_def)

lemma cycle_begin_ge: "start \<le> t \<Longrightarrow> start \<le> cycle_begin start t"
  by (simp add: cycle_begin_def)

lemma window_range:
  assumes "sched_ok chk s" "uint (limit + CDR_STORAGE_SCHED_M) \<le> 2147483648"
  shows "int_range (sched_window limit chk s)"
proof -
  have "- 2147483648 \<le> sched_window limit chk s"
    using assms cycle_begin_ge [of "sd_start s" chk] cycle_begin_ge [of "sd_start s" "sd_last s"]
    by (simp add: sched_window_cases [OF assms(1)]) (simp add: sched_ok_def)
  then show ?thesis using window_le [OF assms(1), of limit] assms(1) by (simp add: int_range_def sched_ok_def)
qed

section \<open>One pass\<close>

definition storage_ok :: "cdr_storage_profile \<Rightarrow> bool" where
  "storage_ok pr \<longleftrightarrow> 0 < sp_cols_num pr \<and> sp_cols_num pr \<le> 33 \<and> (\<forall>c \<in> set (sp_cols pr). length (sc_col_name c) < 32) \<and>
     (\<forall>c \<in> set (take (unat (sp_cols_num pr) - 1) (sp_cols pr)). \<exists>f. sc_func c = Some f \<and> f \<in> snd ` set cdr_tbl) \<and>
     length (sp_cdr_table pr) < 128 \<and> length (sp_sql_col_where pr) < 128 \<and> length (sp_sql_where_const pr) < 256 \<and>
     length (sp_profile_name pr) < 32 \<and> sp_sql_col_t pr = col_epoch \<and>
     (\<forall>fl \<in> set (case sp_filters pr of None \<Rightarrow> [] | Some fls \<Rightarrow> fls). filter_fits fl \<and> length (fl_replace_str fl) < 80)"

lemma join_names_length:
  "\<forall>c \<in> set cs. length (sc_col_name c) < 32 \<Longrightarrow> length (join_names acc cs) \<le> length acc + 32 * length cs"
proof (induction cs arbitrary: acc)
  case (Cons c cs)
  have "length (join_names a cs) \<le> length a + 32 * length cs" for a using Cons by simp
  from this [of acc] this [of "acc @ '','' @ sc_col_name c"] show ?case using Cons.prems by simp
qed simp

text \<open>The text of the query: the records from \<open>sp_ts\<close> on.\<close>

definition query_str :: "cdr_storage_profile \<Rightarrow> string" where
  "query_str pr = ''select '' @
     (case take (unat (sp_cols_num pr)) (sp_cols pr) of [] \<Rightarrow> [] | c # cs \<Rightarrow> join_names (sc_col_name c) cs) @
     '' from '' @ sp_cdr_table pr @ '' where '' @ sp_sql_col_where pr @ '' >= '' @ dec_int (sp_ts pr) @
     (if sp_sql_where_const pr = [] then [] else '' and '' @ sp_sql_where_const pr)"

lemma query_parsed:
  assumes "storage_ok pr" "int_range (sp_ts pr)"
  shows "cdr_storage_sql_query_parser env pr = Some (pr\<lparr>sp_sql_query := query_str pr\<rparr>)"
proof -
  let ?cols = "case take (unat (sp_cols_num pr)) (sp_cols pr) of [] \<Rightarrow> [] | c # cs \<Rightarrow> join_names (sc_col_name c) cs"
  have n: "unat (sp_cols_num pr) \<le> 33" using assms(1) by (simp add: storage_ok_def word_le_nat_alt)
  have "length ?cols \<le> 32 + 32 * 33"
  proof (cases "take (unat (sp_cols_num pr)) (sp_cols pr)")
    case (Cons c cs)
    have "length (c # cs) \<le> 33" using n unfolding Cons [symmetric] by simp
    moreover have "\<forall>d \<in> set (c # cs). length (sc_col_name d) < 32"
      using assms(1) unfolding Cons [symmetric] storage_ok_def by (meson in_set_takeD)
    ultimately show ?thesis using join_names_length [of cs "sc_col_name c"] Cons by simp
  next
    case Nil
    then show ?thesis by (simp only: list.case list.size)
  qed
  moreover have "length (dec_int (sp_ts pr)) \<le> 11" using dec_int_length [of "sp_ts pr" 10] assms(2) by (auto simp: int_range_def)
  ultimately show ?thesis using assms(1)
    by (simp add: cdr_storage_sql_query_parser_def query_str_def fits_def storage_ok_def Let_def)
qed

lemma set_row_ok:
  assumes "\<forall>c \<in> set hs. \<exists>f. sc_func c = Some f \<and> f \<in> snd ` set cdr_tbl"
  shows "set_row hs row i c = Some c' \<Longrightarrow> cdr_ok c \<Longrightarrow> cdr_ok c'"
  using assms
proof (induction hs arbitrary: i c)
  case (Cons h hs)
  then show ?case using cdr_func_ok by (fastforce simp: keeps_ok_def split: Option.bind_splits)
qed simp

lemma storage_record_ok:
  assumes "storage_ok pr" "storage_record pr row = Some c"
  shows "cdr_ok c"
proof -
  have i: "cdr_ok (cdr0\<lparr>cdr_cdr_server_id := a, cdr_cdr_rec_type_id := b\<rparr>)" for a b by (simp add: cdr_ok_def cdr0_def)
  obtain d where d: "set_row (take (unat (sp_cols_num pr) - 1) (sp_cols pr)) row 0
      (cdr0\<lparr>cdr_cdr_server_id := word_of_int (sp_cdr_server_id pr), cdr_cdr_rec_type_id := word_of_int (sp_cdr_rec_type_id pr)\<rparr>) = Some d"
    "c = d\<lparr>cdr_profile_name := sp_profile_name pr\<rparr>"
    using assms(2) by (auto simp: storage_record_def split: Option.bind_splits)
  have "cdr_ok d" using set_row_ok [OF _ d(1) i] assms(1) unfolding storage_ok_def by blast
  then show ?thesis using assms(1) d(2) by (simp add: cdr_ok_def storage_ok_def)
qed

text \<open>The statements the rows lead to.\<close>

fun storage_stmts :: "cdr_storage_profile \<Rightarrow> string list list \<Rightarrow> string list option" where
  "storage_stmts pr [] = Some []"
| "storage_stmts pr (row # rows) = do {
     c \<leftarrow> storage_record pr row;
     q \<leftarrow> record_stmt (sp_filters pr) c;
     qs \<leftarrow> storage_stmts pr rows;
     Some (q # qs)
   }"

lemma storage_rows_log:
  assumes "storage_ok pr"
  shows "storage_stmts pr rows = Some qs \<Longrightarrow>
    \<exists>m r'. storage_rows env pr rows n (rdb ans lg r) = Some (m, rdb ans (lg @ qs) r') \<and> (0 \<le> n \<longrightarrow> 0 \<le> m)"
proof (induction rows arbitrary: n lg r qs)
  case Nil
  then show ?case by auto
next
  case (Cons row rows)
  obtain c q qs' where q: "storage_record pr row = Some c" "record_stmt (sp_filters pr) c = Some q"
    "storage_stmts pr rows = Some qs'" "qs = q # qs'"
    using Cons.prems by (auto split: Option.bind_splits)
  have fl: "\<forall>fl \<in> set (case sp_filters pr of None \<Rightarrow> [] | Some fls \<Rightarrow> fls). filter_fits fl \<and> length (fl_replace_str fl) < 80"
    using assms by (simp add: storage_ok_def)
  obtain c' q0 where "record_stmt (sp_filters pr) c = Some q0"
    "cdr_add_in_db (se_ts_epoch env) (se_json env) c (sp_filters pr) (rdb ans lg r) =
      Some (fst (ans lg q0), c', rdb ans (lg @ [q0]) (snd (ans lg q0)))"
    by (rule add_in_db_stmt [OF storage_record_ok [OF assms q(1)] fl])
  then have a: "cdr_add_in_db (se_ts_epoch env) (se_json env) c (sp_filters pr) (rdb ans lg r) =
      Some (fst (ans lg q), c', rdb ans (lg @ [q]) (snd (ans lg q)))"
    using q(2) by simp
  show ?case using Cons.IH [OF q(3), of "if fst (ans lg q) = 0 then n + 1 else n" "lg @ [q]" "snd (ans lg q)"] a q(1,4)
    by (auto split: if_splits)
qed

lemma select_sched: "is_select (sched_select_str pr)"
  using verb_prefix(1) by (simp add: sched_select_str_def)

lemma update_sched: "strncasecmp0 (sched_update_str pr) ''update'' 6"
  using verb_prefix(4) by (simp add: sched_update_str_def)

lemma select_query: "is_select (query_str pr)"
  using verb_prefix(1) by (simp add: query_str_def)

text \<open>The row of the schedule in the local database.\<close>

definition sched_row :: "answers \<Rightarrow> string list \<Rightarrow> cdr_storage_profile \<Rightarrow> cdr_storage_sched \<Rightarrow> bool" where
  "sched_row ans lg pr s \<longleftrightarrow> (\<exists>row. snd (ans lg (sched_select_str pr)) = Some [row] \<and> coli row 0 = Some (sd_ts s) \<and>
     coli row 1 = Some (sd_last s) \<and> coli row 2 = Some (sd_start s) \<and> coli row 3 = Some (sd_replies s))"

definition timed :: "storage_env \<Rightarrow> cdr_storage_sched \<Rightarrow> bool" where
  "timed env s \<longleftrightarrow> sched_ok (se_time env) s \<and> 0 < sd_start s \<and> uint (se_call_maxsec_limit env + CDR_STORAGE_SCHED_M) \<le> 2147483648"

lemma set_ts:
  assumes "sched_row ans lg pr s" "timed env s"
  shows "cdr_storage_sched_set_ts env pr (rdb ans lg r) =
    Some (1, pr\<lparr>sp_ts := sched_window (se_call_maxsec_limit env) (se_time env) s, sp_chk_ts := se_time env\<rparr>,
      rdb ans (lg @ [sched_select_str pr]) None)"
proof -
  obtain row where row: "snd (ans lg (sched_select_str pr)) = Some [row]" "coli row 0 = Some (sd_ts s)"
     "coli row 1 = Some (sd_last s)" "coli row 2 = Some (sd_start s)" "coli row 3 = Some (sd_replies s)"
    using assms(1) by (auto simp: sched_row_def)
  have "cdr_storage_sched_get env pr sched0 (rdb ans lg r) = Some (1, s, rdb ans (lg @ [sched_select_str pr]) None)"
    using row select_sched by (simp add: cdr_storage_sched_get_def) (simp add: rdb_def db_type_def)
  moreover have "int32 (se_time env) = se_time env" using assms(2) by (simp add: int32_id int_range_def timed_def sched_ok_def)
  moreover have "int32 (sched_window (se_call_maxsec_limit env) (se_time env) s) = sched_window (se_call_maxsec_limit env) (se_time env) s"
    using assms(2) window_range by (simp add: int32_id timed_def)
  ultimately show ?thesis using assms(2) by (simp add: cdr_storage_sched_set_ts_def timed_def sched_ok_def)
qed

lemma sched_updated:
  "cdr_storage_sched_update env pr (rdb ans lg r) = rdb ans (lg @ [sched_update_str pr]) (snd (ans lg (sched_update_str pr)))"
  using update_sched by (simp add: cdr_storage_sched_update_def) (simp add: rdb_def db_type_def)

text \<open>A remote database that can be reached; \<open>rows\<close> are its answers, \<open>None\<close> when a query fails.\<close>

definition reached :: "'r db option \<Rightarrow> (string \<Rightarrow> string list list option) \<Rightarrow> (string \<Rightarrow> 'r db option) \<Rightarrow> bool" where
  "reached rem rows after \<longleftrightarrow> (\<exists>ret q. db_connect rem = (ret, q) \<and> 0 \<le> ret \<and> q \<noteq> None \<and> db_type q = sql \<and>
     (\<forall>str. is_select str \<longrightarrow> query_rows str q = Some (rows str, after str)))"

lemma storage_pass_log:
  assumes "storage_ok pr" "sched_row ans lg pr s" "timed env s" "reached rem rows after"
    and "pr1 = pr\<lparr>sp_ts := sched_window (se_call_maxsec_limit env) (se_time env) s, sp_chk_ts := se_time env\<rparr>"
    and "case rows (query_str pr1) of None \<Rightarrow> qs = [] | Some rs \<Rightarrow> storage_stmts pr rs = Some qs"
  shows "\<exists>r'. cdr_storage_reader env pr rem (rdb ans lg r) =
    Some (pr1\<lparr>sp_sql_query := query_str pr1\<rparr>, snd (db_close (after (query_str pr1))),
      rdb ans (lg @ [sched_select_str pr] @ qs @ [sched_update_str pr1]) r')"
proof -
  let ?pr = "pr1\<lparr>sp_sql_query := query_str pr1\<rparr>"
  obtain ret q where q: "db_connect rem = (ret, q)" "0 \<le> ret" "q \<noteq> None" "db_type q = sql"
    "\<forall>str. is_select str \<longrightarrow> query_rows str q = Some (rows str, after str)"
    using assms(4) by (auto simp: reached_def)
  have ok: "storage_ok pr1" "storage_ok ?pr" using assms(1) by (simp_all add: storage_ok_def assms(5))
  have rg: "int_range (sp_ts pr1)" using assms(3) window_range by (simp add: assms(5) timed_def)
  have rec: "storage_record ?pr = storage_record pr" "sp_filters ?pr = sp_filters pr"
    by (simp_all add: storage_record_def fun_eq_iff assms(5))
  have stm: "storage_stmts ?pr rs = storage_stmts pr rs" for rs by (induction rs) (simp_all only: storage_stmts.simps rec)
  have get: "\<exists>m r1. cdr_storage_get_remote_cdrs env ?pr q (rdb ans (lg @ [sched_select_str pr]) None) =
      Some (m, after (query_str pr1), rdb ans ((lg @ [sched_select_str pr]) @ qs) r1) \<and> 0 \<le> m"
  proof (cases "rows (query_str pr1)")
    case None
    then show ?thesis using q(3-5) assms(6) select_query [of pr1]
      by (intro exI [of _ 0] exI [of _ None]) (simp add: cdr_storage_get_remote_cdrs_def)
  next
    case (Some rs)
    then have "storage_stmts ?pr rs = Some qs" using assms(6) by (simp add: stm)
    then show ?thesis
      using storage_rows_log [OF ok(2), of rs qs env 0 ans "lg @ [sched_select_str pr]" None] q(3-5) Some select_query [of pr1]
      by (auto simp: cdr_storage_get_remote_cdrs_def)
  qed
  then obtain m r1 where get: "cdr_storage_get_remote_cdrs env ?pr q (rdb ans (lg @ [sched_select_str pr]) None) =
      Some (m, after (query_str pr1), rdb ans ((lg @ [sched_select_str pr]) @ qs) r1)" "m \<noteq> -1"
    by auto
  have upd: "sched_update_str ?pr = sched_update_str pr1" by (simp add: sched_update_str_def)
  show ?thesis
    using set_ts [OF assms(2,3), of r] query_parsed [OF ok(1) rg, of env] q(1,2) get
    by (simp add: cdr_storage_reader_def assms(5) [symmetric] sched_updated upd) blast
qed

text \<open>Property C15. A pass over a remote database reads from no later than the time of the last pass on,
  stores every row it gets by one insert, in order, and then moves the schedule to the time of
  the pass: between two passes that both get their rows, no time is left out.\<close>

theorem storage_pass:
  assumes "storage_ok pr" "sched_row ans lg pr s" "timed env s" "reached rem rows after"
    and "pr1 = pr\<lparr>sp_ts := sched_window (se_call_maxsec_limit env) (se_time env) s, sp_chk_ts := se_time env\<rparr>"
    and "rows (query_str pr1) = Some rs" "storage_stmts pr rs = Some qs"
  shows "sp_ts pr1 \<le> sd_last s \<and> (\<exists>r'. cdr_storage_reader env pr rem (rdb ans lg r) =
    Some (pr1\<lparr>sp_sql_query := query_str pr1\<rparr>, snd (db_close (after (query_str pr1))),
      rdb ans (lg @ [sched_select_str pr] @ qs @ [sched_update_str pr1]) r'))"
proof -
  have "sp_ts pr1 \<le> sd_last s" using assms(3,5) window_le by (simp add: timed_def)
  then show ?thesis using storage_pass_log [OF assms(1-5), of qs r] assms(6,7) by simp
qed

text \<open>Property C27. A query that fails moves the schedule all the same: nothing is stored, the time of the
  pass is written, and the next pass of the same day reads from that time less the longest call
  and a minute on. The records of the failed pass that are older are never read.\<close>

theorem failed_query_skips:
  assumes "storage_ok pr" "sched_row ans lg pr s" "timed env s" "reached rem rows after"
    and "pr1 = pr\<lparr>sp_ts := sched_window (se_call_maxsec_limit env) (se_time env) s, sp_chk_ts := se_time env\<rparr>"
    and "rows (query_str pr1) = None"
    and "s2 = s\<lparr>sd_ts := sp_ts pr1, sd_last := sp_chk_ts pr1\<rparr>" "sched_row ans2 lg2 pr s2" "timed env2 s2"
    and "2 * 86400 \<le> se_time env2 - sd_start s" "cycle_begin (sd_start s) (se_time env2) \<le> sp_ts pr1"
    and "sd_start s < se_time env"
  shows "(\<exists>r'. cdr_storage_reader env pr rem (rdb ans lg r) =
      Some (pr1\<lparr>sp_sql_query := query_str pr1\<rparr>, snd (db_close (after (query_str pr1))),
        rdb ans (lg @ [sched_select_str pr, sched_update_str pr1]) r')) \<and>
    (\<exists>pr2 p. cdr_storage_sched_set_ts env2 pr (rdb ans2 lg2 r2) = Some (1, pr2, p) \<and>
      sp_ts pr2 = se_time env - uint (se_call_maxsec_limit env2 + CDR_STORAGE_SCHED_M))"
proof -
  have chk: "sp_chk_ts pr1 = se_time env" by (simp add: assms(5))
  have "sp_ts pr1 \<le> sd_last s" "sd_last s \<le> se_time env" "sched_ok (se_time env2) s2"
    using assms(3,5,9) window_le by (simp_all add: timed_def sched_ok_def)
  then have "sched_window (se_call_maxsec_limit env2) (se_time env2) s2 =
      se_time env - uint (se_call_maxsec_limit env2 + CDR_STORAGE_SCHED_M)"
    using sched_window_cases [of "se_time env2" s2] assms(10-12) by (simp add: assms(7) chk)
  then show ?thesis using storage_pass_log [OF assms(1-5), of "[]" r] assms(6) set_ts [OF assms(8,9), of r2] by simp
qed

text \<open>A remote database that answers or fails, and a schedule in its twelfth day.\<close>

definition open_db :: "answers \<Rightarrow> recorder db option" where
  "open_db ans = Some \<lparr>db_t = sql, db_sql = Some ((recorder_api ans)\<lparr>sa_connect := Some (\<lambda>c. (0, c)), sa_close := Some (\<lambda>c. c)\<rparr>),
     db_nosql = None, db_conn = Some ((db_conn_init [] [] [] 0 [] [] 0)\<lparr>cn_rconn := Some ([], None)\<rparr>)\<rparr>"

definition after_query :: "answers \<Rightarrow> string \<Rightarrow> recorder db option" where
  "after_query ans q = (case query_rows q (open_db ans) of Some (_, p) \<Rightarrow> p | None \<Rightarrow> None)"

lemma open_reached: "reached (open_db ans) (\<lambda>q. snd (ans [] q)) (after_query ans)"
proof -
  have "\<exists>p. query_rows q (open_db ans) = Some (snd (ans [] q), p)" if "is_select q" for q
    using that
    by (cases "snd (ans [] q)")
      (simp_all add: query_rows_def fetch_rows_def open_db_def has_conn_def db_select_def db_fetch_def db_on_def via_def
        recorder_api_def db_conn_init_def conn_rows_def db_free_result_def Let_def split_beta)
  then have "query_rows q (open_db ans) = Some (snd (ans [] q), after_query ans q)" if "is_select q" for q
    using that by (fastforce simp: after_query_def)
  moreover have "db_connect (open_db ans) = (0, open_db ans)" "open_db ans \<noteq> None" "db_type (open_db ans) = sql"
    by (simp_all add: open_db_def db_connect_def db_on_def via_def db_type_def)
  ultimately show ?thesis unfolding reached_def by auto
qed

definition demo_storage :: cdr_storage_profile where
  "demo_storage = \<lparr>sp_ts = 0, sp_chk_ts = 0, sp_cdr_sched_ts = [],
     sp_dbtype = ''pgsql'', sp_dbhost = ''switch'', sp_dbname = ''cdr'', sp_dbuser = ''re7'', sp_dbpass = ''re7'', sp_dbport = 5432,
     sp_sql_query = [], sp_cdr_table = ''cdr'',
     sp_sql_col_where = ''calldate'', sp_sql_col_t = col_epoch, sp_sql_where_const = [],
     sp_cols = [\<lparr>sc_col_id = 1, sc_col_name = ''uniqueid'', sc_func = Some cdr_add_call_uid\<rparr>,
       \<lparr>sc_col_id = 2, sc_col_name = ''dst'', sc_func = Some cdr_add_called_number\<rparr>, \<lparr>sc_col_id = 0, sc_col_name = [], sc_func = None\<rparr>],
     sp_cols_num = 3, sp_filters = None, sp_cdr_server_id = 1, sp_cdr_rec_type_id = 4, sp_profile_name = ''demo''\<rparr>"

definition demo_senv :: "int \<Rightarrow> storage_env" where
  "demo_senv t = \<lparr>se_time = t, se_mktime = (\<lambda>_. 0), se_localtime = (\<lambda>_. \<lparr>tm_sec = 0, tm_min = 0, tm_hour = 0, tm_mday = 1, tm_mon = 0, tm_year = 100, tm_wday = 0\<rparr>), se_call_maxsec_limit = 0,
     se_ts_epoch = (\<lambda>_. 0), se_json = (\<lambda>_. ([], [])), se_sched_json = (\<lambda>_. ([], [])), se_json_sched = (\<lambda>_. sched0)\<rparr>"

definition demo_sched :: cdr_storage_sched where
  "demo_sched = \<lparr>sd_ts = 1036800, sd_last = 1040000, sd_start = 86400, sd_replies = 0\<rparr>"

definition demo_lans :: "int \<Rightarrow> int \<Rightarrow> answers" where
  "demo_lans t l = (\<lambda>_ _. (0, Some [[dec_int t, dec_int l, dec_int 86400, dec_int 0]]))"

lemma demo_storage_ok: "storage_ok demo_storage"
proof -
  have "f \<in> snd ` set cdr_tbl" if "f = cdr_add_call_uid \<or> f = cdr_add_called_number" for f
    using that by (auto simp: cdr_tbl_def)
  then show ?thesis by (simp add: storage_ok_def demo_storage_def)
qed

lemma demo_sched_row:
  "int_range a \<Longrightarrow> int_range b \<Longrightarrow> sched_row (demo_lans a b) lg demo_storage (demo_sched\<lparr>sd_ts := a, sd_last := b\<rparr>)"
  by (simp add: sched_row_def demo_lans_def demo_sched_def coli_def col_def int_range_def)

lemma demo_window:
  "timed (demo_senv 1050000) demo_sched" "sched_window 0 1050000 demo_sched = 1039940"
proof -
  show t: "timed (demo_senv 1050000) demo_sched" by (simp add: timed_def demo_senv_def demo_sched_def sched_ok_def)
  show "sched_window 0 1050000 demo_sched = 1039940"
    using sched_window_cases [of 1050000 demo_sched] t by (simp add: timed_def demo_senv_def demo_sched_def cycle_begin_def)
qed

definition demo_pass :: cdr_storage_profile where
  "demo_pass = demo_storage\<lparr>sp_ts := 1039940, sp_chk_ts := 1050000\<rparr>"

lemma demo_pass: "demo_pass = demo_storage\<lparr>sp_ts := sched_window (se_call_maxsec_limit (demo_senv 1050000))
    (se_time (demo_senv 1050000)) demo_sched, sp_chk_ts := se_time (demo_senv 1050000)\<rparr>"
  using demo_window(2) by (simp add: demo_pass_def demo_senv_def)

lemma demo_row: "sched_row (demo_lans 1036800 1040000) [] demo_storage demo_sched"
  using demo_sched_row [of 1036800 1040000 "[]"] by (simp add: demo_sched_def int_range_def)

theorem storage_pass_witness:
  "\<exists>q r'. sp_ts demo_pass \<le> 1040000 \<and>
     cdr_storage_reader (demo_senv 1050000) demo_storage (open_db (\<lambda>_ _. (0, Some [[''uid1'', ''0888123456'']])))
       (rdb (demo_lans 1036800 1040000) [] None) =
     Some (demo_pass\<lparr>sp_sql_query := query_str demo_pass\<rparr>,
       snd (db_close (after_query (\<lambda>_ _. (0, Some [[''uid1'', ''0888123456'']])) (query_str demo_pass))),
       rdb (demo_lans 1036800 1040000) [sched_select_str demo_storage, q, sched_update_str demo_pass] r')"
proof -
  let ?c = "cdr0\<lparr>cdr_cdr_server_id := 1, cdr_cdr_rec_type_id := 4, cdr_call_uid := ''uid1'', cdr_called_number := ''0888123456'',
    cdr_profile_name := ''demo''\<rparr>"
  have c: "storage_record demo_storage [''uid1'', ''0888123456''] = Some ?c"
    by (simp add: storage_record_def demo_storage_def col_def cdr_add_defs cdr_field_set_def strncpy_def)
  obtain q where "record_stmt None ?c = Some q"
    by (rule add_in_db_stmt [OF storage_record_ok [OF demo_storage_ok c], of None]) simp_all
  then have st: "storage_stmts demo_storage [[''uid1'', ''0888123456'']] = Some [q]"
    using c by (simp add: demo_storage_def)
  have "sp_ts demo_pass \<le> sd_last demo_sched \<and> (\<exists>r'. cdr_storage_reader (demo_senv 1050000) demo_storage
       (open_db (\<lambda>_ _. (0, Some [[''uid1'', ''0888123456'']]))) (rdb (demo_lans 1036800 1040000) [] None) =
     Some (demo_pass\<lparr>sp_sql_query := query_str demo_pass\<rparr>,
       snd (db_close (after_query (\<lambda>_ _. (0, Some [[''uid1'', ''0888123456'']])) (query_str demo_pass))),
       rdb (demo_lans 1036800 1040000) ([] @ [sched_select_str demo_storage] @ [q] @ [sched_update_str demo_pass]) r'))"
    by (rule storage_pass [OF demo_storage_ok demo_row demo_window(1) open_reached demo_pass _ st]) simp
  then show ?thesis by (auto simp: demo_sched_def)
qed

theorem failed_query_skips_witness:
  "(\<exists>r'. cdr_storage_reader (demo_senv 1050000) demo_storage (open_db (\<lambda>_ _. (-1, None)))
       (rdb (demo_lans 1036800 1040000) [] None) =
     Some (demo_pass\<lparr>sp_sql_query := query_str demo_pass\<rparr>,
       snd (db_close (after_query (\<lambda>_ _. (-1, None)) (query_str demo_pass))),
       rdb (demo_lans 1036800 1040000) [sched_select_str demo_storage, sched_update_str demo_pass] r')) \<and>
   (\<exists>pr2 p. cdr_storage_sched_set_ts (demo_senv 1060000) demo_storage (rdb (demo_lans 1039940 1050000) [] None) = Some (1, pr2, p) \<and>
     sp_ts pr2 = 1049940)"
proof -
  let ?s2 = "demo_sched\<lparr>sd_ts := sp_ts demo_pass, sd_last := sp_chk_ts demo_pass\<rparr>"
  have 1: "sched_row (demo_lans 1039940 1050000) [] demo_storage ?s2"
    using demo_sched_row [of 1039940 1050000 "[]"] by (simp add: demo_pass_def int_range_def)
  have 2: "timed (demo_senv 1060000) ?s2" by (simp add: timed_def demo_senv_def demo_sched_def sched_ok_def demo_pass_def)
  have 3: "2 * 86400 \<le> se_time (demo_senv 1060000) - sd_start demo_sched"
    "cycle_begin (sd_start demo_sched) (se_time (demo_senv 1060000)) \<le> sp_ts demo_pass"
    "sd_start demo_sched < se_time (demo_senv 1050000)"
    by (simp_all add: demo_senv_def demo_sched_def cycle_begin_def demo_pass_def)
  have 4: "se_time (demo_senv t) = t" "se_call_maxsec_limit (demo_senv t) = 0" for t by (simp_all add: demo_senv_def)
  show ?thesis
    using failed_query_skips [OF demo_storage_ok demo_row demo_window(1) open_reached demo_pass _ refl 1 2 3,
        of "\<lambda>_ _. (-1, None)" None None]
    by (simp add: 4)
qed

end
