(* ===== verification/XmlCfg.thy ===== *)
theory XmlCfg
  imports CString
begin

text \<open>
  Reading of the configuration files: \<open>config/xml_cfg.c\<close> and \<open>config/main_cfg.c\<close>. libxml2 is an
  argument: the tree it gives for a file. A section is searched among the children of the root,
  its parameters become a linked list, here a list with the state of the pointer to it; the
  getters go over that list. A parameter that is too long for its array is undefined, the value
  \<open>None\<close>, and so is the use of a list that was freed.
\<close>

section \<open>The tree and the parameters\<close>

datatype xml = Xml (x_element: bool) (x_name: string) (x_props: "(string \<times> string) list") (x_children: "xml list")

abbreviation (input) XML_NAME_LEN :: nat where "XML_NAME_LEN \<equiv> 128"
abbreviation (input) XML_VALUE_LEN :: nat where "XML_VALUE_LEN \<equiv> 256"
abbreviation (input) XML_NODE_NAME_LEN :: nat where "XML_NODE_NAME_LEN \<equiv> 128"

record xml_param =
  xp_name :: string
  xp_value :: string

text \<open>The pointer to the list of parameters: null, a list, a list that was freed.\<close>

datatype xml_params = No_params | Params "xml_param list" | Params_freed

record xml_child =
  xc_node_name :: string
  xc_params :: xml_params

record xml_node =
  xn_node_name :: string
  xn_params :: xml_params
  xn_child_node_name :: string
  xn_child_node :: "xml_child list option"
  xn_child_num :: u16

definition xml_node0 :: xml_node where
  "xml_node0 = \<lparr>xn_node_name = [], xn_params = No_params, xn_child_node_name = [], xn_child_node = None, xn_child_num = 0\<rparr>"

text \<open>What libxml2 finds in a file: \<open>None\<close> when it is missing or not well formed, and the root
  element of the document.\<close>

type_synonym xml_files = "string \<Rightarrow> xml option option"

definition xml_cfg_doc :: "(string \<Rightarrow> bool) \<Rightarrow> xml_files \<Rightarrow> string \<Rightarrow> xml option option" where
  "xml_cfg_doc exists read fname = (if \<not> exists fname then None else read fname)"

definition xml_cfg_root :: "xml option option \<Rightarrow> xml option" where
  "xml_cfg_root doc = (case doc of None \<Rightarrow> None | Some top_el \<Rightarrow> top_el)"

definition prop_of :: "xml \<Rightarrow> string \<Rightarrow> string" where
  "prop_of x name = (case map_of (x_props x) name of Some v \<Rightarrow> v | None \<Rightarrow> [])"

fun xml_params_of :: "xml list \<Rightarrow> xml_param list option" where
  "xml_params_of [] = Some []"
| "xml_params_of (x # xs) =
     (if x_name x = ''param'' then do {
        n \<leftarrow> fits XML_NAME_LEN (prop_of x ''name'');
        v \<leftarrow> fits XML_VALUE_LEN (prop_of x ''value'');
        ps \<leftarrow> xml_params_of xs;
        Some (\<lparr>xp_name = n, xp_value = v\<rparr> # ps)
      } else xml_params_of xs)"

text \<open>The pointer is set with the first parameter; a section without one leaves it as it was.\<close>

definition put_params :: "xml_param list \<Rightarrow> xml_params \<Rightarrow> xml_params" where
  "put_params ps old = (if ps = [] then old else Params ps)"

definition xml_cfg_params_get :: "xml \<Rightarrow> xml_node \<Rightarrow> xml_node option" where
  "xml_cfg_params_get top_el node = (case find (\<lambda>c. x_name c = xn_node_name node) (x_children top_el) of
     None \<Rightarrow> Some node
   | Some sct \<Rightarrow> do { ps \<leftarrow> xml_params_of (x_children sct); Some (node\<lparr>xn_params := put_params ps (xn_params node)\<rparr>) })"

definition xml_cfg_params_get_v2 :: "xml \<Rightarrow> xml_child \<Rightarrow> xml_child option" where
  "xml_cfg_params_get_v2 cur node = do {
     ps \<leftarrow> xml_params_of (x_children cur);
     Some (node\<lparr>xc_params := put_params ps (xc_params node)\<rparr>)
   }"

definition params_list :: "xml_params \<Rightarrow> xml_param list option" where
  "params_list q = (case q of No_params \<Rightarrow> Some [] | Params ps \<Rightarrow> Some ps | Params_freed \<Rightarrow> None)"

definition xml_cfg_params_free :: "xml_node \<Rightarrow> xml_node" where
  "xml_cfg_params_free node = (case xn_params node of No_params \<Rightarrow> node | _ \<Rightarrow> node\<lparr>xn_params := Params_freed\<rparr>)"

text \<open>\<open>child_num\<close> starts again with every section of the name; so does not the list, of which the
  first element stays in \<open>child_node\<close>.\<close>

fun children_of :: "string \<Rightarrow> xml list \<Rightarrow> xml_child list option" where
  "children_of name [] = Some []"
| "children_of name (x # xs) =
     (if x_name x = name then do {
        nm \<leftarrow> fits XML_NODE_NAME_LEN name;
        c \<leftarrow> xml_cfg_params_get_v2 x \<lparr>xc_node_name = nm, xc_params = No_params\<rparr>;
        cs \<leftarrow> children_of name xs;
        Some (c # cs)
      } else children_of name xs)"

fun child_sections :: "xml list \<Rightarrow> xml_child list \<Rightarrow> xml_node \<Rightarrow> xml_node option" where
  "child_sections [] lst node = Some node"
| "child_sections (x # xs) lst node =
     (if x_name x = xn_node_name node then do {
        cs \<leftarrow> children_of (xn_child_node_name node) (x_children x);
        let lst' = lst @ cs;
        child_sections xs lst' (node\<lparr>xn_child_num := word_of_nat (length cs),
          xn_child_node := (if lst' = [] then xn_child_node node else Some lst')\<rparr>)
      } else child_sections xs lst node)"

definition xml_cfg_child_get :: "xml \<Rightarrow> xml_node \<Rightarrow> xml_node option" where
  "xml_cfg_child_get top_el node = child_sections (x_children top_el) [] node"

section \<open>The loop of a getter\<close>

fun each_param :: "(xml_param \<Rightarrow> 'a \<Rightarrow> 'a option) \<Rightarrow> xml_param list \<Rightarrow> 'a \<Rightarrow> 'a option" where
  "each_param f [] cfg = Some cfg"
| "each_param f (p # ps) cfg = do { cfg' \<leftarrow> f p cfg; each_param f ps cfg' }"

definition read_section ::
  "xml \<Rightarrow> string \<Rightarrow> (xml_param \<Rightarrow> 'a \<Rightarrow> 'a option) \<Rightarrow> xml_node \<Rightarrow> 'a \<Rightarrow> ('a \<times> xml_node) option" where
  "read_section top_el name f node cfg = do {
     node1 \<leftarrow> xml_cfg_params_get top_el (node\<lparr>xn_node_name := name\<rparr>);
     ps \<leftarrow> params_list (xn_params node1);
     cfg' \<leftarrow> each_param f ps cfg;
     Some (cfg', xml_cfg_params_free node1)
   }"

text \<open>One \<open>if\<close> of the loop: the parameter of the name is copied into an array, or read as a number.\<close>

definition on_str :: "string \<Rightarrow> nat \<Rightarrow> (string \<Rightarrow> 'a \<Rightarrow> 'a) \<Rightarrow> xml_param \<Rightarrow> 'a \<Rightarrow> 'a option" where
  "on_str name n put p cfg = (if xp_name p = name then do { v \<leftarrow> fits n (xp_value p); Some (put v cfg) } else Some cfg)"

definition on_int :: "string \<Rightarrow> (int \<Rightarrow> 'a \<Rightarrow> 'a) \<Rightarrow> xml_param \<Rightarrow> 'a \<Rightarrow> 'a option" where
  "on_int name put p cfg = (if xp_name p = name then do { v \<leftarrow> atoi (xp_value p); Some (put v cfg) } else Some cfg)"

definition on_val :: "string \<Rightarrow> (string \<Rightarrow> 'a \<Rightarrow> 'a) \<Rightarrow> xml_param \<Rightarrow> 'a \<Rightarrow> 'a option" where
  "on_val name put p cfg = Some (if xp_name p = name then put (xp_value p) cfg else cfg)"

text \<open>The first character of a value, and the flag of a value \<open>yes\<close>.\<close>

definition first_char :: "string \<Rightarrow> char" where
  "first_char v = (case v of [] \<Rightarrow> CHR 0x00 | c # _ \<Rightarrow> c)"

definition yes_flag :: "string \<Rightarrow> char" where
  "yes_flag v = (if v = ''yes'' then CHR ''t'' else CHR ''f'')"

section \<open>The main configuration\<close>

record main_cfg =
  mc_cfg_filename :: string
  mc_system_dir :: string
  mc_system_pid_file :: string
  mc_dbtype :: string
  mc_dbhost :: string
  mc_dbname :: string
  mc_dbuser :: string
  mc_dbpass :: string
  mc_dbport :: int
  mc_logfile :: string
  mc_log_separator :: char
  mc_log_debug_level :: u16
  mc_log_max_file_size :: u32
  mc_num_retries :: u16
  mc_int_retries :: u16
  mc_rating_module :: string

definition main_cfg_init :: main_cfg where
  "main_cfg_init = \<lparr>mc_cfg_filename = [], mc_system_dir = [], mc_system_pid_file = [], mc_dbtype = [], mc_dbhost = [],
     mc_dbname = [], mc_dbuser = [], mc_dbpass = [], mc_dbport = 0, mc_logfile = [], mc_log_separator = CHR 0x00,
     mc_log_debug_level = 0, mc_log_max_file_size = 0, mc_num_retries = 0, mc_int_retries = 0, mc_rating_module = []\<rparr>"

definition main_cfg_system_param :: "xml_param \<Rightarrow> main_cfg \<Rightarrow> main_cfg option" where
  "main_cfg_system_param p cfg = do {
     cfg \<leftarrow> on_str ''DIR'' 255 (\<lambda>v c. c\<lparr>mc_system_dir := v\<rparr>) p cfg;
     on_str ''PIDFile'' 255 (\<lambda>v c. c\<lparr>mc_system_pid_file := v\<rparr>) p cfg
   }"

definition main_cfg_system_get :: "xml \<Rightarrow> xml_node \<Rightarrow> main_cfg \<Rightarrow> (main_cfg \<times> xml_node) option" where
  "main_cfg_system_get top_el node cfg = read_section top_el ''System'' main_cfg_system_param node cfg"

definition main_cfg_db_param :: "xml_param \<Rightarrow> main_cfg \<Rightarrow> main_cfg option" where
  "main_cfg_db_param p cfg = do {
     cfg \<leftarrow> on_str ''dbtype'' 32 (\<lambda>v c. c\<lparr>mc_dbtype := v\<rparr>) p cfg;
     cfg \<leftarrow> on_str ''dbhost'' 255 (\<lambda>v c. c\<lparr>mc_dbhost := v\<rparr>) p cfg;
     cfg \<leftarrow> on_str ''dbname'' 64 (\<lambda>v c. c\<lparr>mc_dbname := v\<rparr>) p cfg;
     cfg \<leftarrow> on_str ''dbuser'' 64 (\<lambda>v c. c\<lparr>mc_dbuser := v\<rparr>) p cfg;
     cfg \<leftarrow> on_str ''dbpass'' 64 (\<lambda>v c. c\<lparr>mc_dbpass := v\<rparr>) p cfg;
     cfg \<leftarrow> on_int ''dbport'' (\<lambda>v c. c\<lparr>mc_dbport := v\<rparr>) p cfg;
     cfg \<leftarrow> on_int ''NumberRetries'' (\<lambda>v c. c\<lparr>mc_num_retries := word_of_int v\<rparr>) p cfg;
     on_int ''IntervalRetries'' (\<lambda>v c. c\<lparr>mc_int_retries := word_of_int v\<rparr>) p cfg
   }"

definition main_cfg_db_get :: "xml \<Rightarrow> xml_node \<Rightarrow> main_cfg \<Rightarrow> (main_cfg \<times> xml_node) option" where
  "main_cfg_db_get top_el node cfg = read_section top_el ''DB'' main_cfg_db_param node cfg"

definition main_cfg_logs_param :: "xml_param \<Rightarrow> main_cfg \<Rightarrow> main_cfg option" where
  "main_cfg_logs_param p cfg = do {
     cfg \<leftarrow> on_str ''LogFile'' 255 (\<lambda>v c. c\<lparr>mc_logfile := v\<rparr>) p cfg;
     cfg \<leftarrow> on_int ''LogMaxFileSize'' (\<lambda>v c. c\<lparr>mc_log_max_file_size := word_of_int v\<rparr>) p cfg;
     cfg \<leftarrow> on_val ''LogSeparator'' (\<lambda>v c. c\<lparr>mc_log_separator := first_char v\<rparr>) p cfg;
     on_int ''LogDebugLevel'' (\<lambda>v c. c\<lparr>mc_log_debug_level := word_of_int v\<rparr>) p cfg
   }"

definition main_cfg_logs_get :: "xml \<Rightarrow> xml_node \<Rightarrow> main_cfg \<Rightarrow> (main_cfg \<times> xml_node) option" where
  "main_cfg_logs_get top_el node cfg = read_section top_el ''Logs'' main_cfg_logs_param node cfg"

definition main_cfg_rating_param :: "xml_param \<Rightarrow> main_cfg \<Rightarrow> main_cfg option" where
  "main_cfg_rating_param p cfg =
     on_val ''RatingModule'' (\<lambda>v c. if 0 < length v then c\<lparr>mc_rating_module := strncpy v 63\<rparr> else c) p cfg"

definition main_cfg_rating_get :: "xml \<Rightarrow> xml_node \<Rightarrow> main_cfg \<Rightarrow> (main_cfg \<times> xml_node) option" where
  "main_cfg_rating_get top_el node cfg =
     read_section top_el ''Rating'' main_cfg_rating_param node (cfg\<lparr>mc_rating_module := ''rt.so''\<rparr>)"

definition main_cfg_main :: "(string \<Rightarrow> bool) \<Rightarrow> xml_files \<Rightarrow> string \<Rightarrow> main_cfg option" where
  "main_cfg_main exists read fname = do {
     nm \<leftarrow> fits 512 fname;
     let cfg = main_cfg_init\<lparr>mc_cfg_filename := nm\<rparr>;
     case xml_cfg_root (xml_cfg_doc exists read fname) of
       None \<Rightarrow> Some cfg
     | Some top_el \<Rightarrow> do {
         (cfg, node) \<leftarrow> main_cfg_system_get top_el xml_node0 cfg;
         (cfg, node) \<leftarrow> main_cfg_db_get top_el node cfg;
         (cfg, node) \<leftarrow> main_cfg_logs_get top_el node cfg;
         (cfg, node) \<leftarrow> main_cfg_rating_get top_el node cfg;
         Some cfg
       }
   }"

section \<open>Which values are read\<close>

text \<open>The parameters of the first section of a name, and the value the last parameter of a name has.\<close>

definition section_params :: "xml \<Rightarrow> string \<Rightarrow> xml_param list option" where
  "section_params top_el name = (case find (\<lambda>c. x_name c = name) (x_children top_el) of
     None \<Rightarrow> Some [] | Some sct \<Rightarrow> xml_params_of (x_children sct))"

fun last_of :: "(string \<Rightarrow> 'a) \<Rightarrow> xml_param list \<Rightarrow> string \<Rightarrow> 'a \<Rightarrow> 'a" where
  "last_of conv [] name d = d"
| "last_of conv (p # ps) name d = last_of conv ps name (if xp_name p = name then conv (xp_value p) else d)"

abbreviation last_val :: "xml_param list \<Rightarrow> string \<Rightarrow> string \<Rightarrow> string" where
  "last_val \<equiv> last_of (\<lambda>v. v)"

abbreviation last_num :: "xml_param list \<Rightarrow> string \<Rightarrow> int \<Rightarrow> int" where
  "last_num \<equiv> last_of (\<lambda>v. the (atoi v))"

abbreviation last_word :: "xml_param list \<Rightarrow> string \<Rightarrow> 'w::len word \<Rightarrow> 'w word" where
  "last_word \<equiv> last_of (\<lambda>v. word_of_int (the (atoi v)))"

text \<open>The values fit the arrays they are copied to, and the numbers are numbers of an \<open>int\<close>.\<close>

definition sizes_ok :: "(string \<times> nat) list \<Rightarrow> xml_param list \<Rightarrow> bool" where
  "sizes_ok sizes ps \<longleftrightarrow> (\<forall>p \<in> set ps. \<forall>k. map_of sizes (xp_name p) = Some k \<longrightarrow> length (xp_value p) < k)"

definition nums_ok :: "string list \<Rightarrow> xml_param list \<Rightarrow> bool" where
  "nums_ok names ps \<longleftrightarrow> (\<forall>p \<in> set ps. xp_name p \<in> set names \<longrightarrow> atoi (xp_value p) \<noteq> None)"

lemma ok_Cons:
  "sizes_ok sizes (p # ps) \<longleftrightarrow> (\<forall>k. map_of sizes (xp_name p) = Some k \<longrightarrow> length (xp_value p) < k) \<and> sizes_ok sizes ps"
  "nums_ok names (p # ps) \<longleftrightarrow> (xp_name p \<in> set names \<longrightarrow> atoi (xp_value p) \<noteq> None) \<and> nums_ok names ps"
  by (auto simp: sizes_ok_def nums_ok_def)

lemma on_str_ok:
  "(xp_name p = n \<Longrightarrow> length (xp_value p) < k) \<Longrightarrow> on_str n k put p cfg = Some (if xp_name p = n then put (xp_value p) cfg else cfg)"
  by (simp add: on_str_def fits_def)

lemma on_int_ok:
  "(xp_name p = n \<Longrightarrow> atoi (xp_value p) \<noteq> None) \<Longrightarrow>
     on_int n put p cfg = Some (if xp_name p = n then put (the (atoi (xp_value p))) cfg else cfg)"
  by (auto simp: on_int_def)

lemma read_section_eq:
  assumes "section_params top_el name = Some ps" "ps \<noteq> []"
  shows "read_section top_el name f node cfg =
    do { cfg' \<leftarrow> each_param f ps cfg; Some (cfg', node\<lparr>xn_node_name := name, xn_params := Params_freed\<rparr>) }"
  using assms by (auto simp: read_section_def section_params_def xml_cfg_params_get_def put_params_def params_list_def
      xml_cfg_params_free_def split: option.splits)

text \<open>The section is not there, or has no parameter: the list of the section before is read again.\<close>

lemma read_section_dangling:
  assumes "section_params top_el name = Some []" "xn_params node = Params_freed"
  shows "read_section top_el name f node cfg = None"
  using assms by (auto simp: read_section_def section_params_def xml_cfg_params_get_def put_params_def params_list_def
      split: option.splits)

lemma system_params:
  "sizes_ok [(''DIR'', 255), (''PIDFile'', 255)] ps \<Longrightarrow> each_param main_cfg_system_param ps cfg = Some (cfg\<lparr>
     mc_system_dir := last_val ps ''DIR'' (mc_system_dir cfg), mc_system_pid_file := last_val ps ''PIDFile'' (mc_system_pid_file cfg)\<rparr>)"
  by (induction ps arbitrary: cfg) (auto simp: main_cfg_system_param_def ok_Cons on_str_ok split: if_splits)

abbreviation db_sizes :: "(string \<times> nat) list" where
  "db_sizes \<equiv> [(''dbtype'', 32), (''dbhost'', 255), (''dbname'', 64), (''dbuser'', 64), (''dbpass'', 64)]"

abbreviation db_nums :: "string list" where "db_nums \<equiv> [''dbport'', ''NumberRetries'', ''IntervalRetries'']"

lemma db_param:
  assumes "\<forall>k. map_of db_sizes (xp_name p) = Some k \<longrightarrow> length (xp_value p) < k"
    and "xp_name p \<in> set db_nums \<longrightarrow> atoi (xp_value p) \<noteq> None"
  shows "main_cfg_db_param p cfg = Some (let v = xp_value p; n = xp_name p; i = the (atoi v) in
     if n = ''dbtype'' then cfg\<lparr>mc_dbtype := v\<rparr> else if n = ''dbhost'' then cfg\<lparr>mc_dbhost := v\<rparr>
     else if n = ''dbname'' then cfg\<lparr>mc_dbname := v\<rparr> else if n = ''dbuser'' then cfg\<lparr>mc_dbuser := v\<rparr>
     else if n = ''dbpass'' then cfg\<lparr>mc_dbpass := v\<rparr> else if n = ''dbport'' then cfg\<lparr>mc_dbport := i\<rparr>
     else if n = ''NumberRetries'' then cfg\<lparr>mc_num_retries := word_of_int i\<rparr>
     else if n = ''IntervalRetries'' then cfg\<lparr>mc_int_retries := word_of_int i\<rparr> else cfg)"
  using assms by (auto simp: main_cfg_db_param_def on_str_def on_int_def fits_def Let_def)

lemma db_params:
  "sizes_ok db_sizes ps \<Longrightarrow> nums_ok db_nums ps \<Longrightarrow> each_param main_cfg_db_param ps cfg = Some (cfg\<lparr>
     mc_dbtype := last_val ps ''dbtype'' (mc_dbtype cfg), mc_dbhost := last_val ps ''dbhost'' (mc_dbhost cfg),
     mc_dbname := last_val ps ''dbname'' (mc_dbname cfg), mc_dbuser := last_val ps ''dbuser'' (mc_dbuser cfg),
     mc_dbpass := last_val ps ''dbpass'' (mc_dbpass cfg), mc_dbport := last_num ps ''dbport'' (mc_dbport cfg),
     mc_num_retries := last_word ps ''NumberRetries'' (mc_num_retries cfg),
     mc_int_retries := last_word ps ''IntervalRetries'' (mc_int_retries cfg)\<rparr>)"
proof (induction ps arbitrary: cfg)
  case (Cons p ps)
  note p = db_param [OF conjunct1 [OF Cons.prems(1) [unfolded ok_Cons]] conjunct1 [OF Cons.prems(2) [unfolded ok_Cons]]]
  have "sizes_ok db_sizes ps" "nums_ok db_nums ps" using Cons.prems by (simp_all only: ok_Cons)
  note IH = Cons.IH [OF this]
  show ?case by (simp only: each_param.simps p bind.bind_lunit IH) (simp add: Let_def)
qed simp

abbreviation logs_nums :: "string list" where "logs_nums \<equiv> [''LogMaxFileSize'', ''LogDebugLevel'']"

lemma logs_params:
  "sizes_ok [(''LogFile'', 255)] ps \<Longrightarrow> nums_ok logs_nums ps \<Longrightarrow> each_param main_cfg_logs_param ps cfg = Some (cfg\<lparr>
     mc_logfile := last_val ps ''LogFile'' (mc_logfile cfg),
     mc_log_max_file_size := last_word ps ''LogMaxFileSize'' (mc_log_max_file_size cfg),
     mc_log_separator := last_of first_char ps ''LogSeparator'' (mc_log_separator cfg),
     mc_log_debug_level := last_word ps ''LogDebugLevel'' (mc_log_debug_level cfg)\<rparr>)"
  by (induction ps arbitrary: cfg)
    (auto simp: main_cfg_logs_param_def on_str_def on_int_def on_val_def fits_def ok_Cons)

lemma rating_params:
  "each_param main_cfg_rating_param ps cfg = Some (cfg\<lparr>
     mc_rating_module := last_of (\<lambda>v. strncpy v 63) (List.filter (\<lambda>p. xp_value p \<noteq> []) ps) ''RatingModule'' (mc_rating_module cfg)\<rparr>)"
  by (induction ps arbitrary: cfg) (auto simp: main_cfg_rating_param_def on_val_def)

text \<open>The parameters of the four sections, where the values fit.\<close>

definition main_sections :: "xml \<Rightarrow> xml_param list \<Rightarrow> xml_param list \<Rightarrow> xml_param list \<Rightarrow> bool" where
  "main_sections top_el sys db lg \<longleftrightarrow>
     section_params top_el ''System'' = Some sys \<and> sizes_ok [(''DIR'', 255), (''PIDFile'', 255)] sys \<and>
     section_params top_el ''DB'' = Some db \<and> sizes_ok db_sizes db \<and> nums_ok db_nums db \<and>
     section_params top_el ''Logs'' = Some lg \<and> sizes_ok [(''LogFile'', 255)] lg \<and> nums_ok logs_nums lg"

text \<open>Property C18. Where each of the sections \<open>System\<close>, \<open>DB\<close>, \<open>Logs\<close> and \<open>Rating\<close> has a parameter and the
  values fit, the main configuration has for every field the last value its section gives, whatever
  else the sections hold and in whatever order, and \<open>rt.so\<close> as the rating module when none is named.\<close>

theorem main_cfg_reads:
  assumes "exists fname" "length fname < 512" "read fname = Some (Some top_el)" "main_sections top_el sys db lg"
    and "section_params top_el ''Rating'' = Some rt" "sys \<noteq> []" "db \<noteq> []" "lg \<noteq> []" "rt \<noteq> []"
  shows "main_cfg_main exists read fname = Some \<lparr>mc_cfg_filename = fname,
     mc_system_dir = last_val sys ''DIR'' [], mc_system_pid_file = last_val sys ''PIDFile'' [],
     mc_dbtype = last_val db ''dbtype'' [], mc_dbhost = last_val db ''dbhost'' [], mc_dbname = last_val db ''dbname'' [],
     mc_dbuser = last_val db ''dbuser'' [], mc_dbpass = last_val db ''dbpass'' [], mc_dbport = last_num db ''dbport'' 0,
     mc_logfile = last_val lg ''LogFile'' [], mc_log_separator = last_of first_char lg ''LogSeparator'' (CHR 0x00),
     mc_log_debug_level = last_word lg ''LogDebugLevel'' 0, mc_log_max_file_size = last_word lg ''LogMaxFileSize'' 0,
     mc_num_retries = last_word db ''NumberRetries'' 0, mc_int_retries = last_word db ''IntervalRetries'' 0,
     mc_rating_module = last_of (\<lambda>v. strncpy v 63) (List.filter (\<lambda>p. xp_value p \<noteq> []) rt) ''RatingModule'' ''rt.so''\<rparr>"
  using assms unfolding main_sections_def
  by (simp add: main_cfg_main_def xml_cfg_doc_def xml_cfg_root_def fits_def main_cfg_system_get_def main_cfg_db_get_def
      main_cfg_logs_get_def main_cfg_rating_get_def read_section_eq system_params db_params logs_params rating_params
      main_cfg_init_def)

text \<open>Property C25. A configuration in which one of the sections \<open>DB\<close>, \<open>Logs\<close> and \<open>Rating\<close> is missing or has no
  parameter makes the reader go over the list of the section before, which it has freed.\<close>

theorem main_cfg_section_missing:
  assumes "exists fname" "length fname < 512" "read fname = Some (Some top_el)" "main_sections top_el sys db lg" "sys \<noteq> []"
    and "section_params top_el ''DB'' = Some [] \<or> section_params top_el ''Logs'' = Some [] \<or> section_params top_el ''Rating'' = Some []"
  shows "main_cfg_main exists read fname = None"
proof -
  show ?thesis
  proof (cases "db = []")
    case True
    then show ?thesis using assms(1-5) unfolding main_sections_def
      by (simp add: main_cfg_main_def xml_cfg_doc_def xml_cfg_root_def fits_def main_cfg_system_get_def main_cfg_db_get_def
          read_section_eq read_section_dangling system_params)
  next
    case db: False
    show ?thesis
    proof (cases "lg = []")
      case True
      then show ?thesis using assms(1-5) db unfolding main_sections_def
        by (simp add: main_cfg_main_def xml_cfg_doc_def xml_cfg_root_def fits_def main_cfg_system_get_def main_cfg_db_get_def
            main_cfg_logs_get_def read_section_eq read_section_dangling system_params db_params)
    next
      case False
      then have "section_params top_el ''Rating'' = Some []" using assms(4,6) db by (auto simp: main_sections_def)
      then show ?thesis using assms(1-5) db False unfolding main_sections_def
        by (simp add: main_cfg_main_def xml_cfg_doc_def xml_cfg_root_def fits_def main_cfg_system_get_def main_cfg_db_get_def
            main_cfg_logs_get_def main_cfg_rating_get_def read_section_eq read_section_dangling system_params db_params logs_params)
    qed
  qed
qed

text \<open>The two of the sections of the shipped configuration.\<close>

abbreviation param_el :: "string \<Rightarrow> string \<Rightarrow> xml" where
  "param_el n v \<equiv> Xml True ''param'' [(''name'', n), (''value'', v)] []"

definition demo_sections :: "xml list" where
  "demo_sections = [Xml True ''System'' [] [param_el ''DIR'' ''/usr/local/RateEngine/'', param_el ''PIDFile'' ''logs/rate_engine.pid''],
     Xml False ''comment'' [] [],
     Xml True ''DB'' [] [param_el ''dbtype'' ''pgsql'', param_el ''dbhost'' ''old'', param_el ''dbhost'' ''re7-db'', param_el ''dbport'' ''5432''],
     Xml True ''Logs'' [] [param_el ''LogFile'' ''logs/rate_engine.log'', param_el ''LogSeparator'' ''|'', param_el ''LogDebugLevel'' ''3'']]"

definition demo_main :: "bool \<Rightarrow> xml" where
  "demo_main rating = Xml True ''RateEngine'' []
     (demo_sections @ (if rating then [Xml True ''Rating'' [] [param_el ''leg'' ''a'']] else []))"

lemma demo_main_sections:
  "main_sections (demo_main b) [\<lparr>xp_name = ''DIR'', xp_value = ''/usr/local/RateEngine/''\<rparr>, \<lparr>xp_name = ''PIDFile'', xp_value = ''logs/rate_engine.pid''\<rparr>]
     [\<lparr>xp_name = ''dbtype'', xp_value = ''pgsql''\<rparr>, \<lparr>xp_name = ''dbhost'', xp_value = ''old''\<rparr>, \<lparr>xp_name = ''dbhost'', xp_value = ''re7-db''\<rparr>, \<lparr>xp_name = ''dbport'', xp_value = ''5432''\<rparr>]
     [\<lparr>xp_name = ''LogFile'', xp_value = ''logs/rate_engine.log''\<rparr>, \<lparr>xp_name = ''LogSeparator'', xp_value = ''|''\<rparr>, \<lparr>xp_name = ''LogDebugLevel'', xp_value = ''3''\<rparr>]"
  by (cases b) (simp_all add: main_sections_def demo_main_def demo_sections_def section_params_def prop_of_def fits_def sizes_ok_def
      nums_ok_def atoi_def split_sign_def isspace_def isdigit_def Let_def of_char_def int_range_def)

theorem main_cfg_reads_witness:
  "map_option (\<lambda>c. (mc_dbhost c, mc_dbport c, mc_rating_module c)) (main_cfg_main (\<lambda>_. True) (\<lambda>_. Some (Some (demo_main True))) ''re7.xml'') =
     Some (''re7-db'', 5432, ''rt.so'')"
proof -
  have r: "section_params (demo_main True) ''Rating'' = Some [\<lparr>xp_name = ''leg'', xp_value = ''a''\<rparr>]"
    by (simp add: demo_main_def demo_sections_def section_params_def prop_of_def fits_def)
  have "atoi ''5432'' = Some 5432" by code_simp
  then show ?thesis
    by (subst main_cfg_reads [OF _ _ _ demo_main_sections r]) simp_all
qed

theorem main_cfg_section_missing_witness:
  "main_cfg_main (\<lambda>_. True) (\<lambda>_. Some (Some (demo_main False))) ''re7.xml'' = None"
proof -
  have "section_params (demo_main False) ''Rating'' = Some []"
    by (simp add: demo_main_def demo_sections_def section_params_def)
  then show ?thesis
    by (intro main_cfg_section_missing [OF _ _ _ demo_main_sections [of False]]) simp_all
qed

end
