(* ===== verification/CdrCfg.thy ===== *)
theory CdrCfg
  imports XmlCfg CdrFile CdrStorage
begin

text \<open>
  The profiles of the CDRMediator: \<open>CDRMediator/cdr_cfg.c\<close> reads them from XML files and provisions
  them in the local database, \<open>cdr_mediator.c\<close> starts a thread for each. What libxml2 reads from a
  file is a tree (theory \<open>XmlCfg\<close>); the JSON codec of a profile is an argument. A write outside an
  array and a use of a list that was freed are undefined, the value \<open>None\<close>.
\<close>

section \<open>Types\<close>

abbreviation (input) PROF_NAME_LEN :: nat where "PROF_NAME_LEN \<equiv> 32"
abbreviation (input) DB_BUF_LEN :: nat where "DB_BUF_LEN \<equiv> 2048"

datatype cdr_profile_type = T_db | T_file

text \<open>The pointer \<open>filters\<close>: null, an array, or an array that was freed.\<close>

datatype filters_ptr = No_filters | Filters "filter list" | Filters_freed

record cdr_profile_cfg =
  pf_filename :: string
  pf_profile_version :: u16
  pf_profile_name :: string
  pf_t :: cdr_profile_type
  pf_t2 :: int
  pf_profile_file_type :: "cdr_file_profile option"
  pf_profile_db_type :: "cdr_storage_profile option"
  pf_cdr_profile_id :: u16
  pf_cdr_server_id :: u16
  pf_cdr_interval :: int
  pf_cdr_replies :: int
  pf_called_number_filtering :: char
  pf_filters :: filters_ptr
  pf_cdr_active_flag :: char

record cdr_cfg =
  cf_cdr_profiles_dir :: string
  cf_list :: "string list option"
  cf_profiles :: "cdr_profile_cfg list"

definition cdr_profile_cfg_init :: cdr_profile_cfg where
  "cdr_profile_cfg_init = \<lparr>pf_filename = [], pf_profile_version = 0, pf_profile_name = [], pf_t = T_db, pf_t2 = 0,
     pf_profile_file_type = None, pf_profile_db_type = None, pf_cdr_profile_id = 0, pf_cdr_server_id = 0,
     pf_cdr_interval = 0, pf_cdr_replies = 0, pf_called_number_filtering = CHR 0x00, pf_filters = No_filters,
     pf_cdr_active_flag = CHR 0x00\<rparr>"

definition cdr_cfg_init :: cdr_cfg where
  "cdr_cfg_init = \<lparr>cf_cdr_profiles_dir = [], cf_list = None, cf_profiles = []\<rparr>"

definition cdr_file_profile_init :: cdr_file_profile where
  "cdr_file_profile_init = \<lparr>fp_src_dir = [], fp_files_number = 0, fp_list = No_list, fp_dst_dir = [], fp_hdr = [], fp_col_sep = [],
     fp_hdr_comm = CHR 0x00, fp_line_end = [], fp_filters = None, fp_cdr_server_id = 0, fp_cdr_rec_type_id = 0,
     fp_profile_name = [], fp_col_delimiter = [], fp_file_field_num = 0\<rparr>"

definition cdr_storage_profile_init :: cdr_storage_profile where
  "cdr_storage_profile_init = \<lparr>sp_ts = 0, sp_chk_ts = 0, sp_cdr_sched_ts = [], sp_dbtype = [], sp_dbhost = [], sp_dbname = [],
     sp_dbuser = [], sp_dbpass = [], sp_dbport = 0, sp_sql_query = [], sp_cdr_table = [], sp_sql_col_where = [],
     sp_sql_col_t = col_ts, sp_sql_where_const = [], sp_cols = [], sp_cols_num = 0, sp_filters = None, sp_cdr_server_id = 0,
     sp_cdr_rec_type_id = 0, sp_profile_name = []\<rparr>"

section \<open>Reading the files\<close>

definition cdr_cfg_get :: "xml \<Rightarrow> cdr_cfg \<Rightarrow> cdr_cfg option" where
  "cdr_cfg_get top_el cfg = do {
     (cfg, node) \<leftarrow> read_section top_el ''CDRMediator''
       (on_str ''CDRProfilesDIR'' 256 (\<lambda>v c. c\<lparr>cf_cdr_profiles_dir := v\<rparr>)) xml_node0 cfg;
     Some cfg
   }"

text \<open>The array has a place for every entry but the two; the list stays null without one.\<close>

definition cdr_profiles_list_get :: "string list option \<Rightarrow> cdr_cfg \<Rightarrow> cdr_cfg" where
  "cdr_profiles_list_get d cfg = (case d of
     None \<Rightarrow> cfg
   | Some names \<Rightarrow> (let ns = List.filter (\<lambda>n. \<not> (n = ''.'' \<or> n = ''..'')) names in
       if 0 < length ns then cfg\<lparr>cf_list := Some (map (\<lambda>n. strncpy (cf_cdr_profiles_dir cfg @ n) 255) ns)\<rparr> else cfg))"

definition cdr_profile_params_num :: "xml_param list \<Rightarrow> nat" where
  "cdr_profile_params_num ps = length (List.filter (\<lambda>p. xp_value p \<noteq> []) ps)"

text \<open>The branch of the loop for the parameters of a file, and of a remote database.\<close>

definition file_param :: "xml_param \<Rightarrow> cdr_file_profile \<Rightarrow> cdr_file_profile option" where
  "file_param p f = do {
     f \<leftarrow> on_str ''src-dir'' 256 (\<lambda>v f. f\<lparr>fp_src_dir := v\<rparr>) p f;
     f \<leftarrow> on_str ''dst-dir'' 256 (\<lambda>v f. f\<lparr>fp_dst_dir := v\<rparr>) p f;
     f \<leftarrow> on_str ''cols-separator'' 2 (\<lambda>v f. f\<lparr>fp_col_sep := v\<rparr>) p f;
     f \<leftarrow> on_str ''col-delimiter'' 2 (\<lambda>v f. f\<lparr>fp_col_delimiter := v\<rparr>) p f;
     f \<leftarrow> on_str ''line-end'' 2 (\<lambda>v f. f\<lparr>fp_line_end := v\<rparr>) p f;
     on_int ''file-field-num'' (\<lambda>v f. f\<lparr>fp_file_field_num := v\<rparr>) p f
   }"

definition storage_param :: "xml_param \<Rightarrow> cdr_storage_profile \<Rightarrow> cdr_storage_profile option" where
  "storage_param p s = do {
     s \<leftarrow> on_str ''dbhost'' 255 (\<lambda>v s. s\<lparr>sp_dbhost := v\<rparr>) p s;
     s \<leftarrow> on_str ''dbuser'' 64 (\<lambda>v s. s\<lparr>sp_dbuser := v\<rparr>) p s;
     s \<leftarrow> on_str ''dbpass'' 64 (\<lambda>v s. s\<lparr>sp_dbpass := v\<rparr>) p s;
     s \<leftarrow> on_str ''dbname'' 64 (\<lambda>v s. s\<lparr>sp_dbname := v\<rparr>) p s;
     s \<leftarrow> on_int ''dbport'' (\<lambda>v s. s\<lparr>sp_dbport := v\<rparr>) p s;
     s \<leftarrow> on_str ''dbtype'' 32 (\<lambda>v s. s\<lparr>sp_dbtype := v\<rparr>) p s;
     s \<leftarrow> on_str ''cdr-table'' 128 (\<lambda>v s. s\<lparr>sp_cdr_table := v\<rparr>) p s;
     s \<leftarrow> on_str ''sql-col-where'' 128 (\<lambda>v s. s\<lparr>sp_sql_col_where := v\<rparr>) p s;
     s \<leftarrow> on_val ''sql-col-where-type'' (\<lambda>v s. s\<lparr>sp_sql_col_t := (if v = ''epoch'' then col_epoch else col_ts)\<rparr>) p s;
     s \<leftarrow> on_str ''sql-where-const'' 256 (\<lambda>v s. s\<lparr>sp_sql_where_const := v\<rparr>) p s;
     on_str ''SchedTS'' 64 (\<lambda>v s. s\<lparr>sp_cdr_sched_ts := v\<rparr>) p s
   }"

definition cdr_rec_types :: "(string \<times> int) list" where
  "cdr_rec_types = [(''unkn'', 0), (''isup'', 1), (''sms'', 2), (''voip-audio'', 3), (''voip-video'', 4), (''voip-trunk'', 5)]"

definition general_param :: "xml_param \<Rightarrow> cdr_profile_cfg \<Rightarrow> cdr_profile_cfg option" where
  "general_param p cfg = do {
     cfg \<leftarrow> on_str ''profile-name'' PROF_NAME_LEN (\<lambda>v c. c\<lparr>pf_profile_name := v\<rparr>) p cfg;
     cfg \<leftarrow> on_int ''profile-version'' (\<lambda>v c. c\<lparr>pf_profile_version := word_of_int v\<rparr>) p cfg;
     cfg \<leftarrow> on_val ''active'' (\<lambda>v c. c\<lparr>pf_cdr_active_flag := yes_flag v\<rparr>) p cfg;
     cfg \<leftarrow> on_val ''CalledNumberFiltering'' (\<lambda>v c. c\<lparr>pf_called_number_filtering := yes_flag v\<rparr>) p cfg;
     cfg \<leftarrow> on_int ''getCDRsInterval'' (\<lambda>v c. c\<lparr>pf_cdr_interval := v\<rparr>) p cfg;
     cfg \<leftarrow> on_int ''getCDRsReplies'' (\<lambda>v c. c\<lparr>pf_cdr_replies := v\<rparr>) p cfg;
     cfg \<leftarrow> on_val ''cdr-type'' (\<lambda>v c. if v = ''file'' then c\<lparr>pf_t := T_file, pf_profile_file_type := Some cdr_file_profile_init\<rparr> else c) p cfg;
     cfg \<leftarrow> on_val ''cdr-type'' (\<lambda>v c. if v = ''db'' then c\<lparr>pf_t := T_db, pf_profile_db_type := Some cdr_storage_profile_init\<rparr> else c) p cfg;
     cfg \<leftarrow> (case (pf_t cfg, pf_profile_file_type cfg) of
         (T_file, Some f) \<Rightarrow> do { f' \<leftarrow> file_param p f; Some (cfg\<lparr>pf_profile_file_type := Some f'\<rparr>) }
       | _ \<Rightarrow> Some cfg);
     cfg \<leftarrow> (case (pf_t cfg, pf_profile_db_type cfg) of
         (T_db, Some s) \<Rightarrow> do { s' \<leftarrow> storage_param p s; Some (cfg\<lparr>pf_profile_db_type := Some s'\<rparr>) }
       | _ \<Rightarrow> Some cfg);
     on_val ''cdr-rec-type'' (\<lambda>v c. case map_of cdr_rec_types v of Some t \<Rightarrow> c\<lparr>pf_t2 := t\<rparr> | None \<Rightarrow> c) p cfg
   }"

text \<open>A column of the section \<open>CDRFormat\<close>: the table of setters is searched for its name; the last
  row of the table has the empty name and no setter.\<close>

definition tbl_find :: "string \<Rightarrow> cdr_func option option" where
  "tbl_find name = (case map_of cdr_tbl name of
     Some f \<Rightarrow> Some (Some f)
   | None \<Rightarrow> if name = [] then Some None else None)"

definition hdr_null :: cdr_file_header where
  "hdr_null = \<lparr>fh_hdr_id = 0, fh_hdr_name = [], fh_func = None\<rparr>"

definition col_null :: cdr_storage_col where
  "col_null = \<lparr>sc_col_id = 0, sc_col_name = [], sc_func = None\<rparr>"

fun put_hdrs :: "xml_param list \<Rightarrow> cdr_file_header list option" where
  "put_hdrs [] = Some []"
| "put_hdrs (p # ps) =
     (if xp_value p = [] then put_hdrs ps
      else case tbl_find (xp_name p) of
        None \<Rightarrow> put_hdrs ps
      | Some func \<Rightarrow> do {
          v \<leftarrow> fits 32 (xp_value p);
          n \<leftarrow> atoi (xp_value p);
          hs \<leftarrow> put_hdrs ps;
          Some (\<lparr>fh_hdr_id = word_of_int n, fh_hdr_name = v, fh_func = func\<rparr> # hs)
        })"

fun put_cols :: "xml_param list \<Rightarrow> nat \<Rightarrow> cdr_storage_col list option" where
  "put_cols [] i = Some []"
| "put_cols (p # ps) i =
     (if xp_value p = [] then put_cols ps i
      else case tbl_find (xp_name p) of
        None \<Rightarrow> put_cols ps i
      | Some func \<Rightarrow> do {
          v \<leftarrow> fits 32 (xp_value p);
          cs \<leftarrow> put_cols ps (Suc i);
          Some (\<lparr>sc_col_id = word_of_nat (Suc i), sc_col_name = v, sc_func = func\<rparr> # cs)
        })"

text \<open>The array has a place for each parameter with a value and one more; what no column took stays
  zero.\<close>

definition cdr_cfg_file_profile_xml :: "xml \<Rightarrow> xml_node \<Rightarrow> cdr_profile_cfg \<Rightarrow> (cdr_profile_cfg \<times> xml_node) option" where
  "cdr_cfg_file_profile_xml top_el node cfg = do {
     node1 \<leftarrow> xml_cfg_params_get top_el (node\<lparr>xn_node_name := ''CDRFormat''\<rparr>);
     ps \<leftarrow> params_list (xn_params node1);
     let num = cdr_profile_params_num ps;
     if num = 0 then Some (cfg, node1)
     else do {
       cfg' \<leftarrow> (case pf_profile_file_type cfg of
           None \<Rightarrow> Some cfg
         | Some f \<Rightarrow> do {
             hs \<leftarrow> put_hdrs ps;
             Some (cfg\<lparr>pf_profile_file_type := Some (f\<lparr>fp_hdr := hs @ replicate (num + 1 - length hs) hdr_null\<rparr>)\<rparr>)
           });
       Some (cfg', xml_cfg_params_free node1)
     }
   }"

definition cdr_cfg_storage_profile_xml :: "xml \<Rightarrow> xml_node \<Rightarrow> cdr_profile_cfg \<Rightarrow> (cdr_profile_cfg \<times> xml_node) option" where
  "cdr_cfg_storage_profile_xml top_el node cfg = do {
     node1 \<leftarrow> xml_cfg_params_get top_el (node\<lparr>xn_node_name := ''CDRFormat''\<rparr>);
     ps \<leftarrow> params_list (xn_params node1);
     let num = cdr_profile_params_num ps;
     if num = 0 then Some (cfg, node1)
     else do {
       cfg' \<leftarrow> (case pf_profile_db_type cfg of
           None \<Rightarrow> Some cfg
         | Some s \<Rightarrow> do {
             cs \<leftarrow> put_cols ps 0;
             Some (cfg\<lparr>pf_profile_db_type := Some (s\<lparr>sp_cols := cs @ replicate (num + 1 - length cs) col_null,
               sp_cols_num := word_of_nat (num + 1)\<rparr>)\<rparr>)
           });
       Some (cfg', xml_cfg_params_free node1)
     }
   }"

definition cdr_cfg_filter_attr :: "xml \<Rightarrow> string \<Rightarrow> nat \<Rightarrow> string" where
  "cdr_cfg_filter_attr node attr dst_size = strncpy (prop_of node attr) (dst_size - 1)"

definition cdr_cfg_filter_attr_int :: "xml \<Rightarrow> string \<Rightarrow> int option" where
  "cdr_cfg_filter_attr_int node attr = (case map_of (x_props node) attr of None \<Rightarrow> Some 0 | Some v \<Rightarrow> atoi v)"

fun xml_filters :: "nat \<Rightarrow> xml list \<Rightarrow> filter list option" where
  "xml_filters i [] = Some []"
| "xml_filters i (child # cs) = do {
     num \<leftarrow> cdr_cfg_filter_attr_int child ''num'';
     len \<leftarrow> cdr_cfg_filter_attr_int child ''len'';
     fs \<leftarrow> xml_filters (Suc i) cs;
     Some (\<lparr>fl_id = int i + 1, fl_filtering_prefix = cdr_cfg_filter_attr child ''prefix'' 32, fl_filtering_number = num,
       fl_replace_str = cdr_cfg_filter_attr child ''replace'' 32, fl_cdr_server_id = 0, fl_len = len\<rparr> # fs)
   }"

definition cdr_cfg_profile_filters_xml :: "xml \<Rightarrow> cdr_profile_cfg \<Rightarrow> cdr_profile_cfg option" where
  "cdr_cfg_profile_filters_xml top_el cfg =
     (case find (\<lambda>c. x_element c \<and> x_name c = ''PrefixFiltering'') (x_children top_el) of
       None \<Rightarrow> Some cfg
     | Some sct \<Rightarrow> (let cs = List.filter (\<lambda>c. x_element c \<and> x_name c = ''filter'') (x_children sct) in
         if cs = [] then Some cfg
         else do { fs \<leftarrow> xml_filters 0 cs; Some (cfg\<lparr>pf_filters := Filters fs\<rparr>) }))"

definition cdr_profile_cfg_get :: "xml \<Rightarrow> cdr_profile_cfg \<Rightarrow> cdr_profile_cfg option" where
  "cdr_profile_cfg_get top_el cfg = do {
     (cfg, node) \<leftarrow> read_section top_el ''General'' general_param xml_node0 cfg;
     (cfg, node) \<leftarrow> (case pf_t cfg of
         T_file \<Rightarrow> cdr_cfg_file_profile_xml top_el node cfg
       | T_db \<Rightarrow> cdr_cfg_storage_profile_xml top_el node cfg);
     cdr_cfg_profile_filters_xml top_el cfg
   }"

fun read_profiles :: "(string \<Rightarrow> bool) \<Rightarrow> xml_files \<Rightarrow> string list \<Rightarrow> cdr_profile_cfg list option" where
  "read_profiles exists read [] = Some []"
| "read_profiles exists read (n # ns) = do {
     cfg \<leftarrow> (case xml_cfg_root (xml_cfg_doc exists read n) of
         None \<Rightarrow> Some (cdr_profile_cfg_init\<lparr>pf_filename := n\<rparr>)
       | Some top_el \<Rightarrow> cdr_profile_cfg_get top_el (cdr_profile_cfg_init\<lparr>pf_filename := n\<rparr>));
     cs \<leftarrow> read_profiles exists read ns;
     Some (cfg # cs)
   }"

text \<open>\<open>profiles_number\<close> has 16 bits. The result is undefined, the null pointer or a configuration.\<close>

definition cdr_cfg_main ::
  "(string \<Rightarrow> bool) \<Rightarrow> xml_files \<Rightarrow> (string \<Rightarrow> string list option) \<Rightarrow> string \<Rightarrow> cdr_cfg option option" where
  "cdr_cfg_main exists read dirs fname = (case xml_cfg_doc exists read fname of
     None \<Rightarrow> Some (Some cdr_cfg_init)
   | Some None \<Rightarrow> Some None
   | Some (Some top_el) \<Rightarrow> do {
       cfg \<leftarrow> cdr_cfg_get top_el cdr_cfg_init;
       if cf_cdr_profiles_dir cfg = [] then Some None
       else (let cfg = cdr_profiles_list_get (dirs (cf_cdr_profiles_dir cfg)) cfg in
         case cf_list cfg of
           None \<Rightarrow> Some None
         | Some ns \<Rightarrow> do {
             ps \<leftarrow> read_profiles exists read (take (unat (word_of_nat (length ns) :: u16)) ns);
             Some (Some (cfg\<lparr>cf_profiles := ps\<rparr>))
           })
     })"

section \<open>Provisioning\<close>

text \<open>A count: the query, then the one row of its result.\<close>

definition select_count :: "string \<Rightarrow> 'e db option \<Rightarrow> (int \<times> 'e db option) option" where
  "select_count str dbp = (let (ret, p) = db_select dbp str in
     if ret < 0 then Some (-3, p)
     else do {
       let q = snd (db_fetch p);
       n \<leftarrow> one_int 0 (conn_rows q);
       Some (case n of Some v \<Rightarrow> v | None \<Rightarrow> 0, clear_conn_result q)
     })"

definition filters_count_str :: "int \<Rightarrow> string" where
  "filters_count_str pid = ''select count(*) from prefix_filter where cdr_profiles_id = '' @ dec_int pid @ '';''"

definition cdr_cfg_get_cdr_profile_filters :: "int \<Rightarrow> 'e db option \<Rightarrow> (int \<times> 'e db option) option" where
  "cdr_cfg_get_cdr_profile_filters pid dbp =
     (if dbp = None then Some (-1, dbp)
      else if pid \<le> 0 then Some (-2, dbp)
      else if db_type dbp = sql then select_count (filters_count_str pid) dbp
      else Some (-4, dbp))"

definition profile_select_str :: "string \<Rightarrow> string" where
  "profile_select_str e = ''select id from cdr_profiles where profile_name = '' @ quoted e @ '';''"

definition cdr_cfg_get_cdr_profile_id :: "string \<Rightarrow> 'e db option \<Rightarrow> (int \<times> 'e db option) option" where
  "cdr_cfg_get_cdr_profile_id name dbp =
     (if dbp = None then Some (-1, dbp)
      else if db_type dbp = sql then do {
        e \<leftarrow> escaped name (2 * int PROF_NAME_LEN + 1);
        (rows, p) \<leftarrow> query_rows (profile_select_str e) dbp;
        n \<leftarrow> one_int 0 rows;
        Some (case n of Some v \<Rightarrow> v | None \<Rightarrow> 0, p)
      } else if db_type dbp = nosql then
        (let (ret, p) = db_get dbp (''get cdrm_profile_'' @ name) in
         if ret < 0 then Some (if ret = -18 then 0 else -3, p)
         else if \<not> has_conn p then None
         else Some (1, snd (db_free_result (clear_conn_result p))))
      else Some (-2, dbp))"

definition profile_insert_str :: "string \<Rightarrow> u16 \<Rightarrow> string" where
  "profile_insert_str e version = ''insert into cdr_profiles (profile_name,profile_version) values ('' @ quoted e @ '','' @
     dec_int (uint version) @ '')''"

definition cdr_cfg_insert_profile ::
  "(cdr_profile_cfg \<Rightarrow> string \<times> string) \<Rightarrow> cdr_profile_cfg \<Rightarrow> 'e db option \<Rightarrow> (int \<times> 'e db option) option" where
  "cdr_cfg_insert_profile json cfg dbp =
     (if dbp = None then Some (-1, dbp)
      else if db_type dbp = sql then do {
        e \<leftarrow> escaped (pf_profile_name cfg) (2 * int PROF_NAME_LEN + 1);
        cdr_cfg_get_cdr_profile_id (pf_profile_name cfg) (snd (db_insert dbp (profile_insert_str e (pf_profile_version cfg))))
      } else if db_type dbp = nosql then do {
        let (header, msg) = json cfg;
        str \<leftarrow> fits DB_BUF_LEN (''set '' @ header @ '' '' @ msg);
        let (ret, p) = db_set dbp str [];
        Some (if ret < 0 then 0 else 1, p)
      } else Some (-2, dbp))"

definition server_select_str :: "int \<Rightarrow> string" where
  "server_select_str pid = ''select id from cdr_servers where cdr_profiles_id = '' @ dec_int pid @ '';''"

definition cdr_cfg_get_cdr_server_id :: "int \<Rightarrow> 'e db option \<Rightarrow> (int \<times> 'e db option) option" where
  "cdr_cfg_get_cdr_server_id pid dbp =
     (if dbp = None then Some (-1, dbp)
      else if db_type dbp = sql then do {
        (rows, p) \<leftarrow> query_rows (server_select_str pid) dbp;
        n \<leftarrow> one_int 0 rows;
        Some (case n of Some v \<Rightarrow> v | None \<Rightarrow> 0, p)
      } else Some (0, dbp))"

definition mode_id :: "cdr_profile_type \<Rightarrow> int" where
  "mode_id t = (case t of T_db \<Rightarrow> 1 | T_file \<Rightarrow> 2)"

definition server_insert_str :: "int \<Rightarrow> cdr_profile_type \<Rightarrow> string" where
  "server_insert_str pid t = ''insert into cdr_servers (cdr_profiles_id,get_mode_id,active) values ('' @ dec_int pid @ '','' @
     dec_int (mode_id t) @ '','' @ quoted ''t'' @ '')''"

definition cdr_cfg_insert_server :: "cdr_profile_cfg \<Rightarrow> 'e db option \<Rightarrow> (int \<times> 'e db option) option" where
  "cdr_cfg_insert_server profile dbp = (let pid = uint (pf_cdr_profile_id profile) in
      if dbp = None then Some (DB_ERR_DBP_NUL, dbp)
      else if db_type dbp = sql then
        cdr_cfg_get_cdr_server_id pid (snd (db_insert dbp (server_insert_str pid (pf_t profile))))
      else if db_type dbp = nosql then
        Some (db_set dbp (''SET cdr_server_'' @ pf_profile_name profile @ '' '' @ quoted ''true'') [])
      else Some (DB_ERR_TYPE_UNK, dbp))"

definition filter_insert_str :: "int \<Rightarrow> int \<Rightarrow> string \<Rightarrow> string \<Rightarrow> filter \<Rightarrow> string" where
  "filter_insert_str pid srv e_prefix e_replace f =
     ''insert into prefix_filter (cdr_profiles_id,cdr_server_id,filtering_prefix,filtering_number,replace_str,len) values ('' @
     dec_int pid @ '','' @ dec_int srv @ '','' @ quoted e_prefix @ '','' @ dec_int (fl_filtering_number f) @ '','' @
     quoted e_replace @ '','' @ dec_int (fl_len f) @ '')''"

text \<open>The loop over the array ends at an empty prefix, the zero element behind the last filter at
  the latest.\<close>

fun insert_filters :: "int \<Rightarrow> int \<Rightarrow> filter list \<Rightarrow> 'e db option \<Rightarrow> (int \<times> 'e db option) option" where
  "insert_filters pid srv [] dbp = Some (0, dbp)"
| "insert_filters pid srv (f # fs) dbp =
     (if fl_filtering_prefix f = [] then Some (0, dbp)
      else do {
        e_prefix \<leftarrow> escaped (fl_filtering_prefix f) 65;
        e_replace \<leftarrow> escaped (fl_replace_str f) 65;
        let (ret, p) = db_insert dbp (filter_insert_str pid srv e_prefix e_replace f);
        if ret < 0 then Some (-4, p) else insert_filters pid srv fs p
      })"

definition cdr_cfg_insert_filters :: "cdr_profile_cfg \<Rightarrow> 'e db option \<Rightarrow> (int \<times> 'e db option) option" where
  "cdr_cfg_insert_filters profile dbp =
     (if dbp = None then Some (-1, dbp)
      else case pf_filters profile of
        No_filters \<Rightarrow> Some (-2, dbp)
      | Filters_freed \<Rightarrow> None
      | Filters fs \<Rightarrow>
          if db_type dbp = sql then
            insert_filters (uint (pf_cdr_profile_id profile)) (uint (pf_cdr_server_id profile)) fs dbp
          else if db_type dbp = nosql then Some (0, dbp)
          else Some (-3, dbp))"

definition dbstorage_count_str :: "int \<Rightarrow> string" where
  "dbstorage_count_str srv = ''select count(*) from cdr_dbstorage where cdr_server_id = '' @ dec_int srv"

definition cdr_cfg_get_cdr_dbstorage :: "int \<Rightarrow> 'e db option \<Rightarrow> (int \<times> 'e db option) option" where
  "cdr_cfg_get_cdr_dbstorage srv dbp =
     (if dbp = None then Some (-1, dbp)
      else if srv \<le> 0 then Some (-2, dbp)
      else if db_type dbp = sql then select_count (dbstorage_count_str srv) dbp
      else Some (-4, dbp))"

definition dbstorage_insert_str :: "int \<Rightarrow> cdr_storage_profile \<Rightarrow> string option" where
  "dbstorage_insert_str srv s = do {
     e_host \<leftarrow> escaped (sp_dbhost s) 511;
     e_name \<leftarrow> escaped (sp_dbname s) 129;
     e_user \<leftarrow> escaped (sp_dbuser s) 129;
     e_pass \<leftarrow> escaped (sp_dbpass s) 129;
     e_tbl \<leftarrow> escaped (sp_cdr_table s) 257;
     let type_id = (if sp_dbtype s = ''mysql'' then 2 else if sp_dbtype s = ''sqlite3'' then 3 else 1);
     Some (strncpy (''insert into cdr_dbstorage (cdr_server_id,dbhost,dbname,dbuser,dbpass,cdr_table,dbstorage_type_id,dbport) values ('' @
       dec_int srv @ '','' @ quoted e_host @ '','' @ quoted e_name @ '','' @ quoted e_user @ '','' @ quoted e_pass @ '','' @
       quoted e_tbl @ '','' @ dec_int type_id @ '','' @ dec_int (sp_dbport s) @ '')'') 2047)
   }"

definition cdr_cfg_insert_dbstorage :: "cdr_profile_cfg \<Rightarrow> 'e db option \<Rightarrow> (int \<times> 'e db option) option" where
  "cdr_cfg_insert_dbstorage profile dbp = (let srv = uint (pf_cdr_server_id profile) in
      if dbp = None then Some (-1, dbp)
      else if pf_t profile \<noteq> T_db then Some (0, dbp)
      else case pf_profile_db_type profile of
        None \<Rightarrow> Some (-2, dbp)
      | Some s \<Rightarrow>
          if srv \<le> 0 then Some (-3, dbp)
          else if db_type dbp \<noteq> sql then Some (0, dbp)
          else do {
            (n, p) \<leftarrow> cdr_cfg_get_cdr_dbstorage srv dbp;
            if n \<noteq> 0 then Some (0, p)
            else do { str \<leftarrow> dbstorage_insert_str srv s; Some (db_insert p str) }
          })"

text \<open>The ids are \<open>unsigned short\<close>. The filters are freed on an SQL database and the pointer stays.\<close>

definition provision_ids ::
  "(cdr_profile_cfg \<Rightarrow> string \<times> string) \<Rightarrow> cdr_profile_cfg \<Rightarrow> 'e db option \<Rightarrow> (cdr_profile_cfg \<times> 'e db option) option" where
  "provision_ids json profile dbp = do {
     (pid, p) \<leftarrow> cdr_cfg_get_cdr_profile_id (pf_profile_name profile) dbp;
     let profile = profile\<lparr>pf_cdr_profile_id := word_of_int pid\<rparr>;
     if pf_cdr_profile_id profile = 0 then do {
       (pid, p) \<leftarrow> cdr_cfg_insert_profile json profile p;
       let profile = profile\<lparr>pf_cdr_profile_id := word_of_int pid\<rparr>;
       (srv, p) \<leftarrow> cdr_cfg_insert_server profile p;
       Some (profile\<lparr>pf_cdr_server_id := word_of_int srv\<rparr>, p)
     } else do {
       (srv, p) \<leftarrow> cdr_cfg_get_cdr_server_id (uint (pf_cdr_profile_id profile)) p;
       let profile = profile\<lparr>pf_cdr_server_id := word_of_int srv\<rparr>;
       if pf_cdr_server_id profile = 0 then do {
         (srv, p) \<leftarrow> cdr_cfg_insert_server profile p;
         Some (profile\<lparr>pf_cdr_server_id := word_of_int srv\<rparr>, p)
       } else Some (profile, p)
     }
   }"

definition provision_filters :: "cdr_profile_cfg \<Rightarrow> 'e db option \<Rightarrow> (cdr_profile_cfg \<times> 'e db option) option" where
  "provision_filters profile dbp =
     (if 0 < pf_cdr_profile_id profile \<and> pf_filters profile \<noteq> No_filters then
        if dbp = None then None
        else do {
          (n, p) \<leftarrow> cdr_cfg_get_cdr_profile_filters (uint (pf_cdr_profile_id profile)) dbp;
          p \<leftarrow> (if n = 0 then do { (ret, q) \<leftarrow> cdr_cfg_insert_filters profile p; Some q } else Some p);
          Some (if db_type p = sql then profile\<lparr>pf_filters := Filters_freed\<rparr> else profile, p)
        }
      else Some (profile, dbp))"

definition cdr_cfg_profile_insert ::
  "(cdr_profile_cfg \<Rightarrow> string \<times> string) \<Rightarrow> cdr_profile_cfg \<Rightarrow> 'e db option \<Rightarrow> (cdr_profile_cfg \<times> 'e db option) option" where
  "cdr_cfg_profile_insert json profile dbp =
     (if pf_profile_name profile = [] then Some (profile, dbp)
      else do {
        let tx = (dbp \<noteq> None \<and> db_type dbp = sql);
        let p = (if tx then snd (db_query dbp ''BEGIN'' True) else dbp);
        (profile, p) \<leftarrow> provision_ids json profile p;
        p \<leftarrow> (if pf_t profile = T_db then do { (ret, q) \<leftarrow> cdr_cfg_insert_dbstorage profile p; Some q } else Some p);
        (profile, p) \<leftarrow> provision_filters profile p;
        Some (profile, if tx then snd (db_query p ''COMMIT'' True) else p)
      })"

end
