(* ===== verification/Mediator.thy ===== *)
theory Mediator
  imports CdrCfg
begin

text \<open>
  \<open>CDRMediator/cdr_mediator.c\<close>: the start of a profile, and the passes of its thread over the files
  of a directory or the rows of a remote database.
\<close>

section \<open>One pass\<close>

text \<open>The value of the pointer \<open>filters\<close>; of freed memory it is indeterminate.\<close>

definition filters_val :: "filters_ptr \<Rightarrow> filter list option option" where
  "filters_val q = (case q of No_filters \<Rightarrow> Some None | Filters fs \<Rightarrow> Some (Some fs) | Filters_freed \<Rightarrow> None)"

definition mcdr_filters_init :: "cdr_profile_cfg \<Rightarrow> 'e db option \<Rightarrow> (cdr_profile_cfg \<times> 'e db option) option" where
  "mcdr_filters_init profile dbp =
     (if pf_called_number_filtering profile = CHR ''t'' then
        if dbp = None then None
        else if db_type dbp = sql then do {
          (fs, p) \<leftarrow> prefix_filter_get (uint (pf_cdr_profile_id profile)) dbp;
          Some (profile\<lparr>pf_filters := (case fs of None \<Rightarrow> No_filters | Some l \<Rightarrow> Filters l)\<rparr>, p)
        } else Some (profile, dbp)
      else Some (profile, dbp))"

definition mcdr_file_reader ::
  "cdrm_env \<Rightarrow> bool \<Rightarrow> cdr_profile_cfg \<Rightarrow> files \<Rightarrow> 'e db option \<Rightarrow> (cdr_profile_cfg \<times> files \<times> 'e db option) option" where
  "mcdr_file_reader env opens profile fs dbp = do {
     f \<leftarrow> pf_profile_file_type profile;
     filters \<leftarrow> filters_val (pf_filters profile);
     (f', fs', p) \<leftarrow> cdr_file_reader env opens (f\<lparr>fp_filters := filters, fp_profile_name := pf_profile_name profile,
       fp_cdr_server_id := uint (pf_cdr_server_id profile), fp_cdr_rec_type_id := pf_t2 profile\<rparr>) fs dbp;
     Some (profile\<lparr>pf_profile_file_type := Some f'\<rparr>, fs', p)
   }"

definition mcdr_storage_reader ::
  "storage_env \<Rightarrow> cdr_profile_cfg \<Rightarrow> 'r db option \<Rightarrow> 'e db option \<Rightarrow> (cdr_profile_cfg \<times> 'r db option \<times> 'e db option) option" where
  "mcdr_storage_reader env profile rem dbp = do {
     s \<leftarrow> pf_profile_db_type profile;
     filters \<leftarrow> filters_val (pf_filters profile);
     (s', q, p) \<leftarrow> cdr_storage_reader env (s\<lparr>sp_filters := filters, sp_profile_name := pf_profile_name profile,
       sp_cdr_server_id := uint (pf_cdr_server_id profile), sp_cdr_rec_type_id := pf_t2 profile\<rparr>) rem dbp;
     Some (profile\<lparr>pf_profile_db_type := Some s'\<rparr>, q, p)
   }"

section \<open>The thread of a profile\<close>

text \<open>What a thread works on: the profile, the file system, the remote and the local database.\<close>

type_synonym ('r, 'e) mstate = "cdr_profile_cfg \<times> files \<times> 'r db option \<times> 'e db option"

definition mediator_pass ::
  "cdrm_env \<Rightarrow> storage_env \<Rightarrow> bool \<Rightarrow> ('r, 'e) mstate \<Rightarrow> ('r, 'e) mstate option" where
  "mediator_pass fenv senv opens = (\<lambda>(profile, fs, rem, dbp). case pf_t profile of
     T_file \<Rightarrow> do { (profile', fs', p) \<leftarrow> mcdr_file_reader fenv opens profile fs dbp; Some (profile', fs', rem, p) }
   | T_db \<Rightarrow> do { (profile', q, p) \<leftarrow> mcdr_storage_reader senv profile rem dbp; Some (profile', fs, q, p) })"

text \<open>The loop goes on while the profile is active; here the environments of the passes it makes
  before the process ends are given as a list. A profile that is not active makes the first only.\<close>

fun mediator_loop :: "(cdrm_env \<times> storage_env \<times> bool) list \<Rightarrow> ('r, 'e) mstate \<Rightarrow> ('r, 'e) mstate option" where
  "mediator_loop [] st = Some st"
| "mediator_loop ((fenv, senv, opens) # envs) st = do {
     st' \<leftarrow> mediator_pass fenv senv opens st;
     if pf_cdr_active_flag (fst st') = CHR ''t'' then mediator_loop envs st' else Some st'
   }"

definition CDRMediatorThread :: "(cdrm_env \<times> storage_env \<times> bool) list \<Rightarrow> ('r, 'e) mstate \<Rightarrow> ('r, 'e) mstate option" where
  "CDRMediatorThread envs = (\<lambda>(profile, fs, rem, dbp). do {
     (profile', p) \<leftarrow> mcdr_filters_init profile dbp;
     mediator_loop envs (profile', fs, rem, p)
   })"

section \<open>The start\<close>

text \<open>The loop of \<open>CDRMediatorEngine\<close>. \<open>lbind\<close> and \<open>rbind\<close> are \<open>db_engine_bind\<close> on a handle for the
  local database and for the remote one of a profile; an error ends the loop. The result lists the
  profiles whose thread is created, with their handles.\<close>

fun mediator_start ::
  "(cdr_profile_cfg \<Rightarrow> string \<times> string) \<Rightarrow> (cdr_profile_cfg \<Rightarrow> int \<times> 'e db option) \<Rightarrow> (cdr_storage_profile \<Rightarrow> int \<times> 'r db option) \<Rightarrow>
     cdr_profile_cfg list \<Rightarrow> (cdr_profile_cfg \<times> 'r db option \<times> 'e db option) list option" where
  "mediator_start json lbind rbind [] = Some []"
| "mediator_start json lbind rbind (profile # ps) = (let (ret, dbp) = lbind profile in
     if ret < 0 then Some []
     else let (ret, p) = db_connect dbp in
       if ret < 0 then Some []
       else do {
         (profile', p') \<leftarrow> cdr_cfg_profile_insert json profile p;
         (ret, rem) \<leftarrow> (if pf_t profile' = T_db then do { s \<leftarrow> pf_profile_db_type profile'; Some (rbind s) } else Some (0, None));
         if ret < 0 then Some []
         else do { rest \<leftarrow> mediator_start json lbind rbind ps; Some ((profile', rem, p') # rest) }
       })"

end
