(* ===== verification/Provision.thy ===== *)
theory Provision
  imports Mediator
begin

text \<open>
  The provisioning of a profile against a database that remembers what was inserted: whatever the
  number of starts, the profile, its server, its remote source and its filters are inserted once,
  and every start finds the same ids. What the readers get of the filters afterwards, and what a
  file that is not a profile does to the start.
\<close>

section \<open>One query against the recording engine\<close>

lemma rdb_select_count:
  assumes "is_select q" "0 \<le> fst (ans lg q)" "snd (ans lg q) = Some [[dec_int k]]" "int_range k"
  shows "select_count q (rdb ans lg r) = Some (k, rdb ans (lg @ [q]) None)"
  using assms
  by (simp add: select_count_def rdb_def db_select_def db_fetch_def db_on_def via_def recorder_api_def db_conn_init_def
      conn_rows_def db_free_result_def clear_conn_result_def one_int_def coli_def col_def Let_def split_beta)

declare rdb_tx [simp]

lemma db_type_rdb_sql [simp]: "db_type (rdb ans lg r) = sql"
  by (simp add: rdb_def db_type_def)

section \<open>A database that remembers\<close>

definition profile_row :: "cdr_profile_cfg \<Rightarrow> string" where
  "profile_row pr = profile_insert_str (escs (pf_profile_name pr)) (pf_profile_version pr)"

definition server_row :: "u16 \<Rightarrow> cdr_profile_cfg \<Rightarrow> string" where
  "server_row pid pr = server_insert_str (uint pid) (pf_t pr)"

definition storage_row :: "u16 \<Rightarrow> cdr_profile_cfg \<Rightarrow> string list" where
  "storage_row srv pr = (case (pf_t pr, pf_profile_db_type pr) of
     (T_db, Some s) \<Rightarrow> (case dbstorage_insert_str (uint srv) s of Some q \<Rightarrow> [q] | None \<Rightarrow> [])
   | _ \<Rightarrow> [])"

definition filter_rows :: "u16 \<Rightarrow> u16 \<Rightarrow> cdr_profile_cfg \<Rightarrow> string list" where
  "filter_rows pid srv pr = (case pf_filters pr of
     Filters fs \<Rightarrow> map (\<lambda>f. filter_insert_str (uint pid) (uint srv) (escs (fl_filtering_prefix f)) (escs (fl_replace_str f)) f)
       (takeWhile (\<lambda>f. fl_filtering_prefix f \<noteq> []) fs)
   | _ \<Rightarrow> [])"

text \<open>The ids a profile has once it is inserted, the count of the rows of a server and of a profile:
  zero exactly before the first one.\<close>

definition remembers_profile :: "answers \<Rightarrow> cdr_profile_cfg \<Rightarrow> u16 \<Rightarrow> u16 \<Rightarrow> bool" where
  "remembers_profile ans pr pid srv \<longleftrightarrow> (\<forall>lg q. 0 \<le> fst (ans lg q)) \<and> (\<forall>lg.
     snd (ans lg (profile_select_str (escs (pf_profile_name pr)))) =
       Some (if profile_row pr \<in> set lg then [[dec_int (uint pid)]] else []) \<and>
     snd (ans lg (server_select_str (uint pid))) = Some (if server_row pid pr \<in> set lg then [[dec_int (uint srv)]] else []) \<and>
     (\<exists>k. snd (ans lg (dbstorage_count_str (uint srv))) = Some [[dec_int k]] \<and> int_range k \<and>
        (k = 0 \<longleftrightarrow> set (storage_row srv pr) \<inter> set lg = {})) \<and>
     (\<exists>k. snd (ans lg (filters_count_str (uint pid))) = Some [[dec_int k]] \<and> int_range k \<and>
        (k = 0 \<longleftrightarrow> set (filter_rows pid srv pr) \<inter> set lg = {})))"

text \<open>A profile as the XML reader leaves it: a name that fits its array, the connection of its type,
  filters that fit.\<close>

definition profile_ok :: "cdr_profile_cfg \<Rightarrow> bool" where
  "profile_ok pr \<longleftrightarrow> pf_profile_name pr \<noteq> [] \<and> length (pf_profile_name pr) < PROF_NAME_LEN \<and>
     (pf_t pr = T_db \<longrightarrow> (\<exists>s. pf_profile_db_type pr = Some s \<and> length (sp_dbhost s) < 255 \<and> length (sp_dbname s) < 64 \<and>
        length (sp_dbuser s) < 64 \<and> length (sp_dbpass s) < 64 \<and> length (sp_cdr_table s) < 128)) \<and>
     (case pf_filters pr of No_filters \<Rightarrow> True | Filters_freed \<Rightarrow> False
      | Filters fs \<Rightarrow> \<forall>f \<in> set fs. length (fl_filtering_prefix f) < 32 \<and> length (fl_replace_str f) < 32)"

lemma u16_range: "int_range (uint (w :: u16))"
proof -
  have "0 \<le> uint w" "uint w < 65536" using uint_lt2p [of w] by simp_all
  then show ?thesis unfolding int_range_def by linarith
qed

lemma select_starts:
  "is_select (profile_select_str e)" "is_select (server_select_str i)" "is_select (dbstorage_count_str i)" "is_select (filters_count_str i)"
  by (simp_all add: profile_select_str_def server_select_str_def dbstorage_count_str_def filters_count_str_def verb_prefix)

lemma insert_starts:
  "strncasecmp0 (profile_insert_str e v) ''insert'' 6" "strncasecmp0 (server_insert_str i t) ''insert'' 6"
  "strncasecmp0 (filter_insert_str i j a b f) ''insert'' 6"
  "dbstorage_insert_str i s = Some q \<Longrightarrow> strncasecmp0 q ''insert'' 6"
  by (auto simp: profile_insert_str_def server_insert_str_def filter_insert_str_def dbstorage_insert_str_def verb_prefix
      strncpy_def Let_def split: Option.bind_splits)

text \<open>Which of its answers a database gives after a log.\<close>

lemma profile_found:
  assumes "remembers_profile ans pr pid srv" "profile_ok pr"
  shows "cdr_cfg_get_cdr_profile_id (pf_profile_name pr) (rdb ans lg r) =
    Some (if profile_row pr \<in> set lg then uint pid else 0, rdb ans (lg @ [profile_select_str (escs (pf_profile_name pr))]) None)"
proof -
  have "escaped (pf_profile_name pr) (2 * int PROF_NAME_LEN + 1) = Some (escs (pf_profile_name pr))"
    using escaped_fits [of "pf_profile_name pr" 65] assms(2) by (simp add: profile_ok_def)
  then show ?thesis using assms(1) select_starts(1) u16_range
    by (auto simp: cdr_cfg_get_cdr_profile_id_def remembers_profile_def one_int_def coli_def col_def)
qed

lemma server_found:
  assumes "remembers_profile ans pr pid srv"
  shows "cdr_cfg_get_cdr_server_id (uint pid) (rdb ans lg r) =
    Some (if server_row pid pr \<in> set lg then uint srv else 0, rdb ans (lg @ [server_select_str (uint pid)]) None)"
  using assms select_starts(2) u16_range
  by (auto simp: cdr_cfg_get_cdr_server_id_def remembers_profile_def one_int_def coli_def col_def)

lemma storage_counted:
  assumes "remembers_profile ans pr pid srv" "srv \<noteq> 0"
  obtains k where "cdr_cfg_get_cdr_dbstorage (uint srv) (rdb ans lg r) = Some (k, rdb ans (lg @ [dbstorage_count_str (uint srv)]) None)"
    "k = 0 \<longleftrightarrow> set (storage_row srv pr) \<inter> set lg = {}"
proof -
  have "0 < uint srv" using assms(2) by (simp add: word_neq_0_conv word_less_def)
  moreover obtain k where "snd (ans lg (dbstorage_count_str (uint srv))) = Some [[dec_int k]]" "int_range k"
    "k = 0 \<longleftrightarrow> set (storage_row srv pr) \<inter> set lg = {}" "0 \<le> fst (ans lg (dbstorage_count_str (uint srv)))"
    using assms(1) unfolding remembers_profile_def by meson
  ultimately show thesis using that rdb_select_count [OF select_starts(3)] by (simp add: cdr_cfg_get_cdr_dbstorage_def)
qed

lemma filters_counted:
  assumes "remembers_profile ans pr pid srv" "pid \<noteq> 0"
  obtains k where "cdr_cfg_get_cdr_profile_filters (uint pid) (rdb ans lg r) = Some (k, rdb ans (lg @ [filters_count_str (uint pid)]) None)"
    "k = 0 \<longleftrightarrow> set (filter_rows pid srv pr) \<inter> set lg = {}"
proof -
  have "0 < uint pid" using assms(2) by (simp add: word_neq_0_conv word_less_def)
  moreover obtain k where "snd (ans lg (filters_count_str (uint pid))) = Some [[dec_int k]]" "int_range k"
    "k = 0 \<longleftrightarrow> set (filter_rows pid srv pr) \<inter> set lg = {}" "0 \<le> fst (ans lg (filters_count_str (uint pid)))"
    using assms(1) unfolding remembers_profile_def by meson
  ultimately show thesis using that rdb_select_count [OF select_starts(4)] by (simp add: cdr_cfg_get_cdr_profile_filters_def)
qed

section \<open>The parts of a start\<close>

text \<open>The ids: what is sent when the profile is new, and when it is known with its server.\<close>

lemma ids_new:
  assumes "remembers_profile ans pr pid srv" "profile_ok pr" "pid \<noteq> 0" "profile_row pr \<notin> set lg" "server_row pid pr \<notin> set lg"
    "profile_row pr \<noteq> server_row pid pr" "profile_row pr \<noteq> profile_select_str (escs (pf_profile_name pr))"
    "server_row pid pr \<noteq> profile_select_str (escs (pf_profile_name pr))"
  shows "provision_ids json pr (rdb ans lg r) = Some (pr\<lparr>pf_cdr_profile_id := pid, pf_cdr_server_id := srv\<rparr>,
    rdb ans (lg @ [profile_select_str (escs (pf_profile_name pr)), profile_row pr, profile_select_str (escs (pf_profile_name pr)),
      server_row pid pr, server_select_str (uint pid)]) None)"
proof -
  have e: "escaped (pf_profile_name pr) (2 * int PROF_NAME_LEN + 1) = Some (escs (pf_profile_name pr))"
    using escaped_fits [of "pf_profile_name pr" 65] assms(2) by (simp add: profile_ok_def)
  have "strncasecmp0 (profile_row pr) ''insert'' 6" "strncasecmp0 (server_row pid pr) ''insert'' 6"
    by (simp_all add: profile_row_def server_row_def insert_starts)
  then show ?thesis
    using assms(3-8) e profile_found [OF assms(1,2)] server_found [OF assms(1)]
    by (simp add: provision_ids_def cdr_cfg_insert_profile_def cdr_cfg_insert_server_def Let_def
        flip: profile_row_def server_row_def)
qed

lemma ids_known:
  assumes "remembers_profile ans pr pid srv" "profile_ok pr" "pid \<noteq> 0" "srv \<noteq> 0"
    "profile_row pr \<in> set lg" "server_row pid pr \<in> set lg"
  shows "provision_ids json pr (rdb ans lg r) = Some (pr\<lparr>pf_cdr_profile_id := pid, pf_cdr_server_id := srv\<rparr>,
    rdb ans (lg @ [profile_select_str (escs (pf_profile_name pr)), server_select_str (uint pid)]) None)"
  using assms(3-6) profile_found [OF assms(1,2)] server_found [OF assms(1)]
  by (simp add: provision_ids_def Let_def)

definition count_of_storage :: "u16 \<Rightarrow> cdr_profile_cfg \<Rightarrow> string list" where
  "count_of_storage srv pr = (if pf_t pr = T_db then [dbstorage_count_str (uint srv)] else [])"

definition count_of_filters :: "u16 \<Rightarrow> cdr_profile_cfg \<Rightarrow> string list" where
  "count_of_filters pid pr = (if pf_filters pr = No_filters then [] else [filters_count_str (uint pid)])"

lemma storage_insert_whole:
  assumes "profile_ok pr" "pf_t pr = T_db"
  obtains s q where "pf_profile_db_type pr = Some s" "dbstorage_insert_str (uint srv) s = Some q" "storage_row srv pr = [q]"
proof -
  obtain s where s: "pf_profile_db_type pr = Some s" "length (sp_dbhost s) < 255" "length (sp_dbname s) < 64"
    "length (sp_dbuser s) < 64" "length (sp_dbpass s) < 64" "length (sp_cdr_table s) < 128"
    using assms by (auto simp: profile_ok_def)
  have "escaped (sp_dbhost s) 511 = Some (escs (sp_dbhost s))" "escaped (sp_dbname s) 129 = Some (escs (sp_dbname s))"
    "escaped (sp_dbuser s) 129 = Some (escs (sp_dbuser s))" "escaped (sp_dbpass s) 129 = Some (escs (sp_dbpass s))"
    "escaped (sp_cdr_table s) 257 = Some (escs (sp_cdr_table s))"
    using escaped_fits [of "sp_dbhost s" 511] escaped_fits [of "sp_dbname s" 129] escaped_fits [of "sp_dbuser s" 129]
      escaped_fits [of "sp_dbpass s" 129] escaped_fits [of "sp_cdr_table s" 257] s(2-) by simp_all
  then obtain q where "dbstorage_insert_str (uint srv) s = Some q" by (simp add: dbstorage_insert_str_def Let_def)
  then show thesis using that s(1) assms(2) by (simp add: storage_row_def)
qed

text \<open>\<open>seen\<close>: whether the rows are in the log already.\<close>

lemma storage_part:
  assumes "remembers_profile ans pr pid srv" "profile_ok pr" "srv \<noteq> 0" "pf_t pr = T_db"
    and "seen \<longleftrightarrow> set (storage_row srv pr) \<inter> set lg \<noteq> {}"
  shows "\<exists>ret r'. cdr_cfg_insert_dbstorage (pr\<lparr>pf_cdr_profile_id := pid, pf_cdr_server_id := srv\<rparr>) (rdb ans lg r) = Some (ret,
    rdb ans (lg @ count_of_storage srv pr @ (if seen then [] else storage_row srv pr)) r')"
proof -
  obtain s q where s: "pf_profile_db_type pr = Some s" "dbstorage_insert_str (uint srv) s = Some q" "storage_row srv pr = [q]"
    by (rule storage_insert_whole [OF assms(2,4)])
  obtain k where k: "cdr_cfg_get_cdr_dbstorage (uint srv) (rdb ans lg r) = Some (k, rdb ans (lg @ [dbstorage_count_str (uint srv)]) None)"
    "k = 0 \<longleftrightarrow> \<not> seen"
    using storage_counted [OF assms(1,3), of lg r] assms(5) by metis
  have "0 < uint srv" using assms(3) by (simp add: word_neq_0_conv word_less_def)
  then show ?thesis using s k assms(4) insert_starts(4) [OF s(2)]
    by (cases seen) (auto simp: cdr_cfg_insert_dbstorage_def Let_def count_of_storage_def)
qed

lemma insert_filters_log:
  assumes "\<forall>f \<in> set fs. length (fl_filtering_prefix f) < 32 \<and> length (fl_replace_str f) < 32" "\<forall>lg q. 0 \<le> fst (ans lg q)"
  shows "\<exists>r'. insert_filters i j fs (rdb ans lg r) = Some (0, rdb ans
    (lg @ map (\<lambda>f. filter_insert_str i j (escs (fl_filtering_prefix f)) (escs (fl_replace_str f)) f) (takeWhile (\<lambda>f. fl_filtering_prefix f \<noteq> []) fs)) r')"
  using assms(1)
proof (induction fs arbitrary: lg r)
  case (Cons f fs)
  have e: "escaped (fl_filtering_prefix f) 65 = Some (escs (fl_filtering_prefix f))" "escaped (fl_replace_str f) 65 = Some (escs (fl_replace_str f))"
    using escaped_fits [of "fl_filtering_prefix f" 65] escaped_fits [of "fl_replace_str f" 65] Cons.prems by simp_all
  let ?q = "filter_insert_str i j (escs (fl_filtering_prefix f)) (escs (fl_replace_str f)) f"
  obtain r' where "insert_filters i j fs (rdb ans (lg @ [?q]) (snd (ans lg ?q))) = Some (0, rdb ans ((lg @ [?q]) @
      map (\<lambda>f. filter_insert_str i j (escs (fl_filtering_prefix f)) (escs (fl_replace_str f)) f) (takeWhile (\<lambda>f. fl_filtering_prefix f \<noteq> []) fs)) r')"
    using Cons.IH Cons.prems by (meson list.set_intros(2))
  moreover have "\<not> fst (ans lg ?q) < 0" using assms(2) by (simp add: not_less)
  ultimately show ?case using e insert_starts(3) [of i j "escs (fl_filtering_prefix f)" "escs (fl_replace_str f)" f] by auto
next
  case Nil
  show ?case by (rule exI [of _ r]) simp
qed

lemma filters_part:
  assumes "remembers_profile ans pr pid srv" "profile_ok pr" "pid \<noteq> 0"
    and "seen \<longleftrightarrow> set (filter_rows pid srv pr) \<inter> set lg \<noteq> {}" "seen \<or> set (filter_rows pid srv pr) \<inter> set lg = {}"
  shows "\<exists>r'. provision_filters (pr\<lparr>pf_cdr_profile_id := pid, pf_cdr_server_id := srv\<rparr>) (rdb ans lg r) = Some (
    pr\<lparr>pf_cdr_profile_id := pid, pf_cdr_server_id := srv, pf_filters := (if pf_filters pr = No_filters then No_filters else Filters_freed)\<rparr>,
    rdb ans (lg @ count_of_filters pid pr @ (if seen then [] else filter_rows pid srv pr)) r')"
proof (cases "pf_filters pr = No_filters")
  case True
  then show ?thesis
    by (intro exI [of _ r]) (simp add: provision_filters_def count_of_filters_def filter_rows_def)
next
  case False
  then obtain fs where fs: "pf_filters pr = Filters fs" "\<forall>f \<in> set fs. length (fl_filtering_prefix f) < 32 \<and> length (fl_replace_str f) < 32"
    using assms(2) by (auto simp: profile_ok_def split: filters_ptr.splits)
  obtain k where k: "cdr_cfg_get_cdr_profile_filters (uint pid) (rdb ans lg r) = Some (k, rdb ans (lg @ [filters_count_str (uint pid)]) None)"
    "k = 0 \<longleftrightarrow> \<not> seen"
    using filters_counted [OF assms(1,3), of lg r] assms(4) by metis
  have n: "\<forall>lg q. 0 \<le> fst (ans lg q)" using assms(1) by (simp add: remembers_profile_def)
  obtain r' where "insert_filters (uint pid) (uint srv) fs (rdb ans (lg @ [filters_count_str (uint pid)]) None) =
      Some (0, rdb ans ((lg @ [filters_count_str (uint pid)]) @ filter_rows pid srv pr) r')"
    using insert_filters_log [OF fs(2) n, of "uint pid" "uint srv" "lg @ [filters_count_str (uint pid)]" None] fs(1)
    by (auto simp: filter_rows_def)
  then show ?thesis using k fs(1) assms(3)
    by (cases seen) (auto simp: provision_filters_def cdr_cfg_insert_filters_def count_of_filters_def word_neq_0_conv)
qed

section \<open>Provisioned once\<close>

text \<open>What a start sends: when the profile is new, and when it is known.\<close>

definition first_start :: "u16 \<Rightarrow> u16 \<Rightarrow> cdr_profile_cfg \<Rightarrow> string list" where
  "first_start pid srv pr = [''BEGIN'', profile_select_str (escs (pf_profile_name pr)), profile_row pr,
     profile_select_str (escs (pf_profile_name pr)), server_row pid pr, server_select_str (uint pid)] @
     count_of_storage srv pr @ storage_row srv pr @ count_of_filters pid pr @ filter_rows pid srv pr @ [''COMMIT'']"

definition later_start :: "u16 \<Rightarrow> u16 \<Rightarrow> cdr_profile_cfg \<Rightarrow> string list" where
  "later_start pid srv pr = [''BEGIN'', profile_select_str (escs (pf_profile_name pr)), server_select_str (uint pid)] @
     count_of_storage srv pr @ count_of_filters pid pr @ [''COMMIT'']"

text \<open>The profile after the start.\<close>

definition started :: "u16 \<Rightarrow> u16 \<Rightarrow> cdr_profile_cfg \<Rightarrow> cdr_profile_cfg" where
  "started pid srv pr = pr\<lparr>pf_cdr_profile_id := pid, pf_cdr_server_id := srv,
     pf_filters := (if pf_filters pr = No_filters then No_filters else Filters_freed)\<rparr>"

definition is_insert :: "string \<Rightarrow> bool" where
  "is_insert q \<longleftrightarrow> take 6 q = ''insert''"

lemma storage_insert_take: "dbstorage_insert_str i s = Some q \<Longrightarrow> take 17 q = ''insert into cdr_d''"
  by (auto simp: dbstorage_insert_str_def strncpy_def Let_def split: Option.bind_splits)

lemma statements_differ:
  "take 17 (profile_row pr) = ''insert into cdr_p''" "take 17 (server_row pid pr) = ''insert into cdr_s''"
  "q \<in> set (filter_rows pid srv pr) \<Longrightarrow> take 17 q = ''insert into prefi''"
  "take 17 (profile_select_str e) = ''select id from cd''" "take 17 (server_select_str i) = ''select id from cd''"
  "take 17 (dbstorage_count_str i) = ''select count(*) f''" "take 17 (filters_count_str i) = ''select count(*) f''"
  by (auto simp: profile_row_def profile_insert_str_def server_row_def server_insert_str_def
      filter_rows_def filter_insert_str_def profile_select_str_def server_select_str_def dbstorage_count_str_def
      filters_count_str_def split: filters_ptr.splits)

lemma storage_row_take: "q \<in> set (storage_row srv pr) \<Longrightarrow> take 17 q = ''insert into cdr_d''"
  by (cases "pf_t pr"; cases "pf_profile_db_type pr"; cases "dbstorage_insert_str (uint srv) (the (pf_profile_db_type pr))")
    (auto simp: storage_row_def storage_insert_take)

lemma is_insert_take: "take 17 q = w \<Longrightarrow> is_insert q \<longleftrightarrow> take 6 w = ''insert''"
  by (auto simp: is_insert_def)

lemma take_differ: "take 17 a \<noteq> take 17 b \<Longrightarrow> a \<noteq> b"
  by auto

lemma inserts_kind:
  "is_insert (profile_row pr)" "is_insert (server_row pid pr)" "q \<in> set (storage_row srv pr) \<Longrightarrow> is_insert q"
  "q \<in> set (filter_rows pid srv pr) \<Longrightarrow> is_insert q" "\<not> is_insert (profile_select_str e)" "\<not> is_insert (server_select_str i)"
  "\<not> is_insert (dbstorage_count_str i)" "\<not> is_insert (filters_count_str i)" "\<not> is_insert ''BEGIN''" "\<not> is_insert ''COMMIT''"
  by (simp_all add: is_insert_take [OF statements_differ(1)] is_insert_take [OF statements_differ(2)]
      is_insert_take [OF storage_row_take] is_insert_take [OF statements_differ(3)] is_insert_take [OF statements_differ(4)]
      is_insert_take [OF statements_differ(5)] is_insert_take [OF statements_differ(6)] is_insert_take [OF statements_differ(7)])
    (simp_all add: is_insert_def)

lemma start_inserts:
  "List.filter is_insert (first_start pid srv pr) = [profile_row pr, server_row pid pr] @ storage_row srv pr @ filter_rows pid srv pr"
  "List.filter is_insert (later_start pid srv pr) = []"
  by (simp_all add: first_start_def later_start_def count_of_storage_def count_of_filters_def inserts_kind filter_id_conv)

lemma rows_differ:
  "profile_row pr \<noteq> server_row pid pr" "profile_row pr \<noteq> profile_select_str e" "server_row pid pr \<noteq> profile_select_str e"
  "profile_row pr \<noteq> ''BEGIN''" "server_row pid pr \<noteq> ''BEGIN''"
  by (rule take_differ, simp add: statements_differ)+

lemma others_differ:
  assumes "q \<in> set (storage_row srv pr) \<or> q \<in> set (filter_rows pid srv pr)"
  shows "q \<noteq> profile_row pr" "q \<noteq> server_row pid pr" "q \<noteq> profile_select_str e" "q \<noteq> server_select_str i" "q \<noteq> ''BEGIN''"
    "q \<noteq> dbstorage_count_str i"
proof -
  have t: "take 17 q = ''insert into cdr_d'' \<or> take 17 q = ''insert into prefi''"
    using assms storage_row_take statements_differ(3) by blast
  show "q \<noteq> profile_row pr" using t statements_differ(1) [of pr] by auto
  show "q \<noteq> server_row pid pr" using t statements_differ(2) [of pid pr] by auto
  show "q \<noteq> profile_select_str e" using t statements_differ(4) [of e] by auto
  show "q \<noteq> server_select_str i" using t statements_differ(5) [of i] by auto
  show "q \<noteq> ''BEGIN''" using t by auto
  show "q \<noteq> dbstorage_count_str i" using t statements_differ(6) [of i] by auto
qed

text \<open>The rest of a start after the ids, from a log that has all rows of the profile or none.\<close>

lemma start_from:
  assumes "remembers_profile ans pr pid srv" "profile_ok pr" "pid \<noteq> 0" "srv \<noteq> 0"
    and ids: "\<And>r. \<exists>r'. provision_ids json pr (rdb ans (lg @ [''BEGIN'']) r) =
      Some (pr\<lparr>pf_cdr_profile_id := pid, pf_cdr_server_id := srv\<rparr>, rdb ans (lg @ [''BEGIN''] @ ls) r')"
    and st: "seen \<or> set (storage_row srv pr) \<inter> set (lg @ [''BEGIN''] @ ls) = {}"
      "seen \<Longrightarrow> set (storage_row srv pr) \<subseteq> set lg"
    and fl: "seen \<or> set (filter_rows pid srv pr) \<inter> set (lg @ [''BEGIN''] @ ls @ count_of_storage srv pr @ storage_row srv pr) = {}"
      "seen \<Longrightarrow> set (filter_rows pid srv pr) \<subseteq> set lg"
  shows "\<exists>r'. cdr_cfg_profile_insert json pr (rdb ans lg r) = Some (started pid srv pr, rdb ans (lg @ [''BEGIN''] @ ls @
    count_of_storage srv pr @ (if seen then [] else storage_row srv pr) @ count_of_filters pid pr @
    (if seen then [] else filter_rows pid srv pr) @ [''COMMIT'']) r')"
proof -
  let ?pr = "pr\<lparr>pf_cdr_profile_id := pid, pf_cdr_server_id := srv\<rparr>"
  let ?l1 = "lg @ [''BEGIN''] @ ls"
  let ?l2 = "?l1 @ count_of_storage srv pr @ (if seen then [] else storage_row srv pr)"
  let ?l3 = "?l2 @ count_of_filters pid pr @ (if seen then [] else filter_rows pid srv pr)"
  obtain r1 where 1: "provision_ids json pr (rdb ans (lg @ [''BEGIN'']) (snd (ans lg ''BEGIN''))) = Some (?pr, rdb ans ?l1 r1)"
    using ids by blast
  have "\<exists>r2. (if pf_t ?pr = T_db then do { (ret, q) \<leftarrow> cdr_cfg_insert_dbstorage ?pr (rdb ans ?l1 r1); Some q } else Some (rdb ans ?l1 r1)) =
      Some (rdb ans ?l2 r2)"
  proof (cases "pf_t pr = T_db")
    case True
    obtain x where x: "x \<in> set (storage_row srv pr)" using storage_insert_whole [OF assms(2) True] by (metis list.set_intros(1))
    have sn: "seen \<longleftrightarrow> set (storage_row srv pr) \<inter> set ?l1 \<noteq> {}"
    proof (cases seen)
      case True
      then have "x \<in> set ?l1" using st(2) x by (simp add: subset_eq)
      then show ?thesis using True x by (metis IntI empty_iff)
    qed (use st(1) in simp)
    obtain ret r2 where "cdr_cfg_insert_dbstorage ?pr (rdb ans ?l1 r1) =
        Some (ret, rdb ans (?l1 @ count_of_storage srv pr @ (if seen then [] else storage_row srv pr)) r2)"
      using storage_part [OF assms(1,2,4) True sn, of r1] by blast
    then have "(if pf_t ?pr = T_db then do { (ret, q) \<leftarrow> cdr_cfg_insert_dbstorage ?pr (rdb ans ?l1 r1); Some q } else Some (rdb ans ?l1 r1)) =
        Some (rdb ans ?l2 r2)" using True by simp
    then show ?thesis by (rule exI)
  next
    case False
    then show ?thesis by (auto simp: count_of_storage_def storage_row_def split: cdr_profile_type.splits)
  qed
  then obtain r2 where 2: "(if pf_t ?pr = T_db then do { (ret, q) \<leftarrow> cdr_cfg_insert_dbstorage ?pr (rdb ans ?l1 r1); Some q } else Some (rdb ans ?l1 r1)) =
      Some (rdb ans ?l2 r2)" by (elim exE)
  have fs: "set (filter_rows pid srv pr) \<inter> set ?l2 \<noteq> {} \<longleftrightarrow> seen \<and> filter_rows pid srv pr \<noteq> []"
  proof (cases seen)
    case True
    then have "set (filter_rows pid srv pr) \<subseteq> set ?l2" using fl(2) unfolding set_append by (intro le_supI1)
    then show ?thesis using True by (simp only: inf_absorb1 simp_thms set_empty)
  qed (use fl(1) in simp)
  obtain r3 where 3: "provision_filters ?pr (rdb ans ?l2 r2) = Some (started pid srv pr, rdb ans ?l3 r3)"
  proof -
    define b where "b \<longleftrightarrow> seen \<and> filter_rows pid srv pr \<noteq> []"
    have "b \<longleftrightarrow> set (filter_rows pid srv pr) \<inter> set ?l2 \<noteq> {}" using fs b_def by blast
    then obtain r3 where p: "provision_filters ?pr (rdb ans ?l2 r2) = Some (pr\<lparr>pf_cdr_profile_id := pid, pf_cdr_server_id := srv,
        pf_filters := (if pf_filters pr = No_filters then No_filters else Filters_freed)\<rparr>,
        rdb ans (?l2 @ count_of_filters pid pr @ (if b then [] else filter_rows pid srv pr)) r3)"
      using filters_part [OF assms(1-3), of b ?l2 r2] by blast
    have "(if b then [] else filter_rows pid srv pr) = (if seen then [] else filter_rows pid srv pr)"
      by (simp add: b_def)
    then show thesis using that [of r3] p by (simp only: started_def)
  qed
  have "pf_profile_name pr \<noteq> []" using assms(2) by (simp add: profile_ok_def)
  then have "cdr_cfg_profile_insert json pr (rdb ans lg r) = Some (started pid srv pr, rdb ans (?l3 @ [''COMMIT'']) (snd (ans ?l3 ''COMMIT'')))"
    unfolding cdr_cfg_profile_insert_def
    by (simp only: if_False if_True Let_def rdb_not_null simp_thms db_type_rdb_sql rdb_tx snd_conv 1 2 3 bind.bind_lunit prod.case)
  then show ?thesis unfolding append_assoc by (rule exI)
qed

lemma start_new:
  assumes "remembers_profile ans pr pid srv" "profile_ok pr" "pid \<noteq> 0" "srv \<noteq> 0"
  shows "\<exists>r'. cdr_cfg_profile_insert json pr (rdb ans [] r) = Some (started pid srv pr, rdb ans (first_start pid srv pr) r')"
proof -
  let ?ls = "[profile_select_str (escs (pf_profile_name pr)), profile_row pr, profile_select_str (escs (pf_profile_name pr)),
      server_row pid pr, server_select_str (uint pid)]"
  have ids: "\<exists>r'. provision_ids json pr (rdb ans ([] @ [''BEGIN'']) r) =
      Some (pr\<lparr>pf_cdr_profile_id := pid, pf_cdr_server_id := srv\<rparr>, rdb ans ([] @ [''BEGIN''] @ ?ls) r')" for r
    using ids_new [OF assms(1-3), of "[''BEGIN'']" json r] rows_differ by auto
  define L where "L = [] @ [''BEGIN''] @ ?ls"
  have "q \<notin> set L" if "q \<in> set (storage_row srv pr) \<or> q \<in> set (filter_rows pid srv pr)" for q
    using others_differ [OF that] by (simp add: L_def)
  then have st: "set (storage_row srv pr) \<inter> set L = {}" and fl: "set (filter_rows pid srv pr) \<inter> set L = {}" by blast+
  have "q \<notin> set (count_of_storage srv pr)" "q \<notin> set (storage_row srv pr)" if q: "q \<in> set (filter_rows pid srv pr)" for q
  proof -
    show "q \<notin> set (count_of_storage srv pr)" using others_differ(6) [OF disjI2 [OF q]] by (simp add: count_of_storage_def)
    have "take 17 q \<noteq> ''insert into cdr_d''" using statements_differ(3) [OF q] by simp
    then show "q \<notin> set (storage_row srv pr)" using storage_row_take by blast
  qed
  then have "set (filter_rows pid srv pr) \<inter> set (L @ count_of_storage srv pr @ storage_row srv pr) = {}"
    using fl unfolding set_append by blast
  then show ?thesis using start_from [OF assms ids, of False r] st by (simp add: L_def first_start_def)
qed

lemma start_known:
  assumes "remembers_profile ans pr pid srv" "profile_ok pr" "pid \<noteq> 0" "srv \<noteq> 0" "set (first_start pid srv pr) \<subseteq> set lg"
  shows "\<exists>r'. cdr_cfg_profile_insert json pr (rdb ans lg r) = Some (started pid srv pr, rdb ans (lg @ later_start pid srv pr) r')"
proof -
  let ?ls = "[profile_select_str (escs (pf_profile_name pr)), server_select_str (uint pid)]"
  have ids: "\<exists>r'. provision_ids json pr (rdb ans (lg @ [''BEGIN'']) r) =
      Some (pr\<lparr>pf_cdr_profile_id := pid, pf_cdr_server_id := srv\<rparr>, rdb ans (lg @ [''BEGIN''] @ ?ls) r')" for r
    using ids_known [OF assms(1-4), of "lg @ [''BEGIN'']" json r] assms(5) by (auto simp: first_start_def)
  show ?thesis using start_from [OF assms(1-4) ids, of True r] assms(5) by (auto simp: first_start_def later_start_def)
qed

lemma concat_replicate_Suc: "concat (replicate (Suc n) xs) = concat (replicate n xs) @ xs"
  by (induction n) auto

text \<open>The starts of the program, each with the profile as the files give it.\<close>

fun starts :: "(cdr_profile_cfg \<Rightarrow> string \<times> string) \<Rightarrow> cdr_profile_cfg \<Rightarrow> nat \<Rightarrow> 'e db option \<Rightarrow> (cdr_profile_cfg \<times> 'e db option) option" where
  "starts json pr 0 dbp = Some (pr, dbp)"
| "starts json pr (Suc n) dbp = do { (pr', p) \<leftarrow> starts json pr n dbp; cdr_cfg_profile_insert json pr p }"

lemma provision_runs:
  assumes "remembers_profile ans pr pid srv" "profile_ok pr" "pid \<noteq> 0" "srv \<noteq> 0"
  shows "\<exists>lg r'. starts json pr (Suc n) (rdb ans [] r) = Some (started pid srv pr, rdb ans lg r') \<and>
    lg = first_start pid srv pr @ concat (replicate n (later_start pid srv pr)) \<and>
    List.filter is_insert lg = [profile_row pr, server_row pid pr] @ storage_row srv pr @ filter_rows pid srv pr"
proof (induction n)
  case 0
  then show ?case using start_new [OF assms, of json r] by (auto simp: start_inserts)
next
  case (Suc n)
  let ?lg = "first_start pid srv pr @ concat (replicate n (later_start pid srv pr))"
  obtain r1 where 1: "starts json pr (Suc n) (rdb ans [] r) = Some (started pid srv pr, rdb ans ?lg r1)"
    "List.filter is_insert ?lg = [profile_row pr, server_row pid pr] @ storage_row srv pr @ filter_rows pid srv pr"
    using Suc by blast
  obtain r2 where 2: "cdr_cfg_profile_insert json pr (rdb ans ?lg r1) = Some (started pid srv pr, rdb ans (?lg @ later_start pid srv pr) r2)"
    using start_known [OF assms, of ?lg json r1] by auto
  have "starts json pr (Suc (Suc n)) (rdb ans [] r) = Some (started pid srv pr, rdb ans (?lg @ later_start pid srv pr) r2)"
    by (subst starts.simps(2)) (simp only: 1(1) bind.bind_lunit prod.case 2)
  then show ?case using 1(2) by (simp only: concat_replicate_Suc) (auto simp: start_inserts)
qed

text \<open>Property C19. On a database that answers by what was inserted, a profile is provisioned once: after
  any number of starts of the program the statements that insert are exactly one for the profile, one
  for its server, one for the remote source of a profile of the type \<open>db\<close> and one for each filter, in
  this order, and every start gives the profile the same two ids. The rest of the statements are the
  queries of \<open>first_start\<close> and \<open>later_start\<close>, each start between \<open>BEGIN\<close> and \<open>COMMIT\<close>.\<close>

theorem provisioned_once:
  assumes "remembers_profile ans pr pid srv" "profile_ok pr" "pid \<noteq> 0" "srv \<noteq> 0"
  shows "\<exists>lg r'. starts json pr (Suc n) (rdb ans [] r) = Some (started pid srv pr, rdb ans lg r') \<and>
    lg = first_start pid srv pr @ concat (replicate n (later_start pid srv pr)) \<and>
    List.filter is_insert lg = [profile_row pr, server_row pid pr] @ storage_row srv pr @ filter_rows pid srv pr"
  by (rule provision_runs [OF assms])

section \<open>The filters after the start\<close>

text \<open>Property C24. \<open>cdr_cfg_profile_insert\<close> frees the filters read from the file and leaves the pointer. A
  profile that has filters in its file, but does not ask for the filtering of called numbers, goes into its
  first pass with that pointer; with the filtering the thread reads them from the database before.\<close>

theorem freed_filters_used:
  assumes "remembers_profile ans pr pid srv" "profile_ok pr" "pid \<noteq> 0" "srv \<noteq> 0" "pf_filters pr \<noteq> No_filters"
    and "starts json pr (Suc n) (rdb ans [] r) = Some (pr', p)"
  shows "(pf_called_number_filtering pr \<noteq> CHR ''t'' \<longrightarrow> CDRMediatorThread (env # envs) (pr', fs, rem, p) = None) \<and>
    (pf_called_number_filtering pr = CHR ''t'' \<longrightarrow>
      (\<forall>pr'' q. mcdr_filters_init pr' p = Some (pr'', q) \<longrightarrow> filters_val (pf_filters pr'') \<noteq> None))"
proof -
  obtain lg r' where p: "pr' = started pid srv pr" "p = rdb ans lg r'"
    using provision_runs [OF assms(1-4), of json n r] assms(6) by auto
  then have f: "pf_filters pr' = Filters_freed" "pf_called_number_filtering pr' = pf_called_number_filtering pr"
    using assms(5) by (simp_all add: started_def)
  have "CDRMediatorThread (env # envs) (pr', fs, rem, p) = None" if "pf_called_number_filtering pr \<noteq> CHR ''t''"
    using f that by (cases env) (auto simp: CDRMediatorThread_def mcdr_filters_init_def mediator_pass_def mcdr_file_reader_def
        mcdr_storage_reader_def filters_val_def split: cdr_profile_type.splits option.splits)
  moreover have "filters_val (pf_filters pr'') \<noteq> None"
    if "pf_called_number_filtering pr = CHR ''t''" "mcdr_filters_init pr' p = Some (pr'', q)" for pr'' q
    using f p(2) that by (auto simp: mcdr_filters_init_def filters_val_def split: Option.bind_splits option.splits)
  ultimately show ?thesis by blast
qed

section \<open>A file that is not a profile\<close>

lemma read_profiles_nth:
  "read_profiles exists read ns = Some ps \<Longrightarrow> length ps = length ns \<and> (\<forall>i < length ns.
     xml_cfg_root (xml_cfg_doc exists read (ns ! i)) = None \<longrightarrow> ps ! i = cdr_profile_cfg_init\<lparr>pf_filename := ns ! i\<rparr>)"
proof (induction ns arbitrary: ps)
  case (Cons n ns)
  then obtain c cs where 1: "ps = c # cs" "read_profiles exists read ns = Some cs"
    "xml_cfg_root (xml_cfg_doc exists read n) = None \<longrightarrow> c = cdr_profile_cfg_init\<lparr>pf_filename := n\<rparr>"
    by (auto split: Option.bind_splits option.splits)
  then show ?case using Cons.IH [OF 1(2)] by (auto simp: nth_Cons split: nat.splits)
qed simp

lemma start_list:
  assumes "mediator_start json lbind rbind ps = Some st" "length st = length ps" "mediator_start json lbind rbind qs = None"
  shows "mediator_start json lbind rbind (ps @ qs) = None"
  using assms(1,2)
proof (induction ps arbitrary: st)
  case (Cons p ps)
  then show ?case
    by (auto simp: Let_def split: prod.splits if_splits Option.bind_splits)
qed (simp add: assms(3))

text \<open>Property C23. A file of the directory of profiles that is not well-formed XML gives a profile without a
  name, of the type \<open>db\<close> and with no remote source. \<open>cdr_cfg_profile_insert\<close> skips it, as its comment says,
  but \<open>CDRMediatorEngine\<close> then goes through the null pointer to the source: the program stops there, and no
  profile is served.\<close>

theorem unparsed_file_stops_start:
  assumes "cdr_cfg_main exists read dirs fname = Some (Some cfg)" "i < length (cf_profiles cfg)" "cf_list cfg = Some ns"
    and "xml_cfg_root (xml_cfg_doc exists read (ns ! i)) = None"
    and "mediator_start json lbind rbind (take i (cf_profiles cfg)) = Some st" "length st = i"
    and "lbind (cf_profiles cfg ! i) = (b, dbp)" "0 \<le> b" "0 \<le> fst (db_connect dbp)"
  shows "mediator_start json lbind rbind (cf_profiles cfg) = None"
proof -
  have "read_profiles exists read (take (unat (word_of_nat (length ns) :: u16)) ns) = Some (cf_profiles cfg)"
    using assms(1-3) by (auto simp: cdr_cfg_main_def cdr_cfg_init_def Let_def split: option.splits Option.bind_splits if_splits)
  from read_profiles_nth [OF this] have "cf_profiles cfg ! i = cdr_profile_cfg_init\<lparr>pf_filename := ns ! i\<rparr>"
    using assms(2,4) by auto
  then have "mediator_start json lbind rbind (cf_profiles cfg ! i # drop (Suc i) (cf_profiles cfg)) = None"
    using assms(7-9) by (cases "db_connect dbp") (simp add: Let_def cdr_profile_cfg_init_def cdr_cfg_profile_insert_def)
  then have "mediator_start json lbind rbind (drop i (cf_profiles cfg)) = None"
    using assms(2) by (simp add: Cons_nth_drop_Suc)
  moreover have "length st = length (take i (cf_profiles cfg))" using assms(2,6) by simp
  ultimately show ?thesis using start_list [OF assms(5), of "drop i (cf_profiles cfg)"] by (simp only: append_take_drop_id)
qed

section \<open>Witnesses\<close>

text \<open>A database that remembers.\<close>

definition honest :: "cdr_profile_cfg \<Rightarrow> u16 \<Rightarrow> u16 \<Rightarrow> answers" where
  "honest pr pid srv lg q = (0,
     if q = profile_select_str (escs (pf_profile_name pr)) then Some (if profile_row pr \<in> set lg then [[dec_int (uint pid)]] else [])
     else if q = server_select_str (uint pid) then Some (if server_row pid pr \<in> set lg then [[dec_int (uint srv)]] else [])
     else if q = dbstorage_count_str (uint srv) then Some [[dec_int (if set (storage_row srv pr) \<inter> set lg = {} then 0 else 1)]]
     else if q = filters_count_str (uint pid) then Some [[dec_int (if set (filter_rows pid srv pr) \<inter> set lg = {} then 0 else 1)]]
     else None)"

lemma selects_differ:
  "server_select_str i \<noteq> profile_select_str e" "dbstorage_count_str i \<noteq> profile_select_str e" "dbstorage_count_str i \<noteq> server_select_str j"
  "filters_count_str i \<noteq> profile_select_str e" "filters_count_str i \<noteq> server_select_str j" "filters_count_str i \<noteq> dbstorage_count_str j"
  by (simp_all add: profile_select_str_def server_select_str_def dbstorage_count_str_def filters_count_str_def)

lemma honest_remembers: "remembers_profile (honest pr pid srv) pr pid srv"
proof -
  have "\<exists>k. snd (honest pr pid srv lg (dbstorage_count_str (uint srv))) = Some [[dec_int k]] \<and> int_range k \<and>
      (k = 0 \<longleftrightarrow> set (storage_row srv pr) \<inter> set lg = {})" for lg
    by (rule exI [of _ "if set (storage_row srv pr) \<inter> set lg = {} then 0 else 1"]) (simp add: honest_def selects_differ int_range_def)
  moreover have "\<exists>k. snd (honest pr pid srv lg (filters_count_str (uint pid))) = Some [[dec_int k]] \<and> int_range k \<and>
      (k = 0 \<longleftrightarrow> set (filter_rows pid srv pr) \<inter> set lg = {})" for lg
    by (rule exI [of _ "if set (filter_rows pid srv pr) \<inter> set lg = {} then 0 else 1"]) (simp add: honest_def selects_differ int_range_def)
  moreover have "0 \<le> fst (honest pr pid srv lg q)" for lg q by (simp add: honest_def)
  moreover have "snd (honest pr pid srv lg (profile_select_str (escs (pf_profile_name pr)))) =
      Some (if profile_row pr \<in> set lg then [[dec_int (uint pid)]] else [])"
    "snd (honest pr pid srv lg (server_select_str (uint pid))) = Some (if server_row pid pr \<in> set lg then [[dec_int (uint srv)]] else [])" for lg
    by (simp_all add: honest_def selects_differ)
  ultimately show ?thesis unfolding remembers_profile_def by blast
qed

text \<open>A profile of a remote database with a filter.\<close>

definition demo_pf :: cdr_profile_cfg where
  "demo_pf = cdr_profile_cfg_init\<lparr>pf_profile_name := ''switch'', pf_profile_version := 2,
     pf_profile_db_type := Some (cdr_storage_profile_init\<lparr>sp_dbhost := ''10.0.0.7'', sp_dbname := ''cdr''\<rparr>),
     pf_filters := Filters [\<lparr>fl_id = 1, fl_filtering_prefix = ''00'', fl_filtering_number = 2, fl_replace_str = [], fl_cdr_server_id = 0, fl_len = 0\<rparr>]\<rparr>"

lemma demo_pf_ok: "profile_ok demo_pf"
  by (simp add: profile_ok_def demo_pf_def cdr_profile_cfg_init_def cdr_storage_profile_init_def)

theorem provisioned_once_witness:
  "\<exists>lg r'. starts (\<lambda>_. ([], [])) demo_pf 3 (rdb (honest demo_pf 4 9) [] None) = Some (started 4 9 demo_pf, rdb (honest demo_pf 4 9) lg r') \<and>
     List.filter is_insert lg = [profile_row demo_pf, server_row 4 demo_pf] @ storage_row 9 demo_pf @ filter_rows 4 9 demo_pf \<and>
     length (filter_rows 4 9 demo_pf) = 1"
proof -
  have "length (filter_rows 4 9 demo_pf) = 1" by (simp add: filter_rows_def demo_pf_def)
  then show ?thesis
    using provisioned_once [OF honest_remembers [of demo_pf 4 9] demo_pf_ok, of "\<lambda>_. ([], [])" 2 None]
    by (simp only: numeral_3_eq_3 numeral_2_eq_2) auto
qed

theorem freed_filters_used_witness:
  "\<exists>pr' p. starts (\<lambda>_. ([], [])) demo_pf 1 (rdb (honest demo_pf 4 9) [] None) = Some (pr', p) \<and>
     (\<forall>env fs rem. CDRMediatorThread [env] (pr', fs, rem, p) = None)"
proof -
  obtain lg r' where s: "starts (\<lambda>_. ([], [])) demo_pf (Suc 0) (rdb (honest demo_pf 4 9) [] None) =
      Some (started 4 9 demo_pf, rdb (honest demo_pf 4 9) lg r')"
    using provision_runs [OF honest_remembers [of demo_pf 4 9] demo_pf_ok, of "\<lambda>_. ([], [])" 0 None] by auto
  have "pf_filters demo_pf \<noteq> No_filters" "pf_called_number_filtering demo_pf \<noteq> CHR ''t''"
    by (simp_all add: demo_pf_def cdr_profile_cfg_init_def)
  then show ?thesis
    using freed_filters_used [OF honest_remembers demo_pf_ok _ _ _ s, of _ "[]"] s by auto
qed

text \<open>A directory with a profile of files and a file that is not XML.\<close>

definition demo_files :: xml_files where
  "demo_files n = (if n = ''re7.xml'' then Some (Some (Xml True ''RateEngine'' []
       [Xml True ''CDRMediator'' [] [param_el ''CDRProfilesDIR'' ''profiles/'']]))
     else if n = ''profiles/a.xml'' then Some (Some (Xml True ''profile'' []
       [Xml True ''General'' [] [param_el ''profile-name'' ''a'', param_el ''cdr-type'' ''file''],
        Xml True ''CDRFormat'' [] [param_el ''call_uid'' ''1'']]))
     else None)"

definition demo_dbp :: "unit db option" where
  "demo_dbp = Some \<lparr>db_t = sql, db_sql = Some (sql_api0\<lparr>sa_connect := Some (\<lambda>c. (0, c))\<rparr>), db_nosql = None,
     db_conn = Some (db_conn_init [] [] [] 0 [] [] 0)\<rparr>"

lemma demo_general:
  "general_param \<lparr>xp_name = ''profile-name'', xp_value = ''a''\<rparr> c = Some (c\<lparr>pf_profile_name := ''a''\<rparr>)" if "pf_profile_db_type c = None" "pf_t c = T_db"
  using that by (simp add: general_param_def on_str_def on_int_def on_val_def fits_def)

lemma demo_type:
  "general_param \<lparr>xp_name = ''cdr-type'', xp_value = ''file''\<rparr> c = Some (c\<lparr>pf_t := T_file, pf_profile_file_type := Some cdr_file_profile_init\<rparr>)"
  by (simp add: general_param_def on_str_def on_int_def on_val_def fits_def file_param_def)

lemma demo_cols: "put_hdrs [\<lparr>xp_name = ''call_uid'', xp_value = ''1''\<rparr>] = Some [\<lparr>fh_hdr_id = 1, fh_hdr_name = ''1'', fh_func = Some cdr_add_call_uid\<rparr>]"
proof -
  have "atoi ''1'' = Some 1" by code_simp
  moreover have "tbl_find ''call_uid'' = Some (Some cdr_add_call_uid)" by (simp add: tbl_find_def cdr_tbl_def)
  ultimately show ?thesis by (simp add: fits_def)
qed

lemma demo_files_main: "demo_files ''re7.xml'' = Some (Some (Xml True ''RateEngine'' []
    [Xml True ''CDRMediator'' [] [param_el ''CDRProfilesDIR'' ''profiles/'']]))"
  by (simp add: demo_files_def)

lemma demo_files_bak: "demo_files ''profiles/a.xml.bak'' = None"
  by (simp add: demo_files_def)

lemma demo_profile_read:
  "\<exists>c. cdr_profile_cfg_get (the (xml_cfg_root (demo_files ''profiles/a.xml''))) (cdr_profile_cfg_init\<lparr>pf_filename := ''profiles/a.xml''\<rparr>) = Some c \<and>
     pf_profile_name c = ''a'' \<and> xml_cfg_root (demo_files ''profiles/a.xml'') \<noteq> None"
proof -
  let ?c = "cdr_profile_cfg_init\<lparr>pf_filename := ''profiles/a.xml''\<rparr>"
  have c: "pf_profile_db_type ?c = None" "pf_t ?c = T_db" by (simp_all add: cdr_profile_cfg_init_def)
  show ?thesis
    by (simp add: demo_files_def xml_cfg_root_def cdr_profile_cfg_get_def read_section_def xml_cfg_params_get_def prop_of_def
        fits_def put_params_def params_list_def demo_general [OF c] demo_type xml_node0_def xml_cfg_params_free_def
        cdr_cfg_file_profile_xml_def cdr_profile_params_num_def demo_cols cdr_cfg_profile_filters_xml_def del: put_hdrs.simps)
qed

theorem unparsed_file_stops_start_witness:
  "\<exists>cfg. cdr_cfg_main (\<lambda>_. True) demo_files (\<lambda>_. Some [''.'', ''..'', ''a.xml.bak'', ''a.xml'']) ''re7.xml'' = Some (Some cfg) \<and>
     map pf_profile_name (cf_profiles cfg) = [[], ''a''] \<and>
     mediator_start (\<lambda>_. ([], [])) (\<lambda>_. (0, demo_dbp)) (\<lambda>_. (0, demo_dbp)) (cf_profiles cfg) = None"
proof -
  obtain el where a: "demo_files ''profiles/a.xml'' = Some (Some el)" by (simp add: demo_files_def)
  then obtain ca where e: "cdr_profile_cfg_get el (cdr_profile_cfg_init\<lparr>pf_filename := ''profiles/a.xml''\<rparr>) = Some ca" "pf_profile_name ca = ''a''"
    using demo_profile_read by (auto simp: xml_cfg_root_def)
  have "\<exists>cfg. cdr_cfg_main (\<lambda>_. True) demo_files (\<lambda>_. Some [''.'', ''..'', ''a.xml.bak'', ''a.xml'']) ''re7.xml'' = Some (Some cfg) \<and>
      map pf_profile_name (cf_profiles cfg) = [[], ''a''] \<and> cf_list cfg = Some [''profiles/a.xml.bak'', ''profiles/a.xml'']"
    using e
    by (simp add: cdr_cfg_main_def xml_cfg_doc_def demo_files_main cdr_cfg_get_def read_section_def
        xml_cfg_params_get_def prop_of_def fits_def put_params_def params_list_def on_str_def cdr_cfg_init_def
        cdr_profiles_list_get_def strncpy_def demo_files_bak xml_cfg_root_def a cdr_profile_cfg_init_def)
  then obtain cfg where c: "cdr_cfg_main (\<lambda>_. True) demo_files (\<lambda>_. Some [''.'', ''..'', ''a.xml.bak'', ''a.xml'']) ''re7.xml'' = Some (Some cfg)"
    "map pf_profile_name (cf_profiles cfg) = [[], ''a'']" "cf_list cfg = Some [''profiles/a.xml.bak'', ''profiles/a.xml'']"
    by (elim exE conjE)
  have l: "0 < length (cf_profiles cfg)" using c(2) by (cases "cf_profiles cfg") auto
  have d: "0 \<le> fst (db_connect demo_dbp)"
    by (simp add: demo_dbp_def db_connect_def db_on_def via_def sql_api0_def)
  have "mediator_start (\<lambda>_. ([], [])) (\<lambda>_. (0, demo_dbp)) (\<lambda>_. (0, demo_dbp)) (cf_profiles cfg) = None"
    by (rule unparsed_file_stops_start [OF c(1) l c(3), where st = "[]" and b = 0 and dbp = demo_dbp])
      (simp_all add: demo_files_def xml_cfg_root_def xml_cfg_doc_def d)
  then show ?thesis using c(1,2) by (intro exI [of _ cfg] conjI)
qed

end
