(* ===== verification/DuckSql.thy ===== *)
theory DuckSql
  imports Pricing Rating RateSearch
begin

text \<open>
  What the SQL of \<open>RatingDuckDB/rt_duckdb.c\<close> computes: the window of calls, the account, the rate, the
  time condition and the card of a call, the free seconds, the walk over the steps of a tariff, and
  the rows of \<open>rated_batch\<close>; then the sums that go to the balances. Each common table expression is
  a function on lists of rows. The rows of a table stand in the order in which the engine reads
  them, which nothing fixes: what a statement leaves open when rows tie is decided by that order.

  The functions of DuckDB on dates and numbers in text are arguments; a date is a day number. Columns
  that the schema declares \<open>NOT NULL\<close> or with a default are taken to hold a value.
\<close>

section \<open>Tables\<close>

record duck_fns =
  df_fp :: fpenv
  df_to_date :: "string \<Rightarrow> int option"
  df_to_int :: "string \<Rightarrow> int option"
  df_day :: "int \<Rightarrow> int"
  df_month :: "int \<Rightarrow> int"
  df_prev_month :: "int \<Rightarrow> int"
  df_add_month :: "int \<Rightarrow> int"
  df_isodow :: "int \<Rightarrow> int"

text \<open>A row of \<open>batch_window\<close>; \<open>start_ts\<close> is kept as its text, its date and the text of its time.\<close>

record win_row =
  wr_id :: int
  wr_calling_number :: "string option"
  wr_called_number :: string
  wr_billsec :: int
  wr_billusec :: int
  wr_start_ts :: string
  wr_date :: int
  wr_time :: string
  wr_cdr_server_id :: int
  wr_cdr_rec_type_id :: int
  wr_account_code :: "string option"
  wr_src_context :: "string option"
  wr_dst_context :: "string option"
  wr_src_tgroup :: "string option"
  wr_dst_tgroup :: "string option"
  wr_clg_nadi :: int
  wr_cld_nadi :: int

record cdrs_row =
  cr_leg_a :: int
  cr_leg_b :: int
  cr_row :: win_row

record lookup_row =
  lk_id :: int
  lk_key :: string
  lk_billing_account_id :: int

record deff_row =
  de_ref :: int
  de_bill_plan_id :: int
  de_sm_bill_plan_id :: int
  de_clg_nadi :: int
  de_cld_nadi :: int

record bacc_row =
  br_cdr_server_id :: int
  br_billing_day :: "string option"
  br_round_mode_id :: int

record rate_entry =
  rr_id :: int
  rr_bill_plan_id :: int
  rr_tariff_id :: int
  rr_prefix_id :: int

record tcond_row =
  tr_tariff_id :: int
  tr_time_condition_id :: int
  tr_prior :: int

record tcdeff_row =
  td_hours :: "string option"
  td_days_week :: "string option"
  td_tc_date :: "string option"

record card_line =
  cl_id :: int
  cl_billing_account_id :: int
  cl_pcard_status_id :: int
  cl_pcard_type_id :: int
  cl_start_date :: "string option"
  cl_end_date :: "string option"

record rated_line =
  rl_billing_account_id :: int
  rl_free_billsec_id :: int
  rl_call_price :: rat
  rl_call_billsec :: int
  rl_call_date :: int

text \<open>Tables with a primary key that is joined on are lists of pairs of the key and the row.\<close>

record dims =
  dm_lookup :: "string \<Rightarrow> lookup_row list"
  dm_deff :: "string \<Rightarrow> deff_row list"
  dm_bacc :: "(int \<times> bacc_row) list"
  dm_bill_plan :: "int list"
  dm_tree :: "(int \<times> int) list"
  dm_rate :: "rate_entry list"
  dm_prefix :: "(int \<times> string) list"
  dm_tariff :: "(int \<times> int) list"
  dm_calc :: "(int \<times> calc_function) list"
  dm_tc :: "tcond_row list"
  dm_tcdeff :: "(int \<times> tcdeff_row) list"
  dm_free_billsec :: "(int \<times> int) list"
  dm_pcard :: "card_line list"
  dm_rating :: "rated_line list"

text \<open>The first row of an order, \<open>ROW_NUMBER() ... = 1\<close> or \<open>LIMIT 1\<close>: no other row comes before it.\<close>

fun best_by :: "('a \<Rightarrow> 'a \<Rightarrow> bool) \<Rightarrow> 'a list \<Rightarrow> 'a option" where
  "best_by before [] = None"
| "best_by before (x # xs) = (case best_by before xs of None \<Rightarrow> Some x | Some y \<Rightarrow> Some (if before y x then y else x))"

section \<open>The window and the account\<close>

definition leg_of :: "char \<Rightarrow> cdrs_row \<Rightarrow> int" where
  "leg_of leg r = (if leg = CHR ''a'' then cr_leg_a r else cr_leg_b r)"

definition batch_window :: "cdrs_row list \<Rightarrow> char \<Rightarrow> nat \<Rightarrow> win_row list" where
  "batch_window cdrs leg limit = take limit (sort_key wr_id (map cr_row (List.filter (\<lambda>r. leg_of leg r = 0) cdrs)))"

record acct_mode =
  am_leg :: char
  am_rec_type :: int
  am_prio :: int
  am_mode_id :: int
  am_tbl :: string
  am_bpcol :: string
  am_nadi :: int

definition mode_entry :: "char \<Rightarrow> int \<Rightarrow> int \<Rightarrow> int \<Rightarrow> string \<Rightarrow> string \<Rightarrow> int \<Rightarrow> acct_mode" where
  "mode_entry l t p i tbl bp n = \<lparr>am_leg = l, am_rec_type = t, am_prio = p, am_mode_id = i, am_tbl = tbl, am_bpcol = bp, am_nadi = n\<rparr>"

definition rt_acct_modes :: "acct_mode list" where
  "rt_acct_modes = [
     mode_entry (CHR ''a'') 0 1 1 ''calling_number'' ''bill_plan_id'' 0,
     mode_entry (CHR ''a'') 0 2 2 ''account_code'' ''bill_plan_id'' 0,
     mode_entry (CHR ''a'') 0 3 3 ''src_context'' ''bill_plan_id'' 0,
     mode_entry (CHR ''a'') 0 4 5 ''src_tgroup'' ''bill_plan_id'' 1,
     mode_entry (CHR ''a'') 1 1 5 ''src_tgroup'' ''bill_plan_id'' 1,
     mode_entry (CHR ''a'') 2 1 7 ''calling_number'' ''sm_bill_plan_id'' 0,
     mode_entry (CHR ''a'') 3 1 1 ''calling_number'' ''bill_plan_id'' 0,
     mode_entry (CHR ''a'') 3 2 2 ''account_code'' ''bill_plan_id'' 0,
     mode_entry (CHR ''a'') 5 1 2 ''account_code'' ''bill_plan_id'' 0,
     mode_entry (CHR ''a'') 5 2 3 ''src_context'' ''bill_plan_id'' 0,
     mode_entry (CHR ''b'') 0 1 4 ''dst_context'' ''bill_plan_id'' 0,
     mode_entry (CHR ''b'') 0 2 6 ''dst_tgroup'' ''bill_plan_id'' 1,
     mode_entry (CHR ''b'') 1 1 6 ''dst_tgroup'' ''bill_plan_id'' 1,
     mode_entry (CHR ''b'') 2 1 7 ''calling_number'' ''sm_bill_plan_id'' 0,
     mode_entry (CHR ''b'') 3 1 1 ''calling_number'' ''bill_plan_id'' 0,
     mode_entry (CHR ''b'') 3 2 2 ''account_code'' ''bill_plan_id'' 0,
     mode_entry (CHR ''b'') 5 1 4 ''dst_context'' ''bill_plan_id'' 0]"

definition win_col :: "string \<Rightarrow> win_row \<Rightarrow> string option" where
  "win_col tbl c =
     (if tbl = ''calling_number'' then wr_calling_number c
      else if tbl = ''account_code'' then wr_account_code c
      else if tbl = ''src_context'' then wr_src_context c
      else if tbl = ''dst_context'' then wr_dst_context c
      else if tbl = ''src_tgroup'' then wr_src_tgroup c
      else if tbl = ''dst_tgroup'' then wr_dst_tgroup c else None)"

record acct_row =
  ac_prio :: int
  ac_mode :: int
  ac_bacc_id :: int
  ac_bacc :: bacc_row
  ac_bplan_id :: int

text \<open>The rows one \<open>SELECT\<close> of the \<open>UNION ALL\<close> gives for a call.\<close>

definition deff_rows :: "dims \<Rightarrow> acct_mode \<Rightarrow> win_row \<Rightarrow> lookup_row \<Rightarrow> deff_row list" where
  "deff_rows dm m c t = List.filter (\<lambda>df. de_ref df = lk_id t \<and>
     (am_nadi m = 1 \<longrightarrow> de_clg_nadi df = wr_clg_nadi c \<and> de_cld_nadi df = wr_cld_nadi c)) (dm_deff dm (am_tbl m))"

definition acct_of :: "dims \<Rightarrow> acct_mode \<Rightarrow> win_row \<Rightarrow> lookup_row \<Rightarrow> deff_row \<Rightarrow> acct_row list" where
  "acct_of dm m c t df = (let
     bp = (if am_bpcol m = ''sm_bill_plan_id'' then de_sm_bill_plan_id df else de_bill_plan_id df);
     ba = lk_billing_account_id t
   in case map_of (dm_bacc dm) ba of
        None \<Rightarrow> []
      | Some b \<Rightarrow> if br_cdr_server_id b = wr_cdr_server_id c \<and> bp \<in> set (dm_bill_plan dm)
          then [\<lparr>ac_prio = am_prio m, ac_mode = am_mode_id m, ac_bacc_id = ba, ac_bacc = b, ac_bplan_id = bp\<rparr>] else [])"

definition mode_rows :: "dims \<Rightarrow> win_row \<Rightarrow> acct_mode \<Rightarrow> acct_row list" where
  "mode_rows dm c m =
     (if wr_cdr_rec_type_id c = am_rec_type m then
        concat (map (\<lambda>t. concat (map (acct_of dm m c t) (deff_rows dm m c t)))
          (List.filter (\<lambda>t. win_col (am_tbl m) c = Some (lk_key t)) (dm_lookup dm (am_tbl m))))
      else [])"

definition acct_all :: "dims \<Rightarrow> char \<Rightarrow> win_row \<Rightarrow> acct_row list" where
  "acct_all dm leg c = concat (map (mode_rows dm c) (List.filter (\<lambda>m. am_leg m = leg) rt_acct_modes))"

definition acct :: "dims \<Rightarrow> char \<Rightarrow> win_row \<Rightarrow> acct_row option" where
  "acct dm leg c = best_by (\<lambda>x y. ac_prio x < ac_prio y) (acct_all dm leg c)"

section \<open>The rate\<close>

text \<open>\<open>LIKE\<close>: a percent sign stands for any text, an underscore for one character.\<close>

function like :: "string \<Rightarrow> string \<Rightarrow> bool" where
  "like [] s \<longleftrightarrow> s = []"
| "like (p # ps) [] \<longleftrightarrow> p = CHR ''%'' \<and> like ps []"
| "like (p # ps) (c # s) \<longleftrightarrow>
     (if p = CHR ''%'' then like ps (c # s) \<or> like (p # ps) s else (p = CHR ''_'' \<or> p = c) \<and> like ps s)"
  by pat_completeness auto
termination by (relation "measure (\<lambda>(p, s). length p + length s)") auto

text \<open>The plans of a call: those under its plan in the tree, or the plan itself.\<close>

definition plans_of :: "dims \<Rightarrow> int \<Rightarrow> int list" where
  "plans_of dm bp = (let ps = map snd (List.filter (\<lambda>x. fst x = bp) (dm_tree dm)) in if ps = [] then [bp] else ps)"

definition prefix_matches :: "dims \<Rightarrow> win_row \<Rightarrow> rate_entry \<Rightarrow> string option" where
  "prefix_matches dm c r = (case map_of (dm_prefix dm) (rr_prefix_id r) of
     None \<Rightarrow> None
   | Some p \<Rightarrow> if like (p @ ''%'') (wr_called_number c) \<and> map_of (dm_tariff dm) (rr_tariff_id r) \<noteq> None then Some p else None)"

definition plan_rates :: "dims \<Rightarrow> win_row \<Rightarrow> int \<Rightarrow> (rate_entry \<times> string) list" where
  "plan_rates dm c p = List.map_filter (\<lambda>r. map_option (Pair r) (prefix_matches dm c r))
     (List.filter (\<lambda>r. rr_bill_plan_id r = p) (dm_rate dm))"

definition matched :: "dims \<Rightarrow> win_row \<Rightarrow> acct_row \<Rightarrow> (rate_entry \<times> string) list" where
  "matched dm c a = concat (map (plan_rates dm c) (plans_of dm (ac_bplan_id a)))"

definition longer :: "'r \<times> string \<Rightarrow> 'r \<times> string \<Rightarrow> bool" where
  "longer x y \<longleftrightarrow> length (snd y) < length (snd x)"

definition rate_of :: "dims \<Rightarrow> win_row \<Rightarrow> acct_row \<Rightarrow> rate_entry option" where
  "rate_of dm c a = map_option fst (best_by longer (matched dm c a))"

text \<open>The seconds after the rounding of the account.\<close>

definition rounded_secs :: "duck_fns \<Rightarrow> win_row \<Rightarrow> acct_row \<Rightarrow> int" where
  "rounded_secs fns c a = (let
     q = rd (df_fp fns) (rd (df_fp fns) (of_int (wr_billusec c)) / 1000000);
     rm = br_round_mode_id (ac_bacc a)
   in if rm = 1 \<and> \<lceil>q\<rceil> \<noteq> 0 then \<lceil>q\<rceil>
      else if rm = 2 \<and> \<lfloor>q\<rfloor> \<noteq> 0 then \<lfloor>q\<rfloor>
      else wr_billsec c)"

section \<open>Time condition and card\<close>

definition split_part1 :: "string \<Rightarrow> string" where
  "split_part1 s = takeWhile (\<lambda>x. x \<noteq> CHR ''-'') s"

definition split_part2 :: "string \<Rightarrow> string" where
  "split_part2 s = takeWhile (\<lambda>x. x \<noteq> CHR ''-'') (drop 1 (dropWhile (\<lambda>x. x \<noteq> CHR ''-'') s))"

definition hours_hold :: "string option \<Rightarrow> string \<Rightarrow> bool" where
  "hours_hold h t = (case h of
     None \<Rightarrow> True
   | Some v \<Rightarrow> v = [] \<or> (let a = split_part1 v; b = split_part2 v in
       (strcmp a b < 0 \<and> strcmp a t < 0 \<and> 0 \<le> strcmp b t) \<or>
       (0 \<le> strcmp a b \<and> (strcmp a t < 0 \<or> 0 \<le> strcmp b t))))"

definition iso_days :: "(string \<times> int) list" where
  "iso_days = [(''mon'', 1), (''tue'', 2), (''wed'', 3), (''thu'', 4), (''fri'', 5), (''sat'', 6), (''sun'', 7)]"

definition days_hold :: "duck_fns \<Rightarrow> string option \<Rightarrow> int \<Rightarrow> bool" where
  "days_hold fns w d = (case w of
     None \<Rightarrow> False
   | Some v \<Rightarrow> (case (map_of iso_days (map tolower (split_part1 v)), map_of iso_days (map tolower (split_part2 v))) of
       (Some a, Some b) \<Rightarrow> a \<le> df_isodow fns d \<and> df_isodow fns d \<le> b
     | _ \<Rightarrow> False))"

definition date_holds :: "duck_fns \<Rightarrow> string option \<Rightarrow> int \<Rightarrow> bool" where
  "date_holds fns v d = (case v of None \<Rightarrow> False | Some s \<Rightarrow> s \<noteq> [] \<and> df_to_date fns s = Some d)"

definition tcdeff_holds :: "duck_fns \<Rightarrow> tcdeff_row \<Rightarrow> win_row \<Rightarrow> bool" where
  "tcdeff_holds fns df c \<longleftrightarrow> hours_hold (td_hours df) (wr_time c) \<and>
     (date_holds fns (td_tc_date df) (wr_date c) \<or> days_hold fns (td_days_week df) (wr_date c))"

definition tc_rows :: "duck_fns \<Rightarrow> dims \<Rightarrow> win_row \<Rightarrow> int \<Rightarrow> tcond_row list" where
  "tc_rows fns dm c tid = List.filter (\<lambda>t. tr_tariff_id t = tid \<and>
     (case map_of (dm_tcdeff dm) (tr_time_condition_id t) of None \<Rightarrow> False | Some df \<Rightarrow> tcdeff_holds fns df c)) (dm_tc dm)"

definition tc_match :: "duck_fns \<Rightarrow> dims \<Rightarrow> win_row \<Rightarrow> int \<Rightarrow> int option" where
  "tc_match fns dm c tid = map_option tr_time_condition_id (best_by (\<lambda>x y. tr_prior y < tr_prior x) (tc_rows fns dm c tid))"

definition has_tc :: "dims \<Rightarrow> int \<Rightarrow> bool" where
  "has_tc dm tid \<longleftrightarrow> (\<exists>t \<in> set (dm_tc dm). tr_tariff_id t = tid)"

definition card_holds :: "duck_fns \<Rightarrow> int \<Rightarrow> int \<Rightarrow> card_line \<Rightarrow> bool" where
  "card_holds fns bid d p \<longleftrightarrow> cl_billing_account_id p = bid \<and> cl_pcard_status_id p = 1 \<and>
     (cl_pcard_type_id p = 2 \<or> cl_pcard_type_id p = 1 \<and>
       (case (Option.bind (cl_start_date p) (df_to_date fns), Option.bind (cl_end_date p) (df_to_date fns)) of
          (Some s, Some e) \<Rightarrow> s \<le> d \<and> d < e | _ \<Rightarrow> False))"

definition later_card :: "card_line \<Rightarrow> card_line \<Rightarrow> bool" where
  "later_card p q = (case (cl_start_date p, cl_start_date q) of
     (Some s, Some t) \<Rightarrow> strcmp t s < 0 | (Some s, None) \<Rightarrow> True | _ \<Rightarrow> False)"

definition duck_card_of :: "duck_fns \<Rightarrow> dims \<Rightarrow> int \<Rightarrow> int \<Rightarrow> card_line option" where
  "duck_card_of fns dm bid d = best_by later_card (List.filter (card_holds fns bid d) (dm_pcard dm))"

record best_row =
  bm_cdr :: win_row
  bm_secs :: int
  bm_acct :: acct_row
  bm_rate :: rate_entry
  bm_tc_id :: int
  bm_pcard_id :: int

definition best_match :: "duck_fns \<Rightarrow> dims \<Rightarrow> char \<Rightarrow> win_row \<Rightarrow> best_row option" where
  "best_match fns dm leg c = do {
     a \<leftarrow> acct dm leg c;
     r \<leftarrow> rate_of dm c a;
     let tc = tc_match fns dm c (rr_tariff_id r);
     if has_tc dm (rr_tariff_id r) \<and> tc = None then None
     else Some \<lparr>bm_cdr = c, bm_secs = rounded_secs fns c a, bm_acct = a, bm_rate = r,
       bm_tc_id = (case tc of None \<Rightarrow> 0 | Some i \<Rightarrow> i),
       bm_pcard_id = (case duck_card_of fns dm (ac_bacc_id a) (wr_date c) of None \<Rightarrow> 0 | Some p \<Rightarrow> cl_id p)\<rparr>
   }"

section \<open>The free seconds\<close>

definition billing_day_of :: "duck_fns \<Rightarrow> bacc_row \<Rightarrow> int" where
  "billing_day_of fns b = (case Option.bind (br_billing_day b) (df_to_int fns) of
     None \<Rightarrow> 1 | Some n \<Rightarrow> if n = 0 then 1 else n)"

definition win_start :: "duck_fns \<Rightarrow> bacc_row \<Rightarrow> int \<Rightarrow> int" where
  "win_start fns b d = (let day = billing_day_of fns b in
     if day \<le> df_day fns d then df_month fns d + (day - 1) else df_prev_month fns d + (day - 1))"

record fb_row =
  fb_best :: best_row
  fb_fbid :: int
  fb_limit :: int
  fb_pstart :: int

definition fb_of :: "duck_fns \<Rightarrow> dims \<Rightarrow> best_row \<Rightarrow> fb_row option" where
  "fb_of fns dm bm = do {
     fbid \<leftarrow> map_of (dm_tariff dm) (rr_tariff_id (bm_rate bm));
     Some \<lparr>fb_best = bm, fb_fbid = fbid, fb_limit = (case map_of (dm_free_billsec dm) fbid of None \<Rightarrow> 0 | Some l \<Rightarrow> l),
       fb_pstart = win_start fns (ac_bacc (bm_acct bm)) (wr_date (bm_cdr bm))\<rparr>
   }"

definition fbs :: "duck_fns \<Rightarrow> dims \<Rightarrow> char \<Rightarrow> win_row list \<Rightarrow> fb_row list" where
  "fbs fns dm leg win = List.map_filter (\<lambda>c. Option.bind (best_match fns dm leg c) (fb_of fns dm)) win"

definition pooled :: "fb_row \<Rightarrow> bool" where
  "pooled x \<longleftrightarrow> fb_fbid x \<noteq> 0 \<and> 0 < fb_limit x"

definition fb_id :: "fb_row \<Rightarrow> int" where
  "fb_id x = wr_id (bm_cdr (fb_best x))"

definition pool_key :: "fb_row \<Rightarrow> int \<times> int \<times> int" where
  "pool_key x = (ac_bacc_id (bm_acct (fb_best x)), fb_fbid x, fb_pstart x)"

text \<open>The free seconds of the period that were rated before.\<close>

definition used_before :: "duck_fns \<Rightarrow> dims \<Rightarrow> int \<times> int \<times> int \<Rightarrow> int" where
  "used_before fns dm = (\<lambda>(bid, fbid, pstart). sum_list (map rl_call_billsec (List.filter (\<lambda>r.
     rl_call_price r < 0 \<and> rl_free_billsec_id r \<noteq> 0 \<and> rl_billing_account_id r = bid \<and> rl_free_billsec_id r = fbid \<and>
     (case map_of (dm_bacc dm) (rl_billing_account_id r) of
        None \<Rightarrow> False | Some b \<Rightarrow> win_start fns b (rl_call_date r) = pstart)) (dm_rating dm))))"

text \<open>The window sum over the calls of the same pool with a lower id.\<close>

definition earlier_secs :: "fb_row list \<Rightarrow> fb_row \<Rightarrow> int" where
  "earlier_secs fs x = sum_list (map (\<lambda>y. bm_secs (fb_best y))
     (List.filter (\<lambda>y. pooled y \<and> pool_key y = pool_key x \<and> fb_id y < fb_id x) fs))"

definition free_sec :: "duck_fns \<Rightarrow> dims \<Rightarrow> fb_row list \<Rightarrow> fb_row \<Rightarrow> int" where
  "free_sec fns dm fs x = max 0 (min (bm_secs (fb_best x))
     (fb_limit x - (used_before fns dm (pool_key x) + earlier_secs fs x)))"

text \<open>A portion: the seconds, and whether they are free.\<close>

definition portions :: "duck_fns \<Rightarrow> dims \<Rightarrow> fb_row list \<Rightarrow> fb_row \<Rightarrow> (bool \<times> int) list" where
  "portions fns dm fs x = (let secs = bm_secs (fb_best x); free = free_sec fns dm fs x in
     if \<not> pooled x then [(False, secs)]
     else (if 0 < secs - free then [(False, secs - free)] else []) @ (if 0 < free then [(True, free)] else []))"

section \<open>The walk over the steps\<close>

record walk_row =
  wk_pos :: int
  wk_rem :: int
  wk_price :: rat
  wk_bsec :: int
  wk_done :: bool

definition walk_step :: "fpenv \<Rightarrow> int \<Rightarrow> rat \<Rightarrow> int \<Rightarrow> calc_function \<Rightarrow> walk_row" where
  "walk_step fp cs price bsec cf = (let
     d = cf_delta cf; it = cf_iterations cf;
     u = (if d = 0 then 1 else \<lceil>rd fp (rd fp (of_int cs) / rd fp (of_int d))\<rceil>);
     charge = (if it = 0 \<or> u \<le> it then u else it)
   in \<lparr>wk_pos = cf_pos cf, wk_rem = cs - charge * d, wk_price = dadd fp price (imul fp charge (cf_fee cf)),
       wk_bsec = bsec + charge * d, wk_done = (it = 0 \<or> d = 0 \<or> u = 1)\<rparr>)"

definition steps_at :: "(int \<times> calc_function) list \<Rightarrow> int \<Rightarrow> int \<Rightarrow> calc_function list" where
  "steps_at tbl tid pos = map snd (List.filter (\<lambda>x. fst x = tid \<and> cf_pos (snd x) = pos) tbl)"

text \<open>Each round of the recursion goes on from the rows of the round before. The position of a row
  grows with the round, so there are no more rounds than rows in the table.\<close>

fun walk_rounds :: "fpenv \<Rightarrow> (int \<times> calc_function) list \<Rightarrow> int \<Rightarrow> nat \<Rightarrow> walk_row list \<Rightarrow> walk_row list" where
  "walk_rounds fp tbl tid 0 rows = rows"
| "walk_rounds fp tbl tid (Suc n) rows = rows @ walk_rounds fp tbl tid n (concat (map (\<lambda>p.
     map (walk_step fp (wk_rem p) (wk_price p) (wk_bsec p)) (steps_at tbl tid (wk_pos p + 1)))
     (List.filter (\<lambda>p. \<not> wk_done p) rows)))"

definition price_walk :: "fpenv \<Rightarrow> (int \<times> calc_function) list \<Rightarrow> int \<Rightarrow> int \<Rightarrow> walk_row list" where
  "price_walk fp tbl tid secs =
     walk_rounds fp tbl tid (length tbl) (map (walk_step fp secs 0 0) (steps_at tbl tid 1))"

definition last_step :: "walk_row list \<Rightarrow> walk_row option" where
  "last_step rows = best_by (\<lambda>x y. wk_pos y < wk_pos x) rows"

section \<open>The rated rows\<close>

record rated_row =
  rb_cdr_id :: int
  rb_billsec :: int
  rb_start_ts :: string
  rb_date :: int
  rb_bacc_id :: int
  rb_rate_id :: int
  rb_cprice :: rat
  rb_free_billsec_id :: int
  rb_is_free :: bool
  rb_rating_mode_id :: int
  rb_pcard_id :: int
  rb_time_condition_id :: int

definition row_rated :: "fpenv \<Rightarrow> dims \<Rightarrow> fb_row \<Rightarrow> bool \<times> int \<Rightarrow> rated_row option" where
  "row_rated fp dm x = (\<lambda>(free, secs). let bm = fb_best x; r = bm_rate bm in
     map_option (\<lambda>w. \<lparr>rb_cdr_id = fb_id x, rb_billsec = wk_bsec w, rb_start_ts = wr_start_ts (bm_cdr bm),
       rb_date = wr_date (bm_cdr bm), rb_bacc_id = ac_bacc_id (bm_acct bm), rb_rate_id = rr_id r,
       rb_cprice = (if free then - wk_price w else wk_price w), rb_free_billsec_id = (if free then fb_fbid x else 0),
       rb_is_free = free, rb_rating_mode_id = ac_mode (bm_acct bm), rb_pcard_id = bm_pcard_id bm,
       rb_time_condition_id = bm_tc_id bm\<rparr>)
     (last_step (price_walk fp (dm_calc dm) (rr_tariff_id r) secs)))"

definition call_rows :: "duck_fns \<Rightarrow> dims \<Rightarrow> fb_row list \<Rightarrow> fb_row \<Rightarrow> rated_row list" where
  "call_rows fns dm fs x = List.map_filter (row_rated (df_fp fns) dm x) (portions fns dm fs x)"

definition rated_batch :: "duck_fns \<Rightarrow> dims \<Rightarrow> char \<Rightarrow> win_row list \<Rightarrow> rated_row list" where
  "rated_batch fns dm leg win = (let fs = fbs fns dm leg win in concat (map (call_rows fns dm fs) fs))"

definition unmatched :: "win_row list \<Rightarrow> rated_row list \<Rightarrow> int list" where
  "unmatched win rb = sort (List.filter (\<lambda>i. i \<notin> set (map rb_cdr_id rb)) (map wr_id win))"

section \<open>The balances\<close>

definition bal_period :: "duck_fns \<Rightarrow> dims \<Rightarrow> rated_row \<Rightarrow> (int \<times> int) option" where
  "bal_period fns dm r = do {
     b \<leftarrow> map_of (dm_bacc dm) (rb_bacc_id r);
     p \<leftarrow> duck_card_of fns dm (rb_bacc_id r) (rb_date r);
     let start = win_start fns b (rb_date r);
     if cl_pcard_type_id p = 2 then Some (start, df_add_month fns start)
     else do { s \<leftarrow> Option.bind (cl_start_date p) (df_to_date fns); e \<leftarrow> Option.bind (cl_end_date p) (df_to_date fns); Some (s, e) }
   }"

text \<open>The keys of the groups in the order of their first row, and the sum of each.\<close>

definition bal_keyed :: "duck_fns \<Rightarrow> dims \<Rightarrow> rated_row list \<Rightarrow> ((int \<times> int \<times> int) \<times> rat) list" where
  "bal_keyed fns dm rb = List.map_filter (\<lambda>r. map_option (\<lambda>(s, e). ((rb_bacc_id r, s, e), rb_cprice r)) (bal_period fns dm r))
     (List.filter (\<lambda>r. \<not> rb_is_free r) rb)"

definition bal_delta :: "duck_fns \<Rightarrow> dims \<Rightarrow> rated_row list \<Rightarrow> ((int \<times> int \<times> int) \<times> rat) list" where
  "bal_delta fns dm rb = (let ks = bal_keyed fns dm rb in
     map (\<lambda>k. (k, foldl (dadd (df_fp fns)) 0 (map snd (List.filter (\<lambda>x. fst x = k) ks)))) (remdups (map fst ks)))"

end
