(* ===== verification/DuckText.thy ===== *)
theory DuckText
  imports DuckSql
begin

text \<open>
  The statements that \<open>RatingDuckDB/rt_duckdb.c\<close> sends: their texts, and that they fit their buffers.
  Theory \<open>DuckSql\<close> says what the ones for DuckDB compute.
\<close>

section \<open>For DuckDB\<close>

definition rt_dim_static :: "string list" where
  "rt_dim_static = [''bill_plan'', ''bill_plan_tree'', ''rate'', ''prefix'', ''tariff'', ''calc_function'',
     ''time_condition'', ''time_condition_deff'', ''free_billsec'']"

definition rt_dim_account :: "string list" where
  "rt_dim_account = [''calling_number'', ''calling_number_deff'', ''account_code'', ''account_code_deff'',
     ''src_context'', ''src_context_deff'', ''dst_context'', ''dst_context_deff'', ''src_tgroup'', ''src_tgroup_deff'',
     ''dst_tgroup'', ''dst_tgroup_deff'', ''billing_account'', ''pcard'']"

definition dim_sql :: "string \<Rightarrow> bool \<Rightarrow> string" where
  "dim_sql name as_table = ''CREATE OR REPLACE '' @ (if as_table then ''TABLE'' else ''VIEW'') @ '' '' @ name @
     '' AS SELECT * FROM pg.'' @ name"

definition window_sql :: "char \<Rightarrow> int \<Rightarrow> string" where
  "window_sql leg limit = concat [
     ''CREATE OR REPLACE TEMP TABLE batch_window AS '',
     ''SELECT id, calling_number, called_number, billsec, billusec, start_ts, cdr_server_id, '',
     ''cdr_rec_type_id, account_code, src_context, dst_context, src_tgroup, dst_tgroup, '',
     ''clg_nadi, cld_nadi '',
     ''FROM pg.cdrs WHERE leg_'', [leg], '' = 0 ORDER BY id LIMIT '', dec_int limit]"

definition count_sql :: string where
  "count_sql = ''SELECT COUNT(*), COALESCE(MAX(id),0) FROM batch_window''"

text \<open>One \<open>SELECT\<close> of the union of account lookups.\<close>

definition acct_select :: "bool \<Rightarrow> acct_mode \<Rightarrow> string" where
  "acct_select rest m = concat [
     (if rest then ''UNION ALL'' else []), '' SELECT c.id AS cdr_id, '', dec_int (am_prio m), '' AS prio, '', dec_int (am_mode_id m),
     '' AS rating_mode_id, ba.id AS bacc_id, '',
     ''ba.round_mode_id, bp.id AS bplan_id '',
     ''FROM batch_window c '',
     ''JOIN '', am_tbl m, '' t ON t.'', am_tbl m, '' = c.'', am_tbl m, '' '',
     ''JOIN '', am_tbl m, ''_deff df ON df.'', am_tbl m, ''_id = t.id '',
     ''JOIN billing_account ba ON ba.id = t.billing_account_id '',
     ''  AND ba.cdr_server_id = c.cdr_server_id '',
     ''JOIN bill_plan bp ON bp.id = df.'', am_bpcol m, '' '',
     ''WHERE c.cdr_rec_type_id = '', dec_int (am_rec_type m),
     (if am_nadi m \<noteq> 0 then '' AND df.clg_nadi = c.clg_nadi AND df.cld_nadi = c.cld_nadi'' else []), '' '']"

text \<open>The result: -1 when the buffer is too small, else the number of modes; and the buffer.\<close>

fun acct_union :: "nat \<Rightarrow> nat \<Rightarrow> string \<Rightarrow> acct_mode list \<Rightarrow> int \<times> string" where
  "acct_union buflen n buf [] = (int n, buf)"
| "acct_union buflen n buf (m # ms) = (let t = acct_select (n \<noteq> 0) m in
     if buflen \<le> length buf + length t then (-1, buf @ take (buflen - length buf - 1) t)
     else acct_union buflen (n + 1) (buf @ t) ms)"

definition rt_build_acct_union :: "char \<Rightarrow> nat \<Rightarrow> int \<times> string" where
  "rt_build_acct_union leg buflen = acct_union buflen 0 [] (List.filter (\<lambda>m. am_leg m = leg) rt_acct_modes)"

text \<open>The statement behind the union; \<open>rated_batch_sql\<close> is all of it.\<close>

definition sql_acct :: string where
  "sql_acct = concat [
     ''acct AS ( '',
     ''  SELECT cdr_id, bacc_id, round_mode_id, bplan_id, rating_mode_id FROM ( '',
     ''    SELECT *, ROW_NUMBER() OVER (PARTITION BY cdr_id ORDER BY prio) AS arn FROM acct_all '',
     ''  ) WHERE arn = 1 '',
     ''), '']"

definition sql_matched :: string where
  "sql_matched = concat [
     ''matched AS ( '',
     ''  SELECT '',
     ''    c.id AS cdr_id, c.calling_number, c.called_number, '',
     ''    CASE '',
     ''      WHEN a.round_mode_id = 1 AND CAST(CEIL(c.billusec / 1000000.0) AS BIGINT) <> 0 '',
     ''        THEN CAST(CEIL(c.billusec / 1000000.0) AS BIGINT) '',
     ''      WHEN a.round_mode_id = 2 AND CAST(FLOOR(c.billusec / 1000000.0) AS BIGINT) <> 0 '',
     ''        THEN CAST(FLOOR(c.billusec / 1000000.0) AS BIGINT) '',
     ''      ELSE c.billsec END AS billsec, '',
     ''    c.start_ts, '',
     ''    a.bacc_id, a.round_mode_id, a.rating_mode_id, '',
     ''    rt.id AS rate_id, rt.tariff_id, pr.prefix, pr.id AS prefix_id, '',
     ''    ROW_NUMBER() OVER (PARTITION BY c.id ORDER BY LENGTH(pr.prefix) DESC) AS rn '',
     ''  FROM batch_window c '',
     ''  JOIN acct a ON a.cdr_id = c.id '',
     ''  LEFT JOIN bill_plan_tree tree ON tree.root_bplan_id = a.bplan_id '',
     ''  JOIN rate rt ON rt.bill_plan_id = COALESCE(tree.bill_plan_id, a.bplan_id) '',
     ''  JOIN prefix pr ON pr.id = rt.prefix_id '',
     ''    AND c.called_number LIKE pr.prefix || '' @ quoted ''%'' @ '' '',
     ''  JOIN tariff tr ON tr.id = rt.tariff_id '',
     ''), '']"

definition sql_best_head :: string where
  "sql_best_head = concat [
     ''best_match AS ( '',
     ''  SELECT cdr_id, calling_number, called_number, billsec, start_ts, bacc_id, round_mode_id, '',
     ''         rating_mode_id, rate_id, tariff_id, prefix_id, '',
     ''         COALESCE(tc_match_id, 0) AS tc_id, COALESCE(pcard_id, 0) AS pcard_id '',
     ''  FROM ( '',
     ''    SELECT m.*, '',
     ''      EXISTS (SELECT 1 FROM time_condition tc WHERE tc.tariff_id = m.tariff_id) AS has_tc, '']"

definition sql_best_tc :: string where
  "sql_best_tc = concat [
     ''      (SELECT df.id FROM time_condition tc '',
     ''         JOIN time_condition_deff df ON df.id = tc.time_condition_id '',
     ''        WHERE tc.tariff_id = m.tariff_id '',
     ''        AND ( COALESCE(df.hours,'' @ quoted [] @ '') = '' @ quoted [] @ '' '',
     ''           OR (split_part(df.hours,'' @ quoted ''-'' @ '',1) <  split_part(df.hours,'' @ quoted ''-'' @ '',2) '',
     ''               AND split_part(df.hours,'' @ quoted ''-'' @ '',1) <  CAST(CAST(m.start_ts AS TIME) AS VARCHAR) '',
     ''               AND split_part(df.hours,'' @ quoted ''-'' @ '',2) >= CAST(CAST(m.start_ts AS TIME) AS VARCHAR)) '',
     ''           OR (split_part(df.hours,'' @ quoted ''-'' @ '',1) >= split_part(df.hours,'' @ quoted ''-'' @ '',2) '',
     ''               AND (split_part(df.hours,'' @ quoted ''-'' @ '',1) <  CAST(CAST(m.start_ts AS TIME) AS VARCHAR) '',
     ''                 OR split_part(df.hours,'' @ quoted ''-'' @ '',2) >= CAST(CAST(m.start_ts AS TIME) AS VARCHAR))) ) '',
     ''        AND ( (COALESCE(df.tc_date,'' @ quoted [] @ '') <> '' @ quoted [] @ '' AND TRY_CAST(df.tc_date AS DATE) = CAST(m.start_ts AS DATE)) '',
     ''           OR isodow(m.start_ts) BETWEEN '',
     ''              CASE lower(split_part(df.days_week,'' @ quoted ''-'' @ '',1)) WHEN '' @ quoted ''mon'' @ '' THEN 1 WHEN '' @ quoted ''tue'' @ '' THEN 2 WHEN '' @ quoted ''wed'' @ '' THEN 3 WHEN '' @ quoted ''thu'' @ '' THEN 4 WHEN '' @ quoted ''fri'' @ '' THEN 5 WHEN '' @ quoted ''sat'' @ '' THEN 6 WHEN '' @ quoted ''sun'' @ '' THEN 7 END '',
     ''          AND CASE lower(split_part(df.days_week,'' @ quoted ''-'' @ '',2)) WHEN '' @ quoted ''mon'' @ '' THEN 1 WHEN '' @ quoted ''tue'' @ '' THEN 2 WHEN '' @ quoted ''wed'' @ '' THEN 3 WHEN '' @ quoted ''thu'' @ '' THEN 4 WHEN '' @ quoted ''fri'' @ '' THEN 5 WHEN '' @ quoted ''sat'' @ '' THEN 6 WHEN '' @ quoted ''sun'' @ '' THEN 7 END ) '',
     ''        ORDER BY tc.prior DESC LIMIT 1) AS tc_match_id, '']"

definition sql_best_card :: string where
  "sql_best_card = concat [
     ''      (SELECT p.id FROM pcard p '',
     ''        WHERE p.billing_account_id = m.bacc_id AND p.pcard_status_id = 1 '',
     ''          AND ( p.pcard_type_id = 2 '',
     ''             OR (p.pcard_type_id = 1 AND TRY_CAST(p.start_date AS DATE) <= CAST(m.start_ts AS DATE) '',
     ''                                    AND TRY_CAST(p.end_date AS DATE) >  CAST(m.start_ts AS DATE)) ) '',
     ''        ORDER BY p.start_date DESC LIMIT 1) AS pcard_id '',
     ''    FROM matched m WHERE m.rn = 1 '',
     ''  ) WHERE has_tc = FALSE OR tc_match_id IS NOT NULL '',
     ''), '']"

definition sql_fb :: string where
  "sql_fb = concat [
     ''fb AS ( '',
     ''  SELECT bm.cdr_id, bm.billsec, bm.start_ts, bm.bacc_id, bm.rate_id, bm.tariff_id, bm.rating_mode_id, '',
     ''         bm.tc_id, bm.pcard_id, '',
     ''         t.free_billsec_id AS fbid, COALESCE(f.free_billsec,0) AS fb_limit, '',
     ''         CASE WHEN EXTRACT(DAY FROM bm.start_ts) >= (COALESCE(NULLIF(TRY_CAST(ba.billing_day AS INTEGER),0),1)) '',
     ''              THEN (date_trunc('' @ quoted ''month'' @ '',bm.start_ts) + to_days((COALESCE(NULLIF(TRY_CAST(ba.billing_day AS INTEGER),0),1))-1))::DATE '',
     ''              ELSE (date_trunc('' @ quoted ''month'' @ '',bm.start_ts) - INTERVAL 1 MONTH + to_days((COALESCE(NULLIF(TRY_CAST(ba.billing_day AS INTEGER),0),1))-1))::DATE END AS pstart '',
     ''  FROM best_match bm '',
     ''  JOIN tariff t ON t.id = bm.tariff_id '',
     ''  JOIN billing_account ba ON ba.id = bm.bacc_id '',
     ''  LEFT JOIN free_billsec f ON f.id = t.free_billsec_id '',
     ''), '']"

definition sql_hist :: string where
  "sql_hist = concat [
     ''hist AS ( '',
     ''  SELECT r.billing_account_id AS bacc_id, r.free_billsec_id AS fbid, '',
     ''         CASE WHEN EXTRACT(DAY FROM r.call_ts) >= (COALESCE(NULLIF(TRY_CAST(ba.billing_day AS INTEGER),0),1)) '',
     ''              THEN (date_trunc('' @ quoted ''month'' @ '',r.call_ts) + to_days((COALESCE(NULLIF(TRY_CAST(ba.billing_day AS INTEGER),0),1))-1))::DATE '',
     ''              ELSE (date_trunc('' @ quoted ''month'' @ '',r.call_ts) - INTERVAL 1 MONTH + to_days((COALESCE(NULLIF(TRY_CAST(ba.billing_day AS INTEGER),0),1))-1))::DATE END AS pstart, '',
     ''         SUM(r.call_billsec) AS used '',
     ''  FROM pg.rating r '',
     ''  JOIN billing_account ba ON ba.id = r.billing_account_id '',
     ''  WHERE r.call_price < 0 AND r.free_billsec_id <> 0 '',
     ''    AND r.billing_account_id IN (SELECT DISTINCT bacc_id FROM fb WHERE fbid <> 0 AND fb_limit > 0) '',
     ''  GROUP BY 1,2,3 '',
     ''), '']"

definition sql_split :: string where
  "sql_split = concat [
     ''split AS ( '',
     ''  SELECT fb.cdr_id, fb.billsec, fb.start_ts, fb.bacc_id, fb.rate_id, fb.tariff_id, fb.rating_mode_id, fb.tc_id, fb.pcard_id, fb.fbid, '',
     ''         GREATEST(0, LEAST(fb.billsec, fb.fb_limit - (COALESCE(h.used,0) '',
     ''           + COALESCE(SUM(fb.billsec) OVER (PARTITION BY fb.bacc_id, fb.fbid, fb.pstart '',
     ''               ORDER BY fb.cdr_id ROWS BETWEEN UNBOUNDED PRECEDING AND 1 PRECEDING),0)))) AS free_sec '',
     ''  FROM fb LEFT JOIN hist h ON h.bacc_id=fb.bacc_id AND h.fbid=fb.fbid AND h.pstart=fb.pstart '',
     ''  WHERE fb.fbid <> 0 AND fb.fb_limit > 0 '',
     ''), '']"

definition sql_portions :: string where
  "sql_portions = concat [
     ''portions AS ( '',
     ''  SELECT cdr_id, '' @ quoted ''P'' @ '' AS kind, billsec AS sec, tariff_id, 1 AS sgn, CAST(0 AS BIGINT) AS fbid_out, start_ts, bacc_id, rate_id, rating_mode_id, tc_id, pcard_id '',
     ''  FROM fb WHERE NOT (fbid <> 0 AND fb_limit > 0) '',
     ''  UNION ALL '',
     ''  SELECT cdr_id, '' @ quoted ''P'' @ '', (billsec - free_sec), tariff_id, 1, CAST(0 AS BIGINT), start_ts, bacc_id, rate_id, rating_mode_id, tc_id, pcard_id '',
     ''  FROM split WHERE (billsec - free_sec) > 0 '',
     ''  UNION ALL '',
     ''  SELECT cdr_id, '' @ quoted ''F'' @ '', free_sec, tariff_id, -1, CAST(fbid AS BIGINT), start_ts, bacc_id, rate_id, rating_mode_id, tc_id, pcard_id '',
     ''  FROM split WHERE free_sec > 0 '',
     ''), '']"

definition sql_walk_first :: string where
  "sql_walk_first = concat [
     ''price_walk(cdr_id, kind, pos, rem, price, bsec, done) AS ( '',
     ''  SELECT CAST(cdr_id AS BIGINT), kind, CAST(pos AS INTEGER), '',
     ''         CAST(cs - charge*d AS BIGINT), CAST(charge*f AS DOUBLE), CAST(charge*d AS BIGINT), '',
     ''         CAST(CASE WHEN it=0 OR d=0 THEN 1 WHEN u=1 THEN 1 ELSE 0 END AS INTEGER) '',
     ''  FROM ( '',
     ''    SELECT cdr_id, kind, pos, d, f, it, cs, u, '',
     ''           CASE WHEN it=0 OR u<=it THEN u ELSE it END AS charge '',
     ''    FROM ( '',
     ''      SELECT pt.cdr_id, pt.kind, cf.pos, cf.delta_time AS d, COALESCE(cf.fee,0) AS f, COALESCE(cf.iterations,0) AS it,'',
     ''             pt.sec AS cs, '',
     ''             CASE WHEN cf.delta_time=0 THEN 1 ELSE CAST(CEIL(pt.sec::DOUBLE/cf.delta_time) AS BIGINT) END AS u '',
     ''      FROM portions pt '',
     ''      JOIN calc_function cf ON cf.tariff_id = pt.tariff_id AND cf.pos = 1 '',
     ''    ) '',
     ''  ) '']"

definition sql_walk_next :: string where
  "sql_walk_next = concat [
     ''  UNION ALL '',
     ''  SELECT CAST(cdr_id AS BIGINT), kind, CAST(pos AS INTEGER), '',
     ''         CAST(cs - charge*d AS BIGINT), CAST(pprice + charge*f AS DOUBLE), '',
     ''         CAST(pbsec + charge*d AS BIGINT), '',
     ''         CAST(CASE WHEN it=0 OR d=0 THEN 1 WHEN u=1 THEN 1 ELSE 0 END AS INTEGER) '',
     ''  FROM ( '',
     ''    SELECT cdr_id, kind, pos, d, f, it, cs, u, pprice, pbsec, '',
     ''           CASE WHEN it=0 OR u<=it THEN u ELSE it END AS charge '',
     ''    FROM ( '',
     ''      SELECT p.cdr_id, p.kind, cf.pos, cf.delta_time AS d, COALESCE(cf.fee,0) AS f, COALESCE(cf.iterations,0) AS it,'',
     ''             p.rem AS cs, p.price AS pprice, p.bsec AS pbsec, '',
     ''             CASE WHEN cf.delta_time=0 THEN 1 ELSE CAST(CEIL(p.rem::DOUBLE/cf.delta_time) AS BIGINT) END AS u '',
     ''      FROM price_walk p '',
     ''      JOIN portions pt ON pt.cdr_id = p.cdr_id AND pt.kind = p.kind '',
     ''      JOIN calc_function cf ON cf.tariff_id = pt.tariff_id AND cf.pos = p.pos + 1 '',
     ''      WHERE p.done = 0 '',
     ''    ) '',
     ''  ) '',
     ''), '']"

definition sql_final :: string where
  "sql_final = concat [
     ''final AS ( '',
     ''  SELECT cdr_id, kind, price AS cprice, bsec AS billsec_out, '',
     ''         ROW_NUMBER() OVER (PARTITION BY cdr_id, kind ORDER BY pos DESC) AS frn '',
     ''  FROM price_walk '',
     '') '',
     ''SELECT CAST(pt.cdr_id AS BIGINT) AS cdr_id, '',
     ''  CAST(fp.billsec_out AS BIGINT) AS billsec, '',
     ''  CAST(pt.start_ts AS VARCHAR) AS start_ts_str, '',
     ''  CAST(pt.bacc_id AS BIGINT) AS bacc_id, '',
     ''  CAST(pt.rate_id AS BIGINT) AS rate_id, '',
     ''  (pt.sgn * fp.cprice) AS cprice, '',
     ''  CAST(pt.fbid_out AS BIGINT) AS free_billsec_id, '',
     ''  (pt.kind = '' @ quoted ''F'' @ '') AS is_free, '',
     ''  CAST(pt.rating_mode_id AS INTEGER) AS rating_mode_id, '',
     ''  CAST(pt.pcard_id AS BIGINT) AS pcard_id, '',
     ''  CAST(pt.tc_id AS BIGINT) AS time_condition_id '',
     ''FROM portions pt '',
     ''JOIN final fp ON fp.cdr_id = pt.cdr_id AND fp.kind = pt.kind AND fp.frn = 1'']"

definition rated_tail :: string where
  "rated_tail = concat [sql_acct, sql_matched, sql_best_head, sql_best_tc, sql_best_card, sql_fb, sql_hist, sql_split, sql_portions, sql_walk_first, sql_walk_next, sql_final]"

definition rated_batch_sql :: "string \<Rightarrow> string" where
  "rated_batch_sql u = ''CREATE OR REPLACE TEMP TABLE rated_batch AS '' @ ''WITH RECURSIVE acct_all AS ( '' @ u @ '' ), '' @ rated_tail"

definition rated_select_sql :: string where
  "rated_select_sql = ''SELECT * FROM rated_batch''"

definition unmatched_sql :: string where
  "unmatched_sql = concat [
     ''SELECT bw.id FROM batch_window bw '',
     ''LEFT JOIN (SELECT DISTINCT cdr_id FROM rated_batch) r ON r.cdr_id = bw.id '',
     ''WHERE r.cdr_id IS NULL ORDER BY bw.id'']"

definition bal_delta_sql :: string where
  "bal_delta_sql = concat [
     ''CREATE OR REPLACE TEMP TABLE bal_delta AS '',
     ''WITH pc AS ( '',
     ''  SELECT rb.cdr_id, rb.bacc_id, rb.cprice, '',
     ''         CAST(rb.start_ts_str AS TIMESTAMP) AS cts, '',
     ''         COALESCE(NULLIF(TRY_CAST(ba.billing_day AS INTEGER),0),1) AS bday, '',
     ''         p.pcard_type_id, p.start_date AS cstart, p.end_date AS cend, '',
     ''         ROW_NUMBER() OVER (PARTITION BY rb.cdr_id ORDER BY p.start_date DESC) AS prn '',
     ''  FROM rated_batch rb '',
     ''  JOIN billing_account ba ON ba.id = rb.bacc_id '',
     ''  JOIN pcard p ON p.billing_account_id = rb.bacc_id AND p.pcard_status_id = 1 '',
     ''    AND ( p.pcard_type_id = 2 '',
     ''       OR (p.pcard_type_id = 1 '',
     ''           AND TRY_CAST(p.start_date AS DATE) <= CAST(rb.start_ts_str AS DATE) '',
     ''           AND TRY_CAST(p.end_date AS DATE) >  CAST(rb.start_ts_str AS DATE)) ) '',
     ''  WHERE rb.is_free = FALSE '',
     ''), '',
     ''per AS ( '',
     ''  SELECT bacc_id, cprice, pcard_type_id, cstart, cend, '',
     ''         CASE WHEN EXTRACT(DAY FROM cts) >= bday '',
     ''              THEN (date_trunc('' @ quoted ''month'' @ '',cts) + to_days(bday-1))::DATE '',
     ''              ELSE (date_trunc('' @ quoted ''month'' @ '',cts) - INTERVAL 1 MONTH + to_days(bday-1))::DATE END AS win_start '',
     ''  FROM pc WHERE prn = 1 '',
     '') '',
     ''SELECT bacc_id, '',
     ''  CAST(CASE WHEN pcard_type_id = 2 THEN win_start ELSE TRY_CAST(cstart AS DATE) END AS VARCHAR) AS start_date, '',
     ''  CAST(CASE WHEN pcard_type_id = 2 THEN (win_start + INTERVAL 1 MONTH)::DATE ELSE TRY_CAST(cend AS DATE) END AS VARCHAR) AS end_date, '',
     ''  SUM(cprice) AS amount '',
     ''FROM per GROUP BY ALL'']"

definition fbb_delta_sql :: string where
  "fbb_delta_sql = concat [
     ''CREATE OR REPLACE TEMP TABLE fbb_delta AS '',
     ''SELECT d.free_billsec_id, '',
     ''  (SELECT COALESCE(SUM(r.call_billsec),0) FROM pg.rating r '',
     ''     WHERE r.call_price < 0 AND r.free_billsec_id = d.free_billsec_id '',
     ''       AND r.billing_account_id = d.bacc_id '',
     ''       AND CAST(r.call_ts AS DATE) >= d.pstart AND CAST(r.call_ts AS DATE) < d.pend) AS used, '',
     ''  (SELECT b.id FROM pg.balance b '',
     ''     WHERE b.billing_account_id = d.bacc_id AND b.active = '' @ quoted ''t'' @ '' '',
     ''       AND b.start_date = CAST(d.pstart AS VARCHAR) AND b.end_date = CAST(d.pend AS VARCHAR) '',
     ''     LIMIT 1) AS balance_id '',
     ''FROM ( '',
     ''  SELECT DISTINCT rb.bacc_id, rb.free_billsec_id, '',
     ''    CASE WHEN EXTRACT(DAY FROM CAST(rb.start_ts_str AS TIMESTAMP)) >= COALESCE(NULLIF(TRY_CAST(ba.billing_day AS INTEGER),0),1) '',
     ''         THEN (date_trunc('' @ quoted ''month'' @ '',CAST(rb.start_ts_str AS TIMESTAMP)) + to_days(COALESCE(NULLIF(TRY_CAST(ba.billing_day AS INTEGER),0),1)-1))::DATE '',
     ''         ELSE (date_trunc('' @ quoted ''month'' @ '',CAST(rb.start_ts_str AS TIMESTAMP)) - INTERVAL 1 MONTH + to_days(COALESCE(NULLIF(TRY_CAST(ba.billing_day AS INTEGER),0),1)-1))::DATE END AS pstart, '',
     ''    ((CASE WHEN EXTRACT(DAY FROM CAST(rb.start_ts_str AS TIMESTAMP)) >= COALESCE(NULLIF(TRY_CAST(ba.billing_day AS INTEGER),0),1) '',
     ''         THEN (date_trunc('' @ quoted ''month'' @ '',CAST(rb.start_ts_str AS TIMESTAMP)) + to_days(COALESCE(NULLIF(TRY_CAST(ba.billing_day AS INTEGER),0),1)-1))::DATE '',
     ''         ELSE (date_trunc('' @ quoted ''month'' @ '',CAST(rb.start_ts_str AS TIMESTAMP)) - INTERVAL 1 MONTH + to_days(COALESCE(NULLIF(TRY_CAST(ba.billing_day AS INTEGER),0),1)-1))::DATE END) + INTERVAL 1 MONTH)::DATE AS pend '',
     ''  FROM rated_batch rb '',
     ''  JOIN billing_account ba ON ba.id = rb.bacc_id '',
     ''  WHERE rb.is_free = TRUE AND rb.free_billsec_id <> 0 '',
     '') d'']"

definition bal_select_sql :: string where
  "bal_select_sql = ''SELECT bacc_id, start_date, end_date, amount FROM bal_delta''"

definition fbb_select_sql :: string where
  "fbb_select_sql = ''SELECT balance_id, free_billsec_id, used FROM fbb_delta WHERE balance_id IS NOT NULL''"

section \<open>For PostgreSQL\<close>

definition rating_insert_head :: string where
  "rating_insert_head = concat [
     ''INSERT INTO rating'',
     '' (call_price,call_billsec,rate_id,billing_account_id,call_id,'',
     ''rating_mode_id,pcard_id,time_condition_id,call_ts,last_update,free_billsec_id)'',
     '' VALUES '']"

definition legs_head :: "char \<Rightarrow> string" where
  "legs_head leg = ''UPDATE cdrs SET leg_'' @ [leg] @ '' = v.rid FROM (VALUES ''"

definition legs_tail :: string where
  "legs_tail = '') AS v(cid,rid) WHERE cdrs.id = v.cid''"

definition mark_head :: "char \<Rightarrow> string" where
  "mark_head leg = ''UPDATE cdrs SET leg_'' @ [leg] @ '' = -1 WHERE leg_'' @ [leg] @ '' = 0 AND id IN (''"

definition bal_up_str :: "int \<Rightarrow> string \<Rightarrow> string \<Rightarrow> rat \<Rightarrow> string" where
  "bal_up_str bid s e amt = concat [
     ''WITH upd AS ( '',
     ''  UPDATE balance SET amount = amount + '', fmt_f amt, '', last_update = now() '',
     ''  WHERE billing_account_id = '', dec_int bid, '' AND start_date = '', quoted s, '' AND end_date = '', quoted e,
     '' AND active = '', quoted ''t'', '' '',
     ''  RETURNING id '',
     '') '',
     ''INSERT INTO balance (billing_account_id,start_date,end_date,active,amount,last_update) '',
     ''SELECT '', dec_int bid, '','', quoted s, '','', quoted e, '','', quoted ''t'', '','', fmt_f amt, '',now() WHERE NOT EXISTS (SELECT 1 FROM upd)'']"

definition fbb_up_str :: "int \<Rightarrow> int \<Rightarrow> int \<Rightarrow> string" where
  "fbb_up_str bal fbid used = concat [
     ''WITH upd AS ( '',
     ''  UPDATE free_billsec_balance SET free_billsec = '', dec_int used, '', last_update = now() '',
     ''  WHERE balance_id = '', dec_int bal, '' AND free_billsec_id = '', dec_int fbid, '' RETURNING id '',
     '') '',
     ''INSERT INTO free_billsec_balance (balance_id,free_billsec_id,free_billsec) '',
     ''SELECT '', dec_int bal, '','', dec_int fbid, '','', dec_int used, '' WHERE NOT EXISTS (SELECT 1 FROM upd)'']"

section \<open>The buffers\<close>

text \<open>The length of a literal, sixteen characters at a time.\<close>

lemma length_16:
  "length (x0 # x1 # x2 # x3 # x4 # x5 # x6 # x7 # x8 # x9 # x10 # x11 # x12 # x13 # x14 # x15 # xs) = 16 + length xs"
  by simp

fun selects :: "nat \<Rightarrow> acct_mode list \<Rightarrow> string list" where
  "selects n [] = []"
| "selects n (m # ms) = acct_select (n \<noteq> 0) m # selects (n + 1) ms"

lemma acct_union_whole:
  "length buf + length (concat (selects n ms)) < buflen \<Longrightarrow>
     acct_union buflen n buf ms = (int (n + length ms), buf @ concat (selects n ms))"
  by (induction ms arbitrary: n buf) (simp_all add: Let_def)

lemma dec_digits: "length (dec_int 0) = 1" "length (dec_int 1) = 1" "length (dec_int 2) = 1" "length (dec_int 3) = 1"
  "length (dec_int 4) = 1" "length (dec_int 5) = 1" "length (dec_int 6) = 1" "length (dec_int 7) = 1"
  by code_simp+

lemma acct_select_length: "length (acct_select rest m) =
    (if rest then 9 else 0) + 335 + length (dec_int (am_prio m)) + length (dec_int (am_mode_id m)) + 5 * length (am_tbl m) +
    length (am_bpcol m) + length (dec_int (am_rec_type m)) + (if am_nadi m \<noteq> 0 then 58 else 0)"
  by (simp add: acct_select_def length_16 del: list.size(4)) (simp add: list.size(4))

lemma union_whole:
  assumes "leg = CHR ''a'' \<or> leg = CHR ''b''"
  defines "ms \<equiv> List.filter (\<lambda>m. am_leg m = leg) rt_acct_modes"
  shows "rt_build_acct_union leg 6144 = (int (length ms), concat (selects 0 ms))" "length (concat (selects 0 ms)) \<le> 4300" "ms \<noteq> []"
proof -
  show l: "length (concat (selects 0 ms)) \<le> 4300" "ms \<noteq> []"
    using assms by (auto simp: rt_acct_modes_def mode_entry_def acct_select_length dec_digits)
  show "rt_build_acct_union leg 6144 = (int (length ms), concat (selects 0 ms))"
    using acct_union_whole [of "[]" 0 ms 6144] l by (simp add: rt_build_acct_union_def ms_def)
qed

lemma part_lengths:
  "length sql_acct = 193"
  "length sql_matched = 953"
  "length sql_best_head = 357"
  "length sql_best_tc = 1288"
  "length sql_best_card = 486"
  "length sql_fb = 793"
  "length sql_hist = 768"
  "length sql_split = 545"
  "length sql_portions = 590"
  "length sql_walk_first = 788"
  "length sql_walk_next = 917"
  "length sql_final = 744"
  by (simp_all add: sql_acct_def sql_matched_def sql_best_head_def sql_best_tc_def sql_best_card_def sql_fb_def sql_hist_def
      sql_split_def sql_portions_def sql_walk_first_def sql_walk_next_def sql_final_def quoted_def length_16 del: list.size(4))
    (simp_all add: list.size(4))

lemma tail_length: "length rated_tail = 8422"
  by (simp add: rated_tail_def part_lengths)

lemma rated_sql_length: "length (rated_batch_sql u) = length u + 8499"
  by (simp add: rated_batch_sql_def tail_length)

text \<open>The statements of a batch fit their buffers on both legs: the union of the account lookups is whole
  in its 6144 bytes, with one lookup for each mode of the leg, and the statement built around it is
  whole in its 16384 bytes. So \<open>snprintf\<close> never cuts a statement that \<open>DuckDB\<close> gets.\<close>

theorem batch_statement_whole:
  assumes "leg = CHR ''a'' \<or> leg = CHR ''b''"
  shows "\<exists>u. rt_build_acct_union leg 6144 = (int (length (List.filter (\<lambda>m. am_leg m = leg) rt_acct_modes)), u) \<and>
    u = concat (selects 0 (List.filter (\<lambda>m. am_leg m = leg) rt_acct_modes)) \<and>
    strncpy (rated_batch_sql u) 16383 = rated_batch_sql u"
proof -
  let ?u = "concat (selects 0 (List.filter (\<lambda>m. am_leg m = leg) rt_acct_modes))"
  have "length (rated_batch_sql ?u) \<le> 16383" using union_whole(2) [OF assms] by (simp add: rated_sql_length)
  then have "strncpy (rated_batch_sql ?u) 16383 = rated_batch_sql ?u" by (simp add: strncpy_def)
  then show ?thesis using union_whole(1) [OF assms] by blast
qed

theorem batch_statement_whole_witness:
  "fst (rt_build_acct_union (CHR ''b'') 6144) = 7"
  using batch_statement_whole [of "CHR ''b''"] by (auto simp: rt_acct_modes_def mode_entry_def)

end
