(* ===== verification/DuckRate.thy ===== *)
theory DuckRate
  imports DuckSql "HOL-Library.Multiset"
begin

text \<open>
  The batch engine against the engine that rates call by call: the order of the account modes, the
  rate of the longest prefix, the price of a portion, the free seconds of a pool.
\<close>

section \<open>First rows\<close>

lemma best_by_None [simp]: "best_by b xs = None \<longleftrightarrow> xs = []"
  by (cases xs) (simp_all split: option.splits)

lemma best_by_in: "best_by b xs = Some x \<Longrightarrow> x \<in> set xs"
  by (induction xs arbitrary: x) (auto split: option.splits if_splits)

lemma best_by_least:
  fixes f :: "'a \<Rightarrow> 'b::linorder"
  shows "best_by (\<lambda>x y. f x < f y) xs = Some x \<Longrightarrow> y \<in> set xs \<Longrightarrow> f x \<le> f y"
proof (induction xs arbitrary: x y)
  case (Cons z zs)
  show ?case
  proof (cases "best_by (\<lambda>x y. f x < f y) zs")
    case None
    then show ?thesis using Cons.prems by simp
  next
    case (Some w)
    then show ?thesis using Cons.prems Cons.IH [OF Some] by (fastforce split: if_splits)
  qed
qed simp

lemma best_by_first:
  fixes f :: "'a \<Rightarrow> 'b::linorder"
  shows "\<forall>y \<in> set ys. f x \<le> f y \<Longrightarrow> best_by (\<lambda>x y. f x < f y) (x # ys) = Some x"
  using best_by_in [of "\<lambda>x y. f x < f y" ys] by (fastforce split: option.splits dest: leD)

lemma best_by_append_left:
  fixes f :: "'a \<Rightarrow> 'b::linorder"
  assumes "xs \<noteq> []" "\<forall>x \<in> set xs. \<forall>y \<in> set ys. f x < f y"
  shows "best_by (\<lambda>x y. f x < f y) (xs @ ys) = best_by (\<lambda>x y. f x < f y) xs"
  using assms
proof (induction xs)
  case (Cons x xs)
  show ?case
  proof (cases "xs = []")
    case True
    then show ?thesis using Cons.prems best_by_first [of ys f x] by (simp add: less_imp_le)
  next
    case False
    then show ?thesis using Cons by simp
  qed
qed simp

lemma best_by_const:
  fixes f :: "'a \<Rightarrow> 'b::linorder"
  assumes "xs \<noteq> []" "\<forall>x \<in> set xs. f x = p"
  shows "best_by (\<lambda>x y. f x < f y) xs = Some (hd xs)"
  using assms best_by_first [of "tl xs" f "hd xs"] by (cases xs) auto

section \<open>The account\<close>

definition modes_for :: "char \<Rightarrow> int \<Rightarrow> acct_mode list" where
  "modes_for leg t = List.filter (\<lambda>m. am_leg m = leg \<and> am_rec_type m = t) rt_acct_modes"

lemma mode_rows_prio: "r \<in> set (mode_rows dm c m) \<Longrightarrow> ac_prio r = am_prio m"
  by (auto simp: mode_rows_def acct_of_def Let_def split: if_splits option.splits)

lemma acct_all_modes: "acct_all dm leg c = concat (map (mode_rows dm c) (modes_for leg (wr_cdr_rec_type_id c)))"
proof -
  have "concat (map (mode_rows dm c) (List.filter (\<lambda>m. am_leg m = leg) ms)) =
      concat (map (mode_rows dm c) (List.filter (\<lambda>m. am_leg m = leg \<and> am_rec_type m = wr_cdr_rec_type_id c) ms))" for ms
    by (induction ms) (auto simp: mode_rows_def)
  then show ?thesis by (simp add: acct_all_def modes_for_def)
qed

lemma first_mode:
  assumes "sorted_wrt (\<lambda>m n. am_prio m < am_prio n) ms"
  shows "best_by (\<lambda>x y. ac_prio x < ac_prio y) (concat (map (mode_rows dm c) ms)) =
    map_option (\<lambda>m. hd (mode_rows dm c m)) (List.find (\<lambda>m. mode_rows dm c m \<noteq> []) ms)"
  using assms
proof (induction ms)
  case (Cons m ms)
  show ?case
  proof (cases "mode_rows dm c m = []")
    case False
    have "\<forall>x \<in> set (mode_rows dm c m). \<forall>y \<in> set (concat (map (mode_rows dm c) ms)). ac_prio x < ac_prio y"
      using Cons.prems by (auto simp: mode_rows_prio)
    then show ?thesis using False best_by_append_left [OF False, of "concat (map (mode_rows dm c) ms)" ac_prio]
        best_by_const [OF False, of ac_prio "am_prio m"] by (simp add: mode_rows_prio)
  qed (use Cons in simp)
qed simp

lemma acct_first_mode:
  assumes "leg = CHR ''a'' \<or> leg = CHR ''b''" "t \<in> {0, 1, 2, 3, 5}"
  shows "sorted_wrt (\<lambda>m n. am_prio m < am_prio n) (modes_for leg t)"
  using assms by (auto simp: modes_for_def rt_acct_modes_def mode_entry_def)

definition asked :: "char \<Rightarrow> int \<Rightarrow> rating \<Rightarrow> acct_mode \<Rightarrow> bool" where
  "asked leg t pre m \<longleftrightarrow> \<not> (leg = CHR ''b'' \<and> t = 0 \<and>
     (am_mode_id m = 4 \<and> pre_dst_context pre = [] \<or> am_mode_id m = 6 \<and> pre_dst_tgroup pre = []))"

lemma try_modes_one: "try_modes env [m] pre s = try_mode env m pre s"
  by (cases "try_mode env m pre s") (auto split: prod.splits)

text \<open>The batch engine looks for the account of a call by the modes of the engine that rates
  call by call, in the same order: for every leg and type of record that engine rates, \<open>find_racc\<close> tries the
  modes whose lookups the statement of the batch unites, less those it leaves out on the B leg of an
  unknown record because the field is empty, and the account of the batch is the first row of the
  first mode that has one. For any other type neither finds an account.\<close>

theorem acct_modes_agree:
  assumes "leg = CHR ''a'' \<or> leg = CHR ''b''" "wr_cdr_rec_type_id c = t"
  shows "(find_racc env leg t pre s =
      try_modes env (map am_mode_id (List.filter (asked leg t pre) (modes_for leg t))) pre s) \<and>
    acct dm leg c = map_option (\<lambda>m. hd (mode_rows dm c m)) (List.find (\<lambda>m. mode_rows dm c m \<noteq> []) (modes_for leg t))"
proof
  have m: "modes_for l t = (if t \<in> {0, 1, 2, 3, 5} then modes_for l t else [])" if "l = CHR ''a'' \<or> l = CHR ''b''" for l
    by (auto simp: modes_for_def rt_acct_modes_def mode_entry_def)
  show "find_racc env leg t pre s = try_modes env (map am_mode_id (List.filter (asked leg t pre) (modes_for leg t))) pre s"
  proof (cases "t \<in> {0, 1, 2, 3, 5}")
    case True
    then show ?thesis using assms(1)
      by (auto simp: modes_for_def rt_acct_modes_def mode_entry_def asked_def find_racc_def rt_racc_unkn_a_def rt_racc_unkn_b_def
          rt_racc_isup_a_def rt_racc_isup_b_def rt_racc_sms_a_def rt_racc_sms_b_def rt_racc_voip_av_a_def rt_racc_voip_t_a_def
          rt_racc_voip_t_b_def try_modes_one simp del: try_modes.simps)
  next
    case False
    then show ?thesis using m assms(1) by (auto simp: find_racc_def)
  qed
  have "sorted_wrt (\<lambda>m n. am_prio m < am_prio n) (modes_for leg t)"
    using acct_first_mode [OF assms(1), of t] m [OF assms(1)] by (cases "t \<in> {0, 1, 2, 3, 5}") auto
  then show "acct dm leg c = map_option (\<lambda>m. hd (mode_rows dm c m)) (List.find (\<lambda>m. mode_rows dm c m \<noteq> []) (modes_for leg t))"
    using assms(2) by (simp add: acct_def acct_all_modes first_mode)
qed

section \<open>The rate\<close>

definition plain :: "string \<Rightarrow> bool" where
  "plain p \<longleftrightarrow> CHR ''%'' \<notin> set p \<and> CHR ''_'' \<notin> set p"

lemma like_any: "like ''%'' s"
  by (induction s) simp_all

lemma like_prefix: "plain p \<Longrightarrow> like (p @ ''%'') s \<longleftrightarrow> take (length p) s = p"
proof (induction p arbitrary: s)
  case (Cons x p)
  then show ?case by (cases s) (auto simp: plain_def)
qed (simp add: like_any)

definition rate_fits :: "dims \<Rightarrow> win_row \<Rightarrow> acct_row \<Rightarrow> rate_entry \<Rightarrow> string \<Rightarrow> bool" where
  "rate_fits dm c a r p \<longleftrightarrow> r \<in> set (dm_rate dm) \<and> rr_bill_plan_id r \<in> set (plans_of dm (ac_bplan_id a)) \<and>
     map_of (dm_prefix dm) (rr_prefix_id r) = Some p \<and> take (length p) (wr_called_number c) = p \<and>
     map_of (dm_tariff dm) (rr_tariff_id r) \<noteq> None"

lemma set_map_filter: "set (List.map_filter f xs) = {y. \<exists>x \<in> set xs. f x = Some y}"
  by (force simp: List.map_filter_def)

lemma prefix_matches_iff:
  assumes "\<forall>x \<in> set (dm_prefix dm). plain (snd x)"
  shows "prefix_matches dm c r = Some p \<longleftrightarrow> map_of (dm_prefix dm) (rr_prefix_id r) = Some p \<and>
     take (length p) (wr_called_number c) = p \<and> map_of (dm_tariff dm) (rr_tariff_id r) \<noteq> None"
proof (cases "map_of (dm_prefix dm) (rr_prefix_id r)")
  case (Some q)
  then have "plain q" using assms by (metis map_of_SomeD snd_conv)
  then show ?thesis using Some by (auto simp: prefix_matches_def like_prefix)
qed (simp add: prefix_matches_def)

lemma matched_iff:
  assumes "\<forall>x \<in> set (dm_prefix dm). plain (snd x)"
  shows "(r, p) \<in> set (matched dm c a) \<longleftrightarrow> rate_fits dm c a r p"
  using prefix_matches_iff [OF assms, of c]
  by (auto simp: matched_def plan_rates_def set_map_filter rate_fits_def)

lemma longer_key: "longer = (\<lambda>x y. - int (length (snd x)) < - int (length (snd y)))"
  by (auto simp: longer_def fun_eq_iff)

text \<open>When the prefixes hold no wildcard of \<open>LIKE\<close>, the batch engine takes for a call a rate
  of the plans of its account with a prefix of the called number such that no other such rate has a
  longer one, and none when there is no such rate.\<close>

theorem batch_rate_longest:
  assumes "\<forall>x \<in> set (dm_prefix dm). plain (snd x)"
  shows "case rate_of dm c a of
     None \<Rightarrow> \<not> (\<exists>r p. rate_fits dm c a r p)
   | Some r \<Rightarrow> \<exists>p. rate_fits dm c a r p \<and> (\<forall>r' p'. rate_fits dm c a r' p' \<longrightarrow> length p' \<le> length p)"
proof (cases "best_by longer (matched dm c a)")
  case None
  then have "\<not> (\<exists>r p. rate_fits dm c a r p)" using matched_iff [OF assms, of _ _ c a] by auto
  then show ?thesis using None by (simp add: rate_of_def)
next
  case (Some x)
  obtain r p where x: "x = (r, p)" by (cases x)
  have "rate_fits dm c a r p" using best_by_in [OF Some] matched_iff [OF assms] x by simp
  moreover have "length p' \<le> length p" if "rate_fits dm c a r' p'" for r' p'
    using best_by_least [of "\<lambda>x. - int (length (snd x))" "matched dm c a" x "(r', p')"] Some x that
      matched_iff [OF assms] by (simp add: longer_key)
  ultimately show ?thesis using Some x by (auto simp: rate_of_def)
qed

section \<open>Rates that tie\<close>

lemma acct_rates [simp]: "acct (dm\<lparr>dm_rate := R\<rparr>) leg c = acct dm leg c"
proof -
  have "acct_of (dm\<lparr>dm_rate := R\<rparr>) = acct_of dm" "deff_rows (dm\<lparr>dm_rate := R\<rparr>) = deff_rows dm"
    by (intro ext, simp add: acct_of_def deff_rows_def Let_def cong: if_cong option.case_cong)+
  then have "mode_rows (dm\<lparr>dm_rate := R\<rparr>) c = mode_rows dm c"
    by (intro ext) (simp add: mode_rows_def)
  then show ?thesis by (simp add: acct_def acct_all_def)
qed

lemma rates_simps [simp]:
  "plans_of (dm\<lparr>dm_rate := R\<rparr>) = plans_of dm" "prefix_matches (dm\<lparr>dm_rate := R\<rparr>) = prefix_matches dm"
  "tc_rows fns (dm\<lparr>dm_rate := R\<rparr>) = tc_rows fns dm" "has_tc (dm\<lparr>dm_rate := R\<rparr>) = has_tc dm"
  "duck_card_of fns (dm\<lparr>dm_rate := R\<rparr>) = duck_card_of fns dm"
  by (intro ext, simp add: plans_of_def prefix_matches_def tc_rows_def has_tc_def duck_card_of_def Let_def cong: if_cong option.case_cong)+

lemma tc_match_rates [simp]: "tc_match fns (dm\<lparr>dm_rate := R\<rparr>) = tc_match fns dm"
  by (intro ext) (simp add: tc_match_def)

lemma rate_read_first:
  assumes "\<forall>x \<in> set (dm_prefix dm). plain (snd x)" "plans_of dm (ac_bplan_id a) = [plan]"
    and "rate_fits dm c a r p" "\<forall>r' p'. rate_fits dm c a r' p' \<longrightarrow> length p' \<le> length p"
  shows "rate_of (dm\<lparr>dm_rate := r # remove1 r (dm_rate dm)\<rparr>) c a = Some r"
proof -
  let ?dm = "dm\<lparr>dm_rate := r # remove1 r (dm_rate dm)\<rparr>"
  have pl: "\<forall>x \<in> set (dm_prefix ?dm). plain (snd x)" using assms(1) by simp
  have f: "rate_fits ?dm c a r' p' \<longleftrightarrow> rate_fits dm c a r' p'" for r' p'
    using assms(3) in_set_remove1 [of r' r "dm_rate dm"] by (cases "r' = r") (auto simp: rate_fits_def)
  have m: "prefix_matches dm c r = Some p" "rr_bill_plan_id r = plan"
    using assms(2,3) prefix_matches_iff [OF assms(1)] by (auto simp: rate_fits_def)
  then obtain ys where ys: "matched ?dm c a = (r, p) # ys"
    using assms(2) by (simp add: matched_def plan_rates_def List.map_filter_simps)
  have "\<forall>y \<in> set ys. - int (length p) \<le> - int (length (snd y))"
    using assms(4) f matched_iff [OF pl, of _ _ c a] ys by (metis list.set_intros(2) neg_le_iff_le of_nat_le_iff surj_pair snd_conv)
  then have "best_by longer (matched ?dm c a) = Some (r, p)"
    using best_by_first [of ys "\<lambda>x. - int (length (snd x))" "(r, p)"] ys by (simp add: longer_key)
  then show ?thesis by (simp add: rate_of_def)
qed

text \<open>The batch engine chooses one rate before it looks at the time conditions. Where two rates
  of a plan have the same, longest, prefix, as the rates of the day and of the night have, and the conditions of one
  tariff do not hold at the time of the call while the other's do, then it depends on the order in
  which the rates are read whether the call is rated or marked as one that has no rate.\<close>

theorem tied_rate_lost:
  assumes "\<forall>x \<in> set (dm_prefix dm). plain (snd x)" "acct dm leg c = Some a" "plans_of dm (ac_bplan_id a) = [plan]"
    and "rate_fits dm c a r p" "rate_fits dm c a r' p" "\<forall>q p'. rate_fits dm c a q p' \<longrightarrow> length p' \<le> length p"
    and "has_tc dm (rr_tariff_id r)" "tc_match fns dm c (rr_tariff_id r) = None"
    and "has_tc dm (rr_tariff_id r') \<longrightarrow> tc_match fns dm c (rr_tariff_id r') \<noteq> None"
  shows "\<exists>R R'. mset R = mset (dm_rate dm) \<and> mset R' = mset (dm_rate dm) \<and>
    best_match fns (dm\<lparr>dm_rate := R\<rparr>) leg c = None \<and>
    (\<exists>bm. best_match fns (dm\<lparr>dm_rate := R'\<rparr>) leg c = Some bm \<and> bm_rate bm = r')"
proof (intro exI conjI)
  let ?R = "\<lambda>r. r # remove1 r (dm_rate dm)"
  have r: "r \<in> set (dm_rate dm)" "r' \<in> set (dm_rate dm)" using assms(4,5) by (simp_all add: rate_fits_def)
  show "mset (?R r) = mset (dm_rate dm)" "mset (?R r') = mset (dm_rate dm)" using r by simp_all
  show "best_match fns (dm\<lparr>dm_rate := ?R r\<rparr>) leg c = None"
    using rate_read_first [OF assms(1,3,4,6)] assms(2,7,8) by (simp add: best_match_def)
  have "best_match fns (dm\<lparr>dm_rate := ?R r'\<rparr>) leg c = Some \<lparr>bm_cdr = c, bm_secs = rounded_secs fns c a, bm_acct = a, bm_rate = r',
       bm_tc_id = (case tc_match fns dm c (rr_tariff_id r') of None \<Rightarrow> 0 | Some i \<Rightarrow> i),
       bm_pcard_id = (case duck_card_of fns dm (ac_bacc_id a) (wr_date c) of None \<Rightarrow> 0 | Some p \<Rightarrow> cl_id p)\<rparr>"
    using rate_read_first [OF assms(1,3,5,6)] assms(2,9) by (auto simp: best_match_def Let_def)
  then show "best_match fns (dm\<lparr>dm_rate := ?R r'\<rparr>) leg c = Some \<lparr>bm_cdr = c, bm_secs = rounded_secs fns c a, bm_acct = a, bm_rate = r',
       bm_tc_id = (case tc_match fns dm c (rr_tariff_id r') of None \<Rightarrow> 0 | Some i \<Rightarrow> i),
       bm_pcard_id = (case duck_card_of fns dm (ac_bacc_id a) (wr_date c) of None \<Rightarrow> 0 | Some p \<Rightarrow> cl_id p)\<rparr>" .
qed simp

section \<open>The price of a portion\<close>

text \<open>The steps of a tariff stand at the positions 1, 2, and so on.\<close>

definition tariff_rows :: "(int \<times> calc_function) list \<Rightarrow> int \<Rightarrow> calc_function list \<Rightarrow> bool" where
  "tariff_rows tbl tid cs \<longleftrightarrow> (\<forall>pos. steps_at tbl tid pos =
     (if 1 \<le> pos \<and> pos \<le> int (length cs) then [cs ! nat (pos - 1)] else []))"

lemma tariff_rows_at:
  assumes "tariff_rows tbl tid cs" "i < length cs"
  shows "steps_at tbl tid (int i + 1) = [cs ! i]" "cf_pos (cs ! i) = int i + 1"
proof -
  show s: "steps_at tbl tid (int i + 1) = [cs ! i]" using assms by (simp add: tariff_rows_def)
  have "cs ! i \<in> set (steps_at tbl tid (int i + 1))" using s by simp
  then show "cf_pos (cs ! i) = int i + 1" by (auto simp: steps_at_def)
qed

lemma tariff_rows_length: "tariff_rows tbl tid cs \<Longrightarrow> length cs \<le> length tbl"
proof -
  assume a: "tariff_rows tbl tid cs"
  have "i \<in> (\<lambda>x. nat (cf_pos (snd x) - 1)) ` set tbl" if "i < length cs" for i
  proof -
    have "cs ! i \<in> set (steps_at tbl tid (int i + 1))" using tariff_rows_at(1) [OF a that] by simp
    then show ?thesis by (force simp: steps_at_def)
  qed
  then have "{..<length cs} \<subseteq> (\<lambda>x. nat (cf_pos (snd x) - 1)) ` set tbl" by auto
  from card_mono [OF _ this] have "length cs \<le> card ((\<lambda>x. nat (cf_pos (snd x) - 1)) ` set tbl)" by simp
  also have "\<dots> \<le> card (set tbl)" by (rule card_image_le) simp
  also have "\<dots> \<le> length tbl" by (rule card_length)
  finally show ?thesis .
qed

lemma walk_rounds_Nil [simp]: "walk_rounds fp tbl tid n [] = []"
  by (induction n) simp_all

lemma walk_rounds_pos:
  "\<forall>y \<in> set rows. k \<le> wk_pos y \<Longrightarrow> x \<in> set (walk_rounds fp tbl tid n rows) \<Longrightarrow> k \<le> wk_pos x"
proof (induction n arbitrary: rows)
  case (Suc n)
  let ?next = "concat (map (\<lambda>p. map (walk_step fp (wk_rem p) (wk_price p) (wk_bsec p)) (steps_at tbl tid (wk_pos p + 1)))
     (List.filter (\<lambda>p. \<not> wk_done p) rows))"
  have "\<forall>y \<in> set ?next. k \<le> wk_pos y"
    using Suc.prems(1) by (fastforce simp: walk_step_def steps_at_def Let_def)
  then have "x \<in> set (walk_rounds fp tbl tid n ?next) \<Longrightarrow> k \<le> wk_pos x" by (rule Suc.IH)
  then show ?case using Suc.prems by (simp only: walk_rounds.simps set_append Un_iff) blast
qed simp

lemma last_step_Cons:
  assumes "rest \<noteq> []" "\<forall>x \<in> set rest. wk_pos w < wk_pos x"
  shows "last_step (w # rest) = last_step rest"
  using assms best_by_in [of "\<lambda>x y. wk_pos y < wk_pos x" rest]
  by (auto simp: last_step_def split: option.splits)

lemma walk_step_parts [simp]: "wk_pos (walk_step fp s p b c) = cf_pos c"
  by (simp add: walk_step_def Let_def)

lemma walk_last:
  assumes "tariff_rows tbl tid cs" "i < length cs" "length cs \<le> i + 1 + n"
    and "cte_loop fp s b p (drop i cs) = Some (q, b')"
  shows "\<exists>w. last_step (walk_rounds fp tbl tid n [walk_step fp s p b (cs ! i)]) = Some w \<and> wk_price w = q \<and> wk_bsec w = b'"
  using assms(2-)
proof (induction n arbitrary: i s p b)
  case 0
  then have "drop i cs = [cs ! i]" using Cons_nth_drop_Suc [of i cs] by simp
  with 0 show ?case
    by (auto simp: last_step_def walk_step_def Let_def cmul_def cadd_def csub_def split: bind_split_asm if_splits)
next
  case (Suc n)
  let ?c = "cs ! i" and ?w = "walk_step fp s p b (cs ! i)"
  have d: "drop i cs = ?c # drop (Suc i) cs" using Cons_nth_drop_Suc [OF Suc.prems(1)] by simp
  have loop: "(wk_done ?w \<longrightarrow> wk_price ?w = q \<and> wk_bsec ?w = b') \<and>
      (\<not> wk_done ?w \<longrightarrow> cte_loop fp (wk_rem ?w) (wk_bsec ?w) (wk_price ?w) (drop (Suc i) cs) = Some (q, b'))"
    using Suc.prems(3) unfolding d
    by (auto simp: walk_step_def Let_def cmul_def cadd_def csub_def split: bind_split_asm if_splits)
  have pos: "wk_pos ?w = int i + 1" using tariff_rows_at(2) [OF assms(1) Suc.prems(1)] by simp
  show ?case
  proof (cases "wk_done ?w")
    case True
    then show ?thesis using loop by (simp add: last_step_def)
  next
    case False
    show ?thesis
    proof (cases "Suc i < length cs")
      case True
      have at: "steps_at tbl tid (int i + 1 + 1) = [cs ! Suc i]"
        using tariff_rows_at(1) [OF assms(1) True] by (simp add: ac_simps)
      let ?rest = "walk_rounds fp tbl tid n [walk_step fp (wk_rem ?w) (wk_price ?w) (wk_bsec ?w) (cs ! Suc i)]"
      obtain w where w: "last_step ?rest = Some w" "wk_price w = q" "wk_bsec w = b'"
        using Suc.IH [OF True, of "wk_rem ?w" "wk_bsec ?w" "wk_price ?w"] loop False Suc.prems(2) by auto
      have "\<forall>x \<in> set ?rest. wk_pos ?w < wk_pos x"
        using walk_rounds_pos [of "[walk_step fp (wk_rem ?w) (wk_price ?w) (wk_bsec ?w) (cs ! Suc i)]" "int i + 2"]
          tariff_rows_at(2) [OF assms(1) True] pos by fastforce
      then have "last_step (?w # ?rest) = Some w"
        using last_step_Cons [of ?rest ?w] w(1) by (cases ?rest) (auto simp: last_step_def)
      then show ?thesis using False w(2,3) at pos by simp
    next
      case last: False
      then have "steps_at tbl tid (int i + 1 + 1) = []" "drop (Suc i) cs = []"
        using assms(1) by (simp_all add: tariff_rows_def)
      then show ?thesis using loop False pos by (simp add: last_step_def)
    qed
  qed
qed

text \<open>Property C17. The walk of the recursive statement over the steps of a tariff ends with the price and the
  billed seconds that \<open>calc_cprice_2\<close> computes, for every well-formed tariff whose steps are numbered
  from 1 without a gap and every call below \<open>2 ^ 24\<close> seconds; \<open>calc_cprice_2\<close> takes the number of blocks
  from a \<open>float\<close>, the statement from a \<open>double\<close>.\<close>

theorem batch_price:
  assumes "fp_ok fp" "racc_calc_funcs r = Some (Some cs)" "tariff_ok cs" "cs \<noteq> []" "tariff_rows tbl tid cs"
    and "\<bar>pre_billsec (ra_pre r)\<bar> < 2 ^ 24"
  shows "\<exists>w ret r'. last_step (price_walk fp tbl tid (pre_billsec (ra_pre r))) = Some w \<and> calc_cprice_2 fp r = Some (ret, r') \<and>
    pre_cprice (ra_pre r') = wk_price w \<and> pre_billsec (ra_pre r') = wk_bsec w"
proof -
  let ?s = "pre_billsec (ra_pre r)"
  obtain q b s' where l: "calc_cprice_2_loop fp ?s 0 0 cs = Some (q, b, s')"
    using calc_cprice_2_loop_blocks [OF assms(1,3), of ?s 0 0] assms(6) by auto
  then have c: "cte_loop fp ?s 0 0 (drop 0 cs) = Some (q, b)"
    using cte_loop_eq [OF assms(1,3), of ?s 0 0] assms(6) by simp
  have "steps_at tbl tid 1 = [cs ! 0]" using tariff_rows_at(1) [OF assms(5), of 0] assms(4) by simp
  then obtain w where "last_step (price_walk fp tbl tid ?s) = Some w" "wk_price w = q" "wk_bsec w = b"
    using walk_last [OF assms(5) _ _ c, of "length tbl"] assms(4) tariff_rows_length [OF assms(5)] by (auto simp: price_walk_def)
  moreover obtain ret r' where "calc_cprice_2 fp r = Some (ret, r')" "pre_cprice (ra_pre r') = q" "pre_billsec (ra_pre r') = b"
    using l assms(2) by (auto simp: calc_cprice_2_def)
  ultimately show ?thesis by blast
qed

section \<open>The free seconds of a pool\<close>

definition pool_calls :: "int \<times> int \<times> int \<Rightarrow> fb_row list \<Rightarrow> fb_row list" where
  "pool_calls k fs = List.filter (\<lambda>x. pooled x \<and> pool_key x = k) fs"

lemma fb_of_limit:
  assumes "fb_of fns dm b1 = Some x1" "fb_of fns dm b2 = Some x2" "fb_fbid x1 = fb_fbid x2"
  shows "fb_limit x1 = fb_limit x2"
  using assms by (auto simp: fb_of_def split: bind_split_asm)

lemma best_match_cdr: "best_match fns dm leg c = Some bm \<Longrightarrow> bm_cdr bm = c"
  by (auto simp: best_match_def Let_def split: bind_split_asm if_splits)

lemma fb_of_best: "fb_of fns dm bm = Some x \<Longrightarrow> fb_best x = bm"
  by (auto simp: fb_of_def split: bind_split_asm)

lemma fbs_source:
  "x \<in> set (fbs fns dm leg win) \<Longrightarrow> \<exists>c \<in> set win. \<exists>bm. best_match fns dm leg c = Some bm \<and> fb_of fns dm bm = Some x \<and> fb_id x = wr_id c"
  unfolding fbs_def set_map_filter Option.bind_eq_Some_conv
  by (auto simp: fb_id_def fb_of_best best_match_cdr; blast)

lemma fbs_sorted:
  assumes "sorted_wrt (\<lambda>c d. wr_id c < wr_id d) win"
  shows "sorted_wrt (\<lambda>x y. fb_id x < fb_id y) (fbs fns dm leg win)"
  using assms
proof (induction win)
  case (Cons c win)
  have "fb_id x = wr_id c" if "Option.bind (best_match fns dm leg c) (fb_of fns dm) = Some x" for x
    using that by (auto simp: Option.bind_eq_Some_conv fb_id_def fb_of_best best_match_cdr)
  moreover have "\<forall>y \<in> set (fbs fns dm leg win). wr_id c < fb_id y"
    using Cons.prems fbs_source [of _ fns dm leg win] by fastforce
  ultimately show ?case using Cons
    by (auto simp: fbs_def List.map_filter_simps split: option.splits)
qed (simp add: fbs_def List.map_filter_simps)

lemma pool_calls_key: "pool_calls k fs = as @ x # bs \<Longrightarrow> pool_key x = k"
proof -
  assume "pool_calls k fs = as @ x # bs"
  then have "x \<in> set (pool_calls k fs)" by simp
  then show ?thesis by (simp add: pool_calls_def)
qed

lemma earlier_prefix:
  assumes "sorted_wrt (\<lambda>x y. fb_id x < fb_id y) fs" "pool_calls k fs = as @ x # bs"
  shows "earlier_secs fs x = sum_list (map (\<lambda>y. bm_secs (fb_best y)) as)"
proof -
  have s: "sorted_wrt (\<lambda>x y. fb_id x < fb_id y) (as @ x # bs)"
    using assms sorted_wrt_filter [OF assms(1), of "\<lambda>x. pooled x \<and> pool_key x = k"] by (simp add: pool_calls_def)
  have k: "pool_key x = k" using assms(2) by (rule pool_calls_key)
  have "List.filter (\<lambda>y. pooled y \<and> pool_key y = k \<and> fb_id y < fb_id x) fs = List.filter (\<lambda>y. fb_id y < fb_id x) (pool_calls k fs)"
    unfolding pool_calls_def filter_filter by (rule filter_cong) auto
  also have "\<dots> = as"
    using s unfolding assms(2) by (auto simp: sorted_wrt_append intro!: filter_True filter_False)
  finally show ?thesis by (simp add: earlier_secs_def k)
qed

lemma pool_clamp:
  assumes "sorted_wrt (\<lambda>x y. fb_id x < fb_id y) fs" "pool_calls k fs = as @ bs"
    and "\<forall>x \<in> set bs. fb_limit x = l" "\<forall>x \<in> set bs. 0 \<le> bm_secs (fb_best x)"
  shows "map (free_sec fns dm fs) bs = free_clamp l (used_before fns dm k)
    (sum_list (map (\<lambda>y. bm_secs (fb_best y)) as)) (map (\<lambda>y. bm_secs (fb_best y)) bs)"
  using assms(2-)
proof (induction bs arbitrary: as)
  case (Cons x bs)
  have e: "earlier_secs fs x = sum_list (map (\<lambda>y. bm_secs (fb_best y)) as)"
    by (rule earlier_prefix [OF assms(1) Cons.prems(1)])
  have k: "pool_key x = k" using Cons.prems(1) by (rule pool_calls_key)
  have "map (free_sec fns dm fs) bs = free_clamp l (used_before fns dm k)
      (sum_list (map (\<lambda>y. bm_secs (fb_best y)) (as @ [x]))) (map (\<lambda>y. bm_secs (fb_best y)) bs)"
    using Cons.prems by (intro Cons.IH) simp_all
  moreover have "free_sec fns dm fs x = max 0 (min (bm_secs (fb_best x))
      (l - (used_before fns dm k + sum_list (map (\<lambda>y. bm_secs (fb_best y)) as))))"
    using Cons.prems(2) e k by (simp add: free_sec_def)
  ultimately show ?case using Cons.prems(3) by (auto simp: Let_def)
qed simp

text \<open>The calls of a window that share a pool of free seconds draw it down in the order of their ids,
  just as if they were rated one by one: each call gets as many of its seconds free as the limit has left
  after the seconds used before in the period and by the calls before it. And the free and the paid
  portion of each call make up its seconds, so that no second is lost or rated twice.\<close>

theorem pool_drawn_in_order:
  assumes "sorted_wrt (\<lambda>c d. wr_id c < wr_id d) win" "fs = fbs fns dm leg win" "pool_calls k fs = x # xs"
    and "\<forall>y \<in> set (x # xs). 0 \<le> bm_secs (fb_best y)"
  shows "map (free_sec fns dm fs) (x # xs) =
      free_seq (fb_limit x) (used_before fns dm k) (map (\<lambda>y. bm_secs (fb_best y)) (x # xs)) \<and>
    (\<forall>y \<in> set (x # xs). sum_list (map snd (portions fns dm fs y)) = bm_secs (fb_best y))"
proof
  let ?secs = "map (\<lambda>y. bm_secs (fb_best y))"
  have s: "sorted_wrt (\<lambda>x y. fb_id x < fb_id y) fs" using fbs_sorted [OF assms(1)] assms(2) by simp
  have "\<forall>y \<in> set (x # xs). fb_limit y = fb_limit x"
  proof
    fix y assume that: "y \<in> set (x # xs)"
    have "y \<in> set (pool_calls k fs)" "x \<in> set (pool_calls k fs)" using that assms(3) by auto
    then have "y \<in> set fs" "x \<in> set fs" "pool_key y = pool_key x" by (auto simp: pool_calls_def)
    then obtain b1 b2 where "fb_of fns dm b1 = Some y" "fb_of fns dm b2 = Some x" "fb_fbid y = fb_fbid x"
      using fbs_source [of y fns dm leg win] fbs_source [of x fns dm leg win] assms(2) by (auto simp: pool_key_def)
    then show "fb_limit y = fb_limit x" by (rule fb_of_limit)
  qed
  from pool_clamp [OF s _ this assms(4), of k "[]"] assms(3)
  have "map (free_sec fns dm fs) (x # xs) = free_clamp (fb_limit x) (used_before fns dm k) 0 (?secs (x # xs))"
    by (simp del: free_clamp.simps list.map(2))
  also have "\<dots> = free_seq (fb_limit x) (used_before fns dm k) (?secs (x # xs))"
    using assms(4) by (intro free_seq_eq_clamp [symmetric]) auto
  finally show "map (free_sec fns dm fs) (x # xs) = free_seq (fb_limit x) (used_before fns dm k) (?secs (x # xs))" .
  show "\<forall>y \<in> set (x # xs). sum_list (map snd (portions fns dm fs y)) = bm_secs (fb_best y)"
  proof
    fix y assume y: "y \<in> set (x # xs)"
    have "0 \<le> free_sec fns dm fs y" "free_sec fns dm fs y \<le> bm_secs (fb_best y)"
      using assms(4) y by (auto simp: free_sec_def)
    then show "sum_list (map snd (portions fns dm fs y)) = bm_secs (fb_best y)"
      by (auto simp: portions_def Let_def)
  qed
qed

section \<open>The balances\<close>

lemma foldl_exact: "foldl (dadd exact) a xs = a + sum_list xs"
  by (induction xs arbitrary: a) (simp_all add: add.assoc)

lemma sum_swap_list: "(\<Sum>k \<in> K. sum_list (map (f k) xs)) = sum_list (map (\<lambda>x. \<Sum>k \<in> K. f k x) (xs :: 'a list))"
  for f :: "'k \<Rightarrow> 'a \<Rightarrow> rat"
  by (induction xs) (simp_all add: sum.distrib)

lemma grouped_sum:
  "sum_list (map (\<lambda>k. sum_list (map snd (List.filter (\<lambda>x. fst x = k) ks))) (remdups (map fst ks))) = sum_list (map snd (ks :: ('k \<times> rat) list))"
proof -
  have e: "sum_list (map snd (List.filter (\<lambda>x. fst x = k) ks)) = sum_list (map (\<lambda>x. if fst x = k then snd x else 0) ks)" for k
    by (simp add: sum_list_map_filter')
  have "sum_list (map (\<lambda>k. sum_list (map snd (List.filter (\<lambda>x. fst x = k) ks))) (remdups (map fst ks)))
      = (\<Sum>k \<in> fst ` set ks. sum_list (map (\<lambda>x. if fst x = k then snd x else 0) ks))"
    by (simp add: e sum_list_distinct_conv_sum_set)
  also have "\<dots> = sum_list (map (\<lambda>x. \<Sum>k \<in> fst ` set ks. if fst x = k then snd x else 0) ks)"
    by (rule sum_swap_list)
  also have "\<dots> = sum_list (map snd ks)"
    by (rule arg_cong [of _ _ sum_list], rule map_cong) auto
  finally show ?thesis .
qed

text \<open>The batch charges every account and period once, and what it charges in all is the sum of the
  prices of the paid rows whose account has a card that holds on the day of the call: no row is
  counted twice and none with a card is lost, in exact arithmetic. Free rows are not charged.\<close>

theorem balances_charged:
  assumes "df_fp fns = exact"
  shows "distinct (map fst (bal_delta fns dm rb)) \<and>
    sum_list (map snd (bal_delta fns dm rb)) =
      sum_list (map rb_cprice (List.filter (\<lambda>r. \<not> rb_is_free r \<and> bal_period fns dm r \<noteq> None) rb))"
proof
  have d: "bal_delta fns dm rb = map (\<lambda>k. (k, sum_list (map snd (List.filter (\<lambda>x. fst x = k) (bal_keyed fns dm rb)))))
      (remdups (map fst (bal_keyed fns dm rb)))"
    using assms by (simp add: bal_delta_def Let_def foldl_exact)
  show "distinct (map fst (bal_delta fns dm rb))" by (simp add: d comp_def)
  have "sum_list (map snd (bal_keyed fns dm rb)) =
      sum_list (map rb_cprice (List.filter (\<lambda>r. \<not> rb_is_free r \<and> bal_period fns dm r \<noteq> None) rb))"
    by (induction rb) (auto simp: bal_keyed_def List.map_filter_simps split: option.splits)
  then show "sum_list (map snd (bal_delta fns dm rb)) =
      sum_list (map rb_cprice (List.filter (\<lambda>r. \<not> rb_is_free r \<and> bal_period fns dm r \<noteq> None) rb))"
    by (simp add: d comp_def grouped_sum)
qed

section \<open>Witnesses\<close>

text \<open>A calendar with months of 30 days, an account found by its calling number or by its account code, and
  a plan with a rate of the day and one of the night for the same prefix and a rate with free seconds.\<close>

definition demo_fns :: duck_fns where
  "demo_fns = \<lparr>df_fp = exact, df_to_date = (\<lambda>_. None), df_to_int = atoi, df_day = (\<lambda>d. d mod 30 + 1),
     df_month = (\<lambda>d. d - d mod 30), df_prev_month = (\<lambda>d. d - d mod 30 - 30), df_add_month = (\<lambda>d. d + 30),
     df_isodow = (\<lambda>d. d mod 7 + 1)\<rparr>"

definition demo_win :: "int \<Rightarrow> string \<Rightarrow> win_row" where
  "demo_win i cld = \<lparr>wr_id = i, wr_calling_number = Some ''3592'', wr_called_number = cld, wr_billsec = 50, wr_billusec = 50000000,
     wr_start_ts = ''2024-06-11 22:00:00'', wr_date = 71, wr_time = ''22:00:00'', wr_cdr_server_id = 1, wr_cdr_rec_type_id = 3,
     wr_account_code = Some ''acme'', wr_src_context = None, wr_dst_context = None, wr_src_tgroup = None, wr_dst_tgroup = None,
     wr_clg_nadi = 0, wr_cld_nadi = 0\<rparr>"

definition demo_steps :: "calc_function list" where
  "demo_steps = [\<lparr>cf_pos = 1, cf_delta = 60, cf_fee = 1, cf_iterations = 1\<rparr>, \<lparr>cf_pos = 2, cf_delta = 10, cf_fee = 1/10, cf_iterations = 0\<rparr>]"

definition demo_dims :: dims where
  "demo_dims = \<lparr>
     dm_lookup = (\<lambda>t. if t = ''calling_number'' then [\<lparr>lk_id = 5, lk_key = ''3591'', lk_billing_account_id = 8\<rparr>]
       else if t = ''account_code'' then [\<lparr>lk_id = 6, lk_key = ''acme'', lk_billing_account_id = 9\<rparr>] else []),
     dm_deff = (\<lambda>t. if t = ''account_code'' then [\<lparr>de_ref = 6, de_bill_plan_id = 4, de_sm_bill_plan_id = 0, de_clg_nadi = 0, de_cld_nadi = 0\<rparr>] else []),
     dm_bacc = [(9, \<lparr>br_cdr_server_id = 1, br_billing_day = Some ''01'', br_round_mode_id = 1\<rparr>)],
     dm_bill_plan = [4], dm_tree = [],
     dm_rate = [\<lparr>rr_id = 11, rr_bill_plan_id = 4, rr_tariff_id = 1, rr_prefix_id = 21\<rparr>,
       \<lparr>rr_id = 12, rr_bill_plan_id = 4, rr_tariff_id = 2, rr_prefix_id = 21\<rparr>,
       \<lparr>rr_id = 13, rr_bill_plan_id = 4, rr_tariff_id = 3, rr_prefix_id = 22\<rparr>],
     dm_prefix = [(21, ''359''), (22, ''44'')], dm_tariff = [(1, 0), (2, 0), (3, 31)],
     dm_calc = map (Pair 1) demo_steps @ map (Pair 2) demo_steps @ map (Pair 3) demo_steps,
     dm_tc = [\<lparr>tr_tariff_id = 1, tr_time_condition_id = 41, tr_prior = 40\<rparr>],
     dm_tcdeff = [(41, \<lparr>td_hours = Some ''08:00-18:00'', td_days_week = Some ''mon-sun'', td_tc_date = None\<rparr>)],
     dm_free_billsec = [(31, 100)],
     dm_pcard = [\<lparr>cl_id = 51, cl_billing_account_id = 9, cl_pcard_status_id = 1, cl_pcard_type_id = 2, cl_start_date = None, cl_end_date = None\<rparr>],
     dm_rating = [\<lparr>rl_billing_account_id = 9, rl_free_billsec_id = 31, rl_call_price = -1, rl_call_billsec = 20, rl_call_date = 65\<rparr>]\<rparr>"

definition demo_acct :: acct_row where
  "demo_acct = \<lparr>ac_prio = 2, ac_mode = 2, ac_bacc_id = 9,
     ac_bacc = \<lparr>br_cdr_server_id = 1, br_billing_day = Some ''01'', br_round_mode_id = 1\<rparr>, ac_bplan_id = 4\<rparr>"

lemma demo_account: "acct demo_dims (CHR ''a'') (demo_win i cld) = Some demo_acct"
  by code_simp

theorem acct_modes_agree_witness:
  "(\<forall>env (s :: recorder st). find_racc env (CHR ''a'') 3 rating0 s = try_modes env [1, 2] rating0 s) \<and>
    acct demo_dims (CHR ''a'') (demo_win 1 ''3592'') = Some demo_acct \<and>
    mode_rows demo_dims (demo_win 1 ''3592'') (mode_entry (CHR ''a'') 3 1 1 ''calling_number'' ''bill_plan_id'' 0) = []"
proof -
  have m: "map am_mode_id (List.filter (asked (CHR ''a'') 3 rating0) (modes_for (CHR ''a'') 3)) = [1, 2]"
    by (simp add: modes_for_def rt_acct_modes_def mode_entry_def asked_def)
  have n: "mode_rows demo_dims (demo_win 1 ''3592'') (mode_entry (CHR ''a'') 3 1 1 ''calling_number'' ''bill_plan_id'' 0) = []"
    "map_option (\<lambda>m. hd (mode_rows demo_dims (demo_win 1 ''3592'') m)) (List.find (\<lambda>m. mode_rows demo_dims (demo_win 1 ''3592'') m \<noteq> []) (modes_for (CHR ''a'') 3)) = Some demo_acct"
    by code_simp+
  have t: "wr_cdr_rec_type_id (demo_win 1 ''3592'') = 3" by (simp add: demo_win_def)
  have "find_racc env (CHR ''a'') 3 rating0 s = try_modes env [1, 2] rating0 s" for env and s :: "recorder st"
    using acct_modes_agree [OF _ t, of "CHR ''a''" env rating0 s demo_dims] m by simp
  moreover have "acct demo_dims (CHR ''a'') (demo_win 1 ''3592'') = Some demo_acct"
    using acct_modes_agree [OF _ t, of "CHR ''a''" exact_env rating0 "ost (\<lambda>_ _. (0, None)) [] None None" demo_dims] n(2) by simp
  ultimately show ?thesis using n(1) by blast
qed

lemma demo_plain: "\<forall>x \<in> set (dm_prefix demo_dims). plain (snd x)"
  by (simp add: demo_dims_def plain_def)

theorem batch_rate_longest_witness:
  "rate_of demo_dims (demo_win 1 ''4420'') demo_acct = Some \<lparr>rr_id = 13, rr_bill_plan_id = 4, rr_tariff_id = 3, rr_prefix_id = 22\<rparr> \<and>
    rate_fits demo_dims (demo_win 1 ''4420'') demo_acct \<lparr>rr_id = 13, rr_bill_plan_id = 4, rr_tariff_id = 3, rr_prefix_id = 22\<rparr> ''44''"
proof -
  have "rate_of demo_dims (demo_win 1 ''4420'') demo_acct = Some \<lparr>rr_id = 13, rr_bill_plan_id = 4, rr_tariff_id = 3, rr_prefix_id = 22\<rparr>"
    by code_simp
  then show ?thesis
    using batch_rate_longest [OF demo_plain, of "demo_win 1 ''4420''" demo_acct] by (auto simp: rate_fits_def demo_dims_def)
qed

theorem tied_rate_lost_witness:
  "\<exists>R R'. mset R = mset R' \<and> best_match demo_fns (demo_dims\<lparr>dm_rate := R\<rparr>) (CHR ''a'') (demo_win 1 ''3592'') = None \<and>
    (\<exists>bm. best_match demo_fns (demo_dims\<lparr>dm_rate := R'\<rparr>) (CHR ''a'') (demo_win 1 ''3592'') = Some bm \<and> rr_id (bm_rate bm) = 12)"
proof -
  let ?c = "demo_win 1 ''3592''"
  let ?r = "\<lparr>rr_id = 11, rr_bill_plan_id = 4, rr_tariff_id = 1, rr_prefix_id = 21\<rparr>"
  let ?r' = "\<lparr>rr_id = 12, rr_bill_plan_id = 4, rr_tariff_id = 2, rr_prefix_id = 21\<rparr>"
  have p: "plans_of demo_dims (ac_bplan_id demo_acct) = [4]" by code_simp
  have f: "rate_fits demo_dims ?c demo_acct ?r ''359''" "rate_fits demo_dims ?c demo_acct ?r' ''359''"
    by (simp_all add: rate_fits_def p) (simp_all add: demo_dims_def demo_win_def)
  have l: "\<forall>q p'. rate_fits demo_dims ?c demo_acct q p' \<longrightarrow> length p' \<le> length ''359''"
    by (auto simp: rate_fits_def demo_dims_def split: if_splits)
  have t: "tc_match demo_fns demo_dims ?c 1 = None" "has_tc demo_dims 1" "\<not> has_tc demo_dims 2" by code_simp+
  obtain R R' bm where "mset R = mset (dm_rate demo_dims)" "mset R' = mset (dm_rate demo_dims)"
    "best_match demo_fns (demo_dims\<lparr>dm_rate := R\<rparr>) (CHR ''a'') ?c = None"
    "best_match demo_fns (demo_dims\<lparr>dm_rate := R'\<rparr>) (CHR ''a'') ?c = Some bm" "bm_rate bm = ?r'"
    using tied_rate_lost [OF demo_plain demo_account p f l, of demo_fns] t by auto
  then show ?thesis by (intro exI [of _ R] exI [of _ R'] conjI exI [of _ bm]) simp_all
qed

lemma demo_tariff_rows: "tariff_rows (dm_calc demo_dims) 2 demo_steps"
proof -
  have "steps_at (dm_calc demo_dims) 2 pos = (if pos = 1 then [demo_steps ! 0] else if pos = 2 then [demo_steps ! 1] else [])" for pos
    by (auto simp: steps_at_def demo_dims_def demo_steps_def)
  then show ?thesis by (auto simp: tariff_rows_def demo_steps_def)
qed

theorem batch_price_witness:
  "\<exists>w. last_step (price_walk exact (dm_calc demo_dims) 2 75) = Some w \<and> wk_bsec w = 80 \<and>
    map_option (\<lambda>(ret, r'). pre_billsec (ra_pre r')) (calc_cprice_2 exact (tariff_account demo_steps (rating0\<lparr>pre_billsec := 75\<rparr>))) = Some 80"
proof -
  let ?r = "tariff_account demo_steps (rating0\<lparr>pre_billsec := 75\<rparr>)"
  have "racc_calc_funcs ?r = Some (Some demo_steps)" "tariff_ok demo_steps" "demo_steps \<noteq> []" "pre_billsec (ra_pre ?r) = 75"
    by (simp_all add: demo_steps_def step_ok_def)
  moreover have "map_option wk_bsec (last_step (price_walk exact (dm_calc demo_dims) 2 75)) = Some 80" by code_simp
  ultimately show ?thesis using batch_price [of exact ?r demo_steps "dm_calc demo_dims" 2] demo_tariff_rows by auto
qed

theorem pool_drawn_in_order_witness:
  "\<exists>xs. pool_calls (9, 31, 60) (fbs demo_fns demo_dims (CHR ''a'') [demo_win 1 ''4420'', demo_win 2 ''4420'']) = xs \<and>
     map (free_sec demo_fns demo_dims xs) xs = [50, 30]"
proof -
  let ?fs = "fbs demo_fns demo_dims (CHR ''a'') [demo_win 1 ''4420'', demo_win 2 ''4420'']"
  have "map (\<lambda>y. (fb_limit y, bm_secs (fb_best y))) (pool_calls (9, 31, 60) ?fs) = [(100, 50), (100, 50)]"
    "used_before demo_fns demo_dims (9, 31, 60) = 20" by code_simp+
  moreover have e: "pool_calls (9, 31, 60) ?fs = ?fs" by code_simp
  ultimately obtain x y where xy: "?fs = [x, y]" "fb_limit x = 100" "bm_secs (fb_best x) = 50" "bm_secs (fb_best y) = 50"
    "used_before demo_fns demo_dims (9, 31, 60) = 20" by auto
  have w: "sorted_wrt (\<lambda>c d. wr_id c < wr_id d) [demo_win 1 ''4420'', demo_win 2 ''4420'']" by (simp add: demo_win_def)
  have "map (free_sec demo_fns demo_dims ?fs) [x, y] = free_seq 100 20 [50, 50]"
    using pool_drawn_in_order [OF w refl, of "(9, 31, 60)" demo_fns demo_dims "CHR ''a''" x "[y]"] e xy by simp
  then show ?thesis using e xy(1) by (simp add: Let_def)
qed

definition demo_paid :: "rat \<Rightarrow> rated_row" where
  "demo_paid p = \<lparr>rb_cdr_id = 1, rb_billsec = 60, rb_start_ts = ''2024-06-11 22:00:00'', rb_date = 71, rb_bacc_id = 9, rb_rate_id = 12,
     rb_cprice = p, rb_free_billsec_id = 0, rb_is_free = False, rb_rating_mode_id = 2, rb_pcard_id = 51, rb_time_condition_id = 0\<rparr>"

theorem balances_charged_witness:
  "map snd (bal_delta demo_fns demo_dims [demo_paid 2, demo_paid 3]) = [5]"
proof -
  have e: "df_fp demo_fns = exact" by (simp add: demo_fns_def)
  have "bal_period demo_fns demo_dims (demo_paid p) = Some (60, 90)" for p by code_simp
  moreover have "length (bal_delta demo_fns demo_dims [demo_paid 2, demo_paid 3]) = 1" by code_simp
  ultimately show ?thesis
    using balances_charged [OF e, of demo_dims "[demo_paid 2, demo_paid 3]"]
    by (cases "bal_delta demo_fns demo_dims [demo_paid 2, demo_paid 3]") (auto simp: demo_paid_def)
qed

end
