(* ===== verification/Config.thy ===== *)
theory Config
  imports XmlCfg CFloat Net
begin

text \<open>
  The configurations of the modules: \<open>Rating/rt_cfg.c\<close>, \<open>CallControl/cc_cfg.c\<close> with the files of
  its interfaces (\<open>misc/exten/file_list.c\<close>), and the part of the section \<open>Rating\<close> that
  \<open>RatingDuckDB/rating_duckdb.c\<close> reads. A use of a null pointer is undefined, the value \<open>None\<close>.
\<close>

section \<open>Rating\<close>

record rt_cfg =
  rc_use_pcard :: char
  rc_billing_day :: string
  rc_day_of_payment :: int
  rc_rating_active_flag :: char
  rc_no_prefix_rating :: char
  rc_rating_interval :: int
  rc_wait_rating :: u32
  rc_k_limit_min :: rat
  rc_pcard_sort_key :: string
  rc_pcard_sort_mode :: string
  rc_leg :: char
  rc_bal_num :: u16
  rc_rating_threads :: u16
  rc_rt_cfg_json_dir :: string

definition rt_cfg_init :: rt_cfg where
  "rt_cfg_init = \<lparr>rc_use_pcard = CHR 0x00, rc_billing_day = [], rc_day_of_payment = 0, rc_rating_active_flag = CHR 0x00,
     rc_no_prefix_rating = CHR 0x00, rc_rating_interval = 0, rc_wait_rating = 0, rc_k_limit_min = 0, rc_pcard_sort_key = [],
     rc_pcard_sort_mode = [], rc_leg = CHR 0x00, rc_bal_num = 0, rc_rating_threads = 0, rc_rt_cfg_json_dir = []\<rparr>"

text \<open>A \<open>double\<close> stored in a \<open>float\<close>.\<close>

definition to_float :: "rat \<Rightarrow> rat" where
  "to_float x = fl 24 (fl 53 x)"

definition rt_cfg_param :: "xml_param \<Rightarrow> rt_cfg \<Rightarrow> rt_cfg option" where
  "rt_cfg_param p cfg = do {
     cfg \<leftarrow> on_val ''active'' (\<lambda>v c. c\<lparr>rc_rating_active_flag := yes_flag v\<rparr>) p cfg;
     cfg \<leftarrow> on_val ''UsePCard'' (\<lambda>v c. c\<lparr>rc_use_pcard := yes_flag v\<rparr>) p cfg;
     cfg \<leftarrow> on_str ''PCardSortKey'' 12 (\<lambda>v c. c\<lparr>rc_pcard_sort_key := v\<rparr>) p cfg;
     cfg \<leftarrow> on_str ''PCardSortMode'' 5 (\<lambda>v c. c\<lparr>rc_pcard_sort_mode := v\<rparr>) p cfg;
     cfg \<leftarrow> on_val ''NoPrefixRating'' (\<lambda>v c. c\<lparr>rc_no_prefix_rating := first_char v\<rparr>) p cfg;
     cfg \<leftarrow> on_str ''BillingDay'' 3 (\<lambda>v c. c\<lparr>rc_billing_day := v\<rparr>) p cfg;
     cfg \<leftarrow> on_int ''RatingInterval'' (\<lambda>v c. c\<lparr>rc_rating_interval := v\<rparr>) p cfg;
     cfg \<leftarrow> on_int ''WaitRatingInterval'' (\<lambda>v c. c\<lparr>rc_wait_rating := word_of_int v\<rparr>) p cfg;
     cfg \<leftarrow> on_int ''DayOfPayment'' (\<lambda>v c. c\<lparr>rc_day_of_payment := v\<rparr>) p cfg;
     cfg \<leftarrow> on_val ''KLimitMin'' (\<lambda>v c. c\<lparr>rc_k_limit_min := to_float (atof v)\<rparr>) p cfg;
     cfg \<leftarrow> on_val ''leg'' (\<lambda>v c. if first_char v = CHR ''a'' \<or> first_char v = CHR ''b'' then c\<lparr>rc_leg := first_char v\<rparr> else c) p cfg;
     cfg \<leftarrow> on_int ''BalActiveNum'' (\<lambda>v c. c\<lparr>rc_bal_num := word_of_int v\<rparr>) p cfg;
     cfg \<leftarrow> on_str ''RatingJSONConfigDIR'' 256 (\<lambda>v c. c\<lparr>rc_rt_cfg_json_dir := v\<rparr>) p cfg;
     on_int ''RatingThreads'' (\<lambda>v c. c\<lparr>rc_rating_threads := word_of_int v\<rparr>) p cfg
   }"

definition rt_cfg_get :: "xml \<Rightarrow> rt_cfg \<Rightarrow> rt_cfg option" where
  "rt_cfg_get top_el cfg = do { (cfg, node) \<leftarrow> read_section top_el ''Rating'' rt_cfg_param xml_node0 cfg; Some cfg }"

definition rt_cfg_params_init :: "rt_cfg \<Rightarrow> rt_cfg" where
  "rt_cfg_params_init cfg = (let
     cfg = (if rc_billing_day cfg = [] then cfg\<lparr>rc_billing_day := ''01''\<rparr> else cfg);
     cfg = (if rc_day_of_payment cfg = 0 then cfg\<lparr>rc_day_of_payment := 14\<rparr> else cfg);
     cfg = (if rc_k_limit_min cfg = 0 then cfg\<lparr>rc_k_limit_min := to_float 0.05\<rparr> else cfg)
   in if rc_no_prefix_rating cfg = CHR 0x00 then cfg\<lparr>rc_no_prefix_rating := CHR ''&''\<rparr> else cfg)"

text \<open>A document without a root element leaves a null pointer, which \<open>rt_cfg_params_init\<close> uses.\<close>

definition rt_cfg_main :: "(string \<Rightarrow> bool) \<Rightarrow> xml_files \<Rightarrow> string \<Rightarrow> rt_cfg option" where
  "rt_cfg_main exists read fname = (case xml_cfg_doc exists read fname of
     None \<Rightarrow> Some (rt_cfg_params_init rt_cfg_init)
   | Some None \<Rightarrow> None
   | Some (Some top_el) \<Rightarrow> do { cfg \<leftarrow> rt_cfg_get top_el rt_cfg_init; Some (rt_cfg_params_init cfg) })"

section \<open>RatingDuckDB\<close>

datatype dimcache = RT_DIMCACHE_ALL | RT_DIMCACHE_STATIC | RT_DIMCACHE_NONE

record duck_cfg =
  dk_rating_interval :: int
  dk_wait_rating :: int
  dk_batch_limit :: int
  dk_rating_threads :: int
  dk_cache_mode :: dimcache
  dk_leg :: char
  dk_active :: char

definition duck_cfg0 :: duck_cfg where
  "duck_cfg0 = \<lparr>dk_rating_interval = 300, dk_wait_rating = 1500, dk_batch_limit = 5000, dk_rating_threads = 0,
     dk_cache_mode = RT_DIMCACHE_ALL, dk_leg = CHR ''a'', dk_active = CHR ''f''\<rparr>"

definition duck_cfg_param :: "xml_param \<Rightarrow> duck_cfg \<Rightarrow> duck_cfg option" where
  "duck_cfg_param p cfg = do {
     cfg \<leftarrow> on_val ''active'' (\<lambda>v c. if v = ''yes'' then c\<lparr>dk_active := CHR ''t''\<rparr> else c) p cfg;
     cfg \<leftarrow> on_int ''RatingInterval'' (\<lambda>v c. c\<lparr>dk_rating_interval := v\<rparr>) p cfg;
     cfg \<leftarrow> on_int ''WaitRatingInterval'' (\<lambda>v c. c\<lparr>dk_wait_rating := v\<rparr>) p cfg;
     cfg \<leftarrow> on_int ''BatchLimit'' (\<lambda>v c. c\<lparr>dk_batch_limit := v\<rparr>) p cfg;
     cfg \<leftarrow> on_int ''RatingThreads'' (\<lambda>v c. c\<lparr>dk_rating_threads := v\<rparr>) p cfg;
     cfg \<leftarrow> on_val ''CacheDimensions'' (\<lambda>v c. c\<lparr>dk_cache_mode :=
       (if v = ''none'' then RT_DIMCACHE_NONE else if v = ''static'' then RT_DIMCACHE_STATIC else RT_DIMCACHE_ALL)\<rparr>) p cfg;
     on_val ''leg'' (\<lambda>v c. c\<lparr>dk_leg := first_char v\<rparr>) p cfg
   }"

text \<open>The start of the thread \<open>RateEngine\<close>, and its bounds on the size of a batch.\<close>

definition duck_cfg_read :: "(string \<Rightarrow> bool) \<Rightarrow> xml_files \<Rightarrow> string \<Rightarrow> duck_cfg option" where
  "duck_cfg_read exists read fname = (case xml_cfg_root (xml_cfg_doc exists read fname) of
     None \<Rightarrow> Some duck_cfg0
   | Some top_el \<Rightarrow> do { (cfg, node) \<leftarrow> read_section top_el ''Rating'' duck_cfg_param xml_node0 duck_cfg0; Some cfg })"

definition duck_batch_bounds :: "duck_cfg \<Rightarrow> duck_cfg" where
  "duck_batch_bounds cfg = (let
     cfg = (if dk_batch_limit cfg \<le> 0 then cfg\<lparr>dk_batch_limit := 5000\<rparr> else cfg)
   in if 50000 < dk_batch_limit cfg then cfg\<lparr>dk_batch_limit := 50000\<rparr> else cfg)"

section \<open>CallControl\<close>

record cc_cfg_int =
  ci_cc_proto :: string
  ci_proto :: string
  ci_ipv :: net_dom
  ci_ip :: string
  ci_port :: u16
  ci_cert :: string
  ci_key :: string
  ci_verify_client :: char
  ci_ca :: string

definition cc_cfg_int_init :: cc_cfg_int where
  "cc_cfg_int_init = \<lparr>ci_cc_proto = [], ci_proto = [], ci_ipv = dom_other 0, ci_ip = [], ci_port = 0, ci_cert = [], ci_key = [],
     ci_verify_client = CHR 0x00, ci_ca = []\<rparr>"

record cc_cfg =
  cg_cc_active_flag :: char
  cg_call_maxsec_limit :: u32
  cg_sim_calls :: u16
  cg_cc_workers :: u16
  cg_cc_server_usleep :: u32
  cg_cc_int_cfg_dir :: string
  cg_cc_logfile :: string
  cg_cc_log_max_file_size :: u32
  cg_interfaces :: "cc_cfg_int list"

definition cc_cfg_init :: cc_cfg where
  "cc_cfg_init = \<lparr>cg_cc_active_flag = CHR 0x00, cg_call_maxsec_limit = 0, cg_sim_calls = 0, cg_cc_workers = 0,
     cg_cc_server_usleep = 0, cg_cc_int_cfg_dir = [], cg_cc_logfile = [], cg_cc_log_max_file_size = 0, cg_interfaces = []\<rparr>"

definition cc_cfg_int_param :: "xml_param \<Rightarrow> cc_cfg_int \<Rightarrow> cc_cfg_int option" where
  "cc_cfg_int_param p cfg = do {
     cfg \<leftarrow> on_str ''proto'' 32 (\<lambda>v c. c\<lparr>ci_proto := v\<rparr>) p cfg;
     cfg \<leftarrow> on_str ''CC-proto'' 32 (\<lambda>v c. c\<lparr>ci_cc_proto := v\<rparr>) p cfg;
     cfg \<leftarrow> on_val ''ip-version'' (\<lambda>v c. if v = ''IPv4'' then c\<lparr>ci_ipv := ipv4\<rparr> else c) p cfg;
     cfg \<leftarrow> on_val ''ip-version'' (\<lambda>v c. if v = ''IPv6'' then c\<lparr>ci_ipv := ipv6\<rparr> else c) p cfg;
     cfg \<leftarrow> on_str ''ip'' 128 (\<lambda>v c. c\<lparr>ci_ip := v\<rparr>) p cfg;
     cfg \<leftarrow> on_int ''port'' (\<lambda>v c. c\<lparr>ci_port := word_of_int v\<rparr>) p cfg;
     cfg \<leftarrow> on_str ''cert'' 255 (\<lambda>v c. c\<lparr>ci_cert := v\<rparr>) p cfg;
     cfg \<leftarrow> on_str ''key'' 255 (\<lambda>v c. c\<lparr>ci_key := v\<rparr>) p cfg;
     cfg \<leftarrow> on_val ''verify-client'' (\<lambda>v c. c\<lparr>ci_verify_client := yes_flag v\<rparr>) p cfg;
     on_str ''ca'' 255 (\<lambda>v c. c\<lparr>ci_ca := v\<rparr>) p cfg
   }"

definition cc_cfg_get_int_xml :: "xml \<Rightarrow> cc_cfg_int \<Rightarrow> cc_cfg_int option" where
  "cc_cfg_get_int_xml top_el cfg = do { (cfg, node) \<leftarrow> read_section top_el ''config'' cc_cfg_int_param xml_node0 cfg; Some cfg }"

text \<open>\<open>file_list_get\<close>: the entries of the directory, two of which must be \<open>.\<close> and \<open>..\<close>; the array
  has two places less than there are entries. A name that has no place is written outside it.\<close>

definition file_list_get :: "string list option \<Rightarrow> string list option" where
  "file_list_get d = (case d of
     None \<Rightarrow> Some []
   | Some names \<Rightarrow> (let ns = List.filter (\<lambda>n. \<not> (n = ''.'' \<or> n = ''..'')) names; k = length names - 2 in
       if 2 < length names then if length ns \<le> k then Some (ns @ replicate (k - length ns) []) else None
       else Some []))"

text \<open>The interface of each file of the directory; a document without a root element frees the
  configuration and goes on with the null pointer.\<close>

fun each_int :: "(string \<Rightarrow> bool) \<Rightarrow> xml_files \<Rightarrow> string \<Rightarrow> string list \<Rightarrow> cc_cfg_int list option" where
  "each_int exists read dir [] = Some []"
| "each_int exists read dir (n # ns) = do {
     ff \<leftarrow> fits 256 (dir @ n);
     cfg \<leftarrow> (case xml_cfg_doc exists read ff of
       None \<Rightarrow> Some cc_cfg_int_init
     | Some None \<Rightarrow> None
     | Some (Some top_el) \<Rightarrow> cc_cfg_get_int_xml top_el cc_cfg_int_init);
     cs \<leftarrow> each_int exists read dir ns;
     Some (cfg # cs)
   }"

definition cc_cfg_get_int ::
  "(string \<Rightarrow> bool) \<Rightarrow> xml_files \<Rightarrow> (string \<Rightarrow> string list option) \<Rightarrow> cc_cfg \<Rightarrow> cc_cfg option" where
  "cc_cfg_get_int exists read dirs cfg = do {
     ns \<leftarrow> file_list_get (dirs (cg_cc_int_cfg_dir cfg));
     let int_number = uint (word_of_nat (length ns) :: u16);
     if int_number = 0 then Some cfg
     else if int_number \<noteq> int (length ns) then None
     else do { ints \<leftarrow> each_int exists read (cg_cc_int_cfg_dir cfg) ns; Some (cfg\<lparr>cg_interfaces := ints\<rparr>) }
   }"

definition cc_cfg_param :: "xml_param \<Rightarrow> cc_cfg \<Rightarrow> cc_cfg option" where
  "cc_cfg_param p cfg = do {
     cfg \<leftarrow> on_val ''active'' (\<lambda>v c. c\<lparr>cg_cc_active_flag := yes_flag v\<rparr>) p cfg;
     cfg \<leftarrow> on_str ''IntConfigDIR'' 255 (\<lambda>v c. c\<lparr>cg_cc_int_cfg_dir := v\<rparr>) p cfg;
     cfg \<leftarrow> on_str ''LogFile'' 255 (\<lambda>v c. c\<lparr>cg_cc_logfile := v\<rparr>) p cfg;
     cfg \<leftarrow> on_int ''LogFileMaxSize'' (\<lambda>v c. c\<lparr>cg_cc_log_max_file_size := word_of_int v\<rparr>) p cfg;
     cfg \<leftarrow> on_int ''CallMaxsecLimit'' (\<lambda>v c. c\<lparr>cg_call_maxsec_limit := word_of_int v\<rparr>) p cfg;
     cfg \<leftarrow> on_int ''SimCalls'' (\<lambda>v c. c\<lparr>cg_sim_calls := word_of_int v\<rparr>) p cfg;
     cfg \<leftarrow> on_int ''CCWorkers'' (\<lambda>v c. c\<lparr>cg_cc_workers := word_of_int v\<rparr>) p cfg;
     on_int ''CCServerMicroSleep'' (\<lambda>v c. c\<lparr>cg_cc_server_usleep := word_of_int v\<rparr>) p cfg
   }"

definition cc_cfg_get :: "xml \<Rightarrow> cc_cfg \<Rightarrow> cc_cfg option" where
  "cc_cfg_get top_el cfg = do { (cfg, node) \<leftarrow> read_section top_el ''CallControl'' cc_cfg_param xml_node0 cfg; Some cfg }"

text \<open>The result: undefined, or the pointer, which is null without a directory of interfaces.\<close>

definition cc_cfg_main ::
  "(string \<Rightarrow> bool) \<Rightarrow> xml_files \<Rightarrow> (string \<Rightarrow> string list option) \<Rightarrow> string \<Rightarrow> cc_cfg option option" where
  "cc_cfg_main exists read dirs fname = do {
     cfg \<leftarrow> (case xml_cfg_doc exists read fname of
       None \<Rightarrow> Some cc_cfg_init
     | Some None \<Rightarrow> None
     | Some (Some top_el) \<Rightarrow> cc_cfg_get top_el cc_cfg_init);
     if cg_cc_int_cfg_dir cfg = [] then Some None
     else do { cfg \<leftarrow> cc_cfg_get_int exists read dirs cfg; Some (Some cfg) }
   }"

end
