(* ===== verification/DuckBatch.thy ===== *)
theory DuckBatch
  imports DuckText DuckRate Config CdrRecords
begin

text \<open>
  \<open>RatingDuckDB/rt_duckdb.c\<close> and the thread of \<open>rating_duckdb.c\<close>: one cycle over a window of calls, what a
  cycle writes for every pair of databases, and the thread's turns, with DuckDB and PostgreSQL behind two handles of the database interface. \<open>None\<close> is undefined behaviour,
  here a write outside a buffer, a column that a result does not have, or a number in text that has no
  value.
\<close>

section \<open>Statements on DuckDB\<close>

definition rt_duckdb_exec :: "string \<Rightarrow> 'd db option \<Rightarrow> int \<times> 'd db option" where
  "rt_duckdb_exec str duck = (let (ret, p) = db_query duck str True in (if ret < 0 then -1 else 0, p))"

definition rt_duckdb_select :: "string \<Rightarrow> 'd db option \<Rightarrow> string list list option \<times> 'd db option" where
  "rt_duckdb_select str duck = (let (ret, p) = db_query duck str False in
     if ret < 0 then (None, p)
     else let (ret, p) = db_fetch p in if ret < 0 then (None, p) else (conn_rows p, p))"

definition rt_dim_make :: "string \<Rightarrow> bool \<Rightarrow> 'd db option \<Rightarrow> int \<times> 'd db option" where
  "rt_dim_make name as_table duck = rt_duckdb_exec (strncpy (dim_sql name as_table) 255) duck"

fun make_dims :: "bool \<Rightarrow> string list \<Rightarrow> 'd db option \<Rightarrow> 'd db option" where
  "make_dims as_table [] duck = duck"
| "make_dims as_table (n # ns) duck = make_dims as_table ns (snd (rt_dim_make n as_table duck))"

definition rt_duckdb_load_dims :: "dimcache \<Rightarrow> 'd db option \<Rightarrow> int \<times> 'd db option" where
  "rt_duckdb_load_dims cache_mode duck =
     (if duck = None then (-1, duck)
      else (0, make_dims (cache_mode = RT_DIMCACHE_ALL) rt_dim_account
             (make_dims (cache_mode \<noteq> RT_DIMCACHE_NONE) rt_dim_static duck)))"

text \<open>The start. \<open>binds\<close> is \<open>db_engine_bind\<close> on a handle with the connection; the handles that
  \<open>db_init\<close> and \<open>db_conn_init\<close> allocate are taken to be there.\<close>

definition connstr :: "string \<Rightarrow> string \<Rightarrow> string \<Rightarrow> string \<Rightarrow> int \<Rightarrow> string" where
  "connstr host dbname user pass port = strncpy (''host='' @ host @ '' dbname='' @ dbname @ '' user='' @ user @
     '' password='' @ pass @ '' port='' @ dec_int port) 511"

definition rt_duckdb_init ::
  "('d db_conn \<Rightarrow> int \<times> 'd db option) \<Rightarrow> string \<Rightarrow> string \<Rightarrow> string \<Rightarrow> string \<Rightarrow> int \<Rightarrow> int \<Rightarrow> dimcache \<Rightarrow> int \<times> 'd db option" where
  "rt_duckdb_init binds host dbname user pass port threads cache_mode = (let
     (ret, duck) = binds (db_conn_init ''duckdb'' host '':memory:'' (word_of_int port) user pass 0)
   in if ret < 0 then (-1, duck)
      else let (ret, duck) = db_connect duck in
        if ret < 0 then (-1, duck)
        else let
          duck = (if 0 < threads then snd (rt_duckdb_exec (''SET threads TO '' @ dec_int threads @ '';'') duck) else duck);
          duck = snd (rt_duckdb_exec ''INSTALL postgres;'' duck);
          duck = snd (rt_duckdb_exec ''LOAD postgres;'' duck);
          (ret, duck) = rt_duckdb_exec (strncpy (''ATTACH '' @ quoted (connstr host dbname user pass port) @
            '' AS pg (TYPE POSTGRES, READ_ONLY);'') 1023) duck
        in if ret < 0 then (-2, duck) else (0, snd (rt_duckdb_load_dims cache_mode duck)))"

definition rt_duckdb_close :: "'d db option \<Rightarrow> 'd db option" where
  "rt_duckdb_close duck = (if duck = None then duck
     else (let p = snd (db_close (snd (rt_duckdb_exec ''DETACH pg;'' duck))) in None))"

section \<open>Numbers in text\<close>

definition int64 :: "int \<Rightarrow> bool" where
  "int64 v \<longleftrightarrow> - (2 ^ 63) \<le> v \<and> v < 2 ^ 63"

definition atoll :: "string \<Rightarrow> int option" where
  "atoll s = (let (neg, d) = split_sign (dropWhile isspace s); v = int (digits_val 0 d); w = (if neg then - v else v)
     in if int64 w then Some w else None)"

definition coll :: "string list \<Rightarrow> nat \<Rightarrow> int option" where
  "coll row i = col row i \<bind> atoll"

section \<open>The balances\<close>

fun bal_updates :: "fpenv \<Rightarrow> string list list \<Rightarrow> 'p db option \<Rightarrow> 'p db option option" where
  "bal_updates fp [] pg = Some pg"
| "bal_updates fp (row # rows) pg = do {
     bid \<leftarrow> coll row 0;
     s \<leftarrow> col row 1;
     e \<leftarrow> col row 2;
     amt \<leftarrow> col row 3;
     bal_updates fp rows (snd (db_query pg (strncpy (bal_up_str bid s e (rd fp (atof amt))) 2047) True))
   }"

definition rt_duckdb_balance :: "fpenv \<Rightarrow> 'd db option \<Rightarrow> 'p db option \<Rightarrow> ('d db option \<times> 'p db option) option" where
  "rt_duckdb_balance fp duck pg = (let (ret, duck) = rt_duckdb_exec bal_delta_sql duck in
     if ret < 0 then Some (duck, pg)
     else let (bd, duck) = rt_duckdb_select bal_select_sql duck in case bd of
         None \<Rightarrow> Some (duck, pg)
       | Some rows \<Rightarrow> do { pg' \<leftarrow> bal_updates fp rows pg; Some (clear_conn_result duck, pg') })"

fun fbb_updates :: "string list list \<Rightarrow> 'p db option \<Rightarrow> 'p db option option" where
  "fbb_updates [] pg = Some pg"
| "fbb_updates (row # rows) pg = do {
     bal \<leftarrow> coll row 0;
     fbid \<leftarrow> coll row 1;
     used \<leftarrow> coll row 2;
     fbb_updates rows (snd (db_query pg (strncpy (fbb_up_str bal fbid used) 1023) True))
   }"

definition rt_duckdb_free_balance :: "'d db option \<Rightarrow> 'p db option \<Rightarrow> ('d db option \<times> 'p db option) option" where
  "rt_duckdb_free_balance duck pg = (let (ret, duck) = rt_duckdb_exec fbb_delta_sql duck in
     if ret < 0 then Some (duck, pg)
     else let (fd, duck) = rt_duckdb_select fbb_select_sql duck in case fd of
         None \<Rightarrow> Some (duck, pg)
       | Some rows \<Rightarrow> do { pg' \<leftarrow> fbb_updates rows pg; Some (clear_conn_result duck, pg') })"

section \<open>The rated rows and the marks\<close>

definition values_row :: "fpenv \<Rightarrow> bool \<Rightarrow> string list \<Rightarrow> string option" where
  "values_row fp first row = do {
     cdr_id \<leftarrow> coll row 0;
     billsec \<leftarrow> coli row 1;
     ts \<leftarrow> col row 2;
     bid \<leftarrow> coll row 3;
     rate_id \<leftarrow> coll row 4;
     cprice \<leftarrow> col row 5;
     fbid \<leftarrow> coll row 6;
     rmode \<leftarrow> coli row 8;
     pcard \<leftarrow> coll row 9;
     tcid \<leftarrow> coll row 10;
     let safe_ts = (if ts \<noteq> [] then snd (db_sql_escape (Some ts) 64) else ''1970-01-01 00:00:00'');
     Some (strncpy ((if first then [] else '','') @ ''('' @ fmt_f (rd fp (atof cprice)) @ '','' @ dec_int billsec @ '','' @
       dec_int rate_id @ '','' @ dec_int bid @ '','' @ dec_int cdr_id @ '','' @ dec_int rmode @ '','' @ dec_int pcard @ '','' @
       dec_int tcid @ '','' @ quoted safe_ts @ '','' @ quoted ''now()'' @ '','' @ dec_int fbid @ '')'') 511)
   }"

fun values_rows :: "fpenv \<Rightarrow> bool \<Rightarrow> string list list \<Rightarrow> string option" where
  "values_rows fp first [] = Some []"
| "values_rows fp first (row # rows) = do {
     v \<leftarrow> values_row fp first row;
     vs \<leftarrow> values_rows fp False rows;
     Some (v @ vs)
   }"

definition insert_sql :: "fpenv \<Rightarrow> string list list \<Rightarrow> string option" where
  "insert_sql fp rows = do {
     vs \<leftarrow> values_rows fp True rows;
     fits (length rows * 300 + 1024) (rating_insert_head @ vs @ '' RETURNING id, call_id'')
   }"

fun leg_values :: "bool \<Rightarrow> string list list \<Rightarrow> string option" where
  "leg_values first [] = Some []"
| "leg_values first (row # rows) = do {
     rating_id \<leftarrow> coll row 0;
     cdr_id \<leftarrow> coll row 1;
     vs \<leftarrow> leg_values False rows;
     Some (strncpy ((if first then [] else '','') @ ''('' @ dec_int cdr_id @ '','' @ dec_int rating_id @ '')'') 63 @ vs)
   }"

definition legs_sql :: "char \<Rightarrow> string list list \<Rightarrow> string option" where
  "legs_sql leg rows = do {
     vs \<leftarrow> leg_values True rows;
     fits (length rows * 40 + 256) (legs_head leg @ vs @ legs_tail)
   }"

text \<open>What PostgreSQL gave back for the insert; the result: the number of rated rows.\<close>

definition store_rated :: "fpenv \<Rightarrow> char \<Rightarrow> string list list \<Rightarrow> 'p db option \<Rightarrow> (int \<times> 'p db option) option" where
  "store_rated fp leg rows pg = do {
     str \<leftarrow> insert_sql fp rows;
     let pg = snd (db_query pg ''BEGIN'' True);
     let pg = snd (db_fetch (snd (db_query pg str False)));
     if \<not> has_conn pg then None
     else do {
       (rated, pg) \<leftarrow> (case conn_rows pg of
           None \<Rightarrow> Some (0, pg)
         | Some [] \<Rightarrow> Some (0, clear_conn_result pg)
         | Some rs \<Rightarrow> do {
             upd \<leftarrow> legs_sql leg rs;
             Some (int (length rs), clear_conn_result (snd (db_query pg upd True)))
           });
       Some (rated, snd (db_query pg ''COMMIT'' True))
     }
   }"

abbreviation (input) mark_chunk :: nat where "mark_chunk \<equiv> 2000"

function mark_loop :: "char \<Rightarrow> string list \<Rightarrow> 'p db option \<Rightarrow> 'p db option option" where
  "mark_loop leg [] pg = Some pg"
| "mark_loop leg (i # ids) pg = do {
     str \<leftarrow> fits (mark_chunk * 24 + 128) (mark_head leg @ join_cols (take mark_chunk (i # ids)) @ '')'');
     mark_loop leg (drop mark_chunk (i # ids)) (snd (db_query pg str True))
   }"
  by pat_completeness auto
termination by (relation "measure (\<lambda>(leg, ids, pg). length ids)") auto

fun first_cols :: "string list list \<Rightarrow> string list option" where
  "first_cols [] = Some []"
| "first_cols (row # rows) = do { v \<leftarrow> col row 0; vs \<leftarrow> first_cols rows; Some (v # vs) }"

section \<open>A cycle\<close>

text \<open>The steps behind the rated rows: balances, free seconds and marks in one transaction.\<close>

definition finish_batch :: "fpenv \<Rightarrow> char \<Rightarrow> int \<Rightarrow> 'd db option \<Rightarrow> 'p db option \<Rightarrow> ('d db option \<times> 'p db option) option" where
  "finish_batch fp leg rated duck pg = do {
     let pg = snd (db_query pg ''BEGIN'' True);
     (duck, pg) \<leftarrow> (if 0 < rated then rt_duckdb_balance fp duck pg else Some (duck, pg));
     (duck, pg) \<leftarrow> (if 0 < rated then rt_duckdb_free_balance duck pg else Some (duck, pg));
     let (um, duck) = rt_duckdb_select unmatched_sql duck;
     (duck, pg) \<leftarrow> (case um of
         None \<Rightarrow> Some (duck, pg)
       | Some rows \<Rightarrow> do { ids \<leftarrow> first_cols rows; pg' \<leftarrow> mark_loop leg ids pg; Some (clear_conn_result duck, pg') });
     Some (duck, snd (db_query pg ''COMMIT'' True))
   }"

definition batch_rows :: "fpenv \<Rightarrow> char \<Rightarrow> int \<Rightarrow> 'd db option \<Rightarrow> 'p db option \<Rightarrow> (int \<times> int \<times> 'd db option \<times> 'p db option) option" where
  "batch_rows fp leg win_count duck pg = (let (rb, duck) = rt_duckdb_select rated_select_sql duck in do {
     (rated, pg) \<leftarrow> (case rb of None \<Rightarrow> Some (0, pg) | Some [] \<Rightarrow> Some (0, pg) | Some rows \<Rightarrow> store_rated fp leg rows pg);
     (duck, pg) \<leftarrow> finish_batch fp leg rated (case rb of None \<Rightarrow> duck | Some _ \<Rightarrow> clear_conn_result duck) pg;
     Some (sint (word_of_int win_count :: u32), rated, duck, pg)
   })"

text \<open>The result: the number of calls in the window or an error, the number of rated rows.\<close>

definition rt_duckdb_rate_batch ::
  "fpenv \<Rightarrow> char \<Rightarrow> int \<Rightarrow> 'd db option \<Rightarrow> 'p db option \<Rightarrow> (int \<times> int \<times> 'd db option \<times> 'p db option) option" where
  "rt_duckdb_rate_batch fp leg limit duck pg =
     (if pg = None then Some (0, 0, duck, pg)
      else let (ret, duck) = rt_duckdb_exec (strncpy (window_sql leg limit) 16383) duck in
        if ret < 0 then Some (-1, 0, duck, pg)
        else let (wr, duck) = rt_duckdb_select count_sql duck in case wr of
            None \<Rightarrow> Some (-1, 0, duck, pg)
          | Some [] \<Rightarrow> Some (-1, 0, clear_conn_result duck, pg)
          | Some (row # _) \<Rightarrow> do {
              win_count \<leftarrow> coll row 0;
              max_id \<leftarrow> coll row 1;
              let duck = clear_conn_result duck;
              if win_count = 0 then Some (0, 0, duck, pg)
              else let (n, u) = rt_build_acct_union leg 6144 in
                if n \<le> 0 then Some (-1, 0, duck, pg)
                else let (ret, duck) = rt_duckdb_exec (strncpy (rated_batch_sql u) 16383) duck in
                  if ret < 0 then Some (-1, 0, duck, pg) else batch_rows fp leg win_count duck pg
            })"

section \<open>The thread\<close>

datatype duck_next = Again "int option" | Idle int | Stop

text \<open>A turn of the loop: what it does next (again, after so many microseconds or at once; sleep for so many
  seconds; stop), the number of turns that found work, the handles.\<close>

definition duck_cycle ::
  "fpenv \<Rightarrow> duck_cfg \<Rightarrow> int \<Rightarrow> 'd db option \<Rightarrow> 'p db option \<Rightarrow> (duck_next \<times> int \<times> 'd db option \<times> 'p db option) option" where
  "duck_cycle fp cfg dim_cycles duck pg = do {
     (processed, duck, pg) \<leftarrow>
       (if dk_leg cfg = CHR 0x00 then do {
          (pa, ra, duck, pg) \<leftarrow> rt_duckdb_rate_batch fp (CHR ''a'') (dk_batch_limit cfg) duck pg;
          (pb, rb, duck, pg) \<leftarrow> rt_duckdb_rate_batch fp (CHR ''b'') (dk_batch_limit cfg) duck pg;
          Some (max pa 0 + max pb 0, duck, pg)
        } else do {
          (p, r, duck, pg) \<leftarrow> rt_duckdb_rate_batch fp (dk_leg cfg) (dk_batch_limit cfg) duck pg;
          Some (max p 0, duck, pg)
        });
     if dk_active cfg \<noteq> CHR ''t'' then Some (Stop, dim_cycles, duck, pg)
     else if 0 < processed then do {
       n \<leftarrow> cadd dim_cycles 1;
       let duck = (if n mod 1000 = 0 then snd (rt_duckdb_load_dims (dk_cache_mode cfg) duck) else duck);
       Some (Again (if 0 < dk_wait_rating cfg then Some (dk_wait_rating cfg) else None), n, duck, pg)
     } else Some (Idle (dk_rating_interval cfg), dim_cycles, snd (rt_duckdb_load_dims (dk_cache_mode cfg) duck), pg)
   }"

text \<open>The start of the module: the handle for PostgreSQL, then DuckDB; and its end.\<close>

definition rt_init_duckdb ::
  "('p db_conn \<Rightarrow> int \<times> 'p db option) \<Rightarrow> ('d db_conn \<Rightarrow> int \<times> 'd db option) \<Rightarrow> main_cfg \<Rightarrow> duck_cfg \<Rightarrow>
   int \<times> 'd db option \<times> 'p db option" where
  "rt_init_duckdb pbinds binds m cfg = (let
     (ret, pg) = pbinds (db_conn_init (mc_dbtype m) (mc_dbhost m) (mc_dbname m) (word_of_int (mc_dbport m)) (mc_dbuser m) (mc_dbpass m) 0)
   in if ret < 0 then (-1, None, pg)
      else let (ret, pg) = db_connect pg in
        if ret < 0 then (-1, None, pg)
        else let (ret, duck) = rt_duckdb_init binds (mc_dbhost m) (mc_dbname m) (mc_dbuser m) (mc_dbpass m)
               (mc_dbport m) (dk_rating_threads cfg) (dk_cache_mode cfg)
        in (if ret < 0 then -2 else 0, duck, pg))"

definition rt_free_duckdb :: "'d db option \<Rightarrow> 'p db option \<Rightarrow> 'd db option \<times> 'p db option" where
  "rt_free_duckdb duck pg = (rt_duckdb_close duck, if pg = None then pg else (let p = snd (db_close pg) in None))"

text \<open>The first turns of the loop, at most \<open>k\<close> of them, with what the thread does after each.\<close>

fun duck_run ::
  "nat \<Rightarrow> fpenv \<Rightarrow> duck_cfg \<Rightarrow> int \<Rightarrow> 'd db option \<Rightarrow> 'p db option \<Rightarrow> (duck_next list \<times> 'd db option \<times> 'p db option) option" where
  "duck_run 0 fp cfg n duck pg = Some ([], duck, pg)"
| "duck_run (Suc k) fp cfg n duck pg = do {
     (turn, n', duck', pg') \<leftarrow> duck_cycle fp cfg n duck pg;
     if turn = Stop then (let (d, p) = rt_free_duckdb duck' pg' in Some ([Stop], d, p))
     else do {
       (turns, d, p) \<leftarrow> duck_run k fp cfg n' duck' pg';
       Some (turn # turns, d, p)
     }
   }"

section \<open>What a cycle writes\<close>

text \<open>Databases that answer by the text of a statement: in a cycle each statement is sent once, but for
  \<open>BEGIN\<close> and \<open>COMMIT\<close>, whose answers are not read.\<close>

type_synonym reply = "string \<Rightarrow> int \<times> string list list option"

abbreviation handle :: "reply \<Rightarrow> string list \<Rightarrow> string list list option \<Rightarrow> recorder db option" where
  "handle a \<equiv> rdb (\<lambda>_. a)"

definition rows_of :: "reply \<Rightarrow> string \<Rightarrow> string list list option" where
  "rows_of a q = (if fst (a q) < 0 then None else snd (a q))"

lemma exec_handle [simp]:
  "rt_duckdb_exec q (handle a lg r) = (if fst (a q) < 0 then -1 else 0, handle a (lg @ [q]) (snd (a q)))"
  by (simp add: rt_duckdb_exec_def rdb_tx)

lemma select_none: "rows_of a q = None \<Longrightarrow>
    \<exists>r'. rt_duckdb_select q (handle a lg r) = (None, handle a (lg @ [q]) r')"
  by (auto simp: rt_duckdb_select_def rows_of_def rdb_def db_query_def db_fetch_def db_on_def via_def recorder_api_def
      conn_rows_def db_conn_init_def db_free_result_def Let_def split_beta split: if_splits)

lemma select_some: "rows_of a q = Some rows \<Longrightarrow>
    \<exists>p. rt_duckdb_select q (handle a lg r) = (Some rows, p) \<and> clear_conn_result p = handle a (lg @ [q]) None"
  by (auto simp: rt_duckdb_select_def rows_of_def rdb_def db_query_def db_fetch_def db_on_def via_def recorder_api_def
      conn_rows_def db_conn_init_def db_free_result_def clear_conn_result_def Let_def split_beta split: if_splits)

lemma select_handle:
  obtains p r' where "rt_duckdb_select q (handle a lg r) = (rows_of a q, p)"
    "(case rows_of a q of None \<Rightarrow> p | Some _ \<Rightarrow> clear_conn_result p) = handle a (lg @ [q]) r'"
  using select_none [of a q lg r] select_some [of a q _ lg r] by (cases "rows_of a q") auto

text \<open>The statements behind the rated rows.\<close>

definition is_balance :: "string \<Rightarrow> bool" where
  "is_balance q \<longleftrightarrow> (\<exists>b s e a. q = strncpy (bal_up_str b s e a) 2047) \<or> (\<exists>b f u. q = strncpy (fbb_up_str b f u) 1023)"

lemma is_balance [simp]: "is_balance (strncpy (bal_up_str b s e a) 2047)" "is_balance (strncpy (fbb_up_str b f u) 1023)"
  unfolding is_balance_def by blast+

lemma log_same [simp]: "\<exists>qs. (\<exists>r'. handle a lg r = handle a (lg @ qs) r') \<and> (\<forall>q \<in> set qs. P q)"
  by (rule exI [of _ "[]"]) auto

lemma bal_updates_log: "bal_updates fp rows (handle a lg r) = Some p \<Longrightarrow>
    \<exists>qs r'. p = handle a (lg @ qs) r' \<and> (\<forall>q \<in> set qs. is_balance q)"
proof (induction rows arbitrary: lg r)
  case Nil
  then have p: "p = handle a lg r" by simp
  show ?case unfolding p by simp
next
  case (Cons row rows)
  then obtain bid s e amt where u: "bal_updates fp rows (handle a (lg @ [strncpy (bal_up_str bid s e amt) 2047])
      (snd (a (strncpy (bal_up_str bid s e amt) 2047)))) = Some p"
    by (auto simp: rdb_tx split: Option.bind_splits)
  from Cons.IH [OF u] obtain qs r' where "p = handle a (lg @ [strncpy (bal_up_str bid s e amt) 2047] @ qs) r'" "\<forall>q \<in> set qs. is_balance q"
    by auto
  then show ?case by (intro exI [of _ "[strncpy (bal_up_str bid s e amt) 2047] @ qs"]) auto
qed

lemma fbb_updates_log: "fbb_updates rows (handle a lg r) = Some p \<Longrightarrow>
    \<exists>qs r'. p = handle a (lg @ qs) r' \<and> (\<forall>q \<in> set qs. is_balance q)"
proof (induction rows arbitrary: lg r)
  case Nil
  then have p: "p = handle a lg r" by simp
  show ?case unfolding p by simp
next
  case (Cons row rows)
  then obtain b f u where u: "fbb_updates rows (handle a (lg @ [strncpy (fbb_up_str b f u) 1023])
      (snd (a (strncpy (fbb_up_str b f u) 1023)))) = Some p"
    by (auto simp: rdb_tx split: Option.bind_splits)
  from Cons.IH [OF u] obtain qs r' where "p = handle a (lg @ [strncpy (fbb_up_str b f u) 1023] @ qs) r'" "\<forall>q \<in> set qs. is_balance q"
    by auto
  then show ?case by (intro exI [of _ "[strncpy (fbb_up_str b f u) 1023] @ qs"]) auto
qed

lemma balance_log:
  assumes "rt_duckdb_balance fp (handle a ld sd) (handle b lp rp) = Some (d, p)"
  shows "\<exists>ld' rd' qs rp'. d = handle a ld' rd' \<and> p = handle b (lp @ qs) rp' \<and> (\<forall>q \<in> set qs. is_balance q)"
proof (cases "fst (a bal_delta_sql) < 0")
  case True
  then show ?thesis using assms by (auto simp: rt_duckdb_balance_def)
next
  case False
  obtain p1 r' where s: "rt_duckdb_select bal_select_sql (handle a (ld @ [bal_delta_sql]) (snd (a bal_delta_sql))) = (rows_of a bal_select_sql, p1)"
    "(case rows_of a bal_select_sql of None \<Rightarrow> p1 | Some _ \<Rightarrow> clear_conn_result p1) = handle a ((ld @ [bal_delta_sql]) @ [bal_select_sql]) r'"
    by (rule select_handle)
  show ?thesis
  proof (cases "rows_of a bal_select_sql")
    case None
    then show ?thesis using assms False s by (auto simp: rt_duckdb_balance_def)
  next
    case (Some rows)
    then have "bal_updates fp rows (handle b lp rp) = Some p" "d = clear_conn_result p1"
      using assms False s by (auto simp: rt_duckdb_balance_def split: Option.bind_splits)
    then show ?thesis using bal_updates_log [of fp rows b lp rp p] s(2) Some by auto
  qed
qed

lemma free_balance_log:
  assumes "rt_duckdb_free_balance (handle a ld sd) (handle b lp rp) = Some (d, p)"
  shows "\<exists>ld' rd' qs rp'. d = handle a ld' rd' \<and> p = handle b (lp @ qs) rp' \<and> (\<forall>q \<in> set qs. is_balance q)"
proof (cases "fst (a fbb_delta_sql) < 0")
  case True
  then show ?thesis using assms by (auto simp: rt_duckdb_free_balance_def)
next
  case False
  obtain p1 r' where s: "rt_duckdb_select fbb_select_sql (handle a (ld @ [fbb_delta_sql]) (snd (a fbb_delta_sql))) = (rows_of a fbb_select_sql, p1)"
    "(case rows_of a fbb_select_sql of None \<Rightarrow> p1 | Some _ \<Rightarrow> clear_conn_result p1) = handle a ((ld @ [fbb_delta_sql]) @ [fbb_select_sql]) r'"
    by (rule select_handle)
  show ?thesis
  proof (cases "rows_of a fbb_select_sql")
    case None
    then show ?thesis using assms False s by (auto simp: rt_duckdb_free_balance_def)
  next
    case (Some rows)
    then have "fbb_updates rows (handle b lp rp) = Some p" "d = clear_conn_result p1"
      using assms False s by (auto simp: rt_duckdb_free_balance_def split: Option.bind_splits)
    then show ?thesis using fbb_updates_log [of rows b lp rp p] s(2) Some by auto
  qed
qed

text \<open>The marks.\<close>

function mark_stmts :: "char \<Rightarrow> string list \<Rightarrow> string list" where
  "mark_stmts leg [] = []"
| "mark_stmts leg (i # ids) = (mark_head leg @ join_cols (take mark_chunk (i # ids)) @ '')'') # mark_stmts leg (drop mark_chunk (i # ids))"
  by pat_completeness auto
termination by (relation "measure (\<lambda>(leg, ids). length ids)") auto

declare mark_stmts.simps(2) [simp del] mark_loop.simps(2) [simp del]

lemma join_cols_each: "\<forall>s \<in> set ss. length s \<le> k \<Longrightarrow> length (join_cols ss) \<le> length ss * Suc k"
  by (induction ss rule: join_cols.induct) fastforce+

lemma mark_loop_log: "mark_loop leg ids (handle a lg r) = Some p \<Longrightarrow> \<exists>r'. p = handle a (lg @ mark_stmts leg ids) r'"
proof (induction leg ids arbitrary: lg r rule: mark_stmts.induct)
  case (2 leg i ids)
  let ?q = "mark_head leg @ join_cols (take mark_chunk (i # ids)) @ '')''"
  have "mark_loop leg (drop mark_chunk (i # ids)) (handle a (lg @ [?q]) (snd (a ?q))) = Some p"
    using 2(2) by (auto simp: mark_loop.simps(2) fits_def rdb_tx split: Option.bind_splits if_splits simp del: drop_Suc_Cons take_Suc_Cons)
  from 2(1) [OF this] show ?case by (simp add: mark_stmts.simps(2))
qed auto

lemma mark_loop_fits: "\<forall>s \<in> set ids. length s \<le> 20 \<Longrightarrow> \<exists>r'. mark_loop leg ids (handle a lg r) = Some (handle a (lg @ mark_stmts leg ids) r')"
proof (induction leg ids arbitrary: lg r rule: mark_stmts.induct)
  case (2 leg i ids)
  let ?c = "take mark_chunk (i # ids)"
  let ?q = "mark_head leg @ join_cols ?c @ '')''"
  have "\<forall>s \<in> set ?c. length s \<le> 20" using 2(2) by (blast dest: in_set_takeD)
  from join_cols_each [OF this] have "length (join_cols ?c) \<le> 2000 * 21" by (rule order.trans) simp
  then have f: "fits (mark_chunk * 24 + 128) ?q = Some ?q" by (simp add: fits_def mark_head_def)
  have "\<forall>s \<in> set (drop mark_chunk (i # ids)). length s \<le> 20" using 2(2) by (blast dest: in_set_dropD)
  from 2(1) [OF this, of "lg @ [?q]" "snd (a ?q)"] show ?case
    unfolding mark_loop.simps(2) f by (simp add: mark_stmts.simps(2) rdb_tx)
qed auto

lemma first_cols_map [simp]: "first_cols (map (\<lambda>i. [f i]) ids) = Some (map f ids)"
  by (induction ids) (simp_all add: col_def)

text \<open>A handle with a result that is not freed yet.\<close>

definition pending :: "string list list option \<Rightarrow> reply \<Rightarrow> string list \<Rightarrow> recorder db option" where
  "pending rows a lg = map_option (\<lambda>d. d\<lparr>db_conn := map_option (\<lambda>c. c\<lparr>cn_result := map_option SqlResult rows\<rparr>) (db_conn d)\<rparr>)
     (handle a lg None)"

lemma fetch_pending: "snd (db_fetch (snd (db_query (handle a lg r) q False))) = pending (snd (a q)) a (lg @ [q])"
  by (cases "snd (a q)")
    (simp_all add: pending_def rdb_def db_query_def db_fetch_def db_on_def via_def recorder_api_def
      db_conn_init_def db_free_result_def Let_def split_beta)

lemma pending_simps [simp]:
  "pending None a lg = handle a lg None" "conn_rows (pending rows a lg) = rows" "has_conn (pending rows a lg)"
  "clear_conn_result (pending rows a lg) = handle a lg None"
  "clear_conn_result (snd (db_query (pending rows a lg) q True)) = handle a (lg @ [q]) (snd (a q))"
  by (cases rows; simp add: pending_def rdb_def conn_rows_def has_conn_def clear_conn_result_def db_query_def db_on_def via_def
      recorder_api_def db_conn_init_def db_free_result_def Let_def split_beta)+

lemma store_log:
  assumes "insert_sql fp rows = Some ins"
  shows "store_rated fp leg rows (handle a lg r) = (case snd (a ins) of
      Some (x # xs) \<Rightarrow> map_option (\<lambda>upd. (int (length (x # xs)), handle a (lg @ [''BEGIN'', ins, upd, ''COMMIT'']) (snd (a ''COMMIT''))))
        (legs_sql leg (x # xs))
    | _ \<Rightarrow> Some (0, handle a (lg @ [''BEGIN'', ins, ''COMMIT'']) (snd (a ''COMMIT''))))"
  using assms by (cases "legs_sql leg (the (snd (a ins)))")
    (auto simp: store_rated_def fetch_pending rdb_tx split: option.splits list.splits)

lemma finish_log:
  assumes "finish_batch fp leg rated (handle d ld sd) (handle p lp sp) = Some (duck, pg)"
    and "rows_of d unmatched_sql = Some (map (\<lambda>i. [i]) ids)"
  shows "\<exists>qs r. pg = handle p (lp @ [''BEGIN''] @ qs @ mark_stmts leg ids @ [''COMMIT'']) r \<and>
     (\<forall>q \<in> set qs. is_balance q)"
proof -
  let ?b = "handle p (lp @ [''BEGIN'']) (snd (p ''BEGIN''))"
  obtain d1 p1 where 1: "(if 0 < rated then rt_duckdb_balance fp (handle d ld sd) ?b else Some (handle d ld sd, ?b)) = Some (d1, p1)"
    using assms(1) by (auto simp: finish_batch_def rdb_tx Let_def split: Option.bind_splits)
  have "\<exists>ld1 sd1 qs r. d1 = handle d ld1 sd1 \<and> p1 = handle p (lp @ [''BEGIN''] @ qs) r \<and> (\<forall>q \<in> set qs. is_balance q)"
    using 1 balance_log [of fp d ld sd p "lp @ [''BEGIN'']" "snd (p ''BEGIN'')" d1 p1]
    by (cases "0 < rated") (fastforce, auto intro: exI [of _ "[]"])
  then obtain ld1 sd1 qs1 r1 where d1: "d1 = handle d ld1 sd1" "p1 = handle p (lp @ [''BEGIN''] @ qs1) r1" "\<forall>q \<in> set qs1. is_balance q"
    by blast
  obtain d2 p2 where 2: "(if 0 < rated then rt_duckdb_free_balance d1 p1 else Some (d1, p1)) = Some (d2, p2)"
    using assms(1) 1 by (auto simp: finish_batch_def rdb_tx Let_def split: Option.bind_splits)
  have "\<exists>ld2 sd2 qs r. d2 = handle d ld2 sd2 \<and> p2 = handle p ((lp @ [''BEGIN''] @ qs1) @ qs) r \<and> (\<forall>q \<in> set qs. is_balance q)"
    using 2 free_balance_log [of d ld1 sd1 p "lp @ [''BEGIN''] @ qs1" r1 d2 p2]
      log_same [of p "lp @ ''BEGIN'' # qs1" r1 is_balance] unfolding d1
    by (cases "0 < rated") (fastforce, auto)
  then obtain ld2 sd2 qs2 r2 where d2: "d2 = handle d ld2 sd2" "p2 = handle p ((lp @ [''BEGIN''] @ qs1) @ qs2) r2" "\<forall>q \<in> set qs2. is_balance q"
    by blast
  obtain d3 where 3: "rt_duckdb_select unmatched_sql d2 = (Some (map (\<lambda>i. [i]) ids), d3)"
    using select_some [OF assms(2), of ld2 sd2] d2(1) by blast
  obtain p3 where 4: "mark_loop leg ids p2 = Some p3" "pg = snd (db_query p3 ''COMMIT'' True)"
    using assms(1) 1 2 3 first_cols_map [of "\<lambda>i. i" ids] by (auto simp: finish_batch_def rdb_tx Let_def split: Option.bind_splits)
  obtain r3 where "p3 = handle p (((lp @ [''BEGIN''] @ qs1) @ qs2) @ mark_stmts leg ids) r3"
    using mark_loop_log 4(1) unfolding d2(2) by blast
  then have "pg = handle p (lp @ [''BEGIN''] @ (qs1 @ qs2) @ mark_stmts leg ids @ [''COMMIT'']) (snd (p ''COMMIT''))"
    using 4(2) by (simp add: rdb_tx)
  moreover have "\<forall>q \<in> set (qs1 @ qs2). is_balance q" using d1(3) d2(3) by auto
  ultimately show ?thesis by blast
qed

text \<open>What \<open>DuckDB\<close> answers in a cycle that finds work: a window of \<open>n\<close> calls, the rated rows and the ids
  that have none.\<close>

definition finds :: "reply \<Rightarrow> char \<Rightarrow> int \<Rightarrow> int \<Rightarrow> string list list \<Rightarrow> string list \<Rightarrow> bool" where
  "finds d leg limit n rows ids \<longleftrightarrow> 0 \<le> fst (d (strncpy (window_sql leg limit) 16383)) \<and>
     (\<exists>m. int64 m \<and> rows_of d count_sql = Some [[dec_int n, dec_int m]]) \<and>
     0 \<le> fst (d (strncpy (rated_batch_sql (snd (rt_build_acct_union leg 6144))) 16383)) \<and>
     rows_of d rated_select_sql = Some rows \<and> rows_of d unmatched_sql = Some (map (\<lambda>i. [i]) ids)"

lemma dec_nat_not_space: "\<not> isspace (hd (dec_nat n)) \<and> hd (dec_nat n) \<noteq> CHR ''-'' \<and> hd (dec_nat n) \<noteq> CHR ''+''"
proof -
  have "\<not> isdigit (CHR ''-'')" "\<not> isdigit (CHR ''+'')" "\<And>c. isdigit c \<Longrightarrow> \<not> isspace c"
    by (auto simp: isdigit_def isspace_def)
  moreover obtain c cs where "dec_nat n = c # cs" "isdigit c" using dec_nat_Cons by blast
  ultimately show ?thesis by auto
qed

lemma atoll_dec_int [simp]: "int64 i \<Longrightarrow> atoll (dec_int i) = Some i"
proof -
  assume i: "int64 i"
  obtain c cs where c: "dec_nat (nat \<bar>i\<bar>) = c # cs" using dec_nat_Cons by blast
  then have h: "\<not> isspace c" "c \<noteq> CHR ''-''" "c \<noteq> CHR ''+''" using dec_nat_not_space [of "nat \<bar>i\<bar>"] by simp_all
  have v: "digits_val 0 (c # cs) = nat \<bar>i\<bar>" using c by (metis digits_val_dec_nat)
  have m: "\<not> isspace (CHR ''-'')" by (simp add: isspace_def)
  show ?thesis
  proof (cases "i < 0")
    case True
    then have "dec_int i = CHR ''-'' # c # cs" using c by (simp add: dec_int_def)
    then show ?thesis using True m v i by (simp add: atoll_def split_sign_def Let_def)
  next
    case False
    then have "dec_int i = c # cs" using c by (simp add: dec_int_def)
    then show ?thesis using False h v i by (simp add: atoll_def split_sign_def Let_def)
  qed
qed

lemma acct_union_found: "leg = CHR ''a'' \<or> leg = CHR ''b'' \<Longrightarrow> 0 < fst (rt_build_acct_union leg 6144)"
  using union_whole(1) [of leg] by (auto simp: rt_acct_modes_def mode_entry_def)

lemma batch_runs:
  assumes "leg = CHR ''a'' \<or> leg = CHR ''b''" "finds d leg limit n rows ids" "0 < n" "n < 2 ^ 31"
  shows "\<exists>ld' sd'. rt_duckdb_rate_batch fp leg limit (handle d ld sd) (handle p lp sp) =
    do {
      (rated, pg) \<leftarrow> (if rows = [] then Some (0, handle p lp sp) else store_rated fp leg rows (handle p lp sp));
      (duck, pg) \<leftarrow> finish_batch fp leg rated (handle d ld' sd') pg;
      Some (n, rated, duck, pg)
    }"
proof -
  let ?w = "strncpy (window_sql leg limit) 16383" and ?b = "strncpy (rated_batch_sql (snd (rt_build_acct_union leg 6144))) 16383"
  note f = assms(2) [unfolded finds_def]
  obtain m where m: "int64 m" "rows_of d count_sql = Some [[dec_int n, dec_int m]]" using f by blast
  obtain p1 where 1: "rt_duckdb_select count_sql (handle d (ld @ [?w]) (snd (d ?w))) = (Some [[dec_int n, dec_int m]], p1)"
    "clear_conn_result p1 = handle d ((ld @ [?w]) @ [count_sql]) None"
    using select_some m by blast
  obtain p2 where 2: "rt_duckdb_select rated_select_sql (handle d (((ld @ [?w]) @ [count_sql]) @ [?b]) (snd (d ?b))) = (Some rows, p2)"
    "clear_conn_result p2 = handle d ((((ld @ [?w]) @ [count_sql]) @ [?b]) @ [rated_select_sql]) None"
    using select_some f by blast
  have n: "int64 n" using assms by (simp add: int64_def)
  have w: "sint (word_of_int n :: u32) = n" using assms by (simp add: signed_take_bit_int_eq_self sint_sbintrunc')
  have c: "coll [dec_int n, dec_int m] 0 = Some n" "coll [dec_int n, dec_int m] 1 = Some m" using n m by (simp_all add: coll_def col_def)
  have "rt_duckdb_rate_batch fp leg limit (handle d ld sd) (handle p lp sp) =
      batch_rows fp leg n (handle d (((ld @ [?w]) @ [count_sql]) @ [?b]) (snd (d ?b))) (handle p lp sp)"
    using f 1 c assms acct_union_found [OF assms(1)] by (simp add: rt_duckdb_rate_batch_def split_beta Let_def)
  also have "\<dots> = do {
      (rated, pg) \<leftarrow> (if rows = [] then Some (0, handle p lp sp) else store_rated fp leg rows (handle p lp sp));
      (duck, pg) \<leftarrow> finish_batch fp leg rated (handle d ((((ld @ [?w]) @ [count_sql]) @ [?b]) @ [rated_select_sql]) None) pg;
      Some (n, rated, duck, pg)
    }"
    unfolding batch_rows_def 2(1) using 2(2) w by (cases rows) (simp_all add: Let_def)
  finally show ?thesis by blast
qed

section \<open>The calls of a window\<close>

text \<open>A row of \<open>RETURNING id, call_id\<close>, and the statement that stores the rating ids in the calls.\<close>

definition legs_text :: "char \<Rightarrow> (int \<times> int) list \<Rightarrow> string" where
  "legs_text leg ps = legs_head leg @ join_cols (map (\<lambda>(i, c). ''('' @ dec_int c @ '','' @ dec_int i @ '')'') ps) @ legs_tail"

abbreviation returned :: "(int \<times> int) list \<Rightarrow> string list list" where
  "returned \<equiv> map (\<lambda>(i, c). [dec_int i, dec_int c])"

lemma join_cols_Cons: "join_cols (c # cs) = c @ (if cs = [] then [] else '','' @ join_cols cs)"
  by (cases cs) simp_all

abbreviation short_id :: "int \<Rightarrow> bool" where "short_id i \<equiv> \<bar>i\<bar> < 10 ^ 15"

lemma short_id: "short_id i \<Longrightarrow> int64 i" "short_id i \<Longrightarrow> length (dec_int i) \<le> 16"
  using dec_int_length [of i 15] by (auto simp: int64_def)

lemma leg_values_text:
  assumes "\<forall>(i, c) \<in> set ps. short_id i \<and> short_id c"
  shows "leg_values first (returned ps) = Some ((if first \<or> ps = [] then [] else '','') @
    join_cols (map (\<lambda>(i, c). ''('' @ dec_int c @ '','' @ dec_int i @ '')'') ps))"
  using assms
proof (induction ps arbitrary: first)
  case (Cons x ps)
  obtain i c where x: "x = (i, c)" by (cases x)
  then have s: "short_id i" "short_id c" using Cons.prems by auto
  have "length ((if first then [] else '','') @ ''('' @ dec_int c @ '','' @ dec_int i @ '')'') \<le> 63"
    using short_id(2) [OF s(1)] short_id(2) [OF s(2)] by simp
  then have w: "strncpy ((if first then [] else '','') @ ''('' @ dec_int c @ '','' @ dec_int i @ '')'') 63 =
      (if first then [] else '','') @ ''('' @ dec_int c @ '','' @ dec_int i @ '')''" by (simp add: strncpy_def)
  have t: "leg_values False (returned ps) = Some ((if ps = [] then [] else '','') @
      join_cols (map (\<lambda>(i, c). ''('' @ dec_int c @ '','' @ dec_int i @ '')'') ps))"
    using Cons.IH [of False] Cons.prems by simp
  have v: "coll [dec_int i, dec_int c] 0 = Some i" "coll [dec_int i, dec_int c] 1 = Some c"
    using short_id(1) [OF s(1)] short_id(1) [OF s(2)] by (simp_all add: coll_def col_def)
  show ?case unfolding x by (simp only: list.map prod.case leg_values.simps t v w bind.bind_lunit join_cols_Cons) simp
qed simp

lemma legs_sql_text:
  assumes "\<forall>(i, c) \<in> set ps. short_id i \<and> short_id c" "leg = CHR ''a'' \<or> leg = CHR ''b''"
  shows "legs_sql leg (returned ps) = Some (legs_text leg ps)"
proof -
  let ?vs = "map (\<lambda>(i, c). ''('' @ dec_int c @ '','' @ dec_int i @ '')'') ps"
  have "length (''('' @ dec_int c @ '','' @ dec_int i @ '')'') \<le> 35" if "(i, c) \<in> set ps" for i c
    using assms(1) that short_id(2) [of i] short_id(2) [of c] by fastforce
  then have "\<forall>s \<in> set ?vs. length s \<le> 35" by auto
  from join_cols_each [OF this] have "length (join_cols ?vs) \<le> length ps * 36" by simp
  then have "length (legs_text leg ps) < length (returned ps) * 40 + 256"
    by (simp add: legs_text_def legs_head_def legs_tail_def)
  then show ?thesis using leg_values_text [OF assms(1), of True] by (simp add: legs_sql_def fits_def legs_text_def)
qed

lemma rated_in_window: "set (map rb_cdr_id (rated_batch fns dm leg win)) \<subseteq> set (map wr_id win)"
proof -
  have "rb_cdr_id r = fb_id x" if "r \<in> set (call_rows fns dm fs x)" for r fs x
    using that by (auto simp: call_rows_def set_map_filter row_rated_def Let_def)
  moreover have "fb_id x \<in> set (map wr_id win)" if "x \<in> set (fbs fns dm leg win)" for x
    using fbs_source [of x fns dm leg win] that by (auto simp: fb_id_def)
  ultimately show ?thesis by (fastforce simp: rated_batch_def Let_def)
qed

text \<open>Property C16. A window is written in two transactions and every call of it exactly once. When \<open>DuckDB\<close> answers a
  cycle by the rows of \<open>rated_batch\<close> and the ids of \<open>unmatched\<close>, and PostgreSQL answers the insert by
  an id and a call for each row, the cycle that returns has sent: the insert of all rated rows and
  one update that stores the id of each row in the leg of its call, between \<open>BEGIN\<close> and \<open>COMMIT\<close>;
  then statements on the balances and the marks of the other calls, between \<open>BEGIN\<close> and \<open>COMMIT\<close>. The
  calls of the update and the marked calls together are the window, and none is in both. The call
  returns the size of the window and the number of rows.\<close>

theorem window_partition:
  assumes "rt_duckdb_rate_batch fp leg limit (handle d ld sd) (handle p lp sp) = Some (n', rated, duck, pg)"
    and "leg = CHR ''a'' \<or> leg = CHR ''b''" "0 < n" "n < 2 ^ 31"
    and "finds d leg limit n rows (map dec_int (unmatched win (rated_batch fns dm leg win)))" "rows \<noteq> []"
    and "insert_sql fp rows = Some ins" "snd (p ins) = Some (returned ps)"
    and "map snd ps = map rb_cdr_id (rated_batch fns dm leg win)" "ps \<noteq> []"
    and "\<forall>(i, c) \<in> set ps. short_id i \<and> short_id c"
  shows "n' = n \<and> rated = int (length ps) \<and>
    (\<exists>qs r. pg = handle p (lp @ [''BEGIN'', ins, legs_text leg ps, ''COMMIT'', ''BEGIN''] @ qs @
        mark_stmts leg (map dec_int (unmatched win (rated_batch fns dm leg win))) @ [''COMMIT'']) r \<and>
      (\<forall>q \<in> set qs. is_balance q)) \<and>
    set (map wr_id win) = set (map snd ps) \<union> set (unmatched win (rated_batch fns dm leg win)) \<and>
    set (map snd ps) \<inter> set (unmatched win (rated_batch fns dm leg win)) = {}"
proof -
  let ?um = "unmatched win (rated_batch fns dm leg win)"
  obtain i c ps' where ps: "ps = (i, c) # ps'" using assms(10) by (cases ps) auto
  obtain ld' sd' where r: "rt_duckdb_rate_batch fp leg limit (handle d ld sd) (handle p lp sp) = do {
      (rated, pg) \<leftarrow> (if rows = [] then Some (0, handle p lp sp) else store_rated fp leg rows (handle p lp sp));
      (duck, pg) \<leftarrow> finish_batch fp leg rated (handle d ld' sd') pg;
      Some (n, rated, duck, pg)
    }"
    using batch_runs [OF assms(2,5,3,4)] by blast
  have l: "legs_sql leg (returned ps) = Some (legs_text leg ps)" by (rule legs_sql_text [OF assms(11,2)])
  have st: "store_rated fp leg rows (handle p lp sp) =
      Some (int (length ps), handle p (lp @ [''BEGIN'', ins, legs_text leg ps, ''COMMIT'']) (snd (p ''COMMIT'')))"
    using store_log [OF assms(7), of leg p lp sp] assms(8) l by (simp add: ps)
  have f: "finish_batch fp leg (int (length ps)) (handle d ld' sd')
      (handle p (lp @ [''BEGIN'', ins, legs_text leg ps, ''COMMIT'']) (snd (p ''COMMIT''))) = Some (duck, pg)"
    and n: "n' = n" "rated = int (length ps)"
    using assms(1,6) unfolding r st by (auto split: Option.bind_splits)
  have um: "rows_of d unmatched_sql = Some (map (\<lambda>i. [i]) (map dec_int ?um))" using assms(5) by (simp add: finds_def)
  obtain qs r' where "pg = handle p ((lp @ [''BEGIN'', ins, legs_text leg ps, ''COMMIT'']) @ [''BEGIN''] @ qs @
      mark_stmts leg (map dec_int ?um) @ [''COMMIT'']) r'" "\<forall>q \<in> set qs. is_balance q"
    using finish_log [OF f um] by blast
  then have "\<exists>qs r. pg = handle p (lp @ [''BEGIN'', ins, legs_text leg ps, ''COMMIT'', ''BEGIN''] @ qs @
      mark_stmts leg (map dec_int ?um) @ [''COMMIT'']) r \<and> (\<forall>q \<in> set qs. is_balance q)"
    by (intro exI [of _ qs] exI [of _ r']) simp
  moreover have "set (map snd ps) \<subseteq> set (map wr_id win)" unfolding assms(9) by (rule rated_in_window)
  then have "set (map wr_id win) = set (map snd ps) \<union> set ?um" "set (map snd ps) \<inter> set ?um = {}"
    unfolding assms(9) by (auto simp: unmatched_def)
  ultimately show ?thesis using n by blast
qed

text \<open>A window whose insert fails is rated again at once. When the insert of the rated rows gives no
  row back, no leg of a rated call and no balance is written: the cycle sends the insert in its
  transaction, then marks only the calls without a rate. It still counts the whole window as work,
  so the thread goes on with the next window (at once, or after \<open>WaitRating\<close>) instead of sleeping;
  and the rated calls are still open, so they are in that window again.\<close>

theorem failed_insert_retried:
  assumes "dk_leg cfg = CHR ''a'' \<or> dk_leg cfg = CHR ''b''" "dk_active cfg = CHR ''t''"
    and "0 < n" "n < 2 ^ 31" "int_range (cycles + 1)" "(cycles + 1) mod 1000 \<noteq> 0"
    and "finds d (dk_leg cfg) (dk_batch_limit cfg) n rows ids" "rows \<noteq> []"
    and "insert_sql fp rows = Some ins" "snd (p ins) = None \<or> snd (p ins) = Some []"
    and "\<forall>i \<in> set ids. length i \<le> 20"
  shows "\<exists>duck r. duck_cycle fp cfg cycles (handle d ld sd) (handle p lp sp) =
    Some (Again (if 0 < dk_wait_rating cfg then Some (dk_wait_rating cfg) else None), cycles + 1, duck,
      handle p (lp @ [''BEGIN'', ins, ''COMMIT'', ''BEGIN''] @ mark_stmts (dk_leg cfg) ids @ [''COMMIT'']) r)"
proof -
  let ?leg = "dk_leg cfg"
  obtain ld' sd' where r: "rt_duckdb_rate_batch fp ?leg (dk_batch_limit cfg) (handle d ld sd) (handle p lp sp) = do {
      (rated, pg) \<leftarrow> (if rows = [] then Some (0, handle p lp sp) else store_rated fp ?leg rows (handle p lp sp));
      (duck, pg) \<leftarrow> finish_batch fp ?leg rated (handle d ld' sd') pg;
      Some (n, rated, duck, pg)
    }"
    using batch_runs [OF assms(1,7,3,4)] by blast
  have st: "store_rated fp ?leg rows (handle p lp sp) = Some (0, handle p (lp @ [''BEGIN'', ins, ''COMMIT'']) (snd (p ''COMMIT'')))"
    using store_log [OF assms(9), of ?leg p lp sp] assms(10) by auto
  let ?b = "handle p ((lp @ [''BEGIN'', ins, ''COMMIT'']) @ [''BEGIN'']) (snd (p ''BEGIN''))"
  obtain d2 where d2: "rt_duckdb_select unmatched_sql (handle d ld' sd') = (Some (map (\<lambda>i. [i]) ids), d2)"
    using select_some assms(7) unfolding finds_def by blast
  obtain r2 where m: "mark_loop ?leg ids ?b = Some (handle p (((lp @ [''BEGIN'', ins, ''COMMIT'']) @ [''BEGIN'']) @ mark_stmts ?leg ids) r2)"
    using mark_loop_fits [OF assms(11)] by blast
  have fc: "first_cols (map (\<lambda>i. [i]) ids) = Some ids" using first_cols_map [of "\<lambda>i. i" ids] by simp
  have "finish_batch fp ?leg 0 (handle d ld' sd') (handle p (lp @ [''BEGIN'', ins, ''COMMIT'']) (snd (p ''COMMIT''))) =
      Some (clear_conn_result d2, handle p ((((lp @ [''BEGIN'', ins, ''COMMIT'']) @ [''BEGIN'']) @ mark_stmts ?leg ids) @ [''COMMIT'']) (snd (p ''COMMIT'')))"
    using m fc d2 by (simp add: finish_batch_def rdb_tx)
  then have b: "rt_duckdb_rate_batch fp ?leg (dk_batch_limit cfg) (handle d ld sd) (handle p lp sp) =
      Some (n, 0, clear_conn_result d2, handle p (lp @ [''BEGIN'', ins, ''COMMIT'', ''BEGIN''] @ mark_stmts ?leg ids @ [''COMMIT'']) (snd (p ''COMMIT'')))"
    using assms(8) unfolding r st by simp
  have "?leg \<noteq> CHR 0x00" using assms(1) by auto
  then show ?thesis using assms(2,3,5,6) by (auto simp: duck_cycle_def b cadd_def Let_def)
qed

section \<open>Examples\<close>

text \<open>A window of two calls, one to a number with a rate and one to a number without.\<close>

definition demo_window :: "win_row list" where
  "demo_window = [demo_win 1 ''4420'', demo_win 2 ''7700'']"

definition demo_line :: "string list" where
  "demo_line = [''1'', ''60'', ''2024-06-11 22:00:00'', ''9'', ''13'', ''-1'', ''31'', ''true'', ''2'', ''51'', ''0'']"

definition demo_duck :: reply where
  "demo_duck q = (0, Some (if q = count_sql then [[dec_int 2, dec_int 2]] else if q = rated_select_sql then [demo_line]
     else if q = unmatched_sql then [[dec_int 2]] else []))"

text \<open>PostgreSQL with the insert, and without it.\<close>

definition demo_pg :: reply where
  "demo_pg q = (0, Some (if hd q = CHR ''I'' then returned [(7, 1)] else []))"

definition demo_pg_fails :: reply where
  "demo_pg_fails q = (if hd q = CHR ''I'' then (-1, None) else (0, Some []))"

lemma demo_window_rated:
  "map rb_cdr_id (rated_batch demo_fns demo_dims (CHR ''a'') demo_window) = [1]"
  "unmatched demo_window (rated_batch demo_fns demo_dims (CHR ''a'') demo_window) = [2]"
  by code_simp+

lemma duck_demo_insert: "insert_sql exact [demo_line] \<noteq> None"
  by code_simp

lemma duck_insert_starts: "insert_sql fp rows = Some ins \<Longrightarrow> hd ins = CHR ''I''"
  by (auto simp: insert_sql_def fits_Some rating_insert_head_def split: Option.bind_splits)

lemma duck_statements_differ: "count_sql \<noteq> rated_select_sql" "count_sql \<noteq> unmatched_sql" "rated_select_sql \<noteq> unmatched_sql"
  by (simp_all add: count_sql_def rated_select_sql_def unmatched_sql_def)

lemma demo_finds: "finds demo_duck (CHR ''a'') 100 2 [demo_line] (map dec_int [2])"
proof -
  have "int64 2" by (simp add: int64_def)
  then show ?thesis using duck_statements_differ by (auto simp: finds_def rows_of_def demo_duck_def)
qed

lemma no_balances:
  assumes "rows_of d bal_select_sql = Some []" "rows_of d fbb_select_sql = Some []" "0 \<le> fst (d bal_delta_sql)" "0 \<le> fst (d fbb_delta_sql)"
  shows "\<exists>ld' sd'. rt_duckdb_balance fp (handle d ld sd) pg = Some (handle d ld' sd', pg)"
    "\<exists>ld' sd'. rt_duckdb_free_balance (handle d ld sd) pg = Some (handle d ld' sd', pg)"
proof -
  obtain q where q: "rt_duckdb_select bal_select_sql (handle d (ld @ [bal_delta_sql]) (snd (d bal_delta_sql))) = (Some [], q)"
    "clear_conn_result q = handle d ((ld @ [bal_delta_sql]) @ [bal_select_sql]) None"
    using select_some [OF assms(1)] by blast
  then show "\<exists>ld' sd'. rt_duckdb_balance fp (handle d ld sd) pg = Some (handle d ld' sd', pg)"
    using assms(3) by (auto simp: rt_duckdb_balance_def)
  obtain q' where q': "rt_duckdb_select fbb_select_sql (handle d (ld @ [fbb_delta_sql]) (snd (d fbb_delta_sql))) = (Some [], q')"
    "clear_conn_result q' = handle d ((ld @ [fbb_delta_sql]) @ [fbb_select_sql]) None"
    using select_some [OF assms(2)] by blast
  then show "\<exists>ld' sd'. rt_duckdb_free_balance (handle d ld sd) pg = Some (handle d ld' sd', pg)"
    using assms(4) by (auto simp: rt_duckdb_free_balance_def)
qed

lemma finish_returns:
  assumes "rows_of d bal_select_sql = Some []" "rows_of d fbb_select_sql = Some []" "0 \<le> fst (d bal_delta_sql)" "0 \<le> fst (d fbb_delta_sql)"
    and "rows_of d unmatched_sql = Some (map (\<lambda>i. [i]) ids)" "\<forall>i \<in> set ids. length i \<le> 20"
  shows "finish_batch fp leg rated (handle d ld sd) (handle p lp sp) \<noteq> None"
proof -
  let ?b = "handle p (lp @ [''BEGIN'']) (snd (p ''BEGIN''))"
  obtain ld1 sd1 where 1: "(if 0 < rated then rt_duckdb_balance fp (handle d ld sd) ?b else Some (handle d ld sd, ?b)) = Some (handle d ld1 sd1, ?b)"
    using no_balances(1) [OF assms(1-4), where fp = fp and ld = ld and sd = sd and pg = ?b] by (cases "0 < rated") auto
  obtain ld2 sd2 where 2: "(if 0 < rated then rt_duckdb_free_balance (handle d ld1 sd1) ?b else Some (handle d ld1 sd1, ?b)) = Some (handle d ld2 sd2, ?b)"
    using no_balances(2) [OF assms(1-4), where ld = ld1 and sd = sd1 and pg = ?b] by (cases "0 < rated") auto
  obtain d3 where 3: "rt_duckdb_select unmatched_sql (handle d ld2 sd2) = (Some (map (\<lambda>i. [i]) ids), d3)"
    using select_some [OF assms(5)] by blast
  obtain r where 4: "mark_loop leg ids ?b = Some (handle p ((lp @ [''BEGIN'']) @ mark_stmts leg ids) r)"
    using mark_loop_fits [OF assms(6)] by blast
  have fc: "first_cols (map (\<lambda>i. [i]) ids) = Some ids" using first_cols_map [of "\<lambda>i. i" ids] by simp
  show ?thesis
    unfolding finish_batch_def rdb_tx snd_conv Let_def 1 bind.bind_lunit prod.case 2 3 option.case fc 4 by simp
qed

lemma statements_other:
  "bal_select_sql \<noteq> count_sql" "bal_select_sql \<noteq> rated_select_sql" "bal_select_sql \<noteq> unmatched_sql"
  "fbb_select_sql \<noteq> count_sql" "fbb_select_sql \<noteq> rated_select_sql" "fbb_select_sql \<noteq> unmatched_sql"
  by (simp_all add: count_sql_def rated_select_sql_def unmatched_sql_def bal_select_sql_def fbb_select_sql_def)

lemma demo_short: "length (dec_int 2) \<le> 20" "\<forall>(i, c) \<in> set [(7, 1)]. short_id i \<and> short_id c"
  using short_id(2) [of 2] by simp_all

theorem window_partition_witness:
  "\<exists>ins qs r duck. insert_sql exact [demo_line] = Some ins \<and>
     rt_duckdb_rate_batch exact (CHR ''a'') 100 (handle demo_duck [] None) (handle demo_pg [] None) =
       Some (2, 1, duck, handle demo_pg ([''BEGIN'', ins, legs_text (CHR ''a'') [(7, 1)], ''COMMIT'', ''BEGIN''] @ qs @
         mark_stmts (CHR ''a'') [dec_int 2] @ [''COMMIT'']) r)"
proof -
  obtain ins where ins: "insert_sql exact [demo_line] = Some ins" using duck_demo_insert by blast
  have pg: "snd (demo_pg ins) = Some (returned [(7, 1)])" using duck_insert_starts [OF ins] by (simp add: demo_pg_def)
  note f = demo_finds
  have f': "finds demo_duck (CHR ''a'') 100 2 [demo_line] (map dec_int (unmatched demo_window (rated_batch demo_fns demo_dims (CHR ''a'') demo_window)))"
    unfolding demo_window_rated(2) by (rule f)
  have l: "legs_sql (CHR ''a'') (returned [(7, 1)]) = Some (legs_text (CHR ''a'') [(7, 1)])"
    by (rule legs_sql_text [OF demo_short(2)]) simp
  obtain ld' sd' where b: "rt_duckdb_rate_batch exact (CHR ''a'') 100 (handle demo_duck [] None) (handle demo_pg [] None) = do {
      (rated, pg) \<leftarrow> (if [demo_line] = [] then Some (0, handle demo_pg [] None) else store_rated exact (CHR ''a'') [demo_line] (handle demo_pg [] None));
      (duck, pg) \<leftarrow> finish_batch exact (CHR ''a'') rated (handle demo_duck ld' sd') pg;
      Some (2, rated, duck, pg)
    }"
    using batch_runs [OF _ f, of exact "[]" None demo_pg "[]" None] by auto
  have st: "store_rated exact (CHR ''a'') [demo_line] (handle demo_pg [] None) =
      Some (1, handle demo_pg ([] @ [''BEGIN'', ins, legs_text (CHR ''a'') [(7, 1)], ''COMMIT'']) (snd (demo_pg ''COMMIT'')))"
    using store_log [OF ins, of "CHR ''a''" demo_pg "[]" None] pg l by simp
  have "finish_batch exact (CHR ''a'') 1 (handle demo_duck ld' sd')
      (handle demo_pg ([] @ [''BEGIN'', ins, legs_text (CHR ''a'') [(7, 1)], ''COMMIT'']) (snd (demo_pg ''COMMIT''))) \<noteq> None"
    using statements_other f demo_short(1)
    by (intro finish_returns [where ids = "[dec_int 2]"]) (auto simp: rows_of_def demo_duck_def finds_def)
  then obtain duck pg where run: "rt_duckdb_rate_batch exact (CHR ''a'') 100 (handle demo_duck [] None) (handle demo_pg [] None) = Some (2, 1, duck, pg)"
    unfolding b st by fastforce
  show ?thesis
    using window_partition [OF run _ _ _ f' _ ins pg _ _ demo_short(2)] demo_window_rated ins run by auto
qed

theorem failed_insert_retried_witness:
  "\<exists>ins duck r. insert_sql exact [demo_line] = Some ins \<and>
     duck_cycle exact (duck_cfg0\<lparr>dk_active := CHR ''t'', dk_batch_limit := 100\<rparr>) 0 (handle demo_duck [] None) (handle demo_pg_fails [] None) =
       Some (Again (Some 1500), 1, duck, handle demo_pg_fails ([''BEGIN'', ins, ''COMMIT'', ''BEGIN''] @
         mark_stmts (CHR ''a'') [dec_int 2] @ [''COMMIT'']) r)"
proof -
  let ?cfg = "duck_cfg0\<lparr>dk_active := CHR ''t'', dk_batch_limit := 100\<rparr>"
  obtain ins where ins: "insert_sql exact [demo_line] = Some ins" using duck_demo_insert by blast
  have pg: "snd (demo_pg_fails ins) = None" using duck_insert_starts [OF ins] by (simp add: demo_pg_fails_def)
  have c: "dk_leg ?cfg = CHR ''a''" "dk_active ?cfg = CHR ''t''" "dk_wait_rating ?cfg = 1500" "dk_batch_limit ?cfg = 100"
    by (simp_all add: duck_cfg0_def)
  have "\<exists>duck r. duck_cycle exact ?cfg 0 (handle demo_duck [] None) (handle demo_pg_fails [] None) =
      Some (Again (if 0 < dk_wait_rating ?cfg then Some (dk_wait_rating ?cfg) else None), 0 + 1, duck,
        handle demo_pg_fails ([] @ [''BEGIN'', ins, ''COMMIT'', ''BEGIN''] @ mark_stmts (dk_leg ?cfg) (map dec_int [2]) @ [''COMMIT'']) r)"
    by (rule failed_insert_retried [where n = 2 and rows = "[demo_line]"])
      (use c demo_finds ins pg demo_short(1) in \<open>simp_all add: int_range_def\<close>)
  then show ?thesis using ins unfolding c by simp
qed

end
