(* ===== verification/Spec2Isabelle.thy ===== *)
theory Spec2Isabelle
  imports Ledger NetServer CallRace CdrOnce CdrSchedule Provision DuckBatch
begin

text \<open>
  RateEngine, a rating and billing engine for calls: a model of the modules under \<open>src/src\<close> and the
  theorems about them.

  The program. Modules are loaded at run time and share the database interface \<open>db/\<close>, the network
  layer \<open>net/\<close> and the reader of the configuration \<open>config/\<close>. \<open>mod/CDRMediator\<close> takes call records from
  CSV files and remote databases into the table \<open>cdrs\<close>. \<open>mod/Rating\<close> reads unrated records in
  batches, finds for each the account, the plan, the rate, the tariff and the card, prices the
  call, stores a row of \<open>rating\<close>, marks the record and adds to the balance; its \<open>rt_maxsec\<close> gives an
  online call the seconds its card can pay. \<open>mod/RatingDuckDB\<close> does the batch with one statement of
  DuckDB. \<open>mod/CallControl\<close> keeps a table of the calls that are up, asks \<open>rt_maxsec\<close> for new ones and
  books ended ones; \<open>mod/my_cc\<close> is its text protocol, served by the transports and the worker pool of
  \<open>net/net.c\<close>.

  How it is modelled. A struct is a record, an enumeration a datatype, \<open>int\<close> an \<open>int\<close> with its range
  tested where a result is computed, \<open>unsigned\<close> and \<open>short\<close> a machine word, a \<open>char\<close> array the bytes
  before its NUL with the size tested where it is written. A function whose C behaviour can be
  undefined (overflow, a string that does not fit, a null or freed pointer, an \<open>atoi\<close> out of range)
  returns an option, \<open>None\<close> for undefined; the null pointer is a \<open>None\<close> inside. Memory that is
  shared by address, behind the table of calls, is an explicit heap of structs.
  \<open>float\<close> and \<open>double\<close> are rationals with a rounding after each operation (theory \<open>CFloat\<close>): the
  arithmetic is an argument \<open>fp\<close>, IEEE or \<open>exact\<close>, and there are no infinities. What is not under
  \<open>src\<close> is an argument: the engines of the databases, json-c and the codecs over it, libxml2, the clock,
  \<open>localtime\<close> and \<open>mktime\<close>, the file system's \<open>rename\<close>, the system calls on sockets.

  The theories and the code.
  \<^item> Base: \<open>Prelude\<close> (return codes of \<open>misc/globals.h\<close>, \<open>int\<close> ranges, strings, option and list lemmas),
    \<open>CString\<close> (the C library on strings), \<open>CFloat\<close> (floating point; locale \<open>rounding\<close>, interpreted for 24
    and 53 bits), \<open>TimeFuncs\<close> (\<open>misc/exten/time_funcs.c\<close>).
  \<^item> Database: \<open>Db\<close> (\<open>db/db.c\<close>: dispatch, reconnection, escaping), \<open>Query\<close> (select, fetch and read of a
    result, the recording engines the theorems use: an engine that answers by a function of the
    statements so far and keeps their list), \<open>Statements\<close> (what an operation may send; locales \<open>reading\<close>,
    \<open>limiting\<close>, \<open>booking\<close>, each a contract of a group of queries).
  \<^item> Rating: \<open>RtData\<close> (\<open>rt_data.h\<close>, \<open>rt_data.c\<close>), \<open>CalcFunctions\<close> and \<open>Pricing\<close> (\<open>calc_functions.c\<close>,
    \<open>round_billsec.c\<close>), \<open>RtCache\<close> (\<open>rt_cache.c\<close>; locale \<open>ttl_cache\<close>, interpreted on all six tables), \<open>TimeCond\<close>
    (\<open>time_cond.c\<close>), \<open>PCard\<close> (\<open>pcard.c\<close>), \<open>RtStore\<close> (\<open>rt_data_q.c\<close>, \<open>free_billsec.c\<close>), \<open>RateSearch\<close> (what these find),
    \<open>Rating\<close> (\<open>rating.c\<close>, \<open>rt_maxsec.c\<close>), \<open>Charging\<close>, \<open>Ledger\<close> and \<open>Marking\<close> (what the rating of calls does).
  \<^item> RatingDuckDB: \<open>DuckSql\<close> (what the statements of \<open>rt_duckdb.c\<close> compute, as functions on tables),
    \<open>DuckText\<close> (their texts, and that they fit their buffers), \<open>DuckRate\<close> (against \<open>Rating\<close>), \<open>DuckBatch\<close> (a
    cycle over the two handles, the thread of \<open>rating_duckdb.c\<close>).
  \<^item> Network: \<open>Net\<close> (\<open>net.c\<close>, \<open>tcp.c\<close>, \<open>udp.c\<close>, \<open>sctp.c\<close>), \<open>NetServer\<close> (\<open>net_parallel_server\<close> as a step relation of
    the acceptor, the queue and the workers; locale \<open>bounded_fifo\<close>).
  \<^item> Call control: \<open>CallControl\<close> (\<open>cc.c\<close>, \<open>cc_server.c\<close>), \<open>MyCC\<close> (\<open>my_cc.c\<close>), \<open>CallTable\<close> (the reference
    functions on a list of calls, and that the heap refines it; locale \<open>call_limits\<close>), \<open>CallRace\<close>
    (interleaved requests).
  \<^item> Call records: \<open>Cdr\<close> and \<open>CdrRecords\<close> (\<open>cdr.c\<close>, \<open>prefix_filter.c\<close>), \<open>CdrFile\<close>, \<open>CdrIngest\<close> and \<open>CdrOnce\<close>
    (\<open>cdr_file.c\<close>), \<open>CdrStorage\<close> and \<open>CdrSchedule\<close> (\<open>cdr_storage.c\<close>, \<open>cdr_storage_sched.c\<close>).
  \<^item> Configuration: \<open>XmlCfg\<close> (\<open>xml_cfg.c\<close>, \<open>main_cfg.c\<close>), \<open>Config\<close> (\<open>rt_cfg.c\<close>, \<open>cc_cfg.c\<close>, \<open>file_list.c\<close>), \<open>CdrCfg\<close>
    (\<open>cdr_cfg.c\<close>), \<open>Mediator\<close> (\<open>cdr_mediator.c\<close>), \<open>Provision\<close> (what many starts leave in the database).
\<close>

text \<open>
  What the lemmas show.
  \<^item> Prices and durations: the price of the code is a reference price, to the roundings; what is granted
    can be paid; no overflow within stated bounds; the recursive statement of DuckDB gives the same price
    and seconds. All for tariffs that satisfy the stated conditions: the code does refund on steps that
    get shorter, and overspends when fees fall.
  \<^item> Search: longest prefix, first time condition, first active card, and the caches as maps whose
    entries expire.
  \<^item> Writing: which statements a pass of the rating can send; a call is stored and charged once; a pass
    that returns has marked its batch; a window of DuckDB is rated and marked in two transactions.
  \<^item> Call control: requests and passes on the heap refine a list of calls; a pass frees exactly the structs
    of the calls it removes; a card is not overbooked by requests one after the other, and is by two that
    overlap; the end of a call can be used after it was freed.
  \<^item> Network: every accepted connection is closed once, jobs are taken in order, the server returns
    after the stop, and no reachable state before is stuck.
  \<^item> Call records: rows, setters and statements stay in their arrays and buffers; a CSV line of plain
    fields comes back; a file is stored row by row and taken in once; a pass over a remote database
    stores its window; what a failed query and a second empty pass do.
  \<^item> Configuration: the main file gives its record; a missing section uses freed parameters; profiles
    are inserted once over all starts; freed filters reach the first pass.

  Bounds and fuel. The loops of the code are structural or have a measure, except the serial servers
  of TCP and UDP, which need not end and are partial functions into option. Of the counters: \<open>db_command\<close>
  has the five attempts of the code; \<open>walk_rounds\<close>, the recursion of the statement of DuckDB, runs as
  many rounds as the table of steps has rows, which is enough as the position grows with each round;
  prices are stated for calls below \<open>2 ^ 24\<close> seconds, as the code takes the number of blocks from a
  \<open>float\<close>, and grants for up to \<open>U\<close> blocks per step with \<open>U\<close> blocks of all steps in an \<open>int\<close>.

  Not modelled. The engines of the databases, TLS, the loader of modules, JSON and JSON-RPC (all are
  calls of libraries; where the models meet them they take an argument); the process (command line, signals,
  fork, logs, statistics, creation of threads); monitoring, which sends nothing yet; the clients, the
  tests and the scripts. Allocation succeeds, but for the buffers of the network workers. Locks
  make the section they guard one step; where the sections of two threads interleave and it matters, in
  the worker pool and in call control, the interleaving is explicit. Records outside call control are
  values, so their freeing has no counterpart, except for the pointers whose stale value the code reads:
  the file list and the filters of a profile, and the parameters of a section.
\<close>

end
